(* ===== verification/Fax_Prelude.thy ===== *)
theory Fax_Prelude
  imports Main "HOL-Library.AList" "HOL-Library.Word" "HOL-Library.Sublist"
begin

text \<open>
  Shared vocabulary of the development: the parts of Go's standard library the program
  leans on (byte strings and their searching, splitting, trimming and case functions,
  \<open>strconv.Atoi\<close>, \<open>time.ParseDuration\<close>, the wrap-around of \<open>uint\<close> and \<open>int64\<close>
  arithmetic), the association lists that stand for Go maps and database tables, and two
  interfaces used by the components: a keyed store and an invariant of a step relation.

  Strings are byte lists, as in Go. Case conversion and case folding are those of ASCII.
  An instant is a count of nanoseconds since Go's zero time; a duration is a count of
  nanoseconds.
\<close>

section \<open>Types shared by the components\<close>

type_synonym time = int
type_synonym duration = int
type_synonym uuid = "128 word"
type_synonym event = "(string \<times> string) list"

abbreviation zero_time :: time where "zero_time \<equiv> 0"
abbreviation uuid_Nil :: uuid where "uuid_Nil \<equiv> 0"

abbreviation Second :: duration where "Second \<equiv> 1000000000"
abbreviation Minute :: duration where "Minute \<equiv> 60 * Second"
abbreviation Hour :: duration where "Hour \<equiv> 60 * Minute"

named_theorems fax_defs \<open>operations of the model, unfolded one level\<close>

section \<open>Definitions\<close>

subsection \<open>Machine integers\<close>

text \<open>\<open>uint(n)\<close> of a Go \<open>int\<close>, and the wrap-around of signed 64-bit multiplication.\<close>

definition uint_of :: "int \<Rightarrow> nat" where
  "uint_of n = nat (n mod 2 ^ 64)"

definition wrap64 :: "int \<Rightarrow> int" where
  "wrap64 x = (x + 2 ^ 63) mod 2 ^ 64 - 2 ^ 63"

text \<open>\<open>t.Sub(u)\<close>: the difference of two instants, saturating at the bounds of \<open>int64\<close>.\<close>

definition time_sub :: "time \<Rightarrow> time \<Rightarrow> duration" where
  "time_sub t u = max (- (2 ^ 63)) (min (2 ^ 63 - 1) (t - u))"

subsection \<open>Byte strings\<close>

definition has_prefix :: "string \<Rightarrow> string \<Rightarrow> bool" where
  "has_prefix s p \<longleftrightarrow> take (length p) s = p"

fun contains_sub :: "string \<Rightarrow> string \<Rightarrow> bool" where
  "contains_sub [] p \<longleftrightarrow> p = []"
| "contains_sub (c # s) p \<longleftrightarrow> has_prefix (c # s) p \<or> contains_sub s p"

text \<open>\<open>strings.Split(s, c)\<close> for a one-byte separator: never the empty list.\<close>

fun split_on :: "char \<Rightarrow> string \<Rightarrow> string list" where
  "split_on c [] = [[]]"
| "split_on c (x # s) =
     (if x = c then [] # split_on c s
      else (case split_on c s of [] \<Rightarrow> [[x]] | p # ps \<Rightarrow> (x # p) # ps))"

text \<open>\<open>strings.Split(s, c)[0]\<close>, the part of \<open>s\<close> before the first separator.\<close>

definition before_sep :: "char \<Rightarrow> string \<Rightarrow> string" where
  "before_sep c s = hd (split_on c s)"

text \<open>\<open>strings.SplitN(s, c, 2)\<close> when it has two parts.\<close>

fun split2 :: "char \<Rightarrow> string \<Rightarrow> (string \<times> string) option" where
  "split2 c [] = None"
| "split2 c (x # s) =
     (if x = c then Some ([], s)
      else map_option (\<lambda>(a, b). (x # a, b)) (split2 c s))"

definition lower_char :: "char \<Rightarrow> char" where
  "lower_char c = (let n = of_char c :: nat in
     if 65 \<le> n \<and> n \<le> 90 then char_of (n + 32) else c)"

definition upper_char :: "char \<Rightarrow> char" where
  "upper_char c = (let n = of_char c :: nat in
     if 97 \<le> n \<and> n \<le> 122 then char_of (n - 32) else c)"

definition to_lower :: "string \<Rightarrow> string" where "to_lower = map lower_char"
definition to_upper :: "string \<Rightarrow> string" where "to_upper = map upper_char"

definition equal_fold :: "string \<Rightarrow> string \<Rightarrow> bool" where
  "equal_fold s t \<longleftrightarrow> to_lower s = to_lower t"

text \<open>The ASCII white space \<open>strings.TrimSpace\<close> removes, and the UTF-8 encodings of U+0085
  and U+00A0, the two other white-space runes of the Latin-1 range.\<close>

definition space_codes :: "string list" where
  "space_codes = [[CHR 0x09], [CHR 0x0A], [CHR 0x0B], [CHR 0x0C], [CHR 0x0D], [CHR 0x20],
     [CHR 0xC2, CHR 0x85], [CHR 0xC2, CHR 0xA0]]"

fun trim_left :: "string \<Rightarrow> string" where
  "trim_left [] = []"
| "trim_left (c # s) =
     (if [c] \<in> set space_codes then trim_left s
      else case s of
        [] \<Rightarrow> [c]
      | d # t \<Rightarrow> if [c, d] \<in> set space_codes then trim_left t else c # s)"

fun trim_rev :: "string \<Rightarrow> string" where
  "trim_rev [] = []"
| "trim_rev (c # s) =
     (if [c] \<in> set space_codes then trim_rev s
      else case s of
        [] \<Rightarrow> [c]
      | d # t \<Rightarrow> if [d, c] \<in> set space_codes then trim_rev t else c # s)"

definition trim_space :: "string \<Rightarrow> string" where
  "trim_space s = rev (trim_rev (rev (trim_left s)))"

lemma trim_left_suffix: "suffix (trim_left s) s"
proof (induction s rule: trim_left.induct)
  case (2 c s)
  then show ?case
    by (cases s; cases "[c] \<in> set space_codes") (auto intro: suffix_ConsI)
qed simp

lemma trim_rev_suffix: "suffix (trim_rev s) s"
proof (induction s rule: trim_rev.induct)
  case (2 c s)
  then show ?case
    by (cases s; cases "[c] \<in> set space_codes") (auto intro: suffix_ConsI)
qed simp

lemma trim_left_idem [simp]: "trim_left (trim_left s) = trim_left s"
proof (induction s rule: trim_left.induct)
  case (2 c s)
  then show ?case
    by (cases s) simp_all
qed simp

lemma trim_rev_idem [simp]: "trim_rev (trim_rev s) = trim_rev s"
proof (induction s rule: trim_rev.induct)
  case (2 c s)
  then show ?case
    by (cases s) simp_all
qed simp

lemma trim_left_prefix: "trim_left s = s \<Longrightarrow> prefix p s \<Longrightarrow> trim_left p = p"
proof -
  assume s: "trim_left s = s" and p: "prefix p s"
  have no: "trim_left t \<noteq> c # u" if "suffix t u" for c t u
    using suffix_length_le [OF trim_left_suffix [of t]] suffix_length_le [OF that] by auto
  show ?thesis
  proof (cases p)
    case (Cons c q)
    then obtain u where u: "s = c # u" "prefix q u"
      using p by (cases s) auto
    have c: "[c] \<notin> set space_codes"
      using s no [of u u c] unfolding u by auto
    show ?thesis
    proof (cases q)
      case c2: (Cons d r)
      then obtain v where v: "u = d # v"
        using u by (cases u) auto
      have "[c, d] \<notin> set space_codes"
        using s no [of v "d # v" c] c unfolding u v by (auto simp: suffix_Cons)
      then show ?thesis
        using c unfolding Cons c2 by simp
    qed (use c Cons in simp)
  qed simp
qed

lemma trim_space_prefix: "prefix (trim_space s) (trim_left s)"
  using trim_rev_suffix [of "rev (trim_left s)"] by (simp add: trim_space_def suffix_to_prefix)

lemma trim_space_idem [simp]: "trim_space (trim_space s) = trim_space s"
proof -
  have "trim_left (trim_space s) = trim_space s"
    by (rule trim_left_prefix [OF _ trim_space_prefix]) simp
  then show ?thesis
    by (simp add: trim_space_def)
qed

subsection \<open>Numbers in strings\<close>

definition is_digit :: "char \<Rightarrow> bool" where
  "is_digit c \<longleftrightarrow> (let n = of_char c :: nat in 48 \<le> n \<and> n \<le> 57)"

definition digit_val :: "char \<Rightarrow> nat" where
  "digit_val c = of_char c - 48"

fun digits_val :: "nat \<Rightarrow> string \<Rightarrow> nat" where
  "digits_val acc [] = acc"
| "digits_val acc (c # s) = digits_val (10 * acc + digit_val c) s"

definition parse_digits :: "string \<Rightarrow> nat option" where
  "parse_digits s = (if s \<noteq> [] \<and> list_all is_digit s then Some (digits_val 0 s) else None)"

text \<open>\<open>strconv.Atoi\<close>: an optional sign, at least one digit, and a value in the range of
  \<open>int64\<close>.\<close>

definition atoi :: "string \<Rightarrow> int option" where
  "atoi s = (case s of
      [] \<Rightarrow> None
    | c # t \<Rightarrow>
        if c = CHR ''-'' then
          (case parse_digits t of None \<Rightarrow> None
           | Some n \<Rightarrow> if n \<le> 2 ^ 63 then Some (- int n) else None)
        else
          (case parse_digits (if c = CHR ''+'' then t else s) of None \<Rightarrow> None
           | Some n \<Rightarrow> if n < 2 ^ 63 then Some (int n) else None))"

fun itoa :: "nat \<Rightarrow> string" where
  "itoa n = (if n < 10 then [char_of (48 + n)] else itoa (n div 10) @ [char_of (48 + n mod 10)])"

declare itoa.simps [simp del]

text \<open>\<open>time.ParseDuration\<close>: a sign, then \<open>0\<close> or one or more groups of a decimal number with
  an optional fraction and a unit. The fraction is truncated to whole nanoseconds.\<close>

definition unit_ns :: "string \<Rightarrow> nat option" where
  "unit_ns u = (if u = ''ns'' then Some 1
     else if u = ''us'' \<or> u = [CHR 0xC2, CHR 0xB5] @ ''s'' \<or> u = [CHR 0xCE, CHR 0xBC] @ ''s'' then Some 1000
     else if u = ''ms'' then Some 1000000
     else if u = ''s'' then Some 1000000000
     else if u = ''m'' then Some 60000000000
     else if u = ''h'' then Some 3600000000000
     else None)"

definition duration_group :: "string \<Rightarrow> (nat \<times> string) option" where
  "duration_group s =
    (let whole = takeWhile is_digit s;
         r1 = dropWhile is_digit s;
         dotted = (r1 \<noteq> [] \<and> hd r1 = CHR ''.'');
         frac = (if dotted then takeWhile is_digit (tl r1) else []);
         r2 = (if dotted then dropWhile is_digit (tl r1) else r1);
         u = takeWhile (\<lambda>c. c \<noteq> CHR ''.'' \<and> \<not> is_digit c) r2;
         r3 = dropWhile (\<lambda>c. c \<noteq> CHR ''.'' \<and> \<not> is_digit c) r2
     in if whole = [] \<and> frac = [] then None
        else case unit_ns u of None \<Rightarrow> None
        | Some k \<Rightarrow> Some (digits_val 0 whole * k + digits_val 0 frac * k div 10 ^ length frac, r3))"

fun duration_groups :: "nat \<Rightarrow> nat \<Rightarrow> string \<Rightarrow> nat option" where
  "duration_groups fuel acc [] = Some acc"
| "duration_groups 0 acc (c # s) = None"
| "duration_groups (Suc fuel) acc (c # s) =
     (case duration_group (c # s) of None \<Rightarrow> None
      | Some (n, r) \<Rightarrow> duration_groups fuel (acc + n) r)"

definition parse_duration :: "string \<Rightarrow> duration option" where
  "parse_duration s =
    (let neg = (s \<noteq> [] \<and> hd s = CHR ''-'');
         t = (if s \<noteq> [] \<and> (hd s = CHR ''-'' \<or> hd s = CHR ''+'') then tl s else s)
     in if t = ''0'' then Some 0
        else if t = [] then None
        else case duration_groups (length t) 0 t of None \<Rightarrow> None
        | Some n \<Rightarrow>
            if neg then (if n \<le> 2 ^ 63 then Some (- int n) else None)
            else (if n < 2 ^ 63 then Some (int n) else None))"

subsection \<open>Options, maps and events\<close>

definition boolOrDefault :: "bool option \<Rightarrow> bool \<Rightarrow> bool" where
  "boolOrDefault p def = (case p of None \<Rightarrow> def | Some b \<Rightarrow> b)"

text \<open>\<open>ev.Get(key)\<close>: the header's value, or the empty string.\<close>

definition ev_get :: "event \<Rightarrow> string \<Rightarrow> string" where
  "ev_get ev k = (case map_of ev k of None \<Rightarrow> [] | Some v \<Rightarrow> v)"

text \<open>Reading a Go map of slices or counters: a missing key gives the zero value.\<close>

definition get_or :: "'v \<Rightarrow> ('k \<times> 'v) list \<Rightarrow> 'k \<Rightarrow> 'v" where
  "get_or d m k = (case map_of m k of None \<Rightarrow> d | Some v \<Rightarrow> v)"

definition dom_list :: "('k \<times> 'v) list \<Rightarrow> 'k set" where
  "dom_list m = fst ` set m"

text \<open>\<open>sort.SliceStable\<close> with a comparison function, as an insertion sort: equal elements keep
  their order.\<close>

fun insort_by :: "('a \<Rightarrow> 'a \<Rightarrow> bool) \<Rightarrow> 'a \<Rightarrow> 'a list \<Rightarrow> 'a list" where
  "insort_by lt x [] = [x]"
| "insort_by lt x (y # ys) = (if lt y x then y # insort_by lt x ys else x # y # ys)"

definition stable_sort :: "('a \<Rightarrow> 'a \<Rightarrow> bool) \<Rightarrow> 'a list \<Rightarrow> 'a list" where
  "stable_sort lt xs = foldr (insort_by lt) xs []"

text \<open>The absence of database faults, for any set of operations.\<close>

definition no_faults :: "'op \<Rightarrow> bool" where
  "no_faults op \<longleftrightarrow> False"

text \<open>The first contribution along a list.\<close>

fun first_hit :: "('a \<Rightarrow> 'b option) \<Rightarrow> 'a list \<Rightarrow> 'b option" where
  "first_hit f [] = None"
| "first_hit f (x # xs) = (case f x of None \<Rightarrow> first_hit f xs | Some y \<Rightarrow> Some y)"

text \<open>The states a step relation reaches from a start state.\<close>

inductive reach :: "('s \<Rightarrow> 's \<Rightarrow> bool) \<Rightarrow> 's \<Rightarrow> 's \<Rightarrow> bool" for R s0 where
  reach_start: "reach R s0 s0"
| reach_step: "reach R s0 s \<Longrightarrow> R s t \<Longrightarrow> reach R s0 t"


section \<open>Lemmas\<close>

subsection \<open>Integers\<close>

lemma uint_of_less: "uint_of n < 2 ^ 64"
  by (simp add: uint_of_def nat_less_iff)

lemma uint_of_int [simp]: "n < 2 ^ 64 \<Longrightarrow> uint_of (int n) = n"
  by (simp add: uint_of_def nat_mod_distrib flip: of_nat_power)

lemma wrap64_bounds: "- (2 ^ 63) \<le> wrap64 x" "wrap64 x < 2 ^ 63"
  by (simp_all add: wrap64_def)

lemma wrap64_id [simp]: "- (2 ^ 63) \<le> x \<Longrightarrow> x < 2 ^ 63 \<Longrightarrow> wrap64 x = x"
  by (simp add: wrap64_def)

subsection \<open>Strings\<close>

lemma split_on_nonempty [simp]: "split_on c s \<noteq> []"
  by (induction s) (auto split: list.splits)

lemma before_sep_takeWhile: "before_sep c s = takeWhile (\<lambda>x. x \<noteq> c) s"
proof (induction s)
  case (Cons x s)
  then show ?case
    by (cases "split_on c s") (auto simp: before_sep_def)
qed (simp add: before_sep_def)

lemma before_sep_append [simp]: "c \<notin> set a \<Longrightarrow> before_sep c (a @ c # b) = a"
  by (auto simp: before_sep_takeWhile takeWhile_tail)

lemma before_sep_idem [simp]: "c \<notin> set a \<Longrightarrow> before_sep c a = a"
  by (auto simp: before_sep_takeWhile takeWhile_eq_all_conv)

lemma split2_Some_iff: "split2 c s = Some (a, b) \<longleftrightarrow> s = a @ c # b \<and> c \<notin> set a"
proof (induction s arbitrary: a)
  case (Cons x s)
  show ?case
  proof (cases a)
    case Nil
    then show ?thesis by (auto split: option.splits)
  next
    case (Cons y a')
    then show ?thesis using Cons.IH [of a'] by auto
  qed
qed simp

lemma split2_None_iff: "split2 c s = None \<longleftrightarrow> c \<notin> set s"
  by (induction s) auto

lemma equal_fold_refl [simp]: "equal_fold s s"
  by (simp add: equal_fold_def)

lemma equal_fold_sym: "equal_fold s t \<Longrightarrow> equal_fold t s"
  by (simp add: equal_fold_def)

lemma equal_fold_trans: "equal_fold s t \<Longrightarrow> equal_fold t u \<Longrightarrow> equal_fold s u"
  by (simp add: equal_fold_def)

subsection \<open>Decimal numbers\<close>

lemma is_digit_char_of [simp]: "(n :: nat) < 10 \<Longrightarrow> is_digit (char_of (48 + n))"
  by (simp add: is_digit_def)

lemma digit_val_char_of [simp]: "(n :: nat) < 10 \<Longrightarrow> digit_val (char_of (48 + n)) = n"
  by (simp add: digit_val_def)

lemma digits_val_append: "digits_val acc (s @ t) = digits_val (digits_val acc s) t"
  by (induction s arbitrary: acc) auto

lemma itoa_digits: "list_all is_digit (itoa n)"
proof (induction n rule: itoa.induct)
  case (1 n)
  then show ?case by (subst itoa.simps) auto
qed

lemma itoa_nonempty [simp]: "itoa n \<noteq> []"
  by (subst itoa.simps) simp

lemma digits_val_itoa: "digits_val 0 (itoa n) = n"
proof (induction n rule: itoa.induct)
  case (1 n)
  then show ?case by (subst itoa.simps) (auto simp: digits_val_append)
qed

lemma parse_digits_itoa [simp]: "parse_digits (itoa n) = Some n"
  by (simp add: parse_digits_def itoa_digits digits_val_itoa)

lemma itoa_not_in: "\<not> is_digit c \<Longrightarrow> c \<notin> set (itoa n)"
  using itoa_digits [of n] by (auto simp: list_all_iff)

lemma atoi_itoa: "n < 2 ^ 63 \<Longrightarrow> atoi (itoa n) = Some (int n)"
proof -
  assume n: "n < 2 ^ 63"
  obtain c s where cs: "itoa n = c # s"
    by (cases "itoa n") auto
  have "is_digit c"
    using itoa_digits [of n] cs by simp
  then have "c \<noteq> CHR ''-''" "c \<noteq> CHR ''+''"
    by (auto simp: is_digit_def)
  with n cs show ?thesis
    using parse_digits_itoa [of n] by (simp add: atoi_def)
qed

lemma atoi_range: "atoi s = Some n \<Longrightarrow> - (2 ^ 63) \<le> n \<and> n < 2 ^ 63"
  by (auto simp: atoi_def split: list.splits if_splits option.splits)

subsection \<open>The fuel of the duration parser is enough\<close>

lemma unit_ns_Nil [simp]: "unit_ns [] = None"
  by (simp add: unit_ns_def)

lemma duration_group_shorter:
  assumes "duration_group s = Some (n, r)"
  shows "length r < length s"
proof -
  let ?P = "\<lambda>c. c \<noteq> CHR ''.'' \<and> \<not> is_digit c"
  define r1 where "r1 = dropWhile is_digit s"
  define r2 where "r2 = (if r1 \<noteq> [] \<and> hd r1 = CHR ''.'' then dropWhile is_digit (tl r1) else r1)"
  define u where "u = takeWhile ?P r2"
  have "length r1 \<le> length s"
    by (simp add: r1_def length_dropWhile_le)
  moreover have "length r2 \<le> length r1"
    using length_dropWhile_le [of is_digit "tl r1"] by (auto simp: r2_def)
  moreover have r: "r = dropWhile ?P r2" and "unit_ns u \<noteq> None"
    using assms unfolding duration_group_def Let_def r1_def [symmetric] r2_def [symmetric] u_def [symmetric]
    by (simp_all split: option.splits if_split_asm)
  then have "u \<noteq> []"
    by auto
  moreover have "length r2 = length u + length r"
    by (simp add: r u_def flip: length_append)
  ultimately show ?thesis
    by (cases u) auto
qed

lemma duration_groups_fuel:
  "length s \<le> fuel \<Longrightarrow> length s \<le> fuel' \<Longrightarrow>
   duration_groups fuel acc s = duration_groups fuel' acc s"
proof (induction fuel acc s arbitrary: fuel' rule: duration_groups.induct)
  case (3 fuel acc c s)
  then obtain f where f: "fuel' = Suc f"
    by (cases fuel') auto
  show ?case
  proof (cases "duration_group (c # s)")
    case (Some p)
    then obtain n r where p: "duration_group (c # s) = Some (n, r)"
      by (cases p) auto
    have "length r \<le> fuel" "length r \<le> f"
      using duration_group_shorter [OF p] "3.prems" f by auto
    then show ?thesis
      using "3.IH" [OF p refl, of f] p f by simp
  qed (simp add: f)
qed auto

subsection \<open>Go maps as association lists\<close>

lemma get_or_update [simp]:
  "get_or d (AList.update k v m) k' = (if k' = k then v else get_or d m k')"
  by (simp add: get_or_def update_conv')

lemma get_or_delete [simp]:
  "get_or d (AList.delete k m) k' = (if k' = k then d else get_or d m k')"
  by (simp add: get_or_def delete_conv')

lemma dom_list_map_of: "dom_list m = dom (map_of m)"
  by (simp add: dom_list_def dom_map_of_conv_image_fst)

lemma length_update_new:
  "map_of m k = None \<Longrightarrow> length (AList.update k v m) = Suc (length m)"
  by (induction m) (auto split: if_splits)

lemma length_update_old:
  "map_of m k \<noteq> None \<Longrightarrow> length (AList.update k v m) = length m"
  by (induction m) (auto split: if_splits)

lemma length_delete_old:
  "distinct (map fst m) \<Longrightarrow> map_of m k \<noteq> None \<Longrightarrow>
   Suc (length (AList.delete k m)) = length m"
proof (induction m)
  case (Cons p m)
  then show ?case
    by (cases p) (auto split: if_splits)
qed simp

text \<open>
  The interface of a Go map or of a table with a unique key: a lookup after a write or a
  delete. The trackers and caches of the program rely on it and on nothing else.
\<close>

locale keyed_store =
  fixes lookup :: "'m \<Rightarrow> 'k \<Rightarrow> 'v option"
    and update :: "'k \<Rightarrow> 'v \<Rightarrow> 'm \<Rightarrow> 'm"
    and delete :: "'k \<Rightarrow> 'm \<Rightarrow> 'm"
    and size_of :: "'m \<Rightarrow> nat"
    and invar :: "'m \<Rightarrow> bool"
  assumes lookup_update: "invar m \<Longrightarrow> lookup (update k v m) = (lookup m)(k \<mapsto> v)"
    and lookup_delete: "invar m \<Longrightarrow> lookup (delete k m) = (lookup m)(k := None)"
    and invar_update: "invar m \<Longrightarrow> invar (update k v m)"
    and invar_delete: "invar m \<Longrightarrow> invar (delete k m)"
    and size_update: "invar m \<Longrightarrow>
      size_of (update k v m) = (if lookup m k = None then Suc (size_of m) else size_of m)"
    and size_delete: "invar m \<Longrightarrow>
      size_of (delete k m) = (if lookup m k = None then size_of m else size_of m - 1)"
begin

lemma delete_update:
  "invar m \<Longrightarrow> lookup (delete k (update k v m)) = (lookup m)(k := None)"
  by (simp add: lookup_update lookup_delete invar_update)

lemma size_delete_update:
  "invar m \<Longrightarrow> lookup m k = None \<Longrightarrow> size_of (delete k (update k v m)) = size_of m"
  by (simp add: size_delete size_update invar_update lookup_update)

end

interpretation gomap: keyed_store map_of AList.update AList.delete length
  "\<lambda>m. distinct (map fst m)"
proof unfold_locales
  fix m :: "('a \<times> 'b) list" and k v
  assume d: "distinct (map fst m)"
  show "map_of (AList.update k v m) = (map_of m)(k \<mapsto> v)"
    by (rule update_conv')
  show "map_of (AList.delete k m) = (map_of m)(k := None)"
    by (rule delete_conv')
  show "distinct (map fst (AList.update k v m))"
    using d by (rule distinct_update)
  show "distinct (map fst (AList.delete k m))"
    using d by (rule distinct_delete)
  show "length (AList.update k v m) = (if map_of m k = None then Suc (length m) else length m)"
    by (simp add: length_update_new length_update_old)
  show "length (AList.delete k m) = (if map_of m k = None then length m else length m - 1)"
    using length_delete_old [OF d, of k]
    by (cases "map_of m k") (auto simp: map_of_eq_None_iff)
qed

subsection \<open>Invariants of step relations\<close>

text \<open>An invariant: it holds at the start and every step keeps it.\<close>

locale step_invariant =
  fixes R :: "'s \<Rightarrow> 's \<Rightarrow> bool" and start :: 's and holds :: "'s \<Rightarrow> bool"
  assumes holds_start: "holds start"
    and holds_step: "holds s \<Longrightarrow> R s t \<Longrightarrow> holds t"
begin

lemma reach_holds: "reach R start s \<Longrightarrow> holds s"
  by (induction rule: reach.induct) (auto intro: holds_start holds_step)

end


text \<open>A merge: every step only moves a value up in a preorder. Then so does any sequence of
  steps.\<close>

locale merge_step =
  fixes le :: "'s \<Rightarrow> 's \<Rightarrow> bool" and step :: "'e \<Rightarrow> 's \<Rightarrow> 's"
  assumes le_refl: "le s s"
    and le_trans: "le s t \<Longrightarrow> le t u \<Longrightarrow> le s u"
    and le_step: "le s (step e s)"
begin

lemma fold_le: "le s (fold step es s)"
proof (induction es arbitrary: s)
  case (Cons e es)
  then show ?case by (simp, blast intro: le_trans le_step)
qed (simp add: le_refl)

lemma fold_le_append: "le (fold step es s) (fold step (es @ es') s)"
  by (simp add: fold_le)

end

lemma fold_frame: "(\<And>e s. p (step e s) = p s) \<Longrightarrow> p (fold step es s) = p s"
  by (induction es arbitrary: s) auto


subsection \<open>Sorting and the first match\<close>

lemma stable_sort_key:
  fixes k :: "'a \<Rightarrow> 'b :: linorder"
  assumes "\<And>x y. lt x y \<longleftrightarrow> k x < k y"
  shows "stable_sort lt xs = sort_key k xs"
proof -
  have "insort_by lt x ys = insort_key k x ys" for x ys
    by (induction ys) (auto simp: assms)
  then have "insort_by lt = insort_key k"
    by (intro ext)
  then show ?thesis
    by (simp add: stable_sort_def sort_key_def)
qed

lemma set_stable_sort [simp]: "set (stable_sort lt xs) = set xs"
proof -
  have "set (insort_by lt x ys) = insert x (set ys)" for x ys
    by (induction ys) auto
  then show ?thesis
    unfolding stable_sort_def by (induction xs) auto
qed

lemma first_hit_None: "first_hit f xs = None \<longleftrightarrow> (\<forall>x \<in> set xs. f x = None)"
  by (induction xs) (auto split: option.splits)

text \<open>Along a list sorted by a key, the first contribution is one of least key.\<close>

lemma first_hit_sorted:
  assumes "sorted (map k xs)" "first_hit f xs = Some v"
  shows "\<exists>x \<in> set xs. f x = Some v \<and> (\<forall>y \<in> set xs. f y \<noteq> None \<longrightarrow> k x \<le> k y)"
  using assms
proof (induction xs)
  case (Cons x xs)
  then show ?case
    by (cases "f x") auto
qed simp

lemma first_hit_sort_key:
  assumes "first_hit f (sort_key k xs) = Some v"
  shows "\<exists>x \<in> set xs. f x = Some v \<and> (\<forall>y \<in> set xs. f y \<noteq> None \<longrightarrow> k x \<le> k y)"
  using first_hit_sorted [of k, OF _ assms] by simp

text \<open>
  An attribute of an accumulated value that the first contributing element decides: a step
  sets it when it is not yet set and never changes it afterwards.
\<close>

locale first_wins =
  fixes attr :: "'p \<Rightarrow> 'v option" and contrib :: "'r \<Rightarrow> 'v option" and step :: "'r \<Rightarrow> 'p \<Rightarrow> 'p"
  assumes step_attr: "attr (step r p) = (case attr p of None \<Rightarrow> contrib r | Some v \<Rightarrow> Some v)"
begin

lemma fold_attr:
  "attr (fold step rs p) = (case attr p of None \<Rightarrow> first_hit contrib rs | Some v \<Rightarrow> Some v)"
  by (induction rs arbitrary: p) (auto simp: step_attr split: option.splits)

lemma fold_attr_fresh: "attr p = None \<Longrightarrow> attr (fold step rs p) = first_hit contrib rs"
  by (simp add: fold_attr)

end

end
