(* ===== verification/Fax_Config.thy ===== *)
theory Fax_Config
  imports Fax_Prelude
begin

text \<open>
  The configuration the server reads (\<open>gofaxlib/config.go\<close>): the parts of the JSON
  configuration the modelled components use, and the accessor functions that put a default
  in the place of a missing or invalid entry. \<open>parseDurationSMHD\<close> is the \<open>ParseDuration\<close> of
  \<open>gofaxserver/utils.go\<close>, a smaller language than Go's.

  A pointer to bool is a \<open>bool option\<close>. Durations stay strings until they are used, as in the
  source.
\<close>

section \<open>Configuration records\<close>

record SecurityConfig =
  sc_Enabled :: bool
  sc_Backend :: string
  sc_FailThreshold :: int
  sc_FailWindow :: string
  sc_BanDurations :: "string list"
  sc_WhitelistCIDRs :: "string list"
  sc_JanitorSeconds :: int

record FaxPolicyConfig =
  pc_Enabled :: "bool option"
  pc_LearnEnabled :: "bool option"
  pc_T38FailureThreshold :: int
  pc_ECMFailureThreshold :: int
  pc_V17FailureThreshold :: int
  pc_RecoverySuccesses :: int
  pc_AutoRuleTTL :: string
  pc_PairStateTTL :: string
  pc_RetryChainEscalation :: "bool option"
  pc_BridgeLearn :: "bool option"

record FaxingConfig =
  cf_EnableT38 :: bool
  cf_RequestT38 :: bool
  cf_DisableV17AfterRetry :: string
  cf_DisableECMAfterRetry :: string
  cf_FailedResponse :: "string list"
  cf_FailedResponseMap :: "(string \<times> bool) list"
  cf_RetryDelay :: string
  cf_RetryAttempts :: string
  cf_EnableImageResizing :: "bool option"
  cf_RTPJitterBuffer :: "bool option"
  cf_RTPJitterBufferMsec :: string
  cf_RTPJitterBufferDuringBridge :: "bool option"
  cf_Policy :: FaxPolicyConfig
  cf_Verbose :: bool
  cf_PortalURL :: string
  cf_PortalAPIKey :: string

text \<open>The configuration an empty file gives: Go zero values everywhere.\<close>

definition zero_FaxPolicyConfig :: FaxPolicyConfig where
  "zero_FaxPolicyConfig = \<lparr>pc_Enabled = None, pc_LearnEnabled = None, pc_T38FailureThreshold = 0,
     pc_ECMFailureThreshold = 0, pc_V17FailureThreshold = 0, pc_RecoverySuccesses = 0,
     pc_AutoRuleTTL = [], pc_PairStateTTL = [], pc_RetryChainEscalation = None,
     pc_BridgeLearn = None\<rparr>"

definition zero_FaxingConfig :: FaxingConfig where
  "zero_FaxingConfig = \<lparr>cf_EnableT38 = False, cf_RequestT38 = False, cf_DisableV17AfterRetry = [],
     cf_DisableECMAfterRetry = [], cf_FailedResponse = [], cf_FailedResponseMap = [],
     cf_RetryDelay = [], cf_RetryAttempts = [], cf_EnableImageResizing = None,
     cf_RTPJitterBuffer = None, cf_RTPJitterBufferMsec = [], cf_RTPJitterBufferDuringBridge = None,
     cf_Policy = zero_FaxPolicyConfig, cf_Verbose = False, cf_PortalURL = [], cf_PortalAPIKey = []\<rparr>"

section \<open>Accessors\<close>

subsection \<open>Security\<close>

definition BackendName :: "SecurityConfig \<Rightarrow> string" where
  "BackendName c =
     (if sc_Backend c \<in> {''nft'', ''ipset'', ''log-only''} then sc_Backend c else ''nft'')"

definition Threshold :: "SecurityConfig \<Rightarrow> int" where
  "Threshold c = (if sc_FailThreshold c > 0 then sc_FailThreshold c else 5)"

definition Window :: "SecurityConfig \<Rightarrow> duration" where
  "Window c = (case parse_duration (sc_FailWindow c) of
      Some d \<Rightarrow> if d > 0 then d else Minute
    | None \<Rightarrow> Minute)"

definition default_durations :: "duration list" where
  "default_durations = [10 * Minute, Hour, 24 * Hour]"

fun collect_durations :: "string list \<Rightarrow> duration list" where
  "collect_durations [] = []"
| "collect_durations (s # ss) =
     (case parse_duration s of
        Some d \<Rightarrow> if d > 0 then d # collect_durations ss else collect_durations ss
      | None \<Rightarrow> collect_durations ss)"

definition Durations :: "SecurityConfig \<Rightarrow> duration list" where
  "Durations c =
     (if sc_BanDurations c = [] then default_durations
      else let out = collect_durations (sc_BanDurations c)
           in if out = [] then default_durations else out)"

definition JanitorInterval :: "SecurityConfig \<Rightarrow> duration" where
  "JanitorInterval c =
     (if sc_JanitorSeconds c > 0 then wrap64 (sc_JanitorSeconds c * Second) else Minute)"

subsection \<open>Fax policy\<close>

definition PolicyEnabled :: "FaxPolicyConfig \<Rightarrow> bool" where
  "PolicyEnabled c = boolOrDefault (pc_Enabled c) True"

definition LearningEnabled :: "FaxPolicyConfig \<Rightarrow> bool" where
  "LearningEnabled c = boolOrDefault (pc_LearnEnabled c) True"

definition RetryChainEnabled :: "FaxPolicyConfig \<Rightarrow> bool" where
  "RetryChainEnabled c = boolOrDefault (pc_RetryChainEscalation c) True"

definition BridgeLearnEnabled :: "FaxPolicyConfig \<Rightarrow> bool" where
  "BridgeLearnEnabled c = boolOrDefault (pc_BridgeLearn c) True"

definition T38Threshold :: "FaxPolicyConfig \<Rightarrow> int" where
  "T38Threshold c = (if pc_T38FailureThreshold c > 0 then pc_T38FailureThreshold c else 1)"

definition ECMThreshold :: "FaxPolicyConfig \<Rightarrow> int" where
  "ECMThreshold c = (if pc_ECMFailureThreshold c > 0 then pc_ECMFailureThreshold c else 2)"

definition V17Threshold :: "FaxPolicyConfig \<Rightarrow> int" where
  "V17Threshold c = (if pc_V17FailureThreshold c > 0 then pc_V17FailureThreshold c else 3)"

definition RecoveryThreshold :: "FaxPolicyConfig \<Rightarrow> int" where
  "RecoveryThreshold c = (if pc_RecoverySuccesses c > 0 then pc_RecoverySuccesses c else 3)"

definition autoRuleTTL :: "FaxPolicyConfig \<Rightarrow> duration" where
  "autoRuleTTL c = (case parse_duration (pc_AutoRuleTTL c) of
      Some d \<Rightarrow> if d > 0 then d else 720 * Hour
    | None \<Rightarrow> 720 * Hour)"

definition PairStateTTL :: "FaxPolicyConfig \<Rightarrow> duration" where
  "PairStateTTL c = (case parse_duration (pc_PairStateTTL c) of
      Some d \<Rightarrow> if d > 0 then d else 15 * Minute
    | None \<Rightarrow> 15 * Minute)"

subsection \<open>Faxing\<close>

text \<open>\<open>LoadConfig\<close> rebuilds the response map from the list after parsing; reading the file and
  the JSON is the caller's.\<close>

definition LoadConfig_responses :: "FaxingConfig \<Rightarrow> FaxingConfig" where
  "LoadConfig_responses c =
     c\<lparr>cf_FailedResponseMap := fold (\<lambda>v m. AList.update v True m) (cf_FailedResponse c) []\<rparr>"

definition FailedHangUpCause :: "FaxingConfig \<Rightarrow> string \<Rightarrow> bool" where
  "FailedHangUpCause c cause = get_or False (cf_FailedResponseMap c) cause"

definition ImageResizingEnabled :: "FaxingConfig \<Rightarrow> bool" where
  "ImageResizingEnabled c = boolOrDefault (cf_EnableImageResizing c) True"

definition RTPJitterBufferEnabled :: "FaxingConfig \<Rightarrow> bool" where
  "RTPJitterBufferEnabled c = boolOrDefault (cf_RTPJitterBuffer c) True"

definition RTPJitterBufferSpec :: "FaxingConfig \<Rightarrow> string" where
  "RTPJitterBufferSpec c =
     (let s = trim_space (cf_RTPJitterBufferMsec c) in if s \<noteq> [] then s else ''60:120'')"

definition RTPJitterBufferDuringBridgeEnabled :: "FaxingConfig \<Rightarrow> bool" where
  "RTPJitterBufferDuringBridgeEnabled c = boolOrDefault (cf_RTPJitterBufferDuringBridge c) True"

text \<open>\<open>ParseDuration\<close> of \<open>utils.go\<close>: digits and one of the units s, m, h, d. The product is
  an \<open>int64\<close> and wraps.\<close>

definition parseDurationSMHD :: "string \<Rightarrow> duration option" where
  "parseDurationSMHD s =
    (if s = [] then None
     else let ds = butlast s; u = last s in
       if ds = [] \<or> \<not> list_all is_digit ds then None
       else if u \<notin> {CHR ''s'', CHR ''m'', CHR ''h'', CHR ''d''} then None
       else case atoi ds of None \<Rightarrow> None
       | Some v \<Rightarrow>
          Some (wrap64 (v * (if u = CHR ''s'' then Second
                             else if u = CHR ''m'' then Minute
                             else if u = CHR ''h'' then Hour
                             else 24 * Hour))))"

lemmas config_defs =
  PolicyEnabled_def LearningEnabled_def RetryChainEnabled_def BridgeLearnEnabled_def
  T38Threshold_def ECMThreshold_def V17Threshold_def RecoveryThreshold_def boolOrDefault_def

section \<open>Every accessor returns a usable value\<close>

lemma Threshold_pos [simp]: "0 < Threshold c"
  by (simp add: Threshold_def)

lemma Window_pos [simp]: "0 < Window c"
  by (simp add: Window_def split: option.split)

lemma collect_durations_pos: "d \<in> set (collect_durations ss) \<Longrightarrow> 0 < d"
  by (induction ss) (auto split: option.splits if_splits)

lemma Durations_nonempty [simp]: "Durations c \<noteq> []"
  by (simp add: Durations_def default_durations_def Let_def)

lemma Durations_pos: "d \<in> set (Durations c) \<Longrightarrow> 0 < d"
  by (auto simp: Durations_def default_durations_def Let_def collect_durations_pos split: if_splits)

lemma BackendName_known [simp]: "BackendName c \<in> {''nft'', ''ipset'', ''log-only''}"
  by (simp add: BackendName_def)

lemma policy_thresholds_pos [simp]:
  "0 < T38Threshold c" "0 < ECMThreshold c" "0 < V17Threshold c" "0 < RecoveryThreshold c"
  by (simp_all add: config_defs)

lemma autoRuleTTL_pos [simp]: "0 < autoRuleTTL c"
  by (simp add: autoRuleTTL_def split: option.split)

lemma PairStateTTL_pos [simp]: "0 < PairStateTTL c"
  by (simp add: PairStateTTL_def split: option.split)

lemma fold_update_True:
  "map_of (fold (\<lambda>v m. AList.update v True m) vs m) k =
     (if k \<in> set vs then Some True else map_of m k)"
  by (induction vs arbitrary: m) (auto simp: update_conv')

lemma FailedHangUpCause_loaded:
  "FailedHangUpCause (LoadConfig_responses c) cause \<longleftrightarrow> cause \<in> set (cf_FailedResponse c)"
  by (simp add: FailedHangUpCause_def LoadConfig_responses_def get_or_def fold_update_True)

text \<open>A value with a unit is accepted as it is written as long as the product fits.\<close>

lemma parseDurationSMHD_seconds:
  assumes "n * 1000000000 < 2 ^ 63"
  shows "parseDurationSMHD (itoa n @ ''s'') = Some (int n * Second)"
proof -
  have "n < 2 ^ 63"
    using assms by linarith
  moreover have "int n * Second < 2 ^ 63"
    using assms by simp
  ultimately show ?thesis
    by (simp add: parseDurationSMHD_def Let_def itoa_digits atoi_itoa)
qed

end
