(* ===== verification/Fax_Result.thy ===== *)
theory Fax_Result
  imports Fax_Prelude
begin

text \<open>
  The result of one call (\<open>gofaxlib/faxresult.go\<close>): the record FreeSWITCH events are merged
  into, the merge of each kind of event, the harvest of the fax result variables from the
  hangup dump, and the detection of T.38 in a bridged leg's final SDP. Logging is left out;
  \<open>now\<close> is the clock at the event.
\<close>

section \<open>Data\<close>

record Resolution =
  rs_X :: nat
  rs_Y :: nat

record PageResult =
  pg_Ts :: time
  pg_Page :: nat
  pg_BadRows :: nat
  pg_LongestBadRowRun :: nat
  pg_Encoding :: int
  pg_EncodingName :: string
  pg_ImagePixelSize :: Resolution
  pg_FilePixelSize :: Resolution
  pg_ImageResolution :: Resolution
  pg_FileResolution :: Resolution
  pg_ImageSize :: nat

record FaxResult =
  fr_UUID :: uuid
  fr_StartTs :: time
  fr_EndTs :: time
  fr_HangupCause :: string
  fr_TotalPages :: nat
  fr_TransferredPages :: nat
  fr_Ecm :: bool
  fr_EcmRequested :: bool
  fr_RemoteID :: string
  fr_LocalID :: string
  fr_ResultCode :: int
  fr_ResultText :: string
  fr_Success :: bool
  fr_TransferRate :: nat
  fr_NegotiateCount :: nat
  fr_T38Status :: string
  fr_V17Disabled :: bool
  fr_bridge :: bool
  fr_PageResults :: "PageResult list"
  fr_BadRows :: nat
  fr_LongestBadRowRun :: nat
  fr_Encoding :: int
  fr_EncodingName :: string
  fr_ImageSize :: nat
  fr_ImageResolution :: "Resolution option"
  fr_FileImageResolution :: "Resolution option"
  fr_ImagePixelSize :: "Resolution option"
  fr_FileImagePixelSize :: "Resolution option"
  fr_RemoteCountry :: string
  fr_RemoteVendor :: string
  fr_RemoteModel :: string
  fr_TraceFile :: string
  fr_ResultVars :: "(string \<times> string) list"
  fr_BridgeALegT38 :: string
  fr_BridgeBLegT38 :: string

definition no_resolution :: Resolution where
  "no_resolution = \<lparr>rs_X = 0, rs_Y = 0\<rparr>"

text \<open>Go's zero value \<open>FaxResult{}\<close>.\<close>

definition empty_FaxResult :: FaxResult where
  "empty_FaxResult = \<lparr>fr_UUID = uuid_Nil, fr_StartTs = zero_time, fr_EndTs = zero_time,
     fr_HangupCause = [], fr_TotalPages = 0, fr_TransferredPages = 0, fr_Ecm = False,
     fr_EcmRequested = False, fr_RemoteID = [], fr_LocalID = [], fr_ResultCode = 0,
     fr_ResultText = [], fr_Success = False, fr_TransferRate = 0, fr_NegotiateCount = 0,
     fr_T38Status = [], fr_V17Disabled = False, fr_bridge = False, fr_PageResults = [],
     fr_BadRows = 0, fr_LongestBadRowRun = 0, fr_Encoding = 0, fr_EncodingName = [],
     fr_ImageSize = 0, fr_ImageResolution = None, fr_FileImageResolution = None,
     fr_ImagePixelSize = None, fr_FileImagePixelSize = None, fr_RemoteCountry = [],
     fr_RemoteVendor = [], fr_RemoteModel = [], fr_TraceFile = [], fr_ResultVars = [],
     fr_BridgeALegT38 = [], fr_BridgeBLegT38 = []\<rparr>"

definition NewFaxResult :: "uuid \<Rightarrow> bool \<Rightarrow> FaxResult" where
  "NewFaxResult u b = empty_FaxResult\<lparr>fr_UUID := u, fr_bridge := b\<rparr>"

section \<open>Operations\<close>

definition Resolution_String :: "Resolution \<Rightarrow> string" where
  "Resolution_String r = itoa (rs_X r) @ CHR ''x'' # itoa (rs_Y r)"

definition parseResolution :: "string \<Rightarrow> Resolution option" where
  "parseResolution s = (case split2 (CHR ''x'') s of
      None \<Rightarrow> None
    | Some (a, b) \<Rightarrow>
       (case atoi a of None \<Rightarrow> None
        | Some x \<Rightarrow> (case atoi b of None \<Rightarrow> None
          | Some y \<Rightarrow> Some \<lparr>rs_X = uint_of x, rs_Y = uint_of y\<rparr>)))"

text \<open>The source's recurring shapes: set a field when a value parses, or when it is not
  empty.\<close>

definition on_int :: "string \<Rightarrow> (int \<Rightarrow> 'a \<Rightarrow> 'a) \<Rightarrow> 'a \<Rightarrow> 'a" where
  "on_int s upd f = (case atoi s of None \<Rightarrow> f | Some n \<Rightarrow> upd n f)"

definition on_res :: "string \<Rightarrow> (Resolution \<Rightarrow> 'a \<Rightarrow> 'a) \<Rightarrow> 'a \<Rightarrow> 'a" where
  "on_res s upd f = (case parseResolution s of None \<Rightarrow> f | Some r \<Rightarrow> upd r f)"

definition on_if :: "bool \<Rightarrow> ('a \<Rightarrow> 'a) \<Rightarrow> 'a \<Rightarrow> 'a" where
  "on_if b upd f = (if b then upd f else f)"

subsection \<open>Call state and negotiation\<close>

definition AddEvent_callstate :: "time \<Rightarrow> event \<Rightarrow> FaxResult \<Rightarrow> FaxResult" where
  "AddEvent_callstate now ev f =
    (let callstate = ev_get ev ''Channel-Call-State'';
         f1 = on_if (callstate = ''ACTIVE'') (fr_StartTs_update (\<lambda>_. now)) f
     in on_if (callstate = ''HANGUP'')
          (\<lambda>f. f\<lparr>fr_EndTs := now, fr_HangupCause := ev_get ev ''Hangup-Cause''\<rparr>) f1)"

definition AddEvent_negotiate :: "event \<Rightarrow> FaxResult \<Rightarrow> FaxResult" where
  "AddEvent_negotiate ev f0 =
    (let f1 = f0\<lparr>fr_NegotiateCount := (fr_NegotiateCount f0 + 1) mod 2 ^ 64\<rparr>;
         f2 = on_if (ev_get ev ''Fax-Ecm-Used'' = ''on'') (fr_Ecm_update (\<lambda>_. True)) f1;
         f3 = on_if (ev_get ev ''Variable_fax_ecm_requested'' = ''1'')
                (fr_EcmRequested_update (\<lambda>_. True)) f2;
         f4 = f3\<lparr>fr_RemoteID := ev_get ev ''Fax-Remote-Station-Id'',
                 fr_LocalID := ev_get ev ''Fax-Local-Station-Id'',
                 fr_T38Status := ev_get ev ''Fax-T38-Status''\<rparr>;
         f5 = on_if (ev_get ev ''Variable_fax_v17_disabled'' = ''1'')
                (fr_V17Disabled_update (\<lambda>_. True)) f4;
         country = ev_get ev ''Variable_fax_remote_country'';
         f6 = on_if (country \<noteq> []) (fr_RemoteCountry_update (\<lambda>_. country)) f5;
         vendor = ev_get ev ''Variable_fax_remote_vendor'';
         f7 = on_if (vendor \<noteq> []) (fr_RemoteVendor_update (\<lambda>_. vendor)) f6;
         model = ev_get ev ''Variable_fax_remote_model'';
         f8 = on_if (model \<noteq> []) (fr_RemoteModel_update (\<lambda>_. model)) f7
     in on_int (ev_get ev ''Fax-Transfer-Rate'') (\<lambda>n. fr_TransferRate_update (\<lambda>_. uint_of n)) f8)"

subsection \<open>Pages and the final result\<close>

definition new_PageResult :: PageResult where
  "new_PageResult = \<lparr>pg_Ts = zero_time, pg_Page = 0, pg_BadRows = 0, pg_LongestBadRowRun = 0,
     pg_Encoding = 0, pg_EncodingName = [], pg_ImagePixelSize = no_resolution,
     pg_FilePixelSize = no_resolution, pg_ImageResolution = no_resolution,
     pg_FileResolution = no_resolution, pg_ImageSize = 0\<rparr>"

definition page_of_event :: "time \<Rightarrow> event \<Rightarrow> nat \<Rightarrow> PageResult" where
  "page_of_event now ev page =
    (let p1 = new_PageResult\<lparr>pg_Page := page\<rparr>;
         p2 = on_int (ev_get ev ''Fax-Bad-Rows'') (\<lambda>n. pg_BadRows_update (\<lambda>_. uint_of n)) p1;
         p3 = p2\<lparr>pg_EncodingName := ev_get ev ''Fax-Encoding-Name''\<rparr>;
         p4 = on_int (ev_get ev ''Fax-Encoding'') (\<lambda>n. pg_Encoding_update (\<lambda>_. n)) p3;
         p5 = on_res (ev_get ev ''Fax-Image-Pixel-Size'') (\<lambda>r. pg_ImagePixelSize_update (\<lambda>_. r)) p4;
         p6 = on_res (ev_get ev ''Fax-File-Image-Pixel-Size'') (\<lambda>r. pg_FilePixelSize_update (\<lambda>_. r)) p5;
         p7 = on_res (ev_get ev ''Fax-Image-Resolution'') (\<lambda>r. pg_ImageResolution_update (\<lambda>_. r)) p6;
         p8 = on_res (ev_get ev ''Fax-File-Image-Resolution'') (\<lambda>r. pg_FileResolution_update (\<lambda>_. r)) p7;
         p9 = on_int (ev_get ev ''Fax-Image-Size'') (\<lambda>n. pg_ImageSize_update (\<lambda>_. uint_of n)) p8;
         p10 = on_int (ev_get ev ''Fax-Longest-Bad-Row-Run'')
                 (\<lambda>n. pg_LongestBadRowRun_update (\<lambda>_. uint_of n)) p9
     in p10\<lparr>pg_Ts := now\<rparr>)"

definition AddEvent_page :: "time \<Rightarrow> event \<Rightarrow> FaxResult \<Rightarrow> FaxResult" where
  "AddEvent_page now ev f =
    (let f1 = on_int (ev_get ev ''Fax-Document-Transferred-Pages'')
                (\<lambda>n. fr_TransferredPages_update (\<lambda>_. uint_of n)) f
     in f1\<lparr>fr_PageResults := fr_PageResults f1 @ [page_of_event now ev (fr_TransferredPages f1)]\<rparr>)"

definition AddEvent_result :: "event \<Rightarrow> FaxResult \<Rightarrow> FaxResult" where
  "AddEvent_result ev f0 =
    (let f1 = on_int (ev_get ev ''Fax-Document-Total-Pages'')
                (\<lambda>n. fr_TotalPages_update (\<lambda>_. uint_of n)) f0;
         f2 = on_int (ev_get ev ''Fax-Document-Transferred-Pages'')
                (\<lambda>n. fr_TransferredPages_update (\<lambda>_. uint_of n)) f1;
         f3 = on_if (ev_get ev ''Fax-Ecm-Used'' = ''on'') (fr_Ecm_update (\<lambda>_. True)) f2;
         f4 = f3\<lparr>fr_RemoteID := ev_get ev ''Fax-Remote-Station-Id''\<rparr>;
         f5 = on_int (ev_get ev ''Fax-Result-Code'') (\<lambda>n. fr_ResultCode_update (\<lambda>_. n)) f4;
         f6 = f5\<lparr>fr_ResultText := ev_get ev ''Fax-Result-Text''\<rparr>;
         f7 = on_if (ev_get ev ''Fax-Success'' = ''1'') (fr_Success_update (\<lambda>_. True)) f6;
         f8 = on_int (ev_get ev ''Fax-Transfer-Rate'') (\<lambda>n. fr_TransferRate_update (\<lambda>_. uint_of n)) f7;
         f9 = on_int (ev_get ev ''Fax-Bad-Rows'') (\<lambda>n. fr_BadRows_update (\<lambda>_. uint_of n)) f8;
         f10 = on_int (ev_get ev ''Fax-Longest-Bad-Row-Run'')
                 (\<lambda>n. fr_LongestBadRowRun_update (\<lambda>_. uint_of n)) f9;
         f11 = on_int (ev_get ev ''Fax-Encoding'') (\<lambda>n. fr_Encoding_update (\<lambda>_. n)) f10;
         encName = ev_get ev ''Fax-Encoding-Name'';
         f12 = on_if (encName \<noteq> []) (fr_EncodingName_update (\<lambda>_. encName)) f11;
         f13 = on_int (ev_get ev ''Fax-Image-Size'') (\<lambda>n. fr_ImageSize_update (\<lambda>_. uint_of n)) f12;
         f14 = on_res (ev_get ev ''Fax-Image-Resolution'')
                 (\<lambda>r. fr_ImageResolution_update (\<lambda>_. Some r)) f13;
         f15 = on_res (ev_get ev ''Fax-File-Image-Resolution'')
                 (\<lambda>r. fr_FileImageResolution_update (\<lambda>_. Some r)) f14;
         f16 = on_res (ev_get ev ''Fax-Image-Pixel-Size'')
                 (\<lambda>r. fr_ImagePixelSize_update (\<lambda>_. Some r)) f15
     in on_res (ev_get ev ''Fax-File-Image-Pixel-Size'')
          (\<lambda>r. fr_FileImagePixelSize_update (\<lambda>_. Some r)) f16)"

subsection \<open>The harvest of the result variables\<close>

definition faxResultVarNames :: "string list" where
  "faxResultVarNames = [''fax_success'', ''fax_result_code'', ''fax_result_text'', ''fax_filename'',
     ''fax_document_transferred_pages'', ''fax_document_total_pages'', ''fax_image_resolution'',
     ''fax_file_image_resolution'', ''fax_image_pixel_size'', ''fax_file_image_pixel_size'',
     ''fax_image_size'', ''fax_bad_rows'', ''fax_longest_bad_row_run'', ''fax_encoding'',
     ''fax_encoding_name'', ''fax_transfer_rate'', ''fax_ecm_used'', ''fax_ecm_requested'',
     ''fax_t38_status'', ''fax_v17_disabled'', ''fax_local_station_id'',
     ''fax_remote_station_id'', ''fax_remote_country'', ''fax_remote_vendor'',
     ''fax_remote_model'', ''fax_trace_file'']"

text \<open>The switch of the harvest loop, on one variable's name and value.\<close>

definition harvest_var :: "string \<Rightarrow> string \<Rightarrow> FaxResult \<Rightarrow> FaxResult" where
  "harvest_var name v f =
    (if name = ''fax_success'' then on_if (v = ''1'') (fr_Success_update (\<lambda>_. True)) f
     else if name = ''fax_result_code'' then on_int v (\<lambda>n. fr_ResultCode_update (\<lambda>_. n)) f
     else if name = ''fax_result_text'' then f\<lparr>fr_ResultText := v\<rparr>
     else if name = ''fax_document_transferred_pages'' then
       on_int v (\<lambda>n. fr_TransferredPages_update (\<lambda>_. uint_of n)) f
     else if name = ''fax_document_total_pages'' then
       on_int v (\<lambda>n. fr_TotalPages_update (\<lambda>_. uint_of n)) f
     else if name = ''fax_image_resolution'' then
       on_res v (\<lambda>r. fr_ImageResolution_update (\<lambda>_. Some r)) f
     else if name = ''fax_file_image_resolution'' then
       on_res v (\<lambda>r. fr_FileImageResolution_update (\<lambda>_. Some r)) f
     else if name = ''fax_image_pixel_size'' then
       on_res v (\<lambda>r. fr_ImagePixelSize_update (\<lambda>_. Some r)) f
     else if name = ''fax_file_image_pixel_size'' then
       on_res v (\<lambda>r. fr_FileImagePixelSize_update (\<lambda>_. Some r)) f
     else if name = ''fax_image_size'' then on_int v (\<lambda>n. fr_ImageSize_update (\<lambda>_. uint_of n)) f
     else if name = ''fax_bad_rows'' then on_int v (\<lambda>n. fr_BadRows_update (\<lambda>_. uint_of n)) f
     else if name = ''fax_longest_bad_row_run'' then
       on_int v (\<lambda>n. fr_LongestBadRowRun_update (\<lambda>_. uint_of n)) f
     else if name = ''fax_encoding'' then on_int v (\<lambda>n. fr_Encoding_update (\<lambda>_. n)) f
     else if name = ''fax_encoding_name'' then f\<lparr>fr_EncodingName := v\<rparr>
     else if name = ''fax_transfer_rate'' then on_int v (\<lambda>n. fr_TransferRate_update (\<lambda>_. uint_of n)) f
     else if name = ''fax_ecm_used'' then on_if (v = ''on'') (fr_Ecm_update (\<lambda>_. True)) f
     else if name = ''fax_ecm_requested'' then
       on_if (v = ''1'' \<or> v = ''true'') (fr_EcmRequested_update (\<lambda>_. True)) f
     else if name = ''fax_t38_status'' then
       on_if (fr_T38Status f = []) (fr_T38Status_update (\<lambda>_. v)) f
     else if name = ''fax_v17_disabled'' then on_if (v = ''1'') (fr_V17Disabled_update (\<lambda>_. True)) f
     else if name = ''fax_local_station_id'' then
       on_if (fr_LocalID f = []) (fr_LocalID_update (\<lambda>_. v)) f
     else if name = ''fax_remote_station_id'' then
       on_if (fr_RemoteID f = []) (fr_RemoteID_update (\<lambda>_. v)) f
     else if name = ''fax_remote_country'' then f\<lparr>fr_RemoteCountry := v\<rparr>
     else if name = ''fax_remote_vendor'' then f\<lparr>fr_RemoteVendor := v\<rparr>
     else if name = ''fax_remote_model'' then f\<lparr>fr_RemoteModel := v\<rparr>
     else if name = ''fax_trace_file'' then f\<lparr>fr_TraceFile := v\<rparr>
     else f)"

definition harvest_one :: "event \<Rightarrow> string \<Rightarrow> FaxResult \<Rightarrow> FaxResult" where
  "harvest_one ev name f =
    (let v = ev_get ev (''Variable_'' @ name)
     in if v = [] then f
        else harvest_var name v (f\<lparr>fr_ResultVars := AList.update name v (fr_ResultVars f)\<rparr>))"

definition harvestResultVars :: "event \<Rightarrow> FaxResult \<Rightarrow> FaxResult" where
  "harvestResultVars ev f = fold (harvest_one ev) faxResultVarNames f"

subsection \<open>T.38 on a bridged leg\<close>

definition t38_line :: "string \<Rightarrow> bool" where
  "t38_line raw =
    (let line = to_lower (trim_space raw)
     in has_prefix line ''m=image'' \<and> (contains_sub line ''udptl'' \<or> contains_sub line ''t38''))"

definition detectT38InSDP :: "string \<Rightarrow> bool" where
  "detectT38InSDP sdp \<longleftrightarrow> list_ex t38_line (split_on (CHR 0x0A) sdp)"

text \<open>The new value of the leg's field, given the old one (\<open>*dst\<close>).\<close>

definition harvestBridgeLegT38 :: "event \<Rightarrow> string \<Rightarrow> string" where
  "harvestBridgeLegT38 ev dst =
    (let remote = ev_get ev ''Variable_switch_r_sdp''; local = ev_get ev ''Variable_switch_l_sdp''
     in if dst \<noteq> [] then dst
        else if remote = [] \<and> local = [] then dst
        else if \<not> detectT38InSDP remote \<and> \<not> detectT38InSDP local then dst
        else ''negotiated'')"

definition AddBridgeBLegEvent :: "event \<Rightarrow> FaxResult \<Rightarrow> FaxResult" where
  "AddBridgeBLegEvent ev f =
    (if \<not> fr_bridge f \<or> ev_get ev ''Event-Name'' \<noteq> ''CHANNEL_HANGUP'' then f
     else f\<lparr>fr_BridgeBLegT38 := harvestBridgeLegT38 ev (fr_BridgeBLegT38 f)\<rparr>)"

subsection \<open>The merge of an event\<close>

definition AddEvent_hangup :: "event \<Rightarrow> FaxResult \<Rightarrow> FaxResult" where
  "AddEvent_hangup ev f =
    (let f1 = harvestResultVars ev f
     in on_if (fr_bridge f1)
          (\<lambda>f. f\<lparr>fr_BridgeALegT38 := harvestBridgeLegT38 ev (fr_BridgeALegT38 f)\<rparr>) f1)"

definition is_negotiate :: "event \<Rightarrow> bool" where
  "is_negotiate ev \<longleftrightarrow> ev_get ev ''Event-Name'' = ''CUSTOM'' \<and>
     ev_get ev ''Event-Subclass'' \<in> {''spandsp::rxfaxnegociateresult'', ''spandsp::txfaxnegociateresult''}"

definition is_page :: "event \<Rightarrow> bool" where
  "is_page ev \<longleftrightarrow> ev_get ev ''Event-Name'' = ''CUSTOM'' \<and>
     ev_get ev ''Event-Subclass'' \<in> {''spandsp::rxfaxpageresult'', ''spandsp::txfaxpageresult''}"

definition is_result :: "event \<Rightarrow> bool" where
  "is_result ev \<longleftrightarrow> ev_get ev ''Event-Name'' = ''CUSTOM'' \<and>
     ev_get ev ''Event-Subclass'' \<in> {''spandsp::rxfaxresult'', ''spandsp::txfaxresult''}"

definition AddEvent :: "time \<Rightarrow> event \<Rightarrow> FaxResult \<Rightarrow> FaxResult" where
  "AddEvent now ev f =
    (if ev_get ev ''Event-Name'' = ''CHANNEL_CALLSTATE'' then AddEvent_callstate now ev f
     else if ev_get ev ''Event-Name'' = ''CHANNEL_HANGUP'' then AddEvent_hangup ev f
     else if is_negotiate ev then AddEvent_negotiate ev f
     else if is_page ev then AddEvent_page now ev f
     else if is_result ev then AddEvent_result ev f
     else f)"

fun AddEvents :: "(time \<times> event) list \<Rightarrow> FaxResult \<Rightarrow> FaxResult" where
  "AddEvents [] f = f"
| "AddEvents ((now, ev) # evs) f = AddEvents evs (AddEvent now ev f)"


section \<open>What an event may change\<close>

subsection \<open>Fields an update does not touch\<close>

lemma on_int_frame: "(\<And>n g. p (upd n g) = p g) \<Longrightarrow> p (on_int s upd f) = p f"
  by (simp add: on_int_def split: option.split)

lemma on_res_frame: "(\<And>r g. p (upd r g) = p g) \<Longrightarrow> p (on_res s upd f) = p f"
  by (simp add: on_res_def split: option.split)

lemma on_if_frame: "(\<And>g. p (upd g) = p g) \<Longrightarrow> p (on_if b upd f) = p f"
  by (simp add: on_if_def)

lemma on_if_flags [simp]:
  "fr_Success (on_if b (fr_Success_update (\<lambda>_. True)) f) = (b \<or> fr_Success f)"
  "fr_Ecm (on_if b (fr_Ecm_update (\<lambda>_. True)) f) = (b \<or> fr_Ecm f)"
  "fr_EcmRequested (on_if b (fr_EcmRequested_update (\<lambda>_. True)) f) = (b \<or> fr_EcmRequested f)"
  "fr_V17Disabled (on_if b (fr_V17Disabled_update (\<lambda>_. True)) f) = (b \<or> fr_V17Disabled f)"
  by (simp_all add: on_if_def)

lemmas frame_Success = on_int_frame [where p = fr_Success] on_res_frame [where p = fr_Success]
  on_if_frame [where p = fr_Success]
lemmas frame_Ecm = on_int_frame [where p = fr_Ecm] on_res_frame [where p = fr_Ecm]
  on_if_frame [where p = fr_Ecm]
lemmas frame_EcmRequested = on_int_frame [where p = fr_EcmRequested]
  on_res_frame [where p = fr_EcmRequested] on_if_frame [where p = fr_EcmRequested]
lemmas frame_V17 = on_int_frame [where p = fr_V17Disabled] on_res_frame [where p = fr_V17Disabled]
  on_if_frame [where p = fr_V17Disabled]
lemmas frame_pages = on_int_frame [where p = fr_PageResults] on_res_frame [where p = fr_PageResults]
  on_if_frame [where p = fr_PageResults]
lemmas frame_count = on_int_frame [where p = fr_NegotiateCount]
  on_res_frame [where p = fr_NegotiateCount] on_if_frame [where p = fr_NegotiateCount]
lemmas frame_cause = on_int_frame [where p = fr_HangupCause]
  on_res_frame [where p = fr_HangupCause] on_if_frame [where p = fr_HangupCause]
lemmas frame_EndTs = on_int_frame [where p = fr_EndTs] on_res_frame [where p = fr_EndTs]
  on_if_frame [where p = fr_EndTs]
lemmas frame_bridge = on_int_frame [where p = fr_bridge] on_res_frame [where p = fr_bridge]
  on_if_frame [where p = fr_bridge]
lemmas frame_legs = on_int_frame [where p = fr_BridgeALegT38] on_res_frame [where p = fr_BridgeALegT38]
  on_if_frame [where p = fr_BridgeALegT38] on_int_frame [where p = fr_BridgeBLegT38]
  on_res_frame [where p = fr_BridgeBLegT38] on_if_frame [where p = fr_BridgeBLegT38]
lemmas frame_ids = on_int_frame [where p = fr_T38Status] on_res_frame [where p = fr_T38Status]
  on_if_frame [where p = fr_T38Status] on_int_frame [where p = fr_LocalID]
  on_res_frame [where p = fr_LocalID] on_if_frame [where p = fr_LocalID]
  on_int_frame [where p = fr_RemoteID] on_res_frame [where p = fr_RemoteID]
  on_if_frame [where p = fr_RemoteID]
lemmas result_frames = frame_Success frame_Ecm frame_EcmRequested frame_V17 frame_pages frame_count
  frame_cause frame_EndTs frame_bridge frame_legs frame_ids

lemma AddEvent_result_fields:
  "fr_Success (AddEvent_result ev f) = (ev_get ev ''Fax-Success'' = ''1'' \<or> fr_Success f)"
  "fr_Ecm (AddEvent_result ev f) = (ev_get ev ''Fax-Ecm-Used'' = ''on'' \<or> fr_Ecm f)"
  "fr_EcmRequested (AddEvent_result ev f) = fr_EcmRequested f"
  "fr_V17Disabled (AddEvent_result ev f) = fr_V17Disabled f"
  "fr_PageResults (AddEvent_result ev f) = fr_PageResults f"
  "fr_NegotiateCount (AddEvent_result ev f) = fr_NegotiateCount f"
  "fr_HangupCause (AddEvent_result ev f) = fr_HangupCause f"
  "fr_EndTs (AddEvent_result ev f) = fr_EndTs f"
  "fr_bridge (AddEvent_result ev f) = fr_bridge f"
  "fr_BridgeALegT38 (AddEvent_result ev f) = fr_BridgeALegT38 f"
  "fr_BridgeBLegT38 (AddEvent_result ev f) = fr_BridgeBLegT38 f"
  by (simp_all add: AddEvent_result_def Let_def result_frames)

lemma AddEvent_negotiate_fields:
  "fr_Success (AddEvent_negotiate ev f) = fr_Success f"
  "fr_Ecm (AddEvent_negotiate ev f) = (ev_get ev ''Fax-Ecm-Used'' = ''on'' \<or> fr_Ecm f)"
  "fr_EcmRequested (AddEvent_negotiate ev f) =
     (ev_get ev ''Variable_fax_ecm_requested'' = ''1'' \<or> fr_EcmRequested f)"
  "fr_V17Disabled (AddEvent_negotiate ev f) =
     (ev_get ev ''Variable_fax_v17_disabled'' = ''1'' \<or> fr_V17Disabled f)"
  "fr_PageResults (AddEvent_negotiate ev f) = fr_PageResults f"
  "fr_NegotiateCount (AddEvent_negotiate ev f) = (fr_NegotiateCount f + 1) mod 2 ^ 64"
  "fr_HangupCause (AddEvent_negotiate ev f) = fr_HangupCause f"
  "fr_EndTs (AddEvent_negotiate ev f) = fr_EndTs f"
  "fr_bridge (AddEvent_negotiate ev f) = fr_bridge f"
  "fr_BridgeALegT38 (AddEvent_negotiate ev f) = fr_BridgeALegT38 f"
  "fr_BridgeBLegT38 (AddEvent_negotiate ev f) = fr_BridgeBLegT38 f"
  "fr_T38Status (AddEvent_negotiate ev f) = ev_get ev ''Fax-T38-Status''"
  by (simp_all add: AddEvent_negotiate_def Let_def result_frames)

lemma AddEvent_page_fields:
  "fr_Success (AddEvent_page now ev f) = fr_Success f"
  "fr_Ecm (AddEvent_page now ev f) = fr_Ecm f"
  "fr_EcmRequested (AddEvent_page now ev f) = fr_EcmRequested f"
  "fr_V17Disabled (AddEvent_page now ev f) = fr_V17Disabled f"
  "fr_PageResults (AddEvent_page now ev f) =
     fr_PageResults f @ [page_of_event now ev (fr_TransferredPages (AddEvent_page now ev f))]"
  "fr_NegotiateCount (AddEvent_page now ev f) = fr_NegotiateCount f"
  "fr_HangupCause (AddEvent_page now ev f) = fr_HangupCause f"
  "fr_EndTs (AddEvent_page now ev f) = fr_EndTs f"
  "fr_bridge (AddEvent_page now ev f) = fr_bridge f"
  "fr_BridgeALegT38 (AddEvent_page now ev f) = fr_BridgeALegT38 f"
  "fr_BridgeBLegT38 (AddEvent_page now ev f) = fr_BridgeBLegT38 f"
  by (simp_all add: AddEvent_page_def Let_def result_frames)

lemma AddEvent_callstate_fields:
  "fr_Success (AddEvent_callstate now ev f) = fr_Success f"
  "fr_Ecm (AddEvent_callstate now ev f) = fr_Ecm f"
  "fr_EcmRequested (AddEvent_callstate now ev f) = fr_EcmRequested f"
  "fr_V17Disabled (AddEvent_callstate now ev f) = fr_V17Disabled f"
  "fr_PageResults (AddEvent_callstate now ev f) = fr_PageResults f"
  "fr_NegotiateCount (AddEvent_callstate now ev f) = fr_NegotiateCount f"
  "fr_bridge (AddEvent_callstate now ev f) = fr_bridge f"
  "fr_BridgeALegT38 (AddEvent_callstate now ev f) = fr_BridgeALegT38 f"
  "fr_BridgeBLegT38 (AddEvent_callstate now ev f) = fr_BridgeBLegT38 f"
  by (simp_all add: AddEvent_callstate_def Let_def on_if_def)


subsection \<open>Merge-only\<close>

text \<open>The contract of the merge: a flag that is set stays set, a confirmed bridge leg stays
  confirmed, and pages are only added at the end.\<close>

definition merge_only :: "FaxResult \<Rightarrow> FaxResult \<Rightarrow> bool" where
  "merge_only f g \<longleftrightarrow>
     (fr_Success f \<longrightarrow> fr_Success g) \<and> (fr_Ecm f \<longrightarrow> fr_Ecm g) \<and>
     (fr_EcmRequested f \<longrightarrow> fr_EcmRequested g) \<and> (fr_V17Disabled f \<longrightarrow> fr_V17Disabled g) \<and>
     (fr_BridgeALegT38 f \<noteq> [] \<longrightarrow> fr_BridgeALegT38 g = fr_BridgeALegT38 f) \<and>
     (fr_BridgeBLegT38 f \<noteq> [] \<longrightarrow> fr_BridgeBLegT38 g = fr_BridgeBLegT38 f) \<and>
     (\<exists>ps. fr_PageResults g = fr_PageResults f @ ps) \<and> fr_bridge g = fr_bridge f"

text \<open>The stronger contract of the harvest: it never overwrites what negotiation reported and
  leaves the fields the event loops exit on alone.\<close>

definition backfill_only :: "FaxResult \<Rightarrow> FaxResult \<Rightarrow> bool" where
  "backfill_only f g \<longleftrightarrow> merge_only f g \<and>
     (fr_T38Status f \<noteq> [] \<longrightarrow> fr_T38Status g = fr_T38Status f) \<and>
     (fr_LocalID f \<noteq> [] \<longrightarrow> fr_LocalID g = fr_LocalID f) \<and>
     (fr_RemoteID f \<noteq> [] \<longrightarrow> fr_RemoteID g = fr_RemoteID f) \<and>
     fr_HangupCause g = fr_HangupCause f \<and> fr_EndTs g = fr_EndTs f \<and>
     fr_NegotiateCount g = fr_NegotiateCount f \<and> fr_PageResults g = fr_PageResults f \<and>
     fr_BridgeALegT38 g = fr_BridgeALegT38 f \<and> fr_BridgeBLegT38 g = fr_BridgeBLegT38 f"

lemma merge_only_refl [simp]: "merge_only f f"
  by (simp add: merge_only_def)

lemma merge_only_trans: "merge_only f g \<Longrightarrow> merge_only g h \<Longrightarrow> merge_only f h"
  unfolding merge_only_def by (elim conjE exE) (intro conjI; force)

lemma backfill_only_refl [simp]: "backfill_only f f"
  by (simp add: backfill_only_def)

lemma backfill_only_trans: "backfill_only f g \<Longrightarrow> backfill_only g h \<Longrightarrow> backfill_only f h"
  unfolding backfill_only_def by (auto intro: merge_only_trans)

text \<open>One variable of the harvest, by the cases of its switch.\<close>

lemma backfill_on:
  "(\<And>n g. backfill_only g (upd1 n g)) \<Longrightarrow> backfill_only f (on_int s upd1 f)"
  "(\<And>r g. backfill_only g (upd2 r g)) \<Longrightarrow> backfill_only f (on_res s upd2 f)"
  "(b \<Longrightarrow> backfill_only f (upd3 f)) \<Longrightarrow> backfill_only f (on_if b upd3 f)"
  by (simp_all add: on_int_def on_res_def on_if_def split: option.split)

lemma backfill_fields:
  "backfill_only f (fr_Success_update (\<lambda>_. True) f)"
  "backfill_only f (fr_Ecm_update (\<lambda>_. True) f)"
  "backfill_only f (fr_EcmRequested_update (\<lambda>_. True) f)"
  "backfill_only f (fr_V17Disabled_update (\<lambda>_. True) f)"
  "fr_T38Status f = [] \<Longrightarrow> backfill_only f (fr_T38Status_update (\<lambda>_. v) f)"
  "fr_LocalID f = [] \<Longrightarrow> backfill_only f (fr_LocalID_update (\<lambda>_. v) f)"
  "fr_RemoteID f = [] \<Longrightarrow> backfill_only f (fr_RemoteID_update (\<lambda>_. v) f)"
  "backfill_only f (fr_ResultCode_update (\<lambda>_. i) f)" "backfill_only f (fr_ResultText_update (\<lambda>_. v) f)"
  "backfill_only f (fr_TransferredPages_update (\<lambda>_. n) f)" "backfill_only f (fr_TotalPages_update (\<lambda>_. n) f)"
  "backfill_only f (fr_ImageResolution_update (\<lambda>_. r) f)" "backfill_only f (fr_FileImageResolution_update (\<lambda>_. r) f)"
  "backfill_only f (fr_ImagePixelSize_update (\<lambda>_. r) f)" "backfill_only f (fr_FileImagePixelSize_update (\<lambda>_. r) f)"
  "backfill_only f (fr_ImageSize_update (\<lambda>_. n) f)" "backfill_only f (fr_BadRows_update (\<lambda>_. n) f)"
  "backfill_only f (fr_LongestBadRowRun_update (\<lambda>_. n) f)" "backfill_only f (fr_Encoding_update (\<lambda>_. i) f)"
  "backfill_only f (fr_EncodingName_update (\<lambda>_. v) f)" "backfill_only f (fr_TransferRate_update (\<lambda>_. n) f)"
  "backfill_only f (fr_RemoteCountry_update (\<lambda>_. v) f)" "backfill_only f (fr_RemoteVendor_update (\<lambda>_. v) f)"
  "backfill_only f (fr_RemoteModel_update (\<lambda>_. v) f)" "backfill_only f (fr_TraceFile_update (\<lambda>_. v) f)"
  "backfill_only f (fr_ResultVars_update (\<lambda>_. vs) f)"
  by (simp_all add: backfill_only_def merge_only_def)

lemma harvest_var_backfill: "backfill_only f (harvest_var name v f)"
  unfolding harvest_var_def by (simp add: backfill_on backfill_fields)

lemma harvest_one_backfill: "backfill_only f (harvest_one ev name f)"
  unfolding harvest_one_def Let_def
  by (auto intro: backfill_only_trans [OF backfill_fields(26) harvest_var_backfill])

interpretation harvest: merge_step backfill_only "harvest_one ev" for ev
  by unfold_locales (auto intro: backfill_only_trans harvest_one_backfill)

lemma harvestResultVars_backfill: "backfill_only f (harvestResultVars ev f)"
  unfolding harvestResultVars_def by (rule harvest.fold_le)

lemma AddEvent_hangup_merge: "merge_only f (AddEvent_hangup ev f)"
proof -
  have "merge_only f (harvestResultVars ev f)"
    using harvestResultVars_backfill by (simp add: backfill_only_def)
  moreover have "merge_only g (on_if (fr_bridge g)
      (\<lambda>f. f\<lparr>fr_BridgeALegT38 := harvestBridgeLegT38 ev (fr_BridgeALegT38 f)\<rparr>) g)" for g
    by (simp add: on_if_def merge_only_def harvestBridgeLegT38_def Let_def)
  ultimately show ?thesis
    unfolding AddEvent_hangup_def Let_def by (rule merge_only_trans)
qed

lemma AddEvent_merge: "merge_only f (AddEvent now ev f)"
  unfolding AddEvent_def
  by (auto simp: AddEvent_hangup_merge)
     (simp_all add: merge_only_def AddEvent_callstate_fields AddEvent_negotiate_fields
       AddEvent_page_fields AddEvent_result_fields)

interpretation events: merge_step merge_only "\<lambda>(now, ev). AddEvent now ev"
  by unfold_locales (auto intro: merge_only_trans AddEvent_merge)

lemma AddEvents_fold: "AddEvents evs f = fold (\<lambda>(now, ev). AddEvent now ev) evs f"
  by (induction evs f rule: AddEvents.induct) auto

subsection \<open>Counting\<close>

lemma AddEvent_hangup_fields:
  "fr_NegotiateCount (AddEvent_hangup ev f) = fr_NegotiateCount f"
  "fr_PageResults (AddEvent_hangup ev f) = fr_PageResults f"
  "fr_HangupCause (AddEvent_hangup ev f) = fr_HangupCause f"
  "fr_EndTs (AddEvent_hangup ev f) = fr_EndTs f"
  "fr_bridge (AddEvent_hangup ev f) = fr_bridge f"
  "fr_BridgeBLegT38 (AddEvent_hangup ev f) = fr_BridgeBLegT38 f"
  using harvestResultVars_backfill [of f ev]
  by (simp_all add: AddEvent_hangup_def Let_def on_if_def backfill_only_def merge_only_def)

lemma event_kinds:
  "is_negotiate ev \<Longrightarrow> ev_get ev ''Event-Name'' = ''CUSTOM''"
  "is_page ev \<Longrightarrow> ev_get ev ''Event-Name'' = ''CUSTOM'' \<and> \<not> is_negotiate ev"
  "is_result ev \<Longrightarrow> ev_get ev ''Event-Name'' = ''CUSTOM'' \<and> \<not> is_negotiate ev \<and> \<not> is_page ev"
  by (auto simp: is_negotiate_def is_page_def is_result_def)

lemma AddEvent_count:
  "fr_NegotiateCount (AddEvent now ev f) =
     (if is_negotiate ev then (fr_NegotiateCount f + 1) mod 2 ^ 64 else fr_NegotiateCount f)"
  using event_kinds(1) [of ev]
  by (auto simp: AddEvent_def AddEvent_callstate_fields AddEvent_negotiate_fields
      AddEvent_page_fields AddEvent_result_fields AddEvent_hangup_fields)

lemma AddEvent_pages:
  "length (fr_PageResults (AddEvent now ev f)) =
     length (fr_PageResults f) + (if is_page ev then 1 else 0)"
  using event_kinds(2) [of ev]
  by (auto simp: AddEvent_def AddEvent_callstate_fields AddEvent_negotiate_fields
      AddEvent_page_fields AddEvent_result_fields AddEvent_hangup_fields)

definition is_call_hangup :: "event \<Rightarrow> bool" where
  "is_call_hangup ev \<longleftrightarrow> ev_get ev ''Event-Name'' = ''CHANNEL_CALLSTATE'' \<and>
     ev_get ev ''Channel-Call-State'' = ''HANGUP''"

lemma AddEvent_cause:
  "fr_HangupCause (AddEvent now ev f) =
     (if is_call_hangup ev then ev_get ev ''Hangup-Cause'' else fr_HangupCause f)"
  by (auto simp: AddEvent_def is_call_hangup_def AddEvent_negotiate_fields AddEvent_page_fields
      AddEvent_result_fields AddEvent_hangup_fields AddEvent_callstate_def Let_def on_if_def)


section \<open>Properties\<close>

text \<open>merging events never loses information. Whatever events follow, a result that was
  marked successful stays so, the ECM and V.17 flags stay set, a leg confirmed as T.38 stays
  confirmed, and the pages already recorded are kept in order.\<close>

theorem add_events_merge_only: "merge_only (AddEvents evs f) (AddEvents (evs @ evs') f)"
  by (simp only: AddEvents_fold events.fold_le_append)

text \<open>the harvest of the hangup variable dump backfills. It keeps every flag that is set,
  never replaces an identifier or T.38 status negotiation reported, and changes neither the
  hangup cause and end time the event loops exit on, nor the negotiation count, the pages or
  the bridge legs.\<close>

theorem harvest_backfills: "backfill_only f (harvestResultVars ev f)"
  by (rule harvestResultVars_backfill)

text \<open>the negotiation counter is the number of negotiation events seen (modulo the width of
  uint), and one page result is recorded per page event.\<close>

theorem add_events_counts:
  "fr_NegotiateCount (AddEvents evs (NewFaxResult u b)) =
     length (filter (is_negotiate \<circ> snd) evs) mod 2 ^ 64 \<and>
   length (fr_PageResults (AddEvents evs (NewFaxResult u b))) = length (filter (is_page \<circ> snd) evs)"
proof -
  have "fr_NegotiateCount f < 2 ^ 64 \<Longrightarrow> fr_NegotiateCount (AddEvents evs f) =
      (fr_NegotiateCount f + length (filter (is_negotiate \<circ> snd) evs)) mod 2 ^ 64" for f
    by (induction evs f rule: AddEvents.induct) (auto simp: AddEvent_count mod_simps)
  moreover have "length (fr_PageResults (AddEvents evs f)) =
      length (fr_PageResults f) + length (filter (is_page \<circ> snd) evs)" for f
    by (induction evs f rule: AddEvents.induct) (auto simp: AddEvent_pages)
  ultimately show ?thesis
    by (simp add: NewFaxResult_def empty_FaxResult_def)
qed

text \<open>the hangup cause, which ends both event loops, comes from the last call-state HANGUP
  event and from no other event: the variable dump of CHANNEL\_HANGUP does not touch it.\<close>

theorem hangup_cause_source:
  "fr_HangupCause (AddEvents evs f) =
     (case rev (filter (is_call_hangup \<circ> snd) evs) of
        [] \<Rightarrow> fr_HangupCause f
      | (_, ev) # _ \<Rightarrow> ev_get ev ''Hangup-Cause'')"
proof (induction evs arbitrary: f)
  case (Cons e evs)
  obtain now ev where e: "e = (now, ev)"
    by (cases e)
  show ?case
    by (cases "rev (filter (\<lambda>a. is_call_hangup (snd a)) evs)")
       (auto simp: comp_def e Cons.IH AddEvent_cause)
qed simp

text \<open>an event of the bridged b-leg touches only that leg's T.38 field, and only for a
  bridged call, on CHANNEL\_HANGUP, when the field is still empty and a final SDP carries an
  image line over UDPTL.\<close>

theorem b_leg_event_frame:
  "AddBridgeBLegEvent ev f =
     (if fr_bridge f \<and> ev_get ev ''Event-Name'' = ''CHANNEL_HANGUP'' \<and> fr_BridgeBLegT38 f = [] \<and>
         (detectT38InSDP (ev_get ev ''Variable_switch_r_sdp'') \<or>
          detectT38InSDP (ev_get ev ''Variable_switch_l_sdp''))
      then f\<lparr>fr_BridgeBLegT38 := ''negotiated''\<rparr> else f)"
proof -
  have empty: "\<not> detectT38InSDP []"
    by (simp add: detectT38InSDP_def t38_line_def trim_space_def to_lower_def has_prefix_def)
  show ?thesis
    by (auto simp: AddBridgeBLegEvent_def harvestBridgeLegT38_def Let_def empty)
qed

text \<open>a resolution prints and parses back to itself, for every size a Go int can hold.\<close>

theorem resolution_roundtrip:
  assumes "rs_X r < 2 ^ 63" "rs_Y r < 2 ^ 63"
  shows "parseResolution (Resolution_String r) = Some r"
proof -
  have "CHR ''x'' \<notin> set (itoa (rs_X r))"
    by (rule itoa_not_in) (simp add: is_digit_def)
  then have "split2 (CHR ''x'') (Resolution_String r) = Some (itoa (rs_X r), itoa (rs_Y r))"
    by (simp add: split2_Some_iff Resolution_String_def)
  moreover have "rs_X r < 2 ^ 64" "rs_Y r < 2 ^ 64"
    using assms by simp_all
  ultimately show ?thesis
    using assms by (simp add: parseResolution_def atoi_itoa)
qed

theorem resolution_roundtrip_witness:
  "parseResolution (Resolution_String \<lparr>rs_X = 1728, rs_Y = 2200\<rparr>) = Some \<lparr>rs_X = 1728, rs_Y = 2200\<rparr>"
  using resolution_roundtrip [of "\<lparr>rs_X = 1728, rs_Y = 2200\<rparr>"] by simp

end
