(* ===== verification/Fax_Job.thy ===== *)
theory Fax_Job
  imports Fax_Config Fax_Result
begin

text \<open>
  The fax job and its stored outcome: the job record (\<open>faxjob.go\<close>), the endpoints it is sent
  to (\<open>endpoints.go\<close>), the classification of an outcome into a leg, and the table of stored
  legs with the life cycle of the submission leg (\<open>faxjobresult.go\<close>).

  A column that holds JSON holds here the value that is encoded. The database is a list of
  rows with the next identifier; whether a statement fails is an argument.
\<close>

section \<open>Data\<close>

record Endpoint =
  ep_ID :: nat
  ep_Type :: string
  ep_TypeID :: nat
  ep_EndpointType :: string
  ep_Endpoint :: string
  ep_Priority :: nat
  ep_Bridge :: bool

record FaxSourceInfo =
  si_Timestamp :: time
  si_SourceType :: string
  si_Source :: string
  si_SourceID :: string

record FaxJob =
  fj_UUID :: uuid
  fj_CallUUID :: uuid
  fj_SrcTenantID :: nat
  fj_DstTenantID :: nat
  fj_CalleeNumber :: string
  fj_CallerIdNumber :: string
  fj_CallerIdName :: string
  fj_FileName :: string
  fj_UseECM :: bool
  fj_DisableV17 :: bool
  fj_Identifier :: string
  fj_Header :: string
  fj_Endpoints :: "Endpoint list"
  fj_Result :: "FaxResult option"
  fj_SourceInfo :: FaxSourceInfo
  fj_Gateway :: string
  fj_NPages :: int
  fj_DataFormat :: string
  fj_SignalRate :: int
  fj_CSI :: string
  fj_Status :: string
  fj_Returned :: string
  fj_TotDials :: int
  fj_NDials :: int
  fj_TotTries :: int
  fj_JobTime :: duration
  fj_ConnTime :: duration
  fj_Ts :: time
  fj_IsBridge :: bool
  fj_BridgeDirection :: string
  fj_BridgeGateway :: string
  fj_BridgeStartTs :: time
  fj_BridgeEndTs :: time
  fj_BridgeT38 :: bool
  fj_SoftmodemSrc :: bool
  fj_SoftmodemDst :: bool
  fj_UsedT38 :: bool
  fj_SoftmodemFallback :: bool
  fj_ForceT38Off :: bool
  fj_AppliedPolicyIDs :: "nat list"
  fj_NotifyOnly :: bool

record FaxJobResult =
  jr_ID :: nat
  jr_SrcTenantID :: nat
  jr_DstTenantID :: nat
  jr_JobUUID :: uuid
  jr_CallUUID :: uuid
  jr_CalleeNumber :: string
  jr_CallerIdNumber :: string
  jr_CallerIdName :: string
  jr_FileName :: string
  jr_UseECM :: bool
  jr_DisableV17 :: bool
  jr_Identifier :: string
  jr_Header :: string
  jr_Endpoints :: "Endpoint list"
  jr_SourceInfo :: FaxSourceInfo
  jr_ResultType :: string
  jr_AttemptNumber :: int
  jr_EndpointID :: nat
  jr_EndpointType :: string
  jr_Gateway :: string
  jr_NPages :: int
  jr_DataFormat :: string
  jr_SignalRate :: int
  jr_CSI :: string
  jr_Status :: string
  jr_Returned :: string
  jr_TotDials :: int
  jr_NDials :: int
  jr_TotTries :: int
  jr_JobTime :: duration
  jr_ConnTime :: duration
  jr_Ts :: "time option"
  jr_StartTs :: "time option"
  jr_EndTs :: "time option"
  jr_HangupCause :: string
  jr_TotalPages :: nat
  jr_TransferredPages :: nat
  jr_ECM :: bool
  jr_EcmRequested :: bool
  jr_RemoteID :: string
  jr_LocalID :: string
  jr_ResultCode :: int
  jr_ResultText :: string
  jr_Success :: bool
  jr_TransferRate :: nat
  jr_NegotiateCount :: nat
  jr_T38Status :: string
  jr_V17Disabled :: bool
  jr_PageResults :: "PageResult list"
  jr_BadRows :: nat
  jr_LongestBadRowRun :: nat
  jr_Encoding :: int
  jr_EncodingName :: string
  jr_ImageSize :: nat
  jr_ImageResolution :: string
  jr_FileImageResolution :: string
  jr_ImagePixelSize :: string
  jr_FileImagePixelSize :: string
  jr_RemoteCountry :: string
  jr_RemoteVendor :: string
  jr_RemoteModel :: string
  jr_TraceFile :: string
  jr_ResultMetadata :: "(string \<times> string) list"
  jr_IsBridge :: bool
  jr_BridgeDirection :: string
  jr_BridgeGateway :: string
  jr_BridgeStartTs :: "time option"
  jr_BridgeEndTs :: "time option"
  jr_BridgeDuration :: duration
  jr_BridgeT38 :: bool
  jr_BridgeT38ALeg :: string
  jr_BridgeT38BLeg :: string
  jr_SoftmodemSrc :: bool
  jr_SoftmodemDst :: bool
  jr_UsedT38 :: bool
  jr_SoftmodemFallback :: bool
  jr_AppliedPolicies :: "nat list"
  jr_CreatedAt :: time

record ResultTable =
  rt_rows :: "FaxJobResult list"
  rt_next :: nat

datatype store_error = NilJob | CreateFailed

text \<open>Go's zero values, as the base of the composite literals that build jobs.\<close>

definition zero_SourceInfo :: FaxSourceInfo where
  "zero_SourceInfo = \<lparr>si_Timestamp = zero_time, si_SourceType = [], si_Source = [], si_SourceID = []\<rparr>"

definition zero_Endpoint :: Endpoint where
  "zero_Endpoint = \<lparr>ep_ID = 0, ep_Type = [], ep_TypeID = 0, ep_EndpointType = [], ep_Endpoint = [],
     ep_Priority = 0, ep_Bridge = False\<rparr>"

definition zero_FaxJob :: FaxJob where
  "zero_FaxJob = \<lparr>fj_UUID = uuid_Nil, fj_CallUUID = uuid_Nil, fj_SrcTenantID = 0, fj_DstTenantID = 0,
     fj_CalleeNumber = [], fj_CallerIdNumber = [], fj_CallerIdName = [], fj_FileName = [],
     fj_UseECM = False, fj_DisableV17 = False, fj_Identifier = [], fj_Header = [],
     fj_Endpoints = [], fj_Result = None, fj_SourceInfo = zero_SourceInfo, fj_Gateway = [],
     fj_NPages = 0, fj_DataFormat = [], fj_SignalRate = 0, fj_CSI = [], fj_Status = [],
     fj_Returned = [], fj_TotDials = 0, fj_NDials = 0, fj_TotTries = 0, fj_JobTime = 0,
     fj_ConnTime = 0, fj_Ts = zero_time, fj_IsBridge = False, fj_BridgeDirection = [],
     fj_BridgeGateway = [], fj_BridgeStartTs = zero_time, fj_BridgeEndTs = zero_time,
     fj_BridgeT38 = False, fj_SoftmodemSrc = False, fj_SoftmodemDst = False, fj_UsedT38 = False,
     fj_SoftmodemFallback = False, fj_ForceT38Off = False, fj_AppliedPolicyIDs = [],
     fj_NotifyOnly = False\<rparr>"

section \<open>Operations\<close>

definition timePtr :: "time \<Rightarrow> time option" where
  "timePtr t = (if t = zero_time then None else Some t)"

definition placeholderHangupCause :: string where
  "placeholderHangupCause = ''WEBHOOK''"

definition isPlaceholderResult :: "FaxJob \<Rightarrow> bool" where
  "isPlaceholderResult job =
     (case fj_Result job of None \<Rightarrow> False | Some r \<Rightarrow> fr_HangupCause r = placeholderHangupCause)"

definition gatewayLabel :: "Endpoint \<Rightarrow> string" where
  "gatewayLabel ep = before_sep (CHR '':'') (ep_Endpoint ep)"

text \<open>\<open>classifyFaxResult\<close>: result type, endpoint id, endpoint type, attempt number, gateway.\<close>

definition classifyFaxResult :: "FaxJob \<Rightarrow> string \<times> nat \<times> string \<times> int \<times> string" where
  "classifyFaxResult job =
    (if isPlaceholderResult job then (''submission'', 0, [], 0, [])
     else
      let (resultType, endpointID, endpointType, attemptNumber) =
            (if fj_IsBridge job then (''bridge'', 0, [], 1)
             else case fj_Endpoints job of
               [] \<Rightarrow> (''reception'', 0, [], 1)
             | ep # _ \<Rightarrow>
                (if ep_EndpointType ep = ''gateway'' then ''transmission'' else ''delivery'',
                 ep_ID ep, ep_EndpointType ep,
                 if fj_TotDials job > 0 then fj_TotDials job
                 else if fj_TotTries job > 0 then fj_TotTries job else 1));
          gateway =
            (if fj_Gateway job \<noteq> [] then fj_Gateway job
             else if resultType \<in> {''reception'', ''bridge''} then si_Source (fj_SourceInfo job)
             else if resultType = ''transmission'' then
               (case fj_Endpoints job of [] \<Rightarrow> [] | ep # _ \<Rightarrow> gatewayLabel ep)
             else [])
      in (resultType, endpointID, endpointType, attemptNumber, gateway))"

definition is_real_leg :: "uuid \<Rightarrow> FaxJobResult \<Rightarrow> bool" where
  "is_real_leg u r \<longleftrightarrow> jr_JobUUID r = u \<and> jr_ResultType r \<noteq> ''submission''"

text \<open>The row built from the job before the outcome is filled in.\<close>

definition base_record :: "time \<Rightarrow> FaxJob \<Rightarrow> FaxJobResult" where
  "base_record now job =
    (let (resultType, endpointID, endpointType, attemptNumber, gateway) = classifyFaxResult job in
     \<lparr>jr_ID = 0, jr_SrcTenantID = fj_SrcTenantID job, jr_DstTenantID = fj_DstTenantID job,
      jr_JobUUID = fj_UUID job,
      jr_CallUUID = (if fj_CallUUID job = uuid_Nil then fj_UUID job else fj_CallUUID job),
      jr_CalleeNumber = fj_CalleeNumber job, jr_CallerIdNumber = fj_CallerIdNumber job,
      jr_CallerIdName = fj_CallerIdName job, jr_FileName = fj_FileName job,
      jr_UseECM = fj_UseECM job, jr_DisableV17 = fj_DisableV17 job,
      jr_Identifier = fj_Identifier job, jr_Header = fj_Header job,
      jr_Endpoints = fj_Endpoints job, jr_SourceInfo = fj_SourceInfo job,
      jr_ResultType = resultType, jr_AttemptNumber = attemptNumber, jr_EndpointID = endpointID,
      jr_EndpointType = endpointType, jr_Gateway = gateway,
      jr_NPages = fj_NPages job, jr_DataFormat = fj_DataFormat job,
      jr_SignalRate = fj_SignalRate job, jr_CSI = fj_CSI job, jr_Status = fj_Status job,
      jr_Returned = fj_Returned job, jr_TotDials = fj_TotDials job, jr_NDials = fj_NDials job,
      jr_TotTries = fj_TotTries job, jr_JobTime = fj_JobTime job, jr_ConnTime = fj_ConnTime job,
      jr_Ts = timePtr (fj_Ts job), jr_StartTs = None, jr_EndTs = None, jr_HangupCause = [],
      jr_TotalPages = 0, jr_TransferredPages = 0, jr_ECM = False, jr_EcmRequested = False,
      jr_RemoteID = [], jr_LocalID = [], jr_ResultCode = 0, jr_ResultText = [],
      jr_Success = False, jr_TransferRate = 0, jr_NegotiateCount = 0, jr_T38Status = [],
      jr_V17Disabled = False, jr_PageResults = [], jr_BadRows = 0, jr_LongestBadRowRun = 0,
      jr_Encoding = 0, jr_EncodingName = [], jr_ImageSize = 0, jr_ImageResolution = [],
      jr_FileImageResolution = [], jr_ImagePixelSize = [], jr_FileImagePixelSize = [],
      jr_RemoteCountry = [], jr_RemoteVendor = [], jr_RemoteModel = [], jr_TraceFile = [],
      jr_ResultMetadata = [], jr_IsBridge = fj_IsBridge job,
      jr_BridgeDirection = fj_BridgeDirection job, jr_BridgeGateway = fj_BridgeGateway job,
      jr_BridgeStartTs = timePtr (fj_BridgeStartTs job),
      jr_BridgeEndTs = timePtr (fj_BridgeEndTs job),
      jr_BridgeDuration = time_sub (fj_BridgeEndTs job) (fj_BridgeStartTs job),
      jr_BridgeT38 = fj_BridgeT38 job, jr_BridgeT38ALeg = [], jr_BridgeT38BLeg = [],
      jr_SoftmodemSrc = fj_SoftmodemSrc job, jr_SoftmodemDst = fj_SoftmodemDst job,
      jr_UsedT38 = fj_UsedT38 job, jr_SoftmodemFallback = fj_SoftmodemFallback job,
      jr_AppliedPolicies = fj_AppliedPolicyIDs job, jr_CreatedAt = now\<rparr>)"

text \<open>The intake state of a submission leg. \<open>legs\<close> is the count of the job's real legs already
  stored, or \<open>None\<close> when the count fails.\<close>

definition submission_state :: "time \<Rightarrow> nat option \<Rightarrow> FaxJobResult \<Rightarrow> FaxJobResult" where
  "submission_state now legs r =
    (if jr_ResultType r \<noteq> ''submission'' then r
     else let r1 = r\<lparr>jr_Status := ''queued''\<rparr> in
       case legs of
         Some n \<Rightarrow> if n > 0 then r1\<lparr>jr_Status := ''processed'', jr_ResultText := ''processed'',
                      jr_Success := True, jr_EndTs := Some now\<rparr> else r1
       | None \<Rightarrow> r1)"

text \<open>The outcome columns, copied from the job's result when it has one.\<close>

definition fill_result :: "FaxJob \<Rightarrow> FaxJobResult \<Rightarrow> FaxJobResult" where
  "fill_result job r = (case fj_Result job of None \<Rightarrow> r | Some f \<Rightarrow>
     r\<lparr>jr_StartTs := timePtr (fr_StartTs f), jr_EndTs := timePtr (fr_EndTs f),
       jr_HangupCause := fr_HangupCause f, jr_TotalPages := fr_TotalPages f,
       jr_TransferredPages := fr_TransferredPages f, jr_ECM := fr_Ecm f,
       jr_EcmRequested := fr_EcmRequested f, jr_RemoteID := fr_RemoteID f,
       jr_LocalID := fr_LocalID f, jr_ResultCode := fr_ResultCode f,
       jr_ResultText := fr_ResultText f, jr_Success := fr_Success f,
       jr_TransferRate := fr_TransferRate f, jr_NegotiateCount := fr_NegotiateCount f,
       jr_T38Status := fr_T38Status f, jr_V17Disabled := fr_V17Disabled f,
       jr_BridgeT38ALeg := fr_BridgeALegT38 f, jr_BridgeT38BLeg := fr_BridgeBLegT38 f,
       jr_BadRows := fr_BadRows f, jr_LongestBadRowRun := fr_LongestBadRowRun f,
       jr_Encoding := fr_Encoding f, jr_EncodingName := fr_EncodingName f,
       jr_ImageSize := fr_ImageSize f, jr_RemoteCountry := fr_RemoteCountry f,
       jr_RemoteVendor := fr_RemoteVendor f, jr_RemoteModel := fr_RemoteModel f,
       jr_TraceFile := fr_TraceFile f,
       jr_ImageResolution := (case fr_ImageResolution f of None \<Rightarrow> jr_ImageResolution r
          | Some x \<Rightarrow> Resolution_String x),
       jr_FileImageResolution := (case fr_FileImageResolution f of None \<Rightarrow> jr_FileImageResolution r
          | Some x \<Rightarrow> Resolution_String x),
       jr_ImagePixelSize := (case fr_ImagePixelSize f of None \<Rightarrow> jr_ImagePixelSize r
          | Some x \<Rightarrow> Resolution_String x),
       jr_FileImagePixelSize := (case fr_FileImagePixelSize f of None \<Rightarrow> jr_FileImagePixelSize r
          | Some x \<Rightarrow> Resolution_String x),
       jr_ResultMetadata := fr_ResultVars f, jr_PageResults := fr_PageResults f\<rparr>)"

text \<open>For a bridged call without a reported success, NORMAL\_CLEARING counts as success.\<close>

definition bridge_success :: "FaxJob \<Rightarrow> FaxJobResult \<Rightarrow> FaxJobResult" where
  "bridge_success job r =
    (if fj_IsBridge job \<and> \<not> jr_Success r then
       let hangup = (case fj_Result job of
              Some f \<Rightarrow> if jr_HangupCause r = [] then fr_HangupCause f else jr_HangupCause r
            | None \<Rightarrow> jr_HangupCause r)
       in if hangup = ''NORMAL_CLEARING''
          then r\<lparr>jr_Success := True,
                 jr_ResultText := (if jr_ResultText r = [] then ''Bridge completed'' else jr_ResultText r)\<rparr>
          else r
     else r)"

definition mark_row :: "time \<Rightarrow> uuid \<Rightarrow> FaxJobResult \<Rightarrow> FaxJobResult" where
  "mark_row now u r =
    (if jr_JobUUID r = u \<and> jr_ResultType r = ''submission'' \<and> jr_ResultText r = ''queued''
     then r\<lparr>jr_Success := True, jr_Status := ''processed'', jr_ResultText := ''processed'',
            jr_EndTs := Some now\<rparr>
     else r)"

definition markSubmissionProcessed :: "time \<Rightarrow> bool \<Rightarrow> uuid \<Rightarrow> ResultTable \<Rightarrow> ResultTable" where
  "markSubmissionProcessed now fails u t =
    (if fails then t else t\<lparr>rt_rows := map (mark_row now u) (rt_rows t)\<rparr>)"

text \<open>Which of the three statements of \<open>storeQueueFaxResult\<close> fail.\<close>

record store_faults =
  sf_count :: bool
  sf_create :: bool
  sf_mark :: bool

definition build_record :: "time \<Rightarrow> bool \<Rightarrow> FaxJob \<Rightarrow> ResultTable \<Rightarrow> FaxJobResult" where
  "build_record now countFails job t =
    (let legs = (if countFails then None
                 else Some (length (filter (is_real_leg (fj_UUID job)) (rt_rows t))))
     in bridge_success job (fill_result job (submission_state now legs (base_record now job))))"

definition storeQueueFaxResult ::
    "time \<Rightarrow> store_faults \<Rightarrow> FaxJob option \<Rightarrow> ResultTable \<Rightarrow> (store_error + unit) \<times> ResultTable" where
  "storeQueueFaxResult now sf qjob t = (case qjob of
      None \<Rightarrow> (Inl NilJob, t)
    | Some job \<Rightarrow>
       let r = build_record now (sf_count sf) job t in
       if sf_create sf then (Inl CreateFailed, t)
       else
         let t1 = t\<lparr>rt_rows := rt_rows t @ [r\<lparr>jr_ID := rt_next t\<rparr>], rt_next := Suc (rt_next t)\<rparr>
         in (Inr (),
             if jr_ResultType r \<noteq> ''submission''
             then markSubmissionProcessed now (sf_mark sf) (fj_UUID job) t1 else t1))"


text \<open>A submission leg that still waits for its job.\<close>

definition queued_submission :: "FaxJobResult \<Rightarrow> bool" where
  "queued_submission r \<longleftrightarrow> jr_ResultType r = ''submission'' \<and> jr_ResultText r = ''queued''"

text \<open>The steps of the table: a result is stored, or a worker picks a job up. The update that
  settles the submission leg is assumed not to fail in these steps.\<close>

inductive table_step :: "ResultTable \<Rightarrow> ResultTable \<Rightarrow> bool" where
  store: "\<not> sf_mark sf \<Longrightarrow> table_step t (snd (storeQueueFaxResult now sf qjob t))"
| pickup: "table_step t (markSubmissionProcessed now fails u t)"

definition empty_table :: ResultTable where
  "empty_table = \<lparr>rt_rows = [], rt_next = 1\<rparr>"

text \<open>No stored real leg comes after a submission leg of its job that is still queued.\<close>

definition settled :: "ResultTable \<Rightarrow> bool" where
  "settled t \<longleftrightarrow>
     sorted_wrt (\<lambda>r q. queued_submission r \<longrightarrow> \<not> is_real_leg (jr_JobUUID r) q) (rt_rows t)"

section \<open>Lemmas\<close>

lemma build_record_kind [simp]:
  "jr_ResultType (build_record now c job t) = fst (classifyFaxResult job)"
  "jr_JobUUID (build_record now c job t) = fj_UUID job"
  by (simp_all add: build_record_def Let_def bridge_success_def fill_result_def
      submission_state_def base_record_def case_prod_beta split: option.split)

lemma build_record_text:
  "fj_Result job = Some f \<Longrightarrow> \<not> fj_IsBridge job \<Longrightarrow>
   jr_ResultText (build_record now c job t) = fr_ResultText f"
  by (simp add: build_record_def Let_def bridge_success_def fill_result_def)

lemma classify_submission [simp]:
  "fst (classifyFaxResult job) = ''submission'' \<longleftrightarrow> isPlaceholderResult job"
  by (auto simp: classifyFaxResult_def Let_def split: list.splits if_splits)

lemma mark_row_kind [simp]:
  "jr_ResultType (mark_row now u r) = jr_ResultType r"
  "jr_JobUUID (mark_row now u r) = jr_JobUUID r"
  "is_real_leg v (mark_row now u r) = is_real_leg v r"
  by (simp_all add: mark_row_def is_real_leg_def)

lemma mark_row_queued [simp]:
  "queued_submission (mark_row now u r) \<longleftrightarrow> queued_submission r \<and> jr_JobUUID r \<noteq> u"
  by (auto simp: mark_row_def queued_submission_def)

lemma mark_row_idem [simp]: "mark_row now' u (mark_row now u r) = mark_row now u r"
  by (simp add: mark_row_def)

lemma settled_mark: "settled t \<Longrightarrow> settled (markSubmissionProcessed now fails u t)"
  unfolding settled_def markSubmissionProcessed_def
  by (auto simp: sorted_wrt_map elim: sorted_wrt_mono_rel [rotated])

lemma settled_append_submission:
  "settled t \<Longrightarrow> rt_rows t' = rt_rows t @ [r] \<Longrightarrow> jr_ResultType r = ''submission'' \<Longrightarrow> settled t'"
  by (auto simp: settled_def sorted_wrt_append is_real_leg_def)

lemma settled_append_mark:
  assumes "settled t" and "rt_rows t' = rt_rows t @ [r]"
  shows "settled (markSubmissionProcessed now False (jr_JobUUID r) t')"
proof -
  have "settled (markSubmissionProcessed now False (jr_JobUUID r) t)"
    using assms(1) by (rule settled_mark)
  then show ?thesis
    using assms(2) by (auto simp: settled_def markSubmissionProcessed_def sorted_wrt_append is_real_leg_def)
qed

lemma settled_store:
  assumes "settled t" "\<not> sf_mark sf"
  shows "settled (snd (storeQueueFaxResult now sf qjob t))"
proof (cases qjob)
  case None
  with assms show ?thesis by (simp add: storeQueueFaxResult_def)
next
  case (Some job)
  let ?r = "build_record now (sf_count sf) job t\<lparr>jr_ID := rt_next t\<rparr>"
  let ?t = "t\<lparr>rt_rows := rt_rows t @ [?r], rt_next := Suc (rt_next t)\<rparr>"
  have "settled (markSubmissionProcessed now False (fj_UUID job) ?t)"
    using settled_append_mark [OF assms(1), of ?t ?r now] by simp
  moreover have "isPlaceholderResult job \<Longrightarrow> settled ?t"
    using assms(1) by (rule settled_append_submission [where r = ?r]) simp_all
  ultimately show ?thesis
    using assms by (simp add: Some storeQueueFaxResult_def Let_def)
qed

interpretation result_table: step_invariant table_step empty_table settled
proof unfold_locales
  show "settled empty_table"
    by (simp add: settled_def empty_table_def)
  show "settled t" if "settled s" "table_step s t" for s t
    using that(2,1) by cases (auto intro: settled_store settled_mark)
qed

text \<open>A job as the submission handler creates it, and the same job's first transmission.\<close>

definition sample_submission :: FaxJob where
  "sample_submission = zero_FaxJob\<lparr>fj_UUID := 7, fj_Result := Some (empty_FaxResult
     \<lparr>fr_HangupCause := ''WEBHOOK'', fr_ResultText := ''queued''\<rparr>)\<rparr>"

definition sample_transmission :: FaxJob where
  "sample_transmission = zero_FaxJob\<lparr>fj_UUID := 7,
     fj_Endpoints := [zero_Endpoint\<lparr>ep_EndpointType := ''gateway''\<rparr>],
     fj_Result := Some (empty_FaxResult\<lparr>fr_HangupCause := ''USER_BUSY''\<rparr>)\<rparr>"

definition no_store_faults :: store_faults where
  "no_store_faults = \<lparr>sf_count = False, sf_create = False, sf_mark = False\<rparr>"

lemmas sample_job_defs = sample_submission_def sample_transmission_def zero_FaxJob_def
  zero_Endpoint_def zero_SourceInfo_def empty_FaxResult_def no_store_faults_def

lemma sample_submission_fields:
  "fj_Result sample_submission =
     Some (empty_FaxResult\<lparr>fr_HangupCause := ''WEBHOOK'', fr_ResultText := ''queued''\<rparr>)"
  "\<not> fj_IsBridge sample_submission" "fj_UUID sample_submission = 7"
  by (simp_all add: sample_submission_def zero_FaxJob_def)

lemma sample_placeholders:
  "isPlaceholderResult sample_submission"
  "\<not> isPlaceholderResult (sample_transmission\<lparr>fj_UUID := u\<rparr>)"
  "\<not> isPlaceholderResult sample_transmission"
  by (simp_all add: isPlaceholderResult_def placeholderHangupCause_def sample_job_defs)

section \<open>Properties\<close>

text \<open>in every reachable state of the results table, a job's real leg is never stored after
  a submission leg of the same job that is still queued: storing the leg settles it.\<close>

theorem real_leg_settles_submission:
  assumes "reach table_step empty_table t" and "rt_rows t = xs @ r # ys" and "queued_submission r"
  shows "\<not> list_ex (is_real_leg (jr_JobUUID r)) ys"
proof -
  have "settled t"
    using assms(1) by (rule result_table.reach_holds)
  with assms(2,3) show ?thesis
    by (auto simp: settled_def sorted_wrt_append list_ex_iff)
qed


theorem real_leg_settles_submission_witness:
  "\<exists>t r q. reach table_step empty_table t \<and> rt_rows t = [r, q] \<and> queued_submission r \<and>
     is_real_leg 8 q \<and> \<not> list_ex (is_real_leg (jr_JobUUID r)) [q]"
proof -
  let ?other = "sample_transmission\<lparr>fj_UUID := 8\<rparr>"
  let ?t1 = "snd (storeQueueFaxResult 5 no_store_faults (Some sample_submission) empty_table)"
  let ?t2 = "snd (storeQueueFaxResult 6 no_store_faults (Some ?other) ?t1)"
  let ?r = "build_record 5 False sample_submission empty_table\<lparr>jr_ID := 1\<rparr>"
  let ?q = "build_record 6 False ?other ?t1\<lparr>jr_ID := 2\<rparr>"
  have reach: "reach table_step empty_table ?t2"
    by (rule reach.reach_step [OF reach.reach_step [OF reach.reach_start]];
        rule table_step.store) (simp_all add: no_store_faults_def)
  have queued: "queued_submission ?r"
    using build_record_text [of sample_submission, OF _ sample_submission_fields(2)]
    by (simp add: queued_submission_def sample_submission_fields sample_placeholders)
  have uuids: "fj_UUID sample_submission = 7" "fj_UUID ?other = 8"
    by (simp_all add: sample_job_defs)
  have t1: "?t1 = \<lparr>rt_rows = [?r], rt_next = 2\<rparr>"
    by (simp add: storeQueueFaxResult_def no_store_faults_def empty_table_def Let_def
        sample_placeholders numeral_2_eq_2)
  then have rows: "rt_rows ?t2 = [?r, ?q]"
    by (simp add: storeQueueFaxResult_def no_store_faults_def Let_def sample_placeholders uuids
        markSubmissionProcessed_def mark_row_def)
  moreover have "is_real_leg 8 ?q"
    using uuids by (simp add: is_real_leg_def sample_placeholders)
  moreover have "\<not> list_ex (is_real_leg (jr_JobUUID ?r)) [?q]"
    using rows by (intro real_leg_settles_submission [OF reach _ queued, of "[]"]) simp
  ultimately show ?thesis
    using reach queued by blast
qed

text \<open>the success column of a stored row is the call's reported success, or, for a bridged
  call, a hangup with NORMAL\_CLEARING; a row without a result is never a success.\<close>

theorem stored_success:
  "jr_Success (build_record now c job t) =
     (case fj_Result job of None \<Rightarrow> False
      | Some f \<Rightarrow> fr_Success f \<or> (fj_IsBridge job \<and> fr_HangupCause f = ''NORMAL_CLEARING''))"
proof (cases "fj_Result job")
  case None
  then have "\<not> isPlaceholderResult job"
    by (simp add: isPlaceholderResult_def)
  then have "jr_ResultType (base_record now job) \<noteq> ''submission''"
    by (simp add: base_record_def case_prod_beta)
  with None show ?thesis
    by (simp add: build_record_def Let_def bridge_success_def fill_result_def submission_state_def
        base_record_def case_prod_beta)
next
  case (Some f)
  then show ?thesis
    by (auto simp: build_record_def Let_def bridge_success_def fill_result_def)
qed

text \<open>a submission leg stored after a real leg of its job is written with status "processed"
  but keeps the placeholder's outcome: the text and the success flag set for this case are
  overwritten by the copy of the placeholder result. The row stays queued.\<close>

theorem late_submission_stays_queued:
  assumes "fj_Result job = Some f" "fr_HangupCause f = ''WEBHOOK''"
    and "fr_ResultText f = ''queued''" "\<not> fr_Success f" "\<not> fj_IsBridge job"
    and "list_ex (is_real_leg (fj_UUID job)) (rt_rows t)"
    and "r = build_record now False job t"
  shows "jr_Status r = ''processed'' \<and> jr_ResultText r = ''queued'' \<and> \<not> jr_Success r \<and>
         queued_submission r"
proof -
  have "isPlaceholderResult job"
    using assms(1,2) by (simp add: isPlaceholderResult_def placeholderHangupCause_def)
  moreover have "filter (is_real_leg (fj_UUID job)) (rt_rows t) \<noteq> []"
    using assms(6) by (auto simp: list_ex_iff filter_empty_conv)
  moreover have "jr_ResultType (base_record now job) = fst (classifyFaxResult job)"
    by (simp add: base_record_def case_prod_beta)
  ultimately have "jr_Status r = ''processed''" "jr_ResultType r = ''submission''"
    using assms by (simp_all add: build_record_def Let_def bridge_success_def fill_result_def
        submission_state_def)
  moreover have "jr_ResultText r = ''queued''" "\<not> jr_Success r"
    using assms by (simp_all add: build_record_def Let_def bridge_success_def fill_result_def)
  ultimately show ?thesis
    by (simp add: queued_submission_def)
qed

theorem late_submission_stays_queued_witness:
  "queued_submission (build_record 9 False sample_submission
     (snd (storeQueueFaxResult 5 no_store_faults (Some sample_transmission) empty_table)))"
proof -
  let ?t = "snd (storeQueueFaxResult 5 no_store_faults (Some sample_transmission) empty_table)"
  have "list_ex (is_real_leg (fj_UUID sample_submission)) (rt_rows ?t)"
    by (simp add: storeQueueFaxResult_def no_store_faults_def empty_table_def Let_def
        markSubmissionProcessed_def mark_row_def is_real_leg_def sample_placeholders)
       (simp add: sample_submission_def sample_transmission_def)
  from late_submission_stays_queued [OF _ _ _ _ _ this refl, of _ 9]
  show ?thesis
    by (simp add: sample_job_defs)
qed

text \<open>a leg is numbered 0 exactly when it is the submission leg; every real leg has an
  attempt number of at least 1.\<close>

theorem attempt_numbers:
  "case classifyFaxResult job of (ty, _, _, n, _) \<Rightarrow>
     0 \<le> n \<and> (n = 0 \<longleftrightarrow> ty = ''submission'') \<and>
     ty \<in> {''submission'', ''reception'', ''bridge'', ''transmission'', ''delivery''}"
  by (auto simp: classifyFaxResult_def Let_def split: list.splits if_splits prod.splits)

end
