(* ===== verification/Fax_Tracker.thy ===== *)
theory Fax_Tracker
  imports Fax_Job
begin

text \<open>
  The tracker of in-flight jobs (\<open>gofaxserver/faxtracker.go\<close>): the jobs by identifier, the
  reverse index from call identifiers, and the counter of running jobs. Every operation holds
  the tracker's mutex from start to end, so each is one step.
\<close>

section \<open>State\<close>

datatype FaxPhase = PhaseRouted | PhaseAttempt | PhaseReceiving | PhaseBridging | PhaseSending
  | PhaseWaiting | PhaseDone

record FaxRunState =
  st_JobUUID :: uuid
  st_CallUUID :: uuid
  st_SrcTenantID :: nat
  st_DstTenantID :: nat
  st_Caller :: string
  st_Callee :: string
  st_Gateway :: string
  st_Phase :: FaxPhase
  st_Attempt :: int
  st_MaxAttempts :: int
  st_CurrentPrio :: nat
  st_EndpointType :: string
  st_EndpointLabel :: string
  st_EndpointValue :: string
  st_LastError :: string
  st_LastResult :: string
  st_ResultSuccess :: "bool option"
  st_ResultSnapshot :: "FaxResult option"
  st_EnqueuedAt :: time
  st_StartedAt :: time
  st_UpdatedAt :: time
  st_CompletedAt :: "time option"

record FaxTracker =
  byJob :: "(uuid \<times> FaxRunState) list"
  byCall :: "(uuid \<times> uuid) list"
  running :: int

section \<open>Operations\<close>

definition NewFaxTracker :: FaxTracker where
  "NewFaxTracker = \<lparr>byJob = [], byCall = [], running = 0\<rparr>"

definition new_run_state :: "time \<Rightarrow> FaxJob \<Rightarrow> FaxRunState" where
  "new_run_state now job =
    \<lparr>st_JobUUID = fj_UUID job, st_CallUUID = fj_CallUUID job, st_SrcTenantID = fj_SrcTenantID job,
     st_DstTenantID = fj_DstTenantID job, st_Caller = fj_CallerIdNumber job,
     st_Callee = fj_CalleeNumber job, st_Gateway = si_Source (fj_SourceInfo job),
     st_Phase = PhaseRouted, st_Attempt = 0, st_MaxAttempts = 0, st_CurrentPrio = 0,
     st_EndpointType = [], st_EndpointLabel = [], st_EndpointValue = [], st_LastError = [],
     st_LastResult = [], st_ResultSuccess = None, st_ResultSnapshot = None, st_EnqueuedAt = now,
     st_StartedAt = zero_time, st_UpdatedAt = now, st_CompletedAt = None\<rparr>"

definition Begin :: "time \<Rightarrow> FaxJob \<Rightarrow> FaxTracker \<Rightarrow> FaxTracker" where
  "Begin now job t =
    (let t1 = (case map_of (byJob t) (fj_UUID job) of
           None \<Rightarrow> t\<lparr>byJob := AList.update (fj_UUID job) (new_run_state now job) (byJob t),
                      running := running t + 1\<rparr>
         | Some st \<Rightarrow> t\<lparr>byJob := AList.update (fj_UUID job)
             (st\<lparr>st_CallUUID := fj_CallUUID job, st_Caller := fj_CallerIdNumber job,
                 st_Callee := fj_CalleeNumber job,
                 st_Gateway := (if si_Source (fj_SourceInfo job) \<noteq> [] then si_Source (fj_SourceInfo job)
                                else st_Gateway st),
                 st_Phase := PhaseRouted, st_UpdatedAt := now\<rparr>) (byJob t)\<rparr>)
     in if fj_CallUUID job \<noteq> uuid_Nil
        then t1\<lparr>byCall := AList.update (fj_CallUUID job) (fj_UUID job) (byCall t1)\<rparr> else t1)"

definition SetCall :: "time \<Rightarrow> uuid \<Rightarrow> uuid \<Rightarrow> FaxTracker \<Rightarrow> FaxTracker" where
  "SetCall now jobID callID t = (case map_of (byJob t) jobID of
      None \<Rightarrow> t
    | Some st \<Rightarrow>
       let calls = (if st_CallUUID st \<noteq> uuid_Nil then AList.delete (st_CallUUID st) (byCall t) else byCall t)
       in t\<lparr>byJob := AList.update jobID (st\<lparr>st_CallUUID := callID, st_UpdatedAt := now\<rparr>) (byJob t),
            byCall := (if callID \<noteq> uuid_Nil then AList.update callID jobID calls else calls)\<rparr>)"

definition MarkAttempt :: "time \<Rightarrow> uuid \<Rightarrow> uuid \<Rightarrow> int \<Rightarrow> int \<Rightarrow> nat \<Rightarrow> string \<Rightarrow> string \<Rightarrow> string
    \<Rightarrow> FaxTracker \<Rightarrow> FaxTracker" where
  "MarkAttempt now jobID callID attempt maxAttempts prio epType epLabel epValue t =
    (case map_of (byJob t) jobID of
      None \<Rightarrow> t
    | Some st \<Rightarrow> t\<lparr>byJob := AList.update jobID
        (st\<lparr>st_CallUUID := callID, st_Attempt := attempt, st_MaxAttempts := maxAttempts,
            st_CurrentPrio := prio, st_EndpointType := epType, st_EndpointLabel := epLabel,
            st_EndpointValue := epValue, st_Phase := PhaseAttempt, st_StartedAt := now,
            st_UpdatedAt := now\<rparr>) (byJob t),
        byCall := AList.update callID jobID (byCall t)\<rparr>)"

definition MarkResult :: "time \<Rightarrow> uuid \<Rightarrow> uuid \<Rightarrow> bool \<Rightarrow> string \<Rightarrow> string \<Rightarrow> FaxResult option
    \<Rightarrow> FaxTracker \<Rightarrow> FaxTracker" where
  "MarkResult now jobID callID success returned lastErr res t =
    (case map_of (byJob t) jobID of
      None \<Rightarrow> t
    | Some st \<Rightarrow> t\<lparr>byJob := AList.update jobID
        (st\<lparr>st_CallUUID := callID, st_LastResult := returned, st_LastError := lastErr,
            st_ResultSuccess := Some success,
            st_ResultSnapshot := (case res of None \<Rightarrow> st_ResultSnapshot st | Some r \<Rightarrow> Some r),
            st_UpdatedAt := now\<rparr>) (byJob t)\<rparr>)"

text \<open>The shared shape of the phase marks.\<close>

definition mark_phase :: "uuid \<Rightarrow> (FaxRunState \<Rightarrow> FaxRunState) \<Rightarrow> FaxTracker \<Rightarrow> FaxTracker" where
  "mark_phase jobID upd t = (case map_of (byJob t) jobID of
      None \<Rightarrow> t | Some st \<Rightarrow> t\<lparr>byJob := AList.update jobID (upd st) (byJob t)\<rparr>)"

definition started :: "time \<Rightarrow> FaxRunState \<Rightarrow> FaxRunState" where
  "started now st =
     st\<lparr>st_StartedAt := (if st_StartedAt st = zero_time then now else st_StartedAt st),
        st_UpdatedAt := now\<rparr>"

definition MarkWaiting :: "time \<Rightarrow> uuid \<Rightarrow> FaxTracker \<Rightarrow> FaxTracker" where
  "MarkWaiting now jobID =
     mark_phase jobID (\<lambda>st. st\<lparr>st_Phase := PhaseWaiting, st_UpdatedAt := now\<rparr>)"

definition MarkReceiving :: "time \<Rightarrow> uuid \<Rightarrow> FaxTracker \<Rightarrow> FaxTracker" where
  "MarkReceiving now jobID = mark_phase jobID (\<lambda>st. started now (st\<lparr>st_Phase := PhaseReceiving\<rparr>))"

definition MarkBridging :: "time \<Rightarrow> uuid \<Rightarrow> string \<Rightarrow> string \<Rightarrow> FaxTracker \<Rightarrow> FaxTracker" where
  "MarkBridging now jobID dir gw = mark_phase jobID
     (\<lambda>st. started now (st\<lparr>st_Phase := PhaseBridging, st_EndpointLabel := dir, st_EndpointValue := gw\<rparr>))"

definition MarkSending :: "time \<Rightarrow> uuid \<Rightarrow> FaxTracker \<Rightarrow> FaxTracker" where
  "MarkSending now jobID = mark_phase jobID (\<lambda>st. started now (st\<lparr>st_Phase := PhaseSending\<rparr>))"

text \<open>\<open>Complete\<close>. The terminal stamps written to the state object just before it leaves the map
  are visible to no one and are left out.\<close>

definition Complete :: "uuid \<Rightarrow> FaxTracker \<Rightarrow> FaxTracker" where
  "Complete jobID t = (case map_of (byJob t) jobID of
      None \<Rightarrow> t
    | Some st \<Rightarrow>
       if st_Phase st = PhaseDone then t
       else t\<lparr>byCall := (if st_CallUUID st \<noteq> uuid_Nil then AList.delete (st_CallUUID st) (byCall t)
                          else byCall t),
              running := (if running t > 0 then running t - 1 else running t),
              byJob := AList.delete jobID (byJob t)\<rparr>)"

definition ActiveCount :: "FaxTracker \<Rightarrow> int" where
  "ActiveCount t = running t"

definition Snapshot :: "FaxTracker \<Rightarrow> FaxRunState list" where
  "Snapshot t = map snd (byJob t)"

definition tracker_Get :: "uuid \<Rightarrow> FaxTracker \<Rightarrow> FaxRunState option" where
  "tracker_Get jobID t = map_of (byJob t) jobID"

definition FindJobByCall :: "uuid \<Rightarrow> FaxTracker \<Rightarrow> uuid option" where
  "FindJobByCall callID t = map_of (byCall t) callID"

section \<open>Steps\<close>

text \<open>Any operation, by any goroutine. The marks and \<open>MarkResult\<close> take the arguments the source
  allows.\<close>

inductive tracker_step :: "FaxTracker \<Rightarrow> FaxTracker \<Rightarrow> bool" where
  ts_Begin: "tracker_step t (Begin now job t)"
| ts_SetCall: "tracker_step t (SetCall now j c t)"
| ts_MarkAttempt: "tracker_step t (MarkAttempt now j c a m p ty lb vl t)"
| ts_MarkResult: "tracker_step t (MarkResult now j c s r e f t)"
| ts_MarkWaiting: "tracker_step t (MarkWaiting now j t)"
| ts_MarkReceiving: "tracker_step t (MarkReceiving now j t)"
| ts_MarkBridging: "tracker_step t (MarkBridging now j dir gw t)"
| ts_MarkSending: "tracker_step t (MarkSending now j t)"
| ts_Complete: "tracker_step t (Complete j t)"

text \<open>The counter is the number of tracked jobs, no tracked job is done, and each job is filed
  under its own identifier.\<close>

definition tracker_inv :: "FaxTracker \<Rightarrow> bool" where
  "tracker_inv t \<longleftrightarrow> distinct (map fst (byJob t)) \<and> distinct (map fst (byCall t)) \<and>
     running t = int (length (byJob t)) \<and>
     (\<forall>j st. map_of (byJob t) j = Some st \<longrightarrow> st_JobUUID st = j \<and> st_Phase st \<noteq> PhaseDone)"

section \<open>Lemmas\<close>

declare map_of_eq_Some_iff [simp del] Some_eq_map_of_iff [simp del]

lemmas tracker_defs = Begin_def SetCall_def MarkAttempt_def MarkResult_def mark_phase_def
  MarkWaiting_def MarkReceiving_def MarkBridging_def MarkSending_def Complete_def started_def

lemma tracker_inv_new: "tracker_inv NewFaxTracker"
  by (simp add: tracker_inv_def NewFaxTracker_def)

text \<open>Rewriting one tracked job's state.\<close>

lemma tracker_inv_update:
  assumes "tracker_inv t" "map_of (byJob t) j = Some st"
    and "st_JobUUID st' = st_JobUUID st" "st_Phase st' \<noteq> PhaseDone" "distinct (map fst calls)"
  shows "tracker_inv (t\<lparr>byJob := AList.update j st' (byJob t), byCall := calls\<rparr>)"
  using assms
  by (auto simp: tracker_inv_def gomap.size_update gomap.invar_update update_conv' split: if_splits)

lemma tracker_inv_mark:
  assumes "tracker_inv t"
    and "\<And>st. st_JobUUID (upd st) = st_JobUUID st"
    and "\<And>st. st_Phase st \<noteq> PhaseDone \<Longrightarrow> st_Phase (upd st) \<noteq> PhaseDone"
  shows "tracker_inv (mark_phase j upd t)"
proof (cases "map_of (byJob t) j")
  case (Some st)
  with assms have "st_Phase st \<noteq> PhaseDone" "distinct (map fst (byCall t))"
    by (auto simp: tracker_inv_def)
  with tracker_inv_update [OF assms(1) Some, of "upd st" "byCall t"] assms Some show ?thesis
    by (simp add: mark_phase_def)
qed (use assms in \<open>simp add: mark_phase_def\<close>)

lemma tracker_inv_Begin: "tracker_inv t \<Longrightarrow> tracker_inv (Begin now job t)"
  by (auto simp: tracker_inv_def Begin_def Let_def new_run_state_def gomap.size_update
      gomap.invar_update update_conv' split: option.splits if_splits)

lemma tracker_inv_SetCall: "tracker_inv t \<Longrightarrow> tracker_inv (SetCall now j c t)"
  by (auto simp: tracker_inv_def SetCall_def Let_def gomap.size_update gomap.invar_update
      gomap.invar_delete update_conv' split: option.splits if_splits)

lemma tracker_inv_MarkAttempt:
  "tracker_inv t \<Longrightarrow> tracker_inv (MarkAttempt now j c a m p ty lb vl t)"
  by (auto simp: tracker_inv_def MarkAttempt_def gomap.size_update gomap.invar_update update_conv'
      split: option.splits if_splits)

lemma tracker_inv_MarkResult: "tracker_inv t \<Longrightarrow> tracker_inv (MarkResult now j c s r e f t)"
  by (auto simp: tracker_inv_def MarkResult_def gomap.size_update gomap.invar_update update_conv'
      split: option.splits if_splits)

lemma tracker_inv_Complete:
  assumes "tracker_inv t" shows "tracker_inv (Complete j t)"
proof (cases "map_of (byJob t) j")
  case (Some st)
  then have "Suc (length (AList.delete j (byJob t))) = length (byJob t)"
    using assms by (intro length_delete_old) (auto simp: tracker_inv_def)
  with assms Some show ?thesis
    by (auto simp: tracker_inv_def Complete_def gomap.invar_delete delete_conv' split: if_splits)
qed (use assms in \<open>simp add: Complete_def\<close>)

lemma tracker_inv_step: "tracker_inv s \<Longrightarrow> tracker_step s t \<Longrightarrow> tracker_inv t"
  by (erule tracker_step.cases)
     (auto simp: MarkWaiting_def MarkReceiving_def MarkBridging_def MarkSending_def started_def
       intro!: tracker_inv_Begin tracker_inv_SetCall tracker_inv_MarkAttempt
         tracker_inv_MarkResult tracker_inv_Complete tracker_inv_mark)

interpretation tracker: step_invariant tracker_step NewFaxTracker tracker_inv
  by unfold_locales (rule tracker_inv_new, rule tracker_inv_step)


subsection \<open>The reverse index\<close>

text \<open>
  The discipline of the queue worker when one attempt runs at a time: a job is begun anew or
  again with the call it has, an attempt sets a fresh call and marks it, and no other caller
  writes the index.
\<close>

inductive serial_step :: "FaxTracker \<Rightarrow> FaxTracker \<Rightarrow> bool" where
  ss_new: "map_of (byJob t) (fj_UUID job) = None \<Longrightarrow>
     fj_CallUUID job = uuid_Nil \<or> map_of (byCall t) (fj_CallUUID job) = None \<Longrightarrow>
     serial_step t (Begin now job t)"
| ss_again: "map_of (byJob t) (fj_UUID job) = Some st \<Longrightarrow> st_CallUUID st = fj_CallUUID job \<Longrightarrow>
     serial_step t (Begin now job t)"
| ss_attempt: "c \<noteq> uuid_Nil \<Longrightarrow> map_of (byCall t) c = None \<Longrightarrow>
     serial_step t (MarkAttempt now j c a m p ty lb vl (SetCall now' j c t))"
| ss_waiting: "serial_step t (MarkWaiting now j t)"
| ss_receiving: "serial_step t (MarkReceiving now j t)"
| ss_bridging: "serial_step t (MarkBridging now j dir gw t)"
| ss_sending: "serial_step t (MarkSending now j t)"
| ss_complete: "serial_step t (Complete j t)"

text \<open>The index holds exactly the current calls of the tracked jobs.\<close>

definition index_exact :: "FaxTracker \<Rightarrow> bool" where
  "index_exact t \<longleftrightarrow> (\<forall>c j. FindJobByCall c t = Some j \<longleftrightarrow>
     c \<noteq> uuid_Nil \<and> (\<exists>st. tracker_Get j t = Some st \<and> st_CallUUID st = c))"

text \<open>The same on the two maps the tracker holds: from calls to jobs, and from jobs to calls.\<close>

definition inverse_index :: "(uuid \<rightharpoonup> uuid) \<Rightarrow> (uuid \<rightharpoonup> uuid) \<Rightarrow> bool" where
  "inverse_index C K \<longleftrightarrow> (\<forall>c j. C c = Some j \<longleftrightarrow> c \<noteq> uuid_Nil \<and> K j = Some c)"

definition calls_of :: "FaxTracker \<Rightarrow> uuid \<rightharpoonup> uuid" where
  "calls_of t = map_option st_CallUUID \<circ> map_of (byJob t)"

lemma index_exact_alt: "index_exact t \<longleftrightarrow> inverse_index (map_of (byCall t)) (calls_of t)"
  by (auto simp: index_exact_def inverse_index_def calls_of_def FindJobByCall_def tracker_Get_def)

lemma inverse_index_replace:
  assumes "inverse_index C K" "K j = Some c0" "c \<noteq> uuid_Nil" "c = c0 \<or> C c = None"
  shows "inverse_index (C(c0 := None, c \<mapsto> j)) (K(j \<mapsto> c))"
  unfolding inverse_index_def
proof (intro allI)
  fix c' j'
  have inv: "C x = Some y \<longleftrightarrow> x \<noteq> uuid_Nil \<and> K y = Some x" for x y
    using assms(1) by (simp add: inverse_index_def)
  have "j' \<noteq> j \<Longrightarrow> c0 \<noteq> uuid_Nil \<Longrightarrow> K j' \<noteq> Some c0"
    using inv [of c0 j] inv [of c0 j'] assms(2) by auto
  moreover have "c \<noteq> c0 \<Longrightarrow> K j' \<noteq> Some c"
    using inv [of c j'] assms(3,4) by auto
  ultimately show "(C(c0 := None, c \<mapsto> j)) c' = Some j' \<longleftrightarrow> c' \<noteq> uuid_Nil \<and> (K(j \<mapsto> c)) j' = Some c'"
    using inv [of c' j'] assms(2,3) by auto
qed

lemma inverse_index_add:
  "inverse_index C K \<Longrightarrow> K j = None \<Longrightarrow> c \<noteq> uuid_Nil \<Longrightarrow> C c = None \<Longrightarrow>
   inverse_index (C(c \<mapsto> j)) (K(j \<mapsto> c))"
  unfolding inverse_index_def fun_upd_apply by (metis option.inject option.distinct(1))

lemma inverse_index_add_Nil:
  "inverse_index C K \<Longrightarrow> K j = None \<or> K j = Some uuid_Nil \<Longrightarrow> inverse_index C (K(j \<mapsto> uuid_Nil))"
  unfolding inverse_index_def fun_upd_apply by (metis option.inject option.distinct(1))

lemma inverse_index_del:
  "inverse_index C K \<Longrightarrow> K j = Some c \<Longrightarrow> inverse_index (C(c := None)) (K(j := None))"
  unfolding inverse_index_def fun_upd_apply by (metis option.inject option.distinct(1))

lemma inverse_index_Nil: "inverse_index C K \<Longrightarrow> C(uuid_Nil := None) = C"
  by (cases "C uuid_Nil") (auto simp: inverse_index_def fun_upd_idem)

lemma calls_of_upd [simp]:
  "map_option st_CallUUID \<circ> m(j \<mapsto> st) = (map_option st_CallUUID \<circ> m)(j \<mapsto> st_CallUUID st)"
  "map_option st_CallUUID \<circ> m(j := None) = (map_option st_CallUUID \<circ> m)(j := None)"
  by (auto simp: fun_eq_iff)

lemma calls_of_same:
  "map_of (byJob t) j = Some st \<Longrightarrow> (calls_of t)(j \<mapsto> st_CallUUID st) = calls_of t"
  by (simp add: calls_of_def fun_upd_idem)

lemma index_exact_mark:
  assumes "index_exact t" and "\<And>st. st_CallUUID (upd st) = st_CallUUID st"
  shows "index_exact (mark_phase j upd t)"
proof (cases "map_of (byJob t) j")
  case (Some st)
  then have "calls_of (mark_phase j upd t) = calls_of t"
    using assms(2) calls_of_same [OF Some] by (simp add: mark_phase_def calls_of_def update_conv')
  with assms(1) Some show ?thesis
    by (simp add: index_exact_alt mark_phase_def)
qed (use assms in \<open>simp add: mark_phase_def\<close>)

lemma index_exact_new:
  assumes "index_exact t" "map_of (byJob t) (fj_UUID job) = None"
    and "fj_CallUUID job = uuid_Nil \<or> map_of (byCall t) (fj_CallUUID job) = None"
  shows "index_exact (Begin now job t)"
proof -
  have "calls_of (Begin now job t) = (calls_of t)(fj_UUID job \<mapsto> fj_CallUUID job)"
    using assms(2) by (simp add: Begin_def Let_def calls_of_def update_conv' new_run_state_def)
  moreover have "calls_of t (fj_UUID job) = None"
    using assms(2) by (simp add: calls_of_def)
  moreover have "map_of (byCall (Begin now job t)) = (if fj_CallUUID job = uuid_Nil then map_of (byCall t)
      else (map_of (byCall t))(fj_CallUUID job \<mapsto> fj_UUID job))"
    using assms(2) by (simp add: Begin_def Let_def update_conv')
  ultimately show ?thesis
    using assms by (cases "fj_CallUUID job = uuid_Nil")
      (simp_all add: index_exact_alt inverse_index_add inverse_index_add_Nil)
qed

lemma index_exact_again:
  assumes "index_exact t" "map_of (byJob t) (fj_UUID job) = Some st"
    and "st_CallUUID st = fj_CallUUID job"
  shows "index_exact (Begin now job t)"
proof -
  have "calls_of (Begin now job t) = calls_of t"
    using assms(2,3) calls_of_same [OF assms(2)]
    by (auto simp: Begin_def Let_def calls_of_def update_conv')
  moreover have "map_of (byCall (Begin now job t)) = map_of (byCall t)"
    using assms by (simp add: Begin_def Let_def update_conv' index_exact_alt inverse_index_def
        calls_of_def fun_upd_idem)
  ultimately show ?thesis
    using assms(1) by (simp add: index_exact_alt)
qed

lemma index_exact_attempt:
  assumes "index_exact t" "c \<noteq> uuid_Nil" "map_of (byCall t) c = None"
  shows "index_exact (MarkAttempt now j c a m p ty lb vl (SetCall now' j c t))" (is "index_exact ?t")
proof (cases "map_of (byJob t) j")
  case (Some st)
  have inv: "inverse_index (map_of (byCall t)) (calls_of t)"
    using assms(1) by (simp add: index_exact_alt)
  have "calls_of ?t = (calls_of t)(j \<mapsto> c)"
    using Some by (simp add: SetCall_def MarkAttempt_def Let_def calls_of_def update_conv')
  moreover have "map_of (byCall ?t) = (map_of (byCall t))(st_CallUUID st := None, c \<mapsto> j)"
    using Some assms(2) inverse_index_Nil [OF inv]
    by (simp add: SetCall_def MarkAttempt_def Let_def update_conv' delete_conv')
  moreover have "calls_of t j = Some (st_CallUUID st)"
    using Some by (simp add: calls_of_def)
  ultimately show ?thesis
    using inverse_index_replace [OF inv] assms(2,3) by (simp add: index_exact_alt)
qed (use assms in \<open>simp add: SetCall_def MarkAttempt_def\<close>)

lemma index_exact_complete:
  assumes "index_exact t" "tracker_inv t"
  shows "index_exact (Complete j t)"
proof (cases "map_of (byJob t) j")
  case (Some st)
  have inv: "inverse_index (map_of (byCall t)) (calls_of t)"
    using assms(1) by (simp add: index_exact_alt)
  have "st_Phase st \<noteq> PhaseDone"
    using assms(2) Some by (simp add: tracker_inv_def)
  then have "calls_of (Complete j t) = (calls_of t)(j := None)"
    and "map_of (byCall (Complete j t)) = (map_of (byCall t))(st_CallUUID st := None)"
    using Some inverse_index_Nil [OF inv]
    by (simp_all add: Complete_def calls_of_def delete_conv')
  moreover have "calls_of t j = Some (st_CallUUID st)"
    using Some by (simp add: calls_of_def)
  ultimately show ?thesis
    using inverse_index_del [OF inv] by (simp add: index_exact_alt)
qed (use assms in \<open>simp add: Complete_def\<close>)

lemma serial_step_inv: "serial_step s t \<Longrightarrow> tracker_inv s \<Longrightarrow> tracker_inv t"
  by (erule serial_step.cases)
     (auto simp: MarkWaiting_def MarkReceiving_def MarkBridging_def MarkSending_def started_def
       intro!: tracker_inv_Begin tracker_inv_SetCall tracker_inv_MarkAttempt
         tracker_inv_Complete tracker_inv_mark)

lemma serial_step_index: "serial_step s t \<Longrightarrow> tracker_inv s \<Longrightarrow> index_exact s \<Longrightarrow> index_exact t"
  by (erule serial_step.cases)
     (auto simp: MarkWaiting_def MarkReceiving_def MarkBridging_def MarkSending_def started_def
       intro: index_exact_new index_exact_again index_exact_attempt index_exact_complete
       intro!: index_exact_mark)

interpretation serial: step_invariant serial_step NewFaxTracker "\<lambda>t. tracker_inv t \<and> index_exact t"
  by unfold_locales
     (auto simp: tracker_inv_new intro: serial_step_inv serial_step_index,
      simp add: index_exact_def FindJobByCall_def tracker_Get_def NewFaxTracker_def)

lemmas tracker_reach = reach.reach_step [where R = tracker_step]

section \<open>Properties\<close>

text \<open>whatever operations run in whatever order, the running counter is the number of tracked
  jobs, no job is tracked twice and none that is tracked is done.\<close>

theorem running_is_tracked:
  assumes "reach tracker_step NewFaxTracker t"
  shows "ActiveCount t = int (length (Snapshot t)) \<and> distinct (map st_JobUUID (Snapshot t)) \<and>
         PhaseDone \<notin> st_Phase ` set (Snapshot t)"
proof -
  have inv: "tracker_inv t"
    using assms by (rule tracker.reach_holds)
  then have own: "st_JobUUID st = j \<and> st_Phase st \<noteq> PhaseDone" if "(j, st) \<in> set (byJob t)" for j st
    using that by (auto simp: tracker_inv_def map_of_eq_Some_iff)
  then have "map st_JobUUID (Snapshot t) = map fst (byJob t)"
    by (auto simp: Snapshot_def)
  moreover have "PhaseDone \<notin> st_Phase ` set (Snapshot t)"
    using own by (force simp: Snapshot_def)
  ultimately show ?thesis
    using inv unfolding tracker_inv_def ActiveCount_def by (metis Snapshot_def length_map)
qed

theorem running_is_tracked_witness:
  "\<exists>t. reach tracker_step NewFaxTracker t \<and> ActiveCount t = 1 \<and> length (Snapshot t) = 1"
proof -
  let ?t = "Begin 4 zero_FaxJob NewFaxTracker"
  have r: "reach tracker_step NewFaxTracker ?t"
    by (rule tracker_reach [OF reach.reach_start ts_Begin])
  moreover have "length (Snapshot ?t) = 1"
    by (simp add: Snapshot_def Begin_def NewFaxTracker_def Let_def zero_FaxJob_def)
  moreover have "ActiveCount ?t = int (length (Snapshot ?t))"
    using running_is_tracked [OF r] by blast
  ultimately show ?thesis
    by (intro exI [of _ ?t]) simp
qed

text \<open>completing a job removes it and decrements the counter exactly once; completing it again
  changes nothing.\<close>

theorem complete_once:
  assumes "reach tracker_step NewFaxTracker t"
  shows "tracker_Get j (Complete j t) = None \<and> Complete j (Complete j t) = Complete j t \<and>
         ActiveCount (Complete j t) = ActiveCount t - (if tracker_Get j t = None then 0 else 1)"
proof -
  have inv: "tracker_inv t" and inv': "tracker_inv (Complete j t)"
    using assms tracker.reach_holds tracker_inv_Complete by blast+
  show ?thesis
  proof (cases "map_of (byJob t) j")
    case (Some st)
    with inv have "st_Phase st \<noteq> PhaseDone" "running t > 0"
      by (auto simp: tracker_inv_def)
    with Some show ?thesis
      by (simp add: Complete_def tracker_Get_def ActiveCount_def delete_conv')
  qed (simp add: Complete_def tracker_Get_def)
qed

theorem complete_once_witness:
  "ActiveCount (Complete 0 (Begin 4 zero_FaxJob NewFaxTracker)) = 0"
  using complete_once [OF tracker_reach [OF reach.reach_start ts_Begin], of 0 4 zero_FaxJob]
  by (simp add: ActiveCount_def tracker_Get_def Begin_def NewFaxTracker_def Let_def zero_FaxJob_def)

text \<open>as long as the attempts of a job run one after the other, the reverse index holds exactly
  the current calls of the tracked jobs, so completing a job leaves none of its calls behind.\<close>

theorem serial_index_exact:
  assumes "reach serial_step NewFaxTracker t"
  shows "FindJobByCall c t = Some j \<longleftrightarrow>
     c \<noteq> uuid_Nil \<and> (\<exists>st. tracker_Get j t = Some st \<and> st_CallUUID st = c)"
  using serial.reach_holds [OF assms] by (simp add: index_exact_def)

theorem serial_index_exact_witness:
  "FindJobByCall 9 (Begin 4 (zero_FaxJob\<lparr>fj_UUID := 3, fj_CallUUID := 9\<rparr>) NewFaxTracker) = Some 3"
proof -
  let ?t = "Begin 4 (zero_FaxJob\<lparr>fj_UUID := 3, fj_CallUUID := 9\<rparr>) NewFaxTracker"
  have "reach serial_step NewFaxTracker ?t"
    by (rule reach.reach_step [where R = serial_step, OF reach.reach_start ss_new])
       (simp_all add: NewFaxTracker_def)
  from serial_index_exact [OF this, of 9 3] show ?thesis
    by (simp add: tracker_Get_def Begin_def NewFaxTracker_def Let_def zero_FaxJob_def new_run_state_def)
qed

text \<open>when two workers of one job interleave their attempts, the index keeps the first worker's
  call after the job is completed: \<open>SetCall\<close> and \<open>MarkAttempt\<close> lock separately, and
  \<open>MarkAttempt\<close> re-adds a call that the other worker's \<open>SetCall\<close> has already dropped.\<close>

theorem interleaved_attempts_leak:
  assumes "tracker_Get j t = Some st" "st_Phase st \<noteq> PhaseDone"
    and "c1 \<noteq> c2"
    and "t1 = SetCall n2 j c2 (SetCall n1 j c1 t)"
    and "t2 = MarkAttempt n4 j c2 a2 m2 p2 ty2 lb2 vl2 (MarkAttempt n3 j c1 a1 m1 p1 ty1 lb1 vl1 t1)"
  shows "tracker_Get j (Complete j t2) = None \<and> FindJobByCall c1 (Complete j t2) = Some j"
  using assms
  by (simp add: tracker_Get_def FindJobByCall_def SetCall_def MarkAttempt_def Complete_def Let_def
      update_conv' delete_conv')

theorem interleaved_attempts_leak_witness:
  "\<exists>t. reach tracker_step NewFaxTracker t \<and> tracker_Get 3 t = None \<and> FindJobByCall 11 t = Some 3"
proof -
  let ?t0 = "Begin 4 (zero_FaxJob\<lparr>fj_UUID := 3\<rparr>) NewFaxTracker"
  let ?t1 = "SetCall 6 3 12 (SetCall 5 3 11 ?t0)"
  let ?t2 = "MarkAttempt 8 3 12 1 3 0 [] [] [] (MarkAttempt 7 3 11 1 3 0 [] [] [] ?t1)"
  have "tracker_Get 3 ?t0 = Some (new_run_state 4 (zero_FaxJob\<lparr>fj_UUID := 3\<rparr>))"
    by (simp add: tracker_Get_def Begin_def NewFaxTracker_def Let_def zero_FaxJob_def)
  from interleaved_attempts_leak [OF this _ _ refl refl, of 11 12]
  have "tracker_Get 3 (Complete 3 ?t2) = None" "FindJobByCall 11 (Complete 3 ?t2) = Some 3"
    by (simp_all add: new_run_state_def)
  moreover have "reach tracker_step NewFaxTracker (Complete 3 ?t2)"
    by (intro tracker_reach [OF _ ts_Complete] tracker_reach [OF _ ts_MarkAttempt]
        tracker_reach [OF _ ts_SetCall] tracker_reach [OF _ ts_Begin] reach.reach_start)
  ultimately show ?thesis
    by blast
qed

end
