(* ===== verification/Fax_Policy.thy ===== *)
theory Fax_Policy
  imports Fax_Job
begin

text \<open>
  The fax policy engine (\<open>gofaxserver/faxpolicy.go\<close>), first part: the rules, which of them
  match a call, and how the matching rules are resolved into the T.38, ECM and V.17 policy of
  the call. Scopes, effects and origins are strings, as they are stored; the timestamps the
  database layer maintains by itself are left out.
\<close>

section \<open>Data\<close>

definition CallTypeSoftmodem :: string where "CallTypeSoftmodem = ''softmodem''"
definition CallTypeBridge :: string where "CallTypeBridge = ''bridge''"
definition PolicyScopeDst :: string where "PolicyScopeDst = ''dst''"
definition PolicyScopeSrc :: string where "PolicyScopeSrc = ''src''"
definition PolicyScopePair :: string where "PolicyScopePair = ''pair''"
definition PolicyEffectT38Off :: string where "PolicyEffectT38Off = ''t38_off''"
definition PolicyEffectT38On :: string where "PolicyEffectT38On = ''t38_on''"
definition PolicyEffectECMOff :: string where "PolicyEffectECMOff = ''ecm_off''"
definition PolicyEffectECMOn :: string where "PolicyEffectECMOn = ''ecm_on''"
definition PolicyEffectV17Off :: string where "PolicyEffectV17Off = ''v17_off''"
definition PolicyEffectSoftmodemOnly :: string where "PolicyEffectSoftmodemOnly = ''softmodem_only''"
definition PolicyEffectVarOverride :: string where "PolicyEffectVarOverride = ''var_override''"
definition PolicyOriginManual :: string where "PolicyOriginManual = ''manual''"
definition PolicyOriginAuto :: string where "PolicyOriginAuto = ''auto''"

lemmas policy_consts = CallTypeSoftmodem_def CallTypeBridge_def PolicyScopeDst_def PolicyScopeSrc_def
  PolicyScopePair_def PolicyEffectT38Off_def PolicyEffectT38On_def PolicyEffectECMOff_def
  PolicyEffectECMOn_def PolicyEffectV17Off_def PolicyEffectSoftmodemOnly_def
  PolicyEffectVarOverride_def PolicyOriginManual_def PolicyOriginAuto_def

record FaxPolicyRule =
  pr_ID :: nat
  pr_Scope :: string
  pr_SrcNumber :: string
  pr_DstNumber :: string
  pr_Effect :: string
  pr_AppliesTo :: string
  pr_Origin :: string
  pr_Enabled :: bool
  pr_ExpiresAt :: "time option"
  pr_VarName :: string
  pr_VarValue :: string
  pr_FailureCount :: int
  pr_SuccessCount :: int
  pr_LastSeenAt :: "time option"
  pr_LastT38Status :: string
  pr_Notes :: string

record FaxPolicy =
  fp_EnableT38 :: bool
  fp_RequestT38 :: bool
  fp_UseECM :: "bool option"
  fp_DisableV17 :: "bool option"
  fp_T38Decided :: bool
  fp_T38ForcedOff :: bool
  fp_SoftmodemOnly :: bool
  fp_VarOverrides :: "(string \<times> string) list"
  fp_AppliedRuleIDs :: "nat list"

section \<open>Operations\<close>

definition DefaultFaxPolicy :: "FaxingConfig \<Rightarrow> FaxPolicy" where
  "DefaultFaxPolicy cfg = \<lparr>fp_EnableT38 = cf_EnableT38 cfg, fp_RequestT38 = cf_RequestT38 cfg,
     fp_UseECM = None, fp_DisableV17 = None, fp_T38Decided = False, fp_T38ForcedOff = False,
     fp_SoftmodemOnly = False, fp_VarOverrides = [], fp_AppliedRuleIDs = []\<rparr>"

definition scopeRank :: "string \<Rightarrow> nat" where
  "scopeRank s = (if s = PolicyScopePair then 0 else if s = PolicyScopeDst then 1 else 2)"

definition originRank :: "string \<Rightarrow> nat" where
  "originRank s = (if s = PolicyOriginManual then 0 else 1)"

definition effectRank :: "string \<Rightarrow> nat" where
  "effectRank s = (if s = PolicyEffectT38On \<or> s = PolicyEffectECMOn then 1 else 0)"

definition rule_expired :: "time \<Rightarrow> FaxPolicyRule \<Rightarrow> bool" where
  "rule_expired now r = (case pr_ExpiresAt r of None \<Rightarrow> False | Some e \<Rightarrow> now > e)"

definition ruleMatches :: "FaxPolicyRule \<Rightarrow> string \<Rightarrow> string \<Rightarrow> string \<Rightarrow> time \<Rightarrow> bool" where
  "ruleMatches r srcNum dstNum callType now =
    (if \<not> pr_Enabled r then False
     else if rule_expired now r then False
     else if pr_AppliesTo r \<noteq> [] \<and> pr_AppliesTo r \<noteq> ''both'' \<and> pr_AppliesTo r \<noteq> callType then False
     else if pr_Scope r = PolicyScopePair then pr_SrcNumber r = srcNum \<and> pr_DstNumber r = dstNum
     else if pr_Scope r = PolicyScopeDst then
       (if pr_DstNumber r = dstNum then True
        else pr_Origin r = PolicyOriginAuto \<and> pr_DstNumber r = srcNum)
     else if pr_Scope r = PolicyScopeSrc then pr_SrcNumber r = srcNum
     else False)"

text \<open>The comparison function of the stable sort.\<close>

definition rule_less :: "FaxPolicyRule \<Rightarrow> FaxPolicyRule \<Rightarrow> bool" where
  "rule_less a b =
    (if scopeRank (pr_Scope a) \<noteq> scopeRank (pr_Scope b)
     then scopeRank (pr_Scope a) < scopeRank (pr_Scope b)
     else if originRank (pr_Origin a) \<noteq> originRank (pr_Origin b)
     then originRank (pr_Origin a) < originRank (pr_Origin b)
     else effectRank (pr_Effect a) < effectRank (pr_Effect b))"

text \<open>One pass of the resolution loop; \<open>fp_T38Decided\<close> plays the local \<open>t38Decided\<close>, which the
  source copies into the policy at the end.\<close>

definition apply_rule :: "FaxingConfig \<Rightarrow> FaxPolicyRule \<Rightarrow> FaxPolicy \<Rightarrow> FaxPolicy" where
  "apply_rule cfg r p =
    (if pr_Effect r = PolicyEffectVarOverride then
       (if map_of (fp_VarOverrides p) (pr_VarName r) = None
        then p\<lparr>fp_VarOverrides := AList.update (pr_VarName r) (pr_VarValue r) (fp_VarOverrides p)\<rparr>
        else p)
     else if pr_Effect r = PolicyEffectSoftmodemOnly then
       (if \<not> fp_T38Decided p
        then p\<lparr>fp_T38Decided := True, fp_SoftmodemOnly := True, fp_EnableT38 := False,
               fp_RequestT38 := False\<rparr> else p)
     else if pr_Effect r = PolicyEffectT38Off then
       (if \<not> fp_T38Decided p
        then p\<lparr>fp_T38Decided := True, fp_EnableT38 := False, fp_RequestT38 := False\<rparr> else p)
     else if pr_Effect r = PolicyEffectT38On then
       (if \<not> fp_T38Decided p
        then p\<lparr>fp_T38Decided := True, fp_EnableT38 := True, fp_RequestT38 := cf_RequestT38 cfg\<rparr> else p)
     else if pr_Effect r = PolicyEffectECMOff then
       (if fp_UseECM p = None then p\<lparr>fp_UseECM := Some False\<rparr> else p)
     else if pr_Effect r = PolicyEffectECMOn then
       (if fp_UseECM p = None then p\<lparr>fp_UseECM := Some True\<rparr> else p)
     else if pr_Effect r = PolicyEffectV17Off then
       (if fp_DisableV17 p = None then p\<lparr>fp_DisableV17 := Some True\<rparr> else p)
     else p)"

text \<open>\<open>ResolveFaxPolicy\<close>; \<open>cache\<close> is the atomically loaded rule cache, \<open>None\<close> before the first
  load.\<close>

definition ResolveFaxPolicy ::
    "FaxingConfig \<Rightarrow> FaxPolicyRule list option \<Rightarrow> string \<Rightarrow> string \<Rightarrow> string \<Rightarrow> time \<Rightarrow> FaxPolicy" where
  "ResolveFaxPolicy cfg cache srcNum dstNum callType now =
    (let policy = DefaultFaxPolicy cfg in
     if \<not> PolicyEnabled (cf_Policy cfg) then policy
     else case cache of
       None \<Rightarrow> policy
     | Some rules \<Rightarrow>
        let hits = filter (\<lambda>r. ruleMatches r srcNum dstNum callType now) rules in
        if hits = [] then policy
        else
          let hits = stable_sort rule_less hits;
              policy = policy\<lparr>fp_AppliedRuleIDs := map pr_ID hits\<rparr>;
              policy = fold (apply_rule cfg) hits policy
          in policy\<lparr>fp_T38ForcedOff := fp_T38Decided policy \<and> \<not> fp_EnableT38 policy\<rparr>)"

section \<open>Specification\<close>

text \<open>Precedence as one number: the smaller it is, the earlier the rule wins.\<close>

definition rule_key :: "FaxPolicyRule \<Rightarrow> nat" where
  "rule_key r = 4 * scopeRank (pr_Scope r) + 2 * originRank (pr_Origin r) + effectRank (pr_Effect r)"

text \<open>What a rule says about each attribute.\<close>

definition t38_verdict :: "FaxingConfig \<Rightarrow> FaxPolicyRule \<Rightarrow> (bool \<times> bool) option" where
  "t38_verdict cfg r =
    (if pr_Effect r = PolicyEffectSoftmodemOnly then Some (False, False)
     else if pr_Effect r = PolicyEffectT38Off then Some (False, False)
     else if pr_Effect r = PolicyEffectT38On then Some (True, cf_RequestT38 cfg)
     else None)"

definition ecm_verdict :: "FaxPolicyRule \<Rightarrow> bool option" where
  "ecm_verdict r =
    (if pr_Effect r = PolicyEffectECMOff then Some False
     else if pr_Effect r = PolicyEffectECMOn then Some True else None)"

definition v17_verdict :: "FaxPolicyRule \<Rightarrow> bool option" where
  "v17_verdict r = (if pr_Effect r = PolicyEffectV17Off then Some True else None)"

definition var_verdict :: "string \<Rightarrow> FaxPolicyRule \<Rightarrow> string option" where
  "var_verdict name r =
    (if pr_Effect r = PolicyEffectVarOverride \<and> pr_VarName r = name then Some (pr_VarValue r) else None)"

definition t38_attr :: "FaxPolicy \<Rightarrow> (bool \<times> bool) option" where
  "t38_attr p =
    (if fp_T38Decided p then Some (fp_EnableT38 p, fp_RequestT38 p) else None)"

text \<open>A rule of the call that wins against every other rule of the call that has a say.\<close>

definition wins :: "(FaxPolicyRule \<Rightarrow> 'v option) \<Rightarrow> FaxPolicyRule list \<Rightarrow> 'v \<Rightarrow> bool" where
  "wins verdict hits v \<longleftrightarrow>
     (\<exists>r \<in> set hits. verdict r = Some v \<and> (\<forall>q \<in> set hits. verdict q \<noteq> None \<longrightarrow> rule_key r \<le> rule_key q))"

text \<open>How specific a rule is, whatever its effect.\<close>

definition rule_spec :: "FaxPolicyRule \<Rightarrow> nat" where
  "rule_spec r = 2 * scopeRank (pr_Scope r) + originRank (pr_Origin r)"

definition call_rules ::
    "FaxPolicyRule list \<Rightarrow> string \<Rightarrow> string \<Rightarrow> string \<Rightarrow> time \<Rightarrow> FaxPolicyRule list" where
  "call_rules rules srcNum dstNum callType now =
     filter (\<lambda>r. ruleMatches r srcNum dstNum callType now) rules"

definition restricts_t38 :: "FaxPolicyRule \<Rightarrow> bool" where
  "restricts_t38 r \<longleftrightarrow> pr_Effect r = PolicyEffectT38Off \<or> pr_Effect r = PolicyEffectSoftmodemOnly"

section \<open>Lemmas\<close>

lemma rule_less_key: "rule_less a b \<longleftrightarrow> rule_key a < rule_key b"
  by (auto simp: rule_less_def rule_key_def originRank_def effectRank_def)

lemma rule_key_spec: "rule_key r = 2 * rule_spec r + effectRank (pr_Effect r)"
  by (simp add: rule_key_def rule_spec_def)

lemmas sort_rules = stable_sort_key [of rule_less rule_key, OF rule_less_key]

interpretation t38: first_wins t38_attr "t38_verdict cfg" "apply_rule cfg" for cfg
  by unfold_locales (auto simp: t38_attr_def t38_verdict_def apply_rule_def policy_consts)

interpretation ecm: first_wins fp_UseECM ecm_verdict "apply_rule cfg" for cfg
  by unfold_locales (auto simp: ecm_verdict_def apply_rule_def policy_consts split: option.splits)

interpretation v17: first_wins fp_DisableV17 v17_verdict "apply_rule cfg" for cfg
  by unfold_locales (auto simp: v17_verdict_def apply_rule_def policy_consts split: option.splits)

interpretation var: first_wins "\<lambda>p. map_of (fp_VarOverrides p) name" "var_verdict name"
    "apply_rule cfg" for name cfg
  by unfold_locales
    (auto simp: var_verdict_def apply_rule_def policy_consts update_conv' split: option.splits)

lemma apply_rule_undecided:
  assumes "t38_verdict cfg r = None"
  shows "fp_EnableT38 (apply_rule cfg r p) = fp_EnableT38 p"
    and "fp_RequestT38 (apply_rule cfg r p) = fp_RequestT38 p"
proof -
  have "pr_Effect r \<noteq> PolicyEffectSoftmodemOnly" "pr_Effect r \<noteq> PolicyEffectT38Off"
    "pr_Effect r \<noteq> PolicyEffectT38On"
    using assms by (auto simp: t38_verdict_def policy_consts)
  then show "fp_EnableT38 (apply_rule cfg r p) = fp_EnableT38 p"
    and "fp_RequestT38 (apply_rule cfg r p) = fp_RequestT38 p"
    by (simp_all add: apply_rule_def)
qed

lemma fold_undecided:
  assumes "\<forall>r \<in> set rs. t38_verdict cfg r = None"
  shows "fp_EnableT38 (fold (apply_rule cfg) rs p) = fp_EnableT38 p
    \<and> fp_RequestT38 (fold (apply_rule cfg) rs p) = fp_RequestT38 p"
  using assms by (induction rs arbitrary: p) (auto simp: apply_rule_undecided)

text \<open>The resolution as one fold over the sorted rules of the call.\<close>

lemma resolve_eq:
  assumes "PolicyEnabled (cf_Policy cfg)"
  shows "ResolveFaxPolicy cfg (Some rules) srcNum dstNum callType now =
    (let hits = sort_key rule_key (call_rules rules srcNum dstNum callType now);
         p = fold (apply_rule cfg) hits
               ((DefaultFaxPolicy cfg)\<lparr>fp_AppliedRuleIDs := map pr_ID hits\<rparr>)
     in p\<lparr>fp_T38ForcedOff := fp_T38Decided p \<and> \<not> fp_EnableT38 p\<rparr>)"
  using assms by (simp add: ResolveFaxPolicy_def call_rules_def sort_rules DefaultFaxPolicy_def Let_def)

lemma first_hit_wins: "first_hit f (sort_key rule_key hits) = Some v \<Longrightarrow> wins f hits v"
  unfolding wins_def by (rule first_hit_sort_key)

lemma first_hit_decides:
  assumes "first_hit f (sort_key rule_key hits) = x"
  shows "case x of Some v \<Rightarrow> wins f hits v | None \<Rightarrow> \<forall>r \<in> set hits. f r = None"
  using assms by (cases x) (auto intro: first_hit_wins simp: first_hit_None)

lemma resolve_attrs:
  assumes "PolicyEnabled (cf_Policy cfg)"
  defines "p \<equiv> (\<lambda>rules srcNum dstNum callType now.
    ResolveFaxPolicy cfg (Some rules) srcNum dstNum callType now)"
  shows "t38_attr (p rules a b c now)
      = first_hit (t38_verdict cfg) (sort_key rule_key (call_rules rules a b c now))"
    and "fp_UseECM (p rules a b c now)
      = first_hit ecm_verdict (sort_key rule_key (call_rules rules a b c now))"
    and "fp_DisableV17 (p rules a b c now)
      = first_hit v17_verdict (sort_key rule_key (call_rules rules a b c now))"
    and "map_of (fp_VarOverrides (p rules a b c now)) name
      = first_hit (var_verdict name) (sort_key rule_key (call_rules rules a b c now))"
    and "fp_T38ForcedOff (p rules a b c now)
      \<longleftrightarrow> fp_T38Decided (p rules a b c now) \<and> \<not> fp_EnableT38 (p rules a b c now)"
proof -
  let ?p0 = "(DefaultFaxPolicy cfg)\<lparr>fp_AppliedRuleIDs :=
    map pr_ID (sort_key rule_key (call_rules rules a b c now))\<rparr>"
  have "t38_attr ?p0 = None" "fp_UseECM ?p0 = None" "fp_DisableV17 ?p0 = None"
    "map_of (fp_VarOverrides ?p0) name = None"
    by (simp_all add: t38_attr_def DefaultFaxPolicy_def)
  note fresh = t38.fold_attr_fresh [OF this(1)] ecm.fold_attr_fresh [OF this(2)]
    v17.fold_attr_fresh [OF this(3)] var.fold_attr_fresh [OF this(4)]
  have attr_upd: "t38_attr (q\<lparr>fp_T38ForcedOff := b\<rparr>) = t38_attr q" for q b
    by (simp add: t38_attr_def)
  show "t38_attr (p rules a b c now)
      = first_hit (t38_verdict cfg) (sort_key rule_key (call_rules rules a b c now))"
    by (simp add: p_def resolve_eq [OF assms(1)] Let_def attr_upd fresh)
  show "fp_UseECM (p rules a b c now)
      = first_hit ecm_verdict (sort_key rule_key (call_rules rules a b c now))"
    by (simp add: p_def resolve_eq [OF assms(1)] Let_def fresh)
  show "fp_DisableV17 (p rules a b c now)
      = first_hit v17_verdict (sort_key rule_key (call_rules rules a b c now))"
    by (simp add: p_def resolve_eq [OF assms(1)] Let_def fresh)
  show "map_of (fp_VarOverrides (p rules a b c now)) name
      = first_hit (var_verdict name) (sort_key rule_key (call_rules rules a b c now))"
    by (simp add: p_def resolve_eq [OF assms(1)] Let_def fresh)
  show "fp_T38ForcedOff (p rules a b c now)
      \<longleftrightarrow> fp_T38Decided (p rules a b c now) \<and> \<not> fp_EnableT38 (p rules a b c now)"
    by (simp add: p_def resolve_eq [OF assms(1)] Let_def)
qed

lemma resolve_undecided:
  assumes "PolicyEnabled (cf_Policy cfg)"
    and "\<forall>r \<in> set (call_rules rules a b c now). t38_verdict cfg r = None"
  defines "p \<equiv> ResolveFaxPolicy cfg (Some rules) a b c now"
  shows "fp_EnableT38 p = cf_EnableT38 cfg \<and> fp_RequestT38 p = cf_RequestT38 cfg"
  using fold_undecided [of "sort_key rule_key (call_rules rules a b c now)" cfg] assms(2)
  by (simp add: p_def resolve_eq [OF assms(1)] Let_def DefaultFaxPolicy_def)

text \<open>A rule that restricts T.38 and that no permissive rule of the call precedes decides it.\<close>

lemma restrictive_wins:
  assumes "r \<in> set hits" "restricts_t38 r" "wins (t38_verdict cfg) hits v"
    and no_on: "\<forall>q \<in> set hits. pr_Effect q = PolicyEffectT38On \<longrightarrow> rule_spec r \<le> rule_spec q"
  shows "v = (False, False)"
proof -
  obtain w where w: "w \<in> set hits" "t38_verdict cfg w = Some v"
    and least: "\<forall>q \<in> set hits. t38_verdict cfg q \<noteq> None \<longrightarrow> rule_key w \<le> rule_key q"
    using assms(3) by (auto simp: wins_def)
  have r: "t38_verdict cfg r \<noteq> None" "effectRank (pr_Effect r) = 0"
    using assms(2) by (auto simp: t38_verdict_def restricts_t38_def effectRank_def policy_consts)
  have "pr_Effect w \<noteq> PolicyEffectT38On"
  proof
    assume on: "pr_Effect w = PolicyEffectT38On"
    then have "rule_key w = 2 * rule_spec w + 1"
      by (simp add: rule_key_spec effectRank_def)
    moreover have "rule_key w \<le> 2 * rule_spec r"
      using least assms(1) r by (auto simp: rule_key_spec)
    moreover have "rule_spec r \<le> rule_spec w"
      using no_on w on by blast
    ultimately show False by linarith
  qed
  then show ?thesis
    using w(2) by (auto simp: t38_verdict_def split: if_splits)
qed

lemma resolve_restrictive:
  assumes "PolicyEnabled (cf_Policy cfg)"
    and "r \<in> set (call_rules rules srcNum dstNum callType now)" and "restricts_t38 r"
    and "\<forall>q \<in> set (call_rules rules srcNum dstNum callType now).
           pr_Effect q = PolicyEffectT38On \<longrightarrow> rule_spec r \<le> rule_spec q"
    and "p = ResolveFaxPolicy cfg (Some rules) srcNum dstNum callType now"
  shows "fp_T38Decided p \<and> fp_T38ForcedOff p \<and> \<not> fp_EnableT38 p \<and> \<not> fp_RequestT38 p"
proof -
  let ?hits = "call_rules rules srcNum dstNum callType now"
  note attrs = resolve_attrs [OF assms(1), of rules srcNum dstNum callType now, folded assms(5)]
  have "t38_verdict cfg r \<noteq> None"
    using assms(3) by (auto simp: t38_verdict_def restricts_t38_def)
  then obtain v where v: "t38_attr p = Some v"
    using assms(2) attrs(1) first_hit_None [of "t38_verdict cfg" "sort_key rule_key ?hits"]
    by (cases "t38_attr p") auto
  then have "wins (t38_verdict cfg) ?hits v"
    using attrs(1) by (intro first_hit_wins) simp
  then have "v = (False, False)"
    using restrictive_wins assms(2-4) by blast
  then show ?thesis
    using v attrs(5) by (auto simp: t38_attr_def split: if_splits)
qed

section \<open>Properties\<close>

text \<open>C21: With the policy engine enabled, each attribute of a call's policy is decided by the most
  specific matching rule (pair before dst before src, then manual before auto, then restrictive
  before permissive): T.38, ECM, V.17 and every overridden variable take the value of a matching
  rule of least rank among those that say anything about it, and stay at their defaults exactly
  when no matching rule does.\<close>

theorem most_specific_rule_wins:
  assumes "PolicyEnabled (cf_Policy cfg)"
    and "p = ResolveFaxPolicy cfg (Some rules) srcNum dstNum callType now"
    and "hits = call_rules rules srcNum dstNum callType now"
  shows "(case t38_attr p of
        Some v \<Rightarrow> wins (t38_verdict cfg) hits v
      | None \<Rightarrow> (\<forall>r \<in> set hits. t38_verdict cfg r = None)
           \<and> fp_EnableT38 p = cf_EnableT38 cfg \<and> fp_RequestT38 p = cf_RequestT38 cfg)
    \<and> (case fp_UseECM p of
        Some v \<Rightarrow> wins ecm_verdict hits v | None \<Rightarrow> \<forall>r \<in> set hits. ecm_verdict r = None)
    \<and> (case fp_DisableV17 p of
        Some v \<Rightarrow> wins v17_verdict hits v | None \<Rightarrow> \<forall>r \<in> set hits. v17_verdict r = None)
    \<and> (\<forall>name. case map_of (fp_VarOverrides p) name of
        Some v \<Rightarrow> wins (var_verdict name) hits v | None \<Rightarrow> \<forall>r \<in> set hits. var_verdict name r = None)"
proof -
  note attrs = resolve_attrs [OF assms(1), of rules srcNum dstNum callType now,
    folded assms(2) assms(3), THEN sym]
  have "case t38_attr p of Some v \<Rightarrow> wins (t38_verdict cfg) hits v
      | None \<Rightarrow> \<forall>r \<in> set hits. t38_verdict cfg r = None"
    by (rule first_hit_decides [OF attrs(1)])
  then show ?thesis
    using first_hit_decides [OF attrs(2)] first_hit_decides [OF attrs(3)]
      first_hit_decides [OF attrs(4)]
      resolve_undecided [OF assms(1), of rules srcNum dstNum callType now] assms(2,3)
    by (auto split: option.splits)
qed

text \<open>Fail-safe: when a rule that restricts T.38 (\<open>t38_off\<close> or \<open>softmodem_only\<close>) matches a call
  and every matching \<open>t38_on\<close> rule is at most as specific, the call neither offers nor requests
  T.38, and the policy reports that a rule forced it off, so flip-flop probing is skipped.\<close>

theorem restrictive_rule_forces_t38_off:
  assumes "PolicyEnabled (cf_Policy cfg)"
    and "r \<in> set (call_rules rules srcNum dstNum callType now)" and "restricts_t38 r"
    and "\<forall>q \<in> set (call_rules rules srcNum dstNum callType now).
           pr_Effect q = PolicyEffectT38On \<longrightarrow> rule_spec r \<le> rule_spec q"
    and "p = ResolveFaxPolicy cfg (Some rules) srcNum dstNum callType now"
  shows "fp_T38Decided p \<and> fp_T38ForcedOff p \<and> \<not> fp_EnableT38 p \<and> \<not> fp_RequestT38 p"
  using assms by (rule resolve_restrictive)

text \<open>A learned (auto, dst-scoped) \<open>t38_off\<close> rule protects the number it names in both
  directions: as long as no matching rule permits T.38, a call to the number and a call from the
  number, of either call type, both run without T.38.\<close>

theorem learned_rule_protects_both_directions:
  assumes "PolicyEnabled (cf_Policy cfg)"
    and "r \<in> set rules" "pr_Enabled r" "\<not> rule_expired now r" "pr_AppliesTo r = ''both''"
    and "pr_Scope r = PolicyScopeDst" "pr_Origin r = PolicyOriginAuto"
    and "pr_Effect r = PolicyEffectT38Off" "pr_DstNumber r = number"
    and "\<forall>q \<in> set rules. pr_Effect q \<noteq> PolicyEffectT38On"
  shows "fp_T38ForcedOff (ResolveFaxPolicy cfg (Some rules) other number callType now)
    \<and> fp_T38ForcedOff (ResolveFaxPolicy cfg (Some rules) number other callType now)"
proof -
  have "r \<in> set (call_rules rules other number callType now)"
    "r \<in> set (call_rules rules number other callType now)"
    using assms(2-9) by (simp_all add: call_rules_def ruleMatches_def policy_consts)
  then show ?thesis
    using resolve_restrictive [OF assms(1) _ _ _ refl, of r rules] assms(8,10)
    by (auto simp: restricts_t38_def call_rules_def)
qed

section \<open>Sample values\<close>

text \<open>A learned rule for one number, and a manual pair rule that permits T.38.\<close>

definition sample_cfg :: FaxingConfig where
  "sample_cfg = zero_FaxingConfig\<lparr>cf_EnableT38 := True, cf_RequestT38 := True\<rparr>"

definition sample_rule :: FaxPolicyRule where
  "sample_rule = \<lparr>pr_ID = 1, pr_Scope = PolicyScopeDst, pr_SrcNumber = [], pr_DstNumber = ''100'',
     pr_Effect = PolicyEffectT38Off, pr_AppliesTo = ''both'', pr_Origin = PolicyOriginAuto,
     pr_Enabled = True, pr_ExpiresAt = Some 50, pr_VarName = [], pr_VarValue = [],
     pr_FailureCount = 1, pr_SuccessCount = 0, pr_LastSeenAt = None, pr_LastT38Status = [],
     pr_Notes = []\<rparr>"

definition sample_pair_on :: FaxPolicyRule where
  "sample_pair_on = sample_rule\<lparr>pr_ID := 2, pr_Scope := PolicyScopePair, pr_SrcNumber := ''200'',
     pr_Effect := PolicyEffectT38On, pr_Origin := PolicyOriginManual\<rparr>"

lemmas sample_policy = sample_cfg_def sample_rule_def sample_pair_on_def zero_FaxingConfig_def
  zero_FaxPolicyConfig_def PolicyEnabled_def boolOrDefault_def policy_consts

lemma most_specific_rule_wins_witness:
  "PolicyEnabled (cf_Policy sample_cfg)
   \<and> t38_attr (ResolveFaxPolicy sample_cfg (Some [sample_rule, sample_pair_on])
                ''200'' ''100'' ''bridge'' 7) = Some (True, True)
   \<and> wins (t38_verdict sample_cfg)
        (call_rules [sample_rule, sample_pair_on] ''200'' ''100'' ''bridge'' 7) (True, True)"
proof -
  have on: "PolicyEnabled (cf_Policy sample_cfg)"
    by (simp add: sample_policy)
  have attr: "t38_attr (ResolveFaxPolicy sample_cfg (Some [sample_rule, sample_pair_on])
                ''200'' ''100'' ''bridge'' 7) = Some (True, True)"
    by code_simp
  show ?thesis
    using most_specific_rule_wins [OF on refl refl,
        of "[sample_rule, sample_pair_on]" "''200''" "''100''" "''bridge''" 7] on
    by (simp add: attr)
qed

lemma restrictive_rule_forces_t38_off_witness:
  "fp_T38ForcedOff (ResolveFaxPolicy sample_cfg (Some [sample_rule]) ''200'' ''100'' ''bridge'' 7)"
  using restrictive_rule_forces_t38_off [of sample_cfg sample_rule "[sample_rule]" "''200''" "''100''"
      "''bridge''" 7, OF _ _ _ _ refl]
  by (simp add: sample_policy call_rules_def ruleMatches_def rule_expired_def restricts_t38_def)

lemma learned_rule_protects_both_directions_witness:
  "fp_T38ForcedOff (ResolveFaxPolicy sample_cfg (Some [sample_rule]) ''200'' ''100'' ''bridge'' 7)
   \<and> fp_T38ForcedOff (ResolveFaxPolicy sample_cfg (Some [sample_rule]) ''100'' ''200'' ''bridge'' 7)"
  using learned_rule_protects_both_directions [of sample_cfg sample_rule "[sample_rule]" 7 "''100''"
      "''200''" "''bridge''"]
  by (simp add: sample_policy rule_expired_def)

end
