(* ===== verification/Fax_Learning.thy ===== *)
theory Fax_Learning
  imports Fax_Policy
begin

text \<open>
  The fax policy engine (\<open>gofaxserver/faxpolicy.go\<close>), second part: the rule table and its cache,
  auto-learning from failures and successes, the retry chain, and the flip-flop probing of T.38
  per pair of numbers.

  A handler takes one reading of the clock (\<open>now\<close>) and a fault predicate that says which of
  its database statements fail. The rule table keeps its rows in the order of their primary
  key, the order in which \<open>First\<close> searches.
\<close>

section \<open>State\<close>

record FaxPairState =
  ps_ID :: nat
  ps_SrcNumber :: string
  ps_DstNumber :: string
  ps_CallType :: string
  ps_LastUsedT38 :: bool
  ps_LastSeen :: time

record policy_state =
  pl_rules :: "FaxPolicyRule list"
  pl_nextID :: nat
  pl_cache :: "FaxPolicyRule list option"

record pair_state =
  pl_pairStates :: "(string \<times> FaxPairState) list"
  pl_pairRows :: "FaxPairState list"
  pl_pairNextID :: nat

datatype policy_op =
  FindRules | FirstRule string | SaveRule nat | CreateRule string | DeleteRule nat
| FindAutoRules | DeleteAutoRules

datatype pair_op = FindPairs | CreatePair | UpdatePair

type_synonym policy_faults = "policy_op \<Rightarrow> bool"
type_synonym pair_faults = "pair_op \<Rightarrow> bool"

section \<open>Rule table\<close>

definition is_auto :: "string \<Rightarrow> FaxPolicyRule \<Rightarrow> bool" where
  "is_auto number r \<longleftrightarrow>
     pr_Origin r = PolicyOriginAuto \<and> pr_Scope r = PolicyScopeDst \<and> pr_DstNumber r = number"

definition save_rule :: "FaxPolicyRule \<Rightarrow> policy_state \<Rightarrow> policy_state" where
  "save_rule r s = s\<lparr>pl_rules := map (\<lambda>q. if pr_ID q = pr_ID r then r else q) (pl_rules s)\<rparr>"

definition prunable :: "time \<Rightarrow> FaxPolicyRule \<Rightarrow> bool" where
  "prunable now r \<longleftrightarrow> rule_expired now r \<and> pr_Origin r = PolicyOriginAuto"

text \<open>\<open>reloadFaxPolicies\<close>: \<open>False\<close> stands for the returned error. A row whose delete fails stays in
  the table and leaves the cache.\<close>

definition reloadFaxPolicies :: "policy_faults \<Rightarrow> time \<Rightarrow> policy_state \<Rightarrow> policy_state \<times> bool" where
  "reloadFaxPolicies faults now s =
    (if faults FindRules then (s, False)
     else
       let rules = pl_rules s;
           gone = map pr_ID (filter (\<lambda>r. prunable now r \<and> \<not> faults (DeleteRule (pr_ID r))) rules)
       in (s\<lparr>pl_rules := filter (\<lambda>r. pr_ID r \<notin> set gone) rules,
             pl_cache := Some (filter (\<lambda>r. \<not> prunable now r) rules)\<rparr>, True))"

section \<open>What a result teaches\<close>

definition add_bad_rows :: "PageResult \<Rightarrow> nat \<Rightarrow> nat" where
  "add_bad_rows p badrows = (badrows + pg_BadRows p) mod 2 ^ 64"

definition learnResultBadRows :: "FaxResult \<Rightarrow> nat" where
  "learnResultBadRows result =
     fold add_bad_rows (fr_PageResults result) 0"

definition T38Refused :: "FaxResult option \<Rightarrow> bool" where
  "T38Refused result =
    (case result of
       None \<Rightarrow> False
     | Some r \<Rightarrow> let st = trim_space (fr_T38Status r)
                 in st \<noteq> [] \<and> \<not> equal_fold st ''negotiated'')"

definition qualifiesForLearning :: "FaxResult option \<Rightarrow> bool" where
  "qualifiesForLearning result =
    (case result of
       None \<Rightarrow> False
     | Some r \<Rightarrow> if fr_Success r then False
                 else fr_NegotiateCount r > 1 \<or> learnResultBadRows r > 0 \<or> T38Refused result)"

definition isT38NegotiationHangup :: "string \<Rightarrow> bool" where
  "isT38NegotiationHangup hangupCause \<longleftrightarrow>
     to_upper (trim_space hangupCause) \<in>
       {''INCOMPATIBLE_DESTINATION'', ''NOT_ACCEPTABLE_HERE'', ''MEDIA_NEGOTIATION_FAILED'',
        ''BEARERCAPABILITY_NOTAVAIL'', ''BEARERCAPABILITY_NOTIMPL'', ''FACILITY_REJECTED''}"

section \<open>Auto rules\<close>

definition auto_rule_for :: "string \<Rightarrow> string \<Rightarrow> string \<Rightarrow> FaxPolicyRule \<Rightarrow> bool" where
  "auto_rule_for remoteNumber effect appliesTo r \<longleftrightarrow>
     is_auto remoteNumber r \<and> pr_Effect r = effect \<and> pr_AppliesTo r = appliesTo"

text \<open>A lookup that fails is treated as a lookup that finds nothing.\<close>

definition findAutoRule ::
    "policy_faults \<Rightarrow> policy_state \<Rightarrow> string \<Rightarrow> string \<Rightarrow> string \<Rightarrow> FaxPolicyRule option" where
  "findAutoRule faults s remoteNumber effect appliesTo =
    (if faults (FirstRule effect) then None
     else List.find (auto_rule_for remoteNumber effect appliesTo) (pl_rules s))"

definition new_auto_rule ::
    "FaxPolicyConfig \<Rightarrow> time \<Rightarrow> nat \<Rightarrow> string \<Rightarrow> string \<Rightarrow> string \<Rightarrow> string \<Rightarrow> int \<Rightarrow> FaxPolicyRule" where
  "new_auto_rule cfg now i remoteNumber effect appliesTo t38Status failureCount =
     \<lparr>pr_ID = i, pr_Scope = PolicyScopeDst, pr_SrcNumber = [], pr_DstNumber = remoteNumber,
      pr_Effect = effect, pr_AppliesTo = appliesTo, pr_Origin = PolicyOriginAuto,
      pr_Enabled = True, pr_ExpiresAt = Some (now + autoRuleTTL cfg), pr_VarName = [],
      pr_VarValue = [], pr_FailureCount = failureCount, pr_SuccessCount = 0,
      pr_LastSeenAt = Some now, pr_LastT38Status = t38Status,
      pr_Notes = ''auto-learned from fax failures''\<rparr>"

text \<open>\<open>upsertAutoRule\<close>: the state afterwards and the rule, \<open>None\<close> for an error.\<close>

definition upsertAutoRule ::
    "FaxPolicyConfig \<Rightarrow> policy_faults \<Rightarrow> time \<Rightarrow> string \<Rightarrow> string \<Rightarrow> string \<Rightarrow> string \<Rightarrow> int \<Rightarrow>
     policy_state \<Rightarrow> policy_state \<times> FaxPolicyRule option" where
  "upsertAutoRule cfg faults now remoteNumber effect appliesTo t38Status failureCount s =
    (case findAutoRule faults s remoteNumber effect appliesTo of
       Some existing \<Rightarrow>
         let r = existing\<lparr>pr_FailureCount := failureCount, pr_SuccessCount := 0, pr_Enabled := True,
                          pr_ExpiresAt := Some (now + autoRuleTTL cfg), pr_LastSeenAt := Some now,
                          pr_LastT38Status := t38Status\<rparr>
         in if faults (SaveRule (pr_ID r)) then (s, None) else (save_rule r s, Some r)
     | None \<Rightarrow>
         let r = new_auto_rule cfg now (pl_nextID s) remoteNumber effect appliesTo t38Status failureCount
         in if faults (CreateRule effect) then (s, None)
            else (s\<lparr>pl_rules := pl_rules s @ [r], pl_nextID := Suc (pl_nextID s)\<rparr>, Some r))"

definition LearnFaxPolicyFailure ::
    "FaxPolicyConfig \<Rightarrow> policy_faults \<Rightarrow> time \<Rightarrow> string \<Rightarrow> FaxResult option \<Rightarrow>
     policy_state \<Rightarrow> policy_state" where
  "LearnFaxPolicyFailure cfg faults now remoteNumber result s =
    (if \<not> PolicyEnabled cfg \<or> \<not> LearningEnabled cfg \<or> remoteNumber = [] then s
     else
       let t38Status = (case result of None \<Rightarrow> [] | Some r \<Rightarrow> fr_T38Status r);
           failures = (case findAutoRule faults s remoteNumber PolicyEffectT38Off ''both'' of
                         None \<Rightarrow> 1 | Some r \<Rightarrow> pr_FailureCount r + 1)
       in if failures < T38Threshold cfg then s
          else case upsertAutoRule cfg faults now remoteNumber PolicyEffectT38Off ''both'' t38Status failures s of
            (s1, None) \<Rightarrow> s1
          | (s1, Some _) \<Rightarrow>
             let s2 = (if failures \<ge> ECMThreshold cfg
                       then fst (upsertAutoRule cfg faults now remoteNumber PolicyEffectECMOff ''both'' t38Status failures s1)
                       else s1);
                 s3 = (if failures \<ge> V17Threshold cfg
                       then fst (upsertAutoRule cfg faults now remoteNumber PolicyEffectV17Off ''both'' t38Status failures s2)
                       else s2)
             in fst (reloadFaxPolicies faults now s3))"

definition LearnFaxPolicyBridgeFailure ::
    "FaxPolicyConfig \<Rightarrow> policy_faults \<Rightarrow> time \<Rightarrow> string \<Rightarrow> string \<Rightarrow> policy_state \<Rightarrow> policy_state" where
  "LearnFaxPolicyBridgeFailure cfg faults now remoteNumber hangupCause s =
    (if \<not> PolicyEnabled cfg \<or> \<not> LearningEnabled cfg \<or> \<not> BridgeLearnEnabled cfg \<or> remoteNumber = [] then s
     else
       let failures = (case findAutoRule faults s remoteNumber PolicyEffectT38Off CallTypeBridge of
                         None \<Rightarrow> 1 | Some r \<Rightarrow> pr_FailureCount r + 1)
       in case upsertAutoRule cfg faults now remoteNumber PolicyEffectT38Off CallTypeBridge hangupCause failures s of
            (s1, None) \<Rightarrow> s1
          | (s1, Some _) \<Rightarrow> fst (reloadFaxPolicies faults now s1))"

text \<open>The loop of \<open>LearnFaxPolicySuccess\<close> over the rules it has read; the flag is \<open>changed\<close>.\<close>

fun success_loop ::
    "FaxPolicyConfig \<Rightarrow> policy_faults \<Rightarrow> time \<Rightarrow> string \<Rightarrow> FaxPolicyRule list \<Rightarrow> bool \<Rightarrow>
     policy_state \<Rightarrow> policy_state \<times> bool" where
  "success_loop cfg faults now remoteNumber [] changed s = (s, changed)"
| "success_loop cfg faults now remoteNumber (r0 # rs) changed s =
    (let r = r0\<lparr>pr_SuccessCount := pr_SuccessCount r0 + 1, pr_FailureCount := 0,
                pr_LastSeenAt := Some now\<rparr>
     in if pr_SuccessCount r \<ge> RecoveryThreshold cfg
        then (if faults DeleteAutoRules then s
              else s\<lparr>pl_rules := filter (\<lambda>q. \<not> is_auto remoteNumber q) (pl_rules s)\<rparr>, True)
        else success_loop cfg faults now remoteNumber rs True
               (if faults (SaveRule (pr_ID r)) then s else save_rule r s))"

definition LearnFaxPolicySuccess ::
    "FaxPolicyConfig \<Rightarrow> policy_faults \<Rightarrow> time \<Rightarrow> string \<Rightarrow> policy_state \<Rightarrow> policy_state" where
  "LearnFaxPolicySuccess cfg faults now remoteNumber s =
    (if \<not> PolicyEnabled cfg \<or> \<not> LearningEnabled cfg \<or> remoteNumber = [] then s
     else
       let rules = filter (is_auto remoteNumber) (pl_rules s)
       in if faults FindAutoRules \<or> rules = [] then s
          else case success_loop cfg faults now remoteNumber rules False s of
            (s1, changed) \<Rightarrow> if changed then fst (reloadFaxPolicies faults now s1) else s1)"

section \<open>Retry chain\<close>

definition escalateRetryChain :: "FaxPolicyConfig \<Rightarrow> int \<Rightarrow> FaxJob \<Rightarrow> FaxJob" where
  "escalateRetryChain cfg attempt ff =
    (if attempt \<le> 1 \<or> \<not> RetryChainEnabled cfg \<or> fj_ForceT38Off ff then ff
     else case fj_Result ff of
       None \<Rightarrow> ff
     | Some prev \<Rightarrow>
         if fr_Success prev then ff
         else if fr_NegotiateCount prev > 1 \<or> T38Refused (Some prev) then ff\<lparr>fj_ForceT38Off := True\<rparr>
         else ff)"

section \<open>Flip-flop probing\<close>

definition pairStateKey :: "string \<Rightarrow> string \<Rightarrow> string \<Rightarrow> string" where
  "pairStateKey srcNum dstNum callType = callType @ ''|'' @ srcNum @ ''|'' @ dstNum"

definition loadPairStates :: "pair_faults \<Rightarrow> pair_state \<Rightarrow> pair_state" where
  "loadPairStates faults s =
    (if faults FindPairs then s
     else s\<lparr>pl_pairStates :=
            fold (\<lambda>r. AList.update (pairStateKey (ps_SrcNumber r) (ps_DstNumber r) (ps_CallType r)) r)
                 (pl_pairRows s) (pl_pairStates s)\<rparr>)"

definition ShouldAllowT38ForPair ::
    "FaxPolicyConfig \<Rightarrow> string \<Rightarrow> string \<Rightarrow> string \<Rightarrow> time \<Rightarrow> pair_state \<Rightarrow> bool" where
  "ShouldAllowT38ForPair cfg srcNum dstNum callType now s =
    (case map_of (pl_pairStates s) (pairStateKey srcNum dstNum callType) of
       None \<Rightarrow> True
     | Some st \<Rightarrow> if time_sub now (ps_LastSeen st) > PairStateTTL cfg then True
                  else \<not> ps_LastUsedT38 st)"

definition same_pair :: "string \<Rightarrow> string \<Rightarrow> string \<Rightarrow> FaxPairState \<Rightarrow> bool" where
  "same_pair srcNum dstNum callType r \<longleftrightarrow>
     ps_SrcNumber r = srcNum \<and> ps_DstNumber r = dstNum \<and> ps_CallType r = callType"

text \<open>\<open>Create\<close> fails on a fault and when the unique index already has the pair.\<close>

definition UpdateT38PairState ::
    "pair_faults \<Rightarrow> string \<Rightarrow> string \<Rightarrow> string \<Rightarrow> bool \<Rightarrow> time \<Rightarrow> pair_state \<Rightarrow> pair_state" where
  "UpdateT38PairState faults srcNum dstNum callType usedT38 now s =
    (let key = pairStateKey srcNum dstNum callType;
         st = (case map_of (pl_pairStates s) key of
                 Some st \<Rightarrow> st
               | None \<Rightarrow> \<lparr>ps_ID = 0, ps_SrcNumber = srcNum, ps_DstNumber = dstNum,
                           ps_CallType = callType, ps_LastUsedT38 = False, ps_LastSeen = zero_time\<rparr>);
         row = st\<lparr>ps_LastUsedT38 := usedT38, ps_LastSeen := now\<rparr>;
         s1 = s\<lparr>pl_pairStates := AList.update key row (pl_pairStates s)\<rparr>;
         set_row = (\<lambda>r. r\<lparr>ps_LastUsedT38 := usedT38, ps_LastSeen := now\<rparr>)
     in if ps_ID row = 0 then
          (if faults CreatePair \<or> list_ex (same_pair srcNum dstNum callType) (pl_pairRows s)
           then (if faults UpdatePair then s1
                 else s1\<lparr>pl_pairRows := map (\<lambda>r. if same_pair srcNum dstNum callType r
                                                then set_row r else r) (pl_pairRows s1)\<rparr>)
           else let stored = row\<lparr>ps_ID := pl_pairNextID s1\<rparr>
                in s1\<lparr>pl_pairStates := AList.update key stored (pl_pairStates s1),
                      pl_pairRows := pl_pairRows s1 @ [stored],
                      pl_pairNextID := Suc (pl_pairNextID s1)\<rparr>)
        else (if faults UpdatePair then s1
              else s1\<lparr>pl_pairRows := map (\<lambda>r. if ps_ID r = ps_ID row then set_row r else r)
                                         (pl_pairRows s1)\<rparr>))"

section \<open>Specification\<close>

definition ids_ok :: "policy_state \<Rightarrow> bool" where
  "ids_ok s \<longleftrightarrow> distinct (map pr_ID (pl_rules s)) \<and> (\<forall>r \<in> set (pl_rules s). pr_ID r < pl_nextID s)"

definition manual_rules :: "policy_state \<Rightarrow> FaxPolicyRule list" where
  "manual_rules s = filter (\<lambda>r. pr_Origin r \<noteq> PolicyOriginAuto) (pl_rules s)"

definition auto_ids :: "policy_state \<Rightarrow> nat set" where
  "auto_ids s = pr_ID ` {r \<in> set (pl_rules s). pr_Origin r = PolicyOriginAuto}"

definition keeps_manual :: "policy_state \<Rightarrow> policy_state \<Rightarrow> bool" where
  "keeps_manual s t \<longleftrightarrow> (ids_ok s \<longrightarrow> ids_ok t \<and> manual_rules t = manual_rules s)"

text \<open>Everything that changes the rule table outside the administrator's API.\<close>

inductive learn_step :: "FaxPolicyConfig \<Rightarrow> policy_state \<Rightarrow> policy_state \<Rightarrow> bool" for cfg where
  ls_failure: "learn_step cfg s (LearnFaxPolicyFailure cfg f now n result s)"
| ls_bridge: "learn_step cfg s (LearnFaxPolicyBridgeFailure cfg f now n cause s)"
| ls_success: "learn_step cfg s (LearnFaxPolicySuccess cfg f now n s)"
| ls_reload: "learn_step cfg s (fst (reloadFaxPolicies f now s))"

section \<open>Lemmas\<close>

lemma keeps_manual_refl [simp]: "keeps_manual s s"
  by (simp add: keeps_manual_def)

lemma keeps_manual_trans: "keeps_manual s t \<Longrightarrow> keeps_manual t u \<Longrightarrow> keeps_manual s u"
  by (simp add: keeps_manual_def)

lemma unique_row:
  "ids_ok s \<Longrightarrow> q \<in> set (pl_rules s) \<Longrightarrow> r \<in> set (pl_rules s) \<Longrightarrow> pr_ID q = pr_ID r \<Longrightarrow> q = r"
  by (auto simp: ids_ok_def distinct_map dest: inj_onD)

lemma ids_ok_ids:
  "ids_ok s \<longleftrightarrow> distinct (map pr_ID (pl_rules s))
     \<and> list_all (\<lambda>i. i < pl_nextID s) (map pr_ID (pl_rules s))"
  by (simp add: ids_ok_def list_all_iff)

lemma ids_save [simp]: "map pr_ID (pl_rules (save_rule r s)) = map pr_ID (pl_rules s)"
  by (simp add: save_rule_def)

lemma filter_map_save:
  "(\<And>q. q \<in> set xs \<Longrightarrow> pr_ID q = pr_ID r \<Longrightarrow> \<not> P q) \<Longrightarrow> \<not> P r \<Longrightarrow>
   filter P (map (\<lambda>q. if pr_ID q = pr_ID r then r else q) xs) = filter P xs"
  by (induction xs) auto

lemma save_auto:
  assumes "pr_Origin r = PolicyOriginAuto" "pr_ID r \<in> auto_ids s"
  shows "keeps_manual s (save_rule r s)" "ids_ok s \<Longrightarrow> auto_ids (save_rule r s) = auto_ids s"
proof -
  have auto: "pr_Origin q = PolicyOriginAuto"
    if "ids_ok s" "q \<in> set (pl_rules s)" "pr_ID q = pr_ID r" for q
  proof -
    obtain x where x: "x \<in> set (pl_rules s)" "pr_Origin x = PolicyOriginAuto" "pr_ID x = pr_ID r"
      using assms(2) by (auto simp: auto_ids_def)
    then have "q = x"
      using that by (intro unique_row [OF that(1)]) simp_all
    with x show ?thesis by simp
  qed
  show "keeps_manual s (save_rule r s)"
    unfolding keeps_manual_def
  proof (intro impI conjI)
    assume ok: "ids_ok s"
    have "pl_nextID (save_rule r s) = pl_nextID s"
      by (simp add: save_rule_def)
    then show "ids_ok (save_rule r s)"
      using ok by (simp only: ids_ok_ids ids_save)
    show "manual_rules (save_rule r s) = manual_rules s"
      unfolding manual_rules_def save_rule_def
      using auto [OF ok] assms(1) by (auto intro: filter_map_save)
  qed
  show "auto_ids (save_rule r s) = auto_ids s" if "ids_ok s"
  proof -
    have "pr_ID r \<in> auto_ids (save_rule r s)"
      using assms unfolding auto_ids_def save_rule_def by auto
    moreover have "i \<in> auto_ids (save_rule r s) \<longleftrightarrow> i \<in> auto_ids s" if "i \<noteq> pr_ID r" for i
      using that unfolding auto_ids_def save_rule_def by (auto split: if_splits)
    ultimately show ?thesis
      using assms(2) by (metis set_eqI)
  qed
qed

lemma reload_keeps_manual: "keeps_manual s (fst (reloadFaxPolicies f now s))"
proof (cases "f FindRules")
  case False
  let ?t = "fst (reloadFaxPolicies f now s)"
  let ?gone = "set (map pr_ID (filter (\<lambda>r. prunable now r \<and> \<not> f (DeleteRule (pr_ID r))) (pl_rules s)))"
  have rules: "pl_rules ?t = filter (\<lambda>r. pr_ID r \<notin> ?gone) (pl_rules s)" "pl_nextID ?t = pl_nextID s"
    using False by (simp_all add: reloadFaxPolicies_def Let_def)
  have "manual_rules ?t = manual_rules s" if ok: "ids_ok s"
    unfolding manual_rules_def rules(1) filter_filter
    by (intro filter_cong refl) (auto simp: prunable_def dest: unique_row [OF ok])
  then show ?thesis
    unfolding keeps_manual_def ids_ok_def rules by (auto simp: distinct_map inj_on_def)
qed (simp add: reloadFaxPolicies_def)

lemma find_auto:
  assumes "findAutoRule f s n eff ap = Some r"
  shows "r \<in> set (pl_rules s)" "auto_rule_for n eff ap r"
  using assms by (auto simp: findAutoRule_def find_Some_iff split: if_splits)

lemma find_auto_id: "findAutoRule f s n eff ap = Some r \<Longrightarrow> pr_ID r \<in> auto_ids s"
  using find_auto [of f s n eff ap r] by (auto simp: auto_ids_def auto_rule_for_def is_auto_def)

lemma upsert_keeps_manual: "keeps_manual s (fst (upsertAutoRule cfg f now n eff ap st k s))"
proof (cases "findAutoRule f s n eff ap")
  case None
  then show ?thesis
    by (auto simp: upsertAutoRule_def Let_def keeps_manual_def ids_ok_def manual_rules_def
        new_auto_rule_def less_SucI)
next
  case (Some r)
  have "pr_Origin r = PolicyOriginAuto"
    using find_auto [OF Some] by (simp add: auto_rule_for_def is_auto_def)
  with Some save_auto(1) find_auto_id [OF Some] show ?thesis
    by (simp add: upsertAutoRule_def Let_def)
qed

lemma upsert_keeps_manual': "upsertAutoRule cfg f now n eff ap st k s = (t, x) \<Longrightarrow> keeps_manual s t"
  using upsert_keeps_manual [of s cfg f now n eff ap st k] by simp

lemma success_loop_keeps_manual:
  assumes "pr_ID ` set rs \<subseteq> auto_ids s" "\<forall>r \<in> set rs. pr_Origin r = PolicyOriginAuto"
  shows "keeps_manual s (fst (success_loop cfg f now n rs ch s))"
  using assms
proof (induction rs arbitrary: s ch)
  case (Cons r0 rs)
  let ?r = "r0\<lparr>pr_SuccessCount := pr_SuccessCount r0 + 1, pr_FailureCount := 0,
    pr_LastSeenAt := Some now\<rparr>"
  let ?s = "if f (SaveRule (pr_ID r0)) then s else save_rule ?r s"
  have save: "keeps_manual s ?s" "ids_ok s \<Longrightarrow> auto_ids ?s = auto_ids s"
    using save_auto [of ?r s] Cons.prems by auto
  then have "ids_ok s \<Longrightarrow> keeps_manual ?s (fst (success_loop cfg f now n rs True ?s))"
    using Cons.IH [of ?s True] Cons.prems by simp
  with save(1) have "keeps_manual s (fst (success_loop cfg f now n rs True ?s))"
    by (auto simp: keeps_manual_def)
  moreover have "keeps_manual s (s\<lparr>pl_rules := filter (\<lambda>q. \<not> is_auto n q) (pl_rules s)\<rparr>)"
    by (auto simp: keeps_manual_def ids_ok_def manual_rules_def is_auto_def distinct_map inj_on_def
        intro: filter_cong)
  ultimately show ?case
    by (simp add: Let_def)
qed simp

lemma failure_keeps_manual: "keeps_manual s (LearnFaxPolicyFailure cfg f now n result s)"
  unfolding LearnFaxPolicyFailure_def Let_def
  by (auto split: prod.split option.split intro: upsert_keeps_manual'
      keeps_manual_trans [OF _ reload_keeps_manual] keeps_manual_trans [OF _ upsert_keeps_manual])

lemma bridge_keeps_manual: "keeps_manual s (LearnFaxPolicyBridgeFailure cfg f now n cause s)"
  unfolding LearnFaxPolicyBridgeFailure_def Let_def
  by (auto split: prod.split option.split intro: upsert_keeps_manual'
      keeps_manual_trans [OF _ reload_keeps_manual])

lemma success_keeps_manual: "keeps_manual s (LearnFaxPolicySuccess cfg f now n s)"
proof -
  let ?rs = "filter (is_auto n) (pl_rules s)"
  have "keeps_manual s (fst (success_loop cfg f now n ?rs False s))"
    by (rule success_loop_keeps_manual) (auto simp: auto_ids_def is_auto_def)
  then show ?thesis
    unfolding LearnFaxPolicySuccess_def Let_def
    by (auto split: prod.split intro: keeps_manual_trans [OF _ reload_keeps_manual])
qed

interpretation learning: step_invariant "learn_step cfg" s0 "keeps_manual s0" for cfg s0
proof
  show "keeps_manual s0 s0"
    by simp
  show "keeps_manual s0 t" if "keeps_manual s0 s" "learn_step cfg s t" for s t
    using that(2,1)
    by cases (auto intro: keeps_manual_trans failure_keeps_manual bridge_keeps_manual
        success_keeps_manual reload_keeps_manual)
qed

subsection \<open>Learning without faults\<close>

definition fresh_auto :: "FaxPolicyConfig \<Rightarrow> time \<Rightarrow> string \<Rightarrow> string \<Rightarrow> string \<Rightarrow> int \<Rightarrow> FaxPolicyRule \<Rightarrow> bool" where
  "fresh_auto cfg now n eff ap k r \<longleftrightarrow>
     auto_rule_for n eff ap r \<and> pr_Enabled r \<and> pr_FailureCount r = k \<and> pr_SuccessCount r = 0
     \<and> pr_ExpiresAt r = Some (now + autoRuleTTL cfg)"

lemma save_mem: "q \<in> set (pl_rules s) \<Longrightarrow> pr_ID q = pr_ID r \<Longrightarrow> r \<in> set (pl_rules (save_rule r s))"
  by (force simp: save_rule_def)

lemma upsert_fresh:
  assumes "upsertAutoRule cfg no_faults now n eff ap st k s = (t, x)"
  shows "x \<noteq> None \<and> (\<exists>r \<in> set (pl_rules t). fresh_auto cfg now n eff ap k r)"
proof (cases "findAutoRule no_faults s n eff ap")
  case None
  then show ?thesis
    using assms by (auto simp: upsertAutoRule_def Let_def no_faults_def fresh_auto_def
        auto_rule_for_def is_auto_def new_auto_rule_def)
next
  case (Some r)
  then show ?thesis
    using assms find_auto [OF Some]
    by (auto simp: upsertAutoRule_def Let_def no_faults_def fresh_auto_def auto_rule_for_def
        is_auto_def intro!: bexI [OF _ save_mem])
qed

lemma upsert_other:
  assumes "ids_ok s" "q \<in> set (pl_rules s)" "pr_Effect q \<noteq> eff"
  shows "q \<in> set (pl_rules (fst (upsertAutoRule cfg f now n eff ap st k s)))"
proof (cases "findAutoRule f s n eff ap")
  case None
  then show ?thesis
    using assms(2) by (simp add: upsertAutoRule_def Let_def)
next
  case (Some r)
  then have "pr_ID q \<noteq> pr_ID r"
    using find_auto [OF Some] unique_row [OF assms(1,2), of r] assms(3)
    by (auto simp: auto_rule_for_def)
  then show ?thesis
    using assms(2) Some by (force simp: upsertAutoRule_def Let_def save_rule_def)
qed

lemma upsert_effects:
  "pr_Effect ` set (pl_rules (fst (upsertAutoRule cfg f now n eff ap st k s)))
     \<subseteq> insert eff (pr_Effect ` set (pl_rules s))"
proof (cases "findAutoRule f s n eff ap")
  case (Some r)
  then show ?thesis
    using find_auto [OF Some]
    by (auto simp: upsertAutoRule_def Let_def save_rule_def auto_rule_for_def)
qed (auto simp: upsertAutoRule_def Let_def new_auto_rule_def)

lemma reload_fresh:
  assumes "r \<in> set (pl_rules s)" "fresh_auto cfg now n eff ap k r"
  shows "\<exists>rules. pl_cache (fst (reloadFaxPolicies no_faults now s)) = Some rules \<and> r \<in> set rules"
proof -
  have "\<not> autoRuleTTL cfg < 0"
    by (simp add: not_less less_imp_le)
  then have "\<not> prunable now r"
    using assms(2) by (simp add: prunable_def rule_expired_def fresh_auto_def)
  then show ?thesis
    using assms(1) by (simp add: reloadFaxPolicies_def no_faults_def Let_def)
qed

lemma reload_cache_rules:
  "pl_cache (fst (reloadFaxPolicies no_faults now s)) = Some rules \<Longrightarrow> set rules \<subseteq> set (pl_rules s)"
  by (auto simp: reloadFaxPolicies_def no_faults_def Let_def)

definition failures_now :: "policy_state \<Rightarrow> string \<Rightarrow> int" where
  "failures_now s n = (case List.find (auto_rule_for n PolicyEffectT38Off ''both'') (pl_rules s) of
     None \<Rightarrow> 1 | Some r \<Rightarrow> pr_FailureCount r + 1)"

lemma find_no_faults:
  "findAutoRule no_faults s n eff ap = List.find (auto_rule_for n eff ap) (pl_rules s)"
  by (simp add: findAutoRule_def no_faults_def)

text \<open>The three rungs of the ladder: each is climbed once the failure count reaches it.\<close>

definition rung ::
    "FaxPolicyConfig \<Rightarrow> time \<Rightarrow> string \<Rightarrow> string \<Rightarrow> int \<Rightarrow> string \<times> int \<Rightarrow> policy_state \<Rightarrow> policy_state" where
  "rung cfg now n st k e s =
     (if snd e \<le> k then fst (upsertAutoRule cfg no_faults now n (fst e) ''both'' st k s) else s)"

definition rungs :: "FaxPolicyConfig \<Rightarrow> (string \<times> int) list" where
  "rungs cfg = [(PolicyEffectT38Off, T38Threshold cfg), (PolicyEffectECMOff, ECMThreshold cfg),
     (PolicyEffectV17Off, V17Threshold cfg)]"

lemma failure_ladder:
  assumes "PolicyEnabled cfg" "LearningEnabled cfg" "n \<noteq> []" "T38Threshold cfg \<le> failures_now s n"
  shows "LearnFaxPolicyFailure cfg no_faults now n result s =
    fst (reloadFaxPolicies no_faults now
      (fold (rung cfg now n (case result of None \<Rightarrow> [] | Some r \<Rightarrow> fr_T38Status r) (failures_now s n))
         (rungs cfg) s))"
proof -
  obtain s1 r where u: "upsertAutoRule cfg no_faults now n PolicyEffectT38Off ''both''
      (case result of None \<Rightarrow> [] | Some r \<Rightarrow> fr_T38Status r) (failures_now s n) s = (s1, Some r)"
    using upsert_fresh by (metis not_None_eq surj_pair)
  show ?thesis
    using assms u
    by (simp add: LearnFaxPolicyFailure_def Let_def rungs_def rung_def find_no_faults
        flip: failures_now_def)
qed

lemma rung_keeps: "ids_ok s \<Longrightarrow> ids_ok (rung cfg now n st k e s)"
  using upsert_keeps_manual by (auto simp: rung_def keeps_manual_def)

lemma rung_other:
  "ids_ok s \<Longrightarrow> q \<in> set (pl_rules s) \<Longrightarrow> pr_Effect q \<noteq> fst e \<Longrightarrow>
   q \<in> set (pl_rules (rung cfg now n st k e s))"
  using upsert_other by (simp add: rung_def)

lemma rung_fresh:
  "snd e \<le> k \<Longrightarrow> \<exists>r \<in> set (pl_rules (rung cfg now n st k e s)). fresh_auto cfg now n (fst e) ''both'' k r"
  using upsert_fresh [OF prod.collapse [symmetric]] by (simp add: rung_def)

lemma fold_rung_kept:
  assumes "ids_ok s" "q \<in> set (pl_rules s)" "pr_Effect q \<notin> fst ` set es"
  shows "q \<in> set (pl_rules (fold (rung cfg now n st k) es s))"
  using assms by (induction es arbitrary: s) (auto simp: rung_keeps rung_other)

lemma fold_rung_fresh:
  assumes "ids_ok s" "distinct (map fst es)" "e \<in> set es" "snd e \<le> k"
  shows "\<exists>r \<in> set (pl_rules (fold (rung cfg now n st k) es s)). fresh_auto cfg now n (fst e) ''both'' k r"
  using assms
proof (induction es arbitrary: s)
  case (Cons d es)
  show ?case
  proof (cases "e = d")
    case True
    then obtain r where r: "r \<in> set (pl_rules (rung cfg now n st k d s))"
      "fresh_auto cfg now n (fst d) ''both'' k r"
      using rung_fresh Cons.prems(4) by blast
    then have "pr_Effect r \<notin> fst ` set es"
      using Cons.prems(2) by (auto simp: fresh_auto_def auto_rule_for_def)
    then show ?thesis
      using fold_rung_kept [OF rung_keeps r(1)] r(2) Cons.prems(1) True by auto
  next
    case False
    then show ?thesis
      using Cons.IH [OF rung_keeps] Cons.prems by auto
  qed
qed simp

lemma fold_rung_effects:
  "pr_Effect ` set (pl_rules (fold (rung cfg now n st k) es s))
     \<subseteq> fst ` set es \<union> pr_Effect ` set (pl_rules s)"
proof (induction es arbitrary: s)
  case (Cons e es)
  have "pr_Effect ` set (pl_rules (rung cfg now n st k e s)) \<subseteq> insert (fst e) (pr_Effect ` set (pl_rules s))"
    using upsert_effects by (auto simp: rung_def)
  then show ?case
    using Cons.IH [of "rung cfg now n st k e s"] by (simp, blast)
qed simp

lemma failure_rung:
  assumes "ids_ok s" "PolicyEnabled cfg" "LearningEnabled cfg" "n \<noteq> []"
    and "T38Threshold cfg \<le> failures_now s n"
    and "(eff, threshold) \<in> set (rungs cfg)" "threshold \<le> failures_now s n"
  shows "\<exists>rules. pl_cache (LearnFaxPolicyFailure cfg no_faults now n result s) = Some rules
     \<and> (\<exists>r \<in> set rules. fresh_auto cfg now n eff ''both'' (failures_now s n) r)"
proof -
  have "distinct (map fst (rungs cfg))"
    by (simp add: rungs_def policy_consts)
  from fold_rung_fresh [OF assms(1) this assms(6)] show ?thesis
    unfolding failure_ladder [OF assms(2-5)] using assms(7) reload_fresh by fastforce
qed

lemma failure_effects:
  assumes "PolicyEnabled cfg" "LearningEnabled cfg" "n \<noteq> []" "T38Threshold cfg \<le> failures_now s n"
    and "pl_cache (LearnFaxPolicyFailure cfg no_faults now n result s) = Some rules"
  shows "pr_Effect ` set rules \<subseteq> fst ` set (rungs cfg) \<union> pr_Effect ` set (pl_rules s)"
  using assms(5) reload_cache_rules fold_rung_effects unfolding failure_ladder [OF assms(1-4)]
  by (meson image_mono order_trans)

subsection \<open>Healing without faults\<close>

definition bump :: "time \<Rightarrow> FaxPolicyRule \<Rightarrow> FaxPolicyRule" where
  "bump now r = r\<lparr>pr_SuccessCount := pr_SuccessCount r + 1, pr_FailureCount := 0,
                  pr_LastSeenAt := Some now\<rparr>"

lemma bump_simps [simp]:
  "pr_ID (bump now r) = pr_ID r" "pr_SuccessCount (bump now r) = pr_SuccessCount r + 1"
  by (simp_all add: bump_def)

lemma fold_save_mem:
  "q \<in> set (pl_rules (fold save_rule xs s)) \<Longrightarrow>
   q \<in> set xs \<or> q \<in> set (pl_rules s) \<and> pr_ID q \<notin> pr_ID ` set xs"
proof (induction xs arbitrary: s)
  case (Cons x xs)
  have "q \<in> set (pl_rules (save_rule x s)) \<Longrightarrow> q = x \<or> q \<in> set (pl_rules s) \<and> pr_ID q \<noteq> pr_ID x"
    by (auto simp: save_rule_def)
  then show ?case
    using Cons.IH [of "save_rule x s"] Cons.prems by auto
qed simp

text \<open>One pass of the loop: either a rule has recovered and the number's auto rules are gone, or
  every rule of the number counts one success more.\<close>

lemma success_loop_result:
  assumes "success_loop cfg no_faults now n rs ch s = (t, ch')"
  shows "filter (is_auto n) (pl_rules t) = []
    \<or> (\<forall>r \<in> set rs. pr_SuccessCount r + 1 < RecoveryThreshold cfg)
       \<and> t = fold save_rule (map (bump now) rs) s"
    and "ch' \<longleftrightarrow> ch \<or> rs \<noteq> []"
  using assms
  by (induction rs arbitrary: s ch) (auto simp: Let_def no_faults_def bump_def filter_False split: if_splits)

lemma reload_no_faults:
  assumes "ids_ok s" "t = fst (reloadFaxPolicies no_faults now s)"
  shows "pl_cache t = Some (pl_rules t)" "set (pl_rules t) \<subseteq> set (pl_rules s)"
proof -
  have "(pr_ID r \<notin> set (map pr_ID (filter (prunable now) (pl_rules s)))) \<longleftrightarrow> \<not> prunable now r"
    if "r \<in> set (pl_rules s)" for r
    using that unique_row [OF assms(1)] by auto
  then have "pl_rules t = filter (\<lambda>r. \<not> prunable now r) (pl_rules s)"
    unfolding assms(2) reloadFaxPolicies_def no_faults_def Let_def
    by (auto intro!: filter_cong)
  then show "pl_cache t = Some (pl_rules t)" "set (pl_rules t) \<subseteq> set (pl_rules s)"
    by (auto simp: assms(2) reloadFaxPolicies_def no_faults_def Let_def)
qed

definition healing_at :: "FaxPolicyConfig \<Rightarrow> string \<Rightarrow> int \<Rightarrow> policy_state \<Rightarrow> bool" where
  "healing_at cfg n k s \<longleftrightarrow> ids_ok s \<and> pl_cache s = Some (pl_rules s) \<and>
     (\<forall>r \<in> set (pl_rules s). is_auto n r \<longrightarrow> k \<le> pr_SuccessCount r \<and> pr_SuccessCount r < RecoveryThreshold cfg)"

lemma success_step:
  assumes "PolicyEnabled cfg" "LearningEnabled cfg" "n \<noteq> []" "ids_ok s"
    and "\<forall>r \<in> set (pl_rules s). is_auto n r \<longrightarrow> k \<le> pr_SuccessCount r"
    and "filter (is_auto n) (pl_rules s) \<noteq> []"
  shows "healing_at cfg n (k + 1) (LearnFaxPolicySuccess cfg no_faults now n s)"
proof -
  let ?rs = "filter (is_auto n) (pl_rules s)"
  obtain t ch where loop: "success_loop cfg no_faults now n ?rs False s = (t, ch)"
    by fastforce
  note res = success_loop_result [OF loop]
  have L: "LearnFaxPolicySuccess cfg no_faults now n s = fst (reloadFaxPolicies no_faults now t)"
    using assms(1-3,6) loop res(2) by (simp add: LearnFaxPolicySuccess_def no_faults_def)
  have "keeps_manual s (fst (success_loop cfg no_faults now n ?rs False s))"
    by (rule success_loop_keeps_manual) (auto simp: auto_ids_def is_auto_def)
  then have ok: "ids_ok t"
    using assms(4) by (simp add: keeps_manual_def loop)
  have "k + 1 \<le> pr_SuccessCount q \<and> pr_SuccessCount q < RecoveryThreshold cfg"
    if q: "q \<in> set (pl_rules t)" "is_auto n q" for q
    using res(1)
  proof
    assume "filter (is_auto n) (pl_rules t) = []"
    with q show ?thesis by (simp add: filter_empty_conv)
  next
    assume b: "(\<forall>r \<in> set ?rs. pr_SuccessCount r + 1 < RecoveryThreshold cfg)
       \<and> t = fold save_rule (map (bump now) ?rs) s"
    then have "q \<in> bump now ` set ?rs \<or> q \<in> set (pl_rules s) \<and> pr_ID q \<notin> pr_ID ` set ?rs"
      using fold_save_mem [of q "map (bump now) ?rs" s] q(1) by (simp add: image_image)
    then have "q \<in> bump now ` set ?rs"
      using q(2) by auto
    with b assms(5) show ?thesis by auto
  qed
  then show ?thesis
    using reload_no_faults [OF ok refl, of now] reload_keeps_manual [of t no_faults now] ok
    unfolding L healing_at_def keeps_manual_def by blast
qed

lemma success_steps:
  assumes "PolicyEnabled cfg" "LearningEnabled cfg" "n \<noteq> []" "healing_at cfg n k s"
  shows "healing_at cfg n (k + int (length clock))
    (fold (\<lambda>now. LearnFaxPolicySuccess cfg no_faults now n) clock s)"
  using assms(4)
proof (induction clock arbitrary: s k)
  case (Cons now clock)
  have "healing_at cfg n (k + 1) (LearnFaxPolicySuccess cfg no_faults now n s)"
  proof (cases "filter (is_auto n) (pl_rules s) = []")
    case True
    then have "LearnFaxPolicySuccess cfg no_faults now n s = s"
      by (simp add: LearnFaxPolicySuccess_def)
    with True Cons.prems show ?thesis
      by (auto simp: healing_at_def filter_empty_conv)
  next
    case False
    have "ids_ok s" "\<forall>r \<in> set (pl_rules s). is_auto n r \<longrightarrow> k \<le> pr_SuccessCount r"
      using Cons.prems by (auto simp: healing_at_def)
    from success_step [OF assms(1-3) this False] show ?thesis .
  qed
  from Cons.IH [OF this] show ?case
    by (simp add: algebra_simps)
qed simp

subsection \<open>Pair states\<close>

lemma update_pair_lookup:
  "\<exists>st. map_of (pl_pairStates (UpdateT38PairState f srcNum dstNum callType used now s)) =
     (map_of (pl_pairStates s))(pairStateKey srcNum dstNum callType \<mapsto> st)
     \<and> ps_LastUsedT38 st = used \<and> ps_LastSeen st = now"
  by (auto simp: UpdateT38PairState_def Let_def update_conv' split: option.splits)

lemma pairStateKey_inj:
  assumes "pairStateKey a b c = pairStateKey a' b' c'"
    and "CHR ''|'' \<notin> set c" "CHR ''|'' \<notin> set c'" "CHR ''|'' \<notin> set a" "CHR ''|'' \<notin> set a'"
  shows "a = a' \<and> b = b' \<and> c = c'"
proof -
  let ?s = "pairStateKey a b c"
  have "split2 CHR ''|'' ?s = Some (c, a @ CHR ''|'' # b)"
    "split2 CHR ''|'' ?s = Some (c', a' @ CHR ''|'' # b')"
    using assms by (simp_all add: split2_Some_iff pairStateKey_def)
  then have c: "c = c'" and r: "a @ CHR ''|'' # b = a' @ CHR ''|'' # b'"
    by simp_all
  have "split2 CHR ''|'' (a @ CHR ''|'' # b) = Some (a, b)"
    "split2 CHR ''|'' (a @ CHR ''|'' # b) = Some (a', b')"
    using assms(4,5) r by (simp_all add: split2_Some_iff)
  with c show ?thesis by simp
qed

lemma failure_forces_off:
  assumes "ids_ok s" "PolicyEnabled (cf_Policy cfg)" "LearningEnabled (cf_Policy cfg)" "n \<noteq> []"
    and "T38Threshold (cf_Policy cfg) \<le> failures_now s n"
    and "\<forall>r \<in> set (pl_rules s). pr_Effect r \<noteq> PolicyEffectT38On"
    and "cache = pl_cache (LearnFaxPolicyFailure (cf_Policy cfg) no_faults now n result s)"
    and "later \<le> now + autoRuleTTL (cf_Policy cfg)"
  shows "fp_T38ForcedOff (ResolveFaxPolicy cfg cache other n callType later)
     \<and> fp_T38ForcedOff (ResolveFaxPolicy cfg cache n other callType later)"
proof -
  obtain rules r where c: "cache = Some rules" and r: "r \<in> set rules"
    and f: "fresh_auto (cf_Policy cfg) now n PolicyEffectT38Off ''both'' (failures_now s n) r"
    using failure_rung [OF assms(1-5), of PolicyEffectT38Off "T38Threshold (cf_Policy cfg)" now result] assms(5,7)
    by (auto simp: rungs_def)
  have "\<forall>q \<in> set rules. pr_Effect q \<noteq> PolicyEffectT38On"
    using failure_effects [OF assms(2-5), of now result rules] assms(6,7) c
    by (fastforce simp: rungs_def policy_consts)
  moreover have "restricts_t38 r" "r \<in> set (call_rules rules other n callType later)"
    "r \<in> set (call_rules rules n other callType later)"
    using f r assms(8)
    by (simp_all add: restricts_t38_def call_rules_def ruleMatches_def fresh_auto_def
        auto_rule_for_def is_auto_def rule_expired_def policy_consts)
  ultimately show ?thesis
    using resolve_restrictive [OF assms(2) _ _ _ refl, of r rules] c
    by (auto simp: call_rules_def)
qed

subsection \<open>A learned rule over later learning\<close>

definition t38_variables :: "string list" where
  "t38_variables = [''fax_enable_t38'', ''fax_enable_t38_request'']"

text \<open>A rule that could put T.38 into a call: it permits T.38 or sets one of its variables.\<close>

definition permits_t38 :: "FaxPolicyRule \<Rightarrow> bool" where
  "permits_t38 r \<longleftrightarrow> pr_Effect r = PolicyEffectT38On
     \<or> pr_Effect r = PolicyEffectVarOverride \<and> pr_VarName r \<in> set t38_variables"

text \<open>What may be learned up to the time \<open>later\<close> without healing the number \<open>n\<close>, whichever
  database statements fail: failures and bridge failures of any number, successes of other numbers,
  and reloads of the cache.\<close>

inductive later_learning :: "FaxPolicyConfig \<Rightarrow> string \<Rightarrow> time \<Rightarrow> policy_state \<Rightarrow> policy_state \<Rightarrow> bool"
  for cfg n later where
  ll_failure: "now \<le> later \<Longrightarrow> later \<le> now + autoRuleTTL cfg \<Longrightarrow>
    later_learning cfg n later s (LearnFaxPolicyFailure cfg f now m result s)"
| ll_bridge: "now \<le> later \<Longrightarrow> later \<le> now + autoRuleTTL cfg \<Longrightarrow>
    later_learning cfg n later s (LearnFaxPolicyBridgeFailure cfg f now m cause s)"
| ll_success: "now \<le> later \<Longrightarrow> m \<noteq> n \<Longrightarrow> later_learning cfg n later s (LearnFaxPolicySuccess cfg f now m s)"
| ll_reload: "now \<le> later \<Longrightarrow> later_learning cfg n later s (fst (reloadFaxPolicies f now s))"

text \<open>A rule learned for \<open>n\<close> that lasts until \<open>later\<close>, and a list of rules in which it decides.\<close>

definition lasting :: "string \<Rightarrow> time \<Rightarrow> FaxPolicyRule \<Rightarrow> bool" where
  "lasting n later r \<longleftrightarrow> auto_rule_for n PolicyEffectT38Off ''both'' r \<and> pr_Enabled r
     \<and> (\<exists>e. pr_ExpiresAt r = Some e \<and> later \<le> e)"

definition t38_barred :: "string \<Rightarrow> time \<Rightarrow> FaxPolicyRule list \<Rightarrow> bool" where
  "t38_barred n later rules \<longleftrightarrow> (\<exists>r \<in> set rules. lasting n later r) \<and> (\<forall>q \<in> set rules. \<not> permits_t38 q)"

definition table_barred :: "string \<Rightarrow> time \<Rightarrow> policy_state \<Rightarrow> bool" where
  "table_barred n later s \<longleftrightarrow> ids_ok s \<and> t38_barred n later (pl_rules s)"

definition holds_bar :: "string \<Rightarrow> time \<Rightarrow> policy_state \<Rightarrow> bool" where
  "holds_bar n later s \<longleftrightarrow> table_barred n later s \<and> (\<exists>rules. pl_cache s = Some rules \<and> t38_barred n later rules)"

lemma t38_barredI:
  "r \<in> set rules \<Longrightarrow> lasting n later r \<Longrightarrow> \<forall>q \<in> set rules. \<not> permits_t38 q \<Longrightarrow> t38_barred n later rules"
  unfolding t38_barred_def by blast

lemma lasting_kept: "lasting n later r \<Longrightarrow> now \<le> later \<Longrightarrow> \<not> prunable now r"
  by (auto simp: lasting_def prunable_def rule_expired_def)

lemma auto_effect_permits:
  "pr_Effect r \<in> {PolicyEffectT38Off, PolicyEffectECMOff, PolicyEffectV17Off} \<Longrightarrow> \<not> permits_t38 r"
  by (auto simp: permits_t38_def policy_consts)

lemma cache_upsert [simp]: "pl_cache (fst (upsertAutoRule cfg f now n eff ap st k s)) = pl_cache s"
  by (auto simp: upsertAutoRule_def Let_def save_rule_def split: option.split)

lemma save_barred:
  assumes "table_barred n later s" "ids_ok (save_rule r s)" "\<not> permits_t38 r"
    and "\<And>q. q \<in> set (pl_rules s) \<Longrightarrow> lasting n later q \<Longrightarrow> pr_ID q = pr_ID r \<Longrightarrow> lasting n later r"
  shows "table_barred n later (save_rule r s)"
proof -
  obtain q where q: "q \<in> set (pl_rules s)" "lasting n later q"
    using assms(1) by (auto simp: table_barred_def t38_barred_def)
  have none: "\<forall>x \<in> set (pl_rules (save_rule r s)). \<not> permits_t38 x"
    using assms(1,3) by (auto simp: table_barred_def t38_barred_def save_rule_def)
  have "\<exists>x \<in> set (pl_rules (save_rule r s)). lasting n later x"
  proof (cases "pr_ID q = pr_ID r")
    case True
    then show ?thesis
      using assms(4) [OF q] save_mem [OF q(1)] by blast
  next
    case False
    then have "q \<in> set (pl_rules (save_rule r s))"
      using q(1) by (force simp: save_rule_def)
    with q(2) show ?thesis by blast
  qed
  with none assms(2) show ?thesis
    by (simp add: table_barred_def t38_barred_def)
qed

lemma upsert_barred:
  assumes "table_barred n later s" "later \<le> now + autoRuleTTL cfg"
    and "eff \<in> {PolicyEffectT38Off, PolicyEffectECMOff, PolicyEffectV17Off}"
  shows "table_barred n later (fst (upsertAutoRule cfg f now m eff ap st k s))"
proof -
  have ok: "ids_ok (fst (upsertAutoRule cfg f now m eff ap st k s))"
    using upsert_keeps_manual [of s cfg f now m eff ap st k] assms(1)
    by (simp add: keeps_manual_def table_barred_def)
  show ?thesis
  proof (cases "findAutoRule f s m eff ap")
    case None
    have "\<not> permits_t38 (new_auto_rule cfg now (pl_nextID s) m eff ap st k)"
      using assms(3) by (intro auto_effect_permits) (simp add: new_auto_rule_def)
    then show ?thesis
      using None assms(1) ok
      by (auto simp: upsertAutoRule_def Let_def table_barred_def t38_barred_def)
  next
    case (Some x)
    define r where "r = x\<lparr>pr_FailureCount := k, pr_SuccessCount := 0, pr_Enabled := True,
      pr_ExpiresAt := Some (now + autoRuleTTL cfg), pr_LastSeenAt := Some now, pr_LastT38Status := st\<rparr>"
    have u: "fst (upsertAutoRule cfg f now m eff ap st k s) = (if f (SaveRule (pr_ID r)) then s else save_rule r s)"
      using Some by (simp add: upsertAutoRule_def Let_def r_def)
    have x: "x \<in> set (pl_rules s)" "auto_rule_for m eff ap x"
      using find_auto [OF Some] by simp_all
    have "\<not> permits_t38 r"
      using x(2) assms(3) by (intro auto_effect_permits) (simp add: r_def auto_rule_for_def)
    moreover have "lasting n later r"
      if "q \<in> set (pl_rules s)" "lasting n later q" "pr_ID q = pr_ID r" for q
    proof -
      have "q = x"
        using that(1,3) x(1) assms(1) unique_row [of s q x] by (simp add: r_def table_barred_def)
      with that(2) show ?thesis
        using assms(2) by (simp add: lasting_def r_def auto_rule_for_def is_auto_def)
    qed
    ultimately show ?thesis
      using assms(1) ok save_barred [of n later s r] unfolding u by (simp split: if_splits)
  qed
qed

lemma reload_barred:
  assumes "table_barred n later s" "now \<le> later" "\<not> f FindRules"
  shows "holds_bar n later (fst (reloadFaxPolicies f now s))"
proof -
  let ?t = "fst (reloadFaxPolicies f now s)"
  let ?gone = "set (map pr_ID (filter (\<lambda>r. prunable now r \<and> \<not> f (DeleteRule (pr_ID r))) (pl_rules s)))"
  have t: "pl_rules ?t = filter (\<lambda>r. pr_ID r \<notin> ?gone) (pl_rules s)"
    "pl_cache ?t = Some (filter (\<lambda>r. \<not> prunable now r) (pl_rules s))"
    using assms(3) by (simp_all add: reloadFaxPolicies_def Let_def)
  obtain r where r: "r \<in> set (pl_rules s)" "lasting n later r"
    and none: "\<forall>q \<in> set (pl_rules s). \<not> permits_t38 q" and ok: "ids_ok s"
    using assms(1) by (auto simp: table_barred_def t38_barred_def)
  note kept = lasting_kept [OF r(2) assms(2)]
  have "pr_ID r \<notin> ?gone"
    using kept r(1) unique_row [OF ok] by auto
  then have "t38_barred n later (pl_rules ?t)"
    unfolding t using r none by (intro t38_barredI [of r]) auto
  moreover have "t38_barred n later (filter (\<lambda>r. \<not> prunable now r) (pl_rules s))"
    using r none kept by (intro t38_barredI [of r]) auto
  moreover have "ids_ok ?t"
    using reload_keeps_manual [of s f now] ok by (simp add: keeps_manual_def)
  ultimately show ?thesis
    by (simp add: holds_bar_def table_barred_def t(2))
qed

text \<open>A learning routine that keeps the bar in the table and either leaves the cache alone or reloads it.\<close>

definition bar_kept :: "string \<Rightarrow> time \<Rightarrow> policy_state \<Rightarrow> policy_state \<Rightarrow> bool" where
  "bar_kept n later s t \<longleftrightarrow> (table_barred n later s \<longrightarrow> table_barred n later t)
     \<and> (pl_cache t = pl_cache s \<or> (table_barred n later s \<longrightarrow> holds_bar n later t))"

lemma bar_kept_holds: "bar_kept n later s t \<Longrightarrow> holds_bar n later s \<Longrightarrow> holds_bar n later t"
  by (auto simp: bar_kept_def holds_bar_def)

lemma bar_kept_refl [simp]: "bar_kept n later s s"
  by (simp add: bar_kept_def)

lemma bar_kept_trans: "bar_kept n later s t \<Longrightarrow> bar_kept n later t u \<Longrightarrow> bar_kept n later s u"
  by (auto simp: bar_kept_def holds_bar_def)

lemma bar_kept_reload: "now \<le> later \<Longrightarrow> bar_kept n later s (fst (reloadFaxPolicies f now s))"
proof (cases "f FindRules")
  case False
  then show "now \<le> later \<Longrightarrow> ?thesis"
    using reload_barred [of n later s now f] by (auto simp: bar_kept_def holds_bar_def)
qed (simp add: reloadFaxPolicies_def)

lemma bar_kept_upsert:
  "later \<le> now + autoRuleTTL cfg \<Longrightarrow> eff \<in> {PolicyEffectT38Off, PolicyEffectECMOff, PolicyEffectV17Off} \<Longrightarrow>
   bar_kept n later s (fst (upsertAutoRule cfg f now m eff ap st k s))"
  by (simp add: bar_kept_def upsert_barred)

lemma bar_kept_upsert':
  "upsertAutoRule cfg f now m eff ap st k s = (t, x) \<Longrightarrow> later \<le> now + autoRuleTTL cfg \<Longrightarrow>
   eff \<in> {PolicyEffectT38Off, PolicyEffectECMOff, PolicyEffectV17Off} \<Longrightarrow> bar_kept n later s t"
  using bar_kept_upsert by (metis fst_conv)

lemma bar_kept_failure:
  assumes "now \<le> later" "later \<le> now + autoRuleTTL cfg"
  shows "bar_kept n later s (LearnFaxPolicyFailure cfg f now m result s)"
  unfolding LearnFaxPolicyFailure_def Let_def
  by (auto split: prod.split option.split intro: bar_kept_upsert' [OF _ assms(2)]
      intro!: bar_kept_trans [OF _ bar_kept_reload [OF assms(1)]] bar_kept_trans [OF _ bar_kept_upsert [OF assms(2)]])

lemma bar_kept_bridge:
  assumes "now \<le> later" "later \<le> now + autoRuleTTL cfg"
  shows "bar_kept n later s (LearnFaxPolicyBridgeFailure cfg f now m cause s)"
  unfolding LearnFaxPolicyBridgeFailure_def Let_def
  by (auto split: prod.split option.split intro: bar_kept_upsert' [OF _ assms(2)]
      intro!: bar_kept_trans [OF _ bar_kept_reload [OF assms(1)]])

text \<open>The loop over the rules of another number touches no rule of \<open>n\<close>.\<close>

lemma is_auto_lasting: "lasting n later r \<Longrightarrow> is_auto m r \<Longrightarrow> m = n"
  by (simp add: lasting_def auto_rule_for_def is_auto_def)

definition rows_of :: "string \<Rightarrow> policy_state \<Rightarrow> FaxPolicyRule list \<Rightarrow> bool" where
  "rows_of m s rs \<longleftrightarrow> (\<forall>r \<in> set rs. is_auto m r \<and> \<not> permits_t38 r \<and> pr_ID r \<in> auto_ids s
     \<and> (\<forall>q \<in> set (pl_rules s). pr_ID q = pr_ID r \<longrightarrow> is_auto m q))"

lemma save_row:
  assumes "table_barred n later s" "m \<noteq> n" "rows_of m s (r # rs)" "pr_ID r' = pr_ID r"
    and "is_auto m r'" "permits_t38 r' = permits_t38 r"
  shows "table_barred n later (save_rule r' s)" "rows_of m (save_rule r' s) rs"
proof -
  have ok: "ids_ok s" and a: "pr_Origin r' = PolicyOriginAuto" "pr_ID r' \<in> auto_ids s"
    using assms by (simp_all add: table_barred_def rows_of_def is_auto_def)
  have "ids_ok (save_rule r' s)"
    using save_auto(1) [OF a] ok by (simp add: keeps_manual_def)
  moreover have "\<not> (lasting n later q \<and> pr_ID q = pr_ID r')" if "q \<in> set (pl_rules s)" for q
    using that assms(2-4) is_auto_lasting by (fastforce simp: rows_of_def)
  ultimately show "table_barred n later (save_rule r' s)"
    using assms(1,3,6) by (intro save_barred) (auto simp: rows_of_def)
  show "rows_of m (save_rule r' s) rs"
    using assms(3,5) save_auto(2) [OF a ok] unfolding rows_of_def
    by (auto simp: save_rule_def)
qed

lemma success_loop_barred:
  assumes "table_barred n later s" "m \<noteq> n" "rows_of m s rs"
  shows "table_barred n later (fst (success_loop cfg f now m rs ch s))"
  using assms(1,3)
proof (induction rs arbitrary: s ch)
  case (Cons r rs)
  let ?r = "r\<lparr>pr_SuccessCount := pr_SuccessCount r + 1, pr_FailureCount := 0, pr_LastSeenAt := Some now\<rparr>"
  let ?s = "if f (SaveRule (pr_ID r)) then s else save_rule ?r s"
  have "is_auto m ?r" "permits_t38 ?r = permits_t38 r"
    using Cons.prems(2) by (simp_all add: rows_of_def is_auto_def permits_t38_def)
  note row = save_row [OF Cons.prems(1) assms(2) Cons.prems(2) _ this, simplified]
  have "rows_of m s rs"
    using Cons.prems(2) by (simp add: rows_of_def)
  then have rest: "table_barred n later (fst (success_loop cfg f now m rs True ?s))"
    using Cons.IH [of ?s True] row Cons.prems(1) by simp
  have "table_barred n later (s\<lparr>pl_rules := filter (\<lambda>q. \<not> is_auto m q) (pl_rules s)\<rparr>)"
    using Cons.prems(1) assms(2) is_auto_lasting
    by (fastforce simp: table_barred_def t38_barred_def ids_ok_def distinct_map inj_on_def)
  with rest Cons.prems(1) show ?case
    by (simp add: Let_def)
qed simp

lemma success_loop_cache [simp]: "pl_cache (fst (success_loop cfg f now m rs ch s)) = pl_cache s"
  by (induction rs arbitrary: s ch) (simp_all add: Let_def save_rule_def)

lemma bar_kept_success:
  assumes "now \<le> later" "m \<noteq> n"
  shows "bar_kept n later s (LearnFaxPolicySuccess cfg f now m s)"
proof -
  let ?rs = "filter (is_auto m) (pl_rules s)"
  have "bar_kept n later s (fst (success_loop cfg f now m ?rs False s))"
  proof -
    have "rows_of m s ?rs" if b: "table_barred n later s"
      using b unique_row [of s]
      by (fastforce simp: rows_of_def auto_ids_def is_auto_def table_barred_def t38_barred_def)
    then show ?thesis
      using success_loop_barred [OF _ assms(2)] by (auto simp: bar_kept_def)
  qed
  then show ?thesis
    unfolding LearnFaxPolicySuccess_def Let_def
    by (auto split: prod.split intro: bar_kept_trans [OF _ bar_kept_reload [OF assms(1)]])
qed

interpretation later: step_invariant "later_learning cfg n later" s0
    "\<lambda>s. holds_bar n later s0 \<longrightarrow> holds_bar n later s" for cfg n later s0
proof
  show "holds_bar n later s0 \<longrightarrow> holds_bar n later t"
    if "holds_bar n later s0 \<longrightarrow> holds_bar n later s" "later_learning cfg n later s t" for s t
    using that(2,1)
    by cases (auto intro: bar_kept_holds bar_kept_failure bar_kept_bridge bar_kept_success bar_kept_reload)
qed simp

lemma upsert_no_permit:
  assumes "\<forall>q \<in> set (pl_rules s). \<not> permits_t38 q"
    and "eff \<in> {PolicyEffectT38Off, PolicyEffectECMOff, PolicyEffectV17Off}"
  shows "\<forall>q \<in> set (pl_rules (fst (upsertAutoRule cfg f now m eff ap st k s))). \<not> permits_t38 q"
proof (cases "findAutoRule f s m eff ap")
  case None
  then show ?thesis
    using assms auto_effect_permits [of "new_auto_rule cfg now (pl_nextID s) m eff ap st k"]
    by (simp add: upsertAutoRule_def Let_def new_auto_rule_def)
next
  case (Some r)
  then show ?thesis
    using assms find_auto [OF Some]
      auto_effect_permits [of "r\<lparr>pr_FailureCount := k, pr_SuccessCount := 0, pr_Enabled := True,
        pr_ExpiresAt := Some (now + autoRuleTTL cfg), pr_LastSeenAt := Some now, pr_LastT38Status := st\<rparr>"]
    by (auto simp: upsertAutoRule_def Let_def save_rule_def auto_rule_for_def)
qed

lemma fold_rung_no_permit:
  "\<forall>q \<in> set (pl_rules s). \<not> permits_t38 q \<Longrightarrow>
   fst ` set es \<subseteq> {PolicyEffectT38Off, PolicyEffectECMOff, PolicyEffectV17Off} \<Longrightarrow>
   \<forall>q \<in> set (pl_rules (fold (rung cfg now n st k) es s)). \<not> permits_t38 q"
proof (induction es arbitrary: s)
  case (Cons e es)
  have "fst e \<in> {PolicyEffectT38Off, PolicyEffectECMOff, PolicyEffectV17Off}"
    using Cons.prems(2) by simp
  then have "\<forall>q \<in> set (pl_rules (rung cfg now n st k e s)). \<not> permits_t38 q"
    unfolding rung_def using upsert_no_permit [OF Cons.prems(1)] Cons.prems(1) by presburger
  then show ?case
    using Cons.IH Cons.prems(2) by simp
qed simp

text \<open>A failure that reaches the threshold raises the bar.\<close>

lemma failure_bars:
  assumes "ids_ok s" "PolicyEnabled cfg" "LearningEnabled cfg" "n \<noteq> []" "T38Threshold cfg \<le> failures_now s n"
    and "\<forall>q \<in> set (pl_rules s). \<not> permits_t38 q" "later \<le> now + autoRuleTTL cfg"
  shows "holds_bar n later (LearnFaxPolicyFailure cfg no_faults now n result s)"
proof -
  define st k s3 where "st = (case result of None \<Rightarrow> [] | Some r \<Rightarrow> fr_T38Status r)"
    and "k = failures_now s n" and "s3 = fold (rung cfg now n st k) (rungs cfg) s"
  have L: "LearnFaxPolicyFailure cfg no_faults now n result s = fst (reloadFaxPolicies no_faults now s3)"
    unfolding s3_def st_def k_def by (rule failure_ladder [OF assms(2-5)])
  have ok: "ids_ok s3"
    unfolding s3_def rungs_def using assms(1) by (simp add: rung_keeps)
  have "\<forall>q \<in> set (pl_rules s3). \<not> permits_t38 q"
    unfolding s3_def by (rule fold_rung_no_permit [OF assms(6)]) (simp add: rungs_def)
  moreover obtain r where "r \<in> set (pl_rules s3)" "fresh_auto cfg now n PolicyEffectT38Off ''both'' k r"
    using fold_rung_fresh [OF assms(1), of "rungs cfg" "(PolicyEffectT38Off, T38Threshold cfg)" k cfg now n st] assms(5)
    by (auto simp: rungs_def policy_consts s3_def k_def)
  ultimately have "table_barred n (now + autoRuleTTL cfg) s3"
    using ok by (auto simp: table_barred_def t38_barred_def lasting_def fresh_auto_def)
  then have "holds_bar n (now + autoRuleTTL cfg) (fst (reloadFaxPolicies no_faults now s3))"
    by (rule reload_barred) (simp_all add: no_faults_def less_imp_le)
  then show ?thesis
    using assms(7) unfolding L holds_bar_def table_barred_def t38_barred_def lasting_def
    by (meson order_trans)
qed

lemma barred_policy:
  assumes "holds_bar n later s" "PolicyEnabled (cf_Policy cfg)" "n \<in> {srcNum, dstNum}"
  shows "fp_T38ForcedOff (ResolveFaxPolicy cfg (pl_cache s) srcNum dstNum callType later)
    \<and> \<not> fp_EnableT38 (ResolveFaxPolicy cfg (pl_cache s) srcNum dstNum callType later)
    \<and> \<not> fp_RequestT38 (ResolveFaxPolicy cfg (pl_cache s) srcNum dstNum callType later)
    \<and> (\<forall>name \<in> set t38_variables.
         map_of (fp_VarOverrides (ResolveFaxPolicy cfg (pl_cache s) srcNum dstNum callType later)) name = None)"
proof -
  obtain rules r where c: "pl_cache s = Some rules" and r: "r \<in> set rules" "lasting n later r"
    and none: "\<forall>q \<in> set rules. \<not> permits_t38 q"
    using assms(1) by (auto simp: holds_bar_def t38_barred_def)
  have hit: "r \<in> set (call_rules rules srcNum dstNum callType later)" "restricts_t38 r"
    using r assms(3) by (auto simp: call_rules_def ruleMatches_def lasting_def auto_rule_for_def is_auto_def
        rule_expired_def policy_consts restricts_t38_def)
  have "map_of (fp_VarOverrides (ResolveFaxPolicy cfg (pl_cache s) srcNum dstNum callType later)) name = None"
    if "name \<in> set t38_variables" for name
    using that none unfolding c resolve_attrs(4) [OF assms(2)]
    by (auto simp: first_hit_None var_verdict_def call_rules_def permits_t38_def)
  moreover have "\<forall>q \<in> set (call_rules rules srcNum dstNum callType later).
       pr_Effect q = PolicyEffectT38On \<longrightarrow> rule_spec r \<le> rule_spec q"
    using none by (auto simp: call_rules_def permits_t38_def)
  ultimately show ?thesis
    using resolve_restrictive [OF assms(2) hit _ refl] c by simp
qed

section \<open>Properties\<close>

text \<open>Learning never touches the administrator's rules: whatever sequence of learned failures,
  bridge failures, successes and cache reloads runs, and whichever of their database statements
  fail, the rows that are not auto rules stay in the table unchanged and in order, and the
  primary keys stay distinct.\<close>

theorem learning_keeps_manual_rules:
  assumes "reach (learn_step cfg) s0 s" "ids_ok s0"
  shows "ids_ok s \<and> manual_rules s = manual_rules s0"
  using learning.reach_holds [OF assms(1)] assms(2) by (simp add: keeps_manual_def)

text \<open>The ladder: a failure that reaches the T.38 threshold leaves in the cache an enabled auto
  \<open>t38_off\<close> rule for the number with the new failure count, no successes and a fresh expiry, and
  likewise \<open>ecm_off\<close> and \<open>v17_off\<close> rules once the count reaches their thresholds.\<close>

theorem failure_escalates_ladder:
  assumes "ids_ok s" "PolicyEnabled cfg" "LearningEnabled cfg" "n \<noteq> []"
    and "T38Threshold cfg \<le> failures_now s n"
    and "(eff, threshold) \<in> set (rungs cfg)" and "threshold \<le> failures_now s n"
  shows "\<exists>rules. pl_cache (LearnFaxPolicyFailure cfg no_faults now n result s) = Some rules
     \<and> (\<exists>r \<in> set rules. fresh_auto cfg now n eff ''both'' (failures_now s n) r)"
  using assms by (rule failure_rung)

text \<open>From a failure to the next call: once a failure to a number has reached the T.38 threshold,
  every call to or from that number until the learned rule expires is resolved with T.38 forced
  off, provided no rule of the table permits T.38.\<close>

theorem failure_disables_t38:
  assumes "ids_ok s" "PolicyEnabled (cf_Policy cfg)" "LearningEnabled (cf_Policy cfg)" "n \<noteq> []"
    and "T38Threshold (cf_Policy cfg) \<le> failures_now s n"
    and "\<forall>r \<in> set (pl_rules s). pr_Effect r \<noteq> PolicyEffectT38On"
    and "cache = pl_cache (LearnFaxPolicyFailure (cf_Policy cfg) no_faults now n result s)"
    and "later \<le> now + autoRuleTTL (cf_Policy cfg)"
  shows "fp_T38ForcedOff (ResolveFaxPolicy cfg cache other n callType later)
     \<and> fp_T38ForcedOff (ResolveFaxPolicy cfg cache n other callType later)"
  using assms by (rule failure_forces_off)

text \<open>With a T.38 threshold above one, learning never starts: the failure counter lives in the
  \<open>t38_off\<close> rule itself, which is only written once the threshold is reached, so any number of
  failures against a number without such a rule leaves the table and the cache unchanged.\<close>

theorem threshold_above_one_never_learns:
  assumes "1 < T38Threshold cfg"
    and "List.find (auto_rule_for n PolicyEffectT38Off ''both'') (pl_rules s) = None"
  shows "fold (\<lambda>(now, result). LearnFaxPolicyFailure cfg no_faults now n result) attempts s = s"
proof -
  have "LearnFaxPolicyFailure cfg no_faults now n result s = s" for now result
    using assms by (simp add: LearnFaxPolicyFailure_def find_no_faults)
  then show ?thesis
    by (induction attempts) auto
qed

text \<open>C22: Healing: after as many consecutive successes with a number as the recovery threshold asks
  for, the number has no auto rule left, neither in the table nor in the cache the policy is
  resolved from, so T.38 is probed again.\<close>

theorem successes_heal_number:
  assumes "PolicyEnabled cfg" "LearningEnabled cfg" "n \<noteq> []" "ids_ok s"
    and "\<forall>r \<in> set (pl_rules s). is_auto n r \<longrightarrow> 0 \<le> pr_SuccessCount r"
    and "filter (is_auto n) (pl_rules s) \<noteq> []"
    and "RecoveryThreshold cfg \<le> int (length clock)"
    and "t = fold (\<lambda>now. LearnFaxPolicySuccess cfg no_faults now n) clock s"
  shows "filter (is_auto n) (pl_rules t) = [] \<and> pl_cache t = Some (pl_rules t)"
proof -
  obtain now rest where clock: "clock = now # rest"
    using assms(7) policy_thresholds_pos(4) [of cfg] by (cases clock) (auto simp del: policy_thresholds_pos)
  have "healing_at cfg n (0 + 1 + int (length rest)) t"
    unfolding assms(8) clock fold_simps comp_def
    by (rule success_steps [OF assms(1-3) success_step [OF assms(1-6)]])
  with assms(7) show ?thesis
    by (auto simp: healing_at_def filter_empty_conv clock)
qed

text \<open>Flip-flop probing: while the last call of a pair is recent, the next call of that pair and
  call type tries the opposite of what was used; once the pair has been quiet for longer than the
  time to live, T.38 is allowed again. Whether the database accepted the row does not matter.\<close>

theorem flip_flop_alternates:
  assumes "s' = UpdateT38PairState faults srcNum dstNum callType used now s"
  shows "ShouldAllowT38ForPair cfg srcNum dstNum callType later s' =
    (if time_sub later now > PairStateTTL cfg then True else \<not> used)"
  using update_pair_lookup [of faults srcNum dstNum callType used now s] assms
  by (auto simp: ShouldAllowT38ForPair_def)

text \<open>Pairs do not interfere: recording a call of one pair and call type leaves the probing
  decision of every other pair or call type as it was, when caller numbers and call types
  contain no \<open>|\<close>.\<close>

theorem pairs_do_not_interfere:
  assumes "(a, b, c) \<noteq> (a', b', c')"
    and "list_all (\<lambda>x. CHR ''|'' \<notin> set x) [a, c, a', c']"
  shows "ShouldAllowT38ForPair cfg a' b' c' later (UpdateT38PairState faults a b c used now s) =
    ShouldAllowT38ForPair cfg a' b' c' later s"
proof -
  have "pairStateKey a' b' c' \<noteq> pairStateKey a b c"
    using pairStateKey_inj [of a' b' c' a b c] assms by auto
  then show ?thesis
    using update_pair_lookup [of faults a b c used now s] by (auto simp: ShouldAllowT38ForPair_def)
qed

section \<open>Sample values\<close>

definition sample_table :: policy_state where
  "sample_table = \<lparr>pl_rules = [sample_rule], pl_nextID = 2, pl_cache = None\<rparr>"

lemma sample_table_ok: "ids_ok sample_table"
  by (simp add: ids_ok_def sample_table_def sample_rule_def)

lemma sample_learning:
  "PolicyEnabled (cf_Policy sample_cfg)" "LearningEnabled (cf_Policy sample_cfg)"
  by (simp_all add: sample_policy LearningEnabled_def)

lemma sample_failures: "failures_now sample_table ''100'' = 2"
  by (simp add: failures_now_def sample_table_def auto_rule_for_def is_auto_def sample_rule_def)

lemmas sample_thresholds = T38Threshold_def ECMThreshold_def V17Threshold_def RecoveryThreshold_def

lemma learning_keeps_manual_rules_witness:
  "\<exists>s. reach (learn_step (cf_Policy sample_cfg)) sample_table s \<and> length (pl_rules s) = 2 \<and> ids_ok s
     \<and> manual_rules s = manual_rules sample_table"
proof -
  let ?s = "LearnFaxPolicyFailure (cf_Policy sample_cfg) no_faults 7 ''100'' None sample_table"
  have r: "reach (learn_step (cf_Policy sample_cfg)) sample_table ?s"
    by (rule reach.reach_step [where R = "learn_step (cf_Policy sample_cfg)", OF reach.reach_start ls_failure])
  moreover have "length (pl_rules ?s) = 2"
    by code_simp
  ultimately show ?thesis
    using learning_keeps_manual_rules [OF r sample_table_ok] by blast
qed

lemma failure_escalates_ladder_witness:
  "\<exists>rules. pl_cache (LearnFaxPolicyFailure (cf_Policy sample_cfg) no_faults 7 ''100'' None sample_table)
     = Some rules \<and> (\<exists>r \<in> set rules. fresh_auto (cf_Policy sample_cfg) 7 ''100'' PolicyEffectECMOff ''both'' 2 r)"
  using failure_escalates_ladder [OF sample_table_ok sample_learning, of "''100''" PolicyEffectECMOff 2 7 None]
  by (simp add: sample_failures rungs_def sample_thresholds sample_policy)

lemma failure_disables_t38_witness:
  "fp_T38ForcedOff (ResolveFaxPolicy sample_cfg
     (pl_cache (LearnFaxPolicyFailure (cf_Policy sample_cfg) no_faults 7 ''100'' None sample_table))
     ''200'' ''100'' ''bridge'' 8)"
proof -
  have "T38Threshold (cf_Policy sample_cfg) \<le> failures_now sample_table ''100''"
    by (simp add: sample_failures sample_thresholds sample_policy)
  moreover have "\<forall>r \<in> set (pl_rules sample_table). pr_Effect r \<noteq> PolicyEffectT38On"
    by (simp add: sample_table_def sample_policy)
  moreover have "8 \<le> 7 + autoRuleTTL (cf_Policy sample_cfg)"
    by code_simp
  ultimately show ?thesis
    using failure_disables_t38 [OF sample_table_ok sample_learning _ _ _ refl] by blast
qed

lemma threshold_above_one_never_learns_witness:
  "fold (\<lambda>(now, result). LearnFaxPolicyFailure (zero_FaxPolicyConfig\<lparr>pc_T38FailureThreshold := 2\<rparr>)
      no_faults now ''300'' result) [(1, None), (2, None), (3, None)] sample_table = sample_table"
proof (rule threshold_above_one_never_learns)
  show "1 < T38Threshold (zero_FaxPolicyConfig\<lparr>pc_T38FailureThreshold := 2\<rparr>)"
    by (simp add: sample_thresholds)
  show "List.find (auto_rule_for ''300'' PolicyEffectT38Off ''both'') (pl_rules sample_table) = None"
    by (simp add: sample_table_def auto_rule_for_def is_auto_def sample_rule_def)
qed

lemma successes_heal_number_witness:
  "filter (is_auto ''100'') (pl_rules (fold (\<lambda>now. LearnFaxPolicySuccess (cf_Policy sample_cfg) no_faults now ''100'')
      [8, 9, 10] sample_table)) = []"
  using successes_heal_number [OF sample_learning _ sample_table_ok _ _ _ refl, of "''100''" "[8, 9, 10]"]
  by (simp add: sample_thresholds sample_policy sample_table_def is_auto_def)

lemma flip_flop_alternates_witness:
  "ShouldAllowT38ForPair zero_FaxPolicyConfig ''1'' ''2'' CallTypeBridge 6
     (UpdateT38PairState no_faults ''1'' ''2'' CallTypeBridge True 5
        \<lparr>pl_pairStates = [], pl_pairRows = [], pl_pairNextID = 1\<rparr>) = False"
proof -
  have "\<not> time_sub 6 5 > PairStateTTL zero_FaxPolicyConfig"
    by code_simp
  then show ?thesis
    by (simp add: flip_flop_alternates [OF refl])
qed

lemma pairs_do_not_interfere_witness:
  "ShouldAllowT38ForPair zero_FaxPolicyConfig ''1'' ''2'' CallTypeSoftmodem 6
     (UpdateT38PairState no_faults ''1'' ''2'' CallTypeBridge True 5
        \<lparr>pl_pairStates = [], pl_pairRows = [], pl_pairNextID = 1\<rparr>) = True"
  using pairs_do_not_interfere [of "''1''" "''2''" CallTypeBridge "''1''" "''2''" CallTypeSoftmodem]
  by (simp add: policy_consts ShouldAllowT38ForPair_def)

end
