(* ===== verification/Net_Addr.thy ===== *)
theory Net_Addr
  imports Fax_Prelude
begin

text \<open>
  What the program uses of Go's package \<open>net\<close>: parsing of addresses and address blocks
  (\<open>net.ParseIP\<close>, \<open>net.ParseCIDR\<close>) and membership (\<open>IPNet.Contains\<close>). An address is its 16-byte
  form, a 128-bit word, in which an IPv4 address is mapped below \<open>::ffff:0:0/96\<close>. Two addresses
  print alike exactly when their 16-byte forms are equal, so a map keyed by \<open>IP.String()\<close> is a
  map keyed by the word.
\<close>

unbundle bit_operations_syntax

type_synonym ip_addr = "128 word"

section \<open>Definitions\<close>

definition is_v4 :: "ip_addr \<Rightarrow> bool" where
  "is_v4 a \<longleftrightarrow> drop_bit 32 a = 0xFFFF"

text \<open>One decimal field of an IPv4 address: no empty field, no leading zero, at most 255.\<close>

definition v4_field :: "string \<Rightarrow> nat option" where
  "v4_field s =
    (case parse_digits s of
       None \<Rightarrow> None
     | Some n \<Rightarrow> if (length s > 1 \<and> hd s = CHR ''0'') \<or> n > 255 then None else Some n)"

definition parse_v4 :: "string \<Rightarrow> (nat \<times> nat \<times> nat \<times> nat) option" where
  "parse_v4 s =
    (case map v4_field (split_on CHR ''.'' s) of
       [Some a, Some b, Some c, Some d] \<Rightarrow> Some (a, b, c, d)
     | _ \<Rightarrow> None)"

definition hex_digit :: "char \<Rightarrow> nat option" where
  "hex_digit c =
    (let n = of_char c :: nat in
     if 48 \<le> n \<and> n \<le> 57 then Some (n - 48)
     else if 97 \<le> n \<and> n \<le> 102 then Some (n - 87)
     else if 65 \<le> n \<and> n \<le> 70 then Some (n - 55)
     else None)"

fun hex_val :: "nat \<Rightarrow> string \<Rightarrow> nat option" where
  "hex_val acc [] = Some acc"
| "hex_val acc (c # s) = (case hex_digit c of None \<Rightarrow> None | Some d \<Rightarrow> hex_val (acc * 16 + d) s)"

definition v6_field :: "string \<Rightarrow> nat option" where
  "v6_field s = (if s = [] \<or> length s > 4 then None else hex_val 0 s)"

text \<open>The 16-bit groups of one side of \<open>::\<close>; only the last field of the address may be an IPv4
  address, which makes two groups.\<close>

fun v6_groups :: "bool \<Rightarrow> string list \<Rightarrow> nat list option" where
  "v6_groups tail [] = Some []"
| "v6_groups tail [f] =
    (case v6_field f of
       Some n \<Rightarrow> Some [n]
     | None \<Rightarrow> if tail then (case parse_v4 f of None \<Rightarrow> None
                                       | Some (a, b, c, d) \<Rightarrow> Some [256 * a + b, 256 * c + d])
               else None)"
| "v6_groups tail (f # g # fs) =
    (case v6_field f of
       None \<Rightarrow> None
     | Some n \<Rightarrow> (case v6_groups tail (g # fs) of None \<Rightarrow> None | Some ns \<Rightarrow> Some (n # ns)))"

text \<open>The text before and after the first \<open>::\<close>.\<close>

fun cut_ellipsis :: "string \<Rightarrow> (string \<times> string) option" where
  "cut_ellipsis (c # d # s) =
    (if c = CHR '':'' \<and> d = CHR '':'' then Some ([], s)
     else (case cut_ellipsis (d # s) of None \<Rightarrow> None | Some (a, b) \<Rightarrow> Some (c # a, b)))"
| "cut_ellipsis s = None"

definition side_fields :: "string \<Rightarrow> string list" where
  "side_fields s = (if s = [] then [] else split_on CHR '':'' s)"

definition word_of_groups :: "nat list \<Rightarrow> ip_addr" where
  "word_of_groups = foldl (\<lambda>w g. push_bit 16 w OR of_nat g) 0"

definition parse_v6 :: "string \<Rightarrow> ip_addr option" where
  "parse_v6 s =
    (case cut_ellipsis s of
       None \<Rightarrow>
         (case v6_groups True (split_on CHR '':'' s) of
            None \<Rightarrow> None
          | Some gs \<Rightarrow> if length gs = 8 then Some (word_of_groups gs) else None)
     | Some (a, b) \<Rightarrow>
         (case (v6_groups False (side_fields a), v6_groups True (side_fields b)) of
            (Some ga, Some gb) \<Rightarrow>
              if length ga + length gb < 8
              then Some (word_of_groups (ga @ replicate (8 - length ga - length gb) 0 @ gb))
              else None
          | _ \<Rightarrow> None))"

definition v4_addr :: "nat \<times> nat \<times> nat \<times> nat \<Rightarrow> ip_addr" where
  "v4_addr = (\<lambda>(a, b, c, d). foldl (\<lambda>w g. push_bit 8 w OR of_nat g) 0xFFFF [a, b, c, d])"

text \<open>The first \<open>.\<close> or \<open>:\<close> decides the family; a zone (\<open>%\<close>) is refused.\<close>

definition ParseIP :: "string \<Rightarrow> ip_addr option" where
  "ParseIP s =
    (case filter (\<lambda>c. c \<in> {CHR ''.'', CHR '':'', CHR ''%''}) s of
       [] \<Rightarrow> None
     | c # _ \<Rightarrow>
         if c = CHR ''.'' then map_option v4_addr (parse_v4 s)
         else if c = CHR '':'' then parse_v6 s
         else None)"

record IPNet =
  nn_IP :: ip_addr
  nn_Mask :: ip_addr
  nn_v4 :: bool

text \<open>The \<open>n\<close> leading ones of a 128-bit mask.\<close>

definition CIDRMask :: "nat \<Rightarrow> ip_addr" where
  "CIDRMask n = push_bit (128 - n) (mask n)"

text \<open>\<open>net.ParseCIDR\<close>: a block written in IPv4 form has a four-byte mask; here the mask is
  extended by ones over the mapping prefix.\<close>

definition ParseCIDR :: "string \<Rightarrow> IPNet option" where
  "ParseCIDR s =
    (case split2 CHR ''/'' s of
       None \<Rightarrow> None
     | Some (addr, bits) \<Rightarrow>
         (case (ParseIP addr, parse_digits bits) of
            (Some a, Some n) \<Rightarrow>
              let v4 = (CHR '':'' \<notin> set addr) in
              if n > (if v4 then 32 else 128) then None
              else let m = CIDRMask (if v4 then 96 + n else n)
                   in Some \<lparr>nn_IP = a AND m, nn_Mask = m, nn_v4 = v4\<rparr>
          | _ \<Rightarrow> None))"

text \<open>\<open>IPNet.Contains\<close>: an address and a block of different families never match; between IPv4
  addresses the low 32 bits are compared under the low 32 bits of the mask.\<close>

definition Contains :: "IPNet \<Rightarrow> ip_addr \<Rightarrow> bool" where
  "Contains n a =
    (if is_v4 (nn_IP n) \<noteq> is_v4 a then False
     else if is_v4 a then take_bit 32 (nn_IP n AND nn_Mask n) = take_bit 32 (a AND nn_Mask n)
     else nn_IP n AND nn_Mask n = a AND nn_Mask n)"

end
