(* ===== verification/Fax_Directory.thy ===== *)
theory Fax_Directory
  imports Fax_Job Net_Addr
begin

text \<open>
  The directory of the server: tenants, their numbers and the endpoints faxes are delivered to
  (\<open>tenants.go\<close>, \<open>endpoints.go\<close>), with the access list of gateway addresses
  (\<open>fsGatewayACL\<close>, \<open>refreshGatewayACLResolution\<close> of \<open>gateway_monitor.go\<close>) and the dial strings
  built from gateway names.

  A Go map is an association list whose order stands for the iteration order, which Go leaves
  open; the theorems hold for every order. The tables of the database are part of the state.
  Name resolution is an argument: \<open>dns host\<close> gives the printed addresses, \<open>None\<close> an error.
\<close>

section \<open>Data\<close>

record TenantNumber =
  tn_ID :: nat
  tn_TenantID :: nat
  tn_Number :: string
  tn_Name :: string
  tn_Header :: string
  tn_Notify :: string

record Tenant =
  te_ID :: nat
  te_Name :: string
  te_Notify :: string

datatype dir_error =
  NumberNotFound string
| TenantNotFound nat
| NoValidEndpoints string
| NumberExists string
| UnknownEndpointType string
| NumberIDNotFound nat
| EndpointNotFound nat
| NoGatewayMatch
| NameNotFound string
| NoTenantForGateway string
| NoBridgeEndpoint
| DBError

record Server =
  sv_Tenants :: "(nat \<times> Tenant) list"
  sv_TenantNumbers :: "(string \<times> TenantNumber) list"
  sv_TenantEndpoints :: "(nat \<times> Endpoint list) list"
  sv_NumberEndpoints :: "(string \<times> Endpoint list) list"
  sv_Endpoints :: "(string \<times> Endpoint) list"
  sv_GatewayEndpointsACL :: "string list"
  sv_GatewayACLResolved :: "(string \<times> string list) list"
  sv_UpstreamFsGateways :: "string list"
  db_tenants :: "Tenant list"
  db_numbers :: "TenantNumber list"
  db_endpoints :: "Endpoint list"
  db_nextID :: nat

type_synonym dns = "string \<Rightarrow> string list option"

definition NewServer :: Server where
  "NewServer = \<lparr>sv_Tenants = [], sv_TenantNumbers = [], sv_TenantEndpoints = [],
     sv_NumberEndpoints = [], sv_Endpoints = [], sv_GatewayEndpointsACL = [],
     sv_GatewayACLResolved = [], sv_UpstreamFsGateways = [], db_tenants = [], db_numbers = [],
     db_endpoints = [], db_nextID = 1\<rparr>"

section \<open>Tenants and numbers\<close>

text \<open>The \<open>fail\<close> argument of an operation is the failure of its database statement. An insert
  takes the next identifier when the caller gives none and fails on a duplicate key.\<close>

definition loadTenants :: "bool \<Rightarrow> Server \<Rightarrow> Server \<times> (dir_error + unit)" where
  "loadTenants fail s =
    (if fail then (s, Inl DBError)
     else (s\<lparr>sv_Tenants := fold (\<lambda>t. AList.update (te_ID t) t) (db_tenants s) []\<rparr>, Inr ()))"

definition loadTenantNumbers :: "bool \<Rightarrow> Server \<Rightarrow> Server \<times> (dir_error + unit)" where
  "loadTenantNumbers fail s =
    (if fail then (s, Inl DBError)
     else (s\<lparr>sv_TenantNumbers := fold (\<lambda>n. AList.update (tn_Number n) n) (db_numbers s) []\<rparr>, Inr ()))"

definition reloadTenantsAndNumbers :: "bool \<Rightarrow> bool \<Rightarrow> Server \<Rightarrow> Server \<times> (dir_error + unit)" where
  "reloadTenantsAndNumbers failT failN s =
    (case loadTenants failT s of
       (s1, Inl e) \<Rightarrow> (s1, Inl e)
     | (s1, Inr _) \<Rightarrow> loadTenantNumbers failN s1)"

definition addTenantNumber ::
    "bool \<Rightarrow> nat \<Rightarrow> TenantNumber \<Rightarrow> Server \<Rightarrow> Server \<times> (dir_error + unit)" where
  "addTenantNumber fail tenantID number s =
    (if map_of (sv_Tenants s) tenantID = None then (s, Inl (TenantNotFound tenantID))
     else if map_of (sv_TenantNumbers s) (tn_Number number) \<noteq> None
     then (s, Inl (NumberExists (tn_Number number)))
     else
       let n = number\<lparr>tn_ID := (if tn_ID number = 0 then db_nextID s else tn_ID number),
                      tn_TenantID := tenantID\<rparr>
       in if fail \<or> tn_Number n \<in> tn_Number ` set (db_numbers s) \<or> tn_ID n \<in> tn_ID ` set (db_numbers s)
          then (s, Inl DBError)
          else (s\<lparr>db_numbers := db_numbers s @ [n], db_nextID := Suc (db_nextID s),
             sv_TenantNumbers := AList.update (tn_Number n) n (sv_TenantNumbers s)\<rparr>, Inr ()))"

definition removeTenantNumber ::
    "bool \<Rightarrow> nat \<Rightarrow> string \<Rightarrow> Server \<Rightarrow> Server \<times> (dir_error + unit)" where
  "removeTenantNumber fail tenantID numberStr s =
    (case map_of (sv_TenantNumbers s) numberStr of
       None \<Rightarrow> (s, Inl (NumberNotFound numberStr))
     | Some number \<Rightarrow>
         if tn_TenantID number \<noteq> tenantID then (s, Inl (NumberNotFound numberStr))
         else if fail then (s, Inl DBError)
         else (s\<lparr>db_numbers := filter (\<lambda>n. tn_ID n \<noteq> tn_ID number) (db_numbers s),
                 sv_TenantNumbers := AList.delete numberStr (sv_TenantNumbers s)\<rparr>, Inr ()))"

definition getNumber :: "Server \<Rightarrow> string \<Rightarrow> dir_error + TenantNumber" where
  "getNumber s number =
    (case map_of (sv_TenantNumbers s) number of
       None \<Rightarrow> Inl (NumberNotFound number) | Some tn \<Rightarrow> Inr tn)"

definition getTenantByNumber :: "Server \<Rightarrow> string \<Rightarrow> dir_error + Tenant" where
  "getTenantByNumber s number =
    (case map_of (sv_TenantNumbers s) number of
       None \<Rightarrow> Inl (NumberNotFound number)
     | Some tn \<Rightarrow>
         (case map_of (sv_Tenants s) (tn_TenantID tn) of
            None \<Rightarrow> Inl (TenantNotFound (tn_TenantID tn)) | Some t \<Rightarrow> Inr t))"

definition filterValid :: "Endpoint list \<Rightarrow> Endpoint list" where
  "filterValid = filter (\<lambda>ep. ep_Priority ep \<noteq> 666)"

definition getEndpointsForNumber :: "Server \<Rightarrow> string \<Rightarrow> dir_error + Endpoint list" where
  "getEndpointsForNumber s number =
    (let filtered = filterValid (get_or [] (sv_NumberEndpoints s) number)
     in if filtered \<noteq> [] then Inr filtered
        else case map_of (sv_TenantNumbers s) number of
          None \<Rightarrow> Inl (NumberNotFound number)
        | Some tn \<Rightarrow>
            let filtered = filterValid (get_or [] (sv_TenantEndpoints s) (tn_TenantID tn))
            in if filtered \<noteq> [] then Inr filtered else Inl (NoValidEndpoints number))"

definition getEndpointsForBridge :: "Server \<Rightarrow> string \<Rightarrow> dir_error + Endpoint list" where
  "getEndpointsForBridge s number =
    (let eps = get_or [] (sv_NumberEndpoints s) number
     in if eps \<noteq> [] then Inr eps
        else case map_of (sv_TenantNumbers s) number of
          None \<Rightarrow> Inl (NumberNotFound number)
        | Some tn \<Rightarrow>
            let eps = get_or [] (sv_TenantEndpoints s) (tn_TenantID tn)
            in if eps \<noteq> [] then Inr eps else Inl (NoValidEndpoints number))"

section \<open>Gateway access list\<close>

definition splitGatewayACLHost :: "string \<Rightarrow> string option" where
  "splitGatewayACLHost entry =
    (case split2 CHR '':'' entry of
       None \<Rightarrow> None | Some (_, host) \<Rightarrow> if host = [] then None else Some host)"

definition resolve_entry :: "dns \<Rightarrow> string \<Rightarrow> string list option option" where
  "resolve_entry dns entry =
    (case splitGatewayACLHost entry of
       None \<Rightarrow> None
     | Some host \<Rightarrow> if ParseIP host \<noteq> None then None else Some (dns host))"

text \<open>\<open>resolveGatewayACLs\<close>: the resolved map and the entries whose lookup failed.\<close>

fun resolveGatewayACLs ::
    "dns \<Rightarrow> string list \<Rightarrow> (string \<times> string list) list \<times> string list \<Rightarrow>
     (string \<times> string list) list \<times> string list" where
  "resolveGatewayACLs dns [] acc = acc"
| "resolveGatewayACLs dns (entry # entries) (resolved, failures) =
    resolveGatewayACLs dns entries
      (case resolve_entry dns entry of
         None \<Rightarrow> (resolved, failures)
       | Some None \<Rightarrow> (resolved, if entry \<in> set failures then failures else failures @ [entry])
       | Some (Some ips) \<Rightarrow> (AList.update entry ips resolved, failures))"

text \<open>One entry of the access list against a source address, in both passes of
  \<open>fsGatewayACL\<close>.\<close>

definition acl_literal :: "string \<Rightarrow> string \<Rightarrow> bool" where
  "acl_literal ip k = (case split2 CHR '':'' k of Some (_, host) \<Rightarrow> host = ip | None \<Rightarrow> k = ip)"

definition acl_resolved :: "Server \<Rightarrow> string \<Rightarrow> string \<Rightarrow> bool" where
  "acl_resolved s ip k = (ip \<in> set (get_or [] (sv_GatewayACLResolved s) k))"

definition fsGatewayACL :: "Server \<Rightarrow> string \<Rightarrow> dir_error + string" where
  "fsGatewayACL s ip =
    (case List.find (acl_literal ip) (sv_GatewayEndpointsACL s) of
       Some k \<Rightarrow> Inr k
     | None \<Rightarrow>
         (case List.find (acl_resolved s ip) (sv_GatewayEndpointsACL s) of
            Some k \<Rightarrow> Inr k | None \<Rightarrow> Inl NoGatewayMatch))"

text \<open>\<open>refreshGatewayACLResolution\<close> up to the release of bans, which the sentry adds.\<close>

definition refresh_resolution :: "dns \<Rightarrow> Server \<Rightarrow> Server" where
  "refresh_resolution dns s =
    (let entries = sv_GatewayEndpointsACL s; previous = sv_GatewayACLResolved s
     in if entries = [] then s
        else case resolveGatewayACLs dns entries ([], []) of
          (resolved, failures) \<Rightarrow>
            s\<lparr>sv_GatewayACLResolved :=
               fold (\<lambda>entry m. case map_of previous entry of
                                 None \<Rightarrow> m | Some old \<Rightarrow> AList.update entry old m)
                    failures resolved\<rparr>)"

section \<open>Endpoints\<close>

definition number_of_id :: "(string \<times> TenantNumber) list \<Rightarrow> nat \<Rightarrow> string" where
  "number_of_id numbers i =
    (case List.find (\<lambda>(_, tn). tn_ID tn = i) numbers of
       None \<Rightarrow> [] | Some (_, tn) \<Rightarrow> tn_Number tn)"

definition ep_key :: "Endpoint \<Rightarrow> string" where
  "ep_key ep = ep_Type ep @ ''/'' @ ep_Endpoint ep"

definition gw_name :: "Endpoint \<Rightarrow> string" where
  "gw_name ep = before_sep CHR '':'' (ep_Endpoint ep)"

definition push :: "'k \<Rightarrow> 'v \<Rightarrow> ('k \<times> 'v list) list \<Rightarrow> ('k \<times> 'v list) list" where
  "push k v m = AList.update k (get_or [] m k @ [v]) m"

text \<open>One pass of the loop of \<open>loadEndpoints\<close>.\<close>

definition load_endpoint :: "Endpoint \<Rightarrow> Server \<Rightarrow> Server" where
  "load_endpoint ep s0 =
    (let s1 = s0\<lparr>sv_Endpoints := AList.update (ep_key ep) ep (sv_Endpoints s0)\<rparr>;
         s2 = (if ep_EndpointType ep = ''gateway''
               then s1\<lparr>sv_GatewayEndpointsACL := sv_GatewayEndpointsACL s1 @ [ep_Endpoint ep]\<rparr> else s1)
     in if ep_Type ep = ''global'' then
          (if ep_EndpointType ep = ''gateway''
           then s2\<lparr>sv_UpstreamFsGateways := sv_UpstreamFsGateways s2 @ [gw_name ep]\<rparr> else s2)
        else if ep_Type ep = ''tenant'' then
          s2\<lparr>sv_TenantEndpoints := push (ep_TypeID ep) ep (sv_TenantEndpoints s2)\<rparr>
        else if ep_Type ep = ''number'' then
          (let numberStr = number_of_id (sv_TenantNumbers s2) (ep_TypeID ep)
           in if numberStr = [] then s2
              else s2\<lparr>sv_NumberEndpoints := push numberStr ep (sv_NumberEndpoints s2)\<rparr>)
        else s2)"

text \<open>\<open>loadEndpoints\<close> up to the release of bans, which the sentry adds.\<close>

definition load_endpoints :: "bool \<Rightarrow> dns \<Rightarrow> Server \<Rightarrow> Server \<times> (dir_error + unit)" where
  "load_endpoints fail dns s =
    (if fail then (s, Inl DBError)
     else
       let s1 = fold load_endpoint (db_endpoints s)
                  (s\<lparr>sv_TenantEndpoints := [], sv_NumberEndpoints := [], sv_Endpoints := [],
                     sv_UpstreamFsGateways := [], sv_GatewayEndpointsACL := []\<rparr>)
       in (s1\<lparr>sv_GatewayACLResolved :=
              fst (resolveGatewayACLs dns (sv_GatewayEndpointsACL s1) ([], []))\<rparr>, Inr ()))"

text \<open>The switch that \<open>addEndpoint\<close>, \<open>addEndpointToDB\<close> and \<open>updateEndpoint\<close> share.\<close>

definition addEndpoint :: "Endpoint \<Rightarrow> Server \<Rightarrow> Server \<times> (dir_error + unit)" where
  "addEndpoint ep s =
    (if ep_Type ep = ''tenant'' then
       (s\<lparr>sv_TenantEndpoints := push (ep_TypeID ep) ep (sv_TenantEndpoints s)\<rparr>, Inr ())
     else if ep_Type ep = ''number'' then
       (let numberStr = number_of_id (sv_TenantNumbers s) (ep_TypeID ep)
        in if numberStr = [] then (s, Inl (NumberIDNotFound (ep_TypeID ep)))
           else (s\<lparr>sv_NumberEndpoints := push numberStr ep (sv_NumberEndpoints s)\<rparr>, Inr ()))
     else if ep_Type ep = ''global'' then
       (let s1 = (if ep_EndpointType ep = ''gateway''
                  then s\<lparr>sv_UpstreamFsGateways := sv_UpstreamFsGateways s @ [gw_name ep]\<rparr> else s)
        in (s1\<lparr>sv_Endpoints := AList.update (ep_key ep) ep (sv_Endpoints s1)\<rparr>, Inr ()))
     else (s, Inl (UnknownEndpointType (ep_Type ep))))"

definition addEndpointToDB :: "bool \<Rightarrow> Endpoint \<Rightarrow> Server \<Rightarrow> Server \<times> (dir_error + unit)" where
  "addEndpointToDB fail ep s =
    (if fail then (s, Inl DBError)
     else
       let ep1 = ep\<lparr>ep_ID := (if ep_ID ep = 0 then db_nextID s else ep_ID ep)\<rparr>
       in if ep_ID ep1 \<in> ep_ID ` set (db_endpoints s) then (s, Inl DBError)
          else addEndpoint ep1
            (s\<lparr>db_endpoints := db_endpoints s @ [ep1], db_nextID := Suc (db_nextID s)\<rparr>))"

text \<open>The first list of a map that holds the endpoint loses it; \<open>None\<close> when no list does.\<close>

fun drop_first :: "nat \<Rightarrow> Endpoint list \<Rightarrow> Endpoint list" where
  "drop_first i [] = []"
| "drop_first i (ep # eps) = (if ep_ID ep = i then eps else ep # drop_first i eps)"

fun drop_from_map :: "nat \<Rightarrow> ('k \<times> Endpoint list) list \<Rightarrow> ('k \<times> Endpoint list) list option" where
  "drop_from_map i [] = None"
| "drop_from_map i ((k, eps) # m) =
    (if i \<in> ep_ID ` set eps then Some ((k, drop_first i eps) # m)
     else map_option (\<lambda>m'. (k, eps) # m') (drop_from_map i m))"

definition is_upstream_of :: "Server \<Rightarrow> nat \<Rightarrow> string \<Rightarrow> bool" where
  "is_upstream_of s i gwName =
    list_ex (\<lambda>(_, ep). ep_ID ep = i \<and> ep_Type ep = ''global''
       \<and> (has_prefix (ep_Endpoint ep) (gwName @ '':'') \<or> ep_Endpoint ep = gwName)) (sv_Endpoints s)"

fun remove_first :: "('a \<Rightarrow> bool) \<Rightarrow> 'a list \<Rightarrow> 'a list" where
  "remove_first P [] = []"
| "remove_first P (x # xs) = (if P x then xs else x # remove_first P xs)"

definition removeEndpoint :: "nat \<Rightarrow> Server \<Rightarrow> Server \<times> (dir_error + unit)" where
  "removeEndpoint i s =
    (case drop_from_map i (sv_TenantEndpoints s) of
       Some m \<Rightarrow> (s\<lparr>sv_TenantEndpoints := m\<rparr>, Inr ())
     | None \<Rightarrow>
        (case drop_from_map i (sv_NumberEndpoints s) of
           Some m \<Rightarrow> (s\<lparr>sv_NumberEndpoints := m\<rparr>, Inr ())
         | None \<Rightarrow>
            let s1 = s\<lparr>sv_UpstreamFsGateways := remove_first (is_upstream_of s i) (sv_UpstreamFsGateways s)\<rparr>
            in case List.find (\<lambda>(_, ep). ep_ID ep = i) (sv_Endpoints s1) of
                 None \<Rightarrow> (s1, Inl (EndpointNotFound i))
               | Some (k, _) \<Rightarrow> (s1\<lparr>sv_Endpoints := AList.delete k (sv_Endpoints s1)\<rparr>, Inr ())))"

definition removeEndpointFromDB :: "bool \<Rightarrow> nat \<Rightarrow> Server \<Rightarrow> Server \<times> (dir_error + unit)" where
  "removeEndpointFromDB fail i s =
    (if fail then (s, Inl DBError)
     else removeEndpoint i (s\<lparr>db_endpoints := filter (\<lambda>ep. ep_ID ep \<noteq> i) (db_endpoints s)\<rparr>))"

definition updateEndpoint :: "bool \<Rightarrow> Endpoint \<Rightarrow> Server \<Rightarrow> Server \<times> (dir_error + unit)" where
  "updateEndpoint fail ep s =
    (if fail then (s, Inl DBError)
     else
       let s1 = s\<lparr>db_endpoints :=
                (if ep_ID ep \<in> ep_ID ` set (db_endpoints s)
                 then map (\<lambda>q. if ep_ID q = ep_ID ep then ep else q) (db_endpoints s)
                 else db_endpoints s @ [ep])\<rparr>
       in case removeEndpoint (ep_ID ep) s1 of
            (s2, Inl e) \<Rightarrow> (s2, Inl e)
          | (s2, Inr _) \<Rightarrow> addEndpoint ep s2)"

definition getEndpointByName :: "Server \<Rightarrow> string \<Rightarrow> dir_error + Endpoint" where
  "getEndpointByName s name =
    (case List.find (\<lambda>(_, ep). gw_name ep = name) (sv_Endpoints s) of
       Some (_, ep) \<Rightarrow> Inr ep
     | None \<Rightarrow>
        (case List.find (\<lambda>(epName, _). contains_sub epName name) (sv_Endpoints s) of
           Some (_, ep) \<Rightarrow> Inr ep
         | None \<Rightarrow> Inl (NameNotFound name)))"

definition gw_matches :: "string \<Rightarrow> Endpoint \<Rightarrow> bool" where
  "gw_matches gateway ep \<longleftrightarrow> ep_EndpointType ep = ''gateway'' \<and> gw_name ep = gateway"

definition tenant_via_number :: "Server \<Rightarrow> string \<Rightarrow> Tenant option" where
  "tenant_via_number s number =
    (case map_of (sv_TenantNumbers s) number of
       None \<Rightarrow> None | Some tn \<Rightarrow> map_of (sv_Tenants s) (tn_TenantID tn))"

definition getTenantByGateway :: "Server \<Rightarrow> string \<Rightarrow> dir_error + Tenant" where
  "getTenantByGateway s gateway =
    (case first_hit (\<lambda>(tenantID, eps). if list_ex (gw_matches gateway) eps
                       then map_of (sv_Tenants s) tenantID else None) (sv_TenantEndpoints s) of
       Some t \<Rightarrow> Inr t
     | None \<Rightarrow>
        (case first_hit (\<lambda>(number, eps). if list_ex (gw_matches gateway) eps
                           then tenant_via_number s number else None) (sv_NumberEndpoints s) of
           Some t \<Rightarrow> Inr t
         | None \<Rightarrow> Inl (NoTenantForGateway gateway)))"

section \<open>Dial strings\<close>

fun join :: "string \<Rightarrow> string list \<Rightarrow> string" where
  "join sep [] = []"
| "join sep [x] = x"
| "join sep (x # y # xs) = x @ sep @ join sep (y # xs)"

definition endpointGatewayDialstring :: "string list \<Rightarrow> string \<Rightarrow> string" where
  "endpointGatewayDialstring endpoints dstNum =
     join '','' (map (\<lambda>gw. ''sofia/gateway/'' @ gw @ ''/'' @ dstNum) endpoints)"

definition bridgeGatewayTagVar :: string where "bridgeGatewayTagVar = ''gofax_bridge_gw''"
definition outboundGatewayTagVar :: string where "outboundGatewayTagVar = ''gofax_gw''"

definition endpointGatewayDialstringTagged :: "string list \<Rightarrow> string \<Rightarrow> string" where
  "endpointGatewayDialstringTagged endpoints dstNum =
     join '','' (map (\<lambda>gw. ''['' @ bridgeGatewayTagVar @ ''='' @ gw @ '',export_vars='' @ bridgeGatewayTagVar
        @ '']sofia/gateway/'' @ gw @ ''/'' @ dstNum) endpoints)"

definition endpointGatewayDialstringOutboundTagged :: "string list \<Rightarrow> string \<Rightarrow> string" where
  "endpointGatewayDialstringOutboundTagged endpoints dstNum =
     join '','' (map (\<lambda>gw. ''['' @ outboundGatewayTagVar @ ''='' @ gw @ '']sofia/gateway/'' @ gw
        @ ''/'' @ dstNum) endpoints)"

record bridgeAttempt =
  ba_Gateway :: string
  ba_HangupCause :: string

definition resolveUpstreamBridgeGateway :: "string \<Rightarrow> bridgeAttempt list \<Rightarrow> string" where
  "resolveUpstreamBridgeGateway current attempts =
    (if current \<noteq> ''upstream'' \<or> attempts = [] then current else ba_Gateway (last attempts))"

section \<open>Reload\<close>

text \<open>The part of \<open>ReloadData\<close> that concerns the directory, in the order of the code.\<close>

definition reload_directory :: "dns \<Rightarrow> Server \<Rightarrow> Server" where
  "reload_directory dns s =
     fst (reloadTenantsAndNumbers False False (fst (load_endpoints False dns s)))"

section \<open>Specification\<close>

text \<open>The maps as queries over the endpoint table.\<close>

definition tenant_eps :: "Endpoint list \<Rightarrow> nat \<Rightarrow> Endpoint list" where
  "tenant_eps eps t = filter (\<lambda>ep. ep_Type ep = ''tenant'' \<and> ep_TypeID ep = t) eps"

definition number_eps :: "(nat \<Rightarrow> string) \<Rightarrow> Endpoint list \<Rightarrow> string \<Rightarrow> Endpoint list" where
  "number_eps num eps n =
     filter (\<lambda>ep. ep_Type ep = ''number'' \<and> num (ep_TypeID ep) = n \<and> n \<noteq> []) eps"

definition upstream_names :: "Endpoint list \<Rightarrow> string list" where
  "upstream_names eps =
     map gw_name (filter (\<lambda>ep. ep_Type ep = ''global'' \<and> ep_EndpointType ep = ''gateway'') eps)"

definition routes_in_sync :: "Server \<Rightarrow> bool" where
  "routes_in_sync s \<longleftrightarrow>
     (\<forall>t. get_or [] (sv_TenantEndpoints s) t = tenant_eps (db_endpoints s) t)
     \<and> (\<forall>n. get_or [] (sv_NumberEndpoints s) n = number_eps (number_of_id (sv_TenantNumbers s)) (db_endpoints s) n)
     \<and> sv_UpstreamFsGateways s = upstream_names (db_endpoints s)"

section \<open>Lemmas\<close>

lemma get_or_Nil [simp]: "get_or d [] k = d"
  by (simp add: get_or_def)

lemma get_or_push [simp]: "get_or [] (push k v m) k' = (if k' = k then get_or [] m k @ [v] else get_or [] m k')"
  by (simp add: push_def)

lemma load_endpoint_frame [simp]:
  "sv_TenantNumbers (load_endpoint ep s) = sv_TenantNumbers s"
  "sv_Tenants (load_endpoint ep s) = sv_Tenants s"
  "db_endpoints (load_endpoint ep s) = db_endpoints s"
  "db_numbers (load_endpoint ep s) = db_numbers s"
  by (simp_all add: load_endpoint_def Let_def)

lemmas load_frames = fold_frame [where step = load_endpoint]

lemma load_endpoint_effect:
  "get_or [] (sv_TenantEndpoints (load_endpoint ep s)) t = get_or [] (sv_TenantEndpoints s) t @ tenant_eps [ep] t"
  "get_or [] (sv_NumberEndpoints (load_endpoint ep s)) n =
     get_or [] (sv_NumberEndpoints s) n @ number_eps (number_of_id (sv_TenantNumbers s)) [ep] n"
  "sv_UpstreamFsGateways (load_endpoint ep s) = sv_UpstreamFsGateways s @ upstream_names [ep]"
  "sv_GatewayEndpointsACL (load_endpoint ep s) = sv_GatewayEndpointsACL s
     @ map ep_Endpoint (filter (\<lambda>ep. ep_EndpointType ep = ''gateway'') [ep])"
  by (auto simp: load_endpoint_def Let_def tenant_eps_def number_eps_def upstream_names_def)

lemma load_fold_effect:
  "get_or [] (sv_TenantEndpoints (fold load_endpoint eps s)) t =
     get_or [] (sv_TenantEndpoints s) t @ tenant_eps eps t"
  "get_or [] (sv_NumberEndpoints (fold load_endpoint eps s)) n =
     get_or [] (sv_NumberEndpoints s) n @ number_eps (number_of_id (sv_TenantNumbers s)) eps n"
  "sv_UpstreamFsGateways (fold load_endpoint eps s) = sv_UpstreamFsGateways s @ upstream_names eps"
  "sv_GatewayEndpointsACL (fold load_endpoint eps s) = sv_GatewayEndpointsACL s
     @ map ep_Endpoint (filter (\<lambda>ep. ep_EndpointType ep = ''gateway'') eps)"
  by (induction eps arbitrary: s)
    (auto simp: load_endpoint_effect tenant_eps_def number_eps_def upstream_names_def)

lemma load_endpoints_maps:
  assumes "load_endpoints False dns s = (s', r)"
  shows "get_or [] (sv_TenantEndpoints s') t = tenant_eps (db_endpoints s) t"
    and "get_or [] (sv_NumberEndpoints s') n = number_eps (number_of_id (sv_TenantNumbers s)) (db_endpoints s) n"
    and "sv_UpstreamFsGateways s' = upstream_names (db_endpoints s)"
    and "sv_GatewayEndpointsACL s' = map ep_Endpoint (filter (\<lambda>ep. ep_EndpointType ep = ''gateway'') (db_endpoints s))"
    and "db_endpoints s' = db_endpoints s" "sv_TenantNumbers s' = sv_TenantNumbers s"
    and "db_numbers s' = db_numbers s"
  using assms
  by (auto simp: load_endpoints_def Let_def load_fold_effect load_frames)

lemma find_ex: "(\<exists>x. List.find P xs = Some x) \<longleftrightarrow> (\<exists>x \<in> set xs. P x)"
  by (induction xs) auto

lemma acl_literal_iff:
  "acl_literal ip k \<longleftrightarrow> (\<exists>name. CHR '':'' \<notin> set name \<and> k = name @ '':'' @ ip) \<or> CHR '':'' \<notin> set k \<and> k = ip"
proof (cases "split2 CHR '':'' k")
  case (Some p)
  then obtain a b where p: "split2 CHR '':'' k = Some (a, b)"
    by (cases p) auto
  then have k: "k = a @ CHR '':'' # b" "CHR '':'' \<notin> set a"
    by (simp_all add: split2_Some_iff)
  have "a' @ CHR '':'' # b' = a @ CHR '':'' # b \<Longrightarrow> CHR '':'' \<notin> set a' \<Longrightarrow> b' = b" for a' b'
    using p k by (metis option.inject prod.inject split2_Some_iff)
  moreover have "acl_literal ip k \<longleftrightarrow> b = ip"
    by (simp add: acl_literal_def p)
  ultimately show ?thesis
    using k by auto
next
  case None
  then have "acl_literal ip k \<longleftrightarrow> k = ip"
    by (simp add: acl_literal_def)
  moreover have "CHR '':'' \<notin> set k"
    using None by (rule split2_None_iff [THEN iffD1])
  ultimately show ?thesis
    by auto
qed

section \<open>Properties\<close>

text \<open>C20: An inbound source address is accepted exactly when it is the whole address part of an
  access-list entry (the text after the first colon, or the whole entry when there is none), or
  one of the addresses an entry of the list last resolved to. A prefix or a substring of an
  entry's address never matches.\<close>

theorem gateway_acl_exact:
  "(\<exists>k. fsGatewayACL s ip = Inr k) \<longleftrightarrow>
     (\<exists>name. CHR '':'' \<notin> set name \<and> name @ '':'' @ ip \<in> set (sv_GatewayEndpointsACL s))
     \<or> CHR '':'' \<notin> set ip \<and> ip \<in> set (sv_GatewayEndpointsACL s)
     \<or> (\<exists>k \<in> set (sv_GatewayEndpointsACL s). ip \<in> set (get_or [] (sv_GatewayACLResolved s) k))"
proof -
  have "(\<exists>k. fsGatewayACL s ip = Inr k) \<longleftrightarrow>
      (\<exists>k \<in> set (sv_GatewayEndpointsACL s). acl_literal ip k)
      \<or> (\<exists>k \<in> set (sv_GatewayEndpointsACL s). acl_resolved s ip k)"
    unfolding find_ex [symmetric] fsGatewayACL_def by (auto split: option.splits)
  then show ?thesis
    by (auto simp: acl_literal_iff acl_resolved_def)
qed

text \<open>Delivery endpoints: whatever \<open>getEndpointsForNumber\<close> returns is not empty, contains no
  endpoint of priority 666, and consists of the number's own endpoints whenever one of them is
  deliverable, of the tenant's otherwise.\<close>

theorem endpoints_for_number:
  assumes "getEndpointsForNumber s n = Inr eps"
  shows "eps \<noteq> [] \<and> (\<forall>ep \<in> set eps. ep_Priority ep \<noteq> 666)
     \<and> (if \<exists>ep \<in> set (get_or [] (sv_NumberEndpoints s) n). ep_Priority ep \<noteq> 666
        then set eps \<subseteq> set (get_or [] (sv_NumberEndpoints s) n)
        else \<exists>tn. getNumber s n = Inr tn \<and> set eps \<subseteq> set (get_or [] (sv_TenantEndpoints s) (tn_TenantID tn)))"
proof -
  let ?own = "filterValid (get_or [] (sv_NumberEndpoints s) n)"
  have own: "?own \<noteq> [] \<longleftrightarrow> (\<exists>ep \<in> set (get_or [] (sv_NumberEndpoints s) n). ep_Priority ep \<noteq> 666)"
    by (auto simp: filterValid_def filter_empty_conv)
  show ?thesis
  proof (cases "?own = []")
    case False
    then show ?thesis
      using assms own by (auto simp: getEndpointsForNumber_def filterValid_def)
  next
    case True
    then obtain tn where tn: "map_of (sv_TenantNumbers s) n = Some tn"
      and eps: "eps = filterValid (get_or [] (sv_TenantEndpoints s) (tn_TenantID tn))" "eps \<noteq> []"
      using assms by (auto simp: getEndpointsForNumber_def Let_def split: option.splits if_splits)
    then show ?thesis
      using True own by (auto simp: getNumber_def filterValid_def)
  qed
qed

text \<open>Loading the endpoints makes the in-memory maps agree with the table: the endpoints of a
  tenant and of a number are exactly its rows in table order, the upstream gateways are the
  global gateway rows, and the access list has one entry per gateway row.\<close>

theorem load_endpoints_in_sync:
  assumes "load_endpoints False dns s = (s', Inr ())"
  shows "routes_in_sync s' \<and>
     sv_GatewayEndpointsACL s' = map ep_Endpoint (filter (\<lambda>ep. ep_EndpointType ep = ''gateway'') (db_endpoints s'))"
  using load_endpoints_maps [OF assms] by (simp add: routes_in_sync_def)

text \<open>Adding an endpoint keeps the maps in agreement with the table without a reload: if they
  agreed before, they agree after a successful \<open>addEndpointToDB\<close>.\<close>

theorem add_endpoint_keeps_sync:
  assumes "routes_in_sync s" "addEndpointToDB fail ep s = (s', Inr ())"
  shows "routes_in_sync s'"
  using assms
  by (auto simp: addEndpointToDB_def addEndpoint_def routes_in_sync_def Let_def tenant_eps_def
      number_eps_def upstream_names_def gw_name_def split: if_splits)

text \<open>\<open>ReloadData\<close> loads the endpoints before the numbers, so a number that is new in the table
  is known after the reload but its number-scoped endpoints are not: they are attached only by
  the next reload.\<close>

theorem reload_misses_endpoints_of_new_number:
  assumes "ep \<in> set (db_endpoints s)" "ep_Type ep = ''number''" "ep_TypeID ep = tn_ID tn"
    and "tn \<in> set (db_numbers s)" "tn_Number tn \<noteq> []" "distinct (map tn_Number (db_numbers s))"
    and "\<forall>(k, q) \<in> set (sv_TenantNumbers s). tn_ID q \<noteq> tn_ID tn \<and> tn_Number q \<noteq> tn_Number tn"
    and "s' = reload_directory dns s"
  shows "getNumber s' (tn_Number tn) = Inr tn \<and> get_or [] (sv_NumberEndpoints s') (tn_Number tn) = []"
proof -
  obtain s1 r where l: "load_endpoints False dns s = (s1, r)"
    by fastforce
  have s': "sv_TenantNumbers s' = fold (\<lambda>n. AList.update (tn_Number n) n) (db_numbers s) []"
    "sv_NumberEndpoints s' = sv_NumberEndpoints s1"
    using assms(8) load_endpoints_maps(7) [OF l] l
    by (simp_all add: reload_directory_def reloadTenantsAndNumbers_def loadTenants_def loadTenantNumbers_def)
  have "map_of (fold (\<lambda>n. AList.update (tn_Number n) n) ns m) (tn_Number tn) = Some tn"
    if "tn \<in> set ns" "distinct (map tn_Number ns)" for ns m
    using that
  proof (induction ns arbitrary: m)
    case (Cons n ns)
    have other: "map_of (fold (\<lambda>n. AList.update (tn_Number n) n) ns m) k = map_of m k"
      if "k \<notin> tn_Number ` set ns" for k m
      using that by (induction ns arbitrary: m) (auto simp: update_conv')
    show ?case
      using Cons by (cases "n = tn") (auto simp: other update_conv')
  qed simp
  with assms(4,6) s'(1) have "getNumber s' (tn_Number tn) = Inr tn"
    by (simp add: getNumber_def)
  moreover have "number_of_id (sv_TenantNumbers s) i \<noteq> tn_Number tn" for i
  proof (cases "List.find (\<lambda>(_, q). tn_ID q = i) (sv_TenantNumbers s)")
    case (Some p)
    then have "p \<in> set (sv_TenantNumbers s)"
      by (metis find_Some_iff nth_mem)
    with Some assms(7) show ?thesis
      by (auto simp: number_of_id_def)
  qed (use assms(5) in \<open>simp add: number_of_id_def\<close>)
  ultimately show ?thesis
    using load_endpoints_maps(2) [OF l] s'(2) by (simp add: number_eps_def)
qed

text \<open>Removing a number does not stop its deliveries: the number's own endpoints stay in the
  routing map, so a lookup of the removed number still returns them.\<close>

theorem removed_number_still_routed:
  assumes "removeTenantNumber fail t n s = (s', Inr ())"
    and "\<exists>ep \<in> set (get_or [] (sv_NumberEndpoints s) n). ep_Priority ep \<noteq> 666"
  shows "getNumber s' n = Inl (NumberNotFound n) \<and> getEndpointsForNumber s' n = getEndpointsForNumber s n
     \<and> (\<exists>eps. getEndpointsForNumber s' n = Inr eps)"
proof -
  have own: "filterValid (get_or [] (sv_NumberEndpoints s) n) \<noteq> []"
    using assms(2) by (auto simp: filterValid_def filter_empty_conv)
  have s': "sv_NumberEndpoints s' = sv_NumberEndpoints s"
    "sv_TenantNumbers s' = AList.delete n (sv_TenantNumbers s)"
    using assms(1) by (auto simp: removeTenantNumber_def split: option.splits if_splits)
  then show ?thesis
    using own by (simp add: getNumber_def getEndpointsForNumber_def delete_conv')
qed

section \<open>Sample values\<close>

definition sample_gateway :: Endpoint where
  "sample_gateway = \<lparr>ep_ID = 5, ep_Type = ''number'', ep_TypeID = 7, ep_EndpointType = ''gateway'',
     ep_Endpoint = ''pbx:10.0.0.7'', ep_Priority = 0, ep_Bridge = True\<rparr>"

definition sample_number :: TenantNumber where
  "sample_number = \<lparr>tn_ID = 7, tn_TenantID = 3, tn_Number = ''100'', tn_Name = [], tn_Header = [],
     tn_Notify = []\<rparr>"

definition sample_tenant :: Tenant where
  "sample_tenant = \<lparr>te_ID = 3, te_Name = ''acme'', te_Notify = []\<rparr>"

definition sample_server :: Server where
  "sample_server = NewServer\<lparr>sv_Tenants := [(3, sample_tenant)], sv_TenantNumbers := [(''100'', sample_number)],
     sv_NumberEndpoints := [(''100'', [sample_gateway])],
     sv_Endpoints := [(''number/pbx:10.0.0.7'', sample_gateway)],
     sv_GatewayEndpointsACL := [''pbx:10.0.0.7''], db_tenants := [sample_tenant],
     db_numbers := [sample_number], db_endpoints := [sample_gateway], db_nextID := 8\<rparr>"

lemmas sample_directory = sample_server_def sample_gateway_def sample_number_def sample_tenant_def
  NewServer_def

lemma endpoints_for_number_witness:
  "getEndpointsForNumber sample_server ''100'' = Inr [sample_gateway] \<and> ep_Priority sample_gateway \<noteq> 666"
proof -
  have e: "getEndpointsForNumber sample_server ''100'' = Inr [sample_gateway]"
    by (simp add: getEndpointsForNumber_def sample_directory get_or_def filterValid_def)
  from endpoints_for_number [OF this] e show ?thesis
    by simp
qed

lemma load_endpoints_in_sync_witness:
  "routes_in_sync (fst (load_endpoints False (\<lambda>_. None) sample_server))"
proof -
  obtain s' where l: "load_endpoints False (\<lambda>_. None) sample_server = (s', Inr ())"
    by (simp add: load_endpoints_def Let_def)
  from load_endpoints_in_sync [OF this] l show ?thesis
    by simp
qed

lemma add_endpoint_keeps_sync_witness:
  "routes_in_sync (fst (addEndpointToDB False (sample_gateway\<lparr>ep_ID := 0, ep_Type := ''tenant''\<rparr>) NewServer))"
proof -
  have "routes_in_sync NewServer"
    by (simp add: routes_in_sync_def NewServer_def tenant_eps_def number_eps_def upstream_names_def)
  moreover obtain s' where
    "addEndpointToDB False (sample_gateway\<lparr>ep_ID := 0, ep_Type := ''tenant''\<rparr>) NewServer = (s', Inr ())"
    by (simp add: addEndpointToDB_def addEndpoint_def NewServer_def Let_def)
  ultimately show ?thesis
    using add_endpoint_keeps_sync by (metis fst_conv)
qed

lemma reload_misses_endpoints_of_new_number_witness:
  "getNumber (reload_directory (\<lambda>_. None) (sample_server\<lparr>sv_TenantNumbers := []\<rparr>)) ''100'' = Inr sample_number
   \<and> get_or [] (sv_NumberEndpoints (reload_directory (\<lambda>_. None) (sample_server\<lparr>sv_TenantNumbers := []\<rparr>))) ''100'' = []"
  using reload_misses_endpoints_of_new_number [OF _ _ _ _ _ _ _ refl, of sample_gateway
      "sample_server\<lparr>sv_TenantNumbers := []\<rparr>" sample_number "\<lambda>_. None"]
  by (simp add: sample_directory)

lemma removed_number_still_routed_witness:
  "\<exists>s'. removeTenantNumber False 3 ''100'' sample_server = (s', Inr ())
     \<and> (\<exists>eps. getEndpointsForNumber s' ''100'' = Inr eps)"
proof -
  obtain s' where s': "removeTenantNumber False 3 ''100'' sample_server = (s', Inr ())"
    by (simp add: removeTenantNumber_def sample_directory)
  moreover have "\<exists>ep \<in> set (get_or [] (sv_NumberEndpoints sample_server) ''100''). ep_Priority ep \<noteq> 666"
    by (simp add: sample_directory get_or_def)
  ultimately show ?thesis
    using removed_number_still_routed by blast
qed

end
