(* ===== verification/IP_Sentry.thy ===== *)
theory IP_Sentry
  imports Fax_Directory
begin

text \<open>
  The SIP brute-force sentry: failed access-list attempts per source address, escalating bans,
  their release, and the janitor (\<open>ipsentry.go\<close>), with the firewall backends
  (\<open>ipsentry_backend.go\<close>).

  A firewall command is data; running one is an argument \<open>run\<close> that changes a firewall state of
  any type and says whether the command succeeded. The server the sentry consults is an
  argument too (\<open>None\<close> for the nil server), as are the clock and the database faults. The
  counters are unbounded integers.
\<close>

section \<open>Firewall backends\<close>

record BlockedIP =
  bi_ID :: nat
  bi_IP :: string
  bi_Reason :: string
  bi_Source :: string
  bi_FailCount :: int
  bi_OffenseCount :: int
  bi_BannedAt :: time
  bi_ExpiresAt :: "time option"
  bi_Active :: bool
  bi_UnbannedAt :: "time option"
  bi_UnbanReason :: string

record command =
  cm_name :: string
  cm_args :: "string list"
  cm_stdin :: string

type_synonym 'f runner = "command \<Rightarrow> 'f \<Rightarrow> 'f \<times> bool"

text \<open>The interface \<open>sentryBackend\<close>: a flag is \<open>False\<close> where the method returns an error.\<close>

record 'f sentryBackend =
  be_Name :: string
  be_Bootstrap :: "'f \<Rightarrow> 'f \<times> bool"
  be_Ban :: "time \<Rightarrow> string \<Rightarrow> time option \<Rightarrow> 'f \<Rightarrow> 'f \<times> bool"
  be_Unban :: "string \<Rightarrow> 'f \<Rightarrow> 'f \<times> bool"
  be_Sync :: "time \<Rightarrow> BlockedIP list \<Rightarrow> 'f \<Rightarrow> 'f \<times> nat"

definition whole_seconds :: "duration \<Rightarrow> int" where
  "whole_seconds d = sgn d * (\<bar>d\<bar> div Second)"

definition itos :: "int \<Rightarrow> string" where
  "itos n = (if n < 0 then ''-'' @ itoa (nat (- n)) else itoa (nat n))"

definition nftTimeout :: "duration \<Rightarrow> string" where
  "nftTimeout d = itos (whole_seconds d) @ ''s''"

definition nftSetFor :: "string \<Rightarrow> string" where
  "nftSetFor ip = (if CHR '':'' \<in> set ip then ''blocklist6'' else ''blocklist4'')"

definition nft_cmd :: "string list \<Rightarrow> string \<Rightarrow> command" where
  "nft_cmd args stdin = \<lparr>cm_name = ''nft'', cm_args = args, cm_stdin = stdin\<rparr>"

definition line :: "string \<Rightarrow> string" where
  "line s = s @ [CHR 0x0A]"

definition tab :: "nat \<Rightarrow> string \<Rightarrow> string" where
  "tab n s = line (replicate n (CHR 0x09) @ s)"

definition nftBootstrapScript :: string where
  "nftBootstrapScript = concat
    [line ''table inet gofax_sentry {'',
     tab 1 ''set blocklist4 {'', tab 2 ''type ipv4_addr'', tab 2 ''flags timeout'', tab 1 ''}'',
     tab 1 ''set blocklist6 {'', tab 2 ''type ipv6_addr'', tab 2 ''flags timeout'', tab 1 ''}'',
     tab 1 ''chain input {'', tab 2 ''type filter hook input priority filter - 10; policy accept;'',
     tab 2 ''ip saddr @blocklist4 drop'', tab 2 ''ip6 saddr @blocklist6 drop'', tab 1 ''}'',
     line ''}'']"

definition nft_ensureTable :: "'f runner \<Rightarrow> 'f \<Rightarrow> 'f \<times> bool" where
  "nft_ensureTable run f =
    (case run (nft_cmd [''list'', ''table'', ''inet'', ''gofax_sentry''] []) f of
       (f1, True) \<Rightarrow> (f1, True)
     | (f1, False) \<Rightarrow> run (nft_cmd [''-f'', ''-''] nftBootstrapScript) f1)"

definition nft_withHeal :: "'f runner \<Rightarrow> ('f \<Rightarrow> 'f \<times> bool) \<Rightarrow> 'f \<Rightarrow> 'f \<times> bool" where
  "nft_withHeal run op f =
    (case op f of
       (f1, True) \<Rightarrow> (f1, True)
     | (f1, False) \<Rightarrow>
         (case nft_ensureTable run f1 of (f2, False) \<Rightarrow> (f2, False) | (f2, True) \<Rightarrow> op f2))"

definition nft_Ban :: "'f runner \<Rightarrow> time \<Rightarrow> string \<Rightarrow> time option \<Rightarrow> 'f \<Rightarrow> 'f \<times> bool" where
  "nft_Ban run now ip until =
    (let elem = (case until of None \<Rightarrow> ip
                 | Some u \<Rightarrow> ip @ '' timeout '' @ nftTimeout (time_sub u now))
     in nft_withHeal run
          (run (nft_cmd [''add'', ''element'', ''inet'', ''gofax_sentry'', nftSetFor ip,
                         ''{ '' @ elem @ '' }''] [])))"

definition nft_Unban :: "'f runner \<Rightarrow> string \<Rightarrow> 'f \<Rightarrow> 'f \<times> bool" where
  "nft_Unban run ip f =
    (fst (run (nft_cmd [''delete'', ''element'', ''inet'', ''gofax_sentry'', nftSetFor ip,
                        ''{ '' @ ip @ '' }''] []) f), True)"

definition nft_sync_line :: "time \<Rightarrow> BlockedIP \<Rightarrow> string" where
  "nft_sync_line now r =
    (let elem = (case bi_ExpiresAt r of None \<Rightarrow> bi_IP r
                 | Some u \<Rightarrow> if time_sub u now > 0
                             then bi_IP r @ '' timeout '' @ nftTimeout (time_sub u now) else bi_IP r)
     in line (''add element inet gofax_sentry '' @ nftSetFor (bi_IP r) @ '' { '' @ elem @ '' }''))"

definition nft_Sync :: "'f runner \<Rightarrow> time \<Rightarrow> BlockedIP list \<Rightarrow> 'f \<Rightarrow> 'f \<times> nat" where
  "nft_Sync run now active f =
    (case (if active = [] then nft_ensureTable run f
           else nft_withHeal run (run (nft_cmd [''-f'', ''-''] (concat (map (nft_sync_line now) active)))) f)
     of (f1, ok) \<Rightarrow> (f1, if ok then 0 else 1))"

definition nftBackend :: "'f runner \<Rightarrow> 'f sentryBackend" where
  "nftBackend run = \<lparr>be_Name = ''nft'', be_Bootstrap = nft_ensureTable run, be_Ban = nft_Ban run,
     be_Unban = nft_Unban run, be_Sync = nft_Sync run\<rparr>"

definition ipset_cmd :: "string \<Rightarrow> string list \<Rightarrow> command" where
  "ipset_cmd name args = \<lparr>cm_name = name, cm_args = args, cm_stdin = []\<rparr>"

definition ipsetName :: string where "ipsetName = ''gofax_block''"

definition ipset_Bootstrap :: "'f runner \<Rightarrow> 'f \<Rightarrow> 'f \<times> bool" where
  "ipset_Bootstrap run f =
    (case run (ipset_cmd ''ipset'' [''create'', ''-exist'', ipsetName, ''hash:ip'', ''family'', ''inet'',
                                   ''timeout'', ''0'']) f of
       (f1, False) \<Rightarrow> (f1, False)
     | (f1, True) \<Rightarrow>
         (case run (ipset_cmd ''iptables'' [''-C'', ''INPUT'', ''-m'', ''set'', ''--match-set'', ipsetName,
                                          ''src'', ''-j'', ''DROP'']) f1 of
            (f2, True) \<Rightarrow> (f2, True)
          | (f2, False) \<Rightarrow> run (ipset_cmd ''iptables'' [''-I'', ''INPUT'', ''1'', ''-m'', ''set'',
                                   ''--match-set'', ipsetName, ''src'', ''-j'', ''DROP'']) f2))"

definition ipset_timeout :: "time \<Rightarrow> time option \<Rightarrow> string" where
  "ipset_timeout now until =
    (case until of None \<Rightarrow> ''0'' | Some u \<Rightarrow> itos (whole_seconds (time_sub u now)))"

definition ipset_Ban :: "'f runner \<Rightarrow> time \<Rightarrow> string \<Rightarrow> time option \<Rightarrow> 'f \<Rightarrow> 'f \<times> bool" where
  "ipset_Ban run now ip until f =
    (let add = run (ipset_cmd ''ipset'' [''add'', ''-exist'', ipsetName, ip, ''timeout'', ipset_timeout now until])
     in case add f of
          (f1, True) \<Rightarrow> (f1, True)
        | (f1, False) \<Rightarrow>
            (case ipset_Bootstrap run f1 of (f2, False) \<Rightarrow> (f2, False) | (f2, True) \<Rightarrow> add f2))"

definition ipset_Unban :: "'f runner \<Rightarrow> string \<Rightarrow> 'f \<Rightarrow> 'f \<times> bool" where
  "ipset_Unban run ip f = (fst (run (ipset_cmd ''ipset'' [''del'', ''-exist'', ipsetName, ip]) f), True)"

definition ipset_Sync :: "'f runner \<Rightarrow> time \<Rightarrow> BlockedIP list \<Rightarrow> 'f \<Rightarrow> 'f \<times> nat" where
  "ipset_Sync run now active f =
    fold (\<lambda>r (f, errs). case ipset_Ban run now (bi_IP r) (bi_ExpiresAt r) f of
                          (f1, ok) \<Rightarrow> (f1, if ok then errs else Suc errs)) active (f, 0)"

definition ipsetBackend :: "'f runner \<Rightarrow> 'f sentryBackend" where
  "ipsetBackend run = \<lparr>be_Name = ''ipset'', be_Bootstrap = ipset_Bootstrap run, be_Ban = ipset_Ban run,
     be_Unban = ipset_Unban run, be_Sync = ipset_Sync run\<rparr>"

definition logOnlyBackend :: "'f sentryBackend" where
  "logOnlyBackend = \<lparr>be_Name = ''log-only'', be_Bootstrap = (\<lambda>f. (f, True)),
     be_Ban = (\<lambda>now ip until f. (f, True)), be_Unban = (\<lambda>ip f. (f, True)),
     be_Sync = (\<lambda>now active f. (f, 0))\<rparr>"

definition newSentryBackend :: "'f runner \<Rightarrow> string \<Rightarrow> 'f sentryBackend option" where
  "newSentryBackend run name =
    (if name = ''nft'' then Some (nftBackend run)
     else if name = ''ipset'' then Some (ipsetBackend run)
     else if name = ''log-only'' then Some logOnlyBackend else None)"

section \<open>State\<close>

definition blockedLogSampleInterval :: duration where
  "blockedLogSampleInterval = 5 * Minute"

record SentryCounters =
  ct_failuresSeen :: int
  ct_blockedHits :: int
  ct_bansCreated :: int
  ct_bansExpired :: int
  ct_reconcileUnbans :: int
  ct_manualBans :: int
  ct_manualUnbans :: int
  ct_enforceErrors :: int
  ct_whitelistSkipped :: int

record 'f IPSentry =
  se_cfg :: SecurityConfig
  se_backend :: "'f sentryBackend"
  se_firewall :: 'f
  se_failures :: "(string \<times> time list) list"
  se_banned :: "(string \<times> BlockedIP) list"
  se_lastLog :: "(string \<times> time) list"
  se_offenses :: "(string \<times> int) list"
  se_whitelistNets :: "IPNet list"
  se_whitelistIPs :: "ip_addr list"
  se_counters :: SentryCounters
  se_hasDB :: bool
  se_rows :: "BlockedIP list"
  se_nextID :: nat

datatype sentry_op = LoadActive | ReadRow | ReadRowAgain | SaveRow | CreateRow | UpdateRows

type_synonym sentry_faults = "sentry_op \<Rightarrow> bool"

datatype sentry_error = InvalidIP | WhitelistedIP | AlreadyBanned | FirewallFailed

definition count :: "(SentryCounters \<Rightarrow> SentryCounters) \<Rightarrow> 'f IPSentry \<Rightarrow> 'f IPSentry" where
  "count g s = s\<lparr>se_counters := g (se_counters s)\<rparr>"

definition enforce_error :: "'f IPSentry \<Rightarrow> 'f IPSentry" where
  "enforce_error = count (\<lambda>c. c\<lparr>ct_enforceErrors := ct_enforceErrors c + 1\<rparr>)"

definition whitelist_skip :: "'f IPSentry \<Rightarrow> 'f IPSentry" where
  "whitelist_skip = count (\<lambda>c. c\<lparr>ct_whitelistSkipped := ct_whitelistSkipped c + 1\<rparr>)"

text \<open>The two calls into the backend; a ban that fails is counted.\<close>

definition backend_ban :: "time \<Rightarrow> string \<Rightarrow> time option \<Rightarrow> 'f IPSentry \<Rightarrow> 'f IPSentry \<times> bool" where
  "backend_ban now ip until s =
    (case be_Ban (se_backend s) now ip until (se_firewall s) of
       (f, ok) \<Rightarrow> (let s1 = s\<lparr>se_firewall := f\<rparr> in (if ok then s1 else enforce_error s1, ok)))"

definition backend_unban :: "string \<Rightarrow> 'f IPSentry \<Rightarrow> 'f IPSentry" where
  "backend_unban ip s =
    (case be_Unban (se_backend s) ip (se_firewall s) of
       (f, ok) \<Rightarrow> (let s1 = s\<lparr>se_firewall := f\<rparr> in if ok then s1 else enforce_error s1))"

section \<open>Database\<close>

definition read_row :: "bool \<Rightarrow> string \<Rightarrow> 'f IPSentry \<Rightarrow> BlockedIP option" where
  "read_row fail ip s =
    (if \<not> se_hasDB s \<or> fail then None else List.find (\<lambda>r. bi_IP r = ip) (se_rows s))"

text \<open>Write a ban: over the row that was read, else as a new row (the address is unique).\<close>

definition write_ban :: "sentry_faults \<Rightarrow> BlockedIP option \<Rightarrow> BlockedIP \<Rightarrow> 'f IPSentry \<Rightarrow> 'f IPSentry \<times> BlockedIP" where
  "write_ban faults prev r s =
    (if \<not> se_hasDB s then (s, r)
     else case prev of
       Some p \<Rightarrow>
         (let r1 = r\<lparr>bi_ID := bi_ID p\<rparr>
          in (if faults SaveRow then s
              else s\<lparr>se_rows := map (\<lambda>q. if bi_ID q = bi_ID p then r1 else q) (se_rows s)\<rparr>, r1))
     | None \<Rightarrow>
         (if faults CreateRow \<or> bi_IP r \<in> bi_IP ` set (se_rows s) then (s, r)
          else let r1 = r\<lparr>bi_ID := se_nextID s\<rparr>
               in (s\<lparr>se_rows := se_rows s @ [r1], se_nextID := Suc (se_nextID s)\<rparr>, r1)))"

section \<open>Operations\<close>

definition IsWhitelisted :: "string \<Rightarrow> 'f IPSentry \<Rightarrow> bool" where
  "IsWhitelisted ipStr s =
    (case ParseIP ipStr of
       None \<Rightarrow> False
     | Some a \<Rightarrow> a \<in> set (se_whitelistIPs s) \<or> list_ex (\<lambda>n. Contains n a) (se_whitelistNets s))"

definition ban_expired :: "time \<Rightarrow> BlockedIP \<Rightarrow> bool" where
  "ban_expired now b = (case bi_ExpiresAt b of None \<Rightarrow> False | Some e \<Rightarrow> e < now)"

definition IsBanned :: "time \<Rightarrow> string \<Rightarrow> 'f IPSentry \<Rightarrow> bool" where
  "IsBanned now ipStr s =
    (case map_of (se_banned s) ipStr of None \<Rightarrow> False | Some b \<Rightarrow> \<not> ban_expired now b)"

definition acl_match :: "Server option \<Rightarrow> string \<Rightarrow> bool" where
  "acl_match server ipStr =
    (case server of None \<Rightarrow> False
     | Some sv \<Rightarrow> (case fsGatewayACL sv ipStr of Inr _ \<Rightarrow> True | Inl _ \<Rightarrow> False))"

definition ladder :: "SecurityConfig \<Rightarrow> time \<Rightarrow> int \<Rightarrow> time option" where
  "ladder cfg now offense =
    (if offense \<le> int (length (Durations cfg))
     then Some (now + Durations cfg ! nat (offense - 1)) else None)"

definition put_ban :: "string \<Rightarrow> BlockedIP \<Rightarrow> 'f IPSentry \<Rightarrow> 'f IPSentry" where
  "put_ban ipStr r s = s\<lparr>se_banned := AList.update ipStr r (se_banned s)\<rparr>"

definition banIP ::
    "Server option \<Rightarrow> sentry_faults \<Rightarrow> time \<Rightarrow> string \<Rightarrow> string \<Rightarrow> string \<Rightarrow> int \<Rightarrow>
     'f IPSentry \<Rightarrow> 'f IPSentry" where
  "banIP server faults now ipStr source reason failCount s =
    (if acl_match server ipStr then whitelist_skip s
     else if (case map_of (se_banned s) ipStr of None \<Rightarrow> False | Some b \<Rightarrow> bi_Active b) then s
     else
       let offense0 = get_or 0 (se_offenses s) ipStr + 1;
           prev = read_row (faults ReadRow) ipStr s;
           offense = (case prev of None \<Rightarrow> offense0 | Some p \<Rightarrow> max offense0 (bi_OffenseCount p + 1));
           fails = (case prev of None \<Rightarrow> failCount | Some p \<Rightarrow> max failCount (bi_FailCount p));
           s1 = s\<lparr>se_offenses := AList.update ipStr offense (se_offenses s)\<rparr>;
           expires = ladder (se_cfg s1) now offense;
           r = \<lparr>bi_ID = 0, bi_IP = ipStr, bi_Reason = reason, bi_Source = source, bi_FailCount = fails,
                bi_OffenseCount = offense, bi_BannedAt = now, bi_ExpiresAt = expires, bi_Active = True,
                bi_UnbannedAt = None, bi_UnbanReason = []\<rparr>;
           s2 = fst (backend_ban now ipStr expires s1);
           w = write_ban faults (read_row (faults ReadRowAgain) ipStr s2) r s2;
           s4 = (put_ban ipStr (snd w) (fst w))\<lparr>se_failures := AList.delete ipStr (se_failures (fst w))\<rparr>;
           s5 = count (\<lambda>c. c\<lparr>ct_bansCreated := ct_bansCreated c + 1\<rparr>) s4
       in if source = ''manual''
          then count (\<lambda>c. c\<lparr>ct_manualBans := ct_manualBans c + 1\<rparr>) s5 else s5)"

text \<open>The reason of an automatic ban is formatted text; here an argument.\<close>

definition RecordFailure ::
    "Server option \<Rightarrow> sentry_faults \<Rightarrow> time \<Rightarrow> string \<Rightarrow> string \<Rightarrow> 'f IPSentry \<Rightarrow> 'f IPSentry" where
  "RecordFailure server faults now reason ipStr s =
    (if ParseIP ipStr = None then s
     else
       let s1 = count (\<lambda>c. c\<lparr>ct_failuresSeen := ct_failuresSeen c + 1\<rparr>) s
       in if IsWhitelisted ipStr s1 then whitelist_skip s1
          else if IsBanned now ipStr s1 then s1
          else
            let kept = filter (\<lambda>t. time_sub now t < Window (se_cfg s1)) (get_or [] (se_failures s1) ipStr) @ [now];
                s2 = s1\<lparr>se_failures := AList.update ipStr kept (se_failures s1)\<rparr>
            in if int (length kept) \<ge> Threshold (se_cfg s2)
               then banIP server faults now ipStr ''auto'' reason (int (length kept)) s2
               else s2)"

definition count_manual :: "'f IPSentry \<Rightarrow> 'f IPSentry" where
  "count_manual = count (\<lambda>c. c\<lparr>ct_bansCreated := ct_bansCreated c + 1, ct_manualBans := ct_manualBans c + 1\<rparr>)"

definition manual_record :: "time \<Rightarrow> string \<Rightarrow> string \<Rightarrow> int \<Rightarrow> time option \<Rightarrow> BlockedIP" where
  "manual_record now ipStr reason offense expires =
     \<lparr>bi_ID = 0, bi_IP = ipStr, bi_Reason = reason, bi_Source = ''manual'', bi_FailCount = 0,
      bi_OffenseCount = offense, bi_BannedAt = now, bi_ExpiresAt = expires, bi_Active = True,
      bi_UnbannedAt = None, bi_UnbanReason = []\<rparr>"

definition banIPPermanent ::
    "sentry_faults \<Rightarrow> time \<Rightarrow> string \<Rightarrow> string \<Rightarrow> 'f IPSentry \<Rightarrow> 'f IPSentry" where
  "banIPPermanent faults now ipStr reason s =
    (let r = manual_record now ipStr reason (int (length (Durations (se_cfg s))) + 1) None;
         prev = read_row (faults ReadRow) ipStr s;
         r = (case prev of None \<Rightarrow> r | Some p \<Rightarrow> r\<lparr>bi_FailCount := bi_FailCount p\<rparr>);
         w = write_ban faults prev r s;
         s2 = fst (backend_ban now ipStr None (fst w))
     in count_manual (put_ban ipStr (snd w) s2))"

definition BanManual ::
    "sentry_faults \<Rightarrow> time \<Rightarrow> string \<Rightarrow> string \<Rightarrow> duration option \<Rightarrow> 'f IPSentry \<Rightarrow>
     'f IPSentry \<times> sentry_error option" where
  "BanManual faults now ipStr reason d s =
    (if ParseIP ipStr = None then (s, Some InvalidIP)
     else if IsWhitelisted ipStr s then (s, Some WhitelistedIP)
     else if IsBanned now ipStr s then (s, Some AlreadyBanned)
     else case d of
       None \<Rightarrow> (banIPPermanent faults now ipStr reason s, None)
     | Some d \<Rightarrow>
        (let exp = now + d;
             prev = read_row (faults ReadRow) ipStr s;
             r = manual_record now ipStr reason 1 (Some exp);
             r = (case prev of None \<Rightarrow> r
                  | Some p \<Rightarrow> r\<lparr>bi_OffenseCount := bi_OffenseCount p + 1, bi_FailCount := bi_FailCount p\<rparr>);
             w = write_ban faults prev r s;
             b = backend_ban now ipStr (Some exp) (fst w)
         in if \<not> snd b then (fst b, Some FirewallFailed)
            else (count_manual (put_ban ipStr (snd w) (fst b)), None)))"

definition unbanIP :: "sentry_faults \<Rightarrow> time \<Rightarrow> string \<Rightarrow> string \<Rightarrow> 'f IPSentry \<Rightarrow> 'f IPSentry" where
  "unbanIP faults now reason ipStr s =
    (let s1 = backend_unban ipStr s;
         s2 = s1\<lparr>se_banned := AList.delete ipStr (se_banned s1),
                 se_failures := AList.delete ipStr (se_failures s1)\<rparr>
     in if se_hasDB s2 \<and> \<not> faults UpdateRows
        then s2\<lparr>se_rows := map (\<lambda>r. if bi_IP r = ipStr \<and> bi_Active r
                                    then r\<lparr>bi_Active := False, bi_UnbannedAt := Some now,
                                           bi_UnbanReason := reason\<rparr> else r) (se_rows s2)\<rparr>
        else s2)"

definition UnbanIP :: "sentry_faults \<Rightarrow> time \<Rightarrow> string \<Rightarrow> 'f IPSentry \<Rightarrow> 'f IPSentry \<times> bool" where
  "UnbanIP faults now ipStr s =
    (if \<not> IsBanned now ipStr s then (s, False)
     else (unbanIP faults now ''manual'' ipStr
             (count (\<lambda>c. c\<lparr>ct_manualUnbans := ct_manualUnbans c + 1\<rparr>) s), True))"

definition count_reconcile :: "'f IPSentry \<Rightarrow> 'f IPSentry" where
  "count_reconcile = count (\<lambda>c. c\<lparr>ct_reconcileUnbans := ct_reconcileUnbans c + 1\<rparr>)"

definition reconcile_ip ::
    "Server option \<Rightarrow> sentry_faults \<Rightarrow> time \<Rightarrow> string \<Rightarrow> 'f IPSentry \<Rightarrow> 'f IPSentry" where
  "reconcile_ip server faults now ipStr s =
    (if IsWhitelisted ipStr s then unbanIP faults now ''whitelisted'' ipStr (count_reconcile s)
     else if acl_match server ipStr
     then unbanIP faults now ''now-matches-endpoint-acl'' ipStr (count_reconcile s)
     else s)"

definition Reconcile :: "Server option \<Rightarrow> sentry_faults \<Rightarrow> time \<Rightarrow> 'f IPSentry \<Rightarrow> 'f IPSentry" where
  "Reconcile server faults now s = fold (reconcile_ip server faults now) (map fst (se_banned s)) s"

definition expire_ip :: "sentry_faults \<Rightarrow> time \<Rightarrow> string \<Rightarrow> 'f IPSentry \<Rightarrow> 'f IPSentry" where
  "expire_ip faults now ipStr s =
     unbanIP faults now ''expired'' ipStr (count (\<lambda>c. c\<lparr>ct_bansExpired := ct_bansExpired c + 1\<rparr>) s)"

definition janitorTick :: "Server option \<Rightarrow> sentry_faults \<Rightarrow> time \<Rightarrow> 'f IPSentry \<Rightarrow> 'f IPSentry" where
  "janitorTick server faults now s =
    (let bans = map snd (se_banned s);
         expired = map bi_IP (filter (ban_expired now) bans);
         active = filter (\<lambda>b. \<not> ban_expired now b) bans;
         s1 = fold (expire_ip faults now) expired s;
         sync = be_Sync (se_backend s1) now active (se_firewall s1);
         s2 = count (\<lambda>c. c\<lparr>ct_enforceErrors := ct_enforceErrors c + int (snd sync)\<rparr>)
                (s1\<lparr>se_firewall := fst sync\<rparr>)
     in Reconcile server faults now s2)"

definition ShouldLogBlocked :: "time \<Rightarrow> string \<Rightarrow> 'f IPSentry \<Rightarrow> 'f IPSentry \<times> bool" where
  "ShouldLogBlocked now ipStr s =
    (let s1 = count (\<lambda>c. c\<lparr>ct_blockedHits := ct_blockedHits c + 1\<rparr>) s
     in case map_of (se_lastLog s1) ipStr of
          Some last_log \<Rightarrow>
            if time_sub now last_log < blockedLogSampleInterval then (s1, False)
            else (s1\<lparr>se_lastLog := AList.update ipStr now (se_lastLog s1)\<rparr>, True)
        | None \<Rightarrow> (s1\<lparr>se_lastLog := AList.update ipStr now (se_lastLog s1)\<rparr>, True))"

text \<open>The active bans, newest first; the whole history on request. Without a database the cache
  answers.\<close>

definition ListBans :: "bool \<Rightarrow> bool \<Rightarrow> 'f IPSentry \<Rightarrow> BlockedIP list" where
  "ListBans fail includeHistory s =
    (let newest = stable_sort (\<lambda>a b. bi_BannedAt a > bi_BannedAt b)
     in if se_hasDB s \<and> \<not> fail
        then newest (if includeHistory then se_rows s else filter bi_Active (se_rows s))
        else newest (map snd (se_banned s)))"

section \<open>Start\<close>

fun parse_whitelist :: "string list \<Rightarrow> 'f IPSentry \<Rightarrow> 'f IPSentry" where
  "parse_whitelist [] s = s"
| "parse_whitelist (cidr # cidrs) s =
    parse_whitelist cidrs
      (case ParseCIDR cidr of
         Some n \<Rightarrow> s\<lparr>se_whitelistNets := se_whitelistNets s @ [n]\<rparr>
       | None \<Rightarrow> (case ParseIP cidr of
                    Some a \<Rightarrow> s\<lparr>se_whitelistIPs := List.insert a (se_whitelistIPs s)\<rparr>
                  | None \<Rightarrow> s))"

definition restore_row :: "sentry_faults \<Rightarrow> time \<Rightarrow> BlockedIP \<Rightarrow> 'f IPSentry \<Rightarrow> 'f IPSentry" where
  "restore_row faults now row s =
    (if ban_expired now row then unbanIP faults now ''expired-during-downtime'' (bi_IP row) s
     else put_ban (bi_IP row) row (fst (backend_ban now (bi_IP row) (bi_ExpiresAt row) s)))"

definition empty_sentry ::
    "SecurityConfig \<Rightarrow> 'f sentryBackend \<Rightarrow> 'f \<Rightarrow> bool \<Rightarrow> BlockedIP list \<Rightarrow> nat \<Rightarrow> 'f IPSentry" where
  "empty_sentry cfg backend firewall hasDB rows nextID =
     \<lparr>se_cfg = cfg, se_backend = backend, se_firewall = firewall, se_failures = [], se_banned = [],
      se_lastLog = [], se_offenses = [], se_whitelistNets = [], se_whitelistIPs = [],
      se_counters = \<lparr>ct_failuresSeen = 0, ct_blockedHits = 0, ct_bansCreated = 0, ct_bansExpired = 0,
        ct_reconcileUnbans = 0, ct_manualBans = 0, ct_manualUnbans = 0, ct_enforceErrors = 0,
        ct_whitelistSkipped = 0\<rparr>,
      se_hasDB = hasDB, se_rows = rows, se_nextID = nextID\<rparr>"

text \<open>\<open>newIPSentry\<close>: no sentry when it is disabled or its backend unknown.\<close>

definition newIPSentry ::
    "'f runner \<Rightarrow> sentry_faults \<Rightarrow> time \<Rightarrow> SecurityConfig \<Rightarrow> 'f \<Rightarrow> bool \<Rightarrow> BlockedIP list \<Rightarrow> nat \<Rightarrow>
     'f IPSentry option" where
  "newIPSentry run faults now cfg firewall hasDB rows nextID =
    (if \<not> sc_Enabled cfg then None
     else case newSentryBackend run (BackendName cfg) of
       None \<Rightarrow> None
     | Some backend \<Rightarrow>
         (let s = parse_whitelist (sc_WhitelistCIDRs cfg) (empty_sentry cfg backend firewall hasDB rows nextID);
              s1 = (case be_Bootstrap backend (se_firewall s) of
                      (f, ok) \<Rightarrow> if ok then s\<lparr>se_firewall := f\<rparr> else enforce_error (s\<lparr>se_firewall := f\<rparr>));
              active = (if se_hasDB s1 \<and> \<not> faults LoadActive then filter bi_Active (se_rows s1) else [])
          in Some (fold (restore_row faults now) active s1)))"

section \<open>Reload of endpoints\<close>

text \<open>\<open>reconcileBans\<close>, and the two directory operations that end with it.\<close>

definition reconcileBans ::
    "sentry_faults \<Rightarrow> time \<Rightarrow> Server \<Rightarrow> 'f IPSentry option \<Rightarrow> 'f IPSentry option" where
  "reconcileBans faults now server sentry = map_option (Reconcile (Some server) faults now) sentry"

definition loadEndpoints ::
    "bool \<Rightarrow> dns \<Rightarrow> sentry_faults \<Rightarrow> time \<Rightarrow> Server \<Rightarrow> 'f IPSentry option \<Rightarrow>
     Server \<times> 'f IPSentry option \<times> (dir_error + unit)" where
  "loadEndpoints fail dns faults now server sentry =
    (case load_endpoints fail dns server of
       (server1, Inl e) \<Rightarrow> (server1, sentry, Inl e)
     | (server1, Inr u) \<Rightarrow> (server1, reconcileBans faults now server1 sentry, Inr u))"

definition refreshGatewayACLResolution ::
    "dns \<Rightarrow> sentry_faults \<Rightarrow> time \<Rightarrow> Server \<Rightarrow> 'f IPSentry option \<Rightarrow> Server \<times> 'f IPSentry option" where
  "refreshGatewayACLResolution dns faults now server sentry =
    (if sv_GatewayEndpointsACL server = [] then (server, sentry)
     else let server1 = refresh_resolution dns server
          in (server1, reconcileBans faults now server1 sentry))"

section \<open>Specification\<close>

definition bans :: "'f IPSentry \<Rightarrow> string \<Rightarrow> BlockedIP option" where
  "bans s = map_of (se_banned s)"

inductive sentry_step :: "'f IPSentry \<Rightarrow> 'f IPSentry \<Rightarrow> bool" where
  sy_failure: "sentry_step s (RecordFailure server f now reason ip s)"
| sy_ban: "sentry_step s (fst (BanManual f now ip reason d s))"
| sy_unban: "sentry_step s (fst (UnbanIP f now ip s))"
| sy_janitor: "sentry_step s (janitorTick server f now s)"
| sy_reconcile: "sentry_step s (Reconcile server f now s)"
| sy_log: "sentry_step s (fst (ShouldLogBlocked now ip s))"

definition same_rules :: "'f IPSentry \<Rightarrow> 'f IPSentry \<Rightarrow> bool" where
  "same_rules s t \<longleftrightarrow> se_cfg s = se_cfg t \<and> se_whitelistNets s = se_whitelistNets t
     \<and> se_whitelistIPs s = se_whitelistIPs t"

text \<open>A step may release bans; a new ban is on an address that parses and is not whitelisted.\<close>

definition lawful :: "'f IPSentry \<Rightarrow> 'f IPSentry \<Rightarrow> bool" where
  "lawful s t \<longleftrightarrow> same_rules s t \<and>
     (\<forall>ip. bans t ip \<noteq> None \<longrightarrow> bans s ip \<noteq> None \<or> ParseIP ip \<noteq> None \<and> \<not> IsWhitelisted ip s)"

section \<open>Lemmas\<close>

lemma same_rules_refl [simp]: "same_rules s s"
  by (simp add: same_rules_def)

lemma IsWhitelisted_same: "same_rules s t \<Longrightarrow> IsWhitelisted ip t = IsWhitelisted ip s"
  by (simp add: same_rules_def IsWhitelisted_def split: option.split)

lemma lawful_refl [simp]: "lawful s s"
  by (simp add: lawful_def)

lemma lawful_trans: "lawful s t \<Longrightarrow> lawful t u \<Longrightarrow> lawful s u"
  using IsWhitelisted_same [of s t] unfolding lawful_def same_rules_def by metis

lemma count_simps [simp]:
  "se_banned (count g s) = se_banned s" "se_cfg (count g s) = se_cfg s"
  "se_whitelistNets (count g s) = se_whitelistNets s" "se_whitelistIPs (count g s) = se_whitelistIPs s"
  "se_rows (count g s) = se_rows s" "se_hasDB (count g s) = se_hasDB s"
  "se_failures (count g s) = se_failures s" "se_offenses (count g s) = se_offenses s"
  "se_backend (count g s) = se_backend s" "se_firewall (count g s) = se_firewall s"
  by (simp_all add: count_def)

lemma backend_ban_simps [simp]:
  "se_banned (fst (backend_ban now ip u s)) = se_banned s" "se_cfg (fst (backend_ban now ip u s)) = se_cfg s"
  "se_whitelistNets (fst (backend_ban now ip u s)) = se_whitelistNets s"
  "se_whitelistIPs (fst (backend_ban now ip u s)) = se_whitelistIPs s"
  "se_rows (fst (backend_ban now ip u s)) = se_rows s" "se_hasDB (fst (backend_ban now ip u s)) = se_hasDB s"
  "se_failures (fst (backend_ban now ip u s)) = se_failures s"
  "se_offenses (fst (backend_ban now ip u s)) = se_offenses s"
  by (simp_all add: backend_ban_def Let_def enforce_error_def split: prod.split)

lemma backend_unban_simps [simp]:
  "se_banned (backend_unban ip s) = se_banned s" "se_cfg (backend_unban ip s) = se_cfg s"
  "se_whitelistNets (backend_unban ip s) = se_whitelistNets s"
  "se_whitelistIPs (backend_unban ip s) = se_whitelistIPs s"
  "se_rows (backend_unban ip s) = se_rows s" "se_hasDB (backend_unban ip s) = se_hasDB s"
  "se_failures (backend_unban ip s) = se_failures s" "se_offenses (backend_unban ip s) = se_offenses s"
  by (simp_all add: backend_unban_def Let_def enforce_error_def split: prod.split)

lemma write_ban_simps [simp]:
  "se_banned (fst (write_ban f p r s)) = se_banned s" "se_cfg (fst (write_ban f p r s)) = se_cfg s"
  "se_whitelistNets (fst (write_ban f p r s)) = se_whitelistNets s"
  "se_whitelistIPs (fst (write_ban f p r s)) = se_whitelistIPs s"
  "se_failures (fst (write_ban f p r s)) = se_failures s"
  "se_offenses (fst (write_ban f p r s)) = se_offenses s"
  "se_hasDB (fst (write_ban f p r s)) = se_hasDB s"
  by (simp_all add: write_ban_def Let_def split: option.split)

lemma write_ban_record [simp]:
  "bi_IP (snd (write_ban f p r s)) = bi_IP r" "bi_Active (snd (write_ban f p r s)) = bi_Active r"
  "bi_ExpiresAt (snd (write_ban f p r s)) = bi_ExpiresAt r"
  "bi_OffenseCount (snd (write_ban f p r s)) = bi_OffenseCount r"
  by (simp_all add: write_ban_def Let_def split: option.split)

lemma unbanIP_simps [simp]:
  "bans (unbanIP f now reason ip s) = (bans s)(ip := None)"
  "se_cfg (unbanIP f now reason ip s) = se_cfg s"
  "se_whitelistNets (unbanIP f now reason ip s) = se_whitelistNets s"
  "se_whitelistIPs (unbanIP f now reason ip s) = se_whitelistIPs s"
  "se_offenses (unbanIP f now reason ip s) = se_offenses s"
  "se_hasDB (unbanIP f now reason ip s) = se_hasDB s"
  by (simp_all add: unbanIP_def Let_def bans_def delete_conv')

lemma bans_count [simp]: "bans (count g s) = bans s"
  by (simp add: bans_def)

lemma same_rules_unban [simp]: "same_rules s (unbanIP f now reason ip s)"
  by (simp add: same_rules_def)

lemma IsWhitelisted_unban [simp]: "IsWhitelisted ip' (unbanIP f now reason ip s) = IsWhitelisted ip' s"
  by (rule IsWhitelisted_same) simp

lemma IsWhitelisted_count [simp]: "IsWhitelisted ip (count g s) = IsWhitelisted ip s"
  by (rule IsWhitelisted_same) (simp add: same_rules_def)

text \<open>The effect of \<open>banIP\<close> on the bans.\<close>

definition offense_of :: "sentry_faults \<Rightarrow> string \<Rightarrow> 'f IPSentry \<Rightarrow> int" where
  "offense_of f ip s =
    (case read_row (f ReadRow) ip s of
       None \<Rightarrow> get_or 0 (se_offenses s) ip | Some p \<Rightarrow> max (get_or 0 (se_offenses s) ip) (bi_OffenseCount p))"

lemma banIP_cases:
  "(acl_match server ip \<or> (\<exists>b. bans s ip = Some b \<and> bi_Active b))
      \<and> se_banned (banIP server f now ip src reason k s) = se_banned s
      \<and> se_failures (banIP server f now ip src reason k s) = se_failures s
   \<or> \<not> acl_match server ip \<and> (\<forall>b. bans s ip = Some b \<longrightarrow> \<not> bi_Active b) \<and> (\<exists>b. bans (banIP server f now ip src reason k s) = (bans s)(ip \<mapsto> b)
        \<and> bi_IP b = ip \<and> bi_Active b \<and> bi_OffenseCount b = offense_of f ip s + 1
        \<and> bi_ExpiresAt b = ladder (se_cfg s) now (offense_of f ip s + 1))
      \<and> se_offenses (banIP server f now ip src reason k s) = AList.update ip (offense_of f ip s + 1) (se_offenses s)
      \<and> se_failures (banIP server f now ip src reason k s) = AList.delete ip (se_failures s)"
proof -
  have off: "(case read_row (f ReadRow) ip s of None \<Rightarrow> get_or 0 (se_offenses s) ip + 1
      | Some p \<Rightarrow> max (get_or 0 (se_offenses s) ip + 1) (bi_OffenseCount p + 1)) = offense_of f ip s + 1"
    by (auto simp: offense_of_def max_def split: option.split)
  show ?thesis
    unfolding banIP_def Let_def off
    by (auto simp: bans_def put_ban_def update_conv' whitelist_skip_def split: option.splits)
qed

lemma banIP_same_rules [simp]: "same_rules s (banIP server f now ip src reason k s)"
  by (simp add: banIP_def Let_def same_rules_def whitelist_skip_def put_ban_def split: prod.split)

lemma lawful_banIP:
  assumes "ParseIP ip \<noteq> None" "\<not> IsWhitelisted ip s"
  shows "lawful s (banIP server f now ip src reason k s)"
  using banIP_cases [of server ip s f now src reason k] assms
  by (auto simp: lawful_def bans_def split: if_splits)

lemma lawful_unban [simp]: "lawful s (unbanIP f now reason ip s)"
  by (simp add: lawful_def)

lemma lawful_count: "lawful s t \<Longrightarrow> lawful s (count g t)"
  by (simp add: lawful_def same_rules_def)

lemma lawful_frame: "same_rules s t \<Longrightarrow> bans t = bans s \<Longrightarrow> lawful s t"
  by (simp add: lawful_def)

lemma lawful_RecordFailure: "lawful s (RecordFailure server f now reason ip s)"
proof -
  let ?g = "\<lambda>c. c\<lparr>ct_failuresSeen := ct_failuresSeen c + 1\<rparr>"
  have frame: "lawful s ((count ?g s)\<lparr>se_failures := m\<rparr>)" for m
    by (rule lawful_frame) (simp_all add: same_rules_def bans_def)
  have wl: "IsWhitelisted ip ((count ?g s)\<lparr>se_failures := m\<rparr>) = IsWhitelisted ip s" for m
    by (rule IsWhitelisted_same) (simp add: same_rules_def)
  show ?thesis
    unfolding RecordFailure_def Let_def whitelist_skip_def
    by (auto intro!: lawful_count lawful_trans [OF frame lawful_banIP] frame simp: wl)
qed

lemma lawful_BanManual: "lawful s (fst (BanManual f now ip reason d s))"
  by (auto simp: BanManual_def banIPPermanent_def Let_def count_manual_def put_ban_def lawful_def
      same_rules_def bans_def update_conv' split: option.split if_splits)

lemma lawful_UnbanIP: "lawful s (fst (UnbanIP f now ip s))"
  by (simp add: UnbanIP_def lawful_def same_rules_def)

lemma lawful_fold:
  assumes "\<And>x s. lawful s (step x s)"
  shows "lawful s (fold step xs s)"
  by (induction xs arbitrary: s) (auto intro: lawful_trans assms)

lemma lawful_reconcile_ip: "lawful s (reconcile_ip server f now ip s)"
  by (simp add: reconcile_ip_def count_reconcile_def lawful_def same_rules_def)

lemma lawful_Reconcile: "lawful s (Reconcile server f now s)"
  unfolding Reconcile_def by (intro lawful_fold lawful_reconcile_ip)

lemma lawful_expire: "lawful s (expire_ip f now ip s)"
  by (simp add: expire_ip_def lawful_def same_rules_def)

lemma lawful_janitor: "lawful s (janitorTick server f now s)"
proof -
  have "lawful s (fold (expire_ip f now) xs s)" for xs
    by (intro lawful_fold lawful_expire)
  then have "lawful s (count g ((fold (expire_ip f now) xs s)\<lparr>se_firewall := fw\<rparr>))" for xs g fw
    by (auto simp: lawful_def same_rules_def bans_def)
  then show ?thesis
    unfolding janitorTick_def Let_def by (rule lawful_trans) (rule lawful_Reconcile)
qed

lemma lawful_log: "lawful s (fst (ShouldLogBlocked now ip s))"
  by (auto simp: ShouldLogBlocked_def Let_def lawful_def same_rules_def bans_def split: option.split)

interpretation sentry: step_invariant sentry_step s0 "lawful s0" for s0 :: "'f IPSentry"
proof
  show "lawful s0 s0"
    by simp
  show "lawful s0 t" if "lawful s0 s" "sentry_step s t" for s t
    using that(2,1)
    by cases (auto intro: lawful_trans lawful_RecordFailure lawful_BanManual lawful_UnbanIP
        lawful_janitor lawful_Reconcile lawful_log)
qed

subsection \<open>The cache is keyed by address\<close>

definition keyed :: "'f IPSentry \<Rightarrow> bool" where
  "keyed s \<longleftrightarrow> distinct (map fst (se_banned s)) \<and> (\<forall>k b. bans s k = Some b \<longrightarrow> bi_IP b = k)"

lemma keyed_same: "se_banned t = se_banned s \<Longrightarrow> keyed s \<Longrightarrow> keyed t"
  by (simp add: keyed_def bans_def)

lemma keyed_put: "keyed s \<Longrightarrow> bi_IP b = k \<Longrightarrow> se_banned t = AList.update k b (se_banned s) \<Longrightarrow> keyed t"
  by (simp add: keyed_def bans_def update_conv' distinct_update)

lemma keyed_delete: "keyed s \<Longrightarrow> se_banned t = AList.delete k (se_banned s) \<Longrightarrow> keyed t"
  by (simp add: keyed_def bans_def delete_conv' distinct_delete)

lemma banIP_distinct:
  "distinct (map fst (se_banned s)) \<Longrightarrow> distinct (map fst (se_banned (banIP server f now ip src reason k s)))"
  by (simp add: banIP_def Let_def whitelist_skip_def put_ban_def distinct_update split: option.split)

lemma keyed_banIP: "keyed s \<Longrightarrow> keyed (banIP server f now ip src reason k s)"
  using banIP_cases [of server ip s f now src reason k] banIP_distinct [of s server f now ip src reason k]
  by (auto simp: keyed_def bans_def simp del: map_of_eq_Some_iff split: if_splits)

lemma keyed_unban: "keyed s \<Longrightarrow> keyed (unbanIP f now reason ip s)"
  by (erule keyed_delete [where k = ip]) (simp add: unbanIP_def Let_def)

lemma keyed_count [simp]: "keyed (count g s) = keyed s"
  by (simp add: keyed_def bans_def)

lemma keyed_RecordFailure: "keyed s \<Longrightarrow> keyed (RecordFailure server f now reason ip s)"
  unfolding RecordFailure_def Let_def whitelist_skip_def
  by (auto intro!: keyed_banIP elim: keyed_same [rotated])

lemma BanManual_banned:
  "se_banned (fst (BanManual f now ip reason d s)) = se_banned s
   \<or> (\<exists>b. bi_IP b = ip \<and> se_banned (fst (BanManual f now ip reason d s)) = AList.update ip b (se_banned s))"
proof (cases "ParseIP ip = None \<or> IsWhitelisted ip s \<or> IsBanned now ip s")
  case False
  then show ?thesis
    by (cases d; cases "read_row (f ReadRow) ip s")
      (auto simp: BanManual_def banIPPermanent_def Let_def count_manual_def put_ban_def manual_record_def;
        metis write_ban_record(1) BlockedIP.select_convs(2))+
qed (auto simp: BanManual_def)

lemma keyed_BanManual: "keyed s \<Longrightarrow> keyed (fst (BanManual f now ip reason d s))"
  using BanManual_banned [of f now ip reason d s] keyed_put [of s _ ip "fst (BanManual f now ip reason d s)"]
    keyed_same [of "fst (BanManual f now ip reason d s)" s] by blast

lemma keyed_fold: "(\<And>x s. keyed s \<Longrightarrow> keyed (step x s)) \<Longrightarrow> keyed s \<Longrightarrow> keyed (fold step xs s)"
  by (induction xs arbitrary: s) auto

lemma keyed_expire: "keyed s \<Longrightarrow> keyed (expire_ip f now ip s)"
  by (simp add: expire_ip_def keyed_unban)

lemma keyed_reconcile_ip: "keyed s \<Longrightarrow> keyed (reconcile_ip server f now ip s)"
  by (simp add: reconcile_ip_def keyed_unban count_reconcile_def)

lemma keyed_janitor: "keyed s \<Longrightarrow> keyed (janitorTick server f now s)"
  unfolding janitorTick_def Let_def Reconcile_def
  by (intro keyed_fold keyed_reconcile_ip)
    (auto simp: intro: keyed_same [OF _ keyed_fold [OF keyed_expire]])

interpretation keyed: step_invariant sentry_step s0 "\<lambda>s. keyed s0 \<longrightarrow> keyed s" for s0 :: "'f IPSentry"
proof
  show "keyed s0 \<longrightarrow> keyed t" if "keyed s0 \<longrightarrow> keyed s" "sentry_step s t" for s t
    using that(2,1)
    by cases (auto intro!: keyed_RecordFailure keyed_BanManual keyed_janitor keyed_unban
        keyed_fold keyed_reconcile_ip elim: keyed_same [rotated]
        simp: UnbanIP_def Reconcile_def ShouldLogBlocked_def Let_def split: option.split)
qed simp

subsection \<open>Release\<close>

lemma bans_reconcile_ip:
  "bans (reconcile_ip server f now ip s) =
     (if IsWhitelisted ip s \<or> acl_match server ip then (bans s)(ip := None) else bans s)"
  by (simp add: reconcile_ip_def count_reconcile_def)

lemma bans_reconcile_fold:
  "bans (fold (reconcile_ip server f now) ips s) x =
     (if x \<in> set ips \<and> (IsWhitelisted x s \<or> acl_match server x) then None else bans s x)"
proof (induction ips arbitrary: s)
  case (Cons ip ips)
  have "IsWhitelisted x (reconcile_ip server f now ip s) = IsWhitelisted x s"
    using lawful_reconcile_ip [of s server f now ip] by (auto simp: lawful_def dest: IsWhitelisted_same)
  with Cons show ?case
    by (auto simp: bans_reconcile_ip)
qed simp

lemma bans_Reconcile:
  "bans (Reconcile server f now s) x = (if IsWhitelisted x s \<or> acl_match server x then None else bans s x)"
proof -
  have "x \<notin> set (map fst (se_banned s)) \<Longrightarrow> bans s x = None"
    by (simp add: bans_def map_of_eq_None_iff)
  then show ?thesis
    by (simp add: Reconcile_def bans_reconcile_fold del: set_map)
qed

lemma bans_expire_fold: "bans (fold (expire_ip f now) ips s) x = (if x \<in> set ips then None else bans s x)"
  by (induction ips arbitrary: s) (auto simp: expire_ip_def)

lemma expired_keys:
  assumes "keyed s"
  shows "x \<in> set (map bi_IP (filter (ban_expired now) (map snd (se_banned s))))
    \<longleftrightarrow> (\<exists>b. bans s x = Some b \<and> ban_expired now b)"
proof -
  have "(\<exists>b. bans s x = Some b \<and> ban_expired now b) \<longleftrightarrow> (\<exists>b. (x, b) \<in> set (se_banned s) \<and> ban_expired now b)"
    using assms by (simp add: keyed_def bans_def)
  moreover have "(k, b) \<in> set (se_banned s) \<Longrightarrow> bi_IP b = k" for k b
    using assms by (simp add: keyed_def bans_def)
  ultimately show ?thesis
    by force
qed

lemma bans_janitor:
  assumes "keyed s"
  shows "bans (janitorTick server f now s) x =
    (if (\<exists>b. bans s x = Some b \<and> ban_expired now b) \<or> IsWhitelisted x s \<or> acl_match server x
     then None else bans s x)"
proof -
  let ?s = "fold (expire_ip f now) (map bi_IP (filter (ban_expired now) (map snd (se_banned s)))) s"
  have b: "bans (t\<lparr>se_firewall := fw\<rparr>) = bans t" for t :: "'a IPSentry" and fw
    by (simp add: bans_def)
  have w: "IsWhitelisted x (t\<lparr>se_firewall := fw\<rparr>) = IsWhitelisted x t" for t :: "'a IPSentry" and fw
    by (rule IsWhitelisted_same) (simp add: same_rules_def)
  have "lawful s ?s"
    by (intro lawful_fold lawful_expire)
  then have "IsWhitelisted x ?s = IsWhitelisted x s"
    by (auto simp: lawful_def dest: IsWhitelisted_same)
  moreover have "bans ?s x = (if \<exists>b. bans s x = Some b \<and> ban_expired now b then None else bans s x)"
    unfolding bans_expire_fold expired_keys [OF assms] ..
  ultimately show ?thesis
    unfolding janitorTick_def Let_def bans_Reconcile by (auto simp: b w)
qed

subsection \<open>The sliding window\<close>

definition recent :: "SecurityConfig \<Rightarrow> time \<Rightarrow> time list \<Rightarrow> time list" where
  "recent cfg now ts = filter (\<lambda>t. time_sub now t < Window cfg) ts"

text \<open>Some attempt of the list is, with its predecessors in its window, one too many.\<close>

definition over_threshold :: "SecurityConfig \<Rightarrow> time list \<Rightarrow> bool" where
  "over_threshold cfg ts \<longleftrightarrow>
     (\<exists>i < length ts. Threshold cfg \<le> int (length (recent cfg (ts ! i) (take (Suc i) ts))))"

lemma over_threshold_snoc:
  "over_threshold cfg (ts @ [now]) \<longleftrightarrow>
     over_threshold cfg ts \<or> Threshold cfg \<le> int (length (recent cfg now (ts @ [now])))"
proof -
  have "(\<exists>i < Suc n. P i) \<longleftrightarrow> (\<exists>i < n. P i) \<or> P n" for P and n :: nat
    by (auto simp: less_Suc_eq)
  then show ?thesis
    by (simp add: over_threshold_def nth_append cong: conj_cong)
qed

lemma over_threshold_Nil [simp]: "\<not> over_threshold cfg []"
  by (simp add: over_threshold_def)

lemma time_sub_mono: "t \<le> u \<Longrightarrow> time_sub t x \<le> time_sub u x"
  by (simp add: time_sub_def)

lemma time_sub_same [simp]: "time_sub t t = 0"
  by (simp add: time_sub_def)

lemma recent_recent: "t \<le> u \<Longrightarrow> recent cfg u (recent cfg t xs) = recent cfg u xs"
  using time_sub_mono [of t u] by (auto simp: recent_def intro!: filter_cong) (meson order_le_less_trans)

lemma recent_snoc: "recent cfg now (xs @ [now]) = recent cfg now xs @ [now]"
  by (simp add: recent_def)

definition quiet :: "Server option \<Rightarrow> string \<Rightarrow> 'f IPSentry \<Rightarrow> bool" where
  "quiet server ip s \<longleftrightarrow> ParseIP ip \<noteq> None \<and> \<not> IsWhitelisted ip s \<and> \<not> acl_match server ip"

lemma RecordFailure_same_rules: "same_rules s (RecordFailure server f now reason ip s)"
  using lawful_RecordFailure [of s server f now reason ip] by (simp add: lawful_def)

lemma quiet_RecordFailure: "quiet server ip s \<Longrightarrow> quiet server ip (RecordFailure server f now reason ip s)"
  using IsWhitelisted_same [OF RecordFailure_same_rules [of s server f now reason ip], of ip]
  by (auto simp: quiet_def)

text \<open>An active entry of the cache, expired or not, stays as it is under further failures.\<close>

lemma RecordFailure_banned:
  assumes "bans s ip = Some b" "bi_Active b"
  shows "bans (RecordFailure server f now reason ip' s) ip = Some b"
proof -
  have b: "bans (t\<lparr>se_failures := m\<rparr>) = bans t" for t :: "'a IPSentry" and m
    by (simp add: bans_def)
  have "bans (banIP server f now ip' src r k t) ip = Some b" if "bans t ip = Some b" for t :: "'a IPSentry" and src r k
    using banIP_cases [of server ip' t f now src r k] that assms(2) by (auto simp: bans_def)
  then show ?thesis
    using assms(1) by (auto simp: RecordFailure_def Let_def whitelist_skip_def b)
qed

lemma RecordFailure_counting:
  assumes "quiet server ip s" "bans s ip = None"
    and "kept = recent (se_cfg s) now (get_or [] (se_failures s) ip) @ [now]"
    and "t = RecordFailure server f now reason ip s"
  shows "if Threshold (se_cfg s) \<le> int (length kept)
    then \<exists>b. bans t ip = Some b \<and> bi_Active b
    else bans t ip = None \<and> get_or [] (se_failures t) ip = kept"
proof -
  let ?s = "(count (\<lambda>c. c\<lparr>ct_failuresSeen := ct_failuresSeen c + 1\<rparr>) s)
    \<lparr>se_failures := AList.update ip kept (se_failures s)\<rparr>"
  have nb: "\<not> IsBanned now ip s" "bans ?s ip = None"
    using assms(2) by (simp_all add: IsBanned_def bans_def)
  have "IsBanned now ip (count g s) = IsBanned now ip s" for g
    by (simp add: IsBanned_def)
  then have t: "t = (if Threshold (se_cfg s) \<le> int (length kept)
      then banIP server f now ip ''auto'' reason (int (length kept)) ?s else ?s)"
    using assms(1,3,4) nb(1) by (auto simp: RecordFailure_def Let_def quiet_def recent_def)
  show ?thesis
    using banIP_cases [of server ip ?s f now "''auto''" reason "int (length kept)"] nb(2) assms(1,2)
    unfolding t by (auto simp: quiet_def)
qed

subsection \<open>Repeat offenders\<close>

definition offended :: "string \<Rightarrow> int \<Rightarrow> 'f IPSentry \<Rightarrow> bool" where
  "offended ip k s \<longleftrightarrow> get_or 0 (se_offenses s) ip = k
     \<and> (\<forall>r \<in> set (se_rows s). bi_IP r = ip \<longrightarrow> bi_OffenseCount r \<le> k)"

lemma offense_of_offended: "offended ip k s \<Longrightarrow> offense_of f ip s = k"
  by (auto simp: offended_def offense_of_def read_row_def find_Some_iff max_def split: option.split)

lemma find_in_set: "List.find P xs = Some x \<Longrightarrow> x \<in> set xs"
  by (auto simp: find_Some_iff)

lemma banIP_offenses:
  assumes "\<not> acl_match server ip" "bans s ip = None"
  shows "se_offenses (banIP server f now ip src reason k s)
    = AList.update ip (offense_of f ip s + 1) (se_offenses s)"
proof -
  have "\<not> (acl_match server ip \<or> (\<exists>b. bans s ip = Some b \<and> bi_Active b))"
    using assms by simp
  then show ?thesis
    using banIP_cases [of server ip s f now src reason k] by blast
qed

lemma write_ban_rows:
  "q \<in> set (se_rows (fst (write_ban f p r s))) \<Longrightarrow>
   q \<in> set (se_rows s) \<or> bi_OffenseCount q = bi_OffenseCount r"
  by (auto simp: write_ban_def Let_def split: option.splits if_splits)

lemma banIP_rows:
  "q \<in> set (se_rows (banIP server f now ip src reason k s)) \<Longrightarrow>
   q \<in> set (se_rows s) \<or> bi_OffenseCount q = offense_of f ip s + 1"
proof -
  have off: "(case read_row (f ReadRow) ip s of None \<Rightarrow> get_or 0 (se_offenses s) ip + 1
      | Some p \<Rightarrow> max (get_or 0 (se_offenses s) ip + 1) (bi_OffenseCount p + 1)) = offense_of f ip s + 1"
    by (auto simp: offense_of_def max_def split: option.split)
  show "q \<in> set (se_rows (banIP server f now ip src reason k s)) \<Longrightarrow> ?thesis"
    unfolding banIP_def Let_def off
    by (auto simp: whitelist_skip_def put_ban_def dest!: write_ban_rows split: if_splits option.splits)
qed

lemma unban_rows:
  assumes "q \<in> set (se_rows (unbanIP f now reason ip s))"
  shows "\<exists>r \<in> set (se_rows s). bi_IP r = bi_IP q \<and> bi_OffenseCount r = bi_OffenseCount q"
proof (cases "se_hasDB s \<and> \<not> f UpdateRows")
  case True
  then have "q \<in> (\<lambda>r. if bi_IP r = ip \<and> bi_Active r
      then r\<lparr>bi_Active := False, bi_UnbannedAt := Some now, bi_UnbanReason := reason\<rparr> else r) ` set (se_rows s)"
    using assms by (simp add: unbanIP_def Let_def)
  then obtain r where "r \<in> set (se_rows s)" "q = (if bi_IP r = ip \<and> bi_Active r
      then r\<lparr>bi_Active := False, bi_UnbannedAt := Some now, bi_UnbanReason := reason\<rparr> else r)"
    by (rule imageE)
  then show ?thesis
    by (intro bexI [of _ r]) simp_all
next
  case False
  then have "se_rows (unbanIP f now reason ip s) = se_rows s"
    by (auto simp: unbanIP_def Let_def)
  with assms show ?thesis
    by auto
qed

definition ban_cycle ::
    "Server option \<Rightarrow> string \<Rightarrow> string \<Rightarrow> string \<Rightarrow> int \<Rightarrow> sentry_faults \<times> time \<times> time \<Rightarrow>
     'f IPSentry \<Rightarrow> 'f IPSentry" where
  "ban_cycle server ip src reason k = (\<lambda>(f, now, later) s.
     unbanIP f later ''expired'' ip (banIP server f now ip src reason k s))"

lemma offended_cycle:
  assumes "\<not> acl_match server ip" "bans s ip = None" "offended ip k s"
  shows "offended ip (k + 1) (ban_cycle server ip src reason n c s)
    \<and> bans (ban_cycle server ip src reason n c s) ip = None
    \<and> se_cfg (ban_cycle server ip src reason n c s) = se_cfg s"
proof -
  obtain f now later where c: "c = (f, now, later)"
    by (cases c)
  let ?t = "banIP server f now ip src reason n s"
  have t: "get_or 0 (se_offenses ?t) ip = k + 1"
    unfolding banIP_offenses [OF assms(1,2)] by (simp add: offense_of_offended [OF assms(3)])
  have rows: "bi_OffenseCount q \<le> k + 1" if "q \<in> set (se_rows ?t)" "bi_IP q = ip" for q
    using banIP_rows [OF that(1)]
  proof
    assume "q \<in> set (se_rows s)"
    then have "bi_OffenseCount q \<le> k"
      using assms(3) that(2) unfolding offended_def by blast
    then show ?thesis by simp
  qed (simp add: offense_of_offended [OF assms(3)])
  have "bi_IP q = ip \<longrightarrow> bi_OffenseCount q \<le> k + 1"
    if "q \<in> set (se_rows (unbanIP f later reason' ip ?t))" for q reason'
    using unban_rows [OF that] rows by metis
  then show ?thesis
    using t banIP_same_rules [of s server f now ip src reason n]
    by (simp add: c ban_cycle_def offended_def same_rules_def)
qed

lemma offended_cycles:
  assumes "\<not> acl_match server ip" "bans s ip = None" "offended ip k s"
  shows "offended ip (k + int (length cs)) (fold (ban_cycle server ip src reason n) cs s)
    \<and> bans (fold (ban_cycle server ip src reason n) cs s) ip = None
    \<and> se_cfg (fold (ban_cycle server ip src reason n) cs s) = se_cfg s"
  using assms(2,3)
proof (induction cs arbitrary: s k)
  case (Cons c cs)
  have step: "offended ip (k + 1) (ban_cycle server ip src reason n c s)"
    "bans (ban_cycle server ip src reason n c s) ip = None"
    "se_cfg (ban_cycle server ip src reason n c s) = se_cfg s"
    using offended_cycle [OF assms(1) Cons.prems] by blast+
  show ?case
    using Cons.IH [OF step(2,1)] step(3) by (simp add: algebra_simps)
qed simp

section \<open>Properties\<close>

text \<open>C18: Only an address that parses and is not whitelisted is ever banned: from a state in which it
  is not banned, no sequence of failures, manual bans, releases, janitor runs and reconciliations,
  with any firewall and any database faults, leads to a ban of any other text, and what is
  whitelisted stays the same.\<close>

theorem whitelisted_never_banned:
  assumes "reach sentry_step s0 s" "bans s0 ip = None"
  shows "IsWhitelisted ip s = IsWhitelisted ip s0
    \<and> (bans s ip \<noteq> None \<longrightarrow> ParseIP ip \<noteq> None \<and> \<not> IsWhitelisted ip s)"
proof -
  have l: "lawful s0 s"
    by (rule sentry.reach_holds [OF assms(1)])
  then have "IsWhitelisted ip s = IsWhitelisted ip s0"
    by (intro IsWhitelisted_same) (simp add: lawful_def)
  with l assms(2) show ?thesis
    by (auto simp: lawful_def)
qed

text \<open>C19: The sliding window is exact: for an address that is neither whitelisted nor on the gateway
  list, attempts at times \<open>ts\<close> in order lead to a ban exactly when some attempt is, together with
  the earlier ones less than a window old, at least as many as the threshold.\<close>

theorem ban_iff_over_threshold:
  assumes "sorted ts" "quiet server ip s0" "bans s0 ip = None" "get_or [] (se_failures s0) ip = []"
    and "s = fold (\<lambda>now. RecordFailure server f now reason ip) ts s0"
  shows "bans s ip \<noteq> None \<longleftrightarrow> over_threshold (se_cfg s0) ts"
proof -
  let ?run = "\<lambda>ts. fold (\<lambda>now. RecordFailure server f now reason ip) ts s0"
  have "same_rules s0 (?run ts) \<and> quiet server ip (?run ts) \<and>
      (if over_threshold (se_cfg s0) ts then \<exists>b. bans (?run ts) ip = Some b \<and> bi_Active b
       else bans (?run ts) ip = None \<and> (ts \<noteq> [] \<longrightarrow>
         get_or [] (se_failures (?run ts)) ip = recent (se_cfg s0) (last ts) ts))"
    using assms(1)
  proof (induction ts rule: rev_induct)
    case (snoc now ts)
    let ?s = "?run ts"
    have rules: "same_rules s0 ?s" and q: "quiet server ip ?s"
      using snoc by (auto simp: sorted_append)
    then have cfg: "se_cfg ?s = se_cfg s0"
      by (simp add: same_rules_def)
    have rules': "same_rules s0 (RecordFailure server f now reason ip ?s)"
      using rules RecordFailure_same_rules [of ?s server f now reason ip] by (simp add: same_rules_def)
    show ?case
    proof (cases "over_threshold (se_cfg s0) ts")
      case True
      then obtain b where "bans ?s ip = Some b" "bi_Active b"
        using snoc by (auto simp: sorted_append)
      from RecordFailure_banned [OF this] True rules' quiet_RecordFailure [OF q] \<open>bi_Active b\<close>
      show ?thesis
        by (auto simp: over_threshold_snoc)
    next
      case False
      have old: "get_or [] (se_failures ?s) ip = (if ts = [] then [] else recent (se_cfg s0) (last ts) ts)"
        and nb: "bans ?s ip = None"
        using snoc False assms(3,4) by (auto simp: sorted_append)
      have "last ts \<le> now" if "ts \<noteq> []"
        using snoc.prems that by (auto simp: sorted_append)
      then have kept: "recent (se_cfg ?s) now (get_or [] (se_failures ?s) ip) @ [now]
          = recent (se_cfg s0) now (ts @ [now])"
        by (simp add: old cfg recent_recent recent_snoc recent_def [of _ _ "[]"])
      show ?thesis
        using RecordFailure_counting [OF q nb kept [symmetric] refl, of f reason] False rules'
          quiet_RecordFailure [OF q]
        by (simp add: cfg over_threshold_snoc split: if_splits)
    qed
  qed (use assms(2,3) in simp)
  then show ?thesis
    using assms(5) by (auto split: if_splits)
qed

text \<open>Escalation: an address banned and released \<open>n\<close> times before is banned as offence \<open>n + 1\<close>,
  for the corresponding duration of the configured ladder, and permanently once the ladder is
  exhausted; lost database reads and writes do not change this while the process lives.\<close>

theorem bans_escalate:
  assumes "\<not> acl_match server ip" "bans s0 ip = None" "offended ip 0 s0"
    and "s = fold (ban_cycle server ip src reason k) cycles s0"
  shows "\<exists>b. bans (banIP server f now ip src reason k s) ip = Some b
     \<and> bi_OffenseCount b = int (length cycles) + 1
     \<and> bi_ExpiresAt b = (if length cycles < length (Durations (se_cfg s0))
          then Some (now + Durations (se_cfg s0) ! length cycles) else None)"
proof -
  have s: "offended ip (int (length cycles)) s" "bans s ip = None" "se_cfg s = se_cfg s0"
    using offended_cycles [OF assms(1-3), of cycles src reason k] assms(4) by simp_all
  show ?thesis
    using banIP_cases [of server ip s f now src reason k] assms(1) s(2,3) offense_of_offended [OF s(1), of f]
    by (auto simp: ladder_def)
qed

text \<open>After a successful load of the endpoints no address on the gateway list is banned: whoever
  became a legitimate endpoint has been released.\<close>

theorem loaded_gateway_not_banned:
  assumes "loadEndpoints fail dns f now server (Some sentry) = (server', Some sentry', Inr ())"
    and "fsGatewayACL server' ip = Inr entry"
  shows "\<not> IsBanned later ip sentry'"
proof -
  have "sentry' = Reconcile (Some server') f now sentry"
    using assms(1) by (auto simp: loadEndpoints_def reconcileBans_def split: prod.splits sum.splits)
  then have "bans sentry' ip = None"
    using assms(2) by (simp add: bans_Reconcile acl_match_def)
  then show ?thesis
    by (simp add: IsBanned_def bans_def)
qed

text \<open>One run of the janitor leaves exactly the bans that have not expired and whose address is
  neither whitelisted nor on the gateway list, each as it was.\<close>

theorem janitor_exact:
  assumes "reach sentry_step s0 s" "keyed s0"
  shows "bans (janitorTick server f now s) ip =
    (case bans s ip of
       None \<Rightarrow> None
     | Some b \<Rightarrow> if ban_expired now b \<or> IsWhitelisted ip s \<or> acl_match server ip then None else Some b)"
  using bans_janitor [of s server f now ip] keyed.reach_holds [OF assms(1)] assms(2)
  by (auto split: option.split)

text \<open>An expired ban shields its address until the janitor runs: while the entry is in the cache,
  still marked active, the address counts as not banned, yet no number of further failures
  bans it again.\<close>

theorem expired_ban_not_renewed:
  assumes "bans s ip = Some b" "bi_Active b" "ban_expired t0 b" "\<forall>t \<in> set ts. t0 \<le> t"
    and "t0 \<le> now" "s' = fold (\<lambda>t. RecordFailure server f t reason ip) ts s"
  shows "bans s' ip = Some b \<and> \<not> IsBanned now ip s'"
proof -
  have "bans (fold (\<lambda>t. RecordFailure server f t reason ip) ts s) ip = Some b"
    using assms(1) by (induction ts arbitrary: s) (auto intro: RecordFailure_banned assms(2))
  moreover have "ban_expired now b"
    using assms(3,5) by (auto simp: ban_expired_def split: option.splits)
  ultimately show ?thesis
    using assms(6) by (simp add: IsBanned_def bans_def)
qed

text \<open>A timed manual ban that the firewall refuses is reported as an error but stays in the table:
  with a working database the row is active, so it is listed and applied at the next start, while
  the sentry does not regard the address as banned and \<open>UnbanIP\<close> refuses to lift it.\<close>

theorem refused_manual_ban_stays_active:
  assumes "BanManual no_faults now ip reason (Some d) s = (s', Some FirewallFailed)"
    and "se_hasDB s" "bans s ip = None"
  shows "(\<exists>r \<in> set (ListBans False False s'). bi_IP r = ip)
     \<and> \<not> IsBanned later ip s' \<and> UnbanIP no_faults later ip s' = (s', False)"
proof -
  define prev where "prev = read_row (no_faults ReadRow) ip s"
  define r where "r = (let m = manual_record now ip reason 1 (Some (now + d)) in case prev of None \<Rightarrow> m
    | Some p \<Rightarrow> m\<lparr>bi_OffenseCount := bi_OffenseCount p + 1, bi_FailCount := bi_FailCount p\<rparr>)"
  then have r: "bi_IP r = ip" "bi_Active r"
    by (simp_all add: manual_record_def Let_def split: option.split)
  have s': "s' = fst (backend_ban now ip (Some (now + d)) (fst (write_ban no_faults prev r s)))"
    using assms(1) unfolding BanManual_def Let_def prev_def [symmetric] r_def
    by (simp split: if_splits)
  have nb: "\<not> IsBanned later ip s'"
    using assms(3) by (simp add: s' IsBanned_def bans_def)
  have "\<exists>q \<in> set (se_rows (fst (write_ban no_faults prev r s))). bi_IP q = ip \<and> bi_Active q"
  proof (cases prev)
    case None
    then have "ip \<notin> bi_IP ` set (se_rows s)"
      using assms(2) by (auto simp: prev_def read_row_def no_faults_def find_None_iff)
    with None show ?thesis
      using r assms(2) by (simp add: write_ban_def no_faults_def Let_def)
  next
    case (Some p)
    then have "p \<in> set (se_rows s)"
      using assms(2) by (auto simp: prev_def read_row_def no_faults_def dest: find_in_set)
    then have "r\<lparr>bi_ID := bi_ID p\<rparr> \<in> set (se_rows (fst (write_ban no_faults prev r s)))"
      using Some assms(2) by (auto simp: write_ban_def no_faults_def Let_def)
    with r show ?thesis
      by (intro bexI [of _ "r\<lparr>bi_ID := bi_ID p\<rparr>"]) simp_all
  qed
  then have "\<exists>q \<in> set (ListBans False False s'). bi_IP q = ip"
    using assms(2) by (auto simp: ListBans_def Let_def s')
  with nb show ?thesis
    by (simp add: UnbanIP_def)
qed

section \<open>Sample values\<close>

definition sample_security :: SecurityConfig where
  "sample_security = \<lparr>sc_Enabled = True, sc_Backend = ''log-only'', sc_FailThreshold = 2, sc_FailWindow = [],
     sc_BanDurations = [], sc_WhitelistCIDRs = [], sc_JanitorSeconds = 0\<rparr>"

definition sample_ban :: BlockedIP where
  "sample_ban = \<lparr>bi_ID = 1, bi_IP = ''10.0.0.7'', bi_Reason = [], bi_Source = ''auto'', bi_FailCount = 2,
     bi_OffenseCount = 1, bi_BannedAt = 0, bi_ExpiresAt = Some 100, bi_Active = True,
     bi_UnbannedAt = None, bi_UnbanReason = []\<rparr>"

definition sample_sentry :: "unit IPSentry" where
  "sample_sentry = empty_sentry sample_security logOnlyBackend () True [] 1"

definition banned_sentry :: "unit IPSentry" where
  "banned_sentry = sample_sentry\<lparr>se_banned := [(''10.0.0.7'', sample_ban)], se_rows := [sample_ban]\<rparr>"

lemmas sample_sentries = sample_sentry_def banned_sentry_def sample_security_def sample_ban_def empty_sentry_def

lemma sample_address: "ParseIP ''10.0.0.7'' = Some 281470849515527"
  by code_simp

lemma sample_quiet: "quiet None ''10.0.0.7'' sample_sentry"
  by (simp add: quiet_def sample_address IsWhitelisted_def acl_match_def sample_sentries)

lemma whitelisted_never_banned_witness:
  "bans (RecordFailure None no_faults 1 [] ''10.0.0.7''
      (sample_sentry\<lparr>se_whitelistIPs := [281470849515527]\<rparr>)) ''10.0.0.7'' = None
   \<and> bans (fst (BanManual no_faults 1 ''10.0.0'' [] None sample_sentry)) ''10.0.0'' = None"
proof -
  let ?s = "sample_sentry\<lparr>se_whitelistIPs := [281470849515527]\<rparr>"
  have "reach sentry_step ?s (RecordFailure None no_faults 1 [] ''10.0.0.7'' ?s)"
    by (rule reach.reach_step [where R = sentry_step, OF reach.reach_start sy_failure])
  moreover have "IsWhitelisted ''10.0.0.7'' ?s" "bans ?s ''10.0.0.7'' = None"
    by (simp_all add: IsWhitelisted_def sample_address bans_def sample_sentries)
  moreover have "reach sentry_step sample_sentry (fst (BanManual no_faults 1 ''10.0.0'' [] None sample_sentry))"
    by (rule reach.reach_step [where R = sentry_step, OF reach.reach_start sy_ban])
  moreover have "ParseIP ''10.0.0'' = None"
    by code_simp
  moreover have "bans sample_sentry ''10.0.0'' = None"
    by (simp add: bans_def sample_sentries)
  ultimately show ?thesis
    using whitelisted_never_banned by blast
qed

lemma ban_iff_over_threshold_witness:
  "bans (fold (\<lambda>now. RecordFailure None no_faults now [] ''10.0.0.7'') [1, 2] sample_sentry) ''10.0.0.7'' \<noteq> None"
proof -
  have "over_threshold (se_cfg sample_sentry) [1, 2]"
    by code_simp
  then show ?thesis
    using ban_iff_over_threshold [OF _ sample_quiet _ _ refl, of "[1, 2]" no_faults "[]"]
    by (simp add: bans_def sample_sentries)
qed

lemma bans_escalate_witness:
  "\<exists>b. bans (banIP None no_faults 9 ''10.0.0.7'' ''auto'' [] 2
     (fold (ban_cycle None ''10.0.0.7'' ''auto'' [] 2) [(no_faults, 1, 2), (no_faults, 3, 4)] sample_sentry)) ''10.0.0.7''
     = Some b \<and> bi_OffenseCount b = 3"
proof -
  have "offended ''10.0.0.7'' 0 sample_sentry" "bans sample_sentry ''10.0.0.7'' = None"
    by (simp_all add: offended_def bans_def sample_sentries get_or_def)
  from bans_escalate [OF _ this(2,1) refl, of None no_faults 9 "''auto''" "[]" 2 "[(no_faults, 1, 2), (no_faults, 3, 4)]"]
  show ?thesis
    by (auto simp: acl_match_def)
qed

lemma loaded_gateway_not_banned_witness:
  "\<exists>server' sentry'. loadEndpoints False (\<lambda>_. None) no_faults 5 sample_server (Some banned_sentry)
       = (server', Some sentry', Inr ())
     \<and> IsBanned 5 ''10.0.0.7'' banned_sentry \<and> \<not> IsBanned 5 ''10.0.0.7'' sentry'"
proof -
  obtain server' sentry' where
    l: "loadEndpoints False (\<lambda>_. None) no_faults 5 sample_server (Some banned_sentry) = (server', Some sentry', Inr ())"
    and s': "server' = fst (load_endpoints False (\<lambda>_. None) sample_server)"
    by (simp add: loadEndpoints_def load_endpoints_def reconcileBans_def Let_def)
  have "fsGatewayACL server' ''10.0.0.7'' = Inr ''pbx:10.0.0.7''"
    unfolding s' by code_simp
  from loaded_gateway_not_banned [OF l this] l show ?thesis
    by (auto simp: IsBanned_def ban_expired_def sample_sentries)
qed

lemma banned_keyed: "keyed banned_sentry"
  by (simp add: keyed_def bans_def sample_sentries)

lemma janitor_exact_witness:
  "bans (janitorTick None no_faults 101 banned_sentry) ''10.0.0.7'' = None
   \<and> bans (janitorTick None no_faults 99 banned_sentry) ''10.0.0.7'' = Some sample_ban"
  using janitor_exact [OF reach.reach_start banned_keyed, of None no_faults _ "''10.0.0.7''"]
  by (simp add: bans_def ban_expired_def IsWhitelisted_def sample_address acl_match_def sample_sentries)

lemma expired_ban_not_renewed_witness:
  "\<not> IsBanned 104 ''10.0.0.7'' (fold (\<lambda>t. RecordFailure None no_faults t [] ''10.0.0.7'') [101, 102, 103] banned_sentry)"
  using expired_ban_not_renewed [of banned_sentry "''10.0.0.7''" sample_ban 101 "[101, 102, 103]" 104, OF _ _ _ _ _ refl]
  by (simp add: bans_def ban_expired_def sample_sentries)

lemma refused_manual_ban_stays_active_witness:
  "\<exists>s'. BanManual no_faults 1 ''10.0.0.7'' [] (Some Hour)
      (sample_sentry\<lparr>se_backend := ipsetBackend (\<lambda>c f. (f, False))\<rparr>) = (s', Some FirewallFailed)
    \<and> \<not> IsBanned 2 ''10.0.0.7'' s' \<and> UnbanIP no_faults 2 ''10.0.0.7'' s' = (s', False)"
proof -
  let ?s = "sample_sentry\<lparr>se_backend := ipsetBackend (\<lambda>c f. (f, False))\<rparr>"
  obtain s' where b: "BanManual no_faults 1 ''10.0.0.7'' [] (Some Hour) ?s = (s', Some FirewallFailed)"
    by (simp add: BanManual_def sample_address IsWhitelisted_def IsBanned_def sample_sentries Let_def
        read_row_def no_faults_def write_ban_def manual_record_def backend_ban_def ipsetBackend_def
        ipset_Ban_def ipset_Bootstrap_def)
  show ?thesis
    using refused_manual_ban_stays_active [OF b, of 2] b by (simp add: bans_def sample_sentries)
qed

end
