(* ===== verification/Fax_Router.thy ===== *)
theory Fax_Router
  imports Fax_Directory
begin

text \<open>
  The dialplan (\<open>dialplan.go\<close>) and the router (\<open>router.go\<close>): number transformations, the choice
  of endpoints for a fax, and the decision whether a call is bridged.

  A compiled regular expression is a pair of functions, matching and replacing; the expressions
  of the built-in rules are written out. The compiler for patterns from the configuration or
  the database is an argument.
\<close>

section \<open>Dialplan\<close>

record TransformationRule =
  tr_Match :: "string \<Rightarrow> bool"
  tr_Replace :: "string \<Rightarrow> string"
  tr_Pattern :: string
  tr_Replacement :: string

record DialplanRule =
  dr_ID :: nat
  dr_Position :: int
  dr_Pattern :: string
  dr_Replacement :: string
  dr_Enabled :: bool
  dr_Description :: string

type_synonym compiler = "string \<Rightarrow> string \<Rightarrow> TransformationRule option"

record DialplanTable =
  dt_rows :: "DialplanRule list"
  dt_nextID :: nat

definition compileDialplanRules :: "compiler \<Rightarrow> DialplanRule list \<Rightarrow> TransformationRule list" where
  "compileDialplanRules compileRule rows =
     List.map_filter (\<lambda>r. compileRule (dr_Pattern r) (dr_Replacement r)) rows"

text \<open>The expressions \<open>^1(\d{10}).*$\<close> and \<open>^(\d{10}).*$\<close> with the replacement \<open>$1\<close>; a dot does not match a
  line feed.\<close>

definition ten_digits :: "string \<Rightarrow> bool" where
  "ten_digits s \<longleftrightarrow> length (take 10 s) = 10 \<and> list_all is_digit (take 10 s) \<and> CHR 0x0A \<notin> set (drop 10 s)"

definition strip_country_rule :: TransformationRule where
  "strip_country_rule = \<lparr>tr_Match = (\<lambda>s. s \<noteq> [] \<and> hd s = CHR ''1'' \<and> ten_digits (tl s)),
     tr_Replace = (\<lambda>s. take 10 (tl s)),
     tr_Pattern = ''^1('' @ [CHR 0x5C] @ ''d{10}).*$'', tr_Replacement = ''$1''\<rparr>"

definition truncate_rule :: TransformationRule where
  "truncate_rule = \<lparr>tr_Match = ten_digits, tr_Replace = take 10,
     tr_Pattern = ''^('' @ [CHR 0x5C] @ ''d{10}).*$'', tr_Replacement = ''$1''\<rparr>"

definition DefaultTransformationRules :: "TransformationRule list" where
  "DefaultTransformationRules = [strip_country_rule, truncate_rule]"

definition NormalizeNumber :: "string \<Rightarrow> string" where
  "NormalizeNumber number = filter is_digit number"

definition apply_transformation :: "TransformationRule \<Rightarrow> string \<Rightarrow> string" where
  "apply_transformation rule s = (if tr_Match rule s then tr_Replace rule s else s)"

definition ApplyTransformationRules :: "TransformationRule list \<Rightarrow> string \<Rightarrow> string" where
  "ApplyTransformationRules rules number = fold apply_transformation rules number"

text \<open>\<open>Server.Dialplan\<close>: the active rules, the built-in ones before any are stored.\<close>

definition Dialplan :: "TransformationRule list option \<Rightarrow> TransformationRule list" where
  "Dialplan active = (case active of None \<Rightarrow> DefaultTransformationRules | Some rules \<Rightarrow> rules)"

fun seed_rows ::
    "compiler \<Rightarrow> nat \<Rightarrow> nat \<Rightarrow> (string \<times> string) list \<Rightarrow> DialplanRule list" where
  "seed_rows compileRule i n [] = []"
| "seed_rows compileRule i n ((pattern, replacement) # seeds) =
    (case compileRule pattern replacement of
       None \<Rightarrow> seed_rows compileRule (Suc i) n seeds
     | Some _ \<Rightarrow>
         \<lparr>dr_ID = n, dr_Position = int i, dr_Pattern = pattern, dr_Replacement = replacement,
          dr_Enabled = True, dr_Description = ''seeded from configuration/defaults''\<rparr>
         # seed_rows compileRule (Suc i) (Suc n) seeds)"

text \<open>\<open>seedDialplanRules\<close>: \<open>None\<close> is an error of the database; \<open>config\<close> are the rules of the
  configuration file.\<close>

definition seedDialplanRules ::
    "compiler \<Rightarrow> bool \<Rightarrow> bool \<Rightarrow> (string \<times> string) list \<Rightarrow> DialplanTable \<Rightarrow> DialplanTable option" where
  "seedDialplanRules compileRule failCount failCreate config t =
    (if failCount then None
     else if dt_rows t \<noteq> [] then Some t
     else
       let seeds = (if config \<noteq> [] then config
                    else map (\<lambda>r. (tr_Pattern r, tr_Replacement r)) DefaultTransformationRules);
           rows = seed_rows compileRule 0 (dt_nextID t) seeds
       in if rows = [] then Some t
          else if failCreate then None
          else Some (t\<lparr>dt_rows := rows, dt_nextID := dt_nextID t + length rows\<rparr>))"

definition loadDialplanFromDB ::
    "compiler \<Rightarrow> bool \<Rightarrow> bool \<Rightarrow> bool \<Rightarrow> (string \<times> string) list \<Rightarrow> DialplanTable \<Rightarrow>
     DialplanTable \<times> TransformationRule list option" where
  "loadDialplanFromDB compileRule failCount failCreate failFind config t =
    (case seedDialplanRules compileRule failCount failCreate config t of
       None \<Rightarrow> (t, None)
     | Some t1 \<Rightarrow>
         if failFind then (t1, None)
         else (t1, Some (compileDialplanRules compileRule
                 (stable_sort (\<lambda>a b. dr_Position a < dr_Position b) (filter dr_Enabled (dt_rows t1))))))"

definition reloadDialplan ::
    "bool \<Rightarrow> compiler \<Rightarrow> bool \<Rightarrow> bool \<Rightarrow> bool \<Rightarrow> (string \<times> string) list \<Rightarrow>
     DialplanTable \<times> TransformationRule list option \<Rightarrow>
     (DialplanTable \<times> TransformationRule list option) \<times> bool" where
  "reloadDialplan sourceIsDB compileRule failCount failCreate failFind config s =
    (if \<not> sourceIsDB then (s, True)
     else case loadDialplanFromDB compileRule failCount failCreate failFind config (fst s) of
       (t, None) \<Rightarrow> ((t, snd s), False)
     | (t, Some rules) \<Rightarrow> ((t, Some rules), True))"

section \<open>Routing\<close>

datatype route_outcome = Enqueued FaxJob | Dropped FaxJob

definition upstream_endpoint :: "string \<Rightarrow> Endpoint" where
  "upstream_endpoint up = \<lparr>ep_ID = 0, ep_Type = ''global'', ep_TypeID = 0, ep_EndpointType = ''gateway'',
     ep_Endpoint = up, ep_Priority = 999, ep_Bridge = False\<rparr>"

text \<open>The head of \<open>routeFax\<close>: transformed numbers, tenants and caller identity.\<close>

definition identify :: "TransformationRule list \<Rightarrow> Server \<Rightarrow> time \<Rightarrow> FaxJob \<Rightarrow> FaxJob" where
  "identify rules s now fax =
    (let srcNum = ApplyTransformationRules rules (fj_CallerIdNumber fax);
         dstNum = ApplyTransformationRules rules (fj_CalleeNumber fax);
         f1 = fax\<lparr>fj_CalleeNumber := dstNum, fj_CallerIdNumber := srcNum, fj_Ts := now\<rparr>;
         f2 = (case getTenantByNumber s srcNum of
                 Inl _ \<Rightarrow> f1
               | Inr t \<Rightarrow>
                   let g = f1\<lparr>fj_SrcTenantID := te_ID t\<rparr>;
                       g = (case getNumber s srcNum of
                              Inr cid \<Rightarrow> g\<lparr>fj_CallerIdName := tn_Name cid, fj_Header := tn_Header cid\<rparr>
                            | Inl _ \<Rightarrow> g\<lparr>fj_Header := fj_CallerIdName g\<rparr>)
                   in g\<lparr>fj_Identifier := fj_CallerIdNumber g\<rparr>)
     in case getTenantByNumber s dstNum of
          Inl _ \<Rightarrow> f2 | Inr t \<Rightarrow> f2\<lparr>fj_DstTenantID := te_ID t\<rparr>)"

text \<open>\<open>routeFax\<close>: the snapshot that is stored as a progress tick, and where the job goes.\<close>

definition routeFax ::
    "TransformationRule list \<Rightarrow> Server \<Rightarrow> time \<Rightarrow> FaxJob \<Rightarrow> FaxJob \<times> route_outcome" where
  "routeFax rules s now fax0 =
    (let fax = identify rules s now fax0;
         dstNum = fj_CalleeNumber fax;
         upstreams = sv_UpstreamFsGateways s;
         found = getEndpointsForNumber s dstNum;
         early = fj_SourceInfo fax;
         outcome =
           (case (if si_SourceType early = ''gateway'' \<and> si_Source early \<in> set upstreams
                  then found else Inl NoGatewayMatch) of
              Inr eps \<Rightarrow> Enqueued (fax\<lparr>fj_Endpoints := eps\<rparr>)
            | Inl _ \<Rightarrow>
                (case found of
                   Inr (ep # eps) \<Rightarrow> Enqueued (fax\<lparr>fj_Endpoints := ep # eps\<rparr>)
                 | _ \<Rightarrow>
                     if upstreams = [] then
                       (if fj_NotifyOnly fax then Enqueued (fax\<lparr>fj_Endpoints := []\<rparr>) else Dropped fax)
                     else Enqueued (fax\<lparr>fj_Endpoints := map upstream_endpoint upstreams\<rparr>)))
     in (fax, outcome))"

section \<open>Bridging\<close>

definition checkForBridge :: "Server \<Rightarrow> string \<Rightarrow> dir_error + string" where
  "checkForBridge s numberToCheck =
    (case getEndpointsForNumber s numberToCheck of
       Inl e \<Rightarrow> Inl e
     | Inr epList \<Rightarrow>
         (case List.find (\<lambda>ep. ep_Bridge ep \<and> ep_EndpointType ep = ''gateway'') epList of
            Some ep \<Rightarrow> Inr (gw_name ep) | None \<Rightarrow> Inl NoBridgeEndpoint))"

text \<open>The gateway to bridge to, \<open>None\<close> for normal routing. The source number is not used.\<close>

definition detectAndRouteToBridge :: "Server \<Rightarrow> string \<Rightarrow> string \<Rightarrow> string \<Rightarrow> string option" where
  "detectAndRouteToBridge s dstNumber srcNumber srcGateway =
    (if srcGateway \<in> set (sv_UpstreamFsGateways s) then
       (case checkForBridge s dstNumber of Inl _ \<Rightarrow> None | Inr gw \<Rightarrow> Some gw)
     else case getEndpointByName s srcGateway of
       Inl _ \<Rightarrow> None
     | Inr ep \<Rightarrow>
         if \<not> ep_Bridge ep then None
         else case checkForBridge s dstNumber of
           Inr gw \<Rightarrow> Some gw
         | Inl _ \<Rightarrow> Some ''upstream'')"

section \<open>Lemmas\<close>

lemma getEndpointsForNumber_nonempty: "getEndpointsForNumber s n = Inr eps \<Longrightarrow> eps \<noteq> []"
  by (auto simp: getEndpointsForNumber_def Let_def split: option.splits if_splits)

lemma getEndpointsForNumber_deliverable:
  "getEndpointsForNumber s n = Inr eps \<Longrightarrow> ep \<in> set eps \<Longrightarrow> ep_Priority ep \<noteq> 666"
  by (auto simp: getEndpointsForNumber_def Let_def filterValid_def split: option.splits if_splits)

lemma ten_digits_take: "ten_digits s \<Longrightarrow> list_all is_digit (take 10 s) \<and> length (take 10 s) = 10"
  by (simp add: ten_digits_def)

lemma routeFax_tick: "fst (routeFax rules s now fax) = identify rules s now fax"
  by (simp add: routeFax_def Let_def)

section \<open>Properties\<close>

text \<open>The built-in rules are idempotent on ten-digit numbers and bring every North American
  number to ten digits: a string of ten digits, or of eleven starting with 1, followed by
  anything but a line feed, becomes its ten-digit number; ten digits not starting with 1 are left alone.\<close>

theorem default_rules_normalize:
  assumes "list_all is_digit d" "length d = 10" "CHR 0x0A \<notin> set rest" "hd d \<noteq> CHR ''1''"
  shows "ApplyTransformationRules DefaultTransformationRules (CHR ''1'' # d @ rest) = d
    \<and> ApplyTransformationRules DefaultTransformationRules (d @ rest) = d"
proof -
  have "ten_digits (d @ rest)" "d \<noteq> []" "ten_digits d"
    using assms by (auto simp: ten_digits_def)
  moreover have "hd (d @ rest) \<noteq> CHR ''1''"
    using assms \<open>d \<noteq> []\<close> by simp
  ultimately show ?thesis
    using assms by (simp add: ApplyTransformationRules_def DefaultTransformationRules_def
        apply_transformation_def strip_country_rule_def truncate_rule_def)
qed

text \<open>C23: A routed fax goes to the deliverable endpoints of its (transformed) destination when there
  are any, else to all upstream gateways as one batch of priority 999; it is dropped exactly when
  there is neither and the job still has something to deliver.\<close>

theorem route_fax_outcome:
  assumes "routeFax rules s now fax = (tick, outcome)"
  shows "case getEndpointsForNumber s (ApplyTransformationRules rules (fj_CalleeNumber fax)) of
      Inr eps \<Rightarrow> outcome = Enqueued (tick\<lparr>fj_Endpoints := eps\<rparr>) \<and> eps \<noteq> []
        \<and> (\<forall>ep \<in> set eps. ep_Priority ep \<noteq> 666)
    | Inl _ \<Rightarrow>
        if sv_UpstreamFsGateways s \<noteq> []
        then outcome = Enqueued (tick\<lparr>fj_Endpoints := map upstream_endpoint (sv_UpstreamFsGateways s)\<rparr>)
        else outcome = (if fj_NotifyOnly fax then Enqueued (tick\<lparr>fj_Endpoints := []\<rparr>) else Dropped tick)"
proof -
  have id: "fj_CalleeNumber (identify rules s now fax) = ApplyTransformationRules rules (fj_CalleeNumber fax)"
    "fj_NotifyOnly (identify rules s now fax) = fj_NotifyOnly fax"
    by (auto simp: identify_def Let_def split: sum.split)
  show ?thesis
  proof (cases "getEndpointsForNumber s (ApplyTransformationRules rules (fj_CalleeNumber fax))")
    case (Inl e)
    then show ?thesis
      using assms by (auto simp: routeFax_def Let_def id)
  next
    case (Inr eps)
    then obtain ep eps' where "eps = ep # eps'"
      using getEndpointsForNumber_nonempty by (cases eps) auto
    then show ?thesis
      using Inr assms getEndpointsForNumber_deliverable [OF Inr]
      by (auto simp: routeFax_def Let_def id)
  qed
qed

text \<open>A call is bridged only where someone enabled it: to the gateway of a deliverable,
  bridge-enabled gateway endpoint of the destination, or, for a call that did not arrive from an
  upstream gateway, to the upstreams when the endpoint it arrived from has bridging enabled. A
  call from an upstream gateway is never bridged back to the upstreams.\<close>

theorem bridge_only_where_enabled:
  assumes "detectAndRouteToBridge s dst src gw = Some target"
  shows "(\<exists>eps. getEndpointsForNumber s dst = Inr eps \<and>
        (\<exists>ep \<in> set eps. ep_Bridge ep \<and> ep_EndpointType ep = ''gateway'' \<and> ep_Priority ep \<noteq> 666
           \<and> target = gw_name ep))
    \<or> gw \<notin> set (sv_UpstreamFsGateways s) \<and> target = ''upstream''
        \<and> (\<exists>ep. getEndpointByName s gw = Inr ep \<and> ep_Bridge ep)"
proof -
  have found: "\<exists>eps. getEndpointsForNumber s dst = Inr eps \<and>
        (\<exists>ep \<in> set eps. ep_Bridge ep \<and> ep_EndpointType ep = ''gateway'' \<and> ep_Priority ep \<noteq> 666
           \<and> g = gw_name ep)" if c: "checkForBridge s dst = Inr g" for g
  proof -
    obtain eps where e: "getEndpointsForNumber s dst = Inr eps"
      using c by (cases "getEndpointsForNumber s dst") (auto simp: checkForBridge_def)
    with c obtain ep where f: "g = gw_name ep \<and>
      List.find (\<lambda>ep. ep_Bridge ep \<and> ep_EndpointType ep = ''gateway'') eps = Some ep"
      by (cases "List.find (\<lambda>ep. ep_Bridge ep \<and> ep_EndpointType ep = ''gateway'') eps")
        (auto simp: checkForBridge_def)
    then have "ep \<in> set eps \<and> ep_Bridge ep \<and> ep_EndpointType ep = ''gateway''"
      unfolding find_Some_iff by auto
    then show ?thesis
      using e f getEndpointsForNumber_deliverable [OF e] by blast
  qed
  show ?thesis
    using assms found
    by (auto simp: detectAndRouteToBridge_def split: if_splits sum.splits)
qed

section \<open>Sample values\<close>

lemma default_rules_normalize_witness:
  "ApplyTransformationRules DefaultTransformationRules ''12505551234;ext=5'' = ''2505551234''"
  using default_rules_normalize [of "''2505551234''" "'';ext=5''"] by (simp add: is_digit_def)

lemma route_fax_outcome_witness:
  "snd (routeFax [] sample_server 5 (zero_FaxJob\<lparr>fj_CalleeNumber := ''100''\<rparr>)) \<noteq>
     Dropped (fst (routeFax [] sample_server 5 (zero_FaxJob\<lparr>fj_CalleeNumber := ''100''\<rparr>)))"
proof -
  have "getEndpointsForNumber sample_server ''100'' = Inr [sample_gateway]"
    by (simp add: getEndpointsForNumber_def sample_directory get_or_def filterValid_def)
  then show ?thesis
    using route_fax_outcome [OF surjective_pairing, where rules = "[]" and s = sample_server and now = 5
        and fax = "zero_FaxJob\<lparr>fj_CalleeNumber := ''100''\<rparr>"]
    by (simp add: ApplyTransformationRules_def)
qed

lemma bridge_only_where_enabled_witness:
  "detectAndRouteToBridge (sample_server\<lparr>sv_UpstreamFsGateways := [''carrier'']\<rparr>) ''100'' ''200'' ''carrier'' = Some ''pbx''
   \<and> (\<exists>eps. getEndpointsForNumber (sample_server\<lparr>sv_UpstreamFsGateways := [''carrier'']\<rparr>) ''100'' = Inr eps)"
proof -
  have d: "detectAndRouteToBridge (sample_server\<lparr>sv_UpstreamFsGateways := [''carrier'']\<rparr>) ''100'' ''200'' ''carrier'' = Some ''pbx''"
    by code_simp
  from bridge_only_where_enabled [OF this] d show ?thesis
    by auto
qed

end
