(* ===== verification/Fax_Outbound.thy ===== *)
theory Fax_Outbound
  imports Fax_Learning Fax_Directory
begin

text \<open>
  Sending one fax through the telephony switch (\<open>freeswitch_outbound.go\<close>): the checks before the
  call, the T.38 decision, the channel variables and dial string, and the event loop that turns
  the switch's events into the outcome of the attempt and feeds it into the fax policy.

  \<open>SendFax\<close> and the event client it starts are two goroutines joined by unbuffered channels; each
  message is handled before the client reads its next event, so one loop models both. The result
  the client sends is a pointer to the result it keeps updating, so once it has been sent
  (\<open>cs_shown\<close>) \<open>SendFax\<close> sees the current one; before, it has an empty result of its own. What
  the switch, the file system and the operating system do is the argument \<open>call_env\<close>.
\<close>

section \<open>Data\<close>

datatype SendResult = SendRetry | SendFailed | SendDone | SendReformat | SendV34fail | SendV17fail
  | SendBatchfail | SendNobatch

text \<open>The number of a \<open>SendResult\<close> (\<open>iota\<close>).\<close>

fun SendResult_int :: "SendResult \<Rightarrow> nat" where
  "SendResult_int SendRetry = 0"
| "SendResult_int SendFailed = 1"
| "SendResult_int SendDone = 2"
| "SendResult_int SendReformat = 3"
| "SendResult_int SendV34fail = 4"
| "SendResult_int SendV17fail = 5"
| "SendResult_int SendBatchfail = 6"
| "SendResult_int SendNobatch = 7"

fun SendResult_String :: "SendResult \<Rightarrow> string" where
  "SendResult_String SendRetry = ''SendRetry''"
| "SendResult_String SendFailed = ''SendFailed''"
| "SendResult_String SendDone = ''SendDone''"
| "SendResult_String SendReformat = ''SendReformat''"
| "SendResult_String SendV34fail = ''SendV34fail''"
| "SendResult_String SendV17fail = ''SendV17fail''"
| "SendResult_String SendBatchfail = ''SendBatchfail''"
| "SendResult_String SendNobatch = ''SendNobatch''"

datatype stream_item = StreamEvent event | StreamError string | StreamSignal string

text \<open>What happens around one call: an error (\<open>Some\<close>) or success of each step before the call,
  the items the event loop receives with the time each is handled, and the clock at the start,
  at the T.38 decision and at the end.\<close>

record call_env =
  ce_stat :: "string option"
  ce_dial :: "string option"
  ce_filter :: "string option"
  ce_subscribe :: "string option"
  ce_originate :: "string option"
  ce_items :: "(time \<times> stream_item) list"
  ce_start :: time
  ce_decide :: time
  ce_end :: time

text \<open>The part of the server an outbound call reads and changes.\<close>

record call_state =
  cs_job :: FaxJob
  cs_result :: FaxResult
  cs_shown :: bool
  cs_status :: string
  cs_pages :: nat
  cs_policies :: policy_state
  cs_pairs :: pair_state

text \<open>How the event client ends: with the final result, with an error and its retry flag, by a
  panic, or not yet.\<close>

datatype client_end = Final call_state | Failed call_state string bool | Panicked call_state
  | StillOpen call_state

datatype send_outcome = Sent FaxJob SendResult bool policy_state pair_state | SendPanic | SendBlocked

section \<open>Before the call\<close>

definition atoi_or_0 :: "string \<Rightarrow> int" where
  "atoi_or_0 s = (case atoi s of None \<Rightarrow> 0 | Some n \<Rightarrow> n)"

text \<open>The counters and fallbacks at the head of \<open>SendFax\<close>.\<close>

definition start_attempt :: "FaxingConfig \<Rightarrow> FaxJob \<Rightarrow> FaxJob" where
  "start_attempt cfg job =
    (let v17retry = atoi_or_0 (cf_DisableV17AfterRetry cfg);
         j1 = (if v17retry > 0 \<and> fj_TotTries job \<ge> v17retry \<and> \<not> fj_DisableV17 job
               then job\<lparr>fj_DisableV17 := True\<rparr> else job);
         ecmretry = atoi_or_0 (cf_DisableECMAfterRetry cfg);
         j2 = (if ecmretry > 0 \<and> fj_TotTries j1 \<ge> ecmretry \<and> fj_UseECM j1
               then j1\<lparr>fj_UseECM := False\<rparr> else j1)
     in j2\<lparr>fj_TotDials := fj_TotDials j2 + 1\<rparr>)"

text \<open>The checks of \<open>start\<close> up to the subscription: the error and its retry flag.\<close>

definition preflight :: "call_env \<Rightarrow> FaxJob \<Rightarrow> (string \<times> bool) option" where
  "preflight env job =
    (if fj_CalleeNumber job = [] then Some (''Number to dial is empty'', False)
     else if fj_Endpoints job = [] then Some (''Gateway not set'', False)
     else case ce_stat env of Some e \<Rightarrow> Some (e, False)
     | None \<Rightarrow> (case ce_dial env of Some e \<Rightarrow> Some (e, True)
     | None \<Rightarrow> (case ce_filter env of Some e \<Rightarrow> Some (e, True)
     | None \<Rightarrow> (case ce_subscribe env of Some e \<Rightarrow> Some (e, True)
     | None \<Rightarrow> None))))"

definition isUpstreamCall :: "string list \<Rightarrow> Endpoint list \<Rightarrow> bool" where
  "isUpstreamCall upstreams eps \<longleftrightarrow>
     list_ex (\<lambda>ep. list_ex (\<lambda>up. equal_fold (gw_name ep) up) upstreams) eps"

record t38_decision =
  td_enable :: bool
  td_request :: bool
  td_fallback :: bool
  td_upstream :: bool

text \<open>The T.38 decision: the policy, the retry chain, the upstream constraint, flip-flop probing.\<close>

definition decideT38 ::
    "FaxingConfig \<Rightarrow> string list \<Rightarrow> FaxPolicy \<Rightarrow> pair_state \<Rightarrow> time \<Rightarrow> FaxJob \<Rightarrow> t38_decision" where
  "decideT38 cfg upstreams policy pairs now job =
    (let off = fj_ForceT38Off job \<and> fp_EnableT38 policy;
         enable = fp_EnableT38 policy \<and> \<not> off;
         request = fp_RequestT38 policy \<and> \<not> off;
         upstream = isUpstreamCall upstreams (fj_Endpoints job);
         deny = (\<not> upstream \<or> \<not> fp_T38Decided policy \<and> \<not> fj_ForceT38Off job \<and>
                  \<not> ShouldAllowT38ForPair (cf_Policy cfg) (fj_CallerIdNumber job)
                      (fj_CalleeNumber job) CallTypeSoftmodem now pairs)
     in \<lparr>td_enable = (enable \<and> \<not> deny), td_request = (request \<and> \<not> deny),
         td_fallback = fp_T38ForcedOff policy, td_upstream = upstream\<rparr>)"

text \<open>The policy's effect on the job, and the record of the decision.\<close>

definition apply_policy :: "FaxPolicy \<Rightarrow> t38_decision \<Rightarrow> FaxJob \<Rightarrow> FaxJob" where
  "apply_policy policy d job =
    (let j1 = (case fp_UseECM policy of Some b \<Rightarrow> job\<lparr>fj_UseECM := b\<rparr> | None \<Rightarrow> job);
         j2 = (if fp_DisableV17 policy = Some True then j1\<lparr>fj_DisableV17 := True\<rparr> else j1)
     in j2\<lparr>fj_UsedT38 := td_enable d, fj_SoftmodemFallback := td_fallback d,
           fj_AppliedPolicyIDs := fp_AppliedRuleIDs policy\<rparr>)"

section \<open>Dial string\<close>

definition format_bool :: "bool \<Rightarrow> string" where
  "format_bool b = (if b then ''true'' else ''false'')"

definition rtpMediaVars :: "FaxingConfig \<Rightarrow> (string \<times> string) list \<Rightarrow> (string \<times> string) list" where
  "rtpMediaVars cfg overrides =
    (if \<not> RTPJitterBufferEnabled cfg then []
     else fold (\<lambda>name vars. case map_of overrides name of
                   Some v \<Rightarrow> AList.update name v vars | None \<Rightarrow> vars)
            [''jitterbuffer_msec'', ''rtp_jitter_buffer_during_bridge'']
            [(''jitterbuffer_msec'', RTPJitterBufferSpec cfg),
             (''rtp_jitter_buffer_during_bridge'', format_bool (RTPJitterBufferDuringBridgeEnabled cfg))])"

definition put_all :: "(string \<times> string) list \<Rightarrow> (string \<times> string) list \<Rightarrow> (string \<times> string) list" where
  "put_all new m = fold (\<lambda>(k, v). AList.update k v) new m"

text \<open>\<open>dsVariablesMap\<close>; \<open>uuid_string\<close> renders the UUID.\<close>

definition dial_variables ::
    "FaxingConfig \<Rightarrow> (uuid \<Rightarrow> string) \<Rightarrow> FaxPolicy \<Rightarrow> t38_decision \<Rightarrow> FaxJob \<Rightarrow> (string \<times> string) list" where
  "dial_variables cfg uuid_string policy d job =
     put_all (fp_VarOverrides policy) (put_all (rtpMediaVars cfg [])
      [(''ignore_early_media'', ''true''),
       (''origination_uuid'', uuid_string (fj_UUID job)),
       (''origination_caller_id_number'', fj_CallerIdNumber job),
       (''origination_caller_id_name'', fj_CallerIdName job),
       (''fax_ident'', fj_Identifier job),
       (''fax_header'', fj_Header job),
       (''fax_use_ecm'', format_bool (fj_UseECM job)),
       (''fax_disable_v17'', format_bool (fj_DisableV17 job)),
       (''fax_enable_t38'', format_bool (td_enable d)),
       (''fax_enable_t38_request'', format_bool (td_request d)),
       (''fax_enable_image_resizing'', format_bool (ImageResizingEnabled cfg)),
       (''fax_verbose'', format_bool (cf_Verbose cfg))])"

text \<open>The dial string; \<open>order\<close> is the order in which Go happens to range over the map.\<close>

definition dialstring ::
    "((string \<times> string) list \<Rightarrow> (string \<times> string) list) \<Rightarrow> (string \<times> string) list \<Rightarrow> FaxJob \<Rightarrow> string" where
  "dialstring order vars job =
     ''{'' @ join '','' (map (\<lambda>(k, v). k @ [CHR ''='', CHR 0x27] @ v @ [CHR 0x27]) (order vars)) @ ''}''
     @ endpointGatewayDialstringOutboundTagged (map gw_name (fj_Endpoints job)) (fj_CalleeNumber job)"

section \<open>The call\<close>

text \<open>What the client does when an event has ended the call: it teaches the policy engine and the
  flip-flop state.\<close>

definition learn_outcome ::
    "FaxPolicyConfig \<Rightarrow> policy_faults \<Rightarrow> pair_faults \<Rightarrow> time \<Rightarrow> t38_decision \<Rightarrow> call_state \<Rightarrow> call_state" where
  "learn_outcome pcfg faults pfaults now d cs =
    (let result = cs_result cs; dstNum = fj_CalleeNumber (cs_job cs);
         policies = (if fr_Success result then LearnFaxPolicySuccess pcfg faults now dstNum (cs_policies cs)
                     else if qualifiesForLearning (Some result)
                     then LearnFaxPolicyFailure pcfg faults now dstNum (Some result) (cs_policies cs)
                     else cs_policies cs);
         pairs = (if \<not> td_fallback d \<and> td_upstream d
                  then UpdateT38PairState pfaults (fj_CallerIdNumber (cs_job cs)) dstNum
                         CallTypeSoftmodem (td_enable d) now (cs_pairs cs)
                  else cs_pairs cs)
     in cs\<lparr>cs_policies := policies, cs_pairs := pairs\<rparr>)"

text \<open>An event is added to the result; the first gateway tag is recorded on the job.\<close>

definition absorb_event :: "time \<Rightarrow> event \<Rightarrow> call_state \<Rightarrow> call_state" where
  "absorb_event now ev cs =
    (let gw = ev_get ev ''Variable_gofax_gw'';
         job = (if fj_Gateway (cs_job cs) = [] \<and> gw \<noteq> [] then (cs_job cs)\<lparr>fj_Gateway := gw\<rparr> else cs_job cs)
     in cs\<lparr>cs_result := AddEvent now ev (cs_result cs), cs_job := job\<rparr>)"

text \<open>What \<open>SendFax\<close> does with a result it receives: intermediate, and final.\<close>

definition on_negotiation :: "call_state \<Rightarrow> call_state" where
  "on_negotiation cs =
    (let r = cs_result cs;
         status = ''Sending '' @ itoa (fr_TransferRate r) @ (if fr_Ecm r then ''/ECM'' else [])
     in cs\<lparr>cs_shown := True, cs_status := status,
           cs_job := (cs_job cs)\<lparr>fj_SignalRate := wrap64 (int (fr_TransferRate r)), fj_CSI := fr_RemoteID r,
              fj_TotTries := fj_TotTries (cs_job cs) + 1, fj_NDials := 0, fj_Status := status\<rparr>\<rparr>)"

definition on_final :: "call_state \<Rightarrow> call_state" where
  "on_final cs =
    (let r = cs_result cs
     in cs\<lparr>cs_shown := True, cs_status := fr_ResultText r,
           cs_job := (cs_job cs)\<lparr>fj_SignalRate := wrap64 (int (fr_TransferRate r)), fj_CSI := fr_RemoteID r,
              fj_Status := fr_ResultText r,
              fj_Result := (if fr_Success r then Some r else fj_Result (cs_job cs))\<rparr>\<rparr>)"

text \<open>A changed page count sends the page of that index; an index outside the slice panics.\<close>

definition report_page :: "call_state \<Rightarrow> call_state option" where
  "report_page cs =
    (let pages = fr_TransferredPages (cs_result cs); results = fr_PageResults (cs_result cs)
     in if pages = 0 \<or> length results < pages then None
        else Some (cs\<lparr>cs_pages := pages,
               cs_job := (cs_job cs)\<lparr>fj_NPages := wrap64 (int (pg_Page (results ! (pages - 1))))\<rparr>\<rparr>))"

fun event_loop ::
    "FaxPolicyConfig \<Rightarrow> policy_faults \<Rightarrow> pair_faults \<Rightarrow> t38_decision \<Rightarrow> (time \<times> stream_item) list \<Rightarrow>
     call_state \<Rightarrow> client_end" where
  "event_loop pcfg faults pfaults d [] cs = StillOpen cs"
| "event_loop pcfg faults pfaults d ((now, StreamError e) # items) cs = Failed cs e True"
| "event_loop pcfg faults pfaults d ((now, StreamSignal sig) # items) cs =
     Failed cs (''Killed by signal '' @ sig) False"
| "event_loop pcfg faults pfaults d ((now, StreamEvent ev) # items) cs0 =
     (let cs = absorb_event now ev cs0 in
      if fr_HangupCause (cs_result cs) \<noteq> [] then Final (learn_outcome pcfg faults pfaults now d cs)
      else if ev_get ev ''Event-Subclass'' = ''spandsp::txfaxnegociateresult''
      then event_loop pcfg faults pfaults d items (on_negotiation cs)
      else if fr_TransferredPages (cs_result cs) \<noteq> cs_pages cs
      then (case report_page cs of None \<Rightarrow> Panicked cs
            | Some cs' \<Rightarrow> event_loop pcfg faults pfaults d items cs')
      else event_loop pcfg faults pfaults d items cs)"

section \<open>SendFax\<close>

text \<open>The policy of the call, the T.38 decision and the job as the policy leaves it.\<close>

definition call_setup ::
    "FaxingConfig \<Rightarrow> string list \<Rightarrow> call_env \<Rightarrow> call_state \<Rightarrow> FaxPolicy \<times> t38_decision \<times> FaxJob" where
  "call_setup cfg upstreams env cs =
    (let job = cs_job cs;
         policy = ResolveFaxPolicy cfg (pl_cache (cs_policies cs)) (fj_CallerIdNumber job)
                    (fj_CalleeNumber job) CallTypeSoftmodem (ce_decide env);
         d = decideT38 cfg upstreams policy (cs_pairs cs) (ce_decide env) job
     in (policy, d, apply_policy policy d job))"

text \<open>The client up to the originate command and its event loop. The failure of originate is not
  retried for the configured hangup causes.\<close>

definition run_call ::
    "FaxingConfig \<Rightarrow> policy_faults \<Rightarrow> pair_faults \<Rightarrow> string list \<Rightarrow> call_env \<Rightarrow> call_state \<Rightarrow> client_end" where
  "run_call cfg faults pfaults upstreams env cs =
    (case preflight env (cs_job cs) of
       Some (e, retry) \<Rightarrow> Failed cs e retry
     | None \<Rightarrow> (case call_setup cfg upstreams env cs of (policy, d, job) \<Rightarrow>
         let cs1 = cs\<lparr>cs_job := job\<rparr>
         in case ce_originate env of
              Some e \<Rightarrow> Failed cs1 (trim_space e) (\<not> FailedHangUpCause cfg (trim_space e))
            | None \<Rightarrow> event_loop (cf_Policy cfg) faults pfaults d (ce_items env)
                        (cs1\<lparr>cs_result := NewFaxResult (fj_UUID job) False\<rparr>)))"

text \<open>After the loop: status, return code, times and the result on the job.\<close>

definition finish_send :: "call_env \<Rightarrow> call_state \<Rightarrow> SendResult \<Rightarrow> send_outcome" where
  "finish_send env cs returned =
    (let result = (if cs_shown cs then cs_result cs else empty_FaxResult);
         job = (cs_job cs)\<lparr>fj_Status := cs_status cs, fj_Returned := itoa (SendResult_int returned),
                 fj_Ts := ce_start env, fj_JobTime := time_sub (ce_end env) (ce_start env),
                 fj_Result := Some result\<rparr>
     in Sent job (if fr_Success result then SendDone else returned) (fr_Success result)
          (cs_policies cs) (cs_pairs cs))"

definition start_call :: "FaxingConfig \<Rightarrow> policy_state \<Rightarrow> pair_state \<Rightarrow> FaxJob \<Rightarrow> call_state" where
  "start_call cfg policies pairs job =
     \<lparr>cs_job = start_attempt cfg job, cs_result = empty_FaxResult, cs_shown = False, cs_status = [],
      cs_pages = 0, cs_policies = policies, cs_pairs = pairs\<rparr>"

definition SendFax ::
    "FaxingConfig \<Rightarrow> policy_faults \<Rightarrow> pair_faults \<Rightarrow> string list \<Rightarrow> call_env \<Rightarrow> policy_state \<Rightarrow> pair_state \<Rightarrow>
     FaxJob \<Rightarrow> send_outcome" where
  "SendFax cfg faults pfaults upstreams env policies pairs job =
    (case run_call cfg faults pfaults upstreams env (start_call cfg policies pairs job) of
       Final cs \<Rightarrow> finish_send env (on_final cs) SendRetry
     | Failed cs msg retry \<Rightarrow>
         finish_send env (cs\<lparr>cs_status := msg,
                             cs_job := (cs_job cs)\<lparr>fj_NDials := fj_NDials (cs_job cs) + 1\<rparr>\<rparr>)
           (if retry then SendRetry else SendFailed)
     | Panicked cs \<Rightarrow> SendPanic
     | StillOpen cs \<Rightarrow> SendBlocked)"

section \<open>Lemmas\<close>

subsection \<open>The event loop as steps\<close>

text \<open>What the loop does to the state between two items, for the items of one call.\<close>

inductive call_step :: "(time \<times> stream_item) set \<Rightarrow> call_state \<Rightarrow> call_state \<Rightarrow> bool" for I where
  st_absorb: "(now, StreamEvent ev) \<in> I \<Longrightarrow> call_step I cs (absorb_event now ev cs)"
| st_negotiation: "call_step I cs (on_negotiation cs)"
| st_page: "report_page cs = Some cs' \<Longrightarrow> call_step I cs cs'"

lemma reach_trans:
  assumes "reach R b c" "reach R a b"
  shows "reach R a c"
  using assms by (induction rule: reach.induct) (auto intro: reach.intros)

definition loop_end_ok ::
    "FaxPolicyConfig \<Rightarrow> policy_faults \<Rightarrow> pair_faults \<Rightarrow> t38_decision \<Rightarrow> (time \<times> stream_item) set \<Rightarrow>
     call_state \<Rightarrow> client_end \<Rightarrow> bool" where
  "loop_end_ok pcfg faults pfaults d I cs0 e =
    (case e of
       Final cs \<Rightarrow> \<exists>now item cs'. reach (call_step I) cs0 cs' \<and> fr_HangupCause (cs_result cs') \<noteq> []
          \<and> (now, item) \<in> I \<and> cs = learn_outcome pcfg faults pfaults now d cs'
     | Failed cs msg retry \<Rightarrow> reach (call_step I) cs0 cs \<and>
          (fr_HangupCause (cs_result cs0) = [] \<longrightarrow> fr_HangupCause (cs_result cs) = [])
     | _ \<Rightarrow> True)"

lemma loop_end_ok_first:
  "reach (call_step I) a b \<Longrightarrow> fr_HangupCause (cs_result b) = [] \<Longrightarrow>
   loop_end_ok pcfg faults pfaults d I b e \<Longrightarrow> loop_end_ok pcfg faults pfaults d I a e"
  unfolding loop_end_ok_def by (auto split: client_end.splits intro: reach_trans)

lemma call_result [simp]:
  "cs_result (absorb_event now ev cs) = AddEvent now ev (cs_result cs)"
  "cs_result (on_negotiation cs) = cs_result cs"
  "cs_job (learn_outcome pcfg faults pfaults now d cs) = cs_job cs"
  "cs_result (learn_outcome pcfg faults pfaults now d cs) = cs_result cs"
  by (simp_all add: absorb_event_def on_negotiation_def learn_outcome_def Let_def)

lemma report_page_result: "report_page cs = Some cs' \<Longrightarrow> cs_result cs' = cs_result cs"
  by (auto simp: report_page_def Let_def split: if_splits)

lemma event_loop_steps:
  "set items \<subseteq> I \<Longrightarrow> loop_end_ok pcfg faults pfaults d I cs (event_loop pcfg faults pfaults d items cs)"
proof (induction pcfg faults pfaults d items cs rule: event_loop.induct)
  case (4 pcfg faults pfaults d now ev items cs0)
  let ?cs = "absorb_event now ev cs0"
  have a: "reach (call_step I) cs0 ?cs"
    using 4(4) by (auto intro: reach.reach_step [where R = "call_step I"] reach.reach_start st_absorb)
  show ?case
  proof (cases "fr_HangupCause (cs_result ?cs) = []")
    case True
    note step = loop_end_ok_first [OF reach.reach_step [where R = "call_step I", OF a]]
    show ?thesis
    proof (cases "ev_get ev ''Event-Subclass'' = ''spandsp::txfaxnegociateresult''")
      case neg: True
      have "loop_end_ok pcfg faults pfaults d I (on_negotiation ?cs)
          (event_loop pcfg faults pfaults d items (on_negotiation ?cs))"
        using 4(1) [OF refl] True neg 4(4) by simp
      from step [OF st_negotiation _ this] show ?thesis
        using True neg by (simp add: Let_def)
    next
      case neg: False
      show ?thesis
      proof (cases "fr_TransferredPages (cs_result ?cs) = cs_pages ?cs")
        case same: True
        have "loop_end_ok pcfg faults pfaults d I ?cs (event_loop pcfg faults pfaults d items ?cs)"
          using 4(3) [OF refl] True neg same 4(4) by simp
        from loop_end_ok_first [OF a True this] show ?thesis
          using True neg same by (simp add: Let_def)
      next
        case new: False
        show ?thesis
        proof (cases "report_page ?cs")
          case None
          then show ?thesis
            using True neg new by (simp add: Let_def loop_end_ok_def)
        next
          case (Some cs')
          have "loop_end_ok pcfg faults pfaults d I cs' (event_loop pcfg faults pfaults d items cs')"
            using 4(2) [OF refl] True neg new Some 4(4) by simp
          from step [OF st_page [OF Some] _ this] show ?thesis
            using True neg new Some report_page_result [OF Some] by (simp add: Let_def)
        qed
      qed
    qed
  next
    case False
    then show ?thesis
      using a 4(4) by (fastforce simp: Let_def loop_end_ok_def)
  qed
qed (auto simp: loop_end_ok_def intro: reach.reach_start)

subsection \<open>What a call leaves alone\<close>

definition same_call :: "call_state \<Rightarrow> call_state \<Rightarrow> bool" where
  "same_call a b \<longleftrightarrow> fj_UUID (cs_job b) = fj_UUID (cs_job a)
     \<and> fj_CallUUID (cs_job b) = fj_CallUUID (cs_job a)
     \<and> fj_CalleeNumber (cs_job b) = fj_CalleeNumber (cs_job a)
     \<and> fj_CallerIdNumber (cs_job b) = fj_CallerIdNumber (cs_job a)
     \<and> fj_Endpoints (cs_job b) = fj_Endpoints (cs_job a)
     \<and> fj_TotDials (cs_job b) = fj_TotDials (cs_job a)
     \<and> fj_UsedT38 (cs_job b) = fj_UsedT38 (cs_job a)
     \<and> cs_policies b = cs_policies a"

lemma same_call_step: "call_step I a b \<Longrightarrow> same_call a b"
  by (erule call_step.cases)
    (auto simp: same_call_def absorb_event_def on_negotiation_def report_page_def Let_def split: if_splits)

interpretation in_call: step_invariant "call_step I" cs0 "same_call cs0" for I cs0
proof
  show "same_call cs0 t" if "same_call cs0 s" "call_step I s t" for s t
    using that(1) same_call_step [OF that(2)] by (simp add: same_call_def)
qed (simp add: same_call_def)

subsection \<open>Where a reported success comes from\<close>

definition says_success :: "event \<Rightarrow> bool" where
  "says_success ev \<longleftrightarrow> ev_get ev ''Fax-Success'' = ''1'' \<or> ev_get ev ''Variable_fax_success'' = ''1''"

lemma harvest_var_success:
  "fr_Success (harvest_var name v f) = (name = ''fax_success'' \<and> v = ''1'' \<or> fr_Success f)"
  by (simp add: harvest_var_def frame_Success)

lemma harvest_one_success:
  "fr_Success (harvest_one ev name f) \<Longrightarrow> fr_Success f \<or> ev_get ev ''Variable_fax_success'' = ''1''"
  by (auto simp: harvest_one_def Let_def harvest_var_success split: if_splits)

lemma harvest_success:
  "fr_Success (fold (harvest_one ev) names f) \<Longrightarrow> fr_Success f \<or> ev_get ev ''Variable_fax_success'' = ''1''"
  by (induction names arbitrary: f) (auto dest: harvest_one_success)

lemma AddEvent_success: "fr_Success (AddEvent now ev f) \<Longrightarrow> fr_Success f \<or> says_success ev"
  by (auto simp: AddEvent_def says_success_def AddEvent_result_fields AddEvent_negotiate_fields
      AddEvent_page_fields AddEvent_callstate_fields AddEvent_hangup_def Let_def on_if_def
      harvestResultVars_def split: if_splits dest: harvest_success)

interpretation success: step_invariant "call_step I" cs0
  "\<lambda>cs. fr_Success (cs_result cs) \<longrightarrow> fr_Success (cs_result cs0) \<or>
      (\<exists>now ev. (now, StreamEvent ev) \<in> I \<and> says_success ev)" for I cs0
proof
  fix s t
  assume "fr_Success (cs_result s) \<longrightarrow> fr_Success (cs_result cs0) \<or>
      (\<exists>now ev. (now, StreamEvent ev) \<in> I \<and> says_success ev)" "call_step I s t"
  from this(2,1) show "fr_Success (cs_result t) \<longrightarrow> fr_Success (cs_result cs0) \<or>
      (\<exists>now ev. (now, StreamEvent ev) \<in> I \<and> says_success ev)"
    by cases (auto dest: AddEvent_success report_page_result)
qed simp

subsection \<open>The call as a whole\<close>

definition call_policy :: "FaxingConfig \<Rightarrow> call_env \<Rightarrow> policy_state \<Rightarrow> FaxJob \<Rightarrow> FaxPolicy" where
  "call_policy cfg env policies job =
     ResolveFaxPolicy cfg (pl_cache policies) (fj_CallerIdNumber job) (fj_CalleeNumber job)
       CallTypeSoftmodem (ce_decide env)"

lemma start_attempt_job [simp]:
  "fj_UUID (start_attempt cfg job) = fj_UUID job"
  "fj_CallUUID (start_attempt cfg job) = fj_CallUUID job"
  "fj_CalleeNumber (start_attempt cfg job) = fj_CalleeNumber job"
  "fj_CallerIdNumber (start_attempt cfg job) = fj_CallerIdNumber job"
  "fj_Endpoints (start_attempt cfg job) = fj_Endpoints job"
  "fj_TotDials (start_attempt cfg job) = fj_TotDials job + 1"
  "fj_UsedT38 (start_attempt cfg job) = fj_UsedT38 job"
  "fj_ForceT38Off (start_attempt cfg job) = fj_ForceT38Off job"
  by (simp_all add: start_attempt_def Let_def)

lemma apply_policy_job [simp]:
  "fj_UUID (apply_policy policy d job) = fj_UUID job"
  "fj_CallUUID (apply_policy policy d job) = fj_CallUUID job"
  "fj_CalleeNumber (apply_policy policy d job) = fj_CalleeNumber job"
  "fj_CallerIdNumber (apply_policy policy d job) = fj_CallerIdNumber job"
  "fj_Endpoints (apply_policy policy d job) = fj_Endpoints job"
  "fj_TotDials (apply_policy policy d job) = fj_TotDials job"
  "fj_UsedT38 (apply_policy policy d job) = td_enable d"
  by (simp_all add: apply_policy_def Let_def split: option.split)

text \<open>\<open>during cfg upstreams env policies pairs job cs\<close>: what holds of the state of a call for
  \<open>job\<close> whenever it ends. The job asks for what it asked for, and T.38 is as decided or as before.\<close>

definition during ::
    "FaxingConfig \<Rightarrow> string list \<Rightarrow> call_env \<Rightarrow> policy_state \<Rightarrow> pair_state \<Rightarrow> FaxJob \<Rightarrow> call_state \<Rightarrow> bool" where
  "during cfg upstreams env policies pairs job cs \<longleftrightarrow>
     fj_UUID (cs_job cs) = fj_UUID job \<and> fj_CallUUID (cs_job cs) = fj_CallUUID job
     \<and> fj_CalleeNumber (cs_job cs) = fj_CalleeNumber job
     \<and> fj_CallerIdNumber (cs_job cs) = fj_CallerIdNumber job
     \<and> fj_Endpoints (cs_job cs) = fj_Endpoints job \<and> fj_TotDials (cs_job cs) = fj_TotDials job + 1
     \<and> (fj_UsedT38 (cs_job cs) = fj_UsedT38 job \<or> fj_UsedT38 (cs_job cs) =
          td_enable (decideT38 cfg upstreams (call_policy cfg env policies (start_attempt cfg job)) pairs
            (ce_decide env) (start_attempt cfg job)))"

text \<open>How a call can end.\<close>

lemma run_call_end:
  assumes "run_call cfg faults pfaults upstreams env (start_call cfg policies pairs job) = e"
  shows "(\<forall>cs. e = Final cs \<longrightarrow> during cfg upstreams env policies pairs job cs
      \<and> fr_HangupCause (cs_result cs) \<noteq> []
      \<and> (fr_Success (cs_result cs) \<longrightarrow> (\<exists>now ev. (now, StreamEvent ev) \<in> set (ce_items env) \<and> says_success ev))
      \<and> (\<exists>now item cs'. (now, item) \<in> set (ce_items env) \<and> cs_policies cs' = policies
           \<and> fj_CalleeNumber (cs_job cs') = fj_CalleeNumber job \<and> cs_result cs = cs_result cs'
           \<and> (\<exists>d. cs = learn_outcome (cf_Policy cfg) faults pfaults now d cs')))
    \<and> (\<forall>cs msg retry. e = Failed cs msg retry \<longrightarrow> during cfg upstreams env policies pairs job cs
      \<and> fr_HangupCause (cs_result cs) = []
      \<and> (fr_Success (cs_result cs) \<longrightarrow> (\<exists>now ev. (now, StreamEvent ev) \<in> set (ce_items env) \<and> says_success ev)))"
proof -
  define cs0 where "cs0 = start_call cfg policies pairs job"
  have fields: "cs_job cs0 = start_attempt cfg job" "cs_result cs0 = empty_FaxResult" "cs_policies cs0 = policies"
    "cs_pairs cs0 = pairs"
    by (simp_all add: cs0_def start_call_def)
  define policy where "policy = call_policy cfg env policies (start_attempt cfg job)"
  define d where "d = decideT38 cfg upstreams policy pairs (ce_decide env) (start_attempt cfg job)"
  define cs1 where "cs1 = cs0\<lparr>cs_job := apply_policy policy d (start_attempt cfg job)\<rparr>"
  define cs2 where "cs2 = cs1\<lparr>cs_result := NewFaxResult (fj_UUID job) False\<rparr>"
  have dur: "during cfg upstreams env policies pairs job cs0" "during cfg upstreams env policies pairs job cs1"
    by (simp_all add: during_def fields cs1_def policy_def d_def)
  have empty: "fr_HangupCause (cs_result cs0) = []" "\<not> fr_Success (cs_result cs0)"
    "cs_result cs1 = cs_result cs0" "fr_HangupCause (cs_result cs2) = []" "\<not> fr_Success (cs_result cs2)"
    by (simp_all add: fields cs1_def cs2_def NewFaxResult_def empty_FaxResult_def)
  show ?thesis
  proof (cases "preflight env (cs_job cs0)")
    case (Some a)
    then have "e = Failed cs0 (fst a) (snd a)"
      using assms by (simp add: run_call_def cs0_def [symmetric] split: prod.splits)
    then show ?thesis
      using dur empty by simp
  next
    case None
    show ?thesis
    proof (cases "ce_originate env")
      case (Some m)
      then have "e = Failed cs1 (trim_space m) (\<not> FailedHangUpCause cfg (trim_space m))"
        using assms None
        by (simp add: run_call_def call_setup_def cs0_def [symmetric] cs1_def d_def policy_def
            call_policy_def fields Let_def)
      then show ?thesis
        using dur empty by simp
    next
      case orig: None
      have e: "e = event_loop (cf_Policy cfg) faults pfaults d (ce_items env) cs2"
        using assms None orig
        by (simp add: run_call_def call_setup_def cs0_def [symmetric] cs2_def cs1_def d_def policy_def
            call_policy_def fields Let_def)
      have ok: "loop_end_ok (cf_Policy cfg) faults pfaults d (set (ce_items env)) cs2 e"
        unfolding e by (rule event_loop_steps) simp
      have inv: "during cfg upstreams env policies pairs job cs \<and> cs_policies cs = policies
          \<and> fj_CalleeNumber (cs_job cs) = fj_CalleeNumber job
          \<and> (fr_Success (cs_result cs) \<longrightarrow> (\<exists>now ev. (now, StreamEvent ev) \<in> set (ce_items env) \<and> says_success ev))"
        if r: "reach (call_step (set (ce_items env))) cs2 cs" for cs
        using in_call.reach_holds [OF r] success.reach_holds [OF r] dur(2) empty(5)
        by (simp add: same_call_def during_def cs2_def cs1_def fields)
      show ?thesis
      proof (intro conjI allI impI)
        fix cs
        assume "e = Final cs"
        then obtain now item cs' where r: "reach (call_step (set (ce_items env))) cs2 cs'"
          and h: "fr_HangupCause (cs_result cs') \<noteq> []" and i: "(now, item) \<in> set (ce_items env)"
          and c: "cs = learn_outcome (cf_Policy cfg) faults pfaults now d cs'"
          using ok by (auto simp: loop_end_ok_def)
        show "during cfg upstreams env policies pairs job cs"
          using inv [OF r] by (simp add: c during_def)
        show "fr_HangupCause (cs_result cs) \<noteq> []"
          using h by (simp add: c)
        show "\<exists>now ev. (now, StreamEvent ev) \<in> set (ce_items env) \<and> says_success ev"
          if "fr_Success (cs_result cs)"
          using inv [OF r] that by (simp add: c)
        show "\<exists>now item cs'. (now, item) \<in> set (ce_items env) \<and> cs_policies cs' = policies
           \<and> fj_CalleeNumber (cs_job cs') = fj_CalleeNumber job \<and> cs_result cs = cs_result cs'
           \<and> (\<exists>d. cs = learn_outcome (cf_Policy cfg) faults pfaults now d cs')"
          using inv [OF r] i c call_result(4) by blast
      next
        fix cs msg retry
        assume "e = Failed cs msg retry"
        then have r: "reach (call_step (set (ce_items env))) cs2 cs" and h: "fr_HangupCause (cs_result cs) = []"
          using ok empty(4) by (auto simp: loop_end_ok_def)
        show "during cfg upstreams env policies pairs job cs" "fr_HangupCause (cs_result cs) = []"
          using inv [OF r] h by simp_all
        show "\<exists>now ev. (now, StreamEvent ev) \<in> set (ce_items env) \<and> says_success ev"
          if "fr_Success (cs_result cs)"
          using inv [OF r] that by simp
      qed
    qed
  qed
qed

text \<open>Every attempt that returns: the state \<open>SendFax\<close> finishes with.\<close>

lemma SendFax_end:
  assumes "SendFax cfg faults pfaults upstreams env policies pairs job = Sent job' ret ok policies' pairs'"
  shows "\<exists>cs returned. finish_send env cs returned = Sent job' ret ok policies' pairs'
    \<and> returned \<in> {SendRetry, SendFailed} \<and> during cfg upstreams env policies pairs job cs
    \<and> (fr_Success (cs_result cs) \<longrightarrow> (\<exists>now ev. (now, StreamEvent ev) \<in> set (ce_items env) \<and> says_success ev))
    \<and> (fr_HangupCause (cs_result cs) \<noteq> [] \<longrightarrow>
        (\<exists>now item cs' d. (now, item) \<in> set (ce_items env) \<and> cs_policies cs' = policies
           \<and> fj_CalleeNumber (cs_job cs') = fj_CalleeNumber job \<and> cs_result cs = cs_result cs'
           \<and> cs_policies cs = cs_policies (learn_outcome (cf_Policy cfg) faults pfaults now d cs')))"
proof (cases "run_call cfg faults pfaults upstreams env (start_call cfg policies pairs job)")
  case (Final cs)
  then have "finish_send env (on_final cs) SendRetry = Sent job' ret ok policies' pairs'"
    using assms by (simp add: SendFax_def)
  then show ?thesis
    using run_call_end [OF Final] by (fastforce simp: during_def on_final_def Let_def)
next
  case (Failed cs msg retry)
  define cs' where "cs' = cs\<lparr>cs_status := msg, cs_job := (cs_job cs)\<lparr>fj_NDials := fj_NDials (cs_job cs) + 1\<rparr>\<rparr>"
  have "finish_send env cs' (if retry then SendRetry else SendFailed) = Sent job' ret ok policies' pairs'"
    using assms Failed by (simp add: SendFax_def cs'_def)
  moreover have "during cfg upstreams env policies pairs job cs'"
    "cs_result cs' = cs_result cs" "fr_HangupCause (cs_result cs) = []"
    using run_call_end [OF Failed] by (simp_all add: during_def cs'_def)
  moreover have "fr_Success (cs_result cs) \<longrightarrow>
      (\<exists>now ev. (now, StreamEvent ev) \<in> set (ce_items env) \<and> says_success ev)"
    using run_call_end [OF Failed] by simp
  moreover have "(if retry then SendRetry else SendFailed) \<in> {SendRetry, SendFailed}"
    by simp
  ultimately show ?thesis
    by metis
qed (use assms in \<open>simp_all add: SendFax_def\<close>)

lemma finish_send_Sent:
  "finish_send env cs returned = Sent job' ret ok policies' pairs' \<longleftrightarrow>
     job' = (cs_job cs)\<lparr>fj_Status := cs_status cs, fj_Returned := itoa (SendResult_int returned),
        fj_Ts := ce_start env, fj_JobTime := time_sub (ce_end env) (ce_start env),
        fj_Result := Some (if cs_shown cs then cs_result cs else empty_FaxResult)\<rparr>
     \<and> ok = (cs_shown cs \<and> fr_Success (cs_result cs)) \<and> ret = (if ok then SendDone else returned)
     \<and> policies' = cs_policies cs \<and> pairs' = cs_pairs cs"
  by (auto simp: finish_send_def Let_def empty_FaxResult_def)

lemma itoa_inject [simp]: "itoa m = itoa n \<longleftrightarrow> m = n"
  by (metis digits_val_itoa)

subsection \<open>The variables of a call\<close>

text \<open>The channel variables \<open>SendFax\<close> dials with; \<open>None\<close> when a check before the call fails.\<close>

definition dialled ::
    "FaxingConfig \<Rightarrow> (uuid \<Rightarrow> string) \<Rightarrow> string list \<Rightarrow> call_env \<Rightarrow> policy_state \<Rightarrow> pair_state \<Rightarrow> FaxJob \<Rightarrow>
     (string \<times> string) list option" where
  "dialled cfg uuid_string upstreams env policies pairs job =
    (let cs = start_call cfg policies pairs job
     in if preflight env (cs_job cs) \<noteq> None then None
        else case call_setup cfg upstreams env cs of (policy, d, j) \<Rightarrow>
          Some (dial_variables cfg uuid_string policy d j))"

lemma dialled_Some:
  "dialled cfg uuid_string upstreams env policies pairs job = Some vars \<longleftrightarrow>
     preflight env (start_attempt cfg job) = None
     \<and> (\<exists>policy d. policy = call_policy cfg env policies job
          \<and> d = decideT38 cfg upstreams policy pairs (ce_decide env) (start_attempt cfg job)
          \<and> vars = dial_variables cfg uuid_string policy d (apply_policy policy d (start_attempt cfg job)))"
  by (cases "preflight env (start_attempt cfg job)")
    (auto simp: dialled_def call_setup_def call_policy_def start_call_def Let_def)

lemma put_all_distinct: "distinct (map fst m) \<Longrightarrow> distinct (map fst (put_all new m))"
  unfolding put_all_def
  by (induction new arbitrary: m) (auto intro: distinct_update)

lemma put_all_other: "name \<notin> fst ` set new \<Longrightarrow> map_of (put_all new m) name = map_of m name"
  unfolding put_all_def by (induction new arbitrary: m) (auto simp: update_conv')

text \<open>Every variable is dialled once, and the T.38 variables say what was decided unless a rule
  overrides them.\<close>

lemma dial_variables_distinct: "distinct (map fst (dial_variables cfg uuid_string policy d job))"
  unfolding dial_variables_def by (intro put_all_distinct) simp

lemma dial_variables_t38:
  "map_of (fp_VarOverrides policy) ''fax_enable_t38'' = None \<Longrightarrow>
     map_of (dial_variables cfg uuid_string policy d job) ''fax_enable_t38'' = Some (format_bool (td_enable d))"
  "map_of (fp_VarOverrides policy) ''fax_enable_t38_request'' = None \<Longrightarrow>
     map_of (dial_variables cfg uuid_string policy d job) ''fax_enable_t38_request''
       = Some (format_bool (td_request d))"
proof -
  have r: "fst ` set (rtpMediaVars cfg []) \<subseteq> {''jitterbuffer_msec'', ''rtp_jitter_buffer_during_bridge''}"
    by (simp add: rtpMediaVars_def)
  have n: "''fax_enable_t38'' \<notin> fst ` set (rtpMediaVars cfg [])"
    "''fax_enable_t38_request'' \<notin> fst ` set (rtpMediaVars cfg [])"
    using r by auto
  show "map_of (dial_variables cfg uuid_string policy d job) ''fax_enable_t38'' = Some (format_bool (td_enable d))"
    if o: "map_of (fp_VarOverrides policy) ''fax_enable_t38'' = None"
    unfolding dial_variables_def put_all_other [OF o [unfolded map_of_eq_None_iff]] put_all_other [OF n(1)]
    by simp
  show "map_of (dial_variables cfg uuid_string policy d job) ''fax_enable_t38_request''
       = Some (format_bool (td_request d))"
    if o: "map_of (fp_VarOverrides policy) ''fax_enable_t38_request'' = None"
    unfolding dial_variables_def put_all_other [OF o [unfolded map_of_eq_None_iff]] put_all_other [OF n(2)]
    by simp
qed

lemma forced_off_disables:
  assumes "fp_T38ForcedOff (ResolveFaxPolicy cfg cache a b c t)"
  shows "\<not> fp_EnableT38 (ResolveFaxPolicy cfg cache a b c t) \<and> \<not> fp_RequestT38 (ResolveFaxPolicy cfg cache a b c t)"
proof -
  obtain rules where c: "cache = Some rules" and on: "PolicyEnabled (cf_Policy cfg)"
    using assms by (auto simp: ResolveFaxPolicy_def DefaultFaxPolicy_def Let_def split: option.splits if_splits)
  define p where "p = ResolveFaxPolicy cfg (Some rules) a b c t"
  have f: "fp_T38Decided p \<and> \<not> fp_EnableT38 p"
    using assms resolve_attrs(5) [OF on] c by (simp add: p_def)
  then have "t38_attr p = Some (False, fp_RequestT38 p)"
    by (simp add: t38_attr_def)
  then have "first_hit (t38_verdict cfg) (sort_key rule_key (call_rules rules a b c t))
      = Some (False, fp_RequestT38 p)"
    unfolding p_def resolve_attrs(1) [OF on] .
  from first_hit_wins [OF this] obtain r where "t38_verdict cfg r = Some (False, fp_RequestT38 p)"
    unfolding wins_def by blast
  then have "\<not> fp_RequestT38 p"
    by (simp add: t38_verdict_def split: if_splits)
  with f show ?thesis
    by (simp add: p_def c)
qed

text \<open>An overridden variable comes from a rule of the call.\<close>

definition overrides_variable ::
    "FaxingConfig \<Rightarrow> call_env \<Rightarrow> policy_state \<Rightarrow> FaxJob \<Rightarrow> string \<Rightarrow> bool" where
  "overrides_variable cfg env policies job name \<longleftrightarrow>
     (\<exists>rules r. pl_cache policies = Some rules
        \<and> r \<in> set (call_rules rules (fj_CallerIdNumber job) (fj_CalleeNumber job) CallTypeSoftmodem (ce_decide env))
        \<and> pr_Effect r = PolicyEffectVarOverride \<and> pr_VarName r = name)"

lemma override_rule:
  assumes "map_of (fp_VarOverrides (call_policy cfg env policies job)) name \<noteq> None"
  shows "overrides_variable cfg env policies job name"
proof -
  obtain rules where c: "pl_cache policies = Some rules" and on: "PolicyEnabled (cf_Policy cfg)"
    using assms by (auto simp: call_policy_def ResolveFaxPolicy_def DefaultFaxPolicy_def Let_def
        split: option.splits if_splits)
  let ?hits = "call_rules rules (fj_CallerIdNumber job) (fj_CalleeNumber job) CallTypeSoftmodem (ce_decide env)"
  have "\<not> (\<forall>r \<in> set ?hits. var_verdict name r = None)"
    using assms unfolding call_policy_def c resolve_attrs(4) [OF on] by (simp add: first_hit_None)
  with c show ?thesis
    by (auto simp: overrides_variable_def var_verdict_def split: if_splits)
qed

text \<open>A T.38 variable that does not say \<open>false\<close> was decided that way or overridden.\<close>

lemma dialled_t38:
  assumes "dialled cfg uuid_string upstreams env policies pairs job = Some vars"
    and "(name, v) \<in> set vars" "name \<in> {''fax_enable_t38'', ''fax_enable_t38_request''}" "v \<noteq> ''false''"
    and "policy = call_policy cfg env policies job"
    and "map_of (fp_VarOverrides policy) name = None"
  shows "isUpstreamCall upstreams (fj_Endpoints job) \<and> \<not> fp_T38ForcedOff policy
    \<and> (fj_ForceT38Off job \<longrightarrow> name = ''fax_enable_t38_request'' \<and> \<not> fp_EnableT38 policy)"
proof -
  define d where "d = decideT38 cfg upstreams policy pairs (ce_decide env) (start_attempt cfg job)"
  have vars: "vars = dial_variables cfg uuid_string policy d (apply_policy policy d (start_attempt cfg job))"
    using assms(1,5) by (simp add: dialled_Some d_def)
  have "map_of vars name = Some v"
    using assms(2) dial_variables_distinct unfolding vars by (simp add: map_of_is_SomeI)
  then have "if name = ''fax_enable_t38'' then td_enable d else td_request d"
    using assms(3,4,6) dial_variables_t38 [of policy cfg uuid_string d] unfolding vars
    by (auto simp: format_bool_def split: if_splits)
  then show ?thesis
    using forced_off_disables assms(3) unfolding assms(5) d_def call_policy_def
    by (auto simp: decideT38_def Let_def split: if_splits)
qed

lemma SendFax_answer:
  assumes "SendFax cfg faults pfaults upstreams env policies pairs job = Sent job' ret ok policies' pairs'"
  shows "(ok \<longleftrightarrow> ret = SendDone) \<and> ret \<in> {SendRetry, SendFailed, SendDone}
    \<and> (\<exists>r. fj_Result job' = Some r \<and> (fr_Success r \<longleftrightarrow> ok))
    \<and> fj_TotDials job' = fj_TotDials job + 1 \<and> fj_UUID job' = fj_UUID job \<and> fj_CallUUID job' = fj_CallUUID job
    \<and> fj_CalleeNumber job' = fj_CalleeNumber job \<and> fj_Endpoints job' = fj_Endpoints job"
proof -
  obtain cs returned where f: "finish_send env cs returned = Sent job' ret ok policies' pairs'"
    and r: "returned \<in> {SendRetry, SendFailed}" and d: "during cfg upstreams env policies pairs job cs"
    using SendFax_end [OF assms] by blast
  have "\<not> fr_Success empty_FaxResult"
    by (simp add: empty_FaxResult_def)
  then show ?thesis
    using f r d by (cases "cs_shown cs") (auto simp: finish_send_Sent during_def)
qed

text \<open>What an attempt that ends in a failure with T.38 or negotiation trouble teaches.\<close>

lemma SendFax_learns:
  assumes "SendFax cfg no_faults pfaults upstreams env policies pairs job = Sent job1 ret ok policies1 pairs1"
    and "fj_Result job1 = Some r" "fr_HangupCause r \<noteq> []" "qualifiesForLearning (Some r)"
  shows "\<exists>now item. (now, item) \<in> set (ce_items env)
    \<and> policies1 = LearnFaxPolicyFailure (cf_Policy cfg) no_faults now (fj_CalleeNumber job) (Some r) policies"
proof -
  obtain cs returned where f: "finish_send env cs returned = Sent job1 ret ok policies1 pairs1"
    and l: "fr_HangupCause (cs_result cs) \<noteq> [] \<longrightarrow>
        (\<exists>now item cs' d. (now, item) \<in> set (ce_items env) \<and> cs_policies cs' = policies
           \<and> fj_CalleeNumber (cs_job cs') = fj_CalleeNumber job \<and> cs_result cs = cs_result cs'
           \<and> cs_policies cs = cs_policies (learn_outcome (cf_Policy cfg) no_faults pfaults now d cs'))"
    using SendFax_end [OF assms(1)] by blast
  have r: "r = cs_result cs" "policies1 = cs_policies cs"
    using f assms(2,3) by (auto simp: finish_send_Sent empty_FaxResult_def split: if_splits)
  have "\<not> fr_Success r"
    using assms(4) by (simp add: qualifiesForLearning_def split: if_splits)
  then show ?thesis
    using l r assms(3,4) by (auto simp: learn_outcome_def Let_def)
qed

lemmas frame_transferred = on_int_frame [where p = fr_TransferredPages]
  on_res_frame [where p = fr_TransferredPages] on_if_frame [where p = fr_TransferredPages]

section \<open>Properties\<close>

text \<open>C2: The answer of an attempt is consistent: it reports success exactly when it answers
  \<open>SendDone\<close>, exactly when the stored result is a success; a failure answers retry or failed and
  stores an unsuccessful result. Each attempt counts one dial, and the job still asks for the
  same call.\<close>

theorem send_answer_consistent:
  assumes "SendFax cfg faults pfaults upstreams env policies pairs job = Sent job' ret ok policies' pairs'"
  shows "(ok \<longleftrightarrow> ret = SendDone) \<and> ret \<in> {SendRetry, SendFailed, SendDone}
    \<and> (\<exists>r. fj_Result job' = Some r \<and> (fr_Success r \<longleftrightarrow> ok))
    \<and> fj_TotDials job' = fj_TotDials job + 1 \<and> fj_UUID job' = fj_UUID job \<and> fj_CallUUID job' = fj_CallUUID job
    \<and> fj_CalleeNumber job' = fj_CalleeNumber job \<and> fj_Endpoints job' = fj_Endpoints job"
  using assms by (rule SendFax_answer)

text \<open>No fax is reported as sent unless the switch said so: some event of the call reported
  success.\<close>

theorem send_success_needs_evidence:
  assumes "SendFax cfg faults pfaults upstreams env policies pairs job = Sent job' SendDone ok policies' pairs'"
  shows "\<exists>now ev. (now, StreamEvent ev) \<in> set (ce_items env) \<and> says_success ev"
  using SendFax_end [OF assms] by (auto simp: finish_send_Sent split: if_splits)

text \<open>C3: Every call that is placed names each channel variable once, and \<open>fax_enable_t38\<close> or
  \<open>fax_enable_t38_request\<close> says anything but \<open>false\<close> only if a variable-override rule of the call
  sets it, or the call goes to an upstream gateway, no rule has forced T.38 off, and the retry chain
  has not either. The retry chain misses one case: it leaves the request on when T.38 itself was
  off already.\<close>

theorem t38_only_where_allowed:
  assumes "dialled cfg uuid_string upstreams env policies pairs job = Some vars"
    and "(name, v) \<in> set vars" "name \<in> {''fax_enable_t38'', ''fax_enable_t38_request''}" "v \<noteq> ''false''"
    and "policy = ResolveFaxPolicy cfg (pl_cache policies) (fj_CallerIdNumber job) (fj_CalleeNumber job)
           CallTypeSoftmodem (ce_decide env)"
  shows "distinct (map fst vars) \<and>
    (overrides_variable cfg env policies job name
     \<or> isUpstreamCall upstreams (fj_Endpoints job) \<and> \<not> fp_T38ForcedOff policy
       \<and> (fj_ForceT38Off job \<longrightarrow> name = ''fax_enable_t38_request'' \<and> \<not> fp_EnableT38 policy))"
  using dialled_t38 [OF assms(1-4) refl] override_rule [of cfg env policies job name] assms(1)
    dial_variables_distinct
  unfolding assms(5) call_policy_def dialled_Some by blast

text \<open>The case the retry chain misses: a job it has forced off T.38 still requests T.38 when the
  policy requests T.38 without enabling it.\<close>

theorem forced_off_job_requests_t38:
  assumes "dialled cfg uuid_string upstreams env policies pairs job = Some vars"
    and "fj_ForceT38Off job" "isUpstreamCall upstreams (fj_Endpoints job)"
    and "policy = call_policy cfg env policies job" "fp_RequestT38 policy" "\<not> fp_EnableT38 policy"
    and "map_of (fp_VarOverrides policy) ''fax_enable_t38_request'' = None"
  shows "map_of vars ''fax_enable_t38_request'' = Some ''true''"
  using assms dial_variables_t38(2) [OF assms(7)]
  by (auto simp: dialled_Some decideT38_def format_bool_def Let_def)

text \<open>C1: From a failed call to every later one: after a call to number \<open>n\<close> that hung up with a
  T.38 or negotiation problem, each call placed to or from \<open>n\<close> within the lifetime of the rule
  learned then is dialled with \<open>fax_enable_t38\<close> and \<open>fax_enable_t38_request\<close> false, whatever its
  job, endpoints and pair state and whatever was learned in between except a success of \<open>n\<close>
  itself, database faults included. It takes a table without rules that permit T.38 or override its
  variables, a failure count that reaches the threshold, and a database that works at the end of
  the failed call.\<close>

theorem failed_call_disables_t38:
  assumes "SendFax cfg no_faults pfaults upstreams env policies pairs job = Sent job1 ret ok policies1 pairs1"
    and "fj_Result job1 = Some r" "fr_HangupCause r \<noteq> []" "qualifiesForLearning (Some r)"
    and "ids_ok policies" "PolicyEnabled (cf_Policy cfg)" "LearningEnabled (cf_Policy cfg)"
    and "fj_CalleeNumber job = n" "n \<noteq> []" "T38Threshold (cf_Policy cfg) \<le> failures_now policies n"
    and "\<forall>q \<in> set (pl_rules policies). \<not> permits_t38 q"
    and "\<forall>(t, item) \<in> set (ce_items env). ce_decide env2 \<le> t + autoRuleTTL (cf_Policy cfg)"
    and "reach (later_learning (cf_Policy cfg) n (ce_decide env2)) policies1 policies2"
    and "dialled cfg uuid_string upstreams2 env2 policies2 pairs2 job2 = Some vars"
    and "n \<in> {fj_CallerIdNumber job2, fj_CalleeNumber job2}"
  shows "distinct (map fst vars) \<and> map_of vars ''fax_enable_t38'' = Some ''false''
    \<and> map_of vars ''fax_enable_t38_request'' = Some ''false''"
proof -
  obtain now item where i: "(now, item) \<in> set (ce_items env)"
    and p: "policies1 = LearnFaxPolicyFailure (cf_Policy cfg) no_faults now n (Some r) policies"
    using SendFax_learns [OF assms(1-4)] assms(8) by blast
  have "holds_bar n (ce_decide env2) policies1"
    unfolding p using failure_bars [OF assms(5-7,9-11), of "ce_decide env2" now] assms(12) i by blast
  then have "holds_bar n (ce_decide env2) policies2"
    using later.reach_holds [OF assms(13)] by blast
  note barred = barred_policy [OF this assms(6,15), of CallTypeSoftmodem, folded call_policy_def]
  define policy where "policy = call_policy cfg env2 policies2 job2"
  define d where "d = decideT38 cfg upstreams2 policy pairs2 (ce_decide env2) (start_attempt cfg job2)"
  have vars: "vars = dial_variables cfg uuid_string policy d (apply_policy policy d (start_attempt cfg job2))"
    using assms(14) by (simp add: dialled_Some policy_def d_def)
  have "\<not> td_enable d" "\<not> td_request d"
    using barred by (simp_all add: d_def policy_def decideT38_def Let_def)
  moreover have none: "map_of (fp_VarOverrides policy) ''fax_enable_t38'' = None"
    "map_of (fp_VarOverrides policy) ''fax_enable_t38_request'' = None"
    using barred by (simp_all add: policy_def t38_variables_def)
  ultimately show ?thesis
    unfolding vars dial_variables_t38(1) [OF none(1)] dial_variables_t38(2) [OF none(2)]
    using dial_variables_distinct by (simp add: format_bool_def)
qed

text \<open>The code returned with the job is written before the outcome is known: a sent fax never
  carries the number of \<open>SendDone\<close> in its \<open>Returned\<close> field, but that of retry or failed.\<close>

theorem sent_fax_records_retry:
  assumes "SendFax cfg faults pfaults upstreams env policies pairs job = Sent job' SendDone ok policies' pairs'"
  shows "fj_Returned job' \<noteq> itoa (SendResult_int SendDone)
    \<and> fj_Returned job' \<in> {itoa (SendResult_int SendRetry), itoa (SendResult_int SendFailed)}"
proof -
  obtain cs returned where "finish_send env cs returned = Sent job' SendDone ok policies' pairs'"
    and "returned \<in> {SendRetry, SendFailed}"
    using SendFax_end [OF assms] by blast
  then show ?thesis
    by (auto simp: finish_send_Sent)
qed

text \<open>A result event that counts pages for which no page event has arrived crashes the
  process: the event client indexes the empty list of page results.\<close>

theorem uncounted_pages_panic:
  assumes "preflight env (start_attempt cfg job) = None" "ce_originate env = None"
    and "ce_items env = (t, StreamEvent ev) # items"
    and "ev_get ev ''Event-Name'' = ''CUSTOM''" "ev_get ev ''Event-Subclass'' = ''spandsp::txfaxresult''"
    and "ev_get ev ''Fax-Document-Transferred-Pages'' = itoa n" "0 < n" "n < 2 ^ 63"
  shows "SendFax cfg faults pfaults upstreams env policies pairs job = SendPanic"
proof -
  have r: "AddEvent t ev f = AddEvent_result ev f" for f
    using assms(4,5) by (simp add: AddEvent_def is_negotiate_def is_page_def is_result_def)
  have t: "fr_TransferredPages (AddEvent_result ev f) = n" for f
    using assms(6-8)
    by (simp add: AddEvent_result_def Let_def frame_transferred on_int_def [of "itoa n"] atoi_itoa)
  show ?thesis
    using assms
    by (simp add: SendFax_def run_call_def call_setup_def start_call_def Let_def absorb_event_def r t AddEvent_result_fields
        report_page_def NewFaxResult_def empty_FaxResult_def)
qed

section \<open>Sample values\<close>

text \<open>A call the far end confirms, and one that ends with T.38 refused.\<close>

definition ok_env :: call_env where
  "ok_env = \<lparr>ce_stat = None, ce_dial = None, ce_filter = None, ce_subscribe = None, ce_originate = None,
     ce_items =
      [(10, StreamEvent [(''Event-Name'', ''CUSTOM''), (''Event-Subclass'', ''spandsp::txfaxresult''),
          (''Fax-Success'', ''1''), (''Fax-Result-Text'', ''OK'')]),
       (11, StreamEvent [(''Event-Name'', ''CHANNEL_CALLSTATE''), (''Channel-Call-State'', ''HANGUP''),
          (''Hangup-Cause'', ''NORMAL_CLEARING'')])],
     ce_start = 8, ce_decide = 9, ce_end = 12\<rparr>"

definition refused_env :: call_env where
  "refused_env = ok_env\<lparr>ce_items :=
      [(10, StreamEvent [(''Event-Name'', ''CHANNEL_HANGUP''), (''Variable_fax_t38_status'', ''refused'')]),
       (11, StreamEvent [(''Event-Name'', ''CHANNEL_CALLSTATE''), (''Channel-Call-State'', ''HANGUP''),
          (''Hangup-Cause'', ''NORMAL_CLEARING'')])]\<rparr>"

definition sample_job :: FaxJob where
  "sample_job = zero_FaxJob\<lparr>fj_CalleeNumber := ''300'', fj_CallerIdNumber := ''200'',
     fj_Endpoints := [zero_Endpoint\<lparr>ep_Endpoint := ''carrier''\<rparr>]\<rparr>"

definition empty_pairs :: pair_state where
  "empty_pairs = \<lparr>pl_pairStates = [], pl_pairRows = [], pl_pairNextID = 1\<rparr>"

definition sample_send :: "call_env \<Rightarrow> policy_state \<Rightarrow> pair_state \<Rightarrow> send_outcome" where
  "sample_send env policies pairs =
     SendFax sample_cfg no_faults no_faults [''carrier''] env policies pairs sample_job"

lemma sample_sent:
  "\<exists>j p q. sample_send ok_env sample_table empty_pairs = Sent j SendDone True p q \<and> fj_UsedT38 j"
proof -
  have "case sample_send ok_env sample_table empty_pairs of
      Sent j r ok p q \<Rightarrow> r = SendDone \<and> ok \<and> fj_UsedT38 j | _ \<Rightarrow> False"
    by code_simp
  then show ?thesis
    by (simp split: send_outcome.splits)
qed

lemma sample_refused:
  "\<exists>j p q f. sample_send refused_env sample_table empty_pairs = Sent j SendRetry False p q
     \<and> fj_UsedT38 j \<and> fj_Result j = Some f \<and> fr_HangupCause f \<noteq> [] \<and> qualifiesForLearning (Some f)"
proof -
  have "case sample_send refused_env sample_table empty_pairs of
      Sent j r ok p q \<Rightarrow> r = SendRetry \<and> \<not> ok \<and> fj_UsedT38 j \<and>
        (case fj_Result j of Some f \<Rightarrow> fr_HangupCause f \<noteq> [] \<and> qualifiesForLearning (Some f) | None \<Rightarrow> False)
    | _ \<Rightarrow> False"
    by code_simp
  then show ?thesis
    by (auto split: send_outcome.splits option.splits)
qed

definition sample_dial :: "call_env \<Rightarrow> policy_state \<Rightarrow> pair_state \<Rightarrow> (string \<times> string) list option" where
  "sample_dial env policies pairs =
     dialled sample_cfg (\<lambda>u. ''u'') [''carrier''] env policies pairs sample_job"

lemma sample_dialled:
  "\<exists>vars. sample_dial ok_env sample_table empty_pairs = Some vars \<and> (''fax_enable_t38'', ''true'') \<in> set vars"
proof -
  have "case sample_dial ok_env sample_table empty_pairs of
      None \<Rightarrow> False | Some vars \<Rightarrow> list_ex (\<lambda>x. x = (''fax_enable_t38'', ''true'')) vars"
    by code_simp
  then show ?thesis
    by (auto simp: list_ex_iff split: option.splits)
qed

lemma send_answer_consistent_witness:
  "\<exists>j p q r. sample_send ok_env sample_table empty_pairs = Sent j SendDone True p q
     \<and> fj_Result j = Some r \<and> fr_Success r \<and> fj_TotDials j = fj_TotDials sample_job + 1"
proof -
  obtain j p q where s: "sample_send ok_env sample_table empty_pairs = Sent j SendDone True p q"
    using sample_sent by blast
  with send_answer_consistent [OF s [unfolded sample_send_def]] show ?thesis
    by auto
qed

lemma send_success_needs_evidence_witness:
  "\<exists>now ev. (now, StreamEvent ev) \<in> set (ce_items ok_env) \<and> says_success ev"
proof -
  obtain j p q where s: "sample_send ok_env sample_table empty_pairs = Sent j SendDone True p q"
    using sample_sent by blast
  from send_success_needs_evidence [OF s [unfolded sample_send_def]] show ?thesis .
qed

lemma t38_only_where_allowed_witness:
  "\<exists>vars. sample_dial ok_env sample_table empty_pairs = Some vars
     \<and> (''fax_enable_t38'', ''true'') \<in> set vars \<and> distinct (map fst vars)
     \<and> isUpstreamCall [''carrier''] (fj_Endpoints sample_job)"
proof -
  obtain vars where s: "sample_dial ok_env sample_table empty_pairs = Some vars"
    and u: "(''fax_enable_t38'', ''true'') \<in> set vars"
    using sample_dialled by blast
  have "\<not> overrides_variable sample_cfg ok_env sample_table sample_job ''fax_enable_t38''"
    by (simp add: overrides_variable_def sample_table_def)
  with t38_only_where_allowed [OF s [unfolded sample_dial_def] u _ _ refl] s u show ?thesis
    by auto
qed

lemma forced_off_job_requests_t38_witness:
  "case dialled (sample_cfg\<lparr>cf_EnableT38 := False\<rparr>) (\<lambda>u. ''u'') [''carrier''] ok_env sample_table
      empty_pairs (sample_job\<lparr>fj_ForceT38Off := True\<rparr>) of
     None \<Rightarrow> False | Some vars \<Rightarrow> map_of vars ''fax_enable_t38_request'' = Some ''true''"
  by code_simp

text \<open>The refused call, a success of another number, and then the same call again.\<close>

lemma failed_call_disables_t38_witness:
  "\<exists>j p q p2 vars. sample_send refused_env sample_table empty_pairs = Sent j SendRetry False p q
     \<and> fj_UsedT38 j
     \<and> p2 = LearnFaxPolicySuccess (cf_Policy sample_cfg) no_faults 9 ''100'' p
     \<and> sample_dial ok_env p2 q = Some vars \<and> map_of vars ''fax_enable_t38'' = Some ''false''"
proof -
  obtain j p q f where s: "sample_send refused_env sample_table empty_pairs = Sent j SendRetry False p q"
      "fj_UsedT38 j" "fj_Result j = Some f" "fr_HangupCause f \<noteq> []" "qualifiesForLearning (Some f)"
    using sample_refused by blast
  define p2 where "p2 = LearnFaxPolicySuccess (cf_Policy sample_cfg) no_faults 9 ''100'' p"
  have d: "ce_decide ok_env = 9"
    by (simp add: ok_env_def)
  have "later_learning (cf_Policy sample_cfg) ''300'' (ce_decide ok_env) p p2"
    unfolding p2_def d by (rule ll_success) simp_all
  then have r: "reach (later_learning (cf_Policy sample_cfg) ''300'' (ce_decide ok_env)) p p2"
    by (rule reach.reach_step [OF reach.reach_start])
  obtain vars where v: "sample_dial ok_env p2 q = Some vars"
    by (simp add: sample_dial_def dialled_Some preflight_def ok_env_def sample_job_def zero_FaxJob_def)
  have "map_of vars ''fax_enable_t38'' = Some ''false''"
  proof (rule failed_call_disables_t38 [OF s(1)[unfolded sample_send_def] s(3-5) sample_table_ok sample_learning
          _ _ _ _ _ r v [unfolded sample_dial_def], THEN conjunct2, THEN conjunct1])
    show "T38Threshold (cf_Policy sample_cfg) \<le> failures_now sample_table ''300''"
      by (simp add: failures_now_def sample_table_def sample_rule_def auto_rule_for_def is_auto_def
          sample_thresholds sample_policy)
    show "\<forall>q \<in> set (pl_rules sample_table). \<not> permits_t38 q"
      by (simp add: sample_table_def sample_rule_def permits_t38_def policy_consts)
    show "\<forall>(t, item) \<in> set (ce_items refused_env). ce_decide ok_env \<le> t + autoRuleTTL (cf_Policy sample_cfg)"
      using autoRuleTTL_pos [of "cf_Policy sample_cfg"]
      by (simp add: refused_env_def ok_env_def del: autoRuleTTL_pos)
  qed (simp_all add: sample_job_def zero_FaxJob_def)
  with s v show ?thesis
    unfolding p2_def by blast
qed

lemma sent_fax_records_retry_witness:
  "\<exists>j p q. sample_send ok_env sample_table empty_pairs = Sent j SendDone True p q
     \<and> fj_Returned j \<noteq> itoa (SendResult_int SendDone)"
proof -
  obtain j p q where s: "sample_send ok_env sample_table empty_pairs = Sent j SendDone True p q"
    using sample_sent by blast
  with sent_fax_records_retry [OF s [unfolded sample_send_def]] show ?thesis
    by blast
qed

lemma uncounted_pages_panic_witness:
  "sample_send (ok_env\<lparr>ce_items :=
      [(10, StreamEvent [(''Event-Name'', ''CUSTOM''), (''Event-Subclass'', ''spandsp::txfaxresult''),
          (''Fax-Document-Transferred-Pages'', ''3'')])]\<rparr>) sample_table empty_pairs = SendPanic"
  unfolding sample_send_def
proof (rule uncounted_pages_panic [where n = 3])
  show "preflight (ok_env\<lparr>ce_items :=
      [(10, StreamEvent [(''Event-Name'', ''CUSTOM''), (''Event-Subclass'', ''spandsp::txfaxresult''),
          (''Fax-Document-Transferred-Pages'', ''3'')])]\<rparr>) (start_attempt sample_cfg sample_job) = None"
    by (simp add: preflight_def ok_env_def sample_job_def)
  show "ev_get [(''Event-Name'', ''CUSTOM''), (''Event-Subclass'', ''spandsp::txfaxresult''),
          (''Fax-Document-Transferred-Pages'', ''3'')] ''Fax-Document-Transferred-Pages'' = itoa 3"
    by code_simp
qed (simp_all add: ok_env_def ev_get_def)

end
