(* ===== verification/Fax_Notify.thy ===== *)
theory Fax_Notify
  imports Fax_Directory
begin

text \<open>
  Notifications at the end of a job (\<open>notify.go\<close>): the language of notify strings, the choice of
  destinations, the collapsed outcome that is reported, the e-mail and the rows of the report,
  and the dispatch with the leg it stores for every destination.

  Drawing the PDF, SMTP, HTTP, JSON and base64 are libraries: they are arguments, each answering
  with an error or not. A range over the result map is a pass over the association list.
\<close>

section \<open>Notify strings\<close>

record NotifyDestination =
  nd_Type :: string
  nd_Destination :: string

definition re_space :: "char \<Rightarrow> bool" where
  "re_space c \<longleftrightarrow> c \<in> {CHR 0x09, CHR 0x0A, CHR 0x0C, CHR 0x0D, CHR 0x20}"

definition re_name :: "char \<Rightarrow> bool" where
  "re_name c \<longleftrightarrow> (let n = of_char c :: nat in
     65 \<le> n \<and> n \<le> 90 \<or> 97 \<le> n \<and> n \<le> 122 \<or> n = 95)"

text \<open>The expression \<open>^\s*[a-zA-Z_]+\s*->\<close>; its classes are disjoint, so greedy matching decides it.\<close>

definition notifySegmentStart :: "string \<Rightarrow> bool" where
  "notifySegmentStart s =
    (let s1 = dropWhile re_space s; s2 = dropWhile re_name s1
     in takeWhile re_name s1 \<noteq> [] \<and> has_prefix (dropWhile re_space s2) ''->'')"

text \<open>The scan of \<open>splitNotifySegments\<close>; \<open>cur\<close> is the part from \<open>start\<close> to the position.\<close>

fun split_segments :: "string \<Rightarrow> string \<Rightarrow> string list" where
  "split_segments cur [] = [cur]"
| "split_segments cur (c # s) =
    (if c = CHR '','' \<and> notifySegmentStart s then cur # split_segments [] s
     else split_segments (cur @ [c]) s)"

definition splitNotifySegments :: "string \<Rightarrow> string list" where
  "splitNotifySegments notify = split_segments [] notify"

text \<open>\<open>strings.SplitN(segment, "->", 2)\<close>: the two parts, \<open>None\<close> without a separator.\<close>

fun cut_arrow :: "string \<Rightarrow> (string \<times> string) option" where
  "cut_arrow [] = None"
| "cut_arrow (c # s) =
    (if has_prefix (c # s) ''->'' then Some ([], drop 2 (c # s))
     else map_option (\<lambda>(a, b). (c # a, b)) (cut_arrow s))"

text \<open>One segment: nothing, a malformed segment, or a destination.\<close>

datatype segment = Blank | Malformed string | Parsed NotifyDestination

definition parse_segment :: "string \<Rightarrow> segment" where
  "parse_segment raw =
    (let seg = trim_space raw in
     if seg = [] then Blank
     else case cut_arrow seg of
       None \<Rightarrow> Malformed seg
     | Some (a, b) \<Rightarrow>
         let destType = trim_space a; destValue = trim_space b in
         if destType = [] \<or> destValue = [] then Malformed seg
         else Parsed \<lparr>nd_Type = (if destType = ''email'' then ''email_report'' else destType),
                     nd_Destination = destValue\<rparr>)"

definition parseNotifyString :: "string \<Rightarrow> NotifyDestination list \<times> string list" where
  "parseNotifyString notify =
    (let segs = map parse_segment (splitNotifySegments notify)
     in (List.map_filter (\<lambda>s. case s of Parsed d \<Rightarrow> Some d | _ \<Rightarrow> None) segs,
         List.map_filter (\<lambda>s. case s of Malformed m \<Rightarrow> Some m | _ \<Rightarrow> None) segs))"

text \<open>\<open>strings.FieldsFunc\<close> on the two separators of an address list.\<close>

fun fields_on :: "(char \<Rightarrow> bool) \<Rightarrow> string \<Rightarrow> string \<Rightarrow> string list" where
  "fields_on sep cur [] = (if cur = [] then [] else [cur])"
| "fields_on sep cur (c # s) =
    (if sep c then (if cur = [] then fields_on sep [] s else cur # fields_on sep [] s)
     else fields_on sep (cur @ [c]) s)"

definition address_sep :: "char \<Rightarrow> bool" where
  "address_sep c \<longleftrightarrow> c = CHR '';'' \<or> c = CHR '',''"

definition splitEmailRecipients :: "string \<Rightarrow> string list" where
  "splitEmailRecipients dest =
     filter (\<lambda>r. r \<noteq> []) (map trim_space (fields_on address_sep [] dest))"

section \<open>Destinations of a job\<close>

definition notify_of :: "string \<Rightarrow> NotifyDestination list" where
  "notify_of s = (if s = [] then [] else fst (parseNotifyString s))"

text \<open>One side of the job: the number's destinations, then the tenant's.\<close>

definition resolveSide :: "Server \<Rightarrow> nat \<Rightarrow> string \<Rightarrow> NotifyDestination list" where
  "resolveSide s tenantID number =
     (case getNumber s number of Inl _ \<Rightarrow> [] | Inr tn \<Rightarrow> notify_of (tn_Notify tn))
     @ (case map_of (sv_Tenants s) tenantID of None \<Rightarrow> [] | Some t \<Rightarrow> notify_of (te_Notify t))"

definition dest_key :: "NotifyDestination \<Rightarrow> string" where
  "dest_key d = nd_Type d @ ''->'' @ nd_Destination d"

fun dedup :: "string list \<Rightarrow> NotifyDestination list \<Rightarrow> NotifyDestination list" where
  "dedup seen [] = []"
| "dedup seen (d # ds) =
    (if dest_key d \<in> set seen then dedup seen ds else d # dedup (dest_key d # seen) ds)"

definition fullRecipients :: "NotifyDestination list \<Rightarrow> string list" where
  "fullRecipients ds = concat (map (\<lambda>d. map to_lower (splitEmailRecipients (nd_Destination d)))
     (filter (\<lambda>d. nd_Type d = ''email_full'') ds))"

text \<open>A report-only destination loses the recipients that get the full e-mail.\<close>

definition strip_covered :: "string list \<Rightarrow> NotifyDestination \<Rightarrow> NotifyDestination option" where
  "strip_covered full d =
    (if nd_Type d \<noteq> ''email_report'' \<and> nd_Type d \<noteq> ''email'' then Some d
     else
       let kept = filter (\<lambda>r. to_lower r \<notin> set full) (splitEmailRecipients (nd_Destination d))
       in if kept = [] then None else Some (d\<lparr>nd_Destination := join '';'' kept\<rparr>))"

definition processNotifyDestinations :: "Server \<Rightarrow> FaxJob \<Rightarrow> NotifyDestination list" where
  "processNotifyDestinations s f =
    (let ds = resolveSide s (fj_SrcTenantID f) (fj_CallerIdNumber f)
              @ resolveSide s (fj_DstTenantID f) (fj_CalleeNumber f);
         deduped = dedup [] ds;
         full = fullRecipients deduped;
         final = (if full = [] then deduped else List.map_filter (strip_covered full) deduped)
     in if fj_IsBridge f then [] else final)"

section \<open>The collapsed outcome\<close>

record NotifyFaxResults =
  nf_Results :: "(uuid \<times> FaxJob) list"
  nf_FaxJob :: FaxJob
  nf_AllAttemptsFailed :: bool

record PortalStatusPayload =
  pp_UUID :: uuid
  pp_Success :: bool
  pp_AllAttemptsFailed :: bool
  pp_Attempts :: nat
  pp_TransferredPages :: nat
  pp_TotalPages :: nat
  pp_ResultText :: string
  pp_HangupCause :: string
  pp_CallerIdNumber :: string
  pp_CalleeNumber :: string
  pp_StartTs :: time
  pp_EndTs :: time

definition is_call_leg :: "FaxJob \<Rightarrow> bool" where
  "is_call_leg job \<longleftrightarrow> (case fj_Endpoints job of [] \<Rightarrow> False
     | ep # _ \<Rightarrow> ep_EndpointType ep = ''reception'' \<or> ep_EndpointType ep = ''bridge'')"

text \<open>The variables of the loop: page maxima and the results of the call leg, of the first success
  and of the latest attempt. A job without a result is skipped.\<close>

record collapse =
  co_transferred :: nat
  co_total :: nat
  co_call :: "FaxResult option"
  co_success :: "FaxResult option"
  co_last :: "FaxResult option"

definition collapse_one :: "FaxJob \<Rightarrow> collapse \<Rightarrow> collapse" where
  "collapse_one job c = (case fj_Result job of None \<Rightarrow> c | Some r \<Rightarrow>
     c\<lparr>co_transferred := max (co_transferred c) (fr_TransferredPages r),
       co_total := max (co_total c) (fr_TotalPages r),
       co_call := (if co_call c = None \<and> is_call_leg job then Some r else co_call c),
       co_success := (if fr_Success r \<and> co_success c = None then Some r else co_success c),
       co_last := (case co_last c of None \<Rightarrow> Some r
          | Some l \<Rightarrow> if fr_EndTs l < fr_EndTs r then Some r else Some l)\<rparr>)"

definition collapse_results :: "FaxJob list \<Rightarrow> collapse" where
  "collapse_results jobs = fold collapse_one jobs
     \<lparr>co_transferred = 0, co_total = 0, co_call = None, co_success = None, co_last = None\<rparr>"

definition chosen_result :: "collapse \<Rightarrow> FaxResult option" where
  "chosen_result c = (case co_call c of Some r \<Rightarrow> Some r
     | None \<Rightarrow> (case co_success c of Some r \<Rightarrow> Some r | None \<Rightarrow> co_last c))"

definition buildPortalStatusPayload :: "NotifyFaxResults \<Rightarrow> PortalStatusPayload" where
  "buildPortalStatusPayload nfr =
    (let c = collapse_results (map snd (nf_Results nfr)); f = nf_FaxJob nfr;
         r = (case chosen_result c of None \<Rightarrow> empty_FaxResult | Some r \<Rightarrow> r)
     in \<lparr>pp_UUID = fj_UUID f, pp_Success = fr_Success r,
         pp_AllAttemptsFailed = nf_AllAttemptsFailed nfr, pp_Attempts = length (nf_Results nfr),
         pp_TransferredPages = co_transferred c, pp_TotalPages = co_total c,
         pp_ResultText = fr_ResultText r, pp_HangupCause = fr_HangupCause r,
         pp_CallerIdNumber = fj_CallerIdNumber f, pp_CalleeNumber = fj_CalleeNumber f,
         pp_StartTs = fr_StartTs r, pp_EndTs = fr_EndTs r\<rparr>)"

section \<open>Subject, body and report\<close>

definition jobIsOutboundSend :: "FaxJob \<Rightarrow> bool" where
  "jobIsOutboundSend j \<longleftrightarrow> \<not> fj_IsBridge j \<and> si_SourceType (fj_SourceInfo j) \<noteq> ''gateway''"

definition pagesSummary :: "nat \<Rightarrow> nat \<Rightarrow> bool \<Rightarrow> string" where
  "pagesSummary transferred pages showTotal =
    (if showTotal \<and> pages > 0 then
       (if transferred = 1 \<and> pages = 1 then ''1/1 page''
        else itoa transferred @ ''/'' @ itoa pages @ '' pages'')
     else if transferred = 1 then ''1 page''
     else itoa transferred @ '' pages'')"

definition pagesSummaryPlain :: "nat \<Rightarrow> nat \<Rightarrow> bool \<Rightarrow> string" where
  "pagesSummaryPlain transferred pages showTotal =
    (if showTotal \<and> pages > 0 then itoa transferred @ ''/'' @ itoa pages else itoa transferred)"

definition arrow :: string where
  "arrow = [CHR 0xE2, CHR 0x86, CHR 0x92]"

definition mail_line :: "string \<Rightarrow> string \<Rightarrow> string" where
  "mail_line label value = label @ value @ [CHR 0x0A]"

definition mail_phrase :: "FaxJob \<Rightarrow> string \<times> string" where
  "mail_phrase j =
    (if fj_IsBridge j
     then (''Bridged fax '' @ fj_CallerIdNumber j @ '' '' @ arrow @ '' '' @ fj_CalleeNumber j, ''Bridged'')
     else if si_SourceType (fj_SourceInfo j) = ''gateway''
     then (''Fax from '' @ fj_CallerIdNumber j, ''Received'')
     else (''Fax to '' @ fj_CalleeNumber j, ''Sent''))"

definition mail_subject :: "FaxJob \<Rightarrow> PortalStatusPayload \<Rightarrow> string" where
  "mail_subject j p =
    (let cause = (if pp_HangupCause p \<noteq> [] then pp_HangupCause p
                  else if pp_ResultText p \<noteq> [] then pp_ResultText p else ''unknown error'')
     in fst (mail_phrase j) @
        (if pp_Success p
         then '' succeeded ('' @ pagesSummary (pp_TransferredPages p) (pp_TotalPages p) (jobIsOutboundSend j) @ '')''
         else '' FAILED ('' @ cause @ '')''))"

text \<open>\<open>format_time\<close> renders a time and \<open>uuid_string\<close> a UUID.\<close>

definition emailSubjectBody ::
    "(time \<Rightarrow> string) \<Rightarrow> (uuid \<Rightarrow> string) \<Rightarrow> string \<Rightarrow> NotifyFaxResults \<Rightarrow> string \<times> string" where
  "emailSubjectBody format_time uuid_string kind nfr =
    (let p = buildPortalStatusPayload nfr; j = nf_FaxJob nfr; subject = mail_subject j p;
         from = fj_CallerIdNumber j
                @ (if fj_CallerIdName j \<noteq> [] then '' ('' @ fj_CallerIdName j @ '')'' else [])
     in (subject,
         mail_line [] subject @ mail_line [] []
         @ mail_line ''Status:    '' (if pp_Success p then ''SUCCESS'' else ''FAILED'')
         @ mail_line ''Direction: '' (snd (mail_phrase j))
         @ mail_line ''From:      '' from
         @ mail_line ''To:        '' (fj_CalleeNumber j)
         @ mail_line ''Pages:     ''
             (pagesSummaryPlain (pp_TransferredPages p) (pp_TotalPages p) (jobIsOutboundSend j))
         @ mail_line ''Attempts:  '' (itoa (pp_Attempts p))
         @ (if pp_ResultText p \<noteq> [] then mail_line ''Result:    '' (pp_ResultText p) else [])
         @ (if pp_HangupCause p \<noteq> [] then mail_line ''Cause:     '' (pp_HangupCause p) else [])
         @ (if pp_StartTs p \<noteq> zero_time then mail_line ''Started:   '' (format_time (pp_StartTs p)) else [])
         @ (if pp_EndTs p \<noteq> zero_time then mail_line ''Completed: '' (format_time (pp_EndTs p)) else [])
         @ mail_line ''Job UUID:  '' (uuid_string (pp_UUID p))
         @ mail_line [] []
         @ mail_line [] (if kind = ''email_full'' \<or> kind = ''email_full_failure''
                         then ''The detailed fax report and the original fax are attached.''
                         else ''The detailed fax report is attached.'')))"

text \<open>The rows of the report. Jobs with a result come in the order of their end; the sort of the
  source is not stable, so the order of equal times is its choice, here that of the map.\<close>

record report_row =
  rr_CallID :: string
  rr_Timestamp :: string
  rr_Status :: string
  rr_Pages :: string
  rr_Message :: string

definition report_less ::
    "(uuid \<Rightarrow> string) \<Rightarrow> (string \<Rightarrow> string \<Rightarrow> bool) \<Rightarrow> uuid \<times> FaxJob \<Rightarrow> uuid \<times> FaxJob \<Rightarrow> bool" where
  "report_less uuid_string str_less a b =
    (case (fj_Result (snd a), fj_Result (snd b)) of
       (Some ra, Some rb) \<Rightarrow> fr_EndTs ra < fr_EndTs rb
     | _ \<Rightarrow> str_less (uuid_string (fst a)) (uuid_string (fst b)))"

definition report_row ::
    "(time \<Rightarrow> string) \<Rightarrow> (uuid \<Rightarrow> string) \<Rightarrow> bool \<Rightarrow> FaxJob \<Rightarrow> report_row" where
  "report_row format_time uuid_string showTotal job =
    (let epType = (case fj_Endpoints job of [] \<Rightarrow> ''fax'' | ep # _ \<Rightarrow> ep_EndpointType ep);
         callID = last (split_on (CHR ''-'') (uuid_string (fj_CallUUID job)))
     in case fj_Result job of
          None \<Rightarrow> \<lparr>rr_CallID = callID, rr_Timestamp = [], rr_Status = ''failed ('' @ epType @ '')'',
                   rr_Pages = [], rr_Message = fj_Status job\<rparr>
        | Some r \<Rightarrow>
           \<lparr>rr_CallID = callID, rr_Timestamp = format_time (fr_EndTs r),
            rr_Status = (if fr_Success r then ''success'' else ''failed'') @ '' ('' @ epType @ '')'',
            rr_Pages = (if fr_TransferredPages r > 0 \<or> showTotal \<and> fr_TotalPages r > 0
                        then pagesSummaryPlain (fr_TransferredPages r) (fr_TotalPages r) showTotal else []),
            rr_Message = (if fr_ResultText r \<noteq> [] then fr_ResultText r
                          else if fr_HangupCause r \<noteq> [] then fr_HangupCause r else fj_Status job)\<rparr>)"

definition report_rows ::
    "(time \<Rightarrow> string) \<Rightarrow> (uuid \<Rightarrow> string) \<Rightarrow> (string \<Rightarrow> string \<Rightarrow> bool) \<Rightarrow> NotifyFaxResults \<Rightarrow> report_row list" where
  "report_rows format_time uuid_string str_less nfr =
     map (report_row format_time uuid_string (jobIsOutboundSend (nf_FaxJob nfr)) \<circ> snd)
       (stable_sort (report_less uuid_string str_less) (nf_Results nfr))"

text \<open>\<open>fitText\<close>; \<open>measure\<close> is the width of a string in the current font.\<close>

function fit_loop :: "(string \<Rightarrow> 'w::linorder) \<Rightarrow> 'w \<Rightarrow> string \<Rightarrow> string" where
  "fit_loop width w s =
    (if width (s @ ''...'') > w \<and> s \<noteq> [] then fit_loop width w (butlast s) else s)"
  by pat_completeness auto
termination
  by (relation "measure (\<lambda>(_, _, s). length s)") auto

definition fitText :: "(string \<Rightarrow> 'w::linorder) \<Rightarrow> string \<Rightarrow> 'w \<Rightarrow> string" where
  "fitText width s w = (if width s \<le> w then s else fit_loop width w s @ ''...'')"

section \<open>E-mail\<close>

text \<open>The encoded attachment in lines of at most 76 characters.\<close>

function chunks :: "nat \<Rightarrow> string \<Rightarrow> string list" where
  "chunks n s = (if s = [] \<or> n = 0 then [] else take n s # chunks n (drop n s))"
  by pat_completeness auto
termination
  by (relation "measure (\<lambda>(_, s). length s)") auto

declare fit_loop.simps [simp del] chunks.simps [simp del]

definition crlf :: "string \<Rightarrow> string" where
  "crlf s = s @ [CHR 0x0D, CHR 0x0A]"

definition quoted :: "string \<Rightarrow> string" where
  "quoted s = [CHR 0x22] @ s @ [CHR 0x22]"

definition boundary :: string where
  "boundary = ''myBoundary123456789''"

record attachment =
  at_name :: string
  at_encoded :: string

definition mime_part :: "attachment \<Rightarrow> string" where
  "mime_part a =
     crlf (''--'' @ boundary)
     @ crlf (''Content-Type: application/octet-stream; name='' @ quoted (at_name a))
     @ crlf ''Content-Transfer-Encoding: base64''
     @ crlf (''Content-Disposition: attachment; filename='' @ quoted (at_name a))
     @ crlf []
     @ concat (map crlf (chunks 76 (at_encoded a)))"

text \<open>The message; \<open>order\<close> is the order in which Go ranges over the header map.\<close>

definition mail_message ::
    "((string \<times> string) list \<Rightarrow> (string \<times> string) list) \<Rightarrow> string \<Rightarrow> string \<Rightarrow> string \<Rightarrow> string \<Rightarrow>
     attachment list \<Rightarrow> string" where
  "mail_message order from subject to body atts =
     concat (map (\<lambda>(k, v). crlf (k @ '': '' @ v)) (order
       [(''From'', from), (''To'', to), (''Subject'', subject), (''MIME-Version'', ''1.0''),
        (''Content-Type'', ''multipart/mixed; boundary='' @ boundary)]))
     @ crlf []
     @ crlf (''--'' @ boundary)
     @ crlf (''Content-Type: text/plain; charset='' @ quoted ''utf-8'')
     @ crlf ''Content-Transfer-Encoding: 7bit''
     @ crlf [] @ crlf body
     @ concat (map mime_part atts)
     @ crlf (''--'' @ boundary @ ''--'')"

text \<open>The recipients of the envelope: empty fields are dropped before trimming, not after.\<close>

definition envelope_recipients :: "string \<Rightarrow> string list" where
  "envelope_recipients to = map trim_space (fields_on address_sep [] to)"

text \<open>The dialogue with the mail server: what is sent to it, and the error that ends it, if any.
  \<open>se_encryption\<close> is the configured mode; \<open>se_auth\<close> is an error only where a user name is set.\<close>

datatype smtp_command = Rcpt string | Data string | SendMail "string list" string

record smtp_env =
  se_read :: "string \<Rightarrow> string + attachment"
  se_encryption :: string
  se_dial :: "string option"
  se_client :: "string option"
  se_auth :: "string option"
  se_mail :: "string option"
  se_rcpt :: "string \<Rightarrow> string option"
  se_data :: "string option"
  se_send :: "string list \<Rightarrow> string option"

fun read_attachments :: "smtp_env \<Rightarrow> string list \<Rightarrow> string + attachment list" where
  "read_attachments env [] = Inr []"
| "read_attachments env (p # ps) = (case se_read env p of
     Inl e \<Rightarrow> Inl (''failed to read attachment '' @ p @ '': '' @ e)
   | Inr a \<Rightarrow> (case read_attachments env ps of Inl e \<Rightarrow> Inl e | Inr atts \<Rightarrow> Inr (a # atts)))"

fun rcpt_all :: "smtp_env \<Rightarrow> string list \<Rightarrow> smtp_command list \<times> string option" where
  "rcpt_all env [] = ([], None)"
| "rcpt_all env (r # rs) = (case se_rcpt env r of
     Some e \<Rightarrow> ([Rcpt r], Some e)
   | None \<Rightarrow> (let (cmds, e) = rcpt_all env rs in (Rcpt r # cmds, e)))"

definition tls_session :: "smtp_env \<Rightarrow> string list \<Rightarrow> string \<Rightarrow> smtp_command list \<times> string option" where
  "tls_session env recipients msg =
    (case se_dial env of Some e \<Rightarrow> ([], Some (''failed to dial TLS: '' @ e))
   | None \<Rightarrow> (case se_client env of Some e \<Rightarrow> ([], Some (''failed to create SMTP client: '' @ e))
   | None \<Rightarrow> (case se_auth env of Some e \<Rightarrow> ([], Some (''failed to authenticate: '' @ e))
   | None \<Rightarrow> (case se_mail env of Some e \<Rightarrow> ([], Some e)
   | None \<Rightarrow> (case rcpt_all env recipients of
       (cmds, Some e) \<Rightarrow> (cmds, Some e)
     | (cmds, None) \<Rightarrow> (cmds @ [Data msg], se_data env))))))"

definition SendEmailWithAttachment ::
    "smtp_env \<Rightarrow> ((string \<times> string) list \<Rightarrow> (string \<times> string) list) \<Rightarrow> string \<Rightarrow> string \<Rightarrow> string \<Rightarrow> string \<Rightarrow>
     string list \<Rightarrow> smtp_command list \<times> string option" where
  "SendEmailWithAttachment env order from subject to body paths =
    (case read_attachments env paths of
       Inl e \<Rightarrow> ([], Some e)
     | Inr atts \<Rightarrow>
         let msg = mail_message order from subject to body atts; rs = envelope_recipients to in
         if to_lower (se_encryption env) = ''tls'' \<or> to_lower (se_encryption env) = ''ssl''
         then tls_session env rs msg
         else ([SendMail rs msg], map_option (\<lambda>e. ''failed to send email: '' @ e) (se_send env rs)))"

section \<open>Dispatch\<close>

text \<open>The libraries and the network, each answering with an error message or not; a POST is
  answered with an error or a status.\<close>

record notify_env =
  ne_report :: "string option"
  ne_mail :: "string \<Rightarrow> string list \<Rightarrow> string option"
  ne_tiffToPdf :: "string option"
  ne_readReport :: "string option"
  ne_marshal :: "string option"
  ne_openPreview :: "string option"
  ne_createPart :: "string option"
  ne_copyPart :: "string option"
  ne_closeForm :: "string option"
  ne_newRequest :: "string \<Rightarrow> string option"
  ne_post :: "string \<Rightarrow> string + nat"
  ne_portalURL :: string

definition trim_slashes :: "string \<Rightarrow> string" where
  "trim_slashes s = rev (dropWhile (\<lambda>c. c = CHR ''/'') (rev s))"

definition says :: "string \<Rightarrow> string \<Rightarrow> string \<Rightarrow> string" where
  "says kind dest msg = kind @ '' -> '' @ dest @ '': '' @ msg"

text \<open>The end of the three HTTP branches: outcome and detail.\<close>

definition post_outcome :: "notify_env \<Rightarrow> string \<Rightarrow> string \<Rightarrow> string \<Rightarrow> string \<times> string" where
  "post_outcome env kind dest url =
    (case ne_newRequest env url of
       Some e \<Rightarrow> (''failed'', says kind dest e)
     | None \<Rightarrow>
        (case ne_post env url of
           Inl e \<Rightarrow> (''failed'', says kind dest e)
         | Inr code \<Rightarrow>
             if 200 \<le> code \<and> code < 300
             then (''sent'', says kind dest (''sent (HTTP '' @ itoa code @ '')''))
             else (''failed'', says kind dest (''HTTP '' @ itoa code))))"

text \<open>The kind of e-mail, the label of its detail, and the number of attachments it carries.\<close>

definition mail_outcome :: "notify_env \<Rightarrow> string \<Rightarrow> string \<Rightarrow> string list \<Rightarrow> string \<times> string" where
  "mail_outcome env kind dest atts =
    (case ne_mail env dest atts of
       Some e \<Rightarrow> (''failed'', says kind dest e) | None \<Rightarrow> (''sent'', says kind dest ''sent''))"

definition full_attachments :: "notify_env \<Rightarrow> string list" where
  "full_attachments env =
     (case ne_tiffToPdf env of Some _ \<Rightarrow> [''report''] | None \<Rightarrow> [''report'', ''fax''])"

definition form_outcome :: "notify_env \<Rightarrow> string \<Rightarrow> string \<times> string" where
  "form_outcome env dest =
    (let fail = (\<lambda>step e. (''failed'', says ''webhook_form'' dest (step @ '': '' @ e))) in
     case ne_marshal env of Some e \<Rightarrow> fail ''failed to marshal payload'' e
   | None \<Rightarrow> (case ne_openPreview env of Some e \<Rightarrow> fail ''failed to open first page pdf'' e
   | None \<Rightarrow> (case ne_createPart env of Some e \<Rightarrow> fail ''failed to create form file'' e
   | None \<Rightarrow> (case ne_copyPart env of Some e \<Rightarrow> fail ''failed to copy file data'' e
   | None \<Rightarrow> (case ne_closeForm env of Some e \<Rightarrow> fail ''failed to close writer'' e
   | None \<Rightarrow> post_outcome env ''webhook_form'' dest dest)))))"

definition webhook_outcome :: "notify_env \<Rightarrow> string \<Rightarrow> string \<times> string" where
  "webhook_outcome env dest =
    (case ne_readReport env of
       Some e \<Rightarrow> (''failed'', says ''webhook'' dest (''failed to read fax file: '' @ e))
     | None \<Rightarrow> (case ne_marshal env of
          Some e \<Rightarrow> (''failed'', says ''webhook'' dest (''failed to marshal payload: '' @ e))
        | None \<Rightarrow> post_outcome env ''webhook'' dest dest))"

definition portal_outcome :: "notify_env \<Rightarrow> string \<Rightarrow> string \<times> string" where
  "portal_outcome env dest =
    (let base = trim_slashes (ne_portalURL env) in
     if base = [] then (''skipped'', says ''portal'' dest ''skipped, portal.url is empty'')
     else case ne_marshal env of
       Some e \<Rightarrow> (''failed'', says ''portal'' dest (''failed to marshal payload: '' @ e))
     | None \<Rightarrow> post_outcome env ''portal'' dest (base @ ''/portal/api/notify/'' @ dest))"

definition dispatch :: "notify_env \<Rightarrow> bool \<Rightarrow> bool \<Rightarrow> NotifyDestination \<Rightarrow> string \<times> string" where
  "dispatch env allFailed hasPreview d =
    (let ty = nd_Type d; dest = nd_Destination d in
     if ty = ''email'' \<or> ty = ''email_report'' then mail_outcome env ''email_report'' dest [''report'']
     else if ty = ''email_full_failure'' \<and> \<not> allFailed
     then (''skipped'', says ''email_full_failure'' dest ''skipped, not all attempts failed'')
     else if ty = ''email_full'' \<or> ty = ''email_full_failure''
     then mail_outcome env ty dest (full_attachments env)
     else if ty = ''webhook'' then webhook_outcome env dest
     else if ty = ''webhook_form'' then
       (if \<not> hasPreview then (''skipped'', says ty dest ''skipped, no first-page PDF available'')
        else form_outcome env dest)
     else if ty = ''portal'' then portal_outcome env dest
     else if ty = ''gateway'' then (''skipped'', says ty dest ''skipped, not implemented'')
     else (''skipped'', says ty dest ''skipped, unknown notify destination type''))"

text \<open>The leg that records a dispatch. \<open>fails\<close> is whether the insert fails.\<close>

definition notify_row :: "time \<Rightarrow> time \<Rightarrow> FaxJob \<Rightarrow> NotifyDestination \<Rightarrow> string \<times> string \<Rightarrow> FaxJobResult" where
  "notify_row start now f d outcome =
    (base_record now zero_FaxJob)\<lparr>jr_SrcTenantID := fj_SrcTenantID f, jr_DstTenantID := fj_DstTenantID f,
      jr_JobUUID := fj_UUID f, jr_CallUUID := fj_UUID f, jr_CalleeNumber := fj_CalleeNumber f,
      jr_CallerIdNumber := fj_CallerIdNumber f, jr_CallerIdName := fj_CallerIdName f,
      jr_FileName := fj_FileName f, jr_IsBridge := fj_IsBridge f, jr_ResultType := ''notify'',
      jr_AttemptNumber := 0, jr_EndpointType := nd_Type d, jr_Status := fst outcome,
      jr_Success := (fst outcome = ''sent''), jr_ResultText := snd outcome,
      jr_StartTs := Some start, jr_EndTs := Some now, jr_CreatedAt := now\<rparr>"

definition recordNotifyDelivery ::
    "bool \<Rightarrow> time \<Rightarrow> time \<Rightarrow> FaxJob \<Rightarrow> NotifyDestination \<Rightarrow> string \<times> string \<Rightarrow> ResultTable \<Rightarrow> ResultTable" where
  "recordNotifyDelivery fails start now f d outcome t =
    (if fails then t
     else t\<lparr>rt_rows := rt_rows t @ [(notify_row start now f d outcome)\<lparr>jr_ID := rt_next t\<rparr>],
            rt_next := Suc (rt_next t)\<rparr>)"

text \<open>The dispatches run concurrently; their legs are stored here in the order of the destinations.\<close>

definition processNotifyDestinationsAsync ::
    "notify_env \<Rightarrow> bool \<Rightarrow> time \<Rightarrow> NotifyFaxResults \<Rightarrow> NotifyDestination list \<Rightarrow> bool \<Rightarrow> ResultTable \<Rightarrow> ResultTable" where
  "processNotifyDestinationsAsync env fails now nfr ds hasPreview t =
    (if ds = [] \<or> ne_report env \<noteq> None then t
     else fold (\<lambda>d. recordNotifyDelivery fails now now (nf_FaxJob nfr) d
                     (dispatch env (nf_AllAttemptsFailed nfr) hasPreview d)) ds t)"

section \<open>Lemmas\<close>

subsection \<open>Trimming\<close>


subsection \<open>Segments\<close>

lemma split_segments_nonempty [simp]: "split_segments cur s \<noteq> []"
  by (induction cur s rule: split_segments.induct) auto

lemma join_Cons: "xs \<noteq> [] \<Longrightarrow> join sep (x # xs) = x @ sep @ join sep xs"
  by (cases xs) simp_all

lemma join_split_segments: "join '','' (split_segments cur s) = cur @ s"
  by (induction cur s rule: split_segments.induct) (simp_all add: join_Cons)

lemma dropWhile_stop: "\<not> P c \<Longrightarrow> dropWhile P (x @ c # t) = dropWhile P x @ c # t"
  by (induction x) auto

lemma takeWhile_stop: "\<not> P c \<Longrightarrow> takeWhile P (x @ c # t) = takeWhile P x"
  by (induction x) auto

lemma has_prefix_stop: "c \<notin> set p \<Longrightarrow> has_prefix (x @ c # t) p \<longleftrightarrow> has_prefix x p"
proof (induction p arbitrary: x)
  case (Cons d p)
  then show ?case
    by (cases x) (auto simp: has_prefix_def)
qed (simp add: has_prefix_def)

lemma comma_class [simp]: "\<not> re_space CHR '',''" "\<not> re_name CHR '',''"
  by (simp_all add: re_space_def re_name_def)

lemma segment_start_comma: "notifySegmentStart (r @ CHR '','' # t) = notifySegmentStart r"
  by (simp add: notifySegmentStart_def Let_def dropWhile_stop takeWhile_stop has_prefix_stop)

lemma split_segments_append:
  assumes "notifySegmentStart t"
  shows "split_segments cur s = [cur @ s] \<Longrightarrow>
    split_segments cur (s @ CHR '','' # t) = (cur @ s) # split_segments [] t"
proof (induction s arbitrary: cur)
  case Nil
  then show ?case
    using assms by simp
next
  case (Cons c s)
  have "\<not> (c = CHR '','' \<and> notifySegmentStart s)"
  proof
    assume "c = CHR '','' \<and> notifySegmentStart s"
    then have "split_segments [] s = []"
      using Cons.prems by simp
    then show False
      by simp
  qed
  moreover from this have "split_segments (cur @ [c]) s = [(cur @ [c]) @ s]"
    using Cons.prems by (simp split: if_splits)
  from Cons.IH [OF this] have "split_segments (cur @ [c]) (s @ CHR '','' # t) = (cur @ c # s) # split_segments [] t"
    by simp
  ultimately show ?case
    by (auto simp: segment_start_comma)
qed

lemma split_segments_prepend:
  "split_segments (x @ cur) s = (case split_segments cur s of [] \<Rightarrow> [] | h # t \<Rightarrow> (x @ h) # t)"
  by (induction cur s rule: split_segments.induct) auto

lemma split_segments_no_comma:
  "CHR '','' \<notin> set p \<Longrightarrow> split_segments cur (p @ s) = split_segments (cur @ p) s"
  by (induction p arbitrary: cur) auto

lemma name_char:
  assumes "re_name c"
  shows "[c] \<notin> set space_codes" "[c, d] \<notin> set space_codes" "\<not> re_space c" "c \<noteq> CHR '','' \<and> c \<noteq> CHR ''-''"
  using assms by (auto simp: re_name_def space_codes_def re_space_def)

lemma arrow_chars [simp]: "\<not> re_name CHR ''-''" "\<not> re_space CHR ''-''"
  by (simp_all add: re_name_def re_space_def)

lemma trim_rev_fixed_append:
  assumes "trim_rev x = x" "x \<noteq> []" "\<And>c. [d, c] \<notin> set space_codes"
  shows "trim_rev (x @ d # y) = x @ d # y"
proof -
  obtain c u where x: "x = c # u"
    using assms(2) by (cases x) auto
  have no: "trim_rev t \<noteq> c # u" if "suffix t u" for t
    using suffix_length_le [OF trim_rev_suffix [of t]] suffix_length_le [OF that] by auto
  have c: "[c] \<notin> set space_codes"
    using assms(1) no [of u] unfolding x by auto
  show ?thesis
  proof (cases u)
    case Nil
    then show ?thesis
      using c assms(3) unfolding x by simp
  next
    case (Cons e v)
    have "[e, c] \<notin> set space_codes"
      using assms(1) no [of v] c unfolding x Cons by (auto simp: suffix_Cons)
    then show ?thesis
      using c unfolding x Cons by simp
  qed
qed

lemma trim_fixed:
  assumes "trim_space s = s"
  shows "trim_left s = s" "trim_rev (rev s) = rev s"
proof -
  have "prefix s (trim_left s)"
    using trim_space_prefix [of s] assms by simp
  then have "length s \<le> length (trim_left s)"
    by (rule prefix_length_le)
  moreover obtain z where z: "s = z @ trim_left s"
    using trim_left_suffix by (auto simp: suffix_def)
  ultimately have "z = []"
    by (metis add_le_same_cancel2 length_append le_zero_eq length_0_conv)
  then show "trim_left s = s"
    using z by simp
  then have "rev (trim_rev (rev s)) = s"
    using assms by (simp add: trim_space_def)
  then show "trim_rev (rev s) = rev s"
    by (metis rev_rev_ident)
qed

lemma trim_rev_names: "list_all re_name s \<Longrightarrow> trim_rev s = s"
proof (cases s)
  case (Cons c t)
  assume "list_all re_name s"
  then show ?thesis
    unfolding Cons by (cases t) (auto dest: name_char)
qed simp

lemma trim_left_name: "re_name c \<Longrightarrow> trim_left (c # s) = c # s"
  by (cases s) (simp_all add: name_char)

lemma trim_space_names: "list_all re_name s \<Longrightarrow> trim_space s = s"
proof -
  assume s: "list_all re_name s"
  then have "trim_left s = s"
    by (cases s) (simp_all add: trim_left_name del: trim_left.simps(2))
  then show ?thesis
    using s by (simp add: trim_space_def trim_rev_names list_all_rev)
qed

text \<open>A destination as the UI writes it: a name as type, a trimmed value without a segment of its own.\<close>

definition clean_dest :: "NotifyDestination \<Rightarrow> bool" where
  "clean_dest d \<longleftrightarrow> list_all re_name (nd_Type d) \<and> nd_Type d \<noteq> [] \<and> nd_Type d \<noteq> ''email''
     \<and> nd_Destination d \<noteq> [] \<and> trim_space (nd_Destination d) = nd_Destination d
     \<and> splitNotifySegments (nd_Destination d) = [nd_Destination d]"

lemma clean_start: "clean_dest d \<Longrightarrow> notifySegmentStart (dest_key d @ r)"
proof -
  assume d: "clean_dest d"
  then obtain c t where t: "nd_Type d = c # t" "re_name c" "list_all re_name t"
    by (cases "nd_Type d") (auto simp: clean_dest_def)
  have "takeWhile re_name (nd_Type d @ CHR ''-'' # x) = nd_Type d"
    "dropWhile re_name (nd_Type d @ CHR ''-'' # x) = CHR ''-'' # x"
    "dropWhile re_space (nd_Type d @ CHR ''-'' # x) = nd_Type d @ CHR ''-'' # x" for x
    using t by (simp_all add: name_char list.pred_set takeWhile_append2 dropWhile_append2)
  then show ?thesis
    using d by (simp add: notifySegmentStart_def dest_key_def Let_def has_prefix_def clean_dest_def)
qed

lemma clean_no_comma: "clean_dest d \<Longrightarrow> CHR '','' \<notin> set (nd_Type d @ ''->'')"
  by (auto simp: clean_dest_def list.pred_set dest: name_char)

lemma clean_split: "clean_dest d \<Longrightarrow> split_segments [] (dest_key d) = [dest_key d]"
  using split_segments_no_comma [OF clean_no_comma, of d "[]" "nd_Destination d"]
    split_segments_prepend [of "nd_Type d @ ''->''" "[]" "nd_Destination d"]
  by (simp add: dest_key_def clean_dest_def splitNotifySegments_def)

lemma split_join_clean:
  "ds \<noteq> [] \<Longrightarrow> \<forall>d \<in> set ds. clean_dest d \<Longrightarrow>
   splitNotifySegments (join '','' (map dest_key ds)) = map dest_key ds"
proof (induction ds)
  case (Cons d ds)
  show ?case
  proof (cases ds)
    case Nil
    then show ?thesis
      using Cons.prems by (simp add: splitNotifySegments_def clean_split)
  next
    case c2: (Cons e es)
    define rest where "rest = join '','' (map dest_key ds)"
    obtain y where "rest = dest_key e @ y"
      unfolding rest_def c2 by (cases es) auto
    then have "notifySegmentStart rest"
      using clean_start [of e y] Cons.prems(2) c2 by simp
    from split_segments_append [OF this, of "[]" "dest_key d"]
    have "splitNotifySegments (dest_key d @ CHR '','' # rest) = dest_key d # splitNotifySegments rest"
      using clean_split [of d] Cons.prems(2) by (simp add: splitNotifySegments_def)
    then show ?thesis
      using Cons.IH Cons.prems(2) unfolding rest_def c2 by (simp add: join_Cons)
  qed
qed simp

lemma cut_arrow_names: "CHR ''-'' \<notin> set a \<Longrightarrow> cut_arrow (a @ ''->'' @ b) = Some (a, b)"
  by (induction a) (auto simp: has_prefix_def)

lemma trim_space_key:
  assumes "clean_dest d"
  shows "trim_space (dest_key d) = dest_key d"
proof -
  have "trim_left (dest_key d) = dest_key d"
    using assms by (cases "nd_Type d") (simp_all add: clean_dest_def dest_key_def trim_left_name del: trim_left.simps(2))
  moreover have "trim_rev (rev (nd_Destination d) @ CHR ''>'' # CHR ''-'' # rev (nd_Type d))
      = rev (nd_Destination d) @ CHR ''>'' # CHR ''-'' # rev (nd_Type d)"
    using assms by (intro trim_rev_fixed_append) (auto simp: clean_dest_def trim_fixed space_codes_def)
  ultimately show ?thesis
    by (simp add: trim_space_def dest_key_def)
qed

lemma parse_segment_key: "clean_dest d \<Longrightarrow> parse_segment (dest_key d) = Parsed d"
proof -
  assume d: "clean_dest d"
  have "cut_arrow (dest_key d) = Some (nd_Type d, nd_Destination d)"
    using clean_no_comma [OF d] d unfolding dest_key_def
    by (intro cut_arrow_names) (auto simp: clean_dest_def list.pred_set dest: name_char)
  moreover have "dest_key d \<noteq> []"
    by (simp add: dest_key_def)
  ultimately show ?thesis
    using d trim_space_key [OF d] trim_space_names [of "nd_Type d"]
    by (simp add: parse_segment_def Let_def clean_dest_def)
qed

section \<open>Properties: notify strings\<close>

text \<open>C14: A notify string written from destinations is read back as these destinations, in their
  order and with nothing malformed, even when a value itself has commas.\<close>

theorem notify_string_roundtrip:
  assumes "\<forall>d \<in> set ds. clean_dest d"
  shows "parseNotifyString (join '','' (map dest_key ds)) = (ds, [])"
proof (cases "ds = []")
  case True
  then show ?thesis
    by (simp add: parseNotifyString_def splitNotifySegments_def parse_segment_def trim_space_def
        map_filter_def)
next
  case False
  have "map parse_segment (splitNotifySegments (join '','' (map dest_key ds))) = map Parsed ds"
    using assms parse_segment_key split_join_clean [OF False assms] by simp
  then show ?thesis
    by (simp add: parseNotifyString_def map_filter_def comp_def)
qed

section \<open>Recipients\<close>


lemma fields_on_plain:
  "list_all (\<lambda>c. \<not> sep c) x \<Longrightarrow> fields_on sep cur (x @ s) = fields_on sep (cur @ x) s"
  by (induction x arbitrary: cur) auto


lemma fields_on_head:
  "list_all (\<lambda>c. \<not> sep c) x \<Longrightarrow> x \<noteq> [] \<Longrightarrow> sep c \<Longrightarrow>
   fields_on sep [] (x @ c # s) = x # fields_on sep [] s"
  by (simp add: fields_on_plain)

































section \<open>Properties: recipients\<close>

text \<open>A bridged call notifies nobody, whatever its numbers and tenants ask for.\<close>

theorem bridge_notifies_nobody:
  assumes "fj_IsBridge f"
  shows "processNotifyDestinations s f = []"
  using assms by (simp add: processNotifyDestinations_def Let_def)

section \<open>The collapsed outcome, order by order\<close>

definition call_hit :: "FaxJob \<Rightarrow> FaxResult option" where
  "call_hit job = (if is_call_leg job then fj_Result job else None)"

definition success_hit :: "FaxJob \<Rightarrow> FaxResult option" where
  "success_hit job = (case fj_Result job of None \<Rightarrow> None | Some r \<Rightarrow> if fr_Success r then Some r else None)"

interpretation call_leg: first_wins co_call call_hit collapse_one
  by unfold_locales (auto simp: collapse_one_def call_hit_def split: option.split)

interpretation success_leg: first_wins co_success success_hit collapse_one
  by unfold_locales (auto simp: collapse_one_def success_hit_def split: option.split)

definition reported :: "(FaxResult \<Rightarrow> nat) \<Rightarrow> FaxJob list \<Rightarrow> nat set" where
  "reported field jobs = field ` {r. \<exists>job \<in> set jobs. fj_Result job = Some r}"

lemma reported_Cons:
  "reported field (job # jobs) = (case fj_Result job of None \<Rightarrow> {} | Some r \<Rightarrow> {field r}) \<union> reported field jobs"
  by (auto simp: reported_def split: option.split)

lemma reported_finite [simp]: "finite (reported field jobs)"
  by (induction jobs) (simp_all add: reported_Cons reported_def [of _ "[]"] split: option.split)

lemma Max_insert_max: "finite S \<Longrightarrow> Max (insert (max a b) S) = Max (insert a (insert b S))"
  for a :: nat
  by (cases "S = {}") (simp_all add: max.assoc)

lemma collapse_max:
  fixes get :: "collapse \<Rightarrow> nat"
  assumes "\<And>job c. get (collapse_one job c)
    = (case fj_Result job of None \<Rightarrow> get c | Some r \<Rightarrow> max (get c) (field r))"
  shows "get (fold collapse_one jobs c) = Max (insert (get c) (reported field jobs))"
proof (induction jobs arbitrary: c)
  case (Cons job jobs)
  show ?case
    by (cases "fj_Result job") (simp_all add: Cons.IH reported_Cons assms Max_insert_max)
qed (simp add: reported_def)

lemma collapse_pages:
  "co_transferred (collapse_results jobs) = Max (insert 0 (reported fr_TransferredPages jobs))"
  "co_total (collapse_results jobs) = Max (insert 0 (reported fr_TotalPages jobs))"
proof -
  have "co_transferred (fold collapse_one jobs c) = Max (insert (co_transferred c) (reported fr_TransferredPages jobs))" for c
    by (rule collapse_max) (simp add: collapse_one_def split: option.split)
  then show "co_transferred (collapse_results jobs) = Max (insert 0 (reported fr_TransferredPages jobs))"
    by (simp add: collapse_results_def)
  have "co_total (fold collapse_one jobs c) = Max (insert (co_total c) (reported fr_TotalPages jobs))" for c
    by (rule collapse_max) (simp add: collapse_one_def split: option.split)
  then show "co_total (collapse_results jobs) = Max (insert 0 (reported fr_TotalPages jobs))"
    by (simp add: collapse_results_def)
qed

lemma last_one: "co_last (collapse_one job c) = Some r \<Longrightarrow> co_last c = Some r \<or> fj_Result job = Some r"
  by (auto simp: collapse_one_def split: option.splits if_splits)

lemma last_reported:
  "co_last (fold collapse_one jobs c) = Some r \<Longrightarrow>
   co_last c = Some r \<or> (\<exists>job \<in> set jobs. fj_Result job = Some r)"
proof (induction jobs arbitrary: c)
  case (Cons job jobs)
  then show ?case
    using Cons.IH [of "collapse_one job c"] last_one [of job c r] by auto
qed simp

lemma last_collapsed:
  "co_last (collapse_results jobs) = Some r \<Longrightarrow> \<exists>job \<in> set jobs. fj_Result job = Some r"
  unfolding collapse_results_def by (drule last_reported) simp

lemma collapse_legs:
  "co_call (collapse_results jobs) = first_hit call_hit jobs"
  "co_success (collapse_results jobs) = first_hit success_hit jobs"
  by (simp_all add: collapse_results_def call_leg.fold_attr success_leg.fold_attr)

lemma first_hit_Some: "first_hit f xs = Some v \<Longrightarrow> \<exists>x \<in> set xs. f x = Some v"
  by (induction xs) (auto split: option.splits)

lemma success_hit_Some: "success_hit job = Some r \<longleftrightarrow> fj_Result job = Some r \<and> fr_Success r"
  by (auto simp: success_hit_def split: option.splits if_splits)

definition outcome_ok :: "FaxJob list \<Rightarrow> bool" where
  "outcome_ok jobs \<longleftrightarrow> (case first_hit call_hit jobs of Some r \<Rightarrow> fr_Success r
     | None \<Rightarrow> \<exists>job \<in> set jobs. \<exists>r. fj_Result job = Some r \<and> fr_Success r)"

lemma chosen_success:
  "(case chosen_result (collapse_results jobs) of None \<Rightarrow> False | Some r \<Rightarrow> fr_Success r) = outcome_ok jobs"
proof (cases "first_hit call_hit jobs")
  case None
  show ?thesis
  proof (cases "first_hit success_hit jobs")
    case no: None
    then have "\<forall>job \<in> set jobs. success_hit job = None"
      by (simp add: first_hit_None)
    then have "\<not> (\<exists>job \<in> set jobs. \<exists>r. fj_Result job = Some r \<and> fr_Success r)"
      by (metis not_Some_eq success_hit_Some)
    then show ?thesis
      using None no
      by (auto simp: chosen_result_def collapse_legs outcome_ok_def split: option.split dest!: last_collapsed)
  next
    case (Some r)
    then show ?thesis
      using None first_hit_Some [OF Some] success_hit_Some
      by (auto simp: chosen_result_def collapse_legs outcome_ok_def)
  qed
qed (simp add: chosen_result_def collapse_legs outcome_ok_def)

lemma payload_fields:
  "pp_Success (buildPortalStatusPayload nfr) = outcome_ok (map snd (nf_Results nfr))"
  "pp_TransferredPages (buildPortalStatusPayload nfr)
    = Max (insert 0 (reported fr_TransferredPages (map snd (nf_Results nfr))))"
  "pp_TotalPages (buildPortalStatusPayload nfr)
    = Max (insert 0 (reported fr_TotalPages (map snd (nf_Results nfr))))"
  unfolding chosen_success [symmetric]
  by (simp_all add: buildPortalStatusPayload_def Let_def collapse_pages empty_FaxResult_def split: option.split)

lemma outcome_ok_same:
  assumes "set jobs = set jobs'"
    and "\<forall>x \<in> set jobs. \<forall>y \<in> set jobs. \<forall>r r'. call_hit x = Some r \<longrightarrow> call_hit y = Some r' \<longrightarrow> fr_Success r = fr_Success r'"
  shows "outcome_ok jobs = outcome_ok jobs'"
proof (cases "first_hit call_hit jobs")
  case None
  then have "first_hit call_hit jobs' = None"
    using assms(1) by (simp add: first_hit_None)
  then show ?thesis
    using None assms(1) by (simp add: outcome_ok_def)
next
  case (Some r)
  then obtain r' where r': "first_hit call_hit jobs' = Some r'"
    using assms(1) first_hit_None [of call_hit] by (metis not_Some_eq)
  then have "fr_Success r = fr_Success r'"
    using first_hit_Some [OF Some] first_hit_Some [OF r'] assms by metis
  then show ?thesis
    using Some r' by (simp add: outcome_ok_def)
qed

section \<open>Properties: outcome and delivery\<close>

text \<open>The reported outcome does not depend on the order in which Go ranges over the result map,
  as long as the call legs agree: the same legs in another order report the same success and the same pages.\<close>

theorem outcome_order_independent:
  assumes "set (nf_Results nfr) = set (nf_Results nfr')"
    and "\<forall>x \<in> snd ` set (nf_Results nfr). \<forall>y \<in> snd ` set (nf_Results nfr). \<forall>r r'.
      call_hit x = Some r \<longrightarrow> call_hit y = Some r' \<longrightarrow> fr_Success r = fr_Success r'"
  shows "pp_Success (buildPortalStatusPayload nfr) = pp_Success (buildPortalStatusPayload nfr')
    \<and> pp_TransferredPages (buildPortalStatusPayload nfr) = pp_TransferredPages (buildPortalStatusPayload nfr')
    \<and> pp_TotalPages (buildPortalStatusPayload nfr) = pp_TotalPages (buildPortalStatusPayload nfr')"
proof -
  have "set (map snd (nf_Results nfr)) = set (map snd (nf_Results nfr'))"
    using assms(1) by simp
  moreover from this have "outcome_ok (map snd (nf_Results nfr)) = outcome_ok (map snd (nf_Results nfr'))"
    by (rule outcome_ok_same) (use assms(2) in \<open>simp only: set_map\<close>)
  ultimately show ?thesis
    unfolding payload_fields reported_def by simp
qed

text \<open>The dispatch.\<close>

lemma post_outcome_status: "fst (post_outcome env kind dest url) \<in> {''sent'', ''failed''}"
  by (simp add: post_outcome_def split: option.split sum.split)

lemma mail_outcome_status: "fst (mail_outcome env kind dest atts) \<in> {''sent'', ''failed''}"
  by (simp add: mail_outcome_def split: option.split)

lemma form_outcome_status: "fst (form_outcome env dest) \<in> {''sent'', ''failed''}"
  using post_outcome_status [of env "''webhook_form''" dest dest]
  by (simp add: form_outcome_def Let_def split: option.split)

lemma webhook_outcome_status: "fst (webhook_outcome env dest) \<in> {''sent'', ''failed''}"
  using post_outcome_status [of env] by (simp add: webhook_outcome_def split: option.split)

lemma portal_outcome_status: "fst (portal_outcome env dest) \<in> {''sent'', ''failed'', ''skipped''}"
  using post_outcome_status [of env "''portal''" dest] by (auto simp: portal_outcome_def Let_def split: option.split)

lemma dispatch_status: "fst (dispatch env allFailed hasPreview d) \<in> {''sent'', ''failed'', ''skipped''}"
proof -
  note status = webhook_outcome_status mail_outcome_status form_outcome_status
  have "fst x \<in> {''sent'', ''failed'', ''skipped''}" if "fst x \<in> {''sent'', ''failed''}" for x :: "string \<times> string"
    using that by blast
  note status [THEN this, simp]
  show ?thesis
    unfolding dispatch_def Let_def using portal_outcome_status by (auto simp del: insert_iff)
qed

lemma dispatch_failure_mail:
  "nd_Type d = ''email_full_failure'' \<Longrightarrow> fst (dispatch env False hasPreview d) = ''skipped''"
  by (simp add: dispatch_def)

definition delivery :: "time \<Rightarrow> notify_env \<Rightarrow> NotifyFaxResults \<Rightarrow> bool \<Rightarrow> NotifyDestination \<Rightarrow> FaxJobResult" where
  "delivery now env nfr hasPreview d =
     notify_row now now (nf_FaxJob nfr) d (dispatch env (nf_AllAttemptsFailed nfr) hasPreview d)"

fun numbered :: "nat \<Rightarrow> FaxJobResult list \<Rightarrow> FaxJobResult list" where
  "numbered n [] = []"
| "numbered n (r # rs) = r\<lparr>jr_ID := n\<rparr> # numbered (Suc n) rs"

lemma length_numbered [simp]: "length (numbered n rs) = length rs"
  by (induction n rs rule: numbered.induct) simp_all

lemma numbered_nth: "i < length rs \<Longrightarrow> numbered n rs ! i = (rs ! i)\<lparr>jr_ID := n + i\<rparr>"
  by (induction n rs arbitrary: i rule: numbered.induct) (auto simp: nth_Cons split: nat.split)

lemma record_all:
  "rt_rows (fold (\<lambda>d. recordNotifyDelivery False now now (nf_FaxJob nfr) d
       (dispatch env (nf_AllAttemptsFailed nfr) hasPreview d)) ds t)
   = rt_rows t @ numbered (rt_next t) (map (delivery now env nfr hasPreview) ds)"
  by (induction ds arbitrary: t) (simp_all add: recordNotifyDelivery_def delivery_def)

lemma delivery_fields:
  "jr_JobUUID (delivery now env nfr hp d) = fj_UUID (nf_FaxJob nfr)"
  "jr_ResultType (delivery now env nfr hp d) = ''notify''"
  "jr_EndpointType (delivery now env nfr hp d) = nd_Type d"
  "jr_Status (delivery now env nfr hp d) = fst (dispatch env (nf_AllAttemptsFailed nfr) hp d)"
  "jr_Success (delivery now env nfr hp d) \<longleftrightarrow> fst (dispatch env (nf_AllAttemptsFailed nfr) hp d) = ''sent''"
  by (simp_all add: delivery_def notify_row_def)

text \<open>Once the report is drawn, every destination of the list gets exactly one stored leg, in its
  place: of its type, with one of the three outcomes, a success exactly when it was sent; and a mail wanted
  only for failed jobs is skipped unless every attempt failed.\<close>

theorem one_leg_per_destination:
  assumes "ne_report env = None"
  shows "\<exists>legs. rt_rows (processNotifyDestinationsAsync env False now nfr ds hasPreview t) = rt_rows t @ legs
    \<and> length legs = length ds
    \<and> (\<forall>i < length ds. jr_ResultType (legs ! i) = ''notify'' \<and> jr_EndpointType (legs ! i) = nd_Type (ds ! i)
        \<and> jr_JobUUID (legs ! i) = fj_UUID (nf_FaxJob nfr)
        \<and> jr_Status (legs ! i) \<in> {''sent'', ''failed'', ''skipped''}
        \<and> jr_Success (legs ! i) = (jr_Status (legs ! i) = ''sent'')
        \<and> (nd_Type (ds ! i) = ''email_full_failure'' \<and> \<not> nf_AllAttemptsFailed nfr
             \<longrightarrow> jr_Status (legs ! i) = ''skipped''))"
proof (intro exI conjI allI impI)
  let ?legs = "numbered (rt_next t) (map (delivery now env nfr hasPreview) ds)"
  show "rt_rows (processNotifyDestinationsAsync env False now nfr ds hasPreview t) = rt_rows t @ ?legs"
    using assms by (simp add: processNotifyDestinationsAsync_def record_all)
qed (use dispatch_status dispatch_failure_mail in \<open>simp_all add: numbered_nth delivery_fields\<close>)


section \<open>Properties: the report and the mail\<close>

lemma fit_loop_fits: "width (fit_loop width w s @ ''...'') \<le> w \<or> fit_loop width w s = []"
  by (induction width w s rule: fit_loop.induct) (subst (1 2) fit_loop.simps, auto)

lemma fit_loop_prefix: "prefix (fit_loop width w s) s"
proof (induction width w s rule: fit_loop.induct)
  case (1 width w s)
  show ?case
  proof (cases "width (s @ ''...'') > w \<and> s \<noteq> []")
    case True
    then show ?thesis
      using 1 prefix_order.trans [OF _ prefixeq_butlast] by (subst fit_loop.simps) auto
  next
    case False
    then show ?thesis
      by (subst fit_loop.simps) auto
  qed
qed

text \<open>The text put in a cell of the report fits its width, except that the bare ellipsis is always
  put; it is the text itself, or a beginning of it and the ellipsis. The loop ends for every measure.\<close>

theorem fitText_fits:
  "(width (fitText width s w) \<le> w \<or> fitText width s w = ''...'')
   \<and> (fitText width s w = s \<or> (\<exists>p. prefix p s \<and> fitText width s w = p @ ''...''))"
  using fit_loop_fits [of width w s] fit_loop_prefix [of width w s] by (auto simp: fitText_def)

lemma chunks_concat: "0 < n \<Longrightarrow> concat (chunks n s) = s"
proof (induction n s rule: chunks.induct)
  case (1 n s)
  then show ?case
    by (subst chunks.simps) auto
qed

lemma chunks_length: "l \<in> set (chunks n s) \<Longrightarrow> length l \<le> n"
proof (induction n s rule: chunks.induct)
  case (1 n s)
  then show ?case
    by (subst (asm) (2) chunks.simps) (auto split: if_splits)
qed

text \<open>The lines of an attachment put together are its encoding, and none is longer than 76 characters.\<close>

theorem attachment_lines:
  "concat (chunks 76 e) = e \<and> list_all (\<lambda>l. length l \<le> 76) (chunks 76 e)"
  using chunks_concat [of 76 e] chunks_length [of _ 76 e] by (auto simp: list.pred_set)

lemma rcpt_all_error:
  "\<exists>r \<in> set rs. se_rcpt env r \<noteq> None \<Longrightarrow> \<exists>cmds e. rcpt_all env rs = (cmds, Some e) \<and> (\<forall>m. Data m \<notin> set cmds)"
proof (induction rs)
  case (Cons r rs)
  then show ?case
    by (cases "se_rcpt env r") fastforce+
qed simp

lemma rcpt_all_ok:
  "\<forall>r \<in> set rs. se_rcpt env r = None \<Longrightarrow> rcpt_all env rs = (map Rcpt rs, None)"
  by (induction rs) auto

lemma rcpt_all_no_data: "Data m \<notin> set (fst (rcpt_all env rs))"
  by (induction rs) (auto split: option.split prod.split)

lemma tls_session_sends:
  "tls_session env rs msg = (cmds, None) \<Longrightarrow> cmds = map Rcpt rs @ [Data msg] \<and> (\<forall>r \<in> set rs. se_rcpt env r = None)"
  using rcpt_all_error [of rs env] rcpt_all_ok [of rs env]
  by (cases "\<forall>r \<in> set rs. se_rcpt env r = None")
    (fastforce simp: tls_session_def split: option.splits prod.splits)+

text \<open>One blank address between separators, as in \<open>a; ;b\<close>, loses the mail for everyone when the
  server refuses an empty recipient: over TLS the session ends in an error before the message is handed over,
  although the address list itself has only valid recipients.\<close>

theorem blank_recipient_loses_mail:
  assumes "to_lower (se_encryption env) = ''tls''" "se_rcpt env [] \<noteq> None"
    and "list_all (\<lambda>c. \<not> address_sep c) a" "list_all (\<lambda>c. \<not> address_sep c) b" "a \<noteq> []" "b \<noteq> []"
  shows "let (cmds, err) = SendEmailWithAttachment env order from subject (a @ ''; ;'' @ b) body paths
    in err \<noteq> None \<and> (\<forall>m. Data m \<notin> set cmds)"
proof -
  have sep: "address_sep CHR '';''" "\<not> address_sep CHR '' ''"
    by (simp_all add: address_sep_def)
  have "fields_on address_sep [] (a @ CHR '';'' # '' '' @ CHR '';'' # b) = [a, '' '', b]"
    using assms(3-6) sep fields_on_plain [of address_sep b "[]" "[]"]
    by (simp add: fields_on_head [OF assms(3,5)] fields_on_head [of address_sep "'' ''"] del: append_Cons)
  then have "[] \<in> set (envelope_recipients (a @ ''; ;'' @ b))"
    by (simp add: envelope_recipients_def trim_space_def space_codes_def)
  then obtain cmds e where "rcpt_all env (envelope_recipients (a @ ''; ;'' @ b)) = (cmds, Some e)"
    "\<forall>m. Data m \<notin> set cmds"
    using rcpt_all_error assms(2) by metis
  then show ?thesis
    using assms(1) by (simp add: SendEmailWithAttachment_def tls_session_def Let_def split: sum.split option.split)
qed

section \<open>Sample values\<close>

definition sample_destinations :: "NotifyDestination list" where
  "sample_destinations = [\<lparr>nd_Type = ''email_report'', nd_Destination = ''a@x.org, b@x.org''\<rparr>,
     \<lparr>nd_Type = ''portal'', nd_Destination = ''desk''\<rparr>]"

lemma notify_string_roundtrip_witness:
  "parseNotifyString ''email_report->a@x.org, b@x.org,portal->desk'' = (sample_destinations, [])"
proof -
  have "\<forall>d \<in> set sample_destinations. clean_dest d"
    by code_simp
  from notify_string_roundtrip [OF this] show ?thesis
    by (simp add: sample_destinations_def dest_key_def)
qed

definition mail_server :: Server where
  "mail_server = sample_server
     \<lparr>sv_TenantNumbers := [(''100'', sample_number\<lparr>tn_Notify := ''email_report->A@x.org;b@x.org''\<rparr>)],
      sv_Tenants := [(3, sample_tenant\<lparr>te_Notify := ''email_full->a@x.org,portal->desk''\<rparr>)]\<rparr>"

definition mail_job :: FaxJob where
  "mail_job = zero_FaxJob\<lparr>fj_UUID := 4, fj_CalleeNumber := ''100'', fj_DstTenantID := 3\<rparr>"

lemma bridge_notifies_nobody_witness:
  "processNotifyDestinations mail_server (mail_job\<lparr>fj_IsBridge := True\<rparr>) = []"
  by (rule bridge_notifies_nobody) simp

definition sample_results :: NotifyFaxResults where
  "sample_results = \<lparr>nf_Results =
       [(1, zero_FaxJob\<lparr>fj_Result := Some (empty_FaxResult\<lparr>fr_TransferredPages := 2\<rparr>)\<rparr>),
        (2, zero_FaxJob\<lparr>fj_Result := Some (empty_FaxResult\<lparr>fr_Success := True\<rparr>)\<rparr>)],
     nf_FaxJob = mail_job, nf_AllAttemptsFailed = False\<rparr>"

lemma outcome_order_independent_witness:
  "pp_Success (buildPortalStatusPayload sample_results)
   = pp_Success (buildPortalStatusPayload (sample_results\<lparr>nf_Results := rev (nf_Results sample_results)\<rparr>))
   \<and> pp_Success (buildPortalStatusPayload sample_results)"
proof -
  have "\<forall>x \<in> snd ` set (nf_Results sample_results). call_hit x = None"
    by (simp add: sample_results_def call_hit_def is_call_leg_def zero_FaxJob_def)
  then show ?thesis
    using outcome_order_independent [of sample_results "sample_results\<lparr>nf_Results := rev (nf_Results sample_results)\<rparr>"]
    by (simp add: payload_fields)
      (simp add: outcome_ok_def sample_results_def call_hit_def is_call_leg_def zero_FaxJob_def)
qed

definition sample_notify_env :: notify_env where
  "sample_notify_env = \<lparr>ne_report = None, ne_mail = (\<lambda>_ _. None), ne_tiffToPdf = None, ne_readReport = None,
     ne_marshal = None, ne_openPreview = None, ne_createPart = None, ne_copyPart = None,
     ne_closeForm = None, ne_newRequest = (\<lambda>_. None), ne_post = (\<lambda>_. Inr 503), ne_portalURL = ''http://p''\<rparr>"

lemma one_leg_per_destination_witness:
  "\<exists>legs. rt_rows (processNotifyDestinationsAsync sample_notify_env False 5 sample_results sample_destinations False empty_table) = legs
    \<and> map jr_EndpointType legs = [''email_report'', ''portal'']"
proof -
  have "ne_report sample_notify_env = None"
    by (simp add: sample_notify_env_def)
  have two: "length sample_destinations = 2"
    by (simp add: sample_destinations_def)
  from one_leg_per_destination [OF \<open>ne_report sample_notify_env = None\<close>, of 5 sample_results sample_destinations False empty_table]
  obtain legs where "rt_rows (processNotifyDestinationsAsync sample_notify_env False 5 sample_results
        sample_destinations False empty_table) = legs"
    "length legs = 2" "\<forall>i < 2. jr_EndpointType (legs ! i) = nd_Type (sample_destinations ! i)"
    using two by (auto simp: empty_table_def)
  moreover from this have "map jr_EndpointType legs = map nd_Type sample_destinations"
    using two by (intro nth_equalityI) simp_all
  ultimately show ?thesis
    by (auto simp: sample_destinations_def)
qed


definition sample_smtp :: smtp_env where
  "sample_smtp = \<lparr>se_read = (\<lambda>p. Inr \<lparr>at_name = p, at_encoded = ''QUJD''\<rparr>), se_encryption = ''TLS'', se_dial = None,
     se_client = None, se_auth = None, se_mail = None, se_rcpt = (\<lambda>r. if r = [] then Some ''501'' else None),
     se_data = None, se_send = (\<lambda>_. None)\<rparr>"

lemma blank_recipient_loses_mail_witness:
  "snd (SendEmailWithAttachment sample_smtp id ''fax'' ''s'' ''a@x.org; ;b@x.org'' ''body'' [''r.pdf'']) \<noteq> None"
proof -
  have "to_lower (se_encryption sample_smtp) = ''tls''" "se_rcpt sample_smtp [] \<noteq> None"
    "list_all (\<lambda>c. \<not> address_sep c) ''a@x.org''" "list_all (\<lambda>c. \<not> address_sep c) ''b@x.org''"
    by code_simp+
  from blank_recipient_loses_mail [OF this, of id "''fax''" "''s''" "''body''" "[''r.pdf'']"]
  show ?thesis
    by (simp add: split_beta)
qed

end
