(* ===== verification/Fax_Queue.thy ===== *)
theory Fax_Queue
  imports Fax_Outbound Fax_Tracker Fax_Router Fax_Notify "HOL-Library.Monad_Syntax"
begin

text \<open>
  The worker of a queued job (\<open>gofaxserver/queue.go\<close>): endpoints grouped by type and priority,
  the two gateway strategies, webhook and portal delivery, the retries with their back-off, and
  the end of the job with its notifications.

  A state \<open>'w\<close> of the outside world is threaded through the clock, the generators, the sleeping,
  the calls and the requests. \<open>None\<close> means that the process has panicked or that a call never
  returns. The goroutines of the endpoint types run one after another here, in an order that is an
  argument; a result handed to the storage goroutine is a value.
\<close>

section \<open>State\<close>

record FaxJobWithFile =
  fw_FaxJob :: FaxJob
  fw_FileData :: string
  fw_CallSuccess :: bool
  fw_CallPartial :: bool
  fw_CallTotalPages :: nat
  fw_CallHangupCause :: string
  fw_CallResultText :: string

text \<open>The request of one delivery: its URL, its body and the headers that depend on the attempt.\<close>

record delivery_request =
  dr_url :: string
  dr_body :: FaxJobWithFile
  dr_FaxUUID :: uuid
  dr_CallUUID :: uuid
  dr_attempt :: int
  dr_api_key :: "string option"

text \<open>The outside world. \<open>qe_pdf\<close> is the path of the converted file, \<open>qe_read\<close> its encoded content,
  an error being \<open>None\<close>; \<open>qe_send\<close> answers like \<open>SendFax\<close>, with \<open>True\<close> for a nil error.\<close>

record 'w queue_env =
  qe_cfg :: FaxingConfig
  qe_server :: Server
  qe_rules :: "TransformationRule list"
  qe_now :: "'w \<Rightarrow> time \<times> 'w"
  qe_uuid :: "'w \<Rightarrow> uuid \<times> 'w"
  qe_Int63n :: "int \<Rightarrow> 'w \<Rightarrow> int \<times> 'w"
  qe_sleep :: "duration \<Rightarrow> 'w \<Rightarrow> 'w"
  qe_send :: "FaxJob \<Rightarrow> 'w \<Rightarrow> (FaxJob \<times> SendResult \<times> bool \<times> 'w) option"
  qe_pdf :: "string \<Rightarrow> 'w \<Rightarrow> string option \<times> 'w"
  qe_read :: "string \<Rightarrow> 'w \<Rightarrow> string option \<times> 'w"
  qe_marshal :: "FaxJobWithFile \<Rightarrow> bool"
  qe_request :: "string \<Rightarrow> bool"
  qe_post :: "delivery_request \<Rightarrow> 'w \<Rightarrow> (string + nat) \<times> 'w"
  qe_preview :: "string \<Rightarrow> 'w \<Rightarrow> bool \<times> 'w"
  qe_notify :: notify_env
  qe_notify_fails :: bool

text \<open>What the worker changes, with two logs of what it did: the tries it marked (endpoint type,
  priority, number) and the delays it slept.\<close>

record 'w queue_state =
  qs_world :: 'w
  qs_tracker :: FaxTracker
  qs_table :: ResultTable
  qs_sent :: "FaxJob list"
  qs_results :: "(uuid \<times> FaxJob) list"
  qs_tries :: "(string \<times> nat \<times> int) list"
  qs_sleeps :: "duration list"

section \<open>Small parts\<close>

definition isGlobalUpstreamGatewayGroup :: "Endpoint list \<Rightarrow> bool" where
  "isGlobalUpstreamGatewayGroup eps \<longleftrightarrow> eps \<noteq> [] \<and>
     list_all (\<lambda>ep. equal_fold (ep_Type ep) ''global'' \<and> ep_TypeID ep = 0
       \<and> equal_fold (ep_EndpointType ep) ''gateway'') eps"

definition endpointBrief :: "Endpoint \<Rightarrow> string \<times> string \<times> string" where
  "endpointBrief ep = (ep_EndpointType ep, ep_Type ep, ep_Endpoint ep)"

definition retry_attempts :: "FaxingConfig \<Rightarrow> int" where
  "retry_attempts cfg = (case atoi (cf_RetryAttempts cfg) of
     Some n \<Rightarrow> if n > 0 then n else 3 | None \<Rightarrow> 3)"

definition base_delay :: "FaxingConfig \<Rightarrow> duration" where
  "base_delay cfg = (case parseDurationSMHD (cf_RetryDelay cfg) of
     Some d \<Rightarrow> if d > 0 then d else Minute | None \<Rightarrow> Minute)"

definition max_delay :: duration where
  "max_delay = 60 * Second"

definition isRetriableStatus :: "nat \<Rightarrow> bool" where
  "isRetriableStatus code \<longleftrightarrow> code = 408 \<or> code = 429 \<or> 500 \<le> code \<and> code \<le> 599"

text \<open>The groups of a type by priority, and the order of the priorities: 999 is last.\<close>

definition type_group :: "FaxJob \<Rightarrow> string \<Rightarrow> nat \<Rightarrow> Endpoint list" where
  "type_group f ty prio = filter (\<lambda>ep. ep_EndpointType ep = ty \<and> ep_Priority ep = prio) (fj_Endpoints f)"

definition type_prios :: "FaxJob \<Rightarrow> string \<Rightarrow> nat list" where
  "type_prios f ty = remdups (map ep_Priority (filter (\<lambda>ep. ep_EndpointType ep = ty) (fj_Endpoints f)))"

definition prio_less :: "nat \<Rightarrow> nat \<Rightarrow> bool" where
  "prio_less a b \<longleftrightarrow> (if a = 999 \<and> b \<noteq> 999 then False else if b = 999 \<and> a \<noteq> 999 then True else a < b)"

definition computeAllAttemptsFailed :: "FaxJob \<Rightarrow> (uuid \<times> FaxJob) list \<Rightarrow> bool" where
  "computeAllAttemptsFailed f results =
    (case fj_Result f of
       Some r \<Rightarrow> if \<not> fj_IsBridge f \<and> si_SourceType (fj_SourceInfo f) = ''gateway'' \<and> \<not> isPlaceholderResult f
                 then \<not> fr_Success r
                 else \<not> list_ex (\<lambda>(_, a). case fj_Result a of None \<Rightarrow> False | Some r \<Rightarrow> fr_Success r) results
     | None \<Rightarrow> \<not> list_ex (\<lambda>(_, a). case fj_Result a of None \<Rightarrow> False | Some r \<Rightarrow> fr_Success r) results)"

section \<open>Results\<close>

definition now_of :: "'w queue_env \<Rightarrow> 'w queue_state \<Rightarrow> time \<times> 'w queue_state" where
  "now_of env s = (let (t, w) = qe_now env (qs_world s) in (t, s\<lparr>qs_world := w\<rparr>))"

definition sendResult :: "FaxJob \<Rightarrow> 'w queue_state \<Rightarrow> 'w queue_state" where
  "sendResult ff s = s\<lparr>qs_sent := qs_sent s @ [ff], qs_results := AList.update (fj_CallUUID ff) ff (qs_results s)\<rparr>"

definition snapshotCallOutcome :: "FaxJob \<Rightarrow> 'w queue_state \<Rightarrow> 'w queue_state" where
  "snapshotCallOutcome f s =
    (if fj_Result f = None \<or> isPlaceholderResult f then s
     else
       let c = f\<lparr>fj_CallUUID := (if fj_CallUUID f = uuid_Nil then fj_UUID f else fj_CallUUID f),
                 fj_Endpoints := [zero_Endpoint\<lparr>ep_EndpointType :=
                    (if fj_IsBridge f then ''bridge'' else ''reception'')\<rparr>]\<rparr>
       in s\<lparr>qs_results := AList.update (fj_CallUUID c) c (qs_results s)\<rparr>)"

text \<open>The job of a notify-only run: no endpoints, and the outcome of a bridge inferred.\<close>

definition notify_only :: "FaxJob \<Rightarrow> FaxJob" where
  "notify_only f =
    (let f1 = (case fj_Result f of
        None \<Rightarrow> f
      | Some r \<Rightarrow>
          if fj_IsBridge f \<and> \<not> fr_Success r \<and> fr_HangupCause r = ''NORMAL_CLEARING''
          then f\<lparr>fj_Result := Some (r\<lparr>fr_Success := True,
                 fr_ResultText := (if fr_ResultText r = [] then ''Bridge completed'' else fr_ResultText r)\<rparr>)\<rparr>
          else f)
     in f1\<lparr>fj_Endpoints := []\<rparr>)"

definition stamp :: "FaxJob \<Rightarrow> time \<Rightarrow> time \<Rightarrow> bool \<Rightarrow> string \<Rightarrow> FaxJob" where
  "stamp ff start now success human =
    (let r = (case fj_Result ff of None \<Rightarrow> empty_FaxResult | Some r \<Rightarrow> r)
     in ff\<lparr>fj_Result := Some (r\<lparr>fr_UUID := fj_CallUUID ff, fr_Success := success, fr_StartTs := start, fr_EndTs := now\<rparr>),
           fj_Status := (if human \<noteq> [] \<and> (success \<or> fr_HangupCause r = []) then human else fj_Status ff)\<rparr>)"

definition stampAndSend ::
    "'w queue_env \<Rightarrow> time \<Rightarrow> bool \<Rightarrow> string \<Rightarrow> FaxJob \<Rightarrow> 'w queue_state \<Rightarrow> FaxJob \<times> 'w queue_state" where
  "stampAndSend env start success human ff s =
    (let (t, s1) = now_of env s; ff1 = stamp ff start t success human in (ff1, sendResult ff1 s1))"

section \<open>Retries\<close>

text \<open>One try answers whether it succeeded, whether a failure may be retried, the job copy it worked on
  and the state.\<close>

type_synonym 'w try_result = "(bool \<times> bool \<times> FaxJob \<times> 'w queue_state) option"

text \<open>The delay after a failed try, capped; \<open>rand.Int63n\<close> panics unless its argument is positive.\<close>

definition backoff_sleep :: "duration \<Rightarrow> int \<Rightarrow> duration" where
  "backoff_sleep delay r = min max_delay (wrap64 (delay + wrap64 (r - delay div 10)))"

definition next_delay :: "duration \<Rightarrow> duration" where
  "next_delay delay = min max_delay (wrap64 (2 * delay))"

definition wait_retry :: "'w queue_env \<Rightarrow> uuid \<Rightarrow> duration \<Rightarrow> 'w queue_state \<Rightarrow> 'w queue_state option" where
  "wait_retry env job delay s =
    (if delay div 5 \<le> 0 then None
     else
       let (r, w) = qe_Int63n env (delay div 5) (qs_world s);
           sleep = backoff_sleep delay r;
           (t, s1) = now_of env (s\<lparr>qs_world := w\<rparr>)
       in Some (s1\<lparr>qs_world := qe_sleep env sleep (qs_world s1),
                   qs_tracker := MarkWaiting t job (qs_tracker s1), qs_sleeps := qs_sleeps s1 @ [sleep]\<rparr>))"

text \<open>\<open>retryWithBackoff\<close> with \<open>left\<close> tries left; the context is never cancelled.\<close>

fun retryWithBackoff ::
    "'w queue_env \<Rightarrow> uuid \<Rightarrow> (int \<Rightarrow> FaxJob \<Rightarrow> 'w queue_state \<Rightarrow> 'w try_result) \<Rightarrow> nat \<Rightarrow> int \<Rightarrow> duration \<Rightarrow>
     FaxJob \<Rightarrow> 'w queue_state \<Rightarrow> (bool \<times> 'w queue_state) option" where
  "retryWithBackoff env job fn 0 attempt delay ff s = Some (False, s)"
| "retryWithBackoff env job fn (Suc left) attempt delay ff s =
    do {
      (ok, retriable, ff1, s1) \<leftarrow> fn attempt ff s;
      if ok then Some (True, s1)
      else if \<not> retriable \<or> left = 0 then Some (False, s1)
      else do {
        s2 \<leftarrow> wait_retry env job delay s1;
        retryWithBackoff env job fn left (attempt + 1) (next_delay delay) ff1 s2
      }
    }"

definition retrying ::
    "'w queue_env \<Rightarrow> FaxJob \<Rightarrow> (int \<Rightarrow> FaxJob \<Rightarrow> 'w queue_state \<Rightarrow> 'w try_result) \<Rightarrow> FaxJob \<Rightarrow>
     'w queue_state \<Rightarrow> (bool \<times> 'w queue_state) option" where
  "retrying env f fn = retryWithBackoff env (fj_UUID f) fn (nat (retry_attempts (qe_cfg env))) 1 (base_delay (qe_cfg env))"

text \<open>The start of a try: a fresh result and call, made known to the tracker.\<close>

definition begin_try ::
    "'w queue_env \<Rightarrow> FaxJob \<Rightarrow> nat \<Rightarrow> Endpoint \<Rightarrow> int \<Rightarrow> FaxJob \<Rightarrow> 'w queue_state \<Rightarrow> FaxJob \<times> 'w queue_state" where
  "begin_try env f prio ep attempt ff s =
    (let (u, w) = qe_uuid env (qs_world s);
         ff1 = ff\<lparr>fj_Result := Some empty_FaxResult, fj_CallUUID := u\<rparr>;
         (t1, s1) = now_of env (s\<lparr>qs_world := w\<rparr>);
         (t2, s2) = now_of env (s1\<lparr>qs_tracker := SetCall t1 (fj_UUID f) u (qs_tracker s1)\<rparr>);
         (epTy, epLbl, epVal) = endpointBrief ep
     in (ff1, s2\<lparr>qs_tracker := MarkAttempt t2 (fj_UUID f) u attempt (retry_attempts (qe_cfg env)) prio
                   epTy epLbl epVal (qs_tracker s2),
                 qs_tries := qs_tries s2 @ [(epTy, prio, attempt)]\<rparr>))"

section \<open>Gateways\<close>

text \<open>What the worker makes of the sender's answer: success, retriable, the status it stamps, and the job.
  The last case, no error and no success, does not happen with \<open>SendFax\<close>.\<close>

definition gateway_answer :: "FaxJob \<Rightarrow> SendResult \<Rightarrow> bool \<Rightarrow> bool \<times> bool \<times> string \<times> FaxJob" where
  "gateway_answer ff returned ok =
    (if \<not> ok then
       (False, returned = SendRetry, ''send error'',
        case fj_Result ff of
          Some r \<Rightarrow> if returned \<noteq> SendRetry \<and> fr_HangupCause r = []
                    then ff\<lparr>fj_Result := Some (r\<lparr>fr_HangupCause := fj_Status ff\<rparr>)\<rparr> else ff
        | None \<Rightarrow> ff)
     else if (case fj_Result ff of Some r \<Rightarrow> fr_Success r | None \<Rightarrow> False) then (True, False, [], ff)
     else (False, True, ''gateway failure'', ff))"

text \<open>\<open>sendOnce\<close> and \<open>sendOne\<close>: one call, its result stored.\<close>

definition sendOne ::
    "'w queue_env \<Rightarrow> FaxJob \<Rightarrow> nat \<Rightarrow> Endpoint \<Rightarrow> int \<Rightarrow> FaxJob \<Rightarrow> 'w queue_state \<Rightarrow> 'w try_result" where
  "sendOne env f prio ep attempt ff s =
    (let (ff1, s1) = begin_try env f prio ep attempt (escalateRetryChain (cf_Policy (qe_cfg env)) attempt ff) s;
         (start, s2) = now_of env s1
     in do {
       (ff2, returned, sent, w) \<leftarrow> qe_send env ff1 (qs_world s2);
       let (ok, retri, human, ff3) = gateway_answer ff2 returned sent;
           (ff4, s4) = stampAndSend env start ok human ff3 (s2\<lparr>qs_world := w\<rparr>)
       in Some (ok, retri, ff4, s4)
     })"

text \<open>Strategy B: the endpoints of a group in turn, up to the first success.\<close>

fun send_each ::
    "'w queue_env \<Rightarrow> FaxJob \<Rightarrow> nat \<Rightarrow> Endpoint list \<Rightarrow> 'w queue_state \<Rightarrow> (bool \<times> 'w queue_state) option" where
  "send_each env f prio [] s = Some (False, s)"
| "send_each env f prio (ep # eps) s =
    do {
      (ok, s1) \<leftarrow> retrying env f (sendOne env f prio ep)
        (f\<lparr>fj_Endpoints := [ep], fj_Result := Some empty_FaxResult, fj_Gateway := gatewayLabel ep\<rparr>) s;
      if ok then Some (True, s1) else send_each env f prio eps s1
    }"

definition upstream_batch :: "Server \<Rightarrow> Endpoint" where
  "upstream_batch sv = zero_Endpoint\<lparr>ep_Type := ''global'', ep_EndpointType := ''gateway'',
     ep_Endpoint := join '','' (sv_UpstreamFsGateways sv)\<rparr>"

definition bridge_enabled :: "'w queue_env \<Rightarrow> FaxJob \<Rightarrow> bool" where
  "bridge_enabled env f \<longleftrightarrow> detectAndRouteToBridge (qe_server env)
     (ApplyTransformationRules (qe_rules env) (fj_CalleeNumber f))
     (ApplyTransformationRules (qe_rules env) (fj_CallerIdNumber f)) (si_Source (fj_SourceInfo f)) \<noteq> None"

definition gateway_group ::
    "'w queue_env \<Rightarrow> FaxJob \<Rightarrow> nat \<Rightarrow> Endpoint list \<Rightarrow> 'w queue_state \<Rightarrow> (bool \<times> 'w queue_state) option" where
  "gateway_group env f prio eps s =
    (if isGlobalUpstreamGatewayGroup eps then
       let ff = f\<lparr>fj_Result := Some empty_FaxResult\<rparr>;
           try1 = sendOne env f prio (upstream_batch (qe_server env))
       in if bridge_enabled env f
          then do { (ok, _, _, s1) \<leftarrow> try1 (-1) ff s; Some (ok, s1) }
          else retrying env f try1 ff s
     else send_each env f prio eps s)"

section \<open>Webhooks and the portal\<close>

text \<open>The payload file of a group: the path of the PDF and its encoded content, empty after an error.\<close>

definition prepare_payload :: "'w queue_env \<Rightarrow> FaxJob \<Rightarrow> 'w queue_state \<Rightarrow> (string \<times> string) \<times> 'w queue_state" where
  "prepare_payload env f s =
    (case qe_pdf env (fj_FileName f) (qs_world s) of
       (None, w) \<Rightarrow> (([], []), s\<lparr>qs_world := w\<rparr>)
     | (Some pdf, w) \<Rightarrow> (case qe_read env pdf w of
           (None, w) \<Rightarrow> ((pdf, []), s\<lparr>qs_world := w\<rparr>)
         | (Some b64, w) \<Rightarrow> ((pdf, b64), s\<lparr>qs_world := w\<rparr>)))"

text \<open>The copy of the job for one endpoint and the call's outcome that travels with it.\<close>

definition delivery_copy :: "FaxJob \<Rightarrow> Endpoint \<Rightarrow> FaxJob" where
  "delivery_copy f ep =
    (let ff = f\<lparr>fj_Endpoints := [ep], fj_Result := Some empty_FaxResult\<rparr>
     in case fj_Result f of
          Some r \<Rightarrow> if isPlaceholderResult f then ff else ff\<lparr>fj_NPages := wrap64 (int (fr_TransferredPages r))\<rparr>
        | None \<Rightarrow> ff)"

definition delivery_payload :: "FaxJob \<Rightarrow> string \<Rightarrow> FaxJob \<Rightarrow> FaxJobWithFile" where
  "delivery_payload f b64 ff =
    (let bare = \<lparr>fw_FaxJob = ff, fw_FileData = b64, fw_CallSuccess = False, fw_CallPartial = False,
                 fw_CallTotalPages = 0, fw_CallHangupCause = [], fw_CallResultText = []\<rparr>
     in case fj_Result f of
          Some r \<Rightarrow>
            if isPlaceholderResult f then bare
            else bare\<lparr>fw_CallSuccess := fr_Success r,
                      fw_CallPartial := \<not> fr_Success r \<and> fr_TransferredPages r > 0,
                      fw_CallTotalPages := fr_TotalPages r, fw_CallHangupCause := fr_HangupCause r,
                      fw_CallResultText := fr_ResultText r\<rparr>
        | None \<Rightarrow> bare)"

definition resolveURL :: "'w queue_env \<Rightarrow> string \<Rightarrow> Endpoint \<Rightarrow> string" where
  "resolveURL env ty ep =
    (if ty = ''portal'' then trim_slashes (cf_PortalURL (qe_cfg env)) @ ''/portal/api/inbound/'' @ ep_Endpoint ep
     else ep_Endpoint ep)"

text \<open>One delivery: success, retriable, the status to stamp, the job and the state. A payload that is not
  there ends the try before it gets a call of its own.\<close>

definition webhook_answer ::
    "'w queue_env \<Rightarrow> FaxJob \<Rightarrow> string \<Rightarrow> nat \<Rightarrow> string \<times> string \<Rightarrow> Endpoint \<Rightarrow> int \<Rightarrow> FaxJob \<Rightarrow>
     'w queue_state \<Rightarrow> bool \<times> bool \<times> string \<times> FaxJob \<times> 'w queue_state" where
  "webhook_answer env f ty prio payload ep attempt ff s =
    (if fst payload = [] \<or> snd payload = [] then (False, False, ty @ '' payload not prepared'', ff, s)
     else if \<not> qe_marshal env (delivery_payload f (snd payload) ff) then (False, False, ''marshal error'', ff, s)
     else
       let (ff1, s1) = begin_try env f prio ep attempt ff s; url = resolveURL env ty ep
       in if \<not> qe_request env url then (False, False, ''request creation error'', ff1, s1)
          else
            let (resp, w) = qe_post env
                  \<lparr>dr_url = url, dr_body = delivery_payload f (snd payload) ff, dr_FaxUUID = fj_UUID ff1,
                   dr_CallUUID = fj_CallUUID ff1, dr_attempt = attempt,
                   dr_api_key = (if ty = ''portal'' \<and> cf_PortalAPIKey (qe_cfg env) \<noteq> []
                                 then Some (cf_PortalAPIKey (qe_cfg env)) else None)\<rparr> (qs_world s1);
                s2 = s1\<lparr>qs_world := w\<rparr>
            in case resp of
                 Inl _ \<Rightarrow> (False, True, ty @ '' request error'', ff1, s2)
               | Inr code \<Rightarrow>
                   if 200 \<le> code \<and> code < 300 then (True, False, ''status '' @ itoa code, ff1, s2)
                   else (False, isRetriableStatus code, ''status '' @ itoa code, ff1, s2))"

definition sendWebhookOnce ::
    "'w queue_env \<Rightarrow> FaxJob \<Rightarrow> string \<Rightarrow> nat \<Rightarrow> string \<times> string \<Rightarrow> Endpoint \<Rightarrow> int \<Rightarrow> FaxJob \<Rightarrow>
     'w queue_state \<Rightarrow> 'w try_result" where
  "sendWebhookOnce env f ty prio payload ep attempt ff s =
    (let (start, s1) = now_of env s;
         (ok, retri, human, ff1, s2) = webhook_answer env f ty prio payload ep attempt ff s1;
         (ff2, s3) = stampAndSend env start ok human ff1 s2
     in Some (ok, retri, ff2, s3))"

fun deliver_each ::
    "'w queue_env \<Rightarrow> FaxJob \<Rightarrow> string \<Rightarrow> nat \<Rightarrow> string \<times> string \<Rightarrow> Endpoint list \<Rightarrow> 'w queue_state \<Rightarrow>
     (bool \<times> 'w queue_state) option" where
  "deliver_each env f ty prio payload [] s = Some (False, s)"
| "deliver_each env f ty prio payload (ep # eps) s =
    do {
      (ok, s1) \<leftarrow> retrying env f (sendWebhookOnce env f ty prio payload ep) (delivery_copy f ep) s;
      if ok then Some (True, s1) else deliver_each env f ty prio payload eps s1
    }"

section \<open>Groups and priorities\<close>

text \<open>One priority group: whether the type is done with, and the state. Only a delivered webhook or portal
  group ends the loop; the \<open>break\<close> of the gateway case leaves its \<open>switch\<close>.\<close>

definition run_group ::
    "'w queue_env \<Rightarrow> FaxJob \<Rightarrow> string \<Rightarrow> nat \<Rightarrow> 'w queue_state \<Rightarrow> (bool \<times> 'w queue_state) option" where
  "run_group env f ty prio s =
    (let eps = type_group f ty prio in
     if eps = [] then Some (False, s)
     else if ty = ''gateway'' then do { (ok, s1) \<leftarrow> gateway_group env f prio eps s; Some (False, s1) }
     else if ty = ''webhook'' \<or> ty = ''portal'' then
       (if ty = ''portal'' \<and> trim_slashes (cf_PortalURL (qe_cfg env)) = [] then Some (False, s)
        else let (payload, s1) = prepare_payload env f s in deliver_each env f ty prio payload eps s1)
     else Some (False, s))"

fun run_prios ::
    "'w queue_env \<Rightarrow> FaxJob \<Rightarrow> string \<Rightarrow> nat list \<Rightarrow> 'w queue_state \<Rightarrow> 'w queue_state option" where
  "run_prios env f ty [] s = Some s"
| "run_prios env f ty (p # ps) s =
    do { (stop, s1) \<leftarrow> run_group env f ty p s; if stop then Some s1 else run_prios env f ty ps s1 }"

definition run_type :: "'w queue_env \<Rightarrow> FaxJob \<Rightarrow> string \<Rightarrow> 'w queue_state \<Rightarrow> 'w queue_state option" where
  "run_type env f ty s = run_prios env f ty (stable_sort prio_less (type_prios f ty)) s"

fun run_types :: "'w queue_env \<Rightarrow> FaxJob \<Rightarrow> string list \<Rightarrow> 'w queue_state \<Rightarrow> 'w queue_state option" where
  "run_types env f [] s = Some s"
| "run_types env f (ty # tys) s = do { s1 \<leftarrow> run_type env f ty s; run_types env f tys s1 }"

section \<open>The job\<close>

text \<open>The end of the job: the verdict, the preview, the notifications.\<close>

definition finish_job :: "'w queue_env \<Rightarrow> FaxJob \<Rightarrow> 'w queue_state \<Rightarrow> 'w queue_state" where
  "finish_job env f s =
    (let failed = computeAllAttemptsFailed f (qs_results s);
         (preview, w) = qe_preview env (fj_FileName f) (qs_world s);
         s1 = s\<lparr>qs_world := w\<rparr>;
         silent = (fj_NotifyOnly f \<and> \<not> fj_IsBridge f \<and>
            (case fj_Result f of Some r \<Rightarrow> \<not> fr_Success r \<and> fr_TransferredPages r = 0 | None \<Rightarrow> False));
         (t, s2) = now_of env s1;
         table = (if silent then qs_table s2
            else processNotifyDestinationsAsync (qe_notify env) (qe_notify_fails env) t
                   \<lparr>nf_Results = qs_results s2, nf_FaxJob = f, nf_AllAttemptsFailed = failed\<rparr>
                   (processNotifyDestinations (qe_server env) f) preview (qs_table s2))
     in s2\<lparr>qs_table := table, qs_tracker := Complete (fj_UUID f) (qs_tracker s2)\<rparr>)"

definition begin_job :: "'w queue_env \<Rightarrow> bool \<Rightarrow> FaxJob \<Rightarrow> 'w queue_state \<Rightarrow> 'w queue_state" where
  "begin_job env markFails f s =
    (let (t1, s1) = now_of env s; (t2, s2) = now_of env s1
     in s2\<lparr>qs_tracker := Begin t1 f (qs_tracker s2),
           qs_table := markSubmissionProcessed t2 markFails (fj_UUID f) (qs_table s2), qs_results := []\<rparr>)"

text \<open>\<open>types\<close> lists the endpoint types of the job in the order in which they are run.\<close>

definition processFax ::
    "'w queue_env \<Rightarrow> bool \<Rightarrow> string list \<Rightarrow> FaxJob \<Rightarrow> 'w queue_state \<Rightarrow> 'w queue_state option" where
  "processFax env markFails types f0 s =
    (let s1 = begin_job env markFails f0 s; f = (if fj_NotifyOnly f0 then notify_only f0 else f0)
     in map_option (finish_job env f) (run_types env f types (snapshotCallOutcome f s1)))"

section \<open>Lemmas\<close>

subsection \<open>The work on a job as steps\<close>

text \<open>Everything the worker does to the state between the start of the job and its end.\<close>

inductive queue_step :: "FaxJob \<Rightarrow> 'w queue_state \<Rightarrow> 'w queue_state \<Rightarrow> bool" for f where
  st_world: "queue_step f s (s\<lparr>qs_world := w\<rparr>)"
| st_begin: "s' = s\<lparr>qs_tracker := MarkAttempt t2 (fj_UUID f) u a m p ty lb v
       (SetCall t1 (fj_UUID f) u (qs_tracker s)), qs_tries := qs_tries s @ [(ty, p, a)]\<rparr> \<Longrightarrow> queue_step f s s'"
| st_wait: "s' = s\<lparr>qs_tracker := MarkWaiting t (fj_UUID f) (qs_tracker s), qs_sleeps := qs_sleeps s @ [d]\<rparr> \<Longrightarrow>
     queue_step f s s'"
| st_result: "fj_UUID ff = fj_UUID f \<Longrightarrow> queue_step f s (sendResult ff s)"

lemma reach_one: "R s t \<Longrightarrow> reach R s t"
  by (rule reach.reach_step [OF reach.reach_start])

lemma reach_world: "reach (queue_step f) s (s'\<lparr>qs_world := w\<rparr>)" if "reach (queue_step f) s s'"
  using that st_world by (rule reach.reach_step)

lemma now_of_eq: "now_of env s = (fst (qe_now env (qs_world s)), s\<lparr>qs_world := snd (qe_now env (qs_world s))\<rparr>)"
  by (simp add: now_of_def split_beta)

lemma stamp_job [simp]:
  "fj_UUID (stamp ff start now ok human) = fj_UUID ff"
  "fj_CallUUID (stamp ff start now ok human) = fj_CallUUID ff"
  "fj_Endpoints (stamp ff start now ok human) = fj_Endpoints ff"
  by (simp_all add: stamp_def Let_def)

lemma stampAndSend_eq:
  "stampAndSend env start ok human ff s =
    (stamp ff start (fst (qe_now env (qs_world s))) ok human,
     sendResult (stamp ff start (fst (qe_now env (qs_world s))) ok human)
       (s\<lparr>qs_world := snd (qe_now env (qs_world s))\<rparr>))"
  by (simp add: stampAndSend_def now_of_eq Let_def)

lemma stampAndSend_reach:
  "stampAndSend env start ok human ff s = (ff', s') \<Longrightarrow> fj_UUID ff = fj_UUID f \<Longrightarrow>
   reach (queue_step f) s s' \<and> fj_UUID ff' = fj_UUID f"
  by (auto simp: stampAndSend_eq intro!: reach.reach_step [OF reach_world [OF reach.reach_start]] st_result)

lemma stamp_after:
  "stampAndSend env start ok human ff t = (ff', t') \<Longrightarrow> reach (queue_step f) s t \<and> fj_UUID ff = fj_UUID f \<Longrightarrow>
   reach (queue_step f) s t' \<and> fj_UUID ff' = fj_UUID f"
  using stampAndSend_reach reach_trans by metis

lemma begin_try_eq:
  "begin_try env f prio ep attempt ff s =
    (let u = fst (qe_uuid env (qs_world s)); w1 = snd (qe_uuid env (qs_world s));
         t1 = fst (qe_now env w1); w2 = snd (qe_now env w1); t2 = fst (qe_now env w2)
     in (ff\<lparr>fj_Result := Some empty_FaxResult, fj_CallUUID := u\<rparr>,
         s\<lparr>qs_world := snd (qe_now env w2),
           qs_tracker := MarkAttempt t2 (fj_UUID f) u attempt (retry_attempts (qe_cfg env)) prio
             (ep_EndpointType ep) (ep_Type ep) (ep_Endpoint ep) (SetCall t1 (fj_UUID f) u (qs_tracker s)),
           qs_tries := qs_tries s @ [(ep_EndpointType ep, prio, attempt)]\<rparr>))"
  by (simp add: begin_try_def now_of_eq endpointBrief_def Let_def split_beta)

lemma begin_try_reach:
  assumes "begin_try env f prio ep attempt ff s = (ff', s')" "fj_UUID ff = fj_UUID f"
  shows "reach (queue_step f) s s' \<and> fj_UUID ff' = fj_UUID f"
proof -
  define s0 where "s0 = s\<lparr>qs_world := qs_world s'\<rparr>"
  have "reach (queue_step f) s s0"
    unfolding s0_def by (rule reach_world [OF reach.reach_start])
  moreover have "queue_step f s0 s'"
    using assms(1) unfolding begin_try_eq Let_def s0_def by (intro st_begin) auto
  ultimately show ?thesis
    using assms by (auto simp: begin_try_eq Let_def intro: reach.reach_step)
qed

lemma wait_retry_reach: "wait_retry env (fj_UUID f) delay s = Some s' \<Longrightarrow> reach (queue_step f) s s'"
proof -
  assume w: "wait_retry env (fj_UUID f) delay s = Some s'"
  define s0 where "s0 = s\<lparr>qs_world := qs_world s'\<rparr>"
  have "reach (queue_step f) s s0"
    unfolding s0_def by (rule reach_world [OF reach.reach_start])
  moreover have "queue_step f s0 s'"
    using w unfolding wait_retry_def now_of_eq s0_def
    by (intro st_wait) (auto simp: Let_def split_beta split: if_splits)
  ultimately show ?thesis
    by (rule reach.reach_step)
qed

text \<open>A kind of try that keeps a property of the state and of the job copy is kept by its retries.\<close>

lemma retry_keeps:
  assumes "retryWithBackoff env job fn left attempt delay ff s = Some (ok, s')" "I ff s"
    and "\<And>a ff s ok retri ff' s'. fn a ff s = Some (ok, retri, ff', s') \<Longrightarrow> I ff s \<Longrightarrow> I ff' s'"
    and "\<And>d ff s s'. wait_retry env job d s = Some s' \<Longrightarrow> I ff s \<Longrightarrow> I ff s'"
  shows "\<exists>ff'. I ff' s'"
  using assms(1,2)
proof (induction left arbitrary: attempt delay ff s)
  case (Suc left)
  then obtain ok1 retri ff1 s1 where f: "fn attempt ff s = Some (ok1, retri, ff1, s1)"
    by (auto simp: bind_eq_Some_conv)
  then have I1: "I ff1 s1"
    using assms(3) Suc.prems(2) by blast
  show ?case
  proof (cases "ok1 \<or> \<not> retri \<or> left = 0")
    case True
    then show ?thesis
      using Suc.prems f I1 by (auto split: if_splits)
  next
    case False
    then obtain s2 where "wait_retry env job delay s1 = Some s2"
      "retryWithBackoff env job fn left (attempt + 1) (next_delay delay) ff1 s2 = Some (ok, s')"
      using Suc.prems f by (auto simp: bind_eq_Some_conv)
    then show ?thesis
      using Suc.IH assms(4) I1 by blast
  qed
qed auto

lemma retrying_reach:
  assumes "retrying env f fn ff s = Some (ok, s')" "fj_UUID ff = fj_UUID f"
    and fn: "\<And>a ff s ok retri ff' s'. fn a ff s = Some (ok, retri, ff', s') \<Longrightarrow> fj_UUID ff = fj_UUID f \<Longrightarrow>
       reach (queue_step f) s s' \<and> fj_UUID ff' = fj_UUID f"
  shows "reach (queue_step f) s s'"
proof -
  define I where "I ff t \<longleftrightarrow> fj_UUID ff = fj_UUID f \<and> reach (queue_step f) s t" for ff :: FaxJob and t
  have "I ff s"
    using assms(2) by (simp add: I_def reach.reach_start)
  moreover have "I ff' t'" if "fn a ff t = Some (ok, retri, ff', t')" "I ff t" for a ff t ok retri ff' t'
    using fn [OF that(1)] that(2) by (auto simp: I_def intro: reach_trans [of _ t])
  moreover have "I ff t'" if "wait_retry env (fj_UUID f) d t = Some t'" "I ff t" for d ff t t'
    using wait_retry_reach [OF that(1)] that(2) by (auto simp: I_def intro: reach_trans [of _ t])
  ultimately show ?thesis
    using retry_keeps [OF assms(1) [unfolded retrying_def], of I] by (auto simp: I_def)
qed

lemma escalate_job [simp]:
  "fj_UUID (escalateRetryChain cfg a ff) = fj_UUID ff"
  "fj_CallUUID (escalateRetryChain cfg a ff) = fj_CallUUID ff"
  "fj_Endpoints (escalateRetryChain cfg a ff) = fj_Endpoints ff"
  by (auto simp: escalateRetryChain_def split: option.split)

lemma trivial_reach:
  "reach (queue_step f) s s" "reach (queue_step f) s (s\<lparr>qs_world := w\<rparr>)"
  by (auto intro: reach_world reach.reach_start)

lemma webhook_answer_reach:
  assumes "webhook_answer env f ty prio payload ep a ff s = (ok, retri, human, ff', s')" "fj_UUID ff = fj_UUID f"
  shows "reach (queue_step f) s s' \<and> fj_UUID ff' = fj_UUID f"
proof -
  obtain ff1 s1 where b: "begin_try env f prio ep a ff s = (ff1, s1)"
    by fastforce
  have "reach (queue_step f) s s1 \<and> fj_UUID ff1 = fj_UUID f"
    by (rule begin_try_reach [OF b assms(2)])
  then show ?thesis
    using assms b by (auto simp: webhook_answer_def Let_def trivial_reach split_beta intro: reach_world
        split: if_splits sum.splits)
qed

lemma sendWebhookOnce_reach:
  assumes "sendWebhookOnce env f ty prio payload ep a ff s = Some (ok, retri, ff', s')" "fj_UUID ff = fj_UUID f"
  shows "reach (queue_step f) s s' \<and> fj_UUID ff' = fj_UUID f"
proof -
  obtain start s1 where n: "now_of env s = (start, s1)"
    by fastforce
  obtain ok3 retri3 human ff2 s2 where w: "webhook_answer env f ty prio payload ep a ff s1 = (ok3, retri3, human, ff2, s2)"
    using prod_cases5 by blast
  have "reach (queue_step f) s s2 \<and> fj_UUID ff2 = fj_UUID f"
    using webhook_answer_reach [OF w assms(2)] n by (auto simp: now_of_eq intro: reach_trans [OF _ trivial_reach(2)])
  moreover have "stampAndSend env start ok3 human ff2 s2 = (ff', s')"
    using assms(1) n w by (auto simp: sendWebhookOnce_def split_beta prod_eq_iff)
  ultimately show ?thesis
    by (rule stamp_after [rotated])
qed

lemma delivery_copy_job [simp]: "fj_UUID (delivery_copy f ep) = fj_UUID f"
  by (simp add: delivery_copy_def Let_def split: option.split)

lemma deliver_each_reach:
  "deliver_each env f ty prio payload eps s = Some (ok, s') \<Longrightarrow> reach (queue_step f) s s'"
proof (induction eps arbitrary: s)
  case (Cons ep eps)
  then obtain ok1 s1 where r: "retrying env f (sendWebhookOnce env f ty prio payload ep) (delivery_copy f ep) s = Some (ok1, s1)"
    by (auto simp: bind_eq_Some_conv)
  have "reach (queue_step f) s s1"
    using retrying_reach [OF r _ sendWebhookOnce_reach] by simp
  moreover have "reach (queue_step f) s1 s'"
    using Cons r by (cases ok1) (auto simp: trivial_reach)
  ultimately show ?case
    by (rule reach_trans [rotated])
qed (simp add: trivial_reach)

lemma prepare_payload_reach: "prepare_payload env f s = (payload, s') \<Longrightarrow> reach (queue_step f) s s'"
  by (auto simp: prepare_payload_def trivial_reach split: option.splits prod.splits)

subsection \<open>The contract of the sender\<close>

text \<open>What the worker relies on when it sends: the sender keeps the job's identifiers, and answers without
  an error exactly when it stores a success.\<close>

locale fax_sender =
  fixes send :: "FaxJob \<Rightarrow> 'w \<Rightarrow> (FaxJob \<times> SendResult \<times> bool \<times> 'w) option"
  assumes keeps: "send ff w = Some (ff', ret, ok, w') \<Longrightarrow> fj_UUID ff' = fj_UUID ff \<and> fj_CallUUID ff' = fj_CallUUID ff"
    and answers: "send ff w = Some (ff', ret, ok, w') \<Longrightarrow> \<exists>r. fj_Result ff' = Some r \<and> fr_Success r = ok"
begin

lemma sendOne_reach:
  assumes "qe_send env = send" "sendOne env f prio ep a ff s = Some (ok, retri, ff', s')" "fj_UUID ff = fj_UUID f"
  shows "reach (queue_step f) s s' \<and> fj_UUID ff' = fj_UUID f"
proof -
  obtain ff1 s1 where b: "begin_try env f prio ep a (escalateRetryChain (cf_Policy (qe_cfg env)) a ff) s = (ff1, s1)"
    by fastforce
  obtain start s2 where n: "now_of env s1 = (start, s2)"
    by fastforce
  obtain ff2 ret ok2 w where c: "send ff1 (qs_world s2) = Some (ff2, ret, ok2, w)"
    using assms(1,2) b n by (auto simp: sendOne_def bind_eq_Some_conv)
  have "reach (queue_step f) s s1" and u1: "fj_UUID ff1 = fj_UUID f"
    using begin_try_reach [OF b] assms(3) by simp_all
  then have r3: "reach (queue_step f) s (s2\<lparr>qs_world := w\<rparr>)"
    using n by (auto simp: now_of_eq intro: reach_world)
  have u2: "fj_UUID ff2 = fj_UUID f"
    using keeps [OF c] u1 by simp
  obtain ok3 retri3 human ff3 where g: "gateway_answer ff2 ret ok2 = (ok3, retri3, human, ff3)"
    by (metis prod_cases4)
  have "fj_UUID ff3 = fj_UUID f"
    using g u2 by (auto simp: gateway_answer_def split: if_splits option.splits)
  moreover have "stampAndSend env start ok3 human ff3 (s2\<lparr>qs_world := w\<rparr>) = (ff', s')"
    using assms(1,2) b n c g by (auto simp: sendOne_def split_beta prod_eq_iff)
  ultimately show ?thesis
    using stamp_after r3 by blast
qed

lemma send_each_reach:
  assumes "qe_send env = send"
  shows "send_each env f prio eps s = Some (ok, s') \<Longrightarrow> reach (queue_step f) s s'"
proof (induction eps arbitrary: s)
  case (Cons ep eps)
  define ff where "ff = f\<lparr>fj_Endpoints := [ep], fj_Result := Some empty_FaxResult, fj_Gateway := gatewayLabel ep\<rparr>"
  obtain ok1 s1 where r: "retrying env f (sendOne env f prio ep) ff s = Some (ok1, s1)"
    using Cons.prems by (auto simp: bind_eq_Some_conv ff_def)
  have "reach (queue_step f) s s1"
    using retrying_reach [OF r _ sendOne_reach [OF assms]] by (simp add: ff_def)
  moreover have "reach (queue_step f) s1 s'"
    using Cons r by (cases ok1) (auto simp: trivial_reach ff_def)
  ultimately show ?case
    by (rule reach_trans [rotated])
qed (simp add: trivial_reach)

lemma gateway_group_reach:
  assumes "qe_send env = send" "gateway_group env f prio eps s = Some (ok, s')"
  shows "reach (queue_step f) s s'"
proof (cases "isGlobalUpstreamGatewayGroup eps")
  case True
  define ff where "ff = f\<lparr>fj_Result := Some empty_FaxResult\<rparr>"
  have u: "fj_UUID ff = fj_UUID f"
    by (simp add: ff_def)
  show ?thesis
  proof (cases "bridge_enabled env f")
    case b: True
    then obtain retri ff' where "sendOne env f prio (upstream_batch (qe_server env)) (-1) ff s = Some (ok, retri, ff', s')"
      using assms(2) True by (auto simp: gateway_group_def ff_def Let_def bind_eq_Some_conv)
    from sendOne_reach [OF assms(1) this u] show ?thesis
      by simp
  next
    case False
    then have "retrying env f (sendOne env f prio (upstream_batch (qe_server env))) ff s = Some (ok, s')"
      using assms(2) True by (simp add: gateway_group_def ff_def Let_def)
    from retrying_reach [OF this u sendOne_reach [OF assms(1)]] show ?thesis
      by simp
  qed
qed (use assms send_each_reach in \<open>simp add: gateway_group_def\<close>)

lemma run_group_reach:
  assumes "qe_send env = send" "run_group env f ty prio s = Some (stop, s')"
  shows "reach (queue_step f) s s'"
proof -
  obtain payload s1 where p: "prepare_payload env f s = (payload, s1)"
    by fastforce
  show ?thesis
    using assms(2) p gateway_group_reach [OF assms(1)]
    by (auto simp: run_group_def Let_def bind_eq_Some_conv trivial_reach split: if_splits
        dest!: deliver_each_reach prepare_payload_reach intro: reach_trans [of _ s1])
qed

lemma run_prios_reach:
  assumes "qe_send env = send"
  shows "run_prios env f ty ps s = Some s' \<Longrightarrow> reach (queue_step f) s s'"
proof (induction ps arbitrary: s)
  case (Cons p ps)
  then obtain stop s1 where g: "run_group env f ty p s = Some (stop, s1)"
    by (auto simp: bind_eq_Some_conv)
  then show ?case
    using Cons run_group_reach [OF assms g] by (cases stop) (auto intro: reach_trans [of _ s1])
qed (simp add: trivial_reach)

lemma run_types_reach:
  assumes "qe_send env = send"
  shows "run_types env f tys s = Some s' \<Longrightarrow> reach (queue_step f) s s'"
proof (induction tys arbitrary: s)
  case (Cons ty tys)
  then obtain s1 where "run_type env f ty s = Some s1" "reach (queue_step f) s1 s'"
    by (auto simp: bind_eq_Some_conv)
  then show ?case
    using run_prios_reach [OF assms] unfolding run_type_def by (auto intro: reach_trans [of _ s1])
qed (simp add: trivial_reach)

end

text \<open>The sender of the program: \<open>SendFax\<close> over the policy and pair states, with what happens around each
  call given by the next element of a list. It does not answer when the process panics or the call stays open.\<close>

record call_world =
  cw_policies :: policy_state
  cw_pairs :: pair_state
  cw_calls :: "call_env list"

definition switch_send ::
    "FaxingConfig \<Rightarrow> policy_faults \<Rightarrow> pair_faults \<Rightarrow> string list \<Rightarrow> FaxJob \<Rightarrow> 'e call_world_scheme \<Rightarrow>
     (FaxJob \<times> SendResult \<times> bool \<times> 'e call_world_scheme) option" where
  "switch_send cfg faults pfaults upstreams ff w =
    (case cw_calls w of
       [] \<Rightarrow> None
     | env # calls \<Rightarrow>
         (case SendFax cfg faults pfaults upstreams env (cw_policies w) (cw_pairs w) ff of
            Sent ff' ret ok p q \<Rightarrow> Some (ff', ret, ok, w\<lparr>cw_policies := p, cw_pairs := q, cw_calls := calls\<rparr>)
          | SendPanic \<Rightarrow> None
          | SendBlocked \<Rightarrow> None))"

lemma switch_send_Some:
  "switch_send cfg faults pfaults upstreams ff w = Some (ff', ret, ok, w') \<Longrightarrow>
   \<exists>env p q. SendFax cfg faults pfaults upstreams env (cw_policies w) (cw_pairs w) ff = Sent ff' ret ok p q"
  by (auto simp: switch_send_def split: list.splits send_outcome.splits)

interpretation switch: fax_sender "switch_send cfg faults pfaults upstreams" for cfg faults pfaults upstreams
proof unfold_locales
  fix ff ff' ret ok and w w' :: "'a call_world_scheme"
  assume "switch_send cfg faults pfaults upstreams ff w = Some (ff', ret, ok, w')"
  then obtain env p q where "SendFax cfg faults pfaults upstreams env (cw_policies w) (cw_pairs w) ff = Sent ff' ret ok p q"
    using switch_send_Some by blast
  from SendFax_answer [OF this] show "fj_UUID ff' = fj_UUID ff \<and> fj_CallUUID ff' = fj_CallUUID ff"
    "\<exists>r. fj_Result ff' = Some r \<and> fr_Success r = ok"
    by auto
qed

subsection \<open>What the work on a job leaves alone\<close>

lemma tracker_frame:
  "j \<noteq> k \<Longrightarrow> map_of (byJob (SetCall now k u t)) j = map_of (byJob t) j"
  "j \<noteq> k \<Longrightarrow> map_of (byJob (MarkAttempt now k u a m p ty lb v t)) j = map_of (byJob t) j"
  "j \<noteq> k \<Longrightarrow> map_of (byJob (MarkWaiting now k t)) j = map_of (byJob t) j"
  "j \<noteq> k \<Longrightarrow> map_of (byJob (Complete k t)) j = map_of (byJob t) j"
  "j \<noteq> fj_UUID job \<Longrightarrow> map_of (byJob (Begin now job t)) j = map_of (byJob t) j"
  by (auto simp: tracker_defs Let_def update_conv' delete_conv' split: option.splits)

definition same_but :: "FaxJob \<Rightarrow> 'w queue_state \<Rightarrow> 'w queue_state \<Rightarrow> bool" where
  "same_but f s0 s \<longleftrightarrow> reach tracker_step (qs_tracker s0) (qs_tracker s) \<and> qs_table s = qs_table s0
     \<and> (\<forall>j. j \<noteq> fj_UUID f \<longrightarrow> map_of (byJob (qs_tracker s)) j = map_of (byJob (qs_tracker s0)) j)
     \<and> (\<exists>js. qs_sent s = qs_sent s0 @ js \<and> (\<forall>j \<in> set js. fj_UUID j = fj_UUID f))"

interpretation work: step_invariant "queue_step f" s0 "same_but f s0" for f s0
proof
  show "same_but f s0 s0"
    by (simp add: same_but_def reach.reach_start)
  show "same_but f s0 t" if "same_but f s0 s" "queue_step f s t" for s t
    using that(2,1)
  proof cases
    case (st_begin t2 u a m p ty lb v t1)
    have "reach tracker_step (qs_tracker s0) (qs_tracker s)"
      using that(1) by (simp add: same_but_def)
    then have "reach tracker_step (qs_tracker s0) (qs_tracker t)"
      unfolding st_begin by (auto intro: reach.reach_step tracker_step.intros)
    then show ?thesis
      using that(1) unfolding st_begin by (simp add: same_but_def tracker_frame)
  next
    case (st_wait d)
    then show ?thesis
      using that(1) by (auto simp: same_but_def tracker_frame intro: reach.reach_step tracker_step.intros)
  next
    case (st_result ff)
    then show ?thesis
      using that(1) by (auto simp: same_but_def sendResult_def)
  qed (auto simp: same_but_def)
qed

lemma Complete_removes: "tracker_inv t \<Longrightarrow> map_of (byJob (Complete j t)) j = None"
  by (auto simp: Complete_def tracker_inv_def delete_conv' split: option.split)

lemma snapshot_fields [simp]:
  "qs_world (snapshotCallOutcome f s) = qs_world s" "qs_tracker (snapshotCallOutcome f s) = qs_tracker s"
  "qs_table (snapshotCallOutcome f s) = qs_table s" "qs_sent (snapshotCallOutcome f s) = qs_sent s"
  "qs_tries (snapshotCallOutcome f s) = qs_tries s" "qs_sleeps (snapshotCallOutcome f s) = qs_sleeps s"
  by (simp_all add: snapshotCallOutcome_def Let_def)

lemma begin_job_fields [simp]:
  "\<exists>t. qs_tracker (begin_job env m f s) = Begin t f (qs_tracker s)"
  "qs_sent (begin_job env m f s) = qs_sent s" "qs_tries (begin_job env m f s) = qs_tries s"
  "qs_sleeps (begin_job env m f s) = qs_sleeps s" "qs_results (begin_job env m f s) = []"
  by (auto simp: begin_job_def now_of_eq Let_def)

lemma finish_job_fields [simp]:
  "qs_tracker (finish_job env f s) = Complete (fj_UUID f) (qs_tracker s)"
  "qs_sent (finish_job env f s) = qs_sent s" "qs_tries (finish_job env f s) = qs_tries s"
  "qs_sleeps (finish_job env f s) = qs_sleeps s"
  by (simp_all add: finish_job_def now_of_eq Let_def split_beta)

lemma notify_only_fields [simp]:
  "fj_UUID (notify_only f) = fj_UUID f" "fj_Endpoints (notify_only f) = []"
  "fj_NotifyOnly (notify_only f) = fj_NotifyOnly f"
  by (auto simp: notify_only_def Let_def split: option.split)

lemma processFax_parts:
  assumes "processFax env m types f s = Some s'"
  shows "\<exists>g s1 s2. g = (if fj_NotifyOnly f then notify_only f else f) \<and> fj_UUID g = fj_UUID f \<and> (\<exists>t. qs_tracker s1 = Begin t f (qs_tracker s))
    \<and> qs_sent s1 = qs_sent s \<and> qs_tries s1 = qs_tries s \<and> qs_sleeps s1 = qs_sleeps s
    \<and> run_types env g types s1 = Some s2 \<and> s' = finish_job env g s2"
proof -
  define g where "g = (if fj_NotifyOnly f then notify_only f else f)"
  define s1 where "s1 = snapshotCallOutcome g (begin_job env m f s)"
  obtain s2 where "run_types env g types s1 = Some s2" "s' = finish_job env g s2"
    using assms by (auto simp: processFax_def Let_def g_def s1_def)
  moreover have "g = (if fj_NotifyOnly f then notify_only f else f)" "fj_UUID g = fj_UUID f" "\<exists>t. qs_tracker s1 = Begin t f (qs_tracker s)"
    "qs_sent s1 = qs_sent s" "qs_tries s1 = qs_tries s" "qs_sleeps s1 = qs_sleeps s"
    by (simp_all add: g_def s1_def)
  ultimately show ?thesis
    by blast
qed

subsection \<open>Delays\<close>

text \<open>The delays the back-off computes with: long enough for the random draw, short enough not to overflow.\<close>

definition legal_delay :: "duration \<Rightarrow> bool" where
  "legal_delay d \<longleftrightarrow> 5 \<le> d \<and> d < 2 ^ 62"

definition random_ok :: "'w queue_env \<Rightarrow> bool" where
  "random_ok env \<longleftrightarrow> (\<forall>n w. 0 < n \<longrightarrow> 0 \<le> fst (qe_Int63n env n w) \<and> fst (qe_Int63n env n w) < n)"

lemma legal_max [simp]: "legal_delay max_delay"
  by (simp add: legal_delay_def max_delay_def)

lemma legal_next: "legal_delay d \<Longrightarrow> legal_delay (next_delay d)"
  by (simp add: legal_delay_def next_delay_def max_delay_def min_def)

lemma legal_draw: "legal_delay d \<Longrightarrow> 0 < d div 5"
  by (simp add: legal_delay_def pos_imp_zdiv_pos_iff)

lemma backoff_bounds:
  assumes "legal_delay d" "0 \<le> r" "r < d div 5"
  shows "0 \<le> backoff_sleep d r \<and> backoff_sleep d r \<le> max_delay"
proof -
  have "wrap64 (r - d div 10) = r - d div 10" "wrap64 (d + (r - d div 10)) = d + (r - d div 10)"
    using assms by (auto simp: legal_delay_def intro!: wrap64_id)
  then show ?thesis
    using assms by (auto simp: backoff_sleep_def legal_delay_def max_delay_def)
qed

lemma wait_retry_legal:
  "legal_delay d \<Longrightarrow> \<exists>s'. wait_retry env job d s = Some s'"
  using legal_draw [of d] by (simp add: wait_retry_def Let_def split_beta)

lemma wait_retry_sleeps:
  assumes "wait_retry env job d s = Some s'"
  shows "qs_sleeps s' = qs_sleeps s @ [backoff_sleep d (fst (qe_Int63n env (d div 5) (qs_world s)))]"
    "0 < d div 5" "qs_tries s' = qs_tries s" "qs_sent s' = qs_sent s" "qs_results s' = qs_results s"
  using assms by (auto simp: wait_retry_def now_of_eq Let_def split_beta split: if_splits)

text \<open>A product with a whole number of seconds that wraps is still a multiple of 512 nanoseconds.\<close>

lemma wrap64_512: "512 dvd x \<Longrightarrow> 512 dvd wrap64 x"
  unfolding wrap64_def by (intro dvd_diff dvd_mod dvd_add) (auto intro: dvd_power_iff [THEN iffD2])

lemma base_delay_ge: "512 \<le> base_delay cfg"
proof -
  have "512 \<le> d" if d: "parseDurationSMHD t = Some d" "d > 0" for t d
  proof -
    obtain v k where "d = wrap64 (v * k)" "512 dvd (k :: int)"
      using d(1) by (auto simp: parseDurationSMHD_def Let_def split: if_splits option.splits)
    then have "512 dvd d"
      by (simp add: wrap64_512)
    then show ?thesis
      using d(2) by (rule zdvd_imp_le)
  qed
  then show ?thesis
    by (auto simp: base_delay_def split: option.split)
qed

lemma base_delay_legal: "base_delay cfg < 2 ^ 62 \<Longrightarrow> legal_delay (base_delay cfg)"
  using base_delay_ge [of cfg] by (simp add: legal_delay_def)

subsection \<open>What is logged\<close>

text \<open>\<open>log_ok env ty p lo hi s s'\<close>: between the two states the worker slept only legal delays, and marked
  tries of the type and priority with increasing numbers from \<open>lo\<close> up to below \<open>hi\<close>.\<close>

definition slept_ok :: "'w queue_state \<Rightarrow> 'w queue_state \<Rightarrow> bool" where
  "slept_ok s s' \<longleftrightarrow> (\<exists>ds. qs_sleeps s' = qs_sleeps s @ ds \<and> (\<forall>d \<in> set ds. 0 \<le> d \<and> d \<le> max_delay))"

definition tried_ok :: "string \<Rightarrow> nat \<Rightarrow> int \<Rightarrow> int \<Rightarrow> 'w queue_state \<Rightarrow> 'w queue_state \<Rightarrow> bool" where
  "tried_ok ty p lo hi s s' \<longleftrightarrow> (\<exists>ks. qs_tries s' = qs_tries s @ map (\<lambda>k. (ty, p, k)) ks
     \<and> sorted_wrt (<) ks \<and> (\<forall>k \<in> set ks. lo \<le> k \<and> k < hi))"

lemma slept_ok_refl [simp]: "slept_ok s s"
  by (simp add: slept_ok_def)

lemma slept_ok_same: "qs_sleeps s' = qs_sleeps s \<Longrightarrow> slept_ok s s'"
  by (simp add: slept_ok_def)

lemma slept_ok_trans: "slept_ok a b \<Longrightarrow> slept_ok b c \<Longrightarrow> slept_ok a c"
  by (fastforce simp: slept_ok_def)

definition logs_try :: "string \<Rightarrow> nat \<Rightarrow> (int \<Rightarrow> FaxJob \<Rightarrow> 'w queue_state \<Rightarrow> 'w try_result) \<Rightarrow> bool" where
  "logs_try ty p fn \<longleftrightarrow> (\<forall>a ff s ok retri ff' s'. fn a ff s = Some (ok, retri, ff', s') \<longrightarrow>
     qs_sleeps s' = qs_sleeps s \<and> (qs_tries s' = qs_tries s \<or> qs_tries s' = qs_tries s @ [(ty, p, a)]))"

lemma logs_tryD:
  "logs_try ty p fn \<Longrightarrow> fn a ff s = Some (ok, retri, ff', s') \<Longrightarrow>
   slept_ok s s' \<and> tried_ok ty p a (a + 1) s s'"
proof -
  assume l: "logs_try ty p fn" "fn a ff s = Some (ok, retri, ff', s')"
  then have "qs_tries s' = qs_tries s @ map (\<lambda>k. (ty, p, k)) [] \<or> qs_tries s' = qs_tries s @ map (\<lambda>k. (ty, p, k)) [a]"
    by (fastforce simp: logs_try_def)
  moreover have "sorted_wrt (<) [a]" "sorted_wrt (<) ([] :: int list)" "\<forall>k \<in> set [a]. a \<le> k \<and> k < a + 1"
    by simp_all
  ultimately have "tried_ok ty p a (a + 1) s s'"
    unfolding tried_ok_def by (metis empty_iff list.set(1))
  then show ?thesis
    using l by (auto simp: logs_try_def intro: slept_ok_same)
qed

lemma tried_ok_append:
  assumes "tried_ok ty p a (a + 1) s t" "tried_ok ty p (a + 1) hi t u" "a < hi"
  shows "tried_ok ty p a hi s u"
proof -
  obtain ks ls where "qs_tries t = qs_tries s @ map (\<lambda>k. (ty, p, k)) ks" "sorted_wrt (<) ks" "\<forall>k \<in> set ks. a \<le> k \<and> k < a + 1"
    "qs_tries u = qs_tries t @ map (\<lambda>k. (ty, p, k)) ls" "sorted_wrt (<) ls" "\<forall>k \<in> set ls. a + 1 \<le> k \<and> k < hi"
    using assms(1,2) unfolding tried_ok_def by blast
  then have "qs_tries u = qs_tries s @ map (\<lambda>k. (ty, p, k)) (ks @ ls) \<and> sorted_wrt (<) (ks @ ls)
      \<and> (\<forall>k \<in> set (ks @ ls). a \<le> k \<and> k < hi)"
    using assms(3) by (fastforce simp: sorted_wrt_append)
  then show ?thesis
    unfolding tried_ok_def by blast
qed

lemma tried_ok_mono: "tried_ok ty p lo hi s t \<Longrightarrow> hi \<le> hi' \<Longrightarrow> tried_ok ty p lo hi' s t"
  unfolding tried_ok_def by fastforce

lemma retry_log:
  assumes "logs_try ty p fn" "random_ok env"
  shows "retryWithBackoff env job fn left a d ff s = Some (ok, s') \<Longrightarrow> legal_delay d \<Longrightarrow>
    slept_ok s s' \<and> tried_ok ty p a (a + int left) s s'"
proof (induction left arbitrary: a d ff s)
  case 0
  then show ?case
    by (auto simp: tried_ok_def intro!: exI [where x = "[]"])
next
  case (Suc left)
  then obtain ok1 retri ff1 s1 where f: "fn a ff s = Some (ok1, retri, ff1, s1)"
    by (auto simp: bind_eq_Some_conv)
  note l1 = logs_tryD [OF assms(1) f]
  show ?case
  proof (cases "ok1 \<or> \<not> retri \<or> left = 0")
    case True
    then show ?thesis
      using Suc.prems f l1 by (auto split: if_splits intro: tried_ok_mono)
  next
    case False
    then obtain s2 where w: "wait_retry env job d s1 = Some s2"
      and r: "retryWithBackoff env job fn left (a + 1) (next_delay d) ff1 s2 = Some (ok, s')"
      using Suc.prems f by (auto simp: bind_eq_Some_conv)
    have "slept_ok s1 s2"
      using wait_retry_sleeps [OF w] backoff_bounds [OF Suc.prems(2)] assms(2)
      by (auto simp: slept_ok_def random_ok_def)
    moreover have "slept_ok s2 s'" "tried_ok ty p (a + 1) (a + 1 + int left) s2 s'"
      using Suc.IH [OF r legal_next [OF Suc.prems(2)]] by simp_all
    moreover from this have "tried_ok ty p (a + 1) (a + int (Suc left)) s1 s'"
      using wait_retry_sleeps [OF w] by (simp add: tried_ok_def algebra_simps)
    ultimately show ?thesis
      using l1 by (auto intro: slept_ok_trans tried_ok_append)
  qed
qed

lemma retry_returns:
  assumes "\<And>a ff s. \<exists>r. fn a ff s = Some r"
  shows "legal_delay d \<Longrightarrow> \<exists>r. retryWithBackoff env job fn left a d ff s = Some r"
proof (induction left arbitrary: a d ff s)
  case (Suc left)
  obtain ok retri ff1 s1 where "fn a ff s = Some (ok, retri, ff1, s1)"
    using assms by (metis prod_cases4)
  moreover obtain s2 where "wait_retry env job d s1 = Some s2"
    using wait_retry_legal [OF Suc.prems] by blast
  ultimately show ?case
    using Suc.IH [OF legal_next [OF Suc.prems]] by auto
qed (simp del: split_paired_Ex)

definition delays_ok :: "'w queue_env \<Rightarrow> bool" where
  "delays_ok env \<longleftrightarrow> random_ok env \<and> base_delay (qe_cfg env) < 2 ^ 62"

text \<open>The number of a try: \<open>-1\<close> for a single shot, otherwise one of the configured attempts. The
  upstream gateways of a job that is bridged get a single shot.\<close>

definition try_number :: "'w queue_env \<Rightarrow> bool \<Rightarrow> int \<Rightarrow> bool" where
  "try_number env single n \<longleftrightarrow> (if single then n = -1 else 1 \<le> n \<and> n \<le> retry_attempts (qe_cfg env))"

definition single_shot :: "'w queue_env \<Rightarrow> FaxJob \<Rightarrow> string \<Rightarrow> nat \<Rightarrow> bool" where
  "single_shot env f ty p \<longleftrightarrow>
     ty = ''gateway'' \<and> isGlobalUpstreamGatewayGroup (type_group f ty p) \<and> bridge_enabled env f"

definition group_tries ::
    "'w queue_env \<Rightarrow> bool \<Rightarrow> string \<Rightarrow> nat \<Rightarrow> 'w queue_state \<Rightarrow> 'w queue_state \<Rightarrow> bool" where
  "group_tries env single ty p s s' \<longleftrightarrow> slept_ok s s' \<and> (\<exists>ts. qs_tries s' = qs_tries s @ ts
     \<and> (\<forall>t \<in> set ts. fst t = ty \<and> fst (snd t) = p \<and> try_number env single (snd (snd t))))"

lemma group_tries_same: "qs_tries s' = qs_tries s \<Longrightarrow> qs_sleeps s' = qs_sleeps s \<Longrightarrow> group_tries env b ty p s s'"
  by (simp add: group_tries_def slept_ok_same)

lemma group_tries_trans:
  "group_tries env single ty p a b \<Longrightarrow> group_tries env single ty p b c \<Longrightarrow> group_tries env single ty p a c"
  unfolding group_tries_def using slept_ok_trans by fastforce

lemma retry_attempts_pos: "0 < retry_attempts cfg"
  by (simp add: retry_attempts_def split: option.split)

lemma retrying_log:
  assumes "delays_ok env" "logs_try ty p fn" "retrying env f fn ff s = Some (ok, s')"
  shows "group_tries env False ty p s s'"
proof -
  have "slept_ok s s' \<and> tried_ok ty p 1 (1 + int (nat (retry_attempts (qe_cfg env)))) s s'"
    using assms base_delay_legal unfolding delays_ok_def retrying_def by (intro retry_log) auto
  then show ?thesis
    using retry_attempts_pos [of "qe_cfg env"] by (fastforce simp: group_tries_def tried_ok_def try_number_def)
qed

lemma logs_sendOne: "ep_EndpointType ep = ty \<Longrightarrow> logs_try ty p (sendOne env f p ep)"
  by (auto simp: logs_try_def sendOne_def begin_try_eq now_of_eq stampAndSend_eq sendResult_def Let_def
      split_beta bind_eq_Some_conv)

lemma webhook_answer_log:
  "webhook_answer env f ty' p payload ep a ff s = (ok, retri, human, ff', s') \<Longrightarrow> ep_EndpointType ep = ty \<Longrightarrow>
   qs_sleeps s' = qs_sleeps s \<and> (qs_tries s' = qs_tries s \<or> qs_tries s' = qs_tries s @ [(ty, p, a)])"
  by (auto simp: webhook_answer_def begin_try_eq Let_def split_beta split: if_splits sum.splits)

lemma logs_sendWebhookOnce: "ep_EndpointType ep = ty \<Longrightarrow> logs_try ty p (sendWebhookOnce env f ty' p payload ep)"
  unfolding logs_try_def
proof (intro allI impI)
  fix a ff s ok retri ff' s'
  assume ty: "ep_EndpointType ep = ty" and w: "sendWebhookOnce env f ty' p payload ep a ff s = Some (ok, retri, ff', s')"
  define s1 where "s1 = snd (now_of env s)"
  obtain ok3 retri3 human ff2 s2 where a: "webhook_answer env f ty' p payload ep a ff s1 = (ok3, retri3, human, ff2, s2)"
    using prod_cases5 by blast
  then have "qs_sleeps s' = qs_sleeps s2" "qs_tries s' = qs_tries s2"
    using w by (auto simp: sendWebhookOnce_def stampAndSend_eq sendResult_def s1_def split_beta)
  then show "qs_sleeps s' = qs_sleeps s \<and> (qs_tries s' = qs_tries s \<or> qs_tries s' = qs_tries s @ [(ty, p, a)])"
    using webhook_answer_log [OF a ty] by (simp add: s1_def now_of_eq)
qed

lemma send_each_log:
  assumes "delays_ok env"
  shows "send_each env f p eps s = Some (ok, s') \<Longrightarrow> \<forall>ep \<in> set eps. ep_EndpointType ep = ty \<Longrightarrow> group_tries env False ty p s s'"
proof (induction eps arbitrary: s)
  case (Cons ep eps)
  define ff where "ff = f\<lparr>fj_Endpoints := [ep], fj_Result := Some empty_FaxResult, fj_Gateway := gatewayLabel ep\<rparr>"
  obtain ok1 s1 where r: "retrying env f (sendOne env f p ep) ff s = Some (ok1, s1)"
    using Cons.prems by (auto simp: bind_eq_Some_conv ff_def)
  have "group_tries env False ty p s s1"
    using retrying_log [OF assms logs_sendOne r] Cons.prems(2) by simp
  moreover have "group_tries env False ty p s1 s'"
    using Cons r by (cases ok1) (auto simp: group_tries_same ff_def)
  ultimately show ?case
    by (rule group_tries_trans)
qed (simp add: group_tries_same)

lemma deliver_each_log:
  assumes "delays_ok env"
  shows "deliver_each env f ty' p payload eps s = Some (ok, s') \<Longrightarrow> \<forall>ep \<in> set eps. ep_EndpointType ep = ty \<Longrightarrow>
    group_tries env False ty p s s'"
proof (induction eps arbitrary: s)
  case (Cons ep eps)
  obtain ok1 s1 where r: "retrying env f (sendWebhookOnce env f ty' p payload ep) (delivery_copy f ep) s = Some (ok1, s1)"
    using Cons.prems by (auto simp: bind_eq_Some_conv)
  have "group_tries env False ty p s s1"
    using retrying_log [OF assms logs_sendWebhookOnce r] Cons.prems(2) by simp
  moreover have "group_tries env False ty p s1 s'"
    using Cons r by (cases ok1) (auto simp: group_tries_same)
  ultimately show ?case
    by (rule group_tries_trans)
qed (simp add: group_tries_same)

lemma gateway_group_log:
  assumes "delays_ok env" "gateway_group env f p eps s = Some (ok, s')" "\<forall>ep \<in> set eps. ep_EndpointType ep = ''gateway''"
  shows "group_tries env (isGlobalUpstreamGatewayGroup eps \<and> bridge_enabled env f) ''gateway'' p s s'"
proof (cases "isGlobalUpstreamGatewayGroup eps")
  case True
  have batch: "ep_EndpointType (upstream_batch (qe_server env)) = ''gateway''"
    by (simp add: upstream_batch_def)
  define ff where "ff = f\<lparr>fj_Result := Some empty_FaxResult\<rparr>"
  show ?thesis
  proof (cases "bridge_enabled env f")
    case b: True
    then obtain retri ff' where "sendOne env f p (upstream_batch (qe_server env)) (-1) ff s = Some (ok, retri, ff', s')"
      using assms(2) True by (auto simp: gateway_group_def ff_def Let_def bind_eq_Some_conv)
    then have "qs_sleeps s' = qs_sleeps s \<and> (qs_tries s' = qs_tries s \<or> qs_tries s' = qs_tries s @ [(''gateway'', p, -1)])"
      using logs_sendOne [OF batch, of p env f] unfolding logs_try_def by blast
    then show ?thesis
      using True b by (auto simp: group_tries_def slept_ok_same try_number_def)
  next
    case False
    then have "retrying env f (sendOne env f p (upstream_batch (qe_server env))) ff s = Some (ok, s')"
      using assms(2) True by (simp add: gateway_group_def ff_def Let_def)
    from retrying_log [OF assms(1) logs_sendOne [OF batch] this] show ?thesis
      using False by simp
  qed
qed (use assms send_each_log in \<open>simp add: gateway_group_def\<close>)

lemma run_group_log:
  assumes "delays_ok env" "run_group env f ty p s = Some (stop, s')"
  shows "group_tries env (single_shot env f ty p) ty p s s'"
proof -
  have eps: "\<forall>ep \<in> set (type_group f ty p). ep_EndpointType ep = ty"
    by (simp add: type_group_def)
  consider "s' = s" | (gw) ok where "ty = ''gateway''" "gateway_group env f p (type_group f ty p) s = Some (ok, s')"
    | (web) payload s1 where "ty \<noteq> ''gateway''" "prepare_payload env f s = (payload, s1)"
        "deliver_each env f ty p payload (type_group f ty p) s1 = Some (stop, s')"
    using assms(2) by (auto simp: run_group_def Let_def bind_eq_Some_conv split: if_splits prod.splits)
  then show ?thesis
  proof cases
    case gw
    then show ?thesis
      using gateway_group_log [OF assms(1) gw(2)] eps by (simp add: single_shot_def)
  next
    case web
    have "qs_tries s1 = qs_tries s" "qs_sleeps s1 = qs_sleeps s"
      using web(2) by (auto simp: prepare_payload_def split: option.splits prod.splits)
    then show ?thesis
      using deliver_each_log [OF assms(1) web(3) eps] web(1)
      by (auto simp: single_shot_def intro: group_tries_trans group_tries_same)
  qed (simp add: group_tries_same)
qed

end
