(* ===== verification/Fax_Delivery.thy ===== *)
theory Fax_Delivery
  imports Fax_Queue "HOL-Library.Product_Lexorder"
begin

text \<open>
  Properties of the queue worker that span the priority groups of a job: the order of the tries,
  termination, what a success stops and what it does not, and the verdict on the job.
\<close>

section \<open>Properties: the end of a job\<close>

lemma worked_job:
  assumes "processFax (env\<lparr>qe_send := switch_send cfg faults pfaults upstreams\<rparr>) m types f s = Some s'"
    and "reach tracker_step NewFaxTracker (qs_tracker s)"
  shows "tracker_Get (fj_UUID f) (qs_tracker s') = None
    \<and> (\<forall>j. j \<noteq> fj_UUID f \<longrightarrow> tracker_Get j (qs_tracker s') = tracker_Get j (qs_tracker s))
    \<and> reach tracker_step NewFaxTracker (qs_tracker s')
    \<and> (\<exists>js. qs_sent s' = qs_sent s @ js \<and> (\<forall>j \<in> set js. fj_UUID j = fj_UUID f))"
proof -
  obtain g s1 s2 t where g: "fj_UUID g = fj_UUID f" and t: "qs_tracker s1 = Begin t f (qs_tracker s)"
    and sent: "qs_sent s1 = qs_sent s"
    and run: "run_types (env\<lparr>qe_send := switch_send cfg faults pfaults upstreams\<rparr>) g types s1 = Some s2"
    and s': "s' = finish_job (env\<lparr>qe_send := switch_send cfg faults pfaults upstreams\<rparr>) g s2"
    using processFax_parts [OF assms(1)] by blast
  have same: "same_but g s1 s2"
    using switch.run_types_reach [OF _ run] by (intro work.reach_holds) simp
  have r1: "reach tracker_step NewFaxTracker (qs_tracker s1)"
    unfolding t using assms(2) ts_Begin by (rule reach.reach_step)
  have r2: "reach tracker_step NewFaxTracker (qs_tracker s2)"
    using same r1 by (auto simp: same_but_def intro: reach_trans)
  have "tracker_Get (fj_UUID f) (qs_tracker s') = None"
    using tracker.reach_holds [OF r2] g by (simp add: s' tracker_Get_def Complete_removes)
  moreover have "tracker_Get j (qs_tracker s') = tracker_Get j (qs_tracker s)" if "j \<noteq> fj_UUID f" for j
    using same that g t by (simp add: s' tracker_Get_def tracker_frame same_but_def)
  moreover have "reach tracker_step NewFaxTracker (qs_tracker s')"
    unfolding s' finish_job_fields using r2 ts_Complete by (rule reach.reach_step)
  ultimately show ?thesis
    using same sent g by (auto simp: s' same_but_def)
qed

text \<open>C4: A job that is worked to its end leaves the tracker, whatever its endpoints, answers and faults: it is
  no longer tracked, the other jobs are tracked as before, the tracker is in a reachable state, and every result
  handed to storage carries the identifier of the job.\<close>

theorem worked_job_leaves_tracker:
  assumes "processFax (env\<lparr>qe_send := switch_send cfg faults pfaults upstreams\<rparr>) m types f s = Some s'"
    and "reach tracker_step NewFaxTracker (qs_tracker s)"
  shows "tracker_Get (fj_UUID f) (qs_tracker s') = None
    \<and> (\<forall>j. j \<noteq> fj_UUID f \<longrightarrow> tracker_Get j (qs_tracker s') = tracker_Get j (qs_tracker s))
    \<and> reach tracker_step NewFaxTracker (qs_tracker s')
    \<and> (\<exists>js. qs_sent s' = qs_sent s @ js \<and> (\<forall>j \<in> set js. fj_UUID j = fj_UUID f))"
  using assms by (rule worked_job)

section \<open>Order of the priorities\<close>

text \<open>The rank of a priority: 999 after all others.\<close>

lemma prio_less_key: "prio_less a b \<longleftrightarrow> (a = 999, a) < (b = 999, b)"
  by (auto simp: prio_less_def)

definition no_later :: "nat \<Rightarrow> nat \<Rightarrow> bool" where
  "no_later a b \<longleftrightarrow> \<not> prio_less b a"

lemma no_later_refl [simp]: "no_later a a"
  by (simp add: no_later_def prio_less_def)

lemma sorted_prios: "sorted_wrt no_later (stable_sort prio_less ps)"
proof -
  have "stable_sort prio_less ps = sort_key (\<lambda>p. (p = 999, p)) ps"
    by (rule stable_sort_key) (rule prio_less_key)
  moreover have "sorted (map (\<lambda>p. (p = 999, p)) (sort_key (\<lambda>p. (p = 999, p)) ps))"
    by simp
  moreover have "no_later = (\<lambda>a b. (a = 999, a) \<le> (b = 999, b))"
    by (intro ext) (simp only: no_later_def prio_less_key not_less)
  ultimately show ?thesis
    by (simp only: sorted_map)
qed

text \<open>The tries of one endpoint type of a job: in the order of the priorities, each numbered within the
  configured attempts, or \<open>-1\<close> where the job gets a single shot.\<close>

definition type_tries ::
    "'w queue_env \<Rightarrow> FaxJob \<Rightarrow> string \<Rightarrow> nat set \<Rightarrow> (string \<times> nat \<times> int) list \<Rightarrow> bool" where
  "type_tries env f ty P ts \<longleftrightarrow> sorted_wrt no_later (map (fst \<circ> snd) ts)
     \<and> (\<forall>t \<in> set ts. fst t = ty \<and> fst (snd t) \<in> P
          \<and> try_number env (single_shot env f ty (fst (snd t))) (snd (snd t)))"

lemma sorted_wrt_const: "sorted_wrt no_later (map g ts)" if "\<forall>t \<in> set ts. g t = p"
  using that by (induction ts) auto

lemma run_prios_log:
  assumes "delays_ok env"
  shows "run_prios env f ty ps s = Some s' \<Longrightarrow> sorted_wrt no_later ps \<Longrightarrow>
    slept_ok s s' \<and> (\<exists>ts. qs_tries s' = qs_tries s @ ts \<and> type_tries env f ty (set ps) ts)"
proof (induction ps arbitrary: s)
  case Nil
  then show ?case
    by (auto simp: type_tries_def)
next
  case (Cons p ps)
  obtain stop s1 where g: "run_group env f ty p s = Some (stop, s1)"
    using Cons.prems by (auto simp: bind_eq_Some_conv)
  obtain ts where ts: "slept_ok s s1" "qs_tries s1 = qs_tries s @ ts" "\<forall>t \<in> set ts. fst t = ty \<and> fst (snd t) = p
      \<and> try_number env (single_shot env f ty p) (snd (snd t))"
    using run_group_log [OF assms g] by (auto simp: group_tries_def)
  then have own: "sorted_wrt no_later (map (fst \<circ> snd) ts)"
    by (intro sorted_wrt_const [where p = p]) simp
  show ?case
  proof (cases stop)
    case True
    then have "s' = s1"
      using Cons.prems g by simp
    then show ?thesis
      using ts own by (auto simp: type_tries_def)
  next
    case False
    then obtain us where us: "slept_ok s1 s'" "qs_tries s' = qs_tries s1 @ us" "type_tries env f ty (set ps) us"
      using Cons.IH [of s1] Cons.prems g by auto
    have "type_tries env f ty (set (p # ps)) (ts @ us)"
      using ts(3) us(3) own Cons.prems(2) by (auto simp: type_tries_def sorted_wrt_append)
    then show ?thesis
      using ts us by (auto intro: slept_ok_trans)
  qed
qed

lemma run_types_log:
  assumes "delays_ok env"
  shows "run_types env f tys s = Some s' \<Longrightarrow> distinct tys \<Longrightarrow>
    slept_ok s s' \<and> (\<exists>ts. qs_tries s' = qs_tries s @ ts \<and> fst ` set ts \<subseteq> set tys
      \<and> (\<forall>ty. type_tries env f ty (set (type_prios f ty)) (filter (\<lambda>t. fst t = ty) ts)))"
proof (induction tys arbitrary: s)
  case Nil
  then show ?case
    by (auto simp: type_tries_def)
next
  case (Cons ty tys)
  obtain s1 where r: "run_type env f ty s = Some s1" "run_types env f tys s1 = Some s'"
    using Cons.prems by (auto simp: bind_eq_Some_conv)
  obtain ts where ts: "slept_ok s s1" "qs_tries s1 = qs_tries s @ ts" "type_tries env f ty (set (type_prios f ty)) ts"
    using run_prios_log [OF assms r(1) [unfolded run_type_def] sorted_prios] by auto
  obtain us where us: "slept_ok s1 s'" "qs_tries s' = qs_tries s1 @ us" "fst ` set us \<subseteq> set tys"
    "\<forall>ty. type_tries env f ty (set (type_prios f ty)) (filter (\<lambda>t. fst t = ty) us)"
    using Cons.IH [OF r(2)] Cons.prems(2) by auto
  have all: "\<forall>t \<in> set ts. fst t = ty"
    using ts(3) by (simp add: type_tries_def)
  have "type_tries env f ty' (set (type_prios f ty')) (filter (\<lambda>t. fst t = ty') (ts @ us))" for ty'
  proof (cases "ty' = ty")
    case True
    have "filter (\<lambda>t. fst t = ty) us = []" "filter (\<lambda>t. fst t = ty) ts = ts"
      using us(3) Cons.prems(2) all by (auto simp: filter_empty_conv filter_id_conv)
    then show ?thesis
      using ts(3) True by simp
  next
    case False
    then have "filter (\<lambda>t. fst t = ty') ts = []"
      using all by (auto simp: filter_empty_conv)
    then show ?thesis
      using us(4) by simp
  qed
  moreover have "fst ` set (ts @ us) \<subseteq> set (ty # tys)"
    using all us(3) by auto
  ultimately show ?case
    using ts us by (intro conjI exI [of _ "ts @ us"]) (auto intro: slept_ok_trans)
qed

section \<open>Termination\<close>

definition sends :: "'w queue_env \<Rightarrow> bool" where
  "sends env \<longleftrightarrow> (\<forall>ff w. qe_send env ff w \<noteq> None)"

definition returns :: "(int \<Rightarrow> FaxJob \<Rightarrow> 'w queue_state \<Rightarrow> 'w try_result) \<Rightarrow> bool" where
  "returns fn \<longleftrightarrow> (\<forall>a ff s. \<exists>r. fn a ff s = Some r)"

lemma Some_pair: "\<exists>r. x = Some r \<Longrightarrow> \<exists>a b. x = Some (a, b)"
  by auto

lemma Some_quad: "\<exists>r. x = Some r \<Longrightarrow> \<exists>a b c d. x = Some (a, b, c, d)"
  by auto

lemma sendOne_returns:
  assumes "sends env"
  shows "returns (sendOne env f p ep)"
  unfolding returns_def
proof (intro allI)
  fix a ff s
  obtain ff1 s1 where b: "begin_try env f p ep a (escalateRetryChain (cf_Policy (qe_cfg env)) a ff) s = (ff1, s1)"
    by fastforce
  obtain start s2 where n: "now_of env s1 = (start, s2)"
    by fastforce
  obtain ff2 ret ok w where "qe_send env ff1 (qs_world s2) = Some (ff2, ret, ok, w)"
    using assms Some_quad [of "qe_send env ff1 (qs_world s2)"] by (fastforce simp: sends_def)
  then show "\<exists>r. sendOne env f p ep a ff s = Some r"
    using b n by (simp add: sendOne_def split_beta del: split_paired_Ex)
qed

lemma sendWebhookOnce_returns: "returns (sendWebhookOnce env f ty p payload ep)"
  by (simp add: returns_def sendWebhookOnce_def split_beta del: split_paired_Ex)

lemma retrying_returns:
  assumes "base_delay (qe_cfg env) < 2 ^ 62" "returns fn"
  shows "\<exists>r. retrying env f fn ff s = Some r"
  unfolding retrying_def using assms(2) base_delay_legal [OF assms(1)]
  by (intro retry_returns) (auto simp: returns_def)

lemma send_each_returns:
  assumes "base_delay (qe_cfg env) < 2 ^ 62" "sends env"
  shows "\<exists>r. send_each env f p eps s = Some r"
proof (induction eps arbitrary: s)
  case (Cons ep eps)
  obtain ok s1 where "retrying env f (sendOne env f p ep)
      (f\<lparr>fj_Endpoints := [ep], fj_Result := Some empty_FaxResult, fj_Gateway := gatewayLabel ep\<rparr>) s = Some (ok, s1)"
    using Some_pair [OF retrying_returns [OF assms(1) sendOne_returns [OF assms(2)]]] by blast
  then show ?case
    using Cons.IH by auto
qed (simp del: split_paired_Ex)

lemma deliver_each_returns:
  assumes "base_delay (qe_cfg env) < 2 ^ 62"
  shows "\<exists>r. deliver_each env f ty p payload eps s = Some r"
proof (induction eps arbitrary: s)
  case (Cons ep eps)
  obtain ok s1 where "retrying env f (sendWebhookOnce env f ty p payload ep) (delivery_copy f ep) s = Some (ok, s1)"
    using Some_pair [OF retrying_returns [OF assms(1) sendWebhookOnce_returns]] by blast
  then show ?case
    using Cons.IH by auto
qed (simp del: split_paired_Ex)

lemma gateway_group_returns:
  assumes "base_delay (qe_cfg env) < 2 ^ 62" "sends env"
  shows "\<exists>r. gateway_group env f p eps s = Some r"
proof -
  define ff where "ff = f\<lparr>fj_Result := Some empty_FaxResult\<rparr>"
  define batch where "batch = upstream_batch (qe_server env)"
  obtain ok retri ff' s' where "sendOne env f p batch (-1) ff s = Some (ok, retri, ff', s')"
    using Some_quad [OF sendOne_returns [OF assms(2), unfolded returns_def, rule_format]] by blast
  moreover obtain ok2 s2 where "retrying env f (sendOne env f p batch) ff s = Some (ok2, s2)"
    using Some_pair [OF retrying_returns [OF assms(1) sendOne_returns [OF assms(2)]]] by blast
  moreover obtain ok3 s3 where "send_each env f p eps s = Some (ok3, s3)"
    using Some_pair [OF send_each_returns [OF assms]] by blast
  ultimately show ?thesis
    by (auto simp: gateway_group_def Let_def ff_def batch_def simp del: split_paired_Ex)
qed

lemma run_group_returns:
  assumes "base_delay (qe_cfg env) < 2 ^ 62" "sends env"
  shows "\<exists>r. run_group env f ty p s = Some r"
proof -
  obtain ok s1 where "gateway_group env f p (type_group f ty p) s = Some (ok, s1)"
    using Some_pair [OF gateway_group_returns [OF assms]] by blast
  then show ?thesis
    using deliver_each_returns [OF assms(1)]
    by (auto simp: run_group_def Let_def split_beta simp del: split_paired_Ex)
qed

lemma run_prios_returns:
  assumes "base_delay (qe_cfg env) < 2 ^ 62" "sends env"
  shows "\<exists>s'. run_prios env f ty ps s = Some s'"
proof (induction ps arbitrary: s)
  case (Cons p ps)
  obtain stop s1 where "run_group env f ty p s = Some (stop, s1)"
    using Some_pair [OF run_group_returns [OF assms]] by blast
  then show ?case
    using Cons.IH by auto
qed simp

lemma run_types_returns:
  assumes "base_delay (qe_cfg env) < 2 ^ 62" "sends env"
  shows "\<exists>s'. run_types env f tys s = Some s'"
proof (induction tys arbitrary: s)
  case (Cons ty tys)
  then show ?case
    using run_prios_returns [OF assms, of f ty "stable_sort prio_less (type_prios f ty)" s]
    by (auto simp: run_type_def)
qed simp

section \<open>Properties: order and termination\<close>

text \<open>C5: The worker always finishes a job, whatever the answers: if every call comes back, then so does
  \<open>processFax\<close>; no try, delay or random draw panics, for every configured delay below \<open>2\<^sup>6\<^sup>2\<close> nanoseconds.\<close>

theorem worker_finishes:
  assumes "sends env" "base_delay (qe_cfg env) < 2 ^ 62"
  shows "\<exists>s'. processFax env m types f s = Some s'"
  using run_types_returns [OF assms(2,1)] by (auto simp: processFax_def Let_def)

text \<open>C11: Every pause between two tries lasts from nothing up to one minute, and the tries of each
  endpoint type follow the order of the priorities, 999 last. Each is a try of a priority of the job,
  numbered from one up to the configured attempts, or \<open>-1\<close> exactly where the upstream gateways are
  tried for a job whose two numbers are routed to the bridge. The configured delay is below
  \<open>2\<^sup>6\<^sup>2\<close> nanoseconds and the random draws are in their range.\<close>

theorem tries_in_priority_order:
  assumes "processFax env m types f s = Some s'" "distinct types" "delays_ok env"
  shows "(\<exists>ds. qs_sleeps s' = qs_sleeps s @ ds \<and> list_all (\<lambda>d. 0 \<le> d \<and> d \<le> max_delay) ds)
    \<and> (\<exists>ts. qs_tries s' = qs_tries s @ ts \<and> fst ` set ts \<subseteq> set types
         \<and> (\<forall>ty. type_tries env f ty (set (type_prios f ty)) (filter (\<lambda>t. fst t = ty) ts)))"
proof -
  obtain g s1 s2 where g: "qs_tries s1 = qs_tries s" "qs_sleeps s1 = qs_sleeps s" "run_types env g types s1 = Some s2"
    "s' = finish_job env g s2" "g = (if fj_NotifyOnly f then notify_only f else f)"
    using processFax_parts [OF assms(1)] by blast
  have log: "slept_ok s1 s2 \<and> (\<exists>ts. qs_tries s2 = qs_tries s1 @ ts \<and> fst ` set ts \<subseteq> set types
      \<and> (\<forall>ty. type_tries env g ty (set (type_prios g ty)) (filter (\<lambda>t. fst t = ty) ts)))"
    using run_types_log [OF assms(3) g(3) assms(2)] .
  have "type_tries env f ty (set (type_prios f ty)) ts" if "type_tries env g ty (set (type_prios g ty)) ts" for ty ts
    using that by (cases "fj_NotifyOnly f") (auto simp: g(5) type_prios_def type_tries_def)
  then show ?thesis
    using log g(1,2,4) by (auto simp: slept_ok_def list.pred_set)
qed

section \<open>Results and successes\<close>

definition job_success :: "FaxJob \<Rightarrow> bool" where
  "job_success j \<longleftrightarrow> (case fj_Result j of None \<Rightarrow> False | Some r \<Rightarrow> fr_Success r)"

text \<open>\<open>ends_with ok s s'\<close>: results were stored between the states, all failures but for a success at
  the very end when \<open>ok\<close>.\<close>

definition ends_with :: "bool \<Rightarrow> 'w queue_state \<Rightarrow> 'w queue_state \<Rightarrow> bool" where
  "ends_with ok s s' \<longleftrightarrow> (\<exists>js. qs_sent s' = qs_sent s @ js
     \<and> (\<forall>j \<in> set (butlast js). \<not> job_success j) \<and> (if ok then js \<noteq> [] \<and> job_success (last js)
          else \<forall>j \<in> set js. \<not> job_success j))"

lemma ends_with_refl: "qs_sent s' = qs_sent s \<Longrightarrow> ends_with False s s'"
  by (simp add: ends_with_def)

lemma ends_with_trans: "ends_with False a b \<Longrightarrow> ends_with ok b c \<Longrightarrow> ends_with ok a c"
proof -
  assume "ends_with False a b" "ends_with ok b c"
  then obtain js ks where j: "qs_sent b = qs_sent a @ js" "\<forall>j \<in> set js. \<not> job_success j"
    and k: "qs_sent c = qs_sent b @ ks" "\<forall>j \<in> set (butlast ks). \<not> job_success j"
      "if ok then ks \<noteq> [] \<and> job_success (last ks) else \<forall>j \<in> set ks. \<not> job_success j"
    by (auto simp: ends_with_def)
  have "\<forall>j \<in> set (butlast (js @ ks)). \<not> job_success j"
    using j(2) k(2) by (auto simp: butlast_append dest: in_set_butlastD)
  then show ?thesis
    using j k unfolding ends_with_def by (intro exI [of _ "js @ ks"]) (auto split: if_splits)
qed

lemma job_success_stamp: "job_success (stamp ff start now ok human) = ok"
  by (simp add: job_success_def stamp_def Let_def)

definition reports :: "(int \<Rightarrow> FaxJob \<Rightarrow> 'w queue_state \<Rightarrow> 'w try_result) \<Rightarrow> bool" where
  "reports fn \<longleftrightarrow> (\<forall>a ff s ok retri ff' s'. fn a ff s = Some (ok, retri, ff', s') \<longrightarrow> ends_with ok s s')"

lemma stampAndSend_ends:
  assumes "stampAndSend env start ok human ff s1 = (ff', s')" "qs_sent s1 = qs_sent s"
  shows "ends_with ok s s'"
proof -
  have "qs_sent s' = qs_sent s @ [ff']" "job_success ff' = ok"
    using assms by (auto simp: stampAndSend_eq sendResult_def job_success_stamp)
  then show ?thesis
    unfolding ends_with_def by (intro exI [of _ "[ff']"]) auto
qed

lemma reports_sendOne: "reports (sendOne env f p ep)"
  unfolding reports_def
proof (intro allI impI)
  fix a ff s ok retri ff' s'
  assume "sendOne env f p ep a ff s = Some (ok, retri, ff', s')"
  then obtain start human ff1 s1 where "stampAndSend env start ok human ff1 s1 = (ff', s')" "qs_sent s1 = qs_sent s"
    by (auto simp: sendOne_def begin_try_eq now_of_eq Let_def split_beta bind_eq_Some_conv prod_eq_iff)
  then show "ends_with ok s s'"
    by (rule stampAndSend_ends)
qed

lemma reports_sendWebhookOnce: "reports (sendWebhookOnce env f ty p payload ep)"
  unfolding reports_def
proof (intro allI impI)
  fix a ff s ok retri ff' s'
  assume w: "sendWebhookOnce env f ty p payload ep a ff s = Some (ok, retri, ff', s')"
  obtain ok1 retri1 human ff1 s1 where a: "webhook_answer env f ty p payload ep a ff (snd (now_of env s)) = (ok1, retri1, human, ff1, s1)"
    using prod_cases5 by blast
  then have "stampAndSend env (fst (now_of env s)) ok human ff1 s1 = (ff', s')"
    using w by (auto simp: sendWebhookOnce_def split_beta prod_eq_iff)
  moreover have "qs_sent s1 = qs_sent s"
    using a by (auto simp: webhook_answer_def begin_try_eq now_of_eq Let_def split_beta split: if_splits sum.splits)
  ultimately show "ends_with ok s s'"
    by (rule stampAndSend_ends)
qed

lemma retry_ends:
  assumes "reports fn"
  shows "retryWithBackoff env job fn left a d ff s = Some (ok, s') \<Longrightarrow> ends_with ok s s'"
proof (induction left arbitrary: a d ff s)
  case (Suc left)
  then obtain ok1 retri ff1 s1 where f: "fn a ff s = Some (ok1, retri, ff1, s1)"
    by (auto simp: bind_eq_Some_conv)
  then have e: "ends_with ok1 s s1"
    using assms unfolding reports_def by blast
  show ?case
  proof (cases "ok1 \<or> \<not> retri \<or> left = 0")
    case True
    then show ?thesis
      using Suc.prems f e by (auto split: if_splits)
  next
    case False
    then obtain s2 where w: "wait_retry env job d s1 = Some s2"
      and "retryWithBackoff env job fn left (a + 1) (next_delay d) ff1 s2 = Some (ok, s')"
      using Suc.prems f by (auto simp: bind_eq_Some_conv)
    then have "ends_with ok s2 s'" "ends_with False s1 s2"
      using Suc.IH wait_retry_sleeps(4) [OF w] by (auto intro: ends_with_refl)
    then show ?thesis
      using e False by (auto intro: ends_with_trans)
  qed
qed (auto intro: ends_with_refl)

lemma deliver_each_ends:
  "deliver_each env f ty p payload eps s = Some (ok, s') \<Longrightarrow> ends_with ok s s'"
proof (induction eps arbitrary: s)
  case (Cons ep eps)
  then obtain ok1 s1 where r: "retrying env f (sendWebhookOnce env f ty p payload ep) (delivery_copy f ep) s = Some (ok1, s1)"
    by (auto simp: bind_eq_Some_conv)
  then have "ends_with ok1 s s1"
    unfolding retrying_def by (rule retry_ends [OF reports_sendWebhookOnce])
  then show ?case
    using Cons r by (cases ok1) (auto intro: ends_with_trans)
qed (auto intro: ends_with_refl)

lemma run_group_ends:
  assumes "ty \<noteq> ''gateway''" "run_group env f ty p s = Some (stop, s')"
  shows "ends_with stop s s'"
proof -
  consider "s' = s" "\<not> stop" | payload s1 where "prepare_payload env f s = (payload, s1)"
        "deliver_each env f ty p payload (type_group f ty p) s1 = Some (stop, s')"
    using assms by (auto simp: run_group_def Let_def split: if_splits prod.splits)
  then show ?thesis
  proof cases
    case 2
    have "qs_sent s1 = qs_sent s"
      using 2(1) by (auto simp: prepare_payload_def split: option.splits prod.splits)
    then show ?thesis
      using ends_with_trans [OF ends_with_refl deliver_each_ends [OF 2(2)]] by simp
  qed (simp add: ends_with_refl)
qed

lemma run_prios_ends:
  assumes "ty \<noteq> ''gateway''"
  shows "run_prios env f ty ps s = Some s' \<Longrightarrow> \<exists>ok. ends_with ok s s'"
proof (induction ps arbitrary: s)
  case (Cons p ps)
  then obtain stop s1 where g: "run_group env f ty p s = Some (stop, s1)"
    by (auto simp: bind_eq_Some_conv)
  then show ?case
    using Cons run_group_ends [OF assms g] ends_with_trans by (cases stop) (simp, blast, simp, blast)
qed (auto intro: ends_with_refl)

text \<open>A gateway group on a line that always connects.\<close>

definition always_connects :: "'w queue_env \<Rightarrow> bool" where
  "always_connects env \<longleftrightarrow> (\<forall>ff w. \<exists>ff' w'. qe_send env ff w = Some (ff', SendDone, True, w') \<and> job_success ff')"

definition one_success :: "'w queue_state \<Rightarrow> 'w queue_state \<Rightarrow> bool" where
  "one_success s s' \<longleftrightarrow> (\<exists>j. job_success j \<and> qs_sent s' = qs_sent s @ [j])"

lemma sendOne_connects:
  assumes "always_connects env"
  shows "\<exists>retri ff' s'. sendOne env f p ep a ff s = Some (True, retri, ff', s') \<and> one_success s s'"
proof -
  obtain ff1 s1 where b: "begin_try env f p ep a (escalateRetryChain (cf_Policy (qe_cfg env)) a ff) s = (ff1, s1)"
    by fastforce
  obtain start s2 where n: "now_of env s1 = (start, s2)"
    by fastforce
  obtain ff2 w where c: "qe_send env ff1 (qs_world s2) = Some (ff2, SendDone, True, w)" "job_success ff2"
    using assms unfolding always_connects_def by blast
  have g: "gateway_answer ff2 SendDone True = (True, False, [], ff2)"
    using c(2) by (simp add: gateway_answer_def job_success_def)
  have "qs_sent s2 = qs_sent s"
    using b n by (auto simp: begin_try_eq now_of_eq Let_def)
  then show ?thesis
    using b n c g
    by (auto simp: sendOne_def stampAndSend_eq one_success_def sendResult_def job_success_stamp)
qed

lemma retrying_connects:
  assumes "always_connects env"
  shows "\<exists>s'. retrying env f (sendOne env f p ep) ff s = Some (True, s') \<and> one_success s s'"
proof -
  obtain n where n: "nat (retry_attempts (qe_cfg env)) = Suc n"
    using retry_attempts_pos [of "qe_cfg env"] by (cases "nat (retry_attempts (qe_cfg env))") auto
  obtain retri ff' s' where "sendOne env f p ep 1 ff s = Some (True, retri, ff', s')" "one_success s s'"
    using sendOne_connects [OF assms] by blast
  then show ?thesis
    by (simp add: retrying_def n)
qed

lemma gateway_group_connects:
  assumes "always_connects env" "eps \<noteq> []"
  shows "\<exists>s'. gateway_group env f p eps s = Some (True, s') \<and> one_success s s'"
proof -
  define ff where "ff = f\<lparr>fj_Result := Some empty_FaxResult\<rparr>"
  define batch where "batch = upstream_batch (qe_server env)"
  obtain ep eps' where eps: "eps = ep # eps'"
    using assms(2) by (cases eps) auto
  obtain retri ff' s' where 1: "sendOne env f p batch (-1) ff s = Some (True, retri, ff', s')" "one_success s s'"
    using sendOne_connects [OF assms(1)] by blast
  obtain s2 where 2: "retrying env f (sendOne env f p batch) ff s = Some (True, s2)" "one_success s s2"
    using retrying_connects [OF assms(1)] by blast
  obtain s3 where 3: "send_each env f p eps s = Some (True, s3)" "one_success s s3"
    using retrying_connects [OF assms(1), of f p ep "f\<lparr>fj_Endpoints := [ep], fj_Result := Some empty_FaxResult,
      fj_Gateway := gatewayLabel ep\<rparr>" s] unfolding eps by auto
  show ?thesis
    using 1 2 3 by (simp add: gateway_group_def Let_def ff_def [symmetric] batch_def [symmetric])
qed

lemma run_prios_connects:
  assumes "always_connects env"
  shows "\<forall>p \<in> set ps. type_group f ''gateway'' p \<noteq> [] \<Longrightarrow> run_prios env f ''gateway'' ps s = Some s' \<Longrightarrow>
    \<exists>js. qs_sent s' = qs_sent s @ js \<and> length js = length ps \<and> list_all job_success js"
proof (induction ps arbitrary: s)
  case (Cons p ps)
  obtain s1 where g: "gateway_group env f p (type_group f ''gateway'' p) s = Some (True, s1)" "one_success s s1"
    using gateway_group_connects [OF assms, of "type_group f ''gateway'' p"] Cons.prems(1) by force
  then have "run_prios env f ''gateway'' ps s1 = Some s'"
    using Cons.prems by (simp add: run_group_def)
  then obtain js where "qs_sent s' = qs_sent s1 @ js" "length js = length ps" "list_all job_success js"
    using Cons.IH Cons.prems(1) by force
  moreover obtain j where "job_success j" "qs_sent s1 = qs_sent s @ [j]"
    using g(2) by (auto simp: one_success_def)
  ultimately show ?case
    by (intro exI [of _ "j # js"]) simp
qed simp

section \<open>Properties: what a success stops\<close>

text \<open>C12: A webhook or portal delivery happens at most once per endpoint type: of all the results the worker
  stores for the type, only the last can be a success; a success ends the type, all its priorities included.\<close>

theorem webhook_delivers_once:
  assumes "run_type env f ty s = Some s'" "ty = ''webhook'' \<or> ty = ''portal''"
  shows "\<exists>js. qs_sent s' = qs_sent s @ js \<and> list_all (\<lambda>j. \<not> job_success j) (butlast js)"
proof -
  obtain ok where "ends_with ok s s'"
    using run_prios_ends [of ty] assms unfolding run_type_def by fastforce
  then show ?thesis
    by (auto simp: ends_with_def list.pred_set)
qed

text \<open>A gateway success does not stop the lower priorities: on a line where every call goes through,
  the fax is sent, and stored as sent, once for every priority the job has gateways of.\<close>

theorem gateway_success_repeats:
  assumes "always_connects env" "run_type env f ''gateway'' s = Some s'"
  shows "\<exists>js. qs_sent s' = qs_sent s @ js \<and> length js = length (type_prios f ''gateway'') \<and> list_all job_success js"
proof -
  have "\<forall>p \<in> set (stable_sort prio_less (type_prios f ''gateway'')). type_group f ''gateway'' p \<noteq> []"
    by (auto simp: type_prios_def type_group_def filter_empty_conv)
  moreover have "length (stable_sort prio_less ps) = length ps" for ps
    using stable_sort_key [of prio_less "\<lambda>p. (p = 999, p)" ps, OF prio_less_key] by simp
  ultimately show ?thesis
    using run_prios_connects [OF assms(1)] assms(2) unfolding run_type_def by metis
qed

lemma unprepared_try:
  assumes "fst payload = []" "fj_CallUUID ff = u"
  shows "\<exists>j s'. sendWebhookOnce env f ty p payload ep a ff s = Some (False, False, j, s')
    \<and> qs_results s' = AList.update u j (qs_results s) \<and> fj_Endpoints j = fj_Endpoints ff
    \<and> (\<exists>r. fj_Result j = Some r \<and> \<not> fr_Success r \<and>
         fr_TransferredPages r = (case fj_Result ff of None \<Rightarrow> 0 | Some q \<Rightarrow> fr_TransferredPages q))"
  using assms by (auto simp: sendWebhookOnce_def webhook_answer_def now_of_eq stampAndSend_eq sendResult_def
      stamp_def Let_def empty_FaxResult_def split: option.split)

lemma delivery_copy_fields [simp]:
  "fj_CallUUID (delivery_copy f ep) = fj_CallUUID f" "fj_Endpoints (delivery_copy f ep) = [ep]"
  "fj_Result (delivery_copy f ep) = Some empty_FaxResult"
  by (simp_all add: delivery_copy_def Let_def split: option.split)

text \<open>A delivery whose file could not be prepared takes the place of the reception in the report: it is
  stored under the call of the reception, so a fax received successfully is reported to mail and portal as
  failed with no pages.\<close>

theorem unprepared_delivery_hides_reception:
  assumes "fj_Endpoints f = [ep]" "ep_EndpointType ep = ''webhook''"
    and "fj_Result f = Some r" "fr_Success r" "\<not> isPlaceholderResult f" "fj_CallUUID f \<noteq> uuid_Nil"
    and "fst (qe_pdf env (fj_FileName f) (qs_world s)) = None" "qs_results s = []"
  shows "\<exists>s'. run_types env f [''webhook''] (snapshotCallOutcome f s) = Some s'
    \<and> \<not> pp_Success (buildPortalStatusPayload \<lparr>nf_Results = qs_results s', nf_FaxJob = f, nf_AllAttemptsFailed = b\<rparr>)
    \<and> pp_TransferredPages (buildPortalStatusPayload
          \<lparr>nf_Results = qs_results s', nf_FaxJob = f, nf_AllAttemptsFailed = b\<rparr>) = 0"
proof -
  obtain n where n: "nat (retry_attempts (qe_cfg env)) = Suc n"
    using retry_attempts_pos [of "qe_cfg env"] by (cases "nat (retry_attempts (qe_cfg env))") auto
  have prios: "stable_sort prio_less (type_prios f ''webhook'') = [ep_Priority ep]"
    "type_group f ''webhook'' (ep_Priority ep) = [ep]"
    using assms(1,2) by (simp_all add: type_prios_def type_group_def stable_sort_def)
  define s1 where "s1 = snapshotCallOutcome f s"
  obtain c where c: "qs_results s1 = [(fj_CallUUID f, c)]"
    using assms(3,5,6,8) by (simp add: s1_def snapshotCallOutcome_def Let_def)
  obtain s2 where p: "prepare_payload env f s1 = (([], []), s2)" "qs_results s2 = qs_results s1"
    using assms(7) by (cases "qe_pdf env (fj_FileName f) (qs_world s)") (auto simp: prepare_payload_def s1_def)
  obtain j s3 where t: "sendWebhookOnce env f ''webhook'' (ep_Priority ep) ([], []) ep 1 (delivery_copy f ep) s2
      = Some (False, False, j, s3)"
    and j: "qs_results s3 = AList.update (fj_CallUUID f) j (qs_results s2)" "fj_Endpoints j = [ep]"
      "\<exists>r. fj_Result j = Some r \<and> \<not> fr_Success r \<and> fr_TransferredPages r = 0"
    using unprepared_try [of "([], [])" "delivery_copy f ep" "fj_CallUUID f" env f "''webhook''" "ep_Priority ep" ep 1 s2]
    by (auto simp: empty_FaxResult_def)
  have "run_types env f [''webhook''] s1 = Some s3"
    using p t by (simp add: run_type_def prios run_group_def Let_def retrying_def n)
  moreover have "qs_results s3 = [(fj_CallUUID f, j)]"
    using j(1) p(2) c by simp
  ultimately show ?thesis
    using j(2,3) assms(2)
    by (auto simp: s1_def payload_fields outcome_ok_def call_hit_def is_call_leg_def reported_def
        intro!: exI [where x = s3])
qed

lemma notify_only_idle:
  assumes "fj_NotifyOnly f"
  shows "\<exists>s'. processFax env m types f s = Some s' \<and> qs_sent s' = qs_sent s \<and> qs_tries s' = qs_tries s
    \<and> (\<not> fj_IsBridge f \<and> fj_Result f = Some r \<and> \<not> fr_Success r \<and> fr_TransferredPages r = 0
        \<longrightarrow> length (rt_rows (qs_table s')) = length (rt_rows (qs_table s)))"
proof -
  have none: "type_prios (notify_only f) ty = []" for ty
    by (simp add: type_prios_def)
  have run: "run_types env (notify_only f) tys t = Some t" for tys t
    by (induction tys) (simp_all add: run_type_def none stable_sort_def)
  have same: "fj_IsBridge (notify_only f) = fj_IsBridge f"
    "\<not> fj_IsBridge f \<Longrightarrow> fj_Result (notify_only f) = fj_Result f"
    by (auto simp: notify_only_def Let_def split: option.split)
  have "length (rt_rows (qs_table (begin_job env m f s))) = length (rt_rows (qs_table s))"
    by (simp add: begin_job_def now_of_eq Let_def markSubmissionProcessed_def)
  then show ?thesis
    using assms run same by (auto simp: processFax_def Let_def finish_job_def now_of_eq split_beta)
qed

text \<open>A job that is queued for its notifications only is worked without a call or a delivery, on any line:
  nothing is sent, tried or stored for it; and a failed reception without pages notifies nobody.\<close>

theorem notify_only_delivers_nothing:
  assumes "fj_NotifyOnly f"
  shows "\<exists>s'. processFax env m types f s = Some s' \<and> qs_sent s' = qs_sent s \<and> qs_tries s' = qs_tries s
    \<and> (\<not> fj_IsBridge f \<and> fj_Result f = Some r \<and> \<not> fr_Success r \<and> fr_TransferredPages r = 0
        \<longrightarrow> length (rt_rows (qs_table s')) = length (rt_rows (qs_table s)))"
  using assms by (rule notify_only_idle)

section \<open>Sample values\<close>

definition demo_env :: "nat queue_env" where
  "demo_env = \<lparr>qe_cfg = zero_FaxingConfig, qe_server = NewServer, qe_rules = [],
     qe_now = (\<lambda>w. (int w, Suc w)), qe_uuid = (\<lambda>w. (of_nat (1000 + w), Suc w)), qe_Int63n = (\<lambda>n w. (0, w)),
     qe_sleep = (\<lambda>d w. w),
     qe_send = (\<lambda>ff w. Some (ff\<lparr>fj_Result := Some (empty_FaxResult\<lparr>fr_Success := True\<rparr>)\<rparr>, SendDone, True, w)),
     qe_pdf = (\<lambda>f w. (None, w)), qe_read = (\<lambda>f w. (None, w)), qe_marshal = (\<lambda>_. True), qe_request = (\<lambda>_. True),
     qe_post = (\<lambda>r w. (Inr 503, w)), qe_preview = (\<lambda>f w. (False, w)), qe_notify = sample_notify_env,
     qe_notify_fails = False\<rparr>"

definition demo_gateway :: "nat \<Rightarrow> Endpoint" where
  "demo_gateway p = zero_Endpoint\<lparr>ep_Type := ''number'', ep_EndpointType := ''gateway'', ep_Priority := p\<rparr>"

definition demo_job :: FaxJob where
  "demo_job = zero_FaxJob\<lparr>fj_UUID := 7, fj_CallUUID := 8, fj_CalleeNumber := ''100'',
     fj_Endpoints := [demo_gateway 1, demo_gateway 0]\<rparr>"

definition demo_state :: "'w \<Rightarrow> 'w queue_state" where
  "demo_state w = \<lparr>qs_world = w, qs_tracker = NewFaxTracker, qs_table = empty_table, qs_sent = [],
     qs_results = [], qs_tries = [], qs_sleeps = []\<rparr>"

lemma demo_ok: "sends demo_env" "base_delay (qe_cfg demo_env) < 2 ^ 62" "delays_ok demo_env" "always_connects demo_env"
proof -
  have "base_delay zero_FaxingConfig = Minute"
    by (simp add: base_delay_def zero_FaxingConfig_def parseDurationSMHD_def)
  then show "base_delay (qe_cfg demo_env) < 2 ^ 62" "delays_ok demo_env"
    by (simp_all add: demo_env_def delays_ok_def random_ok_def)
  show "sends demo_env" "always_connects demo_env"
    by (simp_all add: demo_env_def sends_def always_connects_def job_success_def)
qed

lemma worker_finishes_witness:
  "\<exists>s'. processFax demo_env False [''gateway''] demo_job (demo_state 5) = Some s'"
  by (rule worker_finishes [OF demo_ok(1,2)])

lemma demo_runs: "\<exists>s'. processFax demo_env False [''gateway''] demo_job (demo_state 5) = Some s'"
  using run_types_returns [OF demo_ok(2,1)] by (auto simp: processFax_def Let_def simp del: run_types.simps)

lemma tries_in_priority_order_witness:
  "\<exists>s'. processFax demo_env False [''gateway''] demo_job (demo_state 5) = Some s'
     \<and> fst ` set (qs_tries s') \<subseteq> {''gateway''}"
proof -
  obtain s' where s': "processFax demo_env False [''gateway''] demo_job (demo_state 5) = Some s'"
    using demo_runs by blast
  have "distinct [''gateway'']"
    by simp
  from tries_in_priority_order [OF s' this demo_ok(3)] show ?thesis
    using s' by (auto simp: demo_state_def)
qed

lemma gateway_success_repeats_witness:
  "\<exists>s'. run_type demo_env demo_job ''gateway'' (demo_state 5) = Some s' \<and> length (qs_sent s') = 2"
proof -
  obtain s' where s': "run_type demo_env demo_job ''gateway'' (demo_state 5) = Some s'"
    using run_prios_returns [OF demo_ok(2,1)] unfolding run_type_def by blast
  have "length (type_prios demo_job ''gateway'') = 2"
    by code_simp
  then show ?thesis
    using gateway_success_repeats [OF demo_ok(4) s'] s' by (auto simp: demo_state_def)
qed

definition demo_webhook_job :: FaxJob where
  "demo_webhook_job = demo_job\<lparr>fj_Endpoints := [zero_Endpoint\<lparr>ep_EndpointType := ''webhook''\<rparr>],
     fj_Result := Some (empty_FaxResult\<lparr>fr_Success := True, fr_TransferredPages := 3\<rparr>)\<rparr>"

lemma webhook_delivers_once_witness:
  "\<exists>s'. run_type demo_env demo_webhook_job ''webhook'' (demo_state 5) = Some s'
     \<and> list_all (\<lambda>j. \<not> job_success j) (butlast (qs_sent s'))"
proof -
  obtain s' where s': "run_type demo_env demo_webhook_job ''webhook'' (demo_state 5) = Some s'"
    using run_prios_returns [OF demo_ok(2,1)] unfolding run_type_def by blast
  then show ?thesis
    using webhook_delivers_once [OF s'] by (auto simp: demo_state_def)
qed

lemma unprepared_delivery_hides_reception_witness:
  "\<exists>s'. run_types demo_env demo_webhook_job [''webhook''] (snapshotCallOutcome demo_webhook_job (demo_state 5)) = Some s'
     \<and> \<not> pp_Success (buildPortalStatusPayload
          \<lparr>nf_Results = qs_results s', nf_FaxJob = demo_webhook_job, nf_AllAttemptsFailed = False\<rparr>)"
proof -
  have "fj_Endpoints demo_webhook_job = [zero_Endpoint\<lparr>ep_EndpointType := ''webhook''\<rparr>]"
    "fj_Result demo_webhook_job = Some (empty_FaxResult\<lparr>fr_Success := True, fr_TransferredPages := 3\<rparr>)"
    "\<not> isPlaceholderResult demo_webhook_job" "fj_CallUUID demo_webhook_job \<noteq> uuid_Nil"
    by (simp_all add: demo_webhook_job_def demo_job_def isPlaceholderResult_def empty_FaxResult_def
        placeholderHangupCause_def)
  from unprepared_delivery_hides_reception [OF this(1) _ this(2) _ this(3,4), of demo_env "demo_state 5" False]
  show ?thesis
    by (auto simp: demo_env_def demo_state_def)
qed

lemma notify_only_delivers_nothing_witness:
  "\<exists>s'. processFax demo_env False [''gateway''] (demo_job\<lparr>fj_NotifyOnly := True\<rparr>) (demo_state 5) = Some s'
     \<and> qs_sent s' = []"
  using notify_only_delivers_nothing [of "demo_job\<lparr>fj_NotifyOnly := True\<rparr>" demo_env False "[''gateway'']" "demo_state 5"]
  by (auto simp: demo_state_def)

definition line_env :: "call_world queue_env" where
  "line_env = \<lparr>qe_cfg = sample_cfg, qe_server = NewServer, qe_rules = [],
     qe_now = (\<lambda>w. (5, w)), qe_uuid = (\<lambda>w. (9, w)), qe_Int63n = (\<lambda>n w. (0, w)), qe_sleep = (\<lambda>d w. w),
     qe_send = (\<lambda>ff w. None), qe_pdf = (\<lambda>f w. (None, w)), qe_read = (\<lambda>f w. (None, w)), qe_marshal = (\<lambda>_. True),
     qe_request = (\<lambda>_. True), qe_post = (\<lambda>r w. (Inr 503, w)), qe_preview = (\<lambda>f w. (False, w)),
     qe_notify = sample_notify_env, qe_notify_fails = False\<rparr>"

definition line_start :: "call_world queue_state" where
  "line_start = demo_state \<lparr>cw_policies = sample_table, cw_pairs = empty_pairs, cw_calls = [ok_env]\<rparr>"

definition line_job :: FaxJob where
  "line_job = sample_job\<lparr>fj_UUID := 7, fj_Endpoints := [demo_gateway 0\<lparr>ep_Endpoint := ''carrier''\<rparr>]\<rparr>"

lemma worked_job_leaves_tracker_witness:
  "\<exists>s'. processFax (line_env\<lparr>qe_send := switch_send sample_cfg no_faults no_faults [''carrier'']\<rparr>) False
       [''gateway''] line_job line_start = Some s' \<and> tracker_Get 7 (qs_tracker s') = None \<and> length (qs_sent s') = 1"
proof -
  have "case processFax (line_env\<lparr>qe_send := switch_send sample_cfg no_faults no_faults [''carrier'']\<rparr>) False
       [''gateway''] line_job line_start of Some s' \<Rightarrow> length (qs_sent s') = 1 | None \<Rightarrow> False"
    by code_simp
  then obtain s' where s': "processFax (line_env\<lparr>qe_send := switch_send sample_cfg no_faults no_faults [''carrier'']\<rparr>)
       False [''gateway''] line_job line_start = Some s'" "length (qs_sent s') = 1"
    by (auto split: option.splits)
  have "reach tracker_step NewFaxTracker (qs_tracker line_start)" "fj_UUID line_job = 7"
    by (simp_all add: line_start_def demo_state_def line_job_def reach.reach_start)
  then show ?thesis
    using worked_job_leaves_tracker [OF s'(1)] s' by auto
qed

end
