(* ===== verification/Fax_Inbound.thy ===== *)
theory Fax_Inbound
  imports Fax_Outbound Fax_Tracker Fax_Router IP_Sentry
begin

text \<open>
  The handler of an inbound call (\<open>gofaxserver/freeswitch_inbound.go\<close>): the refusals, the bridge and T.38
  decisions, the commands to the switch, the event loop, and what the end of the call teaches and routes.

  The commands are collected in a list; a command whose failure is only logged has no answer here.
  The items of the event stream are those of the outbound client; a signal stands for the kill
  channel. The configuration also holds what comes from libraries: UUID parsing and rendering, the path
  of a name in the temporary directory, the formatted reason of a ban, and the answers of the switch to
  \<open>api uuid_getvar\<close> (\<open>None\<close> is an error).
\<close>

section \<open>State\<close>

datatype esl_command = Send string | Execute string string | CloseConn

record inbound_config =
  ic_faxing :: FaxingConfig
  ic_RecipientFromDiversion :: bool
  ic_AnswerAfter :: nat
  ic_WaitTime :: nat
  ic_Ident :: string
  ic_TempPath :: "string \<Rightarrow> string"
  ic_ban_reason :: string
  ic_rules :: "TransformationRule list"
  ic_faults :: policy_faults
  ic_pair_faults :: pair_faults
  ic_sentry_faults :: sentry_faults
  ic_uuid_parse :: "string \<Rightarrow> uuid option"
  ic_uuid_string :: "uuid \<Rightarrow> string"
  ic_getvar :: "time \<Rightarrow> string \<Rightarrow> string option"

text \<open>What one connection sees: the answer to \<open>connect\<close> (\<open>None\<close> when it fails), the items of the
  event loop with the time each is handled, and the clock while the call is decided, when it is set
  up, and after the loop.\<close>

record inbound_env =
  ie_connect :: "event option"
  ie_items :: "(time \<times> stream_item) list"
  ie_now :: time
  ie_setup :: time
  ie_end :: time

text \<open>The parts of the server the handler reads and changes. \<open>in_commands\<close> is the dialogue with the
  switch, \<open>in_routed\<close> the jobs put on the routing channel.\<close>

record 'f inbound_state =
  in_server :: Server
  in_sentry :: "'f IPSentry option"
  in_tracker :: FaxTracker
  in_policies :: policy_state
  in_pairs :: pair_state
  in_commands :: "esl_command list"
  in_routed :: "FaxJob list"

text \<open>How a handler ends: before a job exists, with its job routed, killed, or not yet.\<close>

datatype handler_end = NoCall | Refused string | Routed FaxJob | CallKilled | Waiting

definition emit :: "esl_command list \<Rightarrow> 'f inbound_state \<Rightarrow> 'f inbound_state" where
  "emit cmds s = s\<lparr>in_commands := in_commands s @ cmds\<rparr>"

section \<open>Parts\<close>

text \<open>\<open>sip:(\d+)@\<close>, the first place it matches.\<close>

fun getNumberFromSIPURI :: "string \<Rightarrow> string option" where
  "getNumberFromSIPURI [] = None"
| "getNumberFromSIPURI (c # s) =
    (let ds = takeWhile is_digit (drop 4 (c # s)) in
     if has_prefix (c # s) ''sip:'' \<and> ds \<noteq> [] \<and> has_prefix (drop (4 + length ds) (c # s)) ''@'' then Some ds
     else getNumberFromSIPURI s)"

fun str_less :: "string \<Rightarrow> string \<Rightarrow> bool" where
  "str_less s [] \<longleftrightarrow> False"
| "str_less [] (d # t) \<longleftrightarrow> True"
| "str_less (c # s) (d # t) \<longleftrightarrow>
    (of_char c :: nat) < of_char d \<or> c = d \<and> str_less s t"

definition chanVarPairs :: "(string \<times> string) list \<Rightarrow> string list" where
  "chanVarPairs vars = stable_sort str_less (map (\<lambda>(k, v). k @ ''='' @ v) vars)"

definition chanVarPrefix :: "(string \<times> string) list \<Rightarrow> string" where
  "chanVarPrefix vars = (if vars = [] then [] else ''{'' @ join '','' (chanVarPairs vars) @ ''}'')"

section \<open>Before the call is taken\<close>

definition call_recipient :: "inbound_config \<Rightarrow> event \<Rightarrow> string option" where
  "call_recipient cfg ev =
    (if ic_RecipientFromDiversion cfg then getNumberFromSIPURI (ev_get ev ''Variable_sip_h_diversion'')
     else Some (ev_get ev ''Variable_sip_to_user''))"

definition subscribe :: "inbound_config \<Rightarrow> uuid \<Rightarrow> esl_command list" where
  "subscribe cfg u = [Send ''linger'', Send (''filter Unique-ID '' @ ic_uuid_string cfg u),
     Send (''event plain CHANNEL_CALLSTATE CHANNEL_BRIDGE CHANNEL_HANGUP CUSTOM ''
           @ ''spandsp::rxfaxnegociateresult spandsp::rxfaxpageresult spandsp::rxfaxresult'')]"

definition refuse :: "string \<Rightarrow> esl_command list" where
  "refuse code = [Execute ''respond'' code, Send ''exit'']"

text \<open>The checks up to the access list: a refusal, or the recipient and the gateway the call came from.\<close>

definition admit ::
    "inbound_config \<Rightarrow> time \<Rightarrow> event \<Rightarrow> 'f inbound_state \<Rightarrow> (string + string \<times> string) \<times> 'f inbound_state" where
  "admit cfg now ev s =
    (let ip = ev_get ev ''Variable_sip_network_ip'' in
     case call_recipient cfg ev of
       None \<Rightarrow> (Inl ''404'', emit (refuse ''404'') s)
     | Some recipient \<Rightarrow>
         if (case in_sentry s of None \<Rightarrow> False | Some se \<Rightarrow> IsBanned now ip se)
         then (Inl ''403'', emit (refuse ''403'')
                 (s\<lparr>in_sentry := map_option (\<lambda>se. fst (ShouldLogBlocked now ip se)) (in_sentry s)\<rparr>))
         else case fsGatewayACL (in_server s) ip of
           Inl _ \<Rightarrow> (Inl ''401'', emit (refuse ''401'')
                 (s\<lparr>in_sentry := map_option (RecordFailure (Some (in_server s)) (ic_sentry_faults cfg) now
                                     (ic_ban_reason cfg) ip) (in_sentry s)\<rparr>))
         | Inr ep \<Rightarrow> (Inr (recipient, before_sep (CHR '':'') ep), s))"

section \<open>Decisions\<close>

text \<open>The call once it is admitted. \<open>ca_bridge\<close> is the target of a bridge.\<close>

record inbound_call =
  ca_uuid :: uuid
  ca_recipient :: string
  ca_cidName :: string
  ca_cidNum :: string
  ca_gateway :: string
  ca_srcNum :: string
  ca_dstNum :: string
  ca_bridge :: "string option"
  ca_policy :: FaxPolicy
  ca_enableT38 :: bool
  ca_requestT38 :: bool

definition bridging :: "inbound_call \<Rightarrow> bool" where
  "bridging ca \<longleftrightarrow> ca_bridge ca \<noteq> None"

definition bridge_target :: "inbound_call \<Rightarrow> string" where
  "bridge_target ca = (case ca_bridge ca of None \<Rightarrow> [] | Some gw \<Rightarrow> gw)"

definition bridge_direction :: "inbound_call \<Rightarrow> string" where
  "bridge_direction ca =
    (case ca_bridge ca of None \<Rightarrow> []
     | Some gw \<Rightarrow> if gw = ''upstream'' then ''upstream'' else ''downstream'')"

definition call_type :: "string option \<Rightarrow> string" where
  "call_type bridge = (if bridge = None then CallTypeSoftmodem else CallTypeBridge)"

text \<open>Whether T.38 is denied to a call its policy allows it to: flip-flop probing, and for a fax received
  here a gateway that is not an upstream.\<close>

definition denies_t38 ::
    "inbound_config \<Rightarrow> Server \<Rightarrow> pair_state \<Rightarrow> time \<Rightarrow> FaxPolicy \<Rightarrow> string option \<Rightarrow> string \<Rightarrow> string \<Rightarrow> string \<Rightarrow>
     bool" where
  "denies_t38 cfg server pairs now policy bridge gateway src dst \<longleftrightarrow>
    (let unlucky = (\<not> fp_T38Decided policy \<and>
           \<not> ShouldAllowT38ForPair (cf_Policy (ic_faxing cfg)) src dst (call_type bridge) now pairs)
     in if bridge \<noteq> None then unlucky
        else if \<not> list_ex (equal_fold gateway) (sv_UpstreamFsGateways server) then True
        else unlucky)"

definition decide_call ::
    "inbound_config \<Rightarrow> time \<Rightarrow> uuid \<Rightarrow> event \<Rightarrow> string \<Rightarrow> string \<Rightarrow> 'f inbound_state \<Rightarrow> inbound_call" where
  "decide_call cfg now u ev recipient gateway s =
    (let cidNum = ev_get ev ''Channel-Caller-Id-Number'';
         src = ApplyTransformationRules (ic_rules cfg) cidNum;
         dst = ApplyTransformationRules (ic_rules cfg) recipient;
         bridge = detectAndRouteToBridge (in_server s) dst src gateway;
         policy = ResolveFaxPolicy (ic_faxing cfg) (pl_cache (in_policies s)) src dst (call_type bridge) now;
         deny = denies_t38 cfg (in_server s) (in_pairs s) now policy bridge gateway src dst
     in \<lparr>ca_uuid = u, ca_recipient = recipient, ca_cidName = ev_get ev ''Channel-Caller-Id-Name'',
         ca_cidNum = cidNum, ca_gateway = gateway, ca_srcNum = src, ca_dstNum = dst, ca_bridge = bridge,
         ca_policy = policy, ca_enableT38 = (fp_EnableT38 policy \<and> \<not> deny),
         ca_requestT38 = (fp_RequestT38 policy \<and> \<not> deny)\<rparr>)"

section \<open>Commands\<close>

definition media_vars :: "inbound_config \<Rightarrow> inbound_call \<Rightarrow> (string \<times> string) list" where
  "media_vars cfg ca = rtpMediaVars (ic_faxing cfg) (fp_VarOverrides (ca_policy ca))"

definition set_t38 :: "inbound_call \<Rightarrow> esl_command list" where
  "set_t38 ca = [Execute ''set'' (''fax_enable_t38='' @ format_bool (ca_enableT38 ca)),
                 Execute ''set'' (''fax_enable_t38_request='' @ format_bool (ca_requestT38 ca))]"

definition bridge_upstream :: "inbound_config \<Rightarrow> string list \<Rightarrow> inbound_call \<Rightarrow> esl_command list" where
  "bridge_upstream cfg upstreams ca =
    (let exports = [''fax_enable_t38='' @ format_bool (ca_enableT38 ca),
                    ''fax_enable_t38_request='' @ format_bool (ca_requestT38 ca),
                    ''sip_execute_on_image='' @ [CHR 0x27] @ ''t38_gateway self nocng'' @ [CHR 0x27]]
                   @ chanVarPairs (media_vars cfg ca)
     in map (\<lambda>gw. Send (''filter Variable_'' @ bridgeGatewayTagVar @ '' '' @ gw)) upstreams
        @ [Execute ''bridge'' (''{'' @ join '','' exports @ ''}''
             @ endpointGatewayDialstringTagged upstreams (ca_dstNum ca))])"

definition bridge_downstream :: "inbound_config \<Rightarrow> string \<Rightarrow> inbound_call \<Rightarrow> esl_command list" where
  "bridge_downstream cfg gw ca =
     set_t38 ca @ [Execute ''set'' ''sip_execute_on_image=t38_gateway self nocng'',
       Execute ''bridge'' (chanVarPrefix (media_vars cfg ca) @ ''sofia/gateway/'' @ gw @ ''/'' @ ca_dstNum ca)]"

definition temp_file :: "inbound_config \<Rightarrow> inbound_call \<Rightarrow> string" where
  "temp_file cfg ca = ic_TempPath cfg (''fax_'' @ ic_uuid_string cfg (ca_uuid ca) @ ''.tiff'')"

definition receive_fax :: "inbound_config \<Rightarrow> inbound_call \<Rightarrow> esl_command list" where
  "receive_fax cfg ca =
     set_t38 ca
     @ (case fp_UseECM (ca_policy ca) of None \<Rightarrow> []
        | Some b \<Rightarrow> [Execute ''set'' (''fax_use_ecm='' @ format_bool b)])
     @ (if fp_DisableV17 (ca_policy ca) = Some True then [Execute ''set'' ''fax_disable_v17=true''] else [])
     @ (if ic_AnswerAfter cfg \<noteq> 0
        then [Execute ''ring_ready'' [], Execute ''sleep'' (itoa (ic_AnswerAfter cfg))] else [])
     @ [Execute ''answer'' []]
     @ (if ic_WaitTime cfg \<noteq> 0 then [Execute ''playback'' (''silence_stream://'' @ itoa (ic_WaitTime cfg))] else [])
     @ [Execute ''set'' (''fax_ident='' @ ic_Ident cfg), Execute ''rxfax'' (temp_file cfg ca),
        Execute ''hangup'' []]"

text \<open>Everything the handler sends between the decision and its event loop.\<close>

definition call_commands :: "inbound_config \<Rightarrow> string list \<Rightarrow> inbound_call \<Rightarrow> esl_command list" where
  "call_commands cfg upstreams ca =
     map (Execute ''set'') (chanVarPairs (media_vars cfg ca))
     @ (case ca_bridge ca of
          None \<Rightarrow> receive_fax cfg ca
        | Some gw \<Rightarrow> Execute ''set'' (''origination_caller_id_number='' @ ca_srcNum ca)
            # (if gw = ''upstream'' then bridge_upstream cfg upstreams ca else bridge_downstream cfg gw ca))"

section \<open>The job\<close>

definition found_tenant :: "nat \<Rightarrow> dir_error + Tenant \<Rightarrow> nat" where
  "found_tenant other r = (case r of Inl _ \<Rightarrow> other | Inr t \<Rightarrow> te_ID t)"

definition src_tenant :: "Server \<Rightarrow> inbound_call \<Rightarrow> nat" where
  "src_tenant server ca =
     found_tenant (found_tenant 0 (getTenantByGateway server (ca_gateway ca)))
       (getTenantByNumber server (ca_srcNum ca))"

definition dst_tenant :: "Server \<Rightarrow> inbound_call \<Rightarrow> nat" where
  "dst_tenant server ca =
     found_tenant (if bridging ca \<and> bridge_target ca \<noteq> [] \<and> bridge_target ca \<noteq> ''upstream''
                   then found_tenant 0 (getTenantByGateway server (bridge_target ca)) else 0)
       (getTenantByNumber server (ca_dstNum ca))"

definition inbound_job :: "inbound_config \<Rightarrow> time \<Rightarrow> Server \<Rightarrow> inbound_call \<Rightarrow> FaxJob" where
  "inbound_job cfg now server ca =
     zero_FaxJob\<lparr>fj_UUID := ca_uuid ca, fj_CallUUID := ca_uuid ca, fj_CalleeNumber := ca_recipient ca,
       fj_CallerIdNumber := ca_cidNum ca, fj_CallerIdName := ca_cidName ca, fj_FileName := temp_file cfg ca,
       fj_UseECM := False, fj_DisableV17 := False,
       fj_SourceInfo := \<lparr>si_Timestamp = now, si_SourceType = ''gateway'', si_Source = ca_gateway ca,
                         si_SourceID = ic_uuid_string cfg (ca_uuid ca)\<rparr>,
       fj_UsedT38 := ca_enableT38 ca, fj_SoftmodemFallback := fp_T38ForcedOff (ca_policy ca),
       fj_AppliedPolicyIDs := fp_AppliedRuleIDs (ca_policy ca),
       fj_SrcTenantID := src_tenant server ca, fj_DstTenantID := dst_tenant server ca\<rparr>"

text \<open>\<open>Begin\<close> and the first phase.\<close>

definition track_call :: "time \<Rightarrow> FaxJob \<Rightarrow> inbound_call \<Rightarrow> FaxTracker \<Rightarrow> FaxTracker" where
  "track_call now job ca t =
    (if bridging ca then MarkBridging now (fj_UUID job) (bridge_direction ca) (bridge_target ca) (Begin now job t)
     else MarkReceiving now (fj_UUID job) (Begin now job t))"

section \<open>The event loop\<close>

record inbound_loop =
  il_result :: FaxResult
  il_bleg :: string
  il_attempts :: "bridgeAttempt list"
  il_gateway :: string
  il_tracker :: FaxTracker
  il_commands :: "esl_command list"

datatype loop_end = LoopEnded inbound_loop | LoopKilled inbound_loop | LoopOpen inbound_loop

definition il_send :: "esl_command \<Rightarrow> inbound_loop \<Rightarrow> inbound_loop" where
  "il_send c l = l\<lparr>il_commands := il_commands l @ [c]\<rparr>"

definition gateway_tag :: "event \<Rightarrow> string" where
  "gateway_tag ev = ev_get ev (''Variable_'' @ bridgeGatewayTagVar)"

text \<open>An event of the other leg of a bridge.\<close>

definition of_b_leg :: "inbound_config \<Rightarrow> inbound_call \<Rightarrow> event \<Rightarrow> bool" where
  "of_b_leg cfg ca ev \<longleftrightarrow> bridging ca \<and> ev_get ev ''Unique-ID'' \<noteq> [] \<and>
     ev_get ev ''Unique-ID'' \<noteq> ic_uuid_string cfg (ca_uuid ca)"

definition on_b_leg :: "event \<Rightarrow> inbound_loop \<Rightarrow> inbound_loop" where
  "on_b_leg ev l =
    (let l1 = l\<lparr>il_result := AddBridgeBLegEvent ev (il_result l)\<rparr>
     in if ev_get ev ''Event-Name'' = ''CHANNEL_HANGUP'' \<and> gateway_tag ev \<noteq> []
        then l1\<lparr>il_attempts := il_attempts l1 @
               [\<lparr>ba_Gateway = gateway_tag ev, ba_HangupCause = ev_get ev ''Hangup-Cause''\<rparr>]\<rparr>
        else l1)"

text \<open>Once bridged, the events of the other leg are asked for.\<close>

definition follow_b_leg :: "inbound_call \<Rightarrow> event \<Rightarrow> inbound_loop \<Rightarrow> inbound_loop" where
  "follow_b_leg ca ev l =
    (let leg = ev_get ev ''Other-Leg-Unique-Id''
     in if bridging ca \<and> il_bleg l = [] \<and> ev_get ev ''Event-Name'' = ''CHANNEL_BRIDGE'' \<and> leg \<noteq> []
        then il_send (Send (''filter Unique-ID '' @ leg)) (l\<lparr>il_bleg := leg\<rparr>) else l)"

definition found_gateway :: "time \<Rightarrow> inbound_call \<Rightarrow> string \<Rightarrow> inbound_loop \<Rightarrow> inbound_loop" where
  "found_gateway now ca gw l =
     l\<lparr>il_gateway := gw, il_tracker := MarkBridging now (ca_uuid ca) (bridge_direction ca) gw (il_tracker l)\<rparr>"

text \<open>\<open>api uuid_getvar\<close> of the gateway tag of a channel; an error counts as no answer.\<close>

definition ask_gateway :: "inbound_config \<Rightarrow> time \<Rightarrow> string \<Rightarrow> inbound_loop \<Rightarrow> string \<times> inbound_loop" where
  "ask_gateway cfg now channel l =
    (case ic_getvar cfg now channel of None \<Rightarrow> [] | Some body \<Rightarrow> trim_space body,
     il_send (Send (''api uuid_getvar '' @ channel @ '' '' @ bridgeGatewayTagVar)) l)"

definition unattributed :: "inbound_call \<Rightarrow> inbound_loop \<Rightarrow> bool" where
  "unattributed ca l \<longleftrightarrow> bridge_direction ca = ''upstream'' \<and> il_gateway l = ''upstream''"

text \<open>Which upstream answered: the tag on the event, or asked of the other leg.\<close>

definition attribute_event :: "inbound_config \<Rightarrow> time \<Rightarrow> inbound_call \<Rightarrow> event \<Rightarrow> inbound_loop \<Rightarrow> inbound_loop" where
  "attribute_event cfg now ca ev l =
    (if \<not> unattributed ca l then l
     else let leg = ev_get ev ''Other-Leg-Unique-Id'';
              (gw, l1) = (if gateway_tag ev = [] \<and> ev_get ev ''Event-Name'' = ''CHANNEL_BRIDGE'' \<and> leg \<noteq> []
                          then ask_gateway cfg now leg l else (gateway_tag ev, l))
          in if gw \<noteq> [] then found_gateway now ca gw l1 else l1)"

definition on_own_event :: "inbound_config \<Rightarrow> time \<Rightarrow> inbound_call \<Rightarrow> event \<Rightarrow> inbound_loop \<Rightarrow> inbound_loop" where
  "on_own_event cfg now ca ev l =
     attribute_event cfg now ca ev (follow_b_leg ca ev (l\<lparr>il_result := AddEvent now ev (il_result l)\<rparr>))"

fun inbound_event_loop ::
    "inbound_config \<Rightarrow> inbound_call \<Rightarrow> (time \<times> stream_item) list \<Rightarrow> inbound_loop \<Rightarrow> loop_end" where
  "inbound_event_loop cfg ca [] l = LoopOpen l"
| "inbound_event_loop cfg ca ((now, StreamError e) # items) l = LoopEnded l"
| "inbound_event_loop cfg ca ((now, StreamSignal sig) # items) l =
     LoopKilled (il_send CloseConn (il_send (Send (''api uuid_kill '' @ ic_uuid_string cfg (ca_uuid ca))) l))"
| "inbound_event_loop cfg ca ((now, StreamEvent ev) # items) l =
    (if ev_get ev ''Content-Type'' = ''text/disconnect-notice'' then inbound_event_loop cfg ca items l
     else if of_b_leg cfg ca ev then inbound_event_loop cfg ca items (on_b_leg ev l)
     else let l1 = on_own_event cfg now ca ev l in
          if fr_HangupCause (il_result l1) \<noteq> [] then LoopEnded (il_send CloseConn l1)
          else inbound_event_loop cfg ca items l1)"

section \<open>After the loop\<close>

definition attribute_end :: "inbound_config \<Rightarrow> time \<Rightarrow> inbound_call \<Rightarrow> inbound_loop \<Rightarrow> inbound_loop" where
  "attribute_end cfg now ca l =
    (let l1 = (if \<not> unattributed ca l then l
               else let (gw, l1) = ask_gateway cfg now (ic_uuid_string cfg (ca_uuid ca)) l
                    in if gw \<noteq> [] then found_gateway now ca gw l1 else l1);
         gw = resolveUpstreamBridgeGateway (il_gateway l1) (il_attempts l1)
     in if bridge_direction ca = ''upstream'' \<and> gw \<noteq> il_gateway l1 then found_gateway now ca gw l1 else l1)"

text \<open>The policy engine: the remote end of a received fax is the caller, of a bridge the side of
  the upstream.\<close>

definition inbound_learn ::
    "inbound_config \<Rightarrow> time \<Rightarrow> inbound_call \<Rightarrow> FaxResult \<Rightarrow> policy_state \<Rightarrow> policy_state" where
  "inbound_learn cfg now ca result policies =
    (let pcfg = cf_Policy (ic_faxing cfg) in
     if \<not> bridging ca then
       (if fr_Success result then LearnFaxPolicySuccess pcfg (ic_faults cfg) now (ca_srcNum ca) policies
        else if qualifiesForLearning (Some result)
        then LearnFaxPolicyFailure pcfg (ic_faults cfg) now (ca_srcNum ca) (Some result) policies
        else policies)
     else if \<not> fr_Success result \<and> ca_enableT38 ca \<and> isT38NegotiationHangup (fr_HangupCause result)
     then LearnFaxPolicyBridgeFailure pcfg (ic_faults cfg) now
            (if bridge_direction ca = ''downstream'' then ca_srcNum ca else ca_dstNum ca)
            (fr_HangupCause result) policies
     else policies)"

definition close_job :: "inbound_env \<Rightarrow> inbound_call \<Rightarrow> inbound_loop \<Rightarrow> FaxJob \<Rightarrow> FaxJob" where
  "close_job env ca l job =
    (let result = il_result l;
         j1 = (if bridging ca then
                 job\<lparr>fj_ConnTime := (if ie_setup env \<noteq> zero_time \<and> ie_end env \<noteq> zero_time
                                       then time_sub (ie_end env) (ie_setup env) else fj_ConnTime job),
                     fj_IsBridge := True, fj_BridgeDirection := bridge_direction ca,
                     fj_BridgeGateway := il_gateway l, fj_BridgeStartTs := ie_setup env,
                     fj_BridgeEndTs := ie_end env, fj_BridgeT38 := ca_enableT38 ca\<rparr>
               else job)
     in j1\<lparr>fj_Result := Some result,
           fj_NotifyOnly := (bridging ca \<or> \<not> fr_Success result \<and> fr_TransferredPages result = 0)\<rparr>)"

definition note_pair :: "inbound_config \<Rightarrow> time \<Rightarrow> inbound_call \<Rightarrow> pair_state \<Rightarrow> pair_state" where
  "note_pair cfg now ca pairs =
    (if fp_T38ForcedOff (ca_policy ca) then pairs
     else UpdateT38PairState (ic_pair_faults cfg) (ca_srcNum ca) (ca_dstNum ca) (call_type (ca_bridge ca))
            (ca_enableT38 ca) now pairs)"

text \<open>The end of the call: attribution, learning, the job, the pair state, and the routing channel.\<close>

definition end_call ::
    "inbound_config \<Rightarrow> inbound_env \<Rightarrow> inbound_call \<Rightarrow> FaxJob \<Rightarrow> inbound_loop \<Rightarrow> 'f inbound_state \<Rightarrow>
     handler_end \<times> 'f inbound_state" where
  "end_call cfg env ca job l0 s =
    (let l = attribute_end cfg (ie_end env) ca l0;
         done_job = close_job env ca l job
     in (Routed done_job,
         s\<lparr>in_tracker := il_tracker l, in_commands := il_commands l,
           in_policies := inbound_learn cfg (ie_end env) ca (il_result l) (in_policies s),
           in_pairs := note_pair cfg (ie_end env) ca (in_pairs s),
           in_routed := in_routed s @ [done_job]\<rparr>))"

text \<open>An admitted call.\<close>

definition take_call ::
    "inbound_config \<Rightarrow> inbound_env \<Rightarrow> uuid \<Rightarrow> event \<Rightarrow> string \<Rightarrow> string \<Rightarrow> 'f inbound_state \<Rightarrow>
     handler_end \<times> 'f inbound_state" where
  "take_call cfg env u ev recipient gateway s =
    (let ca = decide_call cfg (ie_now env) u ev recipient gateway s;
         s1 = emit (call_commands cfg (sv_UpstreamFsGateways (in_server s)) ca) s;
         job = inbound_job cfg (ie_setup env) (in_server s) ca;
         l = \<lparr>il_result = NewFaxResult u (bridging ca), il_bleg = [], il_attempts = [],
              il_gateway = bridge_target ca, il_tracker = track_call (ie_setup env) job ca (in_tracker s1),
              il_commands = in_commands s1\<rparr>
     in case inbound_event_loop cfg ca (ie_items env) l of
          LoopEnded l1 \<Rightarrow> end_call cfg env ca job l1 s1
        | LoopKilled l1 \<Rightarrow> (CallKilled, s1\<lparr>in_tracker := il_tracker l1, in_commands := il_commands l1\<rparr>)
        | LoopOpen l1 \<Rightarrow> (Waiting, s1\<lparr>in_tracker := il_tracker l1, in_commands := il_commands l1\<rparr>))"

definition handler ::
    "inbound_config \<Rightarrow> inbound_env \<Rightarrow> 'f inbound_state \<Rightarrow> handler_end \<times> 'f inbound_state" where
  "handler cfg env s =
    (let s0 = emit [Send ''connect''] s in
     case ie_connect env of
       None \<Rightarrow> (NoCall, emit [Send ''exit''] s0)
     | Some ev \<Rightarrow> (case ic_uuid_parse cfg (ev_get ev ''Unique-Id'') of
         None \<Rightarrow> (NoCall, emit [Send ''exit''] s0)
       | Some u \<Rightarrow> (case admit cfg (ie_now env) ev (emit (subscribe cfg u) s0) of
           (Inl code, s1) \<Rightarrow> (Refused code, s1)
         | (Inr (recipient, gateway), s1) \<Rightarrow> take_call cfg env u ev recipient gateway s1)))"

section \<open>Lemmas\<close>

subsection \<open>Refusals\<close>

definition untouched :: "'f inbound_state \<Rightarrow> 'f inbound_state \<Rightarrow> bool" where
  "untouched s t \<longleftrightarrow> in_server t = in_server s \<and> in_tracker t = in_tracker s \<and> in_policies t = in_policies s
     \<and> in_pairs t = in_pairs s \<and> in_routed t = in_routed s"

definition only_responds :: "esl_command list \<Rightarrow> bool" where
  "only_responds cmds \<longleftrightarrow> list_all (\<lambda>c. case c of Execute app args \<Rightarrow> app = ''respond'' | _ \<Rightarrow> True) cmds"

lemma emit_fields [simp]:
  "in_server (emit cs s) = in_server s" "in_sentry (emit cs s) = in_sentry s"
  "in_tracker (emit cs s) = in_tracker s" "in_policies (emit cs s) = in_policies s"
  "in_pairs (emit cs s) = in_pairs s" "in_routed (emit cs s) = in_routed s"
  "in_commands (emit cs s) = in_commands s @ cs"
  by (simp_all add: emit_def)

lemma untouched_emit [simp]: "untouched s (emit cs t) \<longleftrightarrow> untouched s t"
  by (simp add: untouched_def)

lemma only_responds_append [simp]: "only_responds (a @ b) \<longleftrightarrow> only_responds a \<and> only_responds b"
  by (simp add: only_responds_def)

lemma responses [simp]:
  "only_responds []" "only_responds (refuse code)" "only_responds (subscribe cfg u)"
  "only_responds (Send c # cs) \<longleftrightarrow> only_responds cs"
  by (simp_all add: only_responds_def refuse_def subscribe_def)

text \<open>How \<open>admit\<close> answers, and what it leaves alone.\<close>

lemma admit_refuses:
  "admit cfg now ev s = (Inl code, t) \<Longrightarrow> untouched s t \<and> in_commands t = in_commands s @ refuse code
     \<and> code \<in> {''404'', ''403'', ''401''}"
  by (auto simp: admit_def Let_def untouched_def split: option.splits sum.splits if_splits)

lemma admit_accepts:
  "admit cfg now ev s = (Inr (recipient, gateway), t) \<Longrightarrow> t = s
     \<and> call_recipient cfg ev = Some recipient
     \<and> (\<forall>se. in_sentry s = Some se \<longrightarrow> \<not> IsBanned now (ev_get ev ''Variable_sip_network_ip'') se)
     \<and> (\<exists>ep. fsGatewayACL (in_server s) (ev_get ev ''Variable_sip_network_ip'') = Inr ep
             \<and> gateway = before_sep (CHR '':'') ep)"
  by (auto simp: admit_def Let_def split: option.splits sum.splits if_splits)

lemma handler_cases:
  assumes "handler cfg env s = (r, t)"
  obtains "r = NoCall" "untouched s t" "in_sentry t = in_sentry s"
      "in_commands t = in_commands s @ [Send ''connect'', Send ''exit'']"
  | ev u code where "ie_connect env = Some ev" "ic_uuid_parse cfg (ev_get ev ''Unique-Id'') = Some u"
      "admit cfg (ie_now env) ev (emit (Send ''connect'' # subscribe cfg u) s) = (Inl code, t)" "r = Refused code"
  | ev u recipient gateway where "ie_connect env = Some ev" "ic_uuid_parse cfg (ev_get ev ''Unique-Id'') = Some u"
      "admit cfg (ie_now env) ev (emit (Send ''connect'' # subscribe cfg u) s)
         = (Inr (recipient, gateway), emit (Send ''connect'' # subscribe cfg u) s)"
      "take_call cfg env u ev recipient gateway (emit (Send ''connect'' # subscribe cfg u) s) = (r, t)"
proof -
  have emits: "emit b (emit a q) = emit (a @ b) q" for a b and q :: "'f inbound_state"
    by (simp add: emit_def)
  show ?thesis
  proof (cases "ie_connect env")
    case None
    then show ?thesis
      using assms that(1) by (auto simp: handler_def Let_def emits untouched_def)
  next
    case (Some ev)
    show ?thesis
    proof (cases "ic_uuid_parse cfg (ev_get ev ''Unique-Id'')")
      case None
      then show ?thesis
        using assms Some that(1) by (auto simp: handler_def Let_def emits untouched_def)
    next
      case u: (Some u)
      obtain a s1 where a: "admit cfg (ie_now env) ev (emit (Send ''connect'' # subscribe cfg u) s) = (a, s1)"
        by (cases "admit cfg (ie_now env) ev (emit (Send ''connect'' # subscribe cfg u) s)") auto
      show ?thesis
        using assms Some u a that(2) [OF Some u] that(3) [OF Some u]
        by (cases a) (auto simp: handler_def Let_def emits dest!: admit_accepts)
    qed
  qed
qed

subsection \<open>The event loop as steps\<close>

inductive inbound_step ::
    "inbound_config \<Rightarrow> inbound_call \<Rightarrow> (time \<times> stream_item) set \<Rightarrow> inbound_loop \<Rightarrow> inbound_loop \<Rightarrow> bool"
    for cfg ca I where
  is_b_leg: "(now, StreamEvent ev) \<in> I \<Longrightarrow> inbound_step cfg ca I l (on_b_leg ev l)"
| is_own: "(now, StreamEvent ev) \<in> I \<Longrightarrow> inbound_step cfg ca I l (l\<lparr>il_result := AddEvent now ev (il_result l)\<rparr>)"
| is_follow: "inbound_step cfg ca I l (l\<lparr>il_bleg := leg\<rparr>)"
| is_send: "inbound_step cfg ca I l (il_send (Send c) l)"
| is_close: "inbound_step cfg ca I l (il_send CloseConn l)"
| is_gateway: "bridge_direction ca = ''upstream'' \<Longrightarrow> inbound_step cfg ca I l (found_gateway now ca gw l)"

lemmas line_then = reach.reach_step [where R = "inbound_step cfg ca I" for cfg ca I]

lemma line_once: "inbound_step cfg ca I l l' \<Longrightarrow> reach (inbound_step cfg ca I) l l'"
  by (rule line_then [OF reach.reach_start])

lemma ask_gateway_reach: "ask_gateway cfg now ch l = (gw, l') \<Longrightarrow> reach (inbound_step cfg ca I) l l'"
  by (auto simp: ask_gateway_def intro: line_then reach.reach_start is_send)

lemma attribute_event_reach: "reach (inbound_step cfg ca I) l (attribute_event cfg now ca ev l)"
proof (cases "unattributed ca l")
  case True
  then have up: "bridge_direction ca = ''upstream''"
    by (simp add: unattributed_def)
  show ?thesis
    using True by (auto simp: attribute_event_def Let_def split: prod.splits if_splits
        intro: is_gateway [OF up] ask_gateway_reach line_then reach.reach_start)
qed (simp add: attribute_event_def reach.reach_start)

lemma follow_b_leg_reach: "reach (inbound_step cfg ca I) l (follow_b_leg ca ev l)"
  unfolding follow_b_leg_def Let_def
  by (auto simp del: append.simps intro!: line_then [OF line_once [OF is_follow] is_send] reach.reach_start)

lemma on_own_event_reach:
  assumes "(now, StreamEvent ev) \<in> I"
  shows "reach (inbound_step cfg ca I) l (on_own_event cfg now ca ev l)"
  unfolding on_own_event_def
  by (rule reach_trans [OF attribute_event_reach reach_trans [OF follow_b_leg_reach
        line_once [OF is_own [OF assms]]]])

lemma attribute_end_reach: "reach (inbound_step cfg ca I) l (attribute_end cfg now ca l)"
proof -
  define l1 where "l1 = (if \<not> unattributed ca l then l
      else let (gw, l1) = ask_gateway cfg now (ic_uuid_string cfg (ca_uuid ca)) l
           in if gw \<noteq> [] then found_gateway now ca gw l1 else l1)"
  have "reach (inbound_step cfg ca I) l l1"
    by (auto simp: l1_def unattributed_def split: prod.splits if_splits
        intro: is_gateway ask_gateway_reach line_then reach.reach_start)
  then show ?thesis
    unfolding attribute_end_def l1_def [symmetric] by (auto simp: Let_def intro: line_then is_gateway)
qed

definition loop_state :: "loop_end \<Rightarrow> inbound_loop" where
  "loop_state e = (case e of LoopEnded l \<Rightarrow> l | LoopKilled l \<Rightarrow> l | LoopOpen l \<Rightarrow> l)"

lemma loop_reach: "set items \<subseteq> I \<Longrightarrow>
    reach (inbound_step cfg ca I) l (loop_state (inbound_event_loop cfg ca items l))"
proof (induction cfg ca items l rule: inbound_event_loop.induct)
  case (3 cfg ca now sig items l)
  then show ?case
    by (simp add: loop_state_def) (rule line_then [OF line_once [OF is_send] is_close])
next
  case (4 cfg ca now ev items l)
  have "reach (inbound_step cfg ca I) l (on_b_leg ev l)"
    "reach (inbound_step cfg ca I) l (on_own_event cfg now ca ev l)"
    using 4(4) by (auto intro: line_once [OF is_b_leg] on_own_event_reach)
  then show ?case
    using 4 by (auto simp: loop_state_def Let_def intro: reach_trans line_then is_close)
qed (simp_all add: loop_state_def reach.reach_start)

subsection \<open>What a call does to the tracker\<close>

definition tracked_as :: "FaxPhase \<Rightarrow> uuid \<Rightarrow> FaxTracker \<Rightarrow> bool" where
  "tracked_as ph u t \<longleftrightarrow> (\<exists>st. map_of (byJob t) u = Some st \<and> st_Phase st = ph)"

definition call_phase :: "inbound_call \<Rightarrow> FaxPhase" where
  "call_phase ca = (if bridging ca then PhaseBridging else PhaseReceiving)"

definition same_line :: "inbound_call \<Rightarrow> inbound_loop \<Rightarrow> inbound_loop \<Rightarrow> bool" where
  "same_line ca l0 l \<longleftrightarrow> reach tracker_step (il_tracker l0) (il_tracker l)
     \<and> (\<forall>j. j \<noteq> ca_uuid ca \<longrightarrow> map_of (byJob (il_tracker l)) j = map_of (byJob (il_tracker l0)) j)
     \<and> (tracked_as (call_phase ca) (ca_uuid ca) (il_tracker l0) \<longrightarrow>
        tracked_as (call_phase ca) (ca_uuid ca) (il_tracker l))
     \<and> (\<exists>cmds. il_commands l = il_commands l0 @ cmds \<and> list_all (\<lambda>c. \<forall>app args. c \<noteq> Execute app args) cmds)"

lemma bridging_frame:
  "j \<noteq> k \<Longrightarrow> map_of (byJob (MarkBridging now k dir gw t)) j = map_of (byJob t) j"
  "j \<noteq> k \<Longrightarrow> map_of (byJob (MarkReceiving now k t)) j = map_of (byJob t) j"
  "map_of (byJob t) k \<noteq> None \<Longrightarrow> tracked_as PhaseBridging k (MarkBridging now k dir gw t)"
  "map_of (byJob t) k \<noteq> None \<Longrightarrow> tracked_as PhaseReceiving k (MarkReceiving now k t)"
  by (auto simp: tracker_defs tracked_as_def update_conv' split: option.splits)

lemma direction_bridging: "bridge_direction ca = ''upstream'' \<Longrightarrow> bridging ca"
  by (simp add: bridge_direction_def bridging_def split: option.splits)

interpretation on_line: step_invariant "inbound_step cfg ca I" l0 "same_line ca l0" for cfg ca I l0
proof
  show "same_line ca l0 l0"
    by (simp add: same_line_def reach.reach_start)
  show "same_line ca l0 t" if "same_line ca l0 s" "inbound_step cfg ca I s t" for s t
    using that(2,1)
  proof cases
    case (is_gateway now gw)
    have ph: "call_phase ca = PhaseBridging"
      using direction_bridging [OF is_gateway(2)] by (simp add: call_phase_def)
    have "tracked_as PhaseBridging u q \<Longrightarrow> tracked_as PhaseBridging u (MarkBridging now u dir gw q)" for u dir q
      by (rule bridging_frame) (auto simp: tracked_as_def)
    then show ?thesis
      using that(1) unfolding is_gateway(1)
      by (auto simp: same_line_def found_gateway_def bridging_frame ph intro: tracker_reach ts_MarkBridging)
  qed (auto simp: same_line_def on_b_leg_def il_send_def Let_def)
qed

lemma track_call_tracks:
  "fj_UUID job = ca_uuid ca \<Longrightarrow> tracked_as (call_phase ca) (ca_uuid ca) (track_call now job ca t)"
proof -
  have "map_of (byJob (Begin now job t)) (fj_UUID job) \<noteq> None"
    by (auto simp: Begin_def Let_def update_conv' split: option.splits)
  then show "fj_UUID job = ca_uuid ca \<Longrightarrow> ?thesis"
    by (auto simp: track_call_def call_phase_def bridging_frame)
qed

lemma track_call_frame:
  "j \<noteq> fj_UUID job \<Longrightarrow> map_of (byJob (track_call now job ca t)) j = map_of (byJob t) j"
  by (auto simp: track_call_def bridging_frame) (auto simp: Begin_def Let_def update_conv' split: option.splits)

lemma track_call_reach: "reach tracker_step t (track_call now job ca t)"
  by (auto simp: track_call_def intro!: tracker_reach [OF tracker_reach [OF reach.reach_start ts_Begin]]
      ts_MarkBridging ts_MarkReceiving)

subsection \<open>The other leg\<close>

text \<open>The result of a call without the field of the bridged b-leg.\<close>

definition leg_t38 :: "string \<Rightarrow> FaxResult \<Rightarrow> FaxResult" where
  "leg_t38 x f = f\<lparr>fr_BridgeBLegT38 := x\<rparr>"

lemma leg_on_int:
  "(\<And>n g. upd n (leg_t38 x g) = leg_t38 x (upd n g)) \<Longrightarrow> on_int v upd (leg_t38 x f) = leg_t38 x (on_int v upd f)"
  by (simp add: on_int_def split: option.split)

lemma leg_on_res:
  "(\<And>n g. upd n (leg_t38 x g) = leg_t38 x (upd n g)) \<Longrightarrow> on_res v upd (leg_t38 x f) = leg_t38 x (on_res v upd f)"
  by (simp add: on_res_def split: option.split)

lemma leg_on_if:
  "(\<And>g. upd (leg_t38 x g) = leg_t38 x (upd g)) \<Longrightarrow> on_if b upd (leg_t38 x f) = leg_t38 x (on_if b upd f)"
  by (simp add: on_if_def)

lemma leg_frame [simp]:
  "fr_T38Status (leg_t38 x f) = fr_T38Status f" "fr_LocalID (leg_t38 x f) = fr_LocalID f"
  "fr_RemoteID (leg_t38 x f) = fr_RemoteID f" "fr_ResultVars (leg_t38 x f) = fr_ResultVars f"
  "fr_NegotiateCount (leg_t38 x f) = fr_NegotiateCount f" "fr_PageResults (leg_t38 x f) = fr_PageResults f"
  "fr_bridge (leg_t38 x f) = fr_bridge f" "fr_BridgeALegT38 (leg_t38 x f) = fr_BridgeALegT38 f"
  "fr_TransferredPages (leg_t38 x f) = fr_TransferredPages f" "fr_HangupCause (leg_t38 x f) = fr_HangupCause f"
  "fr_BridgeBLegT38 (leg_t38 x f) = x"
  "leg_t38 x (leg_t38 y f) = leg_t38 x f"
  by (simp_all add: leg_t38_def)

lemma leg_update:
  "fr_StartTs_update g1 (leg_t38 x f) = leg_t38 x (fr_StartTs_update g1 f)"
  "fr_EndTs_update g2 (leg_t38 x f) = leg_t38 x (fr_EndTs_update g2 f)"
  "fr_HangupCause_update g3 (leg_t38 x f) = leg_t38 x (fr_HangupCause_update g3 f)"
  "fr_TotalPages_update g4 (leg_t38 x f) = leg_t38 x (fr_TotalPages_update g4 f)"
  "fr_TransferredPages_update g5 (leg_t38 x f) = leg_t38 x (fr_TransferredPages_update g5 f)"
  "fr_Ecm_update g6 (leg_t38 x f) = leg_t38 x (fr_Ecm_update g6 f)"
  "fr_EcmRequested_update g7 (leg_t38 x f) = leg_t38 x (fr_EcmRequested_update g7 f)"
  "fr_RemoteID_update g8 (leg_t38 x f) = leg_t38 x (fr_RemoteID_update g8 f)"
  "fr_LocalID_update g9 (leg_t38 x f) = leg_t38 x (fr_LocalID_update g9 f)"
  "fr_ResultCode_update g10 (leg_t38 x f) = leg_t38 x (fr_ResultCode_update g10 f)"
  "fr_ResultText_update g11 (leg_t38 x f) = leg_t38 x (fr_ResultText_update g11 f)"
  "fr_Success_update g12 (leg_t38 x f) = leg_t38 x (fr_Success_update g12 f)"
  "fr_TransferRate_update g13 (leg_t38 x f) = leg_t38 x (fr_TransferRate_update g13 f)"
  "fr_NegotiateCount_update g14 (leg_t38 x f) = leg_t38 x (fr_NegotiateCount_update g14 f)"
  "fr_T38Status_update g15 (leg_t38 x f) = leg_t38 x (fr_T38Status_update g15 f)"
  "fr_V17Disabled_update g16 (leg_t38 x f) = leg_t38 x (fr_V17Disabled_update g16 f)"
  "fr_PageResults_update g17 (leg_t38 x f) = leg_t38 x (fr_PageResults_update g17 f)"
  "fr_BadRows_update g18 (leg_t38 x f) = leg_t38 x (fr_BadRows_update g18 f)"
  "fr_LongestBadRowRun_update g19 (leg_t38 x f) = leg_t38 x (fr_LongestBadRowRun_update g19 f)"
  "fr_Encoding_update g20 (leg_t38 x f) = leg_t38 x (fr_Encoding_update g20 f)"
  "fr_EncodingName_update g21 (leg_t38 x f) = leg_t38 x (fr_EncodingName_update g21 f)"
  "fr_ImageSize_update g22 (leg_t38 x f) = leg_t38 x (fr_ImageSize_update g22 f)"
  "fr_ImageResolution_update g23 (leg_t38 x f) = leg_t38 x (fr_ImageResolution_update g23 f)"
  "fr_FileImageResolution_update g24 (leg_t38 x f) = leg_t38 x (fr_FileImageResolution_update g24 f)"
  "fr_ImagePixelSize_update g25 (leg_t38 x f) = leg_t38 x (fr_ImagePixelSize_update g25 f)"
  "fr_FileImagePixelSize_update g26 (leg_t38 x f) = leg_t38 x (fr_FileImagePixelSize_update g26 f)"
  "fr_RemoteCountry_update g27 (leg_t38 x f) = leg_t38 x (fr_RemoteCountry_update g27 f)"
  "fr_RemoteVendor_update g28 (leg_t38 x f) = leg_t38 x (fr_RemoteVendor_update g28 f)"
  "fr_RemoteModel_update g29 (leg_t38 x f) = leg_t38 x (fr_RemoteModel_update g29 f)"
  "fr_TraceFile_update g30 (leg_t38 x f) = leg_t38 x (fr_TraceFile_update g30 f)"
  "fr_ResultVars_update g31 (leg_t38 x f) = leg_t38 x (fr_ResultVars_update g31 f)"
  "fr_BridgeALegT38_update g32 (leg_t38 x f) = leg_t38 x (fr_BridgeALegT38_update g32 f)"
  by (simp_all add: leg_t38_def)

lemmas leg_simps = leg_update leg_on_int leg_on_res leg_on_if

lemma leg_if: "a = leg_t38 x c \<Longrightarrow> b = leg_t38 x d \<Longrightarrow> (if p then a else b) = leg_t38 x (if p then c else d)"
  by simp

lemma leg_harvest_var: "harvest_var name v (leg_t38 x f) = leg_t38 x (harvest_var name v f)"
  unfolding harvest_var_def by ((rule leg_if, (simp add: leg_simps; fail))+) (rule refl)

lemma leg_harvest: "fold (harvest_one ev) names (leg_t38 x f) = leg_t38 x (fold (harvest_one ev) names f)"
  by (induction names arbitrary: f) (simp_all add: harvest_one_def Let_def leg_harvest_var leg_update)

lemma leg_callstate: "AddEvent_callstate now ev (leg_t38 x f) = leg_t38 x (AddEvent_callstate now ev f)"
  by (simp add: AddEvent_callstate_def Let_def leg_simps)

lemma leg_hangup: "AddEvent_hangup ev (leg_t38 x f) = leg_t38 x (AddEvent_hangup ev f)"
  by (simp add: AddEvent_hangup_def harvestResultVars_def Let_def leg_harvest leg_simps)

lemma leg_negotiate: "AddEvent_negotiate ev (leg_t38 x f) = leg_t38 x (AddEvent_negotiate ev f)"
  by (simp add: AddEvent_negotiate_def Let_def leg_simps)

lemma leg_page: "AddEvent_page now ev (leg_t38 x f) = leg_t38 x (AddEvent_page now ev f)"
  by (simp add: AddEvent_page_def Let_def leg_simps)

lemma leg_result: "AddEvent_result ev (leg_t38 x f) = leg_t38 x (AddEvent_result ev f)"
  by (simp add: AddEvent_result_def Let_def leg_simps)

lemma AddEvent_leg: "AddEvent now ev (leg_t38 x f) = leg_t38 x (AddEvent now ev f)"
  by (simp add: AddEvent_def leg_callstate leg_hangup leg_negotiate leg_page leg_result)

text \<open>The loop state without what only the other leg's events write.\<close>

definition own_part :: "inbound_loop \<Rightarrow> inbound_loop" where
  "own_part l = l\<lparr>il_result := leg_t38 [] (il_result l), il_attempts := []\<rparr>"

definition same_end :: "loop_end \<Rightarrow> loop_end \<Rightarrow> bool" where
  "same_end a b \<longleftrightarrow> (case (a, b) of
      (LoopEnded k, LoopEnded l) \<Rightarrow> own_part k = own_part l
    | (LoopKilled k, LoopKilled l) \<Rightarrow> own_part k = own_part l
    | (LoopOpen k, LoopOpen l) \<Rightarrow> own_part k = own_part l
    | _ \<Rightarrow> False)"

definition b_leg_item :: "inbound_config \<Rightarrow> inbound_call \<Rightarrow> stream_item \<Rightarrow> bool" where
  "b_leg_item cfg ca item \<longleftrightarrow> (case item of StreamEvent ev \<Rightarrow> of_b_leg cfg ca ev | _ \<Rightarrow> False)"

lemma own_part_idem [simp]: "own_part (own_part l) = own_part l"
  by (simp add: own_part_def)

lemma own_part_b_leg [simp]: "own_part (on_b_leg ev l) = own_part l"
  by (auto simp: own_part_def on_b_leg_def AddBridgeBLegEvent_def leg_t38_def Let_def)

lemma own_part_send [simp]: "own_part (il_send c l) = il_send c (own_part l)"
  by (simp add: own_part_def il_send_def)

lemma own_part_found [simp]: "own_part (found_gateway now ca gw l) = found_gateway now ca gw (own_part l)"
  by (simp add: own_part_def found_gateway_def)

lemma own_part_fields [simp]:
  "il_gateway (own_part l) = il_gateway l" "il_bleg (own_part l) = il_bleg l"
  "fr_HangupCause (il_result (own_part l)) = fr_HangupCause (il_result l)"
  "unattributed ca (own_part l) = unattributed ca l"
  "own_part (l\<lparr>il_bleg := b\<rparr>) = (own_part l)\<lparr>il_bleg := b\<rparr>"
  by (simp_all add: own_part_def unattributed_def)

lemma own_part_event:
  "own_part (on_own_event cfg now ca ev l) = on_own_event cfg now ca ev (own_part l)"
proof -
  have 1: "own_part (l\<lparr>il_result := AddEvent now ev (il_result l)\<rparr>)
      = (own_part l)\<lparr>il_result := AddEvent now ev (il_result (own_part l))\<rparr>"
    by (simp add: own_part_def AddEvent_leg)
  have 2: "own_part (follow_b_leg ca ev k) = follow_b_leg ca ev (own_part k)" for k
    by (simp add: follow_b_leg_def Let_def)
  have 3: "own_part (attribute_event cfg now ca ev k) = attribute_event cfg now ca ev (own_part k)" for k
    by (simp add: attribute_event_def ask_gateway_def Let_def)
  show ?thesis
    by (simp add: on_own_event_def 1 2 3)
qed

lemma own_part_event_cong:
  assumes "own_part k = own_part l"
  shows "own_part (on_own_event cfg now ca ev k) = own_part (on_own_event cfg now ca ev l)"
    and "fr_HangupCause (il_result (on_own_event cfg now ca ev k))
       = fr_HangupCause (il_result (on_own_event cfg now ca ev l))"
proof -
  show eq: "own_part (on_own_event cfg now ca ev k) = own_part (on_own_event cfg now ca ev l)"
    by (simp only: own_part_event assms)
  show "fr_HangupCause (il_result (on_own_event cfg now ca ev k))
       = fr_HangupCause (il_result (on_own_event cfg now ca ev l))"
    using arg_cong [OF eq, of "\<lambda>l. fr_HangupCause (il_result l)"] by simp
qed

lemma b_leg_ignored:
  "own_part k = own_part l \<Longrightarrow> same_end (inbound_event_loop cfg ca items k)
     (inbound_event_loop cfg ca (filter (\<lambda>(now, item). \<not> b_leg_item cfg ca item) items) l)"
proof (induction cfg ca items k arbitrary: l rule: inbound_event_loop.induct)
  case (4 cfg ca now ev items k)
  note cong = own_part_event_cong [OF 4(4), of cfg now ca ev]
  consider (notice) "ev_get ev ''Content-Type'' = ''text/disconnect-notice''"
    | (other) "ev_get ev ''Content-Type'' \<noteq> ''text/disconnect-notice''" "of_b_leg cfg ca ev"
    | (own) "ev_get ev ''Content-Type'' \<noteq> ''text/disconnect-notice''" "\<not> of_b_leg cfg ca ev"
    by blast
  then show ?case
  proof cases
    case notice
    then show ?thesis
      using 4(1) [OF notice 4(4)] by (simp add: b_leg_item_def)
  next
    case other
    then show ?thesis
      using 4(2) [OF other, of l] 4(4) by (simp add: b_leg_item_def)
  next
    case own
    then show ?thesis
      using 4(3) [OF own refl _ cong(1)] cong by (simp add: b_leg_item_def Let_def same_end_def)
  qed
qed (auto simp: same_end_def b_leg_item_def)

subsection \<open>The whole call\<close>

lemma take_call_routed:
  assumes "take_call cfg env u ev recipient gateway s = (Routed job, t)"
  obtains ca j0 l0 l where "ca = decide_call cfg (ie_now env) u ev recipient gateway s"
    "j0 = inbound_job cfg (ie_setup env) (in_server s) ca"
    "il_tracker l0 = track_call (ie_setup env) j0 ca (in_tracker s)"
    "il_commands l0 = in_commands s @ call_commands cfg (sv_UpstreamFsGateways (in_server s)) ca"
    "reach (inbound_step cfg ca (set (ie_items env))) l0 l" "il_result l0 = NewFaxResult u (bridging ca)"
    "job = close_job env ca l j0" "in_tracker t = il_tracker l" "in_commands t = il_commands l"
    "in_routed t = in_routed s @ [job]" "in_sentry t = in_sentry s" "in_server t = in_server s"
    "in_policies t = inbound_learn cfg (ie_end env) ca (il_result l) (in_policies s)"
    "in_pairs t = note_pair cfg (ie_end env) ca (in_pairs s)"
proof -
  define ca where "ca = decide_call cfg (ie_now env) u ev recipient gateway s"
  define s1 where "s1 = emit (call_commands cfg (sv_UpstreamFsGateways (in_server s)) ca) s"
  define j0 where "j0 = inbound_job cfg (ie_setup env) (in_server s) ca"
  define l0 where "l0 = \<lparr>il_result = NewFaxResult u (bridging ca), il_bleg = [], il_attempts = [],
      il_gateway = bridge_target ca, il_tracker = track_call (ie_setup env) j0 ca (in_tracker s1),
      il_commands = in_commands s1\<rparr>"
  have unf: "take_call cfg env u ev recipient gateway s = (case inbound_event_loop cfg ca (ie_items env) l0 of
          LoopEnded l1 \<Rightarrow> end_call cfg env ca j0 l1 s1
        | LoopKilled l1 \<Rightarrow> (CallKilled, s1\<lparr>in_tracker := il_tracker l1, in_commands := il_commands l1\<rparr>)
        | LoopOpen l1 \<Rightarrow> (Waiting, s1\<lparr>in_tracker := il_tracker l1, in_commands := il_commands l1\<rparr>))"
    unfolding take_call_def Let_def ca_def s1_def j0_def l0_def by (rule refl)
  obtain l1 where l1: "inbound_event_loop cfg ca (ie_items env) l0 = LoopEnded l1"
      and e: "end_call cfg env ca j0 l1 s1 = (Routed job, t)"
    using assms unf by (auto split: loop_end.splits)
  have "reach (inbound_step cfg ca (set (ie_items env))) l0 (attribute_end cfg (ie_end env) ca l1)"
    using loop_reach [of "ie_items env" "set (ie_items env)" cfg ca l0] l1
    by (auto simp: loop_state_def intro: reach_trans [OF attribute_end_reach])
  then show ?thesis
    using e by (intro that [OF ca_def j0_def, of l0 "attribute_end cfg (ie_end env) ca l1"])
      (auto simp: end_call_def Let_def l0_def s1_def)
qed

lemma close_job_fields [simp]:
  "fj_UUID (close_job env ca l j) = fj_UUID j" "fj_CallUUID (close_job env ca l j) = fj_CallUUID j"
  "fj_CallerIdNumber (close_job env ca l j) = fj_CallerIdNumber j"
  "fj_CalleeNumber (close_job env ca l j) = fj_CalleeNumber j"
  "fj_SourceInfo (close_job env ca l j) = fj_SourceInfo j" "fj_UsedT38 (close_job env ca l j) = fj_UsedT38 j"
  "fj_SoftmodemFallback (close_job env ca l j) = fj_SoftmodemFallback j"
  "fj_IsBridge (close_job env ca l j) \<longleftrightarrow> bridging ca \<or> fj_IsBridge j"
  "fj_Result (close_job env ca l j) = Some (il_result l)"
  "fj_NotifyOnly (close_job env ca l j) \<longleftrightarrow>
     bridging ca \<or> \<not> fr_Success (il_result l) \<and> fr_TransferredPages (il_result l) = 0"
  by (simp_all add: close_job_def Let_def)

lemma inbound_job_fields [simp]:
  "fj_UUID (inbound_job cfg now server ca) = ca_uuid ca" "fj_CallUUID (inbound_job cfg now server ca) = ca_uuid ca"
  "fj_CallerIdNumber (inbound_job cfg now server ca) = ca_cidNum ca"
  "fj_CalleeNumber (inbound_job cfg now server ca) = ca_recipient ca"
  "si_Source (fj_SourceInfo (inbound_job cfg now server ca)) = ca_gateway ca"
  "si_SourceType (fj_SourceInfo (inbound_job cfg now server ca)) = ''gateway''"
  "fj_UsedT38 (inbound_job cfg now server ca) = ca_enableT38 ca"
  "fj_SoftmodemFallback (inbound_job cfg now server ca) = fp_T38ForcedOff (ca_policy ca)"
  "\<not> fj_IsBridge (inbound_job cfg now server ca)"
  by (simp_all add: inbound_job_def zero_FaxJob_def)

lemma decide_call_fields [simp]:
  "ca_uuid (decide_call cfg now u ev recipient gateway s) = u"
  "ca_recipient (decide_call cfg now u ev recipient gateway s) = recipient"
  "ca_gateway (decide_call cfg now u ev recipient gateway s) = gateway"
  by (simp_all add: decide_call_def Let_def)

text \<open>The reports of success that reach a result come from the events of the call.\<close>

interpretation in_success: step_invariant "inbound_step cfg ca I" l0
  "\<lambda>l. fr_Success (il_result l) \<longrightarrow> fr_Success (il_result l0) \<or>
      (\<exists>now ev. (now, StreamEvent ev) \<in> I \<and> says_success ev)" for cfg ca I l0
proof
  fix s t
  assume "fr_Success (il_result s) \<longrightarrow> fr_Success (il_result l0) \<or>
      (\<exists>now ev. (now, StreamEvent ev) \<in> I \<and> says_success ev)" "inbound_step cfg ca I s t"
  from this(2,1) show "fr_Success (il_result t) \<longrightarrow> fr_Success (il_result l0) \<or>
      (\<exists>now ev. (now, StreamEvent ev) \<in> I \<and> says_success ev)"
    by cases (auto dest: AddEvent_success simp: on_b_leg_def AddBridgeBLegEvent_def il_send_def found_gateway_def Let_def)
qed simp

lemma handler_routed:
  assumes "handler cfg env s = (Routed job, t)"
  obtains ev u recipient gateway s0 where "ie_connect env = Some ev"
    "ic_uuid_parse cfg (ev_get ev ''Unique-Id'') = Some u" "s0 = emit (Send ''connect'' # subscribe cfg u) s"
    "call_recipient cfg ev = Some recipient"
    "take_call cfg env u ev recipient gateway s0 = (Routed job, t)"
  using assms
proof (cases rule: handler_cases)
  case (3 ev u recipient gateway)
  then show ?thesis
    using that [OF 3(1,2) refl] admit_accepts [OF 3(3)] by blast
qed auto

lemma routed_call:
  assumes "handler cfg env s = (Routed job, t)"
  shows "in_routed t = in_routed s @ [job] \<and> in_sentry t = in_sentry s
    \<and> tracked_as (if fj_IsBridge job then PhaseBridging else PhaseReceiving) (fj_UUID job) (in_tracker t)
    \<and> (\<forall>j. j \<noteq> fj_UUID job \<longrightarrow> tracker_Get j (in_tracker t) = tracker_Get j (in_tracker s))
    \<and> reach tracker_step (in_tracker s) (in_tracker t)"
proof -
  obtain ev u recipient gateway s0 where s0: "s0 = emit (Send ''connect'' # subscribe cfg u) s"
    and t: "take_call cfg env u ev recipient gateway s0 = (Routed job, t)"
    using assms by (rule handler_routed)
  from t show ?thesis
  proof (rule take_call_routed)
    fix ca j0 l0 l
    assume j0: "j0 = inbound_job cfg (ie_setup env) (in_server s0) ca"
      and l0: "il_tracker l0 = track_call (ie_setup env) j0 ca (in_tracker s0)"
      and run: "reach (inbound_step cfg ca (set (ie_items env))) l0 l"
      and job: "job = close_job env ca l j0" and tr: "in_tracker t = il_tracker l"
      and rest: "in_routed t = in_routed s0 @ [job]" "in_sentry t = in_sentry s0"
    have u: "fj_UUID j0 = ca_uuid ca"
      by (simp add: j0)
    have line: "same_line ca l0 l"
      by (rule on_line.reach_holds [OF run])
    have "tracked_as (call_phase ca) (ca_uuid ca) (il_tracker l)"
      using line track_call_tracks [OF u] by (simp add: same_line_def l0)
    moreover have "reach tracker_step (in_tracker s) (il_tracker l)"
      using line by (auto simp: same_line_def l0 s0 intro: reach_trans track_call_reach)
    moreover have "tracker_Get j (il_tracker l) = tracker_Get j (in_tracker s)" if "j \<noteq> ca_uuid ca" for j
      using line that by (simp add: same_line_def l0 s0 tracker_Get_def track_call_frame u)
    moreover have "fj_IsBridge job \<longleftrightarrow> bridging ca" "fj_UUID job = ca_uuid ca"
      by (simp_all add: job j0)
    ultimately show ?thesis
      by (simp add: rest tr s0 call_phase_def)
  qed
qed

lemma routed_notify_only:
  assumes "handler cfg env s = (Routed job, t)" "fj_Result job = Some result"
  shows "fj_NotifyOnly job \<longleftrightarrow> fj_IsBridge job \<or> \<not> fr_Success result \<and> fr_TransferredPages result = 0"
proof -
  obtain ev u recipient gateway s0 where t: "take_call cfg env u ev recipient gateway s0 = (Routed job, t)"
    using assms(1) by (rule handler_routed)
  then show ?thesis
    by (rule take_call_routed) (use assms(2) in auto)
qed

lemma routed_bridge:
  "handler cfg env s = (Routed job, t) \<Longrightarrow> \<not> fj_NotifyOnly job \<Longrightarrow> \<not> fj_IsBridge job"
proof -
  assume h: "handler cfg env s = (Routed job, t)" and n: "\<not> fj_NotifyOnly job"
  obtain ev u recipient gateway s0 where t: "take_call cfg env u ev recipient gateway s0 = (Routed job, t)"
    using h by (rule handler_routed)
  then show ?thesis
    by (rule take_call_routed) (use n in auto)
qed

subsection \<open>T.38 on the channel\<close>

lemma rtpMediaVars_keys:
  "(k, v) \<in> set (rtpMediaVars cfg overrides) \<Longrightarrow> k = ''jitterbuffer_msec'' \<or> k = ''rtp_jitter_buffer_during_bridge''"
  by (auto simp: rtpMediaVars_def split: if_splits option.splits)

lemma chanVarPairs_media:
  "p \<in> set (chanVarPairs (media_vars cfg ca)) \<Longrightarrow> p \<noteq> ''fax_enable_t38=true''"
  by (auto simp: chanVarPairs_def media_vars_def dest!: rtpMediaVars_keys)

lemma set_t38_true: "Execute ''set'' ''fax_enable_t38=true'' \<in> set (set_t38 ca) \<longleftrightarrow> ca_enableT38 ca"
  by (auto simp: set_t38_def format_bool_def split: if_splits)

lemma call_commands_t38:
  assumes "Execute ''set'' ''fax_enable_t38=true'' \<in> set (call_commands cfg upstreams ca)"
  shows "ca_enableT38 ca"
proof -
  have media: "Execute ''set'' ''fax_enable_t38=true'' \<notin> set (map (Execute ''set'') (chanVarPairs (media_vars cfg ca)))"
    by (auto dest: chanVarPairs_media)
  have rest: "c \<in> set (set_t38 ca)" if "c = Execute ''set'' ''fax_enable_t38=true''"
      "c \<in> set (receive_fax cfg ca) \<or> c \<in> set (bridge_downstream cfg gw ca)" for c gw
    using that by (auto simp: receive_fax_def bridge_downstream_def split: option.splits if_splits)
  show ?thesis
    using assms media rest [OF refl] set_t38_true [of ca]
    by (auto simp: call_commands_def bridge_upstream_def Let_def split: option.splits if_splits)
qed

lemma decide_call_t38:
  assumes "ca = decide_call cfg now u ev recipient gateway s" "ca_enableT38 ca"
  shows "ca_policy ca = ResolveFaxPolicy (ic_faxing cfg) (pl_cache (in_policies s))
        (ca_srcNum ca) (ca_dstNum ca) (call_type (ca_bridge ca)) now
    \<and> fp_EnableT38 (ca_policy ca) \<and> \<not> fp_T38ForcedOff (ca_policy ca)
    \<and> (fp_T38Decided (ca_policy ca) \<or> ShouldAllowT38ForPair (cf_Policy (ic_faxing cfg))
         (ca_srcNum ca) (ca_dstNum ca) (call_type (ca_bridge ca)) now (in_pairs s))
    \<and> (bridging ca \<or> list_ex (equal_fold gateway) (sv_UpstreamFsGateways (in_server s)))"
  using assms by (auto simp: decide_call_def denies_t38_def bridging_def Let_def split: if_splits
      dest: forced_off_disables)

lemma decide_call_numbers:
  "ca = decide_call cfg now u ev recipient gateway s \<Longrightarrow>
   ca_srcNum ca = ApplyTransformationRules (ic_rules cfg) (ca_cidNum ca)
   \<and> ca_dstNum ca = ApplyTransformationRules (ic_rules cfg) (ca_recipient ca)"
  by (simp add: decide_call_def Let_def)

section \<open>Properties\<close>

text \<open>C15: A call whose address is not on the access list, or is banned, gets a refusal and nothing else: no job,
  no learning, no routing, no command but the response; a failure against the access list is recorded
  with the sentry.\<close>

theorem unadmitted_call_takes_nothing:
  assumes "handler cfg env s = (r, t)" and "ie_connect env = Some ev"
    and "ip = ev_get ev ''Variable_sip_network_ip''"
    and "(\<exists>se. in_sentry s = Some se \<and> IsBanned (ie_now env) ip se) \<or> (\<exists>e. fsGatewayACL (in_server s) ip = Inl e)"
  shows "untouched s t \<and> (r = NoCall \<or> r \<in> Refused ` {''404'', ''403'', ''401''})
    \<and> (\<exists>cmds. in_commands t = in_commands s @ cmds \<and> only_responds cmds)
    \<and> (r = Refused ''401'' \<longrightarrow> in_sentry t = map_option
         (RecordFailure (Some (in_server s)) (ic_sentry_faults cfg) (ie_now env) (ic_ban_reason cfg) ip) (in_sentry s))"
  using assms(1)
proof (cases rule: handler_cases)
  case 1
  then show ?thesis by simp
next
  case (2 ev' u code)
  then have "in_sentry t = map_option
      (RecordFailure (Some (in_server s)) (ic_sentry_faults cfg) (ie_now env) (ic_ban_reason cfg) ip) (in_sentry s)"
    if "code = ''401''"
    using that assms(2,3) by (auto simp: admit_def Let_def split: option.splits sum.splits if_splits)
  with 2 admit_refuses [OF 2(3)] show ?thesis
    by (auto simp: untouched_def)
next
  case (3 ev' u recipient gateway)
  with admit_accepts [OF 3(3)] assms show ?thesis
    by (auto simp: untouched_def)
qed

text \<open>The events of the other leg of a bridge never decide how the call ends: with or without them the loop
  ends the same way, with the same commands, gateway, tracker and result, but for the record of failed attempts
  and that leg's own T.38 field.\<close>

theorem b_leg_events_never_end_call:
  "same_end (inbound_event_loop cfg ca items l)
     (inbound_event_loop cfg ca (filter (\<lambda>(now, item). \<not> b_leg_item cfg ca item) items) l)"
  by (rule b_leg_ignored) simp

text \<open>C16: A call that ends is routed exactly once: the job carries the channel as its identifier and a result, a
  success only if an event of the call reported one; it is for notification only exactly for a bridged call and
  for a failed reception without pages. Until it is worked it is tracked in the phase of its kind, and the
  other jobs are tracked as before.\<close>

theorem ended_call_routed_once:
  assumes "handler cfg env s = (Routed job, t)"
  shows "in_routed t = in_routed s @ [job] \<and> in_sentry t = in_sentry s
    \<and> (\<exists>ev result. ie_connect env = Some ev \<and> ic_uuid_parse cfg (ev_get ev ''Unique-Id'') = Some (fj_UUID job)
        \<and> fj_CallUUID job = fj_UUID job \<and> fj_Result job = Some result
        \<and> (fj_NotifyOnly job \<longleftrightarrow> fj_IsBridge job \<or> \<not> fr_Success result \<and> fr_TransferredPages result = 0)
        \<and> (fr_Success result \<longrightarrow> (\<exists>now e. (now, StreamEvent e) \<in> set (ie_items env) \<and> says_success e)))
    \<and> tracked_as (if fj_IsBridge job then PhaseBridging else PhaseReceiving) (fj_UUID job) (in_tracker t)
    \<and> (\<forall>j. j \<noteq> fj_UUID job \<longrightarrow> tracker_Get j (in_tracker t) = tracker_Get j (in_tracker s))
    \<and> reach tracker_step (in_tracker s) (in_tracker t)"
proof -
  obtain ev u recipient gateway s0 where ev: "ie_connect env = Some ev"
      "ic_uuid_parse cfg (ev_get ev ''Unique-Id'') = Some u"
    and t: "take_call cfg env u ev recipient gateway s0 = (Routed job, t)"
    using assms by (rule handler_routed)
  from t obtain l0 l ca where "reach (inbound_step cfg ca (set (ie_items env))) l0 l"
      "il_result l0 = NewFaxResult u (bridging ca)" "job = close_job env ca l (inbound_job cfg (ie_setup env) (in_server s0) ca)"
      "ca_uuid ca = u"
    by (rule take_call_routed) auto
  with in_success.reach_holds [of cfg ca "set (ie_items env)" l0 l] ev routed_call [OF assms] show ?thesis
    by (auto simp: NewFaxResult_def empty_FaxResult_def)
qed

text \<open>An inbound call uses T.38, on its channel or in its record, only when its policy allows it, no rule has
  forced it off, the pair's flip-flop state allows it or a rule has decided, and, unless the call is bridged, it
  came from an upstream gateway.\<close>

theorem inbound_t38_only_where_allowed:
  assumes "handler cfg env s = (Routed job, t)" and "in_commands t = in_commands s @ cmds"
    and "fj_UsedT38 job \<or> Execute ''set'' ''fax_enable_t38=true'' \<in> set cmds"
    and "src = ApplyTransformationRules (ic_rules cfg) (fj_CallerIdNumber job)"
    and "dst = ApplyTransformationRules (ic_rules cfg) (fj_CalleeNumber job)"
    and "kind = (if fj_IsBridge job then CallTypeBridge else CallTypeSoftmodem)"
    and "policy = ResolveFaxPolicy (ic_faxing cfg) (pl_cache (in_policies s)) src dst kind (ie_now env)"
  shows "fp_EnableT38 policy \<and> \<not> fp_T38ForcedOff policy \<and> \<not> fj_SoftmodemFallback job
    \<and> (fp_T38Decided policy \<or> ShouldAllowT38ForPair (cf_Policy (ic_faxing cfg)) src dst kind (ie_now env) (in_pairs s))
    \<and> (fj_IsBridge job \<or> list_ex (equal_fold (si_Source (fj_SourceInfo job))) (sv_UpstreamFsGateways (in_server s)))"
proof -
  obtain ev u recipient gateway s0 where s0: "s0 = emit (Send ''connect'' # subscribe cfg u) s"
    and t: "take_call cfg env u ev recipient gateway s0 = (Routed job, t)"
    using assms(1) by (rule handler_routed)
  from t show ?thesis
  proof (rule take_call_routed)
    fix ca j0 l0 l
    assume ca: "ca = decide_call cfg (ie_now env) u ev recipient gateway s0"
      and j0: "j0 = inbound_job cfg (ie_setup env) (in_server s0) ca"
      and l0: "il_commands l0 = in_commands s0 @ call_commands cfg (sv_UpstreamFsGateways (in_server s0)) ca"
      and run: "reach (inbound_step cfg ca (set (ie_items env))) l0 l"
      and job: "job = close_job env ca l j0" and tr: "in_commands t = il_commands l"
    obtain rest where rest: "il_commands l = il_commands l0 @ rest" "list_all (\<lambda>c. \<forall>app args. c \<noteq> Execute app args) rest"
      using on_line.reach_holds [OF run] by (auto simp: same_line_def)
    have "Execute app args \<notin> set rest" for app args
      using rest(2) by (auto simp: list_all_iff)
    moreover have "cmds = (Send ''connect'' # subscribe cfg u)
        @ call_commands cfg (sv_UpstreamFsGateways (in_server s)) ca @ rest"
      using assms(2) by (simp add: tr rest(1) l0 s0)
    ultimately have "ca_enableT38 ca"
      using assms(3) by (auto simp: job j0 subscribe_def dest: call_commands_t38)
    note t38 = decide_call_t38 [OF ca this] decide_call_numbers [OF ca]
    have "ca_recipient ca = recipient" "ca_gateway ca = gateway"
      by (simp_all add: ca)
    moreover have "kind = call_type (ca_bridge ca)"
      by (simp add: assms(6) job j0 call_type_def bridging_def)
    ultimately have "src = ca_srcNum ca" "dst = ca_dstNum ca" "policy = ca_policy ca" "kind = call_type (ca_bridge ca)"
      using t38 by (simp_all add: assms(4,5,7) job j0 s0)
    then show ?thesis
      using t38 \<open>ca_gateway ca = gateway\<close> by (auto simp: job j0 s0)
  qed
qed

section \<open>Sample values\<close>

definition line_config :: inbound_config where
  "line_config = \<lparr>ic_faxing = sample_cfg, ic_RecipientFromDiversion = False, ic_AnswerAfter = 0, ic_WaitTime = 0,
     ic_Ident = [], ic_TempPath = (\<lambda>name. name), ic_ban_reason = [], ic_rules = [], ic_faults = no_faults,
     ic_pair_faults = no_faults, ic_sentry_faults = no_faults, ic_uuid_parse = (\<lambda>_. Some 7),
     ic_uuid_string = (\<lambda>_. ''u7''), ic_getvar = (\<lambda>_ _. None)\<rparr>"

definition line_state :: "unit inbound_state" where
  "line_state = \<lparr>in_server = NewServer\<lparr>sv_GatewayEndpointsACL := [''carrier:10.0.0.9''],
       sv_UpstreamFsGateways := [''carrier'']\<rparr>, in_sentry = None, in_tracker = NewFaxTracker,
     in_policies = sample_table, in_pairs = empty_pairs, in_commands = [], in_routed = []\<rparr>"

definition line_connect :: "string \<Rightarrow> event" where
  "line_connect ip = [(''Variable_sip_network_ip'', ip), (''Variable_sip_to_user'', ''300''),
     (''Channel-Caller-Id-Number'', ''200'')]"

definition line_call :: "string \<Rightarrow> inbound_env" where
  "line_call ip = \<lparr>ie_connect = Some (line_connect ip),
     ie_items = [(10, StreamEvent [(''Event-Name'', ''CUSTOM''), (''Event-Subclass'', ''spandsp::rxfaxresult''),
          (''Fax-Success'', ''1'')]),
       (11, StreamEvent [(''Event-Name'', ''CHANNEL_CALLSTATE''), (''Channel-Call-State'', ''HANGUP''),
          (''Hangup-Cause'', ''NORMAL_CLEARING'')])],
     ie_now = 8, ie_setup = 9, ie_end = 12\<rparr>"

lemma line_received:
  "\<exists>job t cmds. handler line_config (line_call ''10.0.0.9'') line_state = (Routed job, t)
     \<and> in_commands t = in_commands line_state @ cmds \<and> fj_UsedT38 job \<and> \<not> fj_IsBridge job \<and> \<not> fj_NotifyOnly job"
proof -
  have "case handler line_config (line_call ''10.0.0.9'') line_state of
      (Routed job, t) \<Rightarrow> fj_UsedT38 job \<and> \<not> fj_IsBridge job \<and> \<not> fj_NotifyOnly job | _ \<Rightarrow> False"
    by code_simp
  then show ?thesis
    by (auto simp: line_state_def split: prod.splits handler_end.splits)
qed

lemma unadmitted_call_takes_nothing_witness:
  "untouched line_state (snd (handler line_config (line_call ''10.0.0.8'') line_state))"
proof -
  have "fsGatewayACL (in_server line_state) ''10.0.0.8'' = Inl NoGatewayMatch"
    by code_simp
  moreover have "ie_connect (line_call ''10.0.0.8'') = Some (line_connect ''10.0.0.8'')"
    by (simp add: line_call_def)
  moreover have "''10.0.0.8'' = ev_get (line_connect ''10.0.0.8'') ''Variable_sip_network_ip''"
    by (simp add: line_connect_def ev_get_def)
  ultimately show ?thesis
    using unadmitted_call_takes_nothing [OF surjective_pairing, where cfg = line_config and s = line_state
        and env = "line_call ''10.0.0.8''" and ip = "''10.0.0.8''"] by blast
qed

lemma ended_call_routed_once_witness:
  "\<exists>job t. handler line_config (line_call ''10.0.0.9'') line_state = (Routed job, t) \<and> in_routed t = [job]
     \<and> tracked_as PhaseReceiving (fj_UUID job) (in_tracker t)"
proof -
  obtain job t where h: "handler line_config (line_call ''10.0.0.9'') line_state = (Routed job, t)" "\<not> fj_IsBridge job"
    using line_received by blast
  then show ?thesis
    using ended_call_routed_once [OF h(1)] by (simp add: line_state_def)
qed

lemma inbound_t38_only_where_allowed_witness:
  "\<exists>job t. handler line_config (line_call ''10.0.0.9'') line_state = (Routed job, t)
     \<and> list_ex (equal_fold (si_Source (fj_SourceInfo job))) (sv_UpstreamFsGateways (in_server line_state))"
proof -
  obtain job t cmds where h: "handler line_config (line_call ''10.0.0.9'') line_state = (Routed job, t)"
      "in_commands t = in_commands line_state @ cmds" "fj_UsedT38 job" "\<not> fj_IsBridge job"
    using line_received by blast
  from inbound_t38_only_where_allowed [OF h(1,2) disjI1 [OF h(3)] refl refl refl refl] h show ?thesis
    by blast
qed

end
