(* ===== verification/Fax_Flow.thy ===== *)
theory Fax_Flow
  imports Fax_Inbound Fax_Delivery
begin

text \<open>
  The way of an inbound fax through the server: the handler of the call routes a job, the router hands
  it to the queue, and a worker ends it. The state passed on is the tracker; the worker starts where
  the handler left it.
\<close>

section \<open>Lemmas\<close>

lemma identify_keeps [simp]:
  "fj_UUID (identify rules server now f) = fj_UUID f" "fj_NotifyOnly (identify rules server now f) = fj_NotifyOnly f"
  "fj_IsBridge (identify rules server now f) = fj_IsBridge f" "fj_Result (identify rules server now f) = fj_Result f"
  by (auto simp: identify_def Let_def split: sum.split)

lemma routeFax_keeps:
  assumes "routeFax rules server now job = (tick, Enqueued f)"
  shows "fj_UUID f = fj_UUID job \<and> fj_NotifyOnly f = fj_NotifyOnly job"
  using assms by (auto simp: routeFax_def Let_def split: sum.splits list.splits if_splits)

lemma notify_only_not_dropped:
  "fj_NotifyOnly job \<Longrightarrow> routeFax rules server now job \<noteq> (tick, Dropped g)"
  by (auto simp: routeFax_def Let_def split: sum.splits list.splits if_splits)

lemma notify_only_enqueued:
  assumes "fj_NotifyOnly job" obtains tick f where "routeFax rules server now job = (tick, Enqueued f)"
proof -
  obtain tick r where r: "routeFax rules server now job = (tick, r)"
    by (cases "routeFax rules server now job")
  then show thesis
    using notify_only_not_dropped [OF assms, of rules server now tick] that by (cases r) auto
qed

lemma processFax_tracker:
  assumes "processFax (env\<lparr>qe_send := switch_send cfg faults pfaults upstreams\<rparr>) m types f q = Some q'"
    and "reach tracker_step NewFaxTracker (qs_tracker q)"
  shows "tracker_Get (fj_UUID f) (qs_tracker q') = None"
    and "j \<noteq> fj_UUID f \<Longrightarrow> tracker_Get j (qs_tracker q') = tracker_Get j (qs_tracker q)"
  using worked_job [OF assms] by auto

section \<open>Properties\<close>

text \<open>C17: From the call to the end of the work: a job that an inbound call routed, that the router enqueued
  and that a worker has worked to its end, over any line and with any endpoints, is no longer tracked, and
  all other jobs are tracked as before the call.\<close>

theorem inbound_fax_completes:
  assumes "handler cfg env s = (Routed job, t)"
    and "routeFax rules server now job = (tick, Enqueued f)"
    and "processFax (qenv\<lparr>qe_send := switch_send fcfg faults pfaults upstreams\<rparr>) m types f q = Some q'"
    and "qs_tracker q = in_tracker t" and "reach tracker_step NewFaxTracker (in_tracker s)"
  shows "tracker_Get (fj_UUID job) (qs_tracker q') = None
    \<and> (\<forall>j. j \<noteq> fj_UUID job \<longrightarrow> tracker_Get j (qs_tracker q') = tracker_Get j (in_tracker s))"
proof -
  have call: "reach tracker_step (in_tracker s) (in_tracker t)"
    "\<forall>j. j \<noteq> fj_UUID job \<longrightarrow> tracker_Get j (in_tracker t) = tracker_Get j (in_tracker s)"
    using routed_call [OF assms(1)] by auto
  have "reach tracker_step NewFaxTracker (qs_tracker q)"
    unfolding assms(4) using call(1) assms(5) by (rule reach_trans)
  from processFax_tracker [OF assms(3) this] routeFax_keeps [OF assms(2)] call(2) show ?thesis
    by (simp add: assms(4))
qed

text \<open>A bridged call, and a reception that failed before the first page, is only recorded: the router
  enqueues it even without endpoints and upstreams, and the worker ends it without a call, a delivery or a
  stored attempt.\<close>

theorem unusable_call_only_recorded:
  assumes "handler cfg env s = (Routed job, t)" and "fj_Result job = Some result"
    and "fj_IsBridge job \<or> \<not> fr_Success result \<and> fr_TransferredPages result = 0"
  shows "\<exists>tick f q'. routeFax rules server now job = (tick, Enqueued f)
    \<and> processFax qenv m types f q = Some q' \<and> qs_sent q' = qs_sent q \<and> qs_tries q' = qs_tries q"
proof -
  have "fj_NotifyOnly job"
    using routed_notify_only [OF assms(1,2)] assms(3) by simp
  then obtain tick f where r: "routeFax rules server now job = (tick, Enqueued f)"
    by (rule notify_only_enqueued)
  then have "fj_NotifyOnly f"
    using routeFax_keeps [OF r] \<open>fj_NotifyOnly job\<close> by simp
  from notify_only_idle [OF this, of qenv m types q result] r show ?thesis
    by blast
qed

text \<open>A fax that was received for a number without endpoints, on a server without upstreams, is dropped by the
  router while it is tracked as being received, and nothing takes it off the tracker.\<close>

theorem dropped_reception_stays_tracked:
  assumes "handler cfg env s = (Routed job, t)" and "\<not> fj_NotifyOnly job"
    and "getEndpointsForNumber server (ApplyTransformationRules rules (fj_CalleeNumber job)) = Inl e"
    and "sv_UpstreamFsGateways server = []"
  shows "snd (routeFax rules server now job) = Dropped (identify rules server now job)
    \<and> tracked_as PhaseReceiving (fj_UUID job) (in_tracker t)"
proof -
  have "fj_CalleeNumber (identify rules server now job) = ApplyTransformationRules rules (fj_CalleeNumber job)"
    by (auto simp: identify_def Let_def split: sum.split)
  then show ?thesis
    using routed_call [OF assms(1)] routed_bridge [OF assms(1)] assms(2-4) by (auto simp: routeFax_def Let_def)
qed

section \<open>Sample values\<close>

definition flow_env :: "call_world queue_env" where
  "flow_env = line_env\<lparr>qe_send := switch_send sample_cfg no_faults no_faults [''carrier'']\<rparr>"

text \<open>A call that is hung up before the first page.\<close>

definition lost_call :: inbound_env where
  "lost_call = (line_call ''10.0.0.9'')\<lparr>ie_items :=
     [(11, StreamEvent [(''Event-Name'', ''CHANNEL_CALLSTATE''), (''Channel-Call-State'', ''HANGUP''),
          (''Hangup-Cause'', ''ORIGINATOR_CANCEL'')])]\<rparr>"

definition lone_state :: "unit inbound_state" where
  "lone_state = line_state\<lparr>in_server := NewServer\<lparr>sv_GatewayEndpointsACL := [''carrier:10.0.0.9'']\<rparr>\<rparr>"

lemma lost_call_routed:
  "\<exists>job t r. handler line_config lost_call line_state = (Routed job, t) \<and> fj_UUID job = 7 \<and> fj_Result job = Some r
     \<and> \<not> fr_Success r \<and> fr_TransferredPages r = 0"
proof -
  have "case handler line_config lost_call line_state of
      (Routed job, t) \<Rightarrow> fj_UUID job = 7 \<and> (case fj_Result job of Some r \<Rightarrow> \<not> fr_Success r \<and> fr_TransferredPages r = 0 | None \<Rightarrow> False)
    | _ \<Rightarrow> False"
    by code_simp
  then show ?thesis
    by (auto split: prod.splits handler_end.splits option.splits)
qed

lemma inbound_fax_completes_witness:
  "\<exists>job t (q' :: call_world queue_state). handler line_config lost_call line_state = (Routed job, t)
     \<and> tracker_Get 7 (in_tracker t) \<noteq> None \<and> qs_sent q' = [] \<and> tracker_Get 7 (qs_tracker q') = None"
proof -
  obtain job t r where h: "handler line_config lost_call line_state = (Routed job, t)" "fj_UUID job = 7"
      "fj_Result job = Some r" "\<not> fr_Success r" "fr_TransferredPages r = 0"
    using lost_call_routed by blast
  then have n: "fj_NotifyOnly job"
    using routed_notify_only [OF h(1,3)] by simp
  then obtain tick f where f: "routeFax [] (in_server line_state) 13 job = (tick, Enqueued f)"
    by (rule notify_only_enqueued)
  have "fj_NotifyOnly f"
    using routeFax_keeps [OF f] n by simp
  then obtain q' where q: "processFax flow_env False [''gateway''] f (line_start\<lparr>qs_tracker := in_tracker t\<rparr>) = Some q'"
      "qs_sent q' = []"
    using notify_only_idle [of f flow_env False "[''gateway'']" "line_start\<lparr>qs_tracker := in_tracker t\<rparr>" r]
    by (auto simp: line_start_def demo_state_def)
  have "reach tracker_step NewFaxTracker (in_tracker line_state)"
    by (simp add: line_state_def reach.reach_start)
  from inbound_fax_completes [OF h(1) f q(1) [unfolded flow_env_def] _ this] h q(2) routed_call [OF h(1)] show ?thesis
    by (auto simp: tracked_as_def tracker_Get_def intro!: exI [of _ q'])
qed

lemma unusable_call_only_recorded_witness:
  "\<exists>job t f q'. handler line_config lost_call line_state = (Routed job, t)
     \<and> processFax flow_env False [''gateway''] f line_start = Some q' \<and> qs_tries q' = []"
proof -
  obtain job t r where h: "handler line_config lost_call line_state = (Routed job, t)" "fj_Result job = Some r"
      "\<not> fr_Success r" "fr_TransferredPages r = 0"
    using lost_call_routed by auto
  from unusable_call_only_recorded [OF h(1,2), of "[]" NewServer 13 flow_env False "[''gateway'']" line_start] h
  show ?thesis
    by (auto simp: line_start_def demo_state_def)
qed

lemma lone_received:
  "\<exists>job t. handler line_config (line_call ''10.0.0.9'') lone_state = (Routed job, t) \<and> \<not> fj_NotifyOnly job
     \<and> getEndpointsForNumber (in_server lone_state) (ApplyTransformationRules [] (fj_CalleeNumber job))
         = Inl (NumberNotFound ''300'')"
proof -
  have "case handler line_config (line_call ''10.0.0.9'') lone_state of
      (Routed job, t) \<Rightarrow> \<not> fj_NotifyOnly job \<and>
        getEndpointsForNumber (in_server lone_state) (ApplyTransformationRules [] (fj_CalleeNumber job))
         = Inl (NumberNotFound ''300'')
    | _ \<Rightarrow> False"
    by code_simp
  then show ?thesis
    by (auto split: prod.splits handler_end.splits)
qed

lemma dropped_reception_stays_tracked_witness:
  "\<exists>job t g. handler line_config (line_call ''10.0.0.9'') lone_state = (Routed job, t)
     \<and> snd (routeFax [] (in_server lone_state) 13 job) = Dropped g \<and> tracker_Get (fj_UUID job) (in_tracker t) \<noteq> None"
proof -
  obtain job t where h: "handler line_config (line_call ''10.0.0.9'') lone_state = (Routed job, t)" "\<not> fj_NotifyOnly job"
      "getEndpointsForNumber (in_server lone_state) (ApplyTransformationRules [] (fj_CalleeNumber job))
         = Inl (NumberNotFound ''300'')"
    using lone_received by blast
  from dropped_reception_stays_tracked [OF h(1,2,3), of 13] h show ?thesis
    by (auto simp: lone_state_def NewServer_def tracked_as_def tracker_Get_def)
qed

end
