(* ===== verification/Gateway_Provision.thy ===== *)
theory Gateway_Provision
  imports Fax_Directory IP_Sentry "HOL-Library.Char_ord" "HOL-Library.List_Lexorder"
begin

text \<open>
  Gateway provisioning (\<open>gofaxserver/gateway_provision.go\<close>, \<open>gateway_monitor.go\<close>): templates and their
  parameters, the gateway files, the commands to the switch, and the operations that keep files, rows and
  endpoints together.

  Arguments stand for \<open>text/template\<close> (the parse tree of a body, the rendering), \<open>encoding/xml\<close> (whether a text
  is well formed, the name a gateway file declares), JSON and the cipher of stored parameters, the answers
  of the switch, and the failures of statements and file writes. A string that is escaped for XML is UTF-8 text
  without the two noncharacters XML excludes.
\<close>

section \<open>Data\<close>

text \<open>A JSON value; anything but a string or a truth value is kept as its text.\<close>

datatype param_value = PString string | PBool bool | PJson string

type_synonym params = "(string \<times> param_value) list"

record GatewayTemplate =
  gt_ID :: nat
  gt_Name :: string
  gt_Description :: string
  gt_Body :: string

record GatewayConfig =
  gc_ID :: nat
  gc_Name :: string
  gc_TemplateID :: nat
  gc_Params :: string
  gc_EndpointID :: nat
  gc_LastState :: string
  gc_LastStateCheckedAt :: "time option"

record GatewayProvisionSpec =
  sp_Name :: string
  sp_TemplateID :: nat
  sp_Params :: params
  sp_Scope :: string
  sp_TypeID :: nat
  sp_Priority :: nat
  sp_Bridge :: bool
  sp_EndpointIP :: string

record GatewayAliasSpec =
  as_TypeID :: nat
  as_Priority :: nat
  as_Bridge :: bool

record FromEndpointSpec =
  fe_EndpointID :: nat
  fe_TemplateID :: nat
  fe_Params :: params

record GatewayStatus =
  gs_Gateway :: GatewayConfig
  gs_File :: string
  gs_State :: string
  gs_Exists :: bool
  gs_Aliases :: "Endpoint list"

record UnmanagedFile =
  um_File :: string
  um_Name :: string

datatype gateway_error =
  InvalidName string | RealmRequired | CredentialsRequired | ProvisioningDisabled | AlreadyProvisioned string
| TemplateNotFound nat | BadTemplate | RenderFailed | NotWellFormed | BadScope string | WriteFailed
| ReloadFailed | EncodeFailed | DecodeFailed | EndpointFailed | PersistFailed | EndpointReloadFailed
| GatewayNotFound string | AliasInvalid | AliasExists | HasAliases | AliasLookupFailed | NotAGateway
| ManagedEndpoint string | NotXML | NoGatewayName | NoSuchFile | NotDeleted

datatype gateway_op =
  CountGateways | FindGateway | FindTemplate | FindEndpoint | FindNumber | CountDuplicates | CreateEndpoint
| DeleteEndpoint | CreateGateway | SaveGateway | DeleteGateway | SaveEndpoint | ListEndpoints | LoadEndpoints
| ListConfigs | FindManaging | CountTemplates | CreateTemplate

text \<open>The nodes of a parsed template that \<open>TemplateVariables\<close> tells apart.\<close>

datatype tnode =
  ActionNode tnode | PipeNode "tnode list" | CommandNode "tnode list" | FieldNode "string list"
| IfNode tnode "tnode list" "tnode list" | RangeNode tnode "tnode list" "tnode list"
| WithNode tnode "tnode list" "tnode list" | TemplateNode | ListNode "tnode list" | OtherNode

record gateway_env =
  ge_Dir :: string
  ge_Profile :: string
  ge_parse :: "string \<Rightarrow> tnode list option"
  ge_execute :: "string \<Rightarrow> params \<Rightarrow> string option"
  ge_well_formed :: "string \<Rightarrow> bool"
  ge_declared :: "string \<Rightarrow> string option"
  ge_marshal :: "params \<Rightarrow> string"
  ge_unmarshal :: "string \<Rightarrow> params option"
  ge_encrypt :: "string \<Rightarrow> string option"
  ge_decrypt :: "string \<Rightarrow> string option"
  ge_path :: "string \<Rightarrow> string"
  ge_api :: "nat \<Rightarrow> string \<Rightarrow> string option"
  ge_writes :: bool
  ge_removes :: bool
  ge_faults :: "gateway_op \<Rightarrow> bool"
  ge_dns :: dns
  ge_sentry_faults :: sentry_faults
  ge_now :: time

text \<open>The gateway directory is a list of file names with their content; \<open>gv_sent\<close> lists the commands to the switch.\<close>

record 'f gateway_state =
  gv_server :: Server
  gv_sentry :: "'f IPSentry option"
  gv_gateways :: "GatewayConfig list"
  gv_templates :: "GatewayTemplate list"
  gv_nextID :: nat
  gv_files :: "(string \<times> string) list"
  gv_sent :: "string list"

type_synonym ('f, 'a) gateway_result = "(gateway_error + 'a) \<times> 'f gateway_state"

section \<open>Parameters\<close>

definition maskSentinel :: string where
  "maskSentinel = replicate 8 (CHR ''*'')"

definition isSensitiveParam :: "string \<Rightarrow> bool" where
  "isSensitiveParam key \<longleftrightarrow> contains_sub (to_lower key) ''password'' \<or> contains_sub (to_lower key) ''secret''"

definition encodeParams :: "gateway_env \<Rightarrow> params \<Rightarrow> string option" where
  "encodeParams env p = ge_encrypt env (ge_marshal env p)"

definition decodeParams :: "gateway_env \<Rightarrow> string \<Rightarrow> params option" where
  "decodeParams env stored =
     ge_unmarshal env (case ge_decrypt env stored of Some raw \<Rightarrow> raw | None \<Rightarrow> stored)"

definition mask_param :: "string \<times> param_value \<Rightarrow> string \<times> param_value" where
  "mask_param = (\<lambda>(k, v). case v of
      PString s \<Rightarrow> if isSensitiveParam k \<and> s \<noteq> [] then (k, PString maskSentinel) else (k, v)
    | _ \<Rightarrow> (k, v))"

definition maskedParamsJSON :: "gateway_env \<Rightarrow> string \<Rightarrow> string" where
  "maskedParamsJSON env stored =
    (case decodeParams env stored of None \<Rightarrow> ''{}'' | Some p \<Rightarrow> ge_marshal env (map mask_param p))"

text \<open>A secret that still shows the mask keeps its stored value.\<close>

definition keep_secret :: "params \<Rightarrow> string \<times> param_value \<Rightarrow> string \<times> param_value" where
  "keep_secret stored = (\<lambda>(k, v).
     if isSensitiveParam k \<and> v = PString maskSentinel
     then (k, case map_of stored k of Some old \<Rightarrow> old | None \<Rightarrow> v) else (k, v))"

definition str_param :: "params \<Rightarrow> string \<Rightarrow> string" where
  "str_param p k = (case map_of p k of Some (PString s) \<Rightarrow> s | _ \<Rightarrow> [])"

definition provisionDefaults :: "params \<Rightarrow> params" where
  "provisionDefaults p =
    (let p1 = (if map_of p ''extension'' = None \<or> map_of p ''extension'' = Some (PString [])
               then AList.update ''extension'' (PString ''auto_to_user'') p else p)
     in if map_of p1 ''register'' = None then AList.update ''register'' (PBool False) p1 else p1)"

section \<open>Templates\<close>

fun walk :: "tnode \<Rightarrow> string list" where
  "walk (ActionNode pipe) = walk pipe"
| "walk (PipeNode cmds) = concat (map walk cmds)"
| "walk (CommandNode args) = concat (map walk args)"
| "walk (FieldNode ident) = (case ident of [] \<Rightarrow> [] | v # _ \<Rightarrow> [v])"
| "walk (IfNode pipe body els) = walk pipe @ concat (map walk body) @ concat (map walk els)"
| "walk (RangeNode pipe body els) = walk pipe @ concat (map walk body) @ concat (map walk els)"
| "walk (WithNode pipe body els) = walk pipe @ concat (map walk body) @ concat (map walk els)"
| "walk TemplateNode = []"
| "walk (ListNode nodes) = concat (map walk nodes)"
| "walk OtherNode = []"

definition TemplateVariables :: "gateway_env \<Rightarrow> string \<Rightarrow> string list option" where
  "TemplateVariables env body = map_option (\<lambda>nodes. sort (remdups (concat (map walk nodes)))) (ge_parse env body)"

text \<open>\<open>xml.EscapeText\<close>, byte by byte; a control character XML does not allow becomes the replacement character.\<close>

definition xml_char :: "char \<Rightarrow> string" where
  "xml_char c =
    (if c = CHR 0x22 then ''&#34;'' else if c = CHR 0x27 then ''&#39;'' else if c = CHR ''&'' then ''&amp;''
     else if c = CHR ''<'' then ''&lt;'' else if c = CHR ''>'' then ''&gt;'' else if c = CHR 0x09 then ''&#x9;''
     else if c = CHR 0x0A then ''&#xA;'' else if c = CHR 0x0D then ''&#xD;''
     else if (of_char c :: nat) < 32 then [CHR 0xEF, CHR 0xBF, CHR 0xBD] else [c])"

definition xml_escape :: "string \<Rightarrow> string" where
  "xml_escape s = concat (map xml_char s)"

definition xmlEscapeParams :: "params \<Rightarrow> params" where
  "xmlEscapeParams = map (\<lambda>(k, v). (k, case v of PString s \<Rightarrow> PString (xml_escape s) | _ \<Rightarrow> v))"

text \<open>What the template is executed with: every variable it names, at least as the empty string.\<close>

definition template_params :: "string list \<Rightarrow> params \<Rightarrow> params" where
  "template_params vars p =
     fold (\<lambda>(k, v). AList.update k v) (xmlEscapeParams p) (map (\<lambda>v. (v, PString [])) vars)"

definition renderGatewayTemplate :: "gateway_env \<Rightarrow> string \<Rightarrow> params \<Rightarrow> gateway_error + string" where
  "renderGatewayTemplate env body p =
    (case TemplateVariables env body of None \<Rightarrow> Inl BadTemplate
     | Some vars \<Rightarrow> (case ge_execute env body (template_params vars p) of None \<Rightarrow> Inl RenderFailed
       | Some out \<Rightarrow> if ge_well_formed env out then Inr out else Inl NotWellFormed))"

fun seed_templates :: "bool \<Rightarrow> (string \<times> string \<times> string) list \<Rightarrow> nat \<Rightarrow> GatewayTemplate list" where
  "seed_templates fail [] i = []"
| "seed_templates fail ((name, description, body) # defs) i =
    (if fail then [] else \<lparr>gt_ID = i, gt_Name = name, gt_Description = description, gt_Body = body\<rparr>
       # seed_templates fail defs (Suc i))"

definition seedGatewayTemplates ::
    "gateway_env \<Rightarrow> (string \<times> string \<times> string) list \<Rightarrow> 'f gateway_state \<Rightarrow> 'f gateway_state" where
  "seedGatewayTemplates env defs s =
    (if ge_faults env CountTemplates \<or> gv_templates s \<noteq> [] then s
     else s\<lparr>gv_templates := seed_templates (ge_faults env CreateTemplate) defs 1\<rparr>)"

section \<open>The switch and the directory\<close>

definition gatewayDir :: "gateway_env \<Rightarrow> string" where
  "gatewayDir env = trim_space (ge_Dir env)"

definition gatewayProfile :: "gateway_env \<Rightarrow> string" where
  "gatewayProfile env = (let p = trim_space (ge_Profile env) in if p \<noteq> [] then p else ''fax'')"

text \<open>One command; the answer may depend on what was sent before.\<close>

definition fsAPI :: "gateway_env \<Rightarrow> string \<Rightarrow> 'f gateway_state \<Rightarrow> string option \<times> 'f gateway_state" where
  "fsAPI env cmd s =
    (map_option trim_space (ge_api env (length (gv_sent s)) cmd), s\<lparr>gv_sent := gv_sent s @ [''api '' @ cmd]\<rparr>)"

definition fsReloadGateways :: "gateway_env \<Rightarrow> 'f gateway_state \<Rightarrow> bool \<times> 'f gateway_state" where
  "fsReloadGateways env s =
    (case fsAPI env ''reloadxml'' s of
       (None, s1) \<Rightarrow> (False, s1)
     | (Some _, s1) \<Rightarrow>
         let (r, s2) = fsAPI env (''sofia profile '' @ gatewayProfile env @ '' rescan'') s1 in (r \<noteq> None, s2))"

definition fsKillGateway :: "gateway_env \<Rightarrow> string \<Rightarrow> 'f gateway_state \<Rightarrow> bool \<times> 'f gateway_state" where
  "fsKillGateway env name s =
     fsReloadGateways env (snd (fsAPI env (''sofia killgw '' @ gatewayProfile env @ '' '' @ name) s))"

definition fsRestartProfile :: "gateway_env \<Rightarrow> 'f gateway_state \<Rightarrow> bool \<times> 'f gateway_state" where
  "fsRestartProfile env s =
    (let (r, s1) = fsAPI env (''sofia profile '' @ gatewayProfile env @ '' restart'') s in (r \<noteq> None, s1))"

text \<open>\<open>strings.Fields\<close>: the maximal pieces without white space (ASCII; \<open>sofia\<close> prints ASCII).\<close>

definition is_white :: "char \<Rightarrow> bool" where
  "is_white c \<longleftrightarrow> c \<in> {CHR '' '', CHR 0x09, CHR 0x0A, CHR 0x0B, CHR 0x0C, CHR 0x0D}"

definition white_fields :: "string \<Rightarrow> string list" where
  "white_fields s =
     filter (\<lambda>w. w \<noteq> []) (split_on (CHR '' '') (map (\<lambda>c. if is_white c then CHR '' '' else c) s))"

definition state_line :: "string \<Rightarrow> string option" where
  "state_line l = (case white_fields l of [k, v] \<Rightarrow> if equal_fold k ''State'' then Some v else None | _ \<Rightarrow> None)"

definition fsGatewayState :: "gateway_env \<Rightarrow> string \<Rightarrow> 'f gateway_state \<Rightarrow> string \<times> 'f gateway_state" where
  "fsGatewayState env name s =
    (case fsAPI env (''sofia status gateway '' @ name) s of
       (None, s1) \<Rightarrow> (''unknown'', s1)
     | (Some out, s1) \<Rightarrow>
         (case first_hit state_line (split_on (CHR 0x0A) out) of
            Some v \<Rightarrow> v
          | None \<Rightarrow> if contains_sub out ''Invalid Gateway'' \<or> contains_sub out ''-ERR'' then ''not-loaded'' else ''unknown'', s1))"

definition name_char :: "char \<Rightarrow> bool" where
  "name_char c \<longleftrightarrow> CHR ''A'' \<le> c \<and> c \<le> CHR ''Z'' \<or> CHR ''a'' \<le> c \<and> c \<le> CHR ''z'' \<or> CHR ''0'' \<le> c \<and> c \<le> CHR ''9''
     \<or> c = CHR ''_''"

definition gateway_name_ok :: "string \<Rightarrow> bool" where
  "gateway_name_ok name \<longleftrightarrow> name \<noteq> [] \<and> list_all name_char name"

definition xml_file :: "string \<Rightarrow> string" where
  "xml_file name = name @ ''.xml''"

text \<open>\<open>writeGatewayFile\<close> replaces the file at once, or fails and leaves the directory as it was.\<close>

definition writeGatewayFile ::
    "gateway_env \<Rightarrow> string \<Rightarrow> string \<Rightarrow> 'f gateway_state \<Rightarrow> 'f gateway_state option" where
  "writeGatewayFile env name content s =
    (if ge_writes env then Some (s\<lparr>gv_files := AList.update (xml_file name) content (gv_files s)\<rparr>) else None)"

definition remove_file :: "gateway_env \<Rightarrow> string \<Rightarrow> 'f gateway_state \<Rightarrow> 'f gateway_state" where
  "remove_file env file s = (if ge_removes env then s\<lparr>gv_files := AList.delete file (gv_files s)\<rparr> else s)"

section \<open>Rows\<close>

definition find_gateway :: "gateway_env \<Rightarrow> string \<Rightarrow> 'f gateway_state \<Rightarrow> GatewayConfig option" where
  "find_gateway env name s =
    (if ge_faults env FindGateway then None else List.find (\<lambda>g. gc_Name g = name) (gv_gateways s))"

text \<open>A failed count leaves zero.\<close>

definition gateway_known :: "gateway_env \<Rightarrow> string \<Rightarrow> 'f gateway_state \<Rightarrow> bool" where
  "gateway_known env name s \<longleftrightarrow> \<not> ge_faults env CountGateways \<and> name \<in> gc_Name ` set (gv_gateways s)"

definition find_template :: "gateway_env \<Rightarrow> nat \<Rightarrow> 'f gateway_state \<Rightarrow> GatewayTemplate option" where
  "find_template env i s =
    (if ge_faults env FindTemplate then None else List.find (\<lambda>t. gt_ID t = i) (gv_templates s))"

definition find_endpoint :: "gateway_env \<Rightarrow> nat \<Rightarrow> 'f gateway_state \<Rightarrow> Endpoint option" where
  "find_endpoint env i s =
    (if ge_faults env FindEndpoint then None else List.find (\<lambda>ep. ep_ID ep = i) (db_endpoints (gv_server s)))"

text \<open>\<open>Create\<close>: the name of a gateway is unique.\<close>

definition create_gateway ::
    "gateway_env \<Rightarrow> GatewayConfig \<Rightarrow> 'f gateway_state \<Rightarrow> (GatewayConfig \<times> 'f gateway_state) option" where
  "create_gateway env gw s =
    (if ge_faults env CreateGateway \<or> gc_Name gw \<in> gc_Name ` set (gv_gateways s) then None
     else let row = gw\<lparr>gc_ID := gv_nextID s\<rparr>
          in Some (row, s\<lparr>gv_gateways := gv_gateways s @ [row], gv_nextID := Suc (gv_nextID s)\<rparr>))"

definition save_gateway :: "GatewayConfig \<Rightarrow> 'f gateway_state \<Rightarrow> 'f gateway_state" where
  "save_gateway gw s =
     s\<lparr>gv_gateways := map (\<lambda>g. if gc_ID g = gc_ID gw then gw else g) (gv_gateways s)\<rparr>"

text \<open>\<open>loadEndpoints\<close> on the server and the sentry.\<close>

definition reload_endpoints :: "gateway_env \<Rightarrow> 'f gateway_state \<Rightarrow> bool \<times> 'f gateway_state" where
  "reload_endpoints env s =
    (case loadEndpoints (ge_faults env LoadEndpoints) (ge_dns env) (ge_sentry_faults env) (ge_now env)
            (gv_server s) (gv_sentry s) of
       (server, sentry, r) \<Rightarrow> (case r of Inl _ \<Rightarrow> False | Inr _ \<Rightarrow> True, s\<lparr>gv_server := server, gv_sentry := sentry\<rparr>))"

definition new_gateway :: "string \<Rightarrow> nat \<Rightarrow> string \<Rightarrow> nat \<Rightarrow> GatewayConfig" where
  "new_gateway name tpl stored ep =
     \<lparr>gc_ID = 0, gc_Name = name, gc_TemplateID = tpl, gc_Params = stored, gc_EndpointID = ep, gc_LastState = [],
      gc_LastStateCheckedAt = None\<rparr>"

text \<open>The answer of a successful operation, with the secrets masked.\<close>

definition answer_status ::
    "gateway_env \<Rightarrow> string \<Rightarrow> GatewayConfig \<Rightarrow> 'f gateway_state \<Rightarrow> ('f, GatewayStatus) gateway_result" where
  "answer_status env file gw s =
    (let (state, s1) = fsGatewayState env (gc_Name gw) s
     in (Inr \<lparr>gs_Gateway = gw\<lparr>gc_Params := maskedParamsJSON env (gc_Params gw)\<rparr>, gs_File = ge_path env file,
              gs_State = state, gs_Exists = True, gs_Aliases = []\<rparr>, s1))"

section \<open>Provisioning\<close>

definition validateSpec :: "GatewayProvisionSpec \<Rightarrow> gateway_error option" where
  "validateSpec spec =
    (if \<not> gateway_name_ok (sp_Name spec) then Some (InvalidName (sp_Name spec))
     else if trim_space (str_param (sp_Params spec) ''realm'') = [] then Some RealmRequired
     else if map_of (sp_Params spec) ''register'' = Some (PBool True) \<and>
             (str_param (sp_Params spec) ''username'' = [] \<or> str_param (sp_Params spec) ''password'' = [])
     then Some CredentialsRequired else None)"

definition endpointValue :: "string \<Rightarrow> string \<Rightarrow> params \<Rightarrow> string" where
  "endpointValue name endpointIP p =
    (let ip = (if endpointIP = [] then str_param p ''realm'' else endpointIP)
     in if ip \<noteq> [] then name @ '':'' @ ip else name)"

definition endpointFromSpec :: "GatewayProvisionSpec \<Rightarrow> gateway_error + Endpoint" where
  "endpointFromSpec spec =
    (if sp_Scope spec \<notin> {''tenant'', ''number'', ''global''} then Inl (BadScope (sp_Scope spec))
     else Inr \<lparr>ep_ID = 0, ep_Type = sp_Scope spec,
               ep_TypeID = (if sp_Scope spec = ''global'' then 0 else sp_TypeID spec), ep_EndpointType = ''gateway'',
               ep_Endpoint = endpointValue (sp_Name spec) (sp_EndpointIP spec) (sp_Params spec),
               ep_Priority = sp_Priority spec, ep_Bridge = sp_Bridge spec\<rparr>)"

text \<open>After a failure the file goes and the gateway is torn down in the switch.\<close>

definition roll_back :: "gateway_env \<Rightarrow> string \<Rightarrow> 'f gateway_state \<Rightarrow> 'f gateway_state" where
  "roll_back env name s = snd (fsKillGateway env name (remove_file env (xml_file name) s))"

text \<open>\<open>addEndpointToDB\<close>: the identifier of the new row, or an error, which may leave the row behind.\<close>

definition store_endpoint :: "gateway_env \<Rightarrow> Endpoint \<Rightarrow> 'f gateway_state \<Rightarrow> nat option \<times> 'f gateway_state" where
  "store_endpoint env ep s =
    (case addEndpointToDB (ge_faults env CreateEndpoint) ep (gv_server s) of
       (server, r) \<Rightarrow> (case r of Inl _ \<Rightarrow> None | Inr _ \<Rightarrow> Some (db_nextID (gv_server s)), s\<lparr>gv_server := server\<rparr>))"

definition drop_endpoint :: "gateway_env \<Rightarrow> nat \<Rightarrow> 'f gateway_state \<Rightarrow> 'f gateway_state" where
  "drop_endpoint env i s =
     s\<lparr>gv_server := fst (removeEndpointFromDB (ge_faults env DeleteEndpoint) i (gv_server s))\<rparr>"

text \<open>The rows of a new gateway, once the switch has loaded its file.\<close>

definition provision_rows ::
    "gateway_env \<Rightarrow> string \<Rightarrow> GatewayTemplate \<Rightarrow> params \<Rightarrow> Endpoint \<Rightarrow> 'f gateway_state \<Rightarrow>
     ('f, GatewayStatus) gateway_result" where
  "provision_rows env name tpl p ep s =
    (case encodeParams env p of
       None \<Rightarrow> (Inl EncodeFailed, roll_back env name s)
     | Some stored \<Rightarrow> (case store_endpoint env ep s of
         (None, s1) \<Rightarrow> (Inl EndpointFailed, roll_back env name s1)
       | (Some i, s1) \<Rightarrow> (case create_gateway env (new_gateway name (gt_ID tpl) stored i) s1 of
           None \<Rightarrow> (Inl PersistFailed, roll_back env name (drop_endpoint env i s1))
         | Some (gw, s2) \<Rightarrow> (case reload_endpoints env s2 of
             (False, s3) \<Rightarrow> (Inl EndpointReloadFailed, s3)
           | (True, s3) \<Rightarrow> answer_status env (xml_file name) gw s3))))"

definition ProvisionGateway ::
    "gateway_env \<Rightarrow> GatewayProvisionSpec \<Rightarrow> 'f gateway_state \<Rightarrow> ('f, GatewayStatus) gateway_result" where
  "ProvisionGateway env spec s =
    (let name = sp_Name spec; p = AList.update ''name'' (PString name) (provisionDefaults (sp_Params spec)) in
     case validateSpec spec of Some e \<Rightarrow> (Inl e, s)
     | None \<Rightarrow>
       if gatewayDir env = [] then (Inl ProvisioningDisabled, s)
       else if gateway_known env name s then (Inl (AlreadyProvisioned name), s)
       else case find_template env (sp_TemplateID spec) s of
         None \<Rightarrow> (Inl (TemplateNotFound (sp_TemplateID spec)), s)
       | Some tpl \<Rightarrow> (case renderGatewayTemplate env (gt_Body tpl) p of
           Inl e \<Rightarrow> (Inl e, s)
         | Inr rendered \<Rightarrow> (case endpointFromSpec spec of
             Inl e \<Rightarrow> (Inl e, s)
           | Inr ep \<Rightarrow> (case writeGatewayFile env name rendered s of
               None \<Rightarrow> (Inl WriteFailed, s)
             | Some s1 \<Rightarrow> (case fsReloadGateways env s1 of
                 (False, s2) \<Rightarrow> (Inl ReloadFailed, remove_file env (xml_file name) s2)
               | (True, s2) \<Rightarrow> provision_rows env name tpl p ep s2)))))"

section \<open>Aliases\<close>

definition isGatewayAliasValue :: "string \<Rightarrow> string \<Rightarrow> bool" where
  "isGatewayAliasValue gwName v \<longleftrightarrow> v = gwName \<or> has_prefix v (gwName @ '':'')"

definition is_alias_of :: "GatewayConfig \<Rightarrow> Endpoint \<Rightarrow> bool" where
  "is_alias_of gw ep \<longleftrightarrow> ep_EndpointType ep = ''gateway'' \<and> ep_ID ep \<noteq> gc_EndpointID gw
     \<and> isGatewayAliasValue (gc_Name gw) (ep_Endpoint ep)"

definition gatewayAliasEndpoints :: "gateway_env \<Rightarrow> GatewayConfig \<Rightarrow> 'f gateway_state \<Rightarrow> Endpoint list option" where
  "gatewayAliasEndpoints env gw s =
    (if ge_faults env ListEndpoints then None
     else Some (filter (is_alias_of gw) (db_endpoints (gv_server s))))"

definition gatewayManagingEndpoint :: "gateway_env \<Rightarrow> nat \<Rightarrow> 'f gateway_state \<Rightarrow> string option" where
  "gatewayManagingEndpoint env i s =
    (if ge_faults env FindManaging then None
     else map_option gc_Name (List.find (\<lambda>g. gc_EndpointID g = i) (gv_gateways s)))"

definition gatewayEndpointValue ::
    "gateway_env \<Rightarrow> GatewayConfig \<Rightarrow> 'f gateway_state \<Rightarrow> gateway_error + string" where
  "gatewayEndpointValue env gw s =
    (case (if gc_EndpointID gw = 0 then None else find_endpoint env (gc_EndpointID gw) s) of
       Some ep \<Rightarrow> if ep_Endpoint ep \<noteq> [] then Inr (ep_Endpoint ep)
                  else (case decodeParams env (gc_Params gw) of None \<Rightarrow> Inl DecodeFailed
                        | Some p \<Rightarrow> Inr (endpointValue (gc_Name gw) [] p))
     | None \<Rightarrow> (case decodeParams env (gc_Params gw) of None \<Rightarrow> Inl DecodeFailed
                | Some p \<Rightarrow> Inr (endpointValue (gc_Name gw) [] p)))"

definition duplicate_alias :: "gateway_env \<Rightarrow> nat \<Rightarrow> string \<Rightarrow> 'f gateway_state \<Rightarrow> bool" where
  "duplicate_alias env number v s \<longleftrightarrow> \<not> ge_faults env CountDuplicates \<and>
     list_ex (\<lambda>ep. ep_Type ep = ''number'' \<and> ep_TypeID ep = number \<and> ep_EndpointType ep = ''gateway''
                 \<and> ep_Endpoint ep = v) (db_endpoints (gv_server s))"

definition alias_endpoint :: "GatewayAliasSpec \<Rightarrow> string \<Rightarrow> Endpoint" where
  "alias_endpoint spec v = \<lparr>ep_ID = 0, ep_Type = ''number'', ep_TypeID = as_TypeID spec,
     ep_EndpointType = ''gateway'', ep_Endpoint = v, ep_Priority = as_Priority spec, ep_Bridge = as_Bridge spec\<rparr>"

definition store_alias :: "gateway_env \<Rightarrow> Endpoint \<Rightarrow> 'f gateway_state \<Rightarrow> ('f, Endpoint) gateway_result" where
  "store_alias env ep s =
    (case store_endpoint env ep s of
       (None, s1) \<Rightarrow> (Inl EndpointFailed, s1)
     | (Some i, s1) \<Rightarrow> (case reload_endpoints env s1 of
         (False, s2) \<Rightarrow> (Inl EndpointReloadFailed, s2)
       | (True, s2) \<Rightarrow> (Inr (ep\<lparr>ep_ID := i\<rparr>), s2)))"

definition CreateGatewayAlias ::
    "gateway_env \<Rightarrow> string \<Rightarrow> GatewayAliasSpec \<Rightarrow> 'f gateway_state \<Rightarrow> ('f, Endpoint) gateway_result" where
  "CreateGatewayAlias env name spec s =
    (if \<not> gateway_name_ok name then (Inl AliasInvalid, s)
     else case find_gateway env name s of None \<Rightarrow> (Inl (GatewayNotFound name), s)
     | Some gw \<Rightarrow>
       (case (if ge_faults env FindNumber then None
              else List.find (\<lambda>n. tn_ID n = as_TypeID spec) (db_numbers (gv_server s))) of
          None \<Rightarrow> (Inl AliasInvalid, s)
        | Some tn \<Rightarrow>
          if map_of (sv_TenantNumbers (gv_server s)) (tn_Number tn) = None then (Inl AliasInvalid, s)
          else case gatewayEndpointValue env gw s of Inl e \<Rightarrow> (Inl e, s)
          | Inr v \<Rightarrow>
            if duplicate_alias env (as_TypeID spec) v s then (Inl AliasExists, s)
            else store_alias env (alias_endpoint spec v) s))"

section \<open>Update\<close>

text \<open>\<open>First\<close> into a template that is already filled adds its identifier to the condition.\<close>

definition refind_template :: "gateway_env \<Rightarrow> GatewayTemplate \<Rightarrow> nat \<Rightarrow> 'f gateway_state \<Rightarrow> GatewayTemplate option" where
  "refind_template env tpl i s =
    (if gt_ID tpl \<noteq> 0 \<and> gt_ID tpl \<noteq> i then None else find_template env i s)"

definition zero_template :: GatewayTemplate where
  "zero_template = \<lparr>gt_ID = 0, gt_Name = [], gt_Description = [], gt_Body = []\<rparr>"

text \<open>The template the row is preloaded with, the zero value when there is none.\<close>

definition own_template :: "GatewayConfig \<Rightarrow> 'f gateway_state \<Rightarrow> GatewayTemplate" where
  "own_template gw s = (case List.find (\<lambda>t. gt_ID t = gc_TemplateID gw) (gv_templates s) of
     Some t \<Rightarrow> t | None \<Rightarrow> zero_template)"

text \<open>The template an update renders: the one it names, else the one the gateway has.\<close>

definition chosen_template ::
    "gateway_env \<Rightarrow> GatewayConfig \<Rightarrow> nat \<Rightarrow> 'f gateway_state \<Rightarrow> GatewayTemplate option" where
  "chosen_template env gw i s =
    (if i \<noteq> 0 \<and> i \<noteq> gc_TemplateID gw then refind_template env (own_template gw s) i s
     else Some (own_template gw s))"

definition merged_params :: "gateway_env \<Rightarrow> GatewayConfig \<Rightarrow> params \<Rightarrow> params" where
  "merged_params env gw p =
    (case decodeParams env (gc_Params gw) of None \<Rightarrow> provisionDefaults p
     | Some stored \<Rightarrow> map (keep_secret stored) (provisionDefaults p))"

text \<open>The linked endpoint and then the aliases take the new value.\<close>

definition move_linked :: "gateway_env \<Rightarrow> GatewayConfig \<Rightarrow> string \<Rightarrow> 'f gateway_state \<Rightarrow> bool \<times> 'f gateway_state" where
  "move_linked env gw v s =
    (if gc_EndpointID gw = 0 then (True, s)
     else case find_endpoint env (gc_EndpointID gw) s of
       None \<Rightarrow> (False, s)
     | Some ep \<Rightarrow> (case updateEndpoint (ge_faults env SaveEndpoint) (ep\<lparr>ep_Endpoint := v\<rparr>) (gv_server s) of
         (server, r) \<Rightarrow> (case r of Inl _ \<Rightarrow> False | Inr _ \<Rightarrow> True, s\<lparr>gv_server := server\<rparr>)))"

definition save_endpoint :: "Endpoint \<Rightarrow> Server \<Rightarrow> Server" where
  "save_endpoint ep server = server\<lparr>db_endpoints := map (\<lambda>q. if ep_ID q = ep_ID ep then ep else q) (db_endpoints server)\<rparr>"

fun move_aliases :: "bool \<Rightarrow> string \<Rightarrow> Endpoint list \<Rightarrow> Server \<Rightarrow> bool \<times> Server" where
  "move_aliases fail v [] server = (True, server)"
| "move_aliases fail v (al # als) server =
    (if ep_Endpoint al = v then move_aliases fail v als server
     else if fail then (False, server)
     else move_aliases fail v als (save_endpoint (al\<lparr>ep_Endpoint := v\<rparr>) server))"

definition saved_row :: "GatewayConfig \<Rightarrow> GatewayTemplate \<Rightarrow> string \<Rightarrow> GatewayConfig" where
  "saved_row gw tpl stored = gw\<lparr>gc_TemplateID := gt_ID tpl, gc_Params := stored\<rparr>"

definition update_rows ::
    "gateway_env \<Rightarrow> GatewayConfig \<Rightarrow> GatewayTemplate \<Rightarrow> params \<Rightarrow> string \<Rightarrow> 'f gateway_state \<Rightarrow>
     ('f, GatewayStatus) gateway_result" where
  "update_rows env gw tpl p v s =
    (case move_linked env gw v s of
       (False, s1) \<Rightarrow> (Inl EndpointFailed, s1)
     | (True, s1) \<Rightarrow> (case gatewayAliasEndpoints env gw s1 of
         None \<Rightarrow> (Inl AliasLookupFailed, s1)
       | Some als \<Rightarrow> (case move_aliases (ge_faults env SaveEndpoint) v als (gv_server s1) of
           (False, server) \<Rightarrow> (Inl EndpointFailed, s1\<lparr>gv_server := server\<rparr>)
         | (True, server) \<Rightarrow>
             let s2 = s1\<lparr>gv_server := server\<rparr> in
             (case encodeParams env p of
                None \<Rightarrow> (Inl EncodeFailed, s2)
              | Some stored \<Rightarrow>
                  if ge_faults env SaveGateway then (Inl PersistFailed, s2)
                  else let gw1 = saved_row gw tpl stored in
                    (case reload_endpoints env (save_gateway gw1 s2) of
                       (False, s3) \<Rightarrow> (Inl EndpointReloadFailed, s3)
                     | (True, s3) \<Rightarrow> answer_status env (xml_file (gc_Name gw)) gw1 s3)))))"

definition UpdateGateway ::
    "gateway_env \<Rightarrow> string \<Rightarrow> GatewayProvisionSpec \<Rightarrow> 'f gateway_state \<Rightarrow> ('f, GatewayStatus) gateway_result" where
  "UpdateGateway env name spec0 s =
    (let spec = spec0\<lparr>sp_Name := name\<rparr> in
     case validateSpec spec of Some e \<Rightarrow> (Inl e, s)
     | None \<Rightarrow>
       if gatewayDir env = [] then (Inl ProvisioningDisabled, s)
       else case find_gateway env name s of None \<Rightarrow> (Inl (GatewayNotFound name), s)
       | Some gw \<Rightarrow>
         let p = AList.update ''name'' (PString name) (merged_params env gw (sp_Params spec))
         in (case chosen_template env gw (sp_TemplateID spec) s of
              None \<Rightarrow> (Inl (TemplateNotFound (sp_TemplateID spec)), s)
            | Some tpl \<Rightarrow> (case renderGatewayTemplate env (gt_Body tpl) p of
                Inl e \<Rightarrow> (Inl e, s)
              | Inr rendered \<Rightarrow> (case writeGatewayFile env name rendered s of
                  None \<Rightarrow> (Inl WriteFailed, s)
                | Some s1 \<Rightarrow> (case fsReloadGateways env s1 of
                    (False, s2) \<Rightarrow> (Inl ReloadFailed, s2)
                  | (True, s2) \<Rightarrow> update_rows env gw tpl p (endpointValue name (sp_EndpointIP spec) p) s2)))))"

section \<open>The other operations\<close>

definition DeprovisionGateway :: "gateway_env \<Rightarrow> string \<Rightarrow> 'f gateway_state \<Rightarrow> ('f, unit) gateway_result" where
  "DeprovisionGateway env name s =
    (if \<not> gateway_name_ok name then (Inl (InvalidName name), s)
     else if gatewayDir env = [] then (Inl ProvisioningDisabled, s)
     else case find_gateway env name s of None \<Rightarrow> (Inl (GatewayNotFound name), s)
     | Some gw \<Rightarrow> (case gatewayAliasEndpoints env gw s of
         None \<Rightarrow> (Inl AliasLookupFailed, s)
       | Some als \<Rightarrow>
         if als \<noteq> [] then (Inl HasAliases, s)
         else (case fsKillGateway env name (remove_file env (xml_file name) s) of
             (False, s1) \<Rightarrow> (Inl ReloadFailed, s1)
           | (True, s1) \<Rightarrow>
               if ge_faults env DeleteGateway then (Inl PersistFailed, s1)
               else (Inr (), s1\<lparr>gv_gateways := filter (\<lambda>g. gc_ID g \<noteq> gc_ID gw) (gv_gateways s1)\<rparr>))))"

definition endpoint_name :: "Endpoint \<Rightarrow> string" where
  "endpoint_name ep = before_sep (CHR '':'') (ep_Endpoint ep)"

definition endpoint_ip :: "Endpoint \<Rightarrow> string" where
  "endpoint_ip ep = drop (Suc (length (endpoint_name ep))) (ep_Endpoint ep)"

definition from_endpoint_params :: "FromEndpointSpec \<Rightarrow> Endpoint \<Rightarrow> params option" where
  "from_endpoint_params spec ep =
    (let p = provisionDefaults (fe_Params spec) in
     if trim_space (str_param p ''realm'') \<noteq> [] then Some p
     else if endpoint_ip ep = [] then None
     else Some (AList.update ''realm'' (PString (endpoint_ip ep)) p))"

definition provision_existing ::
    "gateway_env \<Rightarrow> string \<Rightarrow> GatewayTemplate \<Rightarrow> params \<Rightarrow> Endpoint \<Rightarrow> 'f gateway_state \<Rightarrow>
     ('f, GatewayStatus) gateway_result" where
  "provision_existing env name tpl p ep s =
    (case renderGatewayTemplate env (gt_Body tpl) p of
       Inl e \<Rightarrow> (Inl e, s)
     | Inr rendered \<Rightarrow> (case writeGatewayFile env name rendered s of
         None \<Rightarrow> (Inl WriteFailed, s)
       | Some s1 \<Rightarrow> (case fsReloadGateways env s1 of
           (False, s2) \<Rightarrow> (Inl ReloadFailed, remove_file env (xml_file name) s2)
         | (True, s2) \<Rightarrow> (case encodeParams env p of
             None \<Rightarrow> (Inl EncodeFailed, roll_back env name s2)
           | Some stored \<Rightarrow> (case create_gateway env (new_gateway name (gt_ID tpl) stored (ep_ID ep)) s2 of
               None \<Rightarrow> (Inl PersistFailed, roll_back env name s2)
             | Some (gw, s3) \<Rightarrow> answer_status env (xml_file name) gw s3)))))"

definition ProvisionGatewayFromEndpoint ::
    "gateway_env \<Rightarrow> FromEndpointSpec \<Rightarrow> 'f gateway_state \<Rightarrow> ('f, GatewayStatus) gateway_result" where
  "ProvisionGatewayFromEndpoint env spec s =
    (if gatewayDir env = [] then (Inl ProvisioningDisabled, s)
     else case find_endpoint env (fe_EndpointID spec) s of None \<Rightarrow> (Inl EndpointFailed, s)
     | Some ep \<Rightarrow>
       let name = endpoint_name ep in
       if ep_EndpointType ep \<noteq> ''gateway'' then (Inl NotAGateway, s)
       else case gatewayManagingEndpoint env (ep_ID ep) s of Some owner \<Rightarrow> (Inl (ManagedEndpoint owner), s)
       | None \<Rightarrow>
         if \<not> gateway_name_ok name then (Inl (InvalidName name), s)
         else if gateway_known env name s then (Inl (AlreadyProvisioned name), s)
         else case find_template env (fe_TemplateID spec) s of
           None \<Rightarrow> (Inl (TemplateNotFound (fe_TemplateID spec)), s)
         | Some tpl \<Rightarrow> (case from_endpoint_params spec ep of
             None \<Rightarrow> (Inl RealmRequired, s)
           | Some p0 \<Rightarrow>
             provision_existing env name tpl (AList.update ''name'' (PString name) p0) ep s))"

text \<open>\<open>filepath.Base\<close>.\<close>

definition path_base :: "string \<Rightarrow> string" where
  "path_base path =
    (if path = [] then ''.''
     else let p = rev (dropWhile (\<lambda>c. c = CHR ''/'') (rev path))
          in if p = [] then ''/'' else rev (takeWhile (\<lambda>c. c \<noteq> CHR ''/'') (rev p)))"

definition has_suffix :: "string \<Rightarrow> string \<Rightarrow> bool" where
  "has_suffix s t = has_prefix (rev s) (rev t)"

definition gatewayNameFromFile :: "gateway_env \<Rightarrow> string \<Rightarrow> 'f gateway_state \<Rightarrow> string option" where
  "gatewayNameFromFile env file s =
    (case map_of (gv_files s) file of None \<Rightarrow> None
     | Some content \<Rightarrow> (case ge_declared env content of
         Some name \<Rightarrow> if name = [] then None else Some name | None \<Rightarrow> None))"

text \<open>The answer shows the stored parameters as they are.\<close>

definition AdoptGateway :: "gateway_env \<Rightarrow> string \<Rightarrow> 'f gateway_state \<Rightarrow> ('f, GatewayStatus) gateway_result" where
  "AdoptGateway env file s =
    (let base = path_base file in
     if gatewayDir env = [] then (Inl ProvisioningDisabled, s)
     else if \<not> has_suffix base ''.xml'' then (Inl NotXML, s)
     else case gatewayNameFromFile env base s of None \<Rightarrow> (Inl NoGatewayName, s)
     | Some name \<Rightarrow>
       if \<not> gateway_name_ok name then (Inl (InvalidName name), s)
       else if gateway_known env name s then (Inl (AlreadyProvisioned name), s)
       else case encodeParams env [(''name'', PString name)] of None \<Rightarrow> (Inl EncodeFailed, s)
       | Some stored \<Rightarrow> (case create_gateway env (new_gateway name 0 stored 0) s of
           None \<Rightarrow> (Inl PersistFailed, s)
         | Some (gw, s1) \<Rightarrow>
             let (state, s2) = fsGatewayState env name s1
             in (Inr \<lparr>gs_Gateway = gw, gs_File = ge_path env base, gs_State = state, gs_Exists = True,
                      gs_Aliases = []\<rparr>, s2)))"

definition DeleteUnmanagedGateway :: "gateway_env \<Rightarrow> string \<Rightarrow> 'f gateway_state \<Rightarrow> ('f, unit) gateway_result" where
  "DeleteUnmanagedGateway env name s =
    (if \<not> gateway_name_ok name then (Inl (InvalidName name), s)
     else if gatewayDir env = [] then (Inl ProvisioningDisabled, s)
     else if gateway_known env name s then (Inl (AlreadyProvisioned name), s)
     else if map_of (gv_files s) (xml_file name) = None then (Inl NoSuchFile, s)
     else if \<not> ge_removes env then (Inl NotDeleted, s)
     else case fsKillGateway env name (remove_file env (xml_file name) s) of
            (ok, s1) \<Rightarrow> (if ok then Inr () else Inl ReloadFailed, s1))"

definition RepairGateway :: "gateway_env \<Rightarrow> string \<Rightarrow> 'f gateway_state \<Rightarrow> ('f, GatewayStatus) gateway_result" where
  "RepairGateway env name s =
    (if \<not> gateway_name_ok name then (Inl (InvalidName name), s)
     else if gatewayDir env = [] then (Inl ProvisioningDisabled, s)
     else case find_gateway env name s of None \<Rightarrow> (Inl (GatewayNotFound name), s)
     | Some gw \<Rightarrow>
       if gc_TemplateID gw = 0 then (Inl (TemplateNotFound 0), s)
       else case decodeParams env (gc_Params gw) of None \<Rightarrow> (Inl DecodeFailed, s)
       | Some p0 \<Rightarrow>
         (case renderGatewayTemplate env (gt_Body (own_template gw s)) (AList.update ''name'' (PString name) p0) of
            Inl e \<Rightarrow> (Inl e, s)
          | Inr rendered \<Rightarrow> (case writeGatewayFile env name rendered s of
              None \<Rightarrow> (Inl WriteFailed, s)
            | Some s1 \<Rightarrow> (case fsReloadGateways env s1 of
                (False, s2) \<Rightarrow> (Inl ReloadFailed, s2)
              | (True, s2) \<Rightarrow> answer_status env (xml_file name) gw s2))))"

section \<open>Listing and monitoring\<close>

fun list_tracked ::
    "gateway_env \<Rightarrow> GatewayConfig list \<Rightarrow> 'f gateway_state \<Rightarrow> GatewayStatus list \<times> 'f gateway_state" where
  "list_tracked env [] s = ([], s)"
| "list_tracked env (gw # gws) s =
    (let (state, s1) = fsGatewayState env (gc_Name gw) s;
         here = gatewayDir env \<noteq> [];
         row = \<lparr>gs_Gateway = gw\<lparr>gc_Params := maskedParamsJSON env (gc_Params gw)\<rparr>,
                gs_File = (if here then ge_path env (xml_file (gc_Name gw)) else []), gs_State = state,
                gs_Exists = (here \<and> map_of (gv_files s) (xml_file (gc_Name gw)) \<noteq> None),
                gs_Aliases = (case gatewayAliasEndpoints env gw s of None \<Rightarrow> [] | Some als \<Rightarrow> als)\<rparr>;
         (rows, s2) = list_tracked env gws s1
     in (row # rows, s2))"

definition unmanaged_files :: "gateway_env \<Rightarrow> 'f gateway_state \<Rightarrow> UnmanagedFile list" where
  "unmanaged_files env s =
    (let tracked = map gc_Name (gv_gateways s);
         names = filter (\<lambda>f. has_suffix f ''.xml'' \<and> \<not> has_prefix f ''.'') (sort (map fst (gv_files s)));
         loose = filter (\<lambda>f. take (length f - 4) f \<notin> set tracked) names
     in map (\<lambda>f. \<lparr>um_File = f, um_Name = (case gatewayNameFromFile env f s of Some n \<Rightarrow> n | None \<Rightarrow> [])\<rparr>) loose)"

definition ListGateways ::
    "gateway_env \<Rightarrow> 'f gateway_state \<Rightarrow> ('f, GatewayStatus list \<times> UnmanagedFile list) gateway_result" where
  "ListGateways env s =
    (if ge_faults env ListConfigs then (Inl PersistFailed, s)
     else let (rows, s1) = list_tracked env (gv_gateways s) s
          in (Inr (rows, if gatewayDir env = [] then [] else unmanaged_files env s), s1))"

text \<open>A negative poll interval switches the monitor off.\<close>

definition monitorInterval :: "int \<Rightarrow> duration" where
  "monitorInterval sec = (if sec < 0 then 0 else if sec = 0 then 60 * Second else wrap64 (sec * Second))"

datatype log_level = InfoLevel | WarnLevel

definition monitorTransition :: "string \<Rightarrow> string \<Rightarrow> bool \<times> log_level" where
  "monitorTransition old new =
    (if old = new then (False, InfoLevel) else if new = ''REGED'' then (True, InfoLevel) else (True, WarnLevel))"

fun monitor_gateways :: "gateway_env \<Rightarrow> GatewayConfig list \<Rightarrow> 'f gateway_state \<Rightarrow> 'f gateway_state" where
  "monitor_gateways env [] s = s"
| "monitor_gateways env (gw # gws) s =
    (case decodeParams env (gc_Params gw) of None \<Rightarrow> monitor_gateways env gws s
     | Some p \<Rightarrow>
         if map_of p ''register'' \<noteq> Some (PBool True) then monitor_gateways env gws s
         else let (state, s1) = fsGatewayState env (gc_Name gw) s;
                  s2 = (if fst (monitorTransition (gc_LastState gw) state) \<and> \<not> ge_faults env SaveGateway
                        then save_gateway (gw\<lparr>gc_LastState := state, gc_LastStateCheckedAt := Some (ge_now env)\<rparr>) s1
                        else s1)
              in monitor_gateways env gws s2)"

definition monitorTick :: "gateway_env \<Rightarrow> 'f gateway_state \<Rightarrow> 'f gateway_state" where
  "monitorTick env s =
    (let (server, sentry) = refreshGatewayACLResolution (ge_dns env) (ge_sentry_faults env) (ge_now env)
                              (gv_server s) (gv_sentry s);
         s1 = s\<lparr>gv_server := server, gv_sentry := sentry\<rparr>
     in if ge_faults env ListConfigs then s1 else monitor_gateways env (gv_gateways s1) s1)"

section \<open>Lemmas\<close>

subsection \<open>Escaping\<close>

definition xml_entities :: "(string \<times> char) list" where
  "xml_entities = [(''&#34;'', CHR 0x22), (''&#39;'', CHR 0x27), (''&amp;'', CHR ''&''), (''&lt;'', CHR ''<''),
     (''&gt;'', CHR ''>''), (''&#x9;'', CHR 0x09), (''&#xA;'', CHR 0x0A), (''&#xD;'', CHR 0x0D)]"

text \<open>What an XML reader makes of text with these references.\<close>

function xml_read :: "string \<Rightarrow> string" where
  "xml_read [] = []"
| "xml_read (c # s) =
    (case List.find (\<lambda>(e, d). has_prefix (c # s) e) xml_entities of
       Some (e, d) \<Rightarrow> d # xml_read (drop (length e - 1) s)
     | None \<Rightarrow> c # xml_read s)"
  by pat_completeness auto
termination
  by (relation "measure length") auto

definition xml_plain :: "char \<Rightarrow> bool" where
  "xml_plain c \<longleftrightarrow> 32 \<le> (of_char c :: nat) \<or> c \<in> {CHR 0x09, CHR 0x0A, CHR 0x0D}"

lemma xml_read_plain:
  "c \<noteq> CHR ''&'' \<Longrightarrow> xml_read (c # s) = c # xml_read s"
  by (simp add: xml_entities_def has_prefix_def)

lemma xml_read_entity:
  assumes "(e, d) \<in> set xml_entities" shows "xml_read (e @ s) = d # xml_read s"
  using assms by (auto simp: xml_entities_def has_prefix_def)

lemma xml_char_other:
  assumes "c \<notin> snd ` set xml_entities"
  shows "xml_char c = (if (of_char c :: nat) < 32 then [CHR 0xEF, CHR 0xBF, CHR 0xBD] else [c])"
proof -
  have "c \<noteq> CHR 0x22" "c \<noteq> CHR 0x27" "c \<noteq> CHR ''&''" "c \<noteq> CHR ''<''" "c \<noteq> CHR ''>''" "c \<noteq> CHR 0x09"
    "c \<noteq> CHR 0x0A" "c \<noteq> CHR 0x0D"
    using assms by (simp_all add: xml_entities_def)
  then show ?thesis
    unfolding xml_char_def by (simp only: if_False)
qed

lemma xml_char_entity: "c \<in> snd ` set xml_entities \<Longrightarrow> (xml_char c, c) \<in> set xml_entities"
  by (auto simp: xml_entities_def xml_char_def)

lemma xml_char_cases:
  assumes "xml_plain c"
  shows "(xml_char c, c) \<in> set xml_entities \<or> xml_char c = [c] \<and> c \<noteq> CHR ''&''"
proof (cases "c \<in> snd ` set xml_entities")
  case False
  then have "c \<noteq> CHR 0x09 \<and> c \<noteq> CHR 0x0A \<and> c \<noteq> CHR 0x0D \<and> c \<noteq> CHR ''&''"
    by (simp add: xml_entities_def)
  then show ?thesis
    using assms xml_char_other [OF False] by (auto simp: xml_plain_def)
qed (simp add: xml_char_entity)

lemma xml_read_char: "xml_plain c \<Longrightarrow> xml_read (xml_char c @ s) = c # xml_read s"
  using xml_char_cases [of c] by (auto simp: xml_read_entity xml_read_plain simp del: xml_read.simps)

lemma xml_round: "list_all xml_plain s \<Longrightarrow> xml_read (xml_escape s) = s"
  by (induction s) (simp_all add: xml_escape_def xml_read_char del: xml_read.simps(2))

definition markup :: "char set" where
  "markup = {CHR ''<'', CHR ''>'', CHR 0x22, CHR 0x27}"

lemma xml_char_clean: "set (xml_char c) \<inter> markup = {}"
proof (cases "c \<in> snd ` set xml_entities")
  case True
  have "\<forall>p \<in> set xml_entities. set (fst p) \<inter> markup = {}"
    by (simp add: xml_entities_def markup_def)
  with xml_char_entity [OF True] show ?thesis
    by (metis fst_conv)
next
  case False
  then have "c \<notin> markup"
    by (auto simp: xml_entities_def markup_def)
  then show ?thesis
    by (simp add: xml_char_other [OF False]) (simp add: markup_def)
qed

lemma xml_escape_clean: "set (xml_escape s) \<inter> markup = {}"
  using xml_char_clean by (auto simp: xml_escape_def)

subsection \<open>What the steps of an operation touch\<close>

lemma fsAPI_sent: "fsAPI env cmd s = (r, s') \<Longrightarrow> \<exists>x. s' = s\<lparr>gv_sent := x\<rparr>"
  by (auto simp: fsAPI_def)

lemma fsReloadGateways_sent: "fsReloadGateways env s = (r, s') \<Longrightarrow> \<exists>x. s' = s\<lparr>gv_sent := x\<rparr>"
  by (auto simp: fsReloadGateways_def Let_def fsAPI_def split: option.splits)

lemma fsKillGateway_sent: "fsKillGateway env name s = (r, s') \<Longrightarrow> \<exists>x. s' = s\<lparr>gv_sent := x\<rparr>"
  by (auto simp: fsKillGateway_def fsAPI_def dest!: fsReloadGateways_sent)

lemma fsGatewayState_sent: "fsGatewayState env name s = (r, s') \<Longrightarrow> \<exists>x. s' = s\<lparr>gv_sent := x\<rparr>"
  by (auto simp: fsGatewayState_def fsAPI_def split: option.splits)

lemma answer_status_sent: "answer_status env file gw s = (r, s') \<Longrightarrow> \<exists>x. s' = s\<lparr>gv_sent := x\<rparr>"
  by (auto simp: answer_status_def Let_def split: prod.splits dest!: fsGatewayState_sent)

lemma answer_status_ok: "answer_status env file gw s = (r, s') \<Longrightarrow> \<exists>st. r = Inr st"
  by (auto simp: answer_status_def Let_def split: prod.splits)

lemmas sent_only = fsReloadGateways_sent fsKillGateway_sent fsGatewayState_sent answer_status_sent

lemma roll_back_sent: "\<exists>x. roll_back env name s = (remove_file env (xml_file name) s)\<lparr>gv_sent := x\<rparr>"
  using fsKillGateway_sent [OF surjective_pairing] by (simp add: roll_back_def)

lemma load_endpoints_rows: "load_endpoints fail dns server = (server', r) \<Longrightarrow> db_endpoints server' = db_endpoints server"
  by (auto simp: load_endpoints_def Let_def load_frames split: if_splits)

lemma reload_endpoints_rows:
  assumes "reload_endpoints env s = (r, s')"
  shows "\<exists>server sentry. s' = s\<lparr>gv_server := server, gv_sentry := sentry\<rparr>
    \<and> db_endpoints server = db_endpoints (gv_server s)"
proof -
  have "s' = s\<lparr>gv_server := gv_server s', gv_sentry := gv_sentry s'\<rparr>
      \<and> db_endpoints (gv_server s') = db_endpoints (gv_server s)"
    using assms by (auto simp: reload_endpoints_def loadEndpoints_def split: prod.splits sum.splits
        dest: load_endpoints_rows)
  then show ?thesis by blast
qed

lemma addEndpoint_rows: "addEndpoint ep server = (server', r) \<Longrightarrow> db_endpoints server' = db_endpoints server"
  by (auto simp: addEndpoint_def Let_def split: if_splits)

lemma removeEndpoint_rows: "removeEndpoint i server = (server', r) \<Longrightarrow> db_endpoints server' = db_endpoints server"
  by (auto simp: removeEndpoint_def Let_def split: option.splits)

lemma refresh_rows: "db_endpoints (refresh_resolution dns server) = db_endpoints server"
  by (auto simp: refresh_resolution_def Let_def split: prod.splits)

section \<open>The gateways stay well formed\<close>

text \<open>Names and identifiers are unique and names are safe as file names; so are the endpoint identifiers.\<close>

definition gw_inv :: "'f gateway_state \<Rightarrow> bool" where
  "gw_inv s \<longleftrightarrow> distinct (map gc_Name (gv_gateways s)) \<and> distinct (map gc_ID (gv_gateways s))
     \<and> list_all (\<lambda>g. gateway_name_ok (gc_Name g) \<and> gc_ID g < gv_nextID s) (gv_gateways s)
     \<and> distinct (map ep_ID (db_endpoints (gv_server s)))"

definition gateway_file :: "string \<Rightarrow> bool" where
  "gateway_file f \<longleftrightarrow> f = xml_file (take (length f - 4) f) \<and> gateway_name_ok (take (length f - 4) f)"

text \<open>The state is well formed, and every file that is not a gateway file is as it was in \<open>s0\<close>.\<close>

definition sound :: "'f gateway_state \<Rightarrow> 'f gateway_state \<Rightarrow> bool" where
  "sound s0 s \<longleftrightarrow> gw_inv s \<and> (\<forall>f. \<not> gateway_file f \<longrightarrow> map_of (gv_files s) f = map_of (gv_files s0) f)"

lemma gateway_file_name: "gateway_name_ok name \<Longrightarrow> gateway_file (xml_file name)"
  by (simp add: gateway_file_def xml_file_def)

lemma sound_sent [simp]: "sound s0 (s\<lparr>gv_sent := x\<rparr>) \<longleftrightarrow> sound s0 s"
  by (simp add: sound_def gw_inv_def)

lemma sound_write:
  "\<lbrakk>sound s0 s; gateway_name_ok name; writeGatewayFile env name c s = Some s'\<rbrakk> \<Longrightarrow> sound s0 s'"
  by (auto simp: sound_def gw_inv_def writeGatewayFile_def update_conv' gateway_file_name split: if_splits)

lemma sound_remove: "\<lbrakk>sound s0 s; gateway_name_ok name\<rbrakk> \<Longrightarrow> sound s0 (remove_file env (xml_file name) s)"
  by (auto simp: sound_def gw_inv_def remove_file_def delete_conv' gateway_file_name)

lemma sound_roll_back: "\<lbrakk>sound s0 s; gateway_name_ok name\<rbrakk> \<Longrightarrow> sound s0 (roll_back env name s)"
  using roll_back_sent [of env name s] sound_remove by fastforce

lemma sound_server:
  "\<lbrakk>sound s0 s; distinct (map ep_ID (db_endpoints server))\<rbrakk> \<Longrightarrow> sound s0 (s\<lparr>gv_server := server\<rparr>)"
  by (simp add: sound_def gw_inv_def)

lemma sound_endpoints: "sound s0 s \<Longrightarrow> distinct (map ep_ID (db_endpoints (gv_server s)))"
  by (simp add: sound_def gw_inv_def)

lemma sound_reload: "\<lbrakk>sound s0 s; reload_endpoints env s = (r, s')\<rbrakk> \<Longrightarrow> sound s0 s'"
  by (auto simp: sound_def gw_inv_def dest!: reload_endpoints_rows)

lemma sound_create:
  assumes "sound s0 s" "gateway_name_ok (gc_Name gw)" "create_gateway env gw s = Some (row, s')"
  shows "sound s0 s'"
proof -
  have "gv_nextID s \<notin> gc_ID ` set (gv_gateways s)"
    using assms(1) by (auto simp: sound_def gw_inv_def list_all_iff)
  then show ?thesis
    using assms by (auto simp: sound_def gw_inv_def create_gateway_def Let_def list_all_iff less_Suc_eq
        split: if_splits)
qed

lemma sound_delete: "sound s0 s \<Longrightarrow> sound s0 (s\<lparr>gv_gateways := filter P (gv_gateways s)\<rparr>)"
  by (auto simp: sound_def gw_inv_def list_all_iff distinct_map_filter)

lemma sound_save:
  assumes "sound s0 s" "g \<in> set (gv_gateways s)" "gc_ID gw = gc_ID g" "gc_Name gw = gc_Name g"
  shows "sound s0 (save_gateway gw s)"
proof -
  have "gc_Name h = gc_Name g" if "h \<in> set (gv_gateways s)" "gc_ID h = gc_ID g" for h
    using that assms by (auto simp: sound_def gw_inv_def distinct_map inj_on_def)
  then have rows: "map gc_Name (gv_gateways (save_gateway gw s)) = map gc_Name (gv_gateways s)"
    "map gc_ID (gv_gateways (save_gateway gw s)) = map gc_ID (gv_gateways s)"
    using assms(3,4) by (auto simp: save_gateway_def)
  have "gateway_name_ok (gc_Name h) \<and> gc_ID h < gv_nextID s" if "h \<in> set (gv_gateways (save_gateway gw s))" for h
    using that assms by (auto simp: sound_def gw_inv_def list_all_iff save_gateway_def split: if_splits)
  moreover have "gv_server (save_gateway gw s) = gv_server s" "gv_files (save_gateway gw s) = gv_files s"
    "gv_nextID (save_gateway gw s) = gv_nextID s"
    by (simp_all add: save_gateway_def)
  ultimately show ?thesis
    using assms(1) by (simp add: sound_def gw_inv_def list_all_iff rows)
qed

lemma store_endpoint_rows:
  assumes "store_endpoint env ep s = (r, s')" "ep_ID ep = 0"
  shows "\<exists>server. s' = s\<lparr>gv_server := server\<rparr> \<and> (db_endpoints server = db_endpoints (gv_server s) \<and> r = None
    \<or> db_endpoints server = db_endpoints (gv_server s) @ [ep\<lparr>ep_ID := db_nextID (gv_server s)\<rparr>]
      \<and> db_nextID (gv_server s) \<notin> ep_ID ` set (db_endpoints (gv_server s)))"
  using assms
  by (auto simp: store_endpoint_def addEndpointToDB_def Let_def split: prod.splits sum.splits if_splits
      dest!: addEndpoint_rows)

lemma sound_store: "\<lbrakk>sound s0 s; store_endpoint env ep s = (r, s'); ep_ID ep = 0\<rbrakk> \<Longrightarrow> sound s0 s'"
  by (auto simp: sound_def gw_inv_def dest!: store_endpoint_rows)

lemma sound_drop: "sound s0 s \<Longrightarrow> sound s0 (drop_endpoint env i s)"
  unfolding drop_endpoint_def
  by (rule sound_server) (simp_all add: removeEndpointFromDB_def distinct_map_filter sound_endpoints
      removeEndpoint_rows [OF surjective_pairing])

lemma find_gateway_row:
  "find_gateway env name s = Some gw \<Longrightarrow> gw \<in> set (gv_gateways s) \<and> gc_Name gw = name"
  by (auto simp: find_gateway_def find_Some_iff split: if_splits)

lemma updateEndpoint_ids:
  assumes "updateEndpoint fail ep server = (server', r)"
  shows "map ep_ID (db_endpoints server') = map ep_ID (db_endpoints server)
    \<or> map ep_ID (db_endpoints server') = map ep_ID (db_endpoints server) @ [ep_ID ep]
      \<and> ep_ID ep \<notin> ep_ID ` set (db_endpoints server)"
proof -
  have ids: "ep_ID ep = i \<Longrightarrow> map ep_ID (map (\<lambda>q. if ep_ID q = i then ep else q) eps) = map ep_ID eps" for eps i
    by (induction eps) auto
  show ?thesis
    using assms by (auto simp: updateEndpoint_def Let_def split: if_splits prod.splits sum.splits
        dest!: removeEndpoint_rows addEndpoint_rows simp del: map_map)
      (simp_all add: ids del: map_map)
qed

lemma sound_move_linked: "\<lbrakk>sound s0 s; move_linked env gw v s = (r, s')\<rbrakk> \<Longrightarrow> sound s0 s'"
  by (auto simp: move_linked_def split: if_splits option.splits prod.splits sum.splits
      intro!: sound_server dest!: updateEndpoint_ids dest: sound_endpoints)

lemma save_endpoint_ids: "map ep_ID (db_endpoints (save_endpoint ep server)) = map ep_ID (db_endpoints server)"
  by (auto simp: save_endpoint_def)

lemma move_aliases_ids:
  "move_aliases fail v als server = (r, server') \<Longrightarrow> map ep_ID (db_endpoints server') = map ep_ID (db_endpoints server)"
  by (induction als arbitrary: server) (auto simp: save_endpoint_ids split: if_splits)

lemma sound_move_aliases:
  "\<lbrakk>sound s0 s; move_aliases fail v als (gv_server s) = (r, server)\<rbrakk> \<Longrightarrow> sound s0 (s\<lparr>gv_server := server\<rparr>)"
  by (rule sound_server) (simp_all add: move_aliases_ids sound_endpoints)

subsection \<open>The operations\<close>

lemma sound_new:
  "\<lbrakk>sound s0 s; gateway_name_ok name; create_gateway env (new_gateway name t stored i) s = Some (row, s')\<rbrakk>
    \<Longrightarrow> sound s0 s'"
  by (erule sound_create [rotated 2]) (simp_all add: new_gateway_def)

text \<open>The rows of a new gateway: each way the operation ends.\<close>

lemma provision_rows_cases:
  assumes "provision_rows env name tpl p ep s = (r, s')"
  obtains (unencoded) "r = Inl EncodeFailed" "s' = roll_back env name s"
  | (unstored) s1 where "store_endpoint env ep s = (None, s1)" "r = Inl EndpointFailed" "s' = roll_back env name s1"
  | (uncreated) stored i s1 where "store_endpoint env ep s = (Some i, s1)"
      "create_gateway env (new_gateway name (gt_ID tpl) stored i) s1 = None" "r = Inl PersistFailed"
      "s' = roll_back env name (drop_endpoint env i s1)"
  | (created) stored i s1 gw s2 b s3 where "store_endpoint env ep s = (Some i, s1)" "encodeParams env p = Some stored"
      "create_gateway env (new_gateway name (gt_ID tpl) stored i) s1 = Some (gw, s2)"
      "reload_endpoints env s2 = (b, s3)"
      "(r, s') = (if b then answer_status env (xml_file name) gw s3 else (Inl EndpointReloadFailed, s3))"
  using assms by (auto simp: provision_rows_def split: option.splits prod.splits bool.splits)

lemma sound_provision_rows:
  assumes "sound s0 s" "gateway_name_ok name" "ep_ID ep = 0" "provision_rows env name tpl p ep s = (r, s')"
  shows "sound s0 s'"
  using assms(4)
proof (cases rule: provision_rows_cases)
  case unencoded
  then show ?thesis using assms by (simp add: sound_roll_back)
next
  case (unstored s1)
  then show ?thesis using assms sound_store [OF assms(1)] by (simp add: sound_roll_back)
next
  case (uncreated stored i s1)
  then show ?thesis using assms sound_store [OF assms(1)] by (simp add: sound_roll_back sound_drop)
next
  case (created stored i s1 gw s2 b s3)
  then have "sound s0 s3"
    using assms sound_store sound_new sound_reload by metis
  then show ?thesis
    using created(5) by (auto split: if_splits dest!: answer_status_sent [OF sym])
qed

lemma validateSpec_name: "validateSpec spec = None \<Longrightarrow> gateway_name_ok (sp_Name spec)"
  by (simp add: validateSpec_def split: if_splits)

lemma endpointFromSpec_ep: "endpointFromSpec spec = Inr ep \<Longrightarrow> ep_ID ep = 0"
  by (auto simp: endpointFromSpec_def split: if_splits)

lemma checks_no_endpoint:
  "validateSpec spec \<noteq> Some EndpointFailed" "renderGatewayTemplate env b p \<noteq> Inl EndpointFailed"
  "endpointFromSpec spec \<noteq> Inl EndpointFailed" "validateSpec spec \<noteq> Some EndpointReloadFailed"
  "renderGatewayTemplate env b p \<noteq> Inl EndpointReloadFailed" "endpointFromSpec spec \<noteq> Inl EndpointReloadFailed"
  by (simp_all add: validateSpec_def renderGatewayTemplate_def endpointFromSpec_def split: option.splits)

text \<open>Provisioning is refused, or writes the file, tells the switch and goes on with the rows.\<close>

lemma provision_cases:
  assumes "ProvisionGateway env spec s = (r, s')"
  obtains (refused) e where "r = Inl e" "s' = s" "e \<noteq> EndpointFailed" "e \<noteq> EndpointReloadFailed"
  | (unloaded) rendered s1 x where "gateway_name_ok (sp_Name spec)" "r = Inl ReloadFailed"
      "writeGatewayFile env (sp_Name spec) rendered s = Some s1"
      "s' = remove_file env (xml_file (sp_Name spec)) (s1\<lparr>gv_sent := x\<rparr>)"
  | (loaded) tpl rendered ep s1 x p where "gateway_name_ok (sp_Name spec)"
      "p = AList.update ''name'' (PString (sp_Name spec)) (provisionDefaults (sp_Params spec))"
      "renderGatewayTemplate env (gt_Body tpl) p = Inr rendered"
      "endpointFromSpec spec = Inr ep" "writeGatewayFile env (sp_Name spec) rendered s = Some s1"
      "provision_rows env (sp_Name spec) tpl p ep (s1\<lparr>gv_sent := x\<rparr>) = (r, s')"
proof -
  have checked: thesis if "validateSpec spec = Some e" "r = Inl e" "s' = s" for e
    using that refused checks_no_endpoint(1,4) by metis
  have rendered: thesis if "renderGatewayTemplate env b p = Inl e" "r = Inl e" "s' = s" for e b p
    using that refused checks_no_endpoint(2,5) by metis
  have scoped: thesis if "endpointFromSpec spec = Inl e" "r = Inl e" "s' = s" for e
    using that refused checks_no_endpoint(3,6) by metis
  note refusals = checked rendered scoped refused
  show thesis
    using assms
    by (simp add: ProvisionGateway_def Let_def split: option.splits sum.splits prod.splits bool.splits if_split_asm)
      (auto dest!: fsReloadGateways_sent dest: validateSpec_name intro: refusals unloaded loaded)
qed

lemma sound_ProvisionGateway:
  assumes "sound s0 s" "ProvisionGateway env spec s = (r, s')" shows "sound s0 s'"
  using assms(2)
proof (cases rule: provision_cases)
  case (unloaded rendered s1 x)
  then show ?thesis using assms(1) by (simp add: sound_remove sound_write)
next
  case (loaded tpl rendered ep s1 x p)
  then show ?thesis using assms(1)
    by (metis sound_provision_rows sound_write sound_sent endpointFromSpec_ep)
qed (use assms(1) in simp)

lemma alias_endpoint_new: "ep_ID (alias_endpoint spec v) = 0"
  by (simp add: alias_endpoint_def)

text \<open>An alias is refused, or its endpoint is stored and the endpoints are loaded again.\<close>

lemma alias_cases:
  assumes "CreateGatewayAlias env name spec s = (r, s')"
  obtains (refused) e where "r = Inl e" "s' = s"
  | (stored) gw v where "find_gateway env name s = Some gw" "gatewayEndpointValue env gw s = Inr v"
      "\<not> duplicate_alias env (as_TypeID spec) v s" "store_alias env (alias_endpoint spec v) s = (r, s')"
  using assms
  by (simp add: CreateGatewayAlias_def Let_def split: option.splits sum.splits if_split_asm) blast+

lemma store_alias_cases:
  assumes "store_alias env ep s = (r, s')"
  obtains (unstored) "store_endpoint env ep s = (None, s')" "r = Inl EndpointFailed"
  | (stored) i s1 b where "store_endpoint env ep s = (Some i, s1)" "reload_endpoints env s1 = (b, s')"
      "r = (if b then Inr (ep\<lparr>ep_ID := i\<rparr>) else Inl EndpointReloadFailed)"
  using assms by (simp add: store_alias_def split: option.splits prod.splits bool.splits)

lemma sound_store_alias:
  assumes "sound s0 s" "ep_ID ep = 0" "store_alias env ep s = (r, s')" shows "sound s0 s'"
  using assms(3) by (cases rule: store_alias_cases) (metis assms(1,2) sound_store sound_reload)+

lemma sound_CreateGatewayAlias:
  assumes "sound s0 s" "CreateGatewayAlias env name spec s = (r, s')" shows "sound s0 s'"
  using assms(2) by (cases rule: alias_cases) (use assms(1) sound_store_alias alias_endpoint_new in metis)+

text \<open>The rows of an update: each way the operation ends.\<close>

lemma update_rows_cases:
  assumes "update_rows env gw tpl p v s = (r, s')"
  obtains (unmoved) "move_linked env gw v s = (False, s')" "r = Inl EndpointFailed"
  | (unlisted) "move_linked env gw v s = (True, s')" "r = Inl AliasLookupFailed"
  | (stranded) s1 als server where "move_linked env gw v s = (True, s1)"
      "gatewayAliasEndpoints env gw s1 = Some als"
      "move_aliases (ge_faults env SaveEndpoint) v als (gv_server s1) = (False, server)"
      "r = Inl EndpointFailed" "s' = s1\<lparr>gv_server := server\<rparr>"
  | (moved) s1 als server where "move_linked env gw v s = (True, s1)"
      "gatewayAliasEndpoints env gw s1 = Some als"
      "move_aliases (ge_faults env SaveEndpoint) v als (gv_server s1) = (True, server)"
      "r = Inl EncodeFailed \<or> r = Inl PersistFailed" "s' = s1\<lparr>gv_server := server\<rparr>"
  | (saved) s1 als server stored b s3 where "move_linked env gw v s = (True, s1)"
      "gatewayAliasEndpoints env gw s1 = Some als"
      "move_aliases (ge_faults env SaveEndpoint) v als (gv_server s1) = (True, server)"
      "encodeParams env p = Some stored"
      "reload_endpoints env (save_gateway (saved_row gw tpl stored) (s1\<lparr>gv_server := server\<rparr>)) = (b, s3)"
      "(r, s') = (if b then answer_status env (xml_file (gc_Name gw)) (saved_row gw tpl stored) s3
                  else (Inl EndpointReloadFailed, s3))"
proof -
  obtain b1 s1 where l: "move_linked env gw v s = (b1, s1)"
    by fastforce
  show thesis
  proof (cases "b1 \<and> gatewayAliasEndpoints env gw s1 \<noteq> None")
    case False
    then show thesis
      using assms l unmoved unlisted by (cases b1) (simp_all add: update_rows_def)
  next
    case True
    then obtain als where als: "gatewayAliasEndpoints env gw s1 = Some als" and l1: "move_linked env gw v s = (True, s1)"
      using l by auto
    obtain b2 server where m: "move_aliases (ge_faults env SaveEndpoint) v als (gv_server s1) = (b2, server)"
      by fastforce
    show thesis
    proof (cases "b2 \<and> encodeParams env p \<noteq> None \<and> \<not> ge_faults env SaveGateway")
      case False
      then show thesis
        using assms l1 als m stranded moved by (cases b2) (auto simp: update_rows_def Let_def split: option.splits)
    next
      case True
      then obtain stored b s3 where "encodeParams env p = Some stored"
        "reload_endpoints env (save_gateway (saved_row gw tpl stored) (s1\<lparr>gv_server := server\<rparr>)) = (b, s3)"
        by fastforce
      then show thesis
        using assms l1 als m True by (intro saved) (auto simp: update_rows_def Let_def split: bool.splits)
    qed
  qed
qed

lemma move_linked_gateways: "move_linked env gw v s = (b, t) \<Longrightarrow> \<exists>server. t = s\<lparr>gv_server := server\<rparr>"
  by (auto simp: move_linked_def split: if_splits option.splits prod.splits intro: exI [of _ "gv_server s"])

lemma sound_update_rows:
  assumes "sound s0 s" "gw \<in> set (gv_gateways s)" "update_rows env gw tpl p v s = (r, s')"
  shows "sound s0 s'"
  using assms(3)
proof (cases rule: update_rows_cases)
  case unmoved
  then show ?thesis using assms(1) by (simp add: sound_move_linked)
next
  case unlisted
  then show ?thesis using assms(1) by (simp add: sound_move_linked)
next
  case (stranded s1 als server)
  then show ?thesis using assms(1) sound_move_linked sound_move_aliases by metis
next
  case (moved s1 als server)
  then show ?thesis using assms(1) sound_move_linked sound_move_aliases by metis
next
  case (saved s1 als server stored b s3)
  then have "sound s0 (s1\<lparr>gv_server := server\<rparr>)"
    using assms(1) sound_move_linked sound_move_aliases by metis
  moreover have "gw \<in> set (gv_gateways (s1\<lparr>gv_server := server\<rparr>))"
    using saved(1) assms(2) by (auto dest!: move_linked_gateways)
  ultimately have "sound s0 (save_gateway (saved_row gw tpl stored) (s1\<lparr>gv_server := server\<rparr>))"
    by (rule sound_save) (simp_all add: saved_row_def)
  then have "sound s0 s3"
    using saved(5) by (rule sound_reload)
  then show ?thesis
    using saved(6) by (auto split: if_splits dest!: answer_status_sent [OF sym])
qed

lemma update_cases:
  assumes "UpdateGateway env name spec s = (r, s')"
  obtains (refused) e where "r = Inl e" "s' = s"
  | (unloaded) rendered s1 x where "gateway_name_ok name" "r = Inl ReloadFailed"
      "writeGatewayFile env name rendered s = Some s1" "s' = s1\<lparr>gv_sent := x\<rparr>"
  | (loaded) gw tpl rendered s1 x p where "gateway_name_ok name" "find_gateway env name s = Some gw"
      "p = AList.update ''name'' (PString name) (merged_params env gw (sp_Params spec))"
      "chosen_template env gw (sp_TemplateID spec) s = Some tpl"
      "renderGatewayTemplate env (gt_Body tpl) p = Inr rendered"
      "writeGatewayFile env name rendered s = Some s1"
      "update_rows env gw tpl p (endpointValue name (sp_EndpointIP spec) p) (s1\<lparr>gv_sent := x\<rparr>) = (r, s')"
  using assms
  by (simp add: UpdateGateway_def Let_def split: option.splits sum.splits prod.splits bool.splits if_split_asm)
    (auto dest!: fsReloadGateways_sent validateSpec_name)

lemma find_gateway_sound:
  assumes "sound s0 s" "find_gateway env name s = Some gw" "writeGatewayFile env name c s = Some s1"
  shows "gw \<in> set (gv_gateways (s1\<lparr>gv_sent := x\<rparr>))"
  using assms(3) find_gateway_row [OF assms(2)] by (auto simp: writeGatewayFile_def split: if_splits)

lemma sound_UpdateGateway:
  assumes "sound s0 s" "UpdateGateway env name spec s = (r, s')" shows "sound s0 s'"
  using assms(2)
proof (cases rule: update_cases)
  case (unloaded rendered s1 x)
  then show ?thesis using assms(1) by (simp add: sound_write)
next
  case (loaded gw tpl rendered s1 x p)
  then have "sound s0 (s1\<lparr>gv_sent := x\<rparr>)"
    using assms(1) by (simp add: sound_write)
  then show ?thesis
    using find_gateway_sound [OF assms(1) loaded(2) loaded(6)] loaded(7) by (rule sound_update_rows)
qed (use assms(1) in simp)

text \<open>A gateway is deprovisioned, after its file is gone and the switch has forgotten it.\<close>

lemma deprovision_cases:
  assumes "DeprovisionGateway env name s = (r, s')"
  obtains (refused) e where "r = Inl e" "s' = s"
  | (kept) e x where "gateway_name_ok name" "r = Inl e" "s' = (remove_file env (xml_file name) s)\<lparr>gv_sent := x\<rparr>"
  | (gone) gw x where "gateway_name_ok name" "r = Inr ()" "find_gateway env name s = Some gw"
      "gatewayAliasEndpoints env gw s = Some []"
      "s' = (remove_file env (xml_file name) s)\<lparr>gv_sent := x,
              gv_gateways := filter (\<lambda>g. gc_ID g \<noteq> gc_ID gw) (gv_gateways s)\<rparr>"
proof -
  have rows: "gv_gateways (remove_file env f s) = gv_gateways s" for f
    by (simp add: remove_file_def)
  show thesis
    using assms
    by (simp add: DeprovisionGateway_def split: option.splits prod.splits bool.splits if_split_asm)
      (auto dest!: fsKillGateway_sent simp: rows intro: refused kept gone)
qed

lemma sound_DeprovisionGateway:
  assumes "sound s0 s" "DeprovisionGateway env name s = (r, s')" shows "sound s0 s'"
  using assms(2)
proof (cases rule: deprovision_cases)
  case (kept e x)
  then show ?thesis using assms(1) by (simp add: sound_remove)
next
  case (gone gw x)
  have "sound s0 ((remove_file env (xml_file name) s)\<lparr>gv_sent := x\<rparr>)"
    using gone(1) assms(1) by (simp add: sound_remove)
  from sound_delete [OF this, of "\<lambda>g. gc_ID g \<noteq> gc_ID gw"] show ?thesis
    by (simp add: gone(5) remove_file_def split: if_splits)
qed (use assms(1) in simp)

text \<open>An existing endpoint is refused, or its file is written, the switch told and the row created.\<close>

lemma from_endpoint_cases:
  assumes "ProvisionGatewayFromEndpoint env spec s = (r, s')"
  obtains (refused) e where "r = Inl e" "s' = s"
  | (accepted) ep p tpl where "find_endpoint env (fe_EndpointID spec) s = Some ep"
      "gateway_name_ok (endpoint_name ep)" "provision_existing env (endpoint_name ep) tpl p ep s = (r, s')"
  using assms
  by (simp add: ProvisionGatewayFromEndpoint_def Let_def split: option.splits if_split_asm) blast+

lemma existing_cases:
  assumes "provision_existing env name tpl p ep s = (r, s')"
  obtains (refused) e where "r = Inl e" "s' = s"
  | (undone) rendered s1 e x where "r = Inl e" "writeGatewayFile env name rendered s = Some s1"
      "s' = (remove_file env (xml_file name) s1)\<lparr>gv_sent := x\<rparr>"
  | (created) rendered s1 x stored gw s2 where "renderGatewayTemplate env (gt_Body tpl) p = Inr rendered"
      "writeGatewayFile env name rendered s = Some s1" "encodeParams env p = Some stored"
      "create_gateway env (new_gateway name (gt_ID tpl) stored (ep_ID ep)) (s1\<lparr>gv_sent := x\<rparr>) = Some (gw, s2)"
      "answer_status env (xml_file name) gw s2 = (r, s')"
proof -
  have undo: "remove_file env f (t\<lparr>gv_sent := x\<rparr>) = (remove_file env f t)\<lparr>gv_sent := x\<rparr>" for f t x
    by (simp add: remove_file_def)
  have rolled: "\<exists>x. roll_back env name (t\<lparr>gv_sent := y\<rparr>) = (remove_file env (xml_file name) t)\<lparr>gv_sent := x\<rparr>" for t y
    using roll_back_sent [of env name "t\<lparr>gv_sent := y\<rparr>"] by (auto simp: undo)
  show thesis
    using assms
    by (simp add: provision_existing_def split: option.splits sum.splits prod.splits bool.splits)
      (auto dest!: fsReloadGateways_sent intro: refused created undone simp: undo, metis undone rolled, metis undone rolled)
qed

lemma sound_ProvisionGatewayFromEndpoint:
  assumes "sound s0 s" "ProvisionGatewayFromEndpoint env spec s = (r, s')" shows "sound s0 s'"
  using assms(2)
proof (cases rule: from_endpoint_cases)
  case (accepted ep p tpl)
  from accepted(3) show ?thesis
  proof (cases rule: existing_cases)
    case (undone rendered s1 e x)
    then show ?thesis using assms(1) accepted(2) by (simp add: sound_remove sound_write)
  next
    case (created rendered s1 x stored gw s2)
    then have "sound s0 (s1\<lparr>gv_sent := x\<rparr>)"
      using assms(1) accepted(2) by (simp add: sound_write)
    then have "sound s0 s2"
      using accepted(2) created(4) by (rule sound_new)
    then show ?thesis
      using created(5) by (auto dest!: answer_status_sent)
  qed (use assms(1) in simp)
qed (use assms(1) in simp)

lemma sound_AdoptGateway:
  assumes "sound s0 s" "AdoptGateway env file s = (r, s')" shows "sound s0 s'"
  using assms
  by (simp add: AdoptGateway_def Let_def split: option.splits prod.splits if_split_asm)
    (auto dest!: fsGatewayState_sent intro: sound_new)

lemma sound_DeleteUnmanagedGateway:
  assumes "sound s0 s" "DeleteUnmanagedGateway env name s = (r, s')" shows "sound s0 s'"
  using assms
  by (simp add: DeleteUnmanagedGateway_def split: option.splits prod.splits if_split_asm)
    (auto dest!: fsKillGateway_sent intro: sound_remove)

lemma sound_RepairGateway:
  assumes "sound s0 s" "RepairGateway env name s = (r, s')" shows "sound s0 s'"
  using assms
  by (simp add: RepairGateway_def split: option.splits sum.splits prod.splits bool.splits if_split_asm)
    (auto dest!: fsReloadGateways_sent answer_status_sent intro: sound_write)

lemma list_tracked_sent: "list_tracked env gws s = (rows, s') \<Longrightarrow> \<exists>x. s' = s\<lparr>gv_sent := x\<rparr>"
proof (induction gws arbitrary: s rows)
  case (Cons gw gws)
  obtain st x where st: "fsGatewayState env (gc_Name gw) s = (st, s\<lparr>gv_sent := x\<rparr>)"
    using fsGatewayState_sent by (metis surj_pair)
  obtain rs t where tr: "list_tracked env gws (s\<lparr>gv_sent := x\<rparr>) = (rs, t)"
    by fastforce
  then have "t = s'"
    using Cons.prems st by (simp add: Let_def)
  from Cons.IH [OF tr [unfolded this]] show ?case by simp
qed (simp add: exI [of _ "gv_sent s'"])

lemma sound_ListGateways:
  assumes "sound s0 s" "ListGateways env s = (r, s')" shows "sound s0 s'"
  using assms by (auto simp: ListGateways_def split: prod.splits if_splits dest!: list_tracked_sent)

text \<open>A tick saves rows it has read before, under their own identifier and name.\<close>

lemma save_keeps_row:
  assumes "sound s0 s" "h \<in> set (gv_gateways s)" "gc_ID h = gc_ID g" "gc_Name h = gc_Name g"
    and "k \<in> set (gv_gateways s)"
  shows "\<exists>k' \<in> set (gv_gateways (save_gateway g s)). gc_ID k' = gc_ID k \<and> gc_Name k' = gc_Name k"
proof (cases "gc_ID k = gc_ID g")
  case True
  then have "k = h"
    using assms by (simp add: sound_def gw_inv_def distinct_map inj_on_def)
  moreover have "g \<in> set (gv_gateways (save_gateway g s))"
    using assms(2,3) by (simp add: save_gateway_def image_iff) blast
  ultimately show ?thesis
    using assms(3,4) by (intro bexI [of _ g]) simp_all
next
  case False
  then show ?thesis using assms(5) by (auto simp: save_gateway_def intro!: bexI [of _ k])
qed

lemma sound_monitor_gateways:
  assumes "sound s0 s" "list_all (\<lambda>g. \<exists>h \<in> set (gv_gateways s). gc_ID h = gc_ID g \<and> gc_Name h = gc_Name g) gws"
  shows "sound s0 (monitor_gateways env gws s)"
  using assms
proof (induction gws arbitrary: s)
  case (Cons gw gws)
  obtain h where h: "h \<in> set (gv_gateways s)" "gc_ID h = gc_ID gw" "gc_Name h = gc_Name gw"
    using Cons.prems(2) by auto
  have step: "sound s0 (monitor_gateways env gws (save_gateway g (s\<lparr>gv_sent := x\<rparr>)))"
    if g: "gc_ID g = gc_ID gw" "gc_Name g = gc_Name gw" for g x
  proof (rule Cons.IH)
    show "sound s0 (save_gateway g (s\<lparr>gv_sent := x\<rparr>))"
      using Cons.prems(1) h g by (intro sound_save [where g = h]) simp_all
    show "list_all (\<lambda>i. \<exists>h \<in> set (gv_gateways (save_gateway g (s\<lparr>gv_sent := x\<rparr>))).
        gc_ID h = gc_ID i \<and> gc_Name h = gc_Name i) gws"
      using Cons.prems save_keeps_row [of s0 "s\<lparr>gv_sent := x\<rparr>" h g] h g by (fastforce simp: list_all_iff)
  qed
  obtain st x where "fsGatewayState env (gc_Name gw) s = (st, s\<lparr>gv_sent := x\<rparr>)"
    using fsGatewayState_sent by (metis surj_pair)
  then show ?case
    using Cons step by (auto simp: Let_def split: option.splits)
qed simp

lemma sound_monitorTick: "sound s0 s \<Longrightarrow> sound s0 (monitorTick env s)"
proof -
  assume s: "sound s0 s"
  obtain server sentry where r: "refreshGatewayACLResolution (ge_dns env) (ge_sentry_faults env) (ge_now env)
      (gv_server s) (gv_sentry s) = (server, sentry)"
    by fastforce
  then have "db_endpoints server = db_endpoints (gv_server s)"
    by (auto simp: refreshGatewayACLResolution_def Let_def refresh_rows split: if_splits)
  then have "sound s0 (s\<lparr>gv_server := server, gv_sentry := sentry\<rparr>)"
    using s by (simp add: sound_def gw_inv_def)
  then show ?thesis
    using sound_monitor_gateways [of s0 "s\<lparr>gv_server := server, gv_sentry := sentry\<rparr>" "gv_gateways s" env]
    by (auto simp: monitorTick_def r Let_def list_all_iff)
qed

lemma sound_seed: "sound s0 s \<Longrightarrow> sound s0 (seedGatewayTemplates env defs s)"
  by (simp add: seedGatewayTemplates_def sound_def gw_inv_def)

text \<open>The operations, each with any answers, faults and configuration.\<close>

inductive gw_step :: "'f gateway_state \<Rightarrow> 'f gateway_state \<Rightarrow> bool" where
  step_provision: "ProvisionGateway env spec s = (r, s') \<Longrightarrow> gw_step s s'"
| step_existing: "ProvisionGatewayFromEndpoint env espec s = (r, s') \<Longrightarrow> gw_step s s'"
| step_update: "UpdateGateway env name spec s = (r, s') \<Longrightarrow> gw_step s s'"
| step_deprovision: "DeprovisionGateway env name s = (r', s') \<Longrightarrow> gw_step s s'"
| step_alias: "CreateGatewayAlias env name aspec s = (ra, s') \<Longrightarrow> gw_step s s'"
| step_adopt: "AdoptGateway env file s = (r, s') \<Longrightarrow> gw_step s s'"
| step_unmanaged: "DeleteUnmanagedGateway env name s = (r', s') \<Longrightarrow> gw_step s s'"
| step_repair: "RepairGateway env name s = (r, s') \<Longrightarrow> gw_step s s'"
| step_list: "ListGateways env s = (rl, s') \<Longrightarrow> gw_step s s'"
| step_monitor: "gw_step s (monitorTick env s)"
| step_seed: "gw_step s (seedGatewayTemplates env defs s)"

lemmas sound_steps = sound_ProvisionGateway sound_ProvisionGatewayFromEndpoint sound_UpdateGateway
  sound_DeprovisionGateway sound_CreateGatewayAlias sound_AdoptGateway sound_DeleteUnmanagedGateway
  sound_RepairGateway sound_ListGateways sound_monitorTick sound_seed

lemma sound_gw_step:
  assumes "sound s0 s" "gw_step s t" shows "sound s0 t"
  using assms(2)
proof cases
  case (step_list env rl)
  then show ?thesis using assms(1) sound_ListGateways by blast
next
  case (step_monitor env)
  then show ?thesis using assms(1) sound_monitorTick by blast
next
  case (step_seed env defs)
  then show ?thesis using assms(1) sound_seed by blast
qed (drule sound_steps(1-8) [OF assms(1)], assumption)+

lemma sound_start: "gw_inv s0 \<Longrightarrow> sound s0 s0"
  by (simp add: sound_def)

interpretation provisioned: step_invariant gw_step s0 "\<lambda>s. gw_inv s0 \<longrightarrow> sound s0 s" for s0
  by unfold_locales (auto intro: sound_start sound_gw_step)

text \<open>C24: Whatever operations run, with any answers of the switch and any faults of the database or of file
  writes, gateway names stay unique and safe as file names, the identifiers of gateways and of endpoints stay
  unique, and no file other than one named after a gateway name is ever written or removed.\<close>

theorem gateways_stay_sound:
  assumes "gw_inv s0" "reach gw_step s0 s"
  shows "gw_inv s \<and> (\<forall>f. \<not> gateway_file f \<longrightarrow> map_of (gv_files s) f = map_of (gv_files s0) f)"
  using provisioned.reach_holds [OF assms(2)] assms(1) by (simp_all add: sound_def)

section \<open>Values in the gateway file\<close>

lemma map_of_updates:
  "distinct (map fst q) \<Longrightarrow> map_of (fold (\<lambda>(k, v). AList.update k v) q m) k =
     (case map_of q k of Some v \<Rightarrow> Some v | None \<Rightarrow> map_of m k)"
proof (induction q arbitrary: m)
  case (Cons kv q)
  obtain a b where kv: "kv = (a, b)"
    by fastforce
  then have "map_of q a = None"
    using Cons.prems by (simp add: map_of_eq_None_iff)
  then show ?case
    using Cons kv by (simp add: update_conv' split: option.splits)
qed simp

lemma map_of_escaped:
  "map_of (xmlEscapeParams p) k = map_option (\<lambda>v. case v of PString s \<Rightarrow> PString (xml_escape s) | _ \<Rightarrow> v) (map_of p k)"
  by (induction p) (auto simp: xmlEscapeParams_def split: param_value.splits)

lemma template_params_lookup:
  assumes "distinct (map fst p)"
  shows "map_of (template_params vars p) k =
    (case map_of p k of Some (PString s) \<Rightarrow> Some (PString (xml_escape s)) | Some v \<Rightarrow> Some v
     | None \<Rightarrow> if k \<in> set vars then Some (PString []) else None)"
proof -
  have "map fst (xmlEscapeParams p) = map fst p"
    by (induction p) (auto simp: xmlEscapeParams_def)
  moreover have "map_of (map (\<lambda>v. (v, PString [])) vars) k = (if k \<in> set vars then Some (PString []) else None)"
    by (induction vars) auto
  ultimately show ?thesis
    using assms by (simp add: template_params_def map_of_updates map_of_escaped split: option.splits param_value.splits)
qed

text \<open>A text parameter reaches the template without any markup character, and an XML reader of the rendered
  file gets the given text back.\<close>

theorem rendered_values_escaped:
  assumes "distinct (map fst p)" "map_of p k = Some (PString s)" "list_all xml_plain s"
  shows "\<exists>v. map_of (template_params vars p) k = Some (PString v)
    \<and> CHR ''<'' \<notin> set v \<and> CHR ''>'' \<notin> set v \<and> CHR 0x22 \<notin> set v \<and> CHR 0x27 \<notin> set v \<and> xml_read v = s"
  using assms xml_escape_clean [of s] by (simp add: template_params_lookup xml_round markup_def)

section \<open>Masked secrets\<close>

lemma mask_update:
  "\<not> isSensitiveParam k \<Longrightarrow> map mask_param (AList.update k v p) = AList.update k v (map mask_param p)"
  by (induction p) (auto simp: mask_param_def split: param_value.splits)

lemma map_of_mask: "\<not> isSensitiveParam k \<Longrightarrow> map_of (map mask_param p) k = map_of p k"
  by (induction p) (auto simp: mask_param_def split: param_value.splits)

lemma public_params: "\<not> isSensitiveParam ''extension''" "\<not> isSensitiveParam ''register''" "\<not> isSensitiveParam ''name''"
  by code_simp+

lemma provisionDefaults_mask: "provisionDefaults (map mask_param p) = map mask_param (provisionDefaults p)"
  by (auto simp: provisionDefaults_def Let_def mask_update map_of_mask public_params update_conv')

lemma provisionDefaults_other: "isSensitiveParam k \<Longrightarrow> map_of (provisionDefaults p) k = map_of p k"
  using public_params by (auto simp: provisionDefaults_def Let_def update_conv')

lemma provisionDefaults_distinct: "distinct (map fst p) \<Longrightarrow> distinct (map fst (provisionDefaults p))"
  by (simp add: provisionDefaults_def Let_def distinct_update)

lemma keep_masked:
  assumes "isSensitiveParam k \<Longrightarrow> map_of p k = Some v"
  shows "keep_secret p (mask_param (k, v)) = (k, v)"
  using assms by (auto simp: keep_secret_def mask_param_def split: param_value.splits)

lemma merged_masked:
  assumes "decodeParams env (gc_Params gw) = Some p" "distinct (map fst p)"
  shows "merged_params env gw (map mask_param p) = provisionDefaults p"
proof -
  have "keep_secret p (mask_param (k, v)) = (k, v)" if "(k, v) \<in> set (provisionDefaults p)" for k v
  proof (rule keep_masked)
    assume "isSensitiveParam k"
    then show "map_of p k = Some v"
      using that assms(2) by (simp add: provisionDefaults_distinct flip: provisionDefaults_other)
  qed
  then have "map (keep_secret p \<circ> mask_param) (provisionDefaults p) = provisionDefaults p"
    by (intro map_idI) auto
  then show ?thesis
    using assms(1) by (simp add: merged_params_def provisionDefaults_mask)
qed

lemma update_saves:
  assumes "update_rows env gw tpl p v s = (Inr st, s')" "gw \<in> set (gv_gateways s)"
  shows "gv_files s' = gv_files s
    \<and> (\<exists>row \<in> set (gv_gateways s'). gc_Name row = gc_Name gw \<and> encodeParams env p = Some (gc_Params row))"
  using assms(1)
proof (cases rule: update_rows_cases)
  case (saved s1 als server stored b s3)
  let ?row = "saved_row gw tpl stored" and ?s2 = "s1\<lparr>gv_server := server\<rparr>"
  obtain server' sentry' where s3: "s3 = (save_gateway ?row ?s2)\<lparr>gv_server := server', gv_sentry := sentry'\<rparr>"
    using saved(5) by (auto dest!: reload_endpoints_rows)
  obtain x where s': "s' = s3\<lparr>gv_sent := x\<rparr>"
    using saved(6) by (auto split: if_splits dest!: answer_status_sent [OF sym])
  have s1: "gv_gateways s1 = gv_gateways s" "gv_files s1 = gv_files s"
    using saved(1) by (auto dest!: move_linked_gateways)
  have "?row \<in> set (gv_gateways s')"
    using assms(2) s1 by (simp add: s' s3 save_gateway_def image_iff) (auto simp: saved_row_def)
  then have "\<exists>row \<in> set (gv_gateways s'). gc_Name row = gc_Name gw \<and> encodeParams env p = Some (gc_Params row)"
    using saved(4) by (intro bexI [of _ ?row]) (simp_all add: saved_row_def)
  then show ?thesis
    using s1 by (simp add: s' s3 save_gateway_def)
qed simp_all

text \<open>C25: An update that sends the parameters back as they were shown, secrets masked, renders the stored secrets
  into the file and stores them again: the mask never becomes a password.\<close>

theorem masked_update_keeps_secrets:
  assumes "UpdateGateway env name spec s = (Inr st, s')" "find_gateway env name s = Some gw"
    and "decodeParams env (gc_Params gw) = Some p" "distinct (map fst p)" "sp_Params spec = map mask_param p"
    and "q = AList.update ''name'' (PString name) (provisionDefaults p)"
  shows "(\<exists>tpl c. chosen_template env gw (sp_TemplateID spec) s = Some tpl
      \<and> renderGatewayTemplate env (gt_Body tpl) q = Inr c \<and> map_of (gv_files s') (xml_file name) = Some c)
    \<and> (\<exists>row \<in> set (gv_gateways s'). gc_Name row = name \<and> encodeParams env q = Some (gc_Params row))"
proof (rule conjI)
  have "\<exists>tpl c s1 x v. chosen_template env gw (sp_TemplateID spec) s = Some tpl
      \<and> renderGatewayTemplate env (gt_Body tpl) q = Inr c \<and> writeGatewayFile env name c s = Some s1
      \<and> update_rows env gw tpl q v (s1\<lparr>gv_sent := x\<rparr>) = (Inr st, s')"
    using assms(1)
  proof (cases rule: update_cases)
    case (loaded gw' tpl rendered s1 x p')
    then show ?thesis
      using assms(2,5,6) merged_masked [OF assms(3,4)] by auto
  qed simp_all
  then obtain tpl c s1 x where u: "chosen_template env gw (sp_TemplateID spec) s = Some tpl"
      "renderGatewayTemplate env (gt_Body tpl) q = Inr c" "writeGatewayFile env name c s = Some s1"
      "\<exists>v. update_rows env gw tpl q v (s1\<lparr>gv_sent := x\<rparr>) = (Inr st, s')"
    by blast
  have gw: "gc_Name gw = name" "gw \<in> set (gv_gateways (s1\<lparr>gv_sent := x\<rparr>))"
    using find_gateway_row [OF assms(2)] u(3) by (auto simp: writeGatewayFile_def split: if_splits)
  from u(4) have "gv_files s' = gv_files s1"
    using update_saves [OF _ gw(2)] by fastforce
  then show "\<exists>tpl c. chosen_template env gw (sp_TemplateID spec) s = Some tpl
      \<and> renderGatewayTemplate env (gt_Body tpl) q = Inr c \<and> map_of (gv_files s') (xml_file name) = Some c"
    using u by (auto simp: writeGatewayFile_def update_conv' split: if_splits)
  show "\<exists>row \<in> set (gv_gateways s'). gc_Name row = name \<and> encodeParams env q = Some (gc_Params row)"
    using u(4) update_saves [OF _ gw(2)] gw(1) by fastforce
qed

section \<open>Failures\<close>




lemma remove_file_rest: "gv_gateways (remove_file env f s) = gv_gateways s" "gv_server (remove_file env f s) = gv_server s"
  by (simp_all add: remove_file_def)

lemma roll_back_rest:
  "gv_gateways (roll_back env name s) = gv_gateways s" "gv_server (roll_back env name s) = gv_server s"
  "gv_files (roll_back env name s) = gv_files (remove_file env (xml_file name) s)"
  using roll_back_sent [of env name s] by (auto simp: remove_file_rest)





section \<open>Routes follow the gateway\<close>

lemma save_endpoint_rows:
  assumes "distinct (map ep_ID (db_endpoints server))" "al \<in> set (db_endpoints server)"
  shows "db_endpoints (save_endpoint (al\<lparr>ep_Endpoint := v\<rparr>) server)
    = map (\<lambda>ep. if ep_ID ep = ep_ID al then ep\<lparr>ep_Endpoint := v\<rparr> else ep) (db_endpoints server)"
  using assms by (auto simp: save_endpoint_def distinct_map inj_on_def)

lemma move_aliases_rows:
  assumes "move_aliases fail v als server = (True, server')" "distinct (map ep_ID (db_endpoints server))"
    and "set als \<subseteq> set (db_endpoints server)" "distinct (map ep_ID als)"
  shows "db_endpoints server'
    = map (\<lambda>ep. if ep_ID ep \<in> ep_ID ` set als then ep\<lparr>ep_Endpoint := v\<rparr> else ep) (db_endpoints server)"
  using assms
proof (induction als arbitrary: server)
  case (Cons al als)
  show ?case
  proof (cases "ep_Endpoint al = v")
    case True
    have "ep\<lparr>ep_Endpoint := v\<rparr> = ep" if "ep \<in> set (db_endpoints server)" "ep_ID ep = ep_ID al" for ep
      using that Cons.prems True by (auto simp: distinct_map inj_on_def)
    then show ?thesis
      using Cons True by auto
  next
    case False
    let ?s1 = "save_endpoint (al\<lparr>ep_Endpoint := v\<rparr>) server"
    have s1: "db_endpoints ?s1 = map (\<lambda>ep. if ep_ID ep = ep_ID al then ep\<lparr>ep_Endpoint := v\<rparr> else ep) (db_endpoints server)"
      using Cons.prems by (intro save_endpoint_rows) auto
    have "set als \<subseteq> set (db_endpoints ?s1)"
      using Cons.prems(3,4) by (fastforce simp: s1 image_iff)
    then have "db_endpoints server'
      = map (\<lambda>ep. if ep_ID ep \<in> ep_ID ` set als then ep\<lparr>ep_Endpoint := v\<rparr> else ep) (db_endpoints ?s1)"
      using Cons.prems False by (intro Cons.IH) (auto simp: save_endpoint_ids split: if_splits)
    then show ?thesis
      by (auto simp: s1)
  qed
qed simp

lemma move_linked_rows:
  assumes "move_linked env gw v s = (True, s')" "distinct (map ep_ID (db_endpoints (gv_server s)))"
  shows "db_endpoints (gv_server s') = map (\<lambda>ep. if gc_EndpointID gw \<noteq> 0 \<and> ep_ID ep = gc_EndpointID gw
    then ep\<lparr>ep_Endpoint := v\<rparr> else ep) (db_endpoints (gv_server s))"
proof (cases "gc_EndpointID gw = 0")
  case False
  then obtain ep where ep: "find_endpoint env (gc_EndpointID gw) s = Some ep"
    using assms(1) by (auto simp: move_linked_def split: option.splits)
  then have row: "ep \<in> set (db_endpoints (gv_server s))" "ep_ID ep = gc_EndpointID gw"
    by (auto simp: find_endpoint_def find_Some_iff split: if_splits)
  have "db_endpoints (gv_server s')
      = map (\<lambda>q. if ep_ID q = ep_ID ep then ep\<lparr>ep_Endpoint := v\<rparr> else q) (db_endpoints (gv_server s))"
    using assms(1) False ep row(1)
    by (simp add: move_linked_def updateEndpoint_def Let_def split: prod.splits sum.splits if_split_asm)
      (auto dest!: removeEndpoint_rows addEndpoint_rows)
  also have "\<dots> = map (\<lambda>q. if ep_ID q = ep_ID ep then q\<lparr>ep_Endpoint := v\<rparr> else q) (db_endpoints (gv_server s))"
    using save_endpoint_rows [OF assms(2) row(1)] by (simp add: save_endpoint_def)
  finally show ?thesis
    using False row(2) by simp
qed (use assms(1) in \<open>simp add: move_linked_def\<close>)

lemma update_rows_moved:
  assumes "update_rows env gw tpl p v s = (Inr st, s')" "distinct (map ep_ID (db_endpoints (gv_server s)))"
  shows "db_endpoints (gv_server s') = map (\<lambda>ep. if gc_EndpointID gw \<noteq> 0 \<and> ep_ID ep = gc_EndpointID gw
    \<or> is_alias_of gw ep then ep\<lparr>ep_Endpoint := v\<rparr> else ep) (db_endpoints (gv_server s))"
  using assms(1)
proof (cases rule: update_rows_cases)
  case (saved s1 als server stored b s3)
  let ?old = "db_endpoints (gv_server s)" and ?new = "db_endpoints (gv_server s1)"
  have new: "?new = map (\<lambda>ep. if gc_EndpointID gw \<noteq> 0 \<and> ep_ID ep = gc_EndpointID gw
      then ep\<lparr>ep_Endpoint := v\<rparr> else ep) ?old"
    using saved(1) assms(2) by (rule move_linked_rows)
  then have ids: "map ep_ID ?new = map ep_ID ?old"
    by simp
  have als: "als = filter (is_alias_of gw) ?new"
    using saved(2) by (simp add: gatewayAliasEndpoints_def split: if_splits)
  have "db_endpoints server = map (\<lambda>ep. if ep_ID ep \<in> ep_ID ` set als then ep\<lparr>ep_Endpoint := v\<rparr> else ep) ?new"
    using saved(3) by (rule move_aliases_rows) (simp_all add: ids assms(2) als distinct_map_filter)
  also have "\<dots> = map (\<lambda>ep. if is_alias_of gw ep then ep\<lparr>ep_Endpoint := v\<rparr> else ep) ?new"
    using assms(2) by (auto simp: als distinct_map inj_on_def simp flip: ids)
  also have "\<dots> = map (\<lambda>ep. if gc_EndpointID gw \<noteq> 0 \<and> ep_ID ep = gc_EndpointID gw
    \<or> is_alias_of gw ep then ep\<lparr>ep_Endpoint := v\<rparr> else ep) ?old"
    by (simp add: new is_alias_of_def)
  moreover have "db_endpoints (gv_server s') = db_endpoints server"
    using saved(5,6) by (auto simp: save_gateway_def split: if_splits dest!: reload_endpoints_rows answer_status_sent [OF sym])
  ultimately show ?thesis by simp
qed simp_all

lemma endpointValue_alias: "isGatewayAliasValue name (endpointValue name ip p)"
  by (simp add: endpointValue_def isGatewayAliasValue_def has_prefix_def Let_def)

lemma has_prefix_iff: "has_prefix s p \<longleftrightarrow> (\<exists>t. s = p @ t)"
  unfolding has_prefix_def by (metis append_eq_conv_conj)

text \<open>A value routes onto a gateway exactly when the part before the first colon is the gateway's name.\<close>

lemma alias_value_exact:
  assumes "gateway_name_ok name"
  shows "isGatewayAliasValue name v \<longleftrightarrow> before_sep (CHR '':'') v = name"
proof -
  have name: "CHR '':'' \<notin> set name"
    using assms by (auto simp: gateway_name_ok_def list_all_iff name_char_def less_eq_char_def)
  have "isGatewayAliasValue name v \<longleftrightarrow> v = name \<or> (\<exists>w. v = name @ CHR '':'' # w)"
    by (simp add: isGatewayAliasValue_def has_prefix_iff)
  also have "\<dots> \<longleftrightarrow> before_sep (CHR '':'') v = name"
  proof
    assume "before_sep (CHR '':'') v = name"
    then have v: "v = name @ dropWhile (\<lambda>x. x \<noteq> CHR '':'') v"
      by (metis before_sep_takeWhile takeWhile_dropWhile_id)
    then show "v = name \<or> (\<exists>w. v = name @ CHR '':'' # w)"
    proof (cases "dropWhile (\<lambda>x. x \<noteq> CHR '':'') v")
      case (Cons c w)
      then have "c = CHR '':''"
        by (simp add: dropWhile_eq_Cons_conv)
      then show ?thesis using v Cons by simp
    qed simp
  qed (use name in auto)
  finally show ?thesis .
qed

text \<open>A successful update gives the new value to the linked endpoint and to every alias of the gateway, and to
  no other endpoint; the value still routes onto the gateway.\<close>

theorem update_moves_routes:
  assumes "UpdateGateway env name spec s = (Inr st, s')" "find_gateway env name s = Some gw" "gw_inv s"
  shows "\<exists>v. before_sep (CHR '':'') v = name
    \<and> db_endpoints (gv_server s') = map (\<lambda>ep. if gc_EndpointID gw \<noteq> 0 \<and> ep_ID ep = gc_EndpointID gw
        \<or> is_alias_of gw ep then ep\<lparr>ep_Endpoint := v\<rparr> else ep) (db_endpoints (gv_server s))"
  using assms(1)
proof (cases rule: update_cases)
  case (loaded gw' tpl rendered s1 x p)
  let ?v = "endpointValue name (sp_EndpointIP spec) p"
  have s1: "gv_server s1 = gv_server s"
    using loaded(6) by (auto simp: writeGatewayFile_def split: if_splits)
  have "update_rows env gw tpl p ?v (s1\<lparr>gv_sent := x\<rparr>) = (Inr st, s')"
    using loaded(2,7) assms(2) by simp
  from update_rows_moved [OF this] have "db_endpoints (gv_server s') = map (\<lambda>ep. if gc_EndpointID gw \<noteq> 0
      \<and> ep_ID ep = gc_EndpointID gw \<or> is_alias_of gw ep then ep\<lparr>ep_Endpoint := ?v\<rparr> else ep) (db_endpoints (gv_server s))"
    using assms(3) s1 by (simp add: gw_inv_def)
  then show ?thesis
    using endpointValue_alias [of name "sp_EndpointIP spec" p] alias_value_exact [OF loaded(1)] by blast
qed simp_all

section \<open>Deprovisioning and refusals\<close>

text \<open>A gateway that still has aliases is not deprovisioned and nothing changes; once deprovisioned, its row is
  gone and, when files can be removed, its file, every other gateway stays, and every endpoint is kept.\<close>

theorem deprovision_keeps_endpoints:
  assumes "DeprovisionGateway env name s = (r, s')" "gw_inv s"
  shows "gv_server s' = gv_server s"
    and "r = Inr () \<Longrightarrow> gv_gateways s' = filter (\<lambda>g. gc_Name g \<noteq> name) (gv_gateways s)
      \<and> (ge_removes env \<longrightarrow> map_of (gv_files s') (xml_file name) = None)"
    and "\<lbrakk>find_gateway env name s = Some gw; list_ex (is_alias_of gw) (db_endpoints (gv_server s))\<rbrakk>
      \<Longrightarrow> r \<noteq> Inr () \<and> s' = s"
proof -
  show "gv_server s' = gv_server s"
    using assms(1) by (cases rule: deprovision_cases) (simp_all add: remove_file_rest)
  show "gv_gateways s' = filter (\<lambda>g. gc_Name g \<noteq> name) (gv_gateways s)
      \<and> (ge_removes env \<longrightarrow> map_of (gv_files s') (xml_file name) = None)" if "r = Inr ()"
    using assms(1)
  proof (cases rule: deprovision_cases)
    case (gone gw x)
    have "gc_ID g \<noteq> gc_ID gw \<longleftrightarrow> gc_Name g \<noteq> name" if "g \<in> set (gv_gateways s)" for g
      using that find_gateway_row [OF gone(3)] assms(2) by (auto simp: gw_inv_def distinct_map inj_on_def)
    then show ?thesis
      by (simp add: gone(5) remove_file_def delete_conv' cong: filter_cong)
  qed (use that in simp_all)
  show "r \<noteq> Inr () \<and> s' = s"
    if "find_gateway env name s = Some gw" "list_ex (is_alias_of gw) (db_endpoints (gv_server s))"
  proof -
    have "gatewayAliasEndpoints env gw s \<noteq> Some []"
      using that(2) by (auto simp: gatewayAliasEndpoints_def list_ex_iff filter_empty_conv)
    then show ?thesis
      using assms(1) that(1) by (auto simp: DeprovisionGateway_def split: if_splits option.splits)
  qed
qed

text \<open>An update cannot give a gateway another template: the lookup starts from the preloaded template, whose
  identifier is added to the condition, and finds nothing.\<close>

theorem update_cannot_change_template:
  assumes "validateSpec (spec\<lparr>sp_Name := name\<rparr>) = None" "gatewayDir env \<noteq> []"
    and "find_gateway env name s = Some gw" "List.find (\<lambda>t. gt_ID t = gc_TemplateID gw) (gv_templates s) = Some t"
    and "gc_TemplateID gw \<noteq> 0" "sp_TemplateID spec \<noteq> 0" "sp_TemplateID spec \<noteq> gc_TemplateID gw"
  shows "UpdateGateway env name spec s = (Inl (TemplateNotFound (sp_TemplateID spec)), s)"
proof -
  have "gt_ID t = gc_TemplateID gw"
    using assms(4) by (auto simp: find_Some_iff)
  then have "chosen_template env gw (sp_TemplateID spec) s = None"
    using assms by (simp add: chosen_template_def own_template_def refind_template_def)
  then show ?thesis
    using assms by (simp add: UpdateGateway_def)
qed

lemma store_leaves_row:
  assumes "store_endpoint env ep s = (None, s')" "\<not> ge_faults env CreateEndpoint" "ep_ID ep = 0"
    and "db_nextID (gv_server s) \<notin> ep_ID ` set (db_endpoints (gv_server s))"
  shows "db_endpoints (gv_server s') = db_endpoints (gv_server s) @ [ep\<lparr>ep_ID := db_nextID (gv_server s)\<rparr>]"
  using assms by (auto simp: store_endpoint_def addEndpointToDB_def Let_def split: prod.splits sum.splits
      dest!: addEndpoint_rows)

text \<open>Provisioning that fails at the endpoint without a database fault says it was rolled back, but the
  endpoint's row stays in the table.\<close>

theorem failed_provision_leaves_endpoint:
  assumes "ProvisionGateway env spec s = (Inl EndpointFailed, s')" "\<not> ge_faults env CreateEndpoint"
    and "list_all (\<lambda>ep. ep_ID ep < db_nextID (gv_server s)) (db_endpoints (gv_server s))"
  shows "\<exists>ep. endpointFromSpec spec = Inr ep
    \<and> db_endpoints (gv_server s') = db_endpoints (gv_server s) @ [ep\<lparr>ep_ID := db_nextID (gv_server s)\<rparr>]"
  using assms(1)
proof (cases rule: provision_cases)
  case (loaded tpl rendered ep s1 x p)
  have s1: "gv_server s1 = gv_server s"
    using loaded(5) by (auto simp: writeGatewayFile_def split: if_splits)
  have fresh: "db_nextID (gv_server s) \<notin> ep_ID ` set (db_endpoints (gv_server s))"
    using assms(3) by (auto simp: list_all_iff)
  from loaded(6) show ?thesis
  proof (cases rule: provision_rows_cases)
    case (unstored s2)
    have "db_endpoints (gv_server s2) = db_endpoints (gv_server s) @ [ep\<lparr>ep_ID := db_nextID (gv_server s)\<rparr>]"
      using store_leaves_row [OF unstored(1) assms(2) endpointFromSpec_ep [OF loaded(4)]] fresh s1 by simp
    then show ?thesis
      using loaded(4) by (simp add: unstored(3) roll_back_rest)
  next
    case (created stored i s2 gw s3 b s4)
    then show ?thesis by (auto split: if_splits dest!: answer_status_ok [OF sym])
  qed simp_all
qed simp_all

lemma has_suffix_xml:
  assumes "has_suffix f ''.xml''" shows "f = xml_file (take (length f - 4) f)"
proof -
  have "rev (drop (length f - 4) f) = rev ''.xml''"
    using assms unfolding has_suffix_def has_prefix_def by (simp add: take_rev numeral_eq_Suc)
  then have "drop (length f - 4) f = ''.xml''"
    unfolding rev_is_rev_conv .
  then show ?thesis
    unfolding xml_file_def by (metis append_take_drop_id)
qed

text \<open>A file that is adopted under a name that is not its own stays on the list of unmanaged files.\<close>

theorem adopted_file_stays_unmanaged:
  assumes "AdoptGateway env file s = (Inr st, s')" "path_base file \<noteq> xml_file (gc_Name (gs_Gateway st))"
    and "list_all (\<lambda>g. path_base file \<noteq> xml_file (gc_Name g)) (gv_gateways s)" "\<not> has_prefix (path_base file) ''.''"
  shows "path_base file \<in> um_File ` set (unmanaged_files env s')"
proof -
  let ?f = "path_base file"
  have suffix: "has_suffix ?f ''.xml''" "map_of (gv_files s) ?f \<noteq> None"
    using assms(1) by (auto simp: AdoptGateway_def Let_def gatewayNameFromFile_def split: option.splits if_splits)
  then have f: "?f = xml_file (take (length ?f - 4) ?f)"
    using has_suffix_xml by blast
  have "gv_files s' = gv_files s \<and> set (gv_gateways s') = insert (gs_Gateway st) (set (gv_gateways s))"
    using assms(1) by (simp add: AdoptGateway_def Let_def create_gateway_def split: option.splits prod.splits if_split_asm)
      (auto dest!: fsGatewayState_sent)
  moreover have "take (length ?f - 4) ?f \<notin> gc_Name ` insert (gs_Gateway st) (set (gv_gateways s))"
    using assms(2,3) f by (auto simp: list_all_iff)
  moreover have "?f \<in> fst ` set (gv_files s)"
    using suffix(2) by (auto simp: map_of_eq_None_iff)
  ultimately show ?thesis
    using suffix(1) assms(4) by (simp add: unmanaged_files_def Let_def image_image)
qed

section \<open>Sample values\<close>

definition sample_genv :: gateway_env where
  "sample_genv = \<lparr>ge_Dir = ''/gw'', ge_Profile = [], ge_parse = (\<lambda>_. Some []),
     ge_execute = (\<lambda>_ p. Some (str_param p ''name'' @ CHR '':'' # str_param p ''password'')),
     ge_well_formed = (\<lambda>_. True), ge_declared = Some, ge_marshal = (\<lambda>p. str_param p ''password''),
     ge_unmarshal = (\<lambda>raw. Some [(''realm'', PString ''10.0.0.7''), (''password'', PString raw)]),
     ge_encrypt = (\<lambda>raw. Some (rev raw)), ge_decrypt = (\<lambda>c. Some (rev c)), ge_path = (\<lambda>f. ''/gw/'' @ f),
     ge_api = (\<lambda>_ _. Some []), ge_writes = True, ge_removes = True, ge_faults = no_faults, ge_dns = (\<lambda>_. None),
     ge_sentry_faults = no_faults, ge_now = 0\<rparr>"

definition sample_gw :: GatewayConfig where
  "sample_gw = \<lparr>gc_ID = 1, gc_Name = ''pbx'', gc_TemplateID = 1, gc_Params = ''4321'', gc_EndpointID = 5,
     gc_LastState = [], gc_LastStateCheckedAt = None\<rparr>"

definition sample_tpl :: GatewayTemplate where
  "sample_tpl = \<lparr>gt_ID = 1, gt_Name = ''trunk'', gt_Description = [], gt_Body = []\<rparr>"

definition sample_gstate :: "unit gateway_state" where
  "sample_gstate = \<lparr>gv_server = sample_server, gv_sentry = None, gv_gateways = [sample_gw],
     gv_templates = [sample_tpl, sample_tpl\<lparr>gt_ID := 2\<rparr>], gv_nextID = 2, gv_files = [(''pbx.xml'', ''old'')],
     gv_sent = []\<rparr>"

definition sample_gspec :: GatewayProvisionSpec where
  "sample_gspec = \<lparr>sp_Name = ''sbc'', sp_TemplateID = 1, sp_Params = [(''realm'', PString ''10.0.0.7''),
     (''password'', PString maskSentinel)], sp_Scope = ''global'', sp_TypeID = 0, sp_Priority = 0, sp_Bridge = False,
     sp_EndpointIP = []\<rparr>"

lemma gateways_stay_sound_witness:
  "\<exists>s. reach gw_step sample_gstate s \<and> ''sbc'' \<in> gc_Name ` set (gv_gateways s) \<and> gw_inv s"
proof -
  let ?s = "snd (ProvisionGateway sample_genv sample_gspec sample_gstate)"
  have "gw_inv sample_gstate" "''sbc'' \<in> gc_Name ` set (gv_gateways ?s)"
    by code_simp+
  moreover have "reach gw_step sample_gstate ?s"
    by (rule reach.reach_step [OF reach.reach_start], rule step_provision, rule surjective_pairing)
  ultimately show ?thesis
    using gateways_stay_sound by blast
qed

lemma rendered_values_escaped_witness:
  "\<exists>v. map_of (template_params [''realm''] [(''password'', PString ''<a&b>'')]) ''password'' = Some (PString v)
    \<and> CHR ''<'' \<notin> set v \<and> xml_read v = ''<a&b>''"
  using rendered_values_escaped [of "[(''password'', PString ''<a&b>'')]" "''password''" "''<a&b>''" "[''realm'']"]
  by (auto simp: xml_plain_def)

lemma sample_update: "\<exists>st s'. UpdateGateway sample_genv ''pbx'' sample_gspec sample_gstate = (Inr st, s')"
proof -
  have "\<not> isl (fst (UpdateGateway sample_genv ''pbx'' sample_gspec sample_gstate))"
    by code_simp
  then show ?thesis
    by (metis prod.collapse sum.collapse(2))
qed

lemma sample_found: "find_gateway sample_genv ''pbx'' sample_gstate = Some sample_gw" "gw_inv sample_gstate"
  by code_simp+

lemma masked_update_keeps_secrets_witness:
  "\<exists>st s'. UpdateGateway sample_genv ''pbx'' sample_gspec sample_gstate = (Inr st, s')
    \<and> map_of (gv_files s') ''pbx.xml'' = Some ''pbx:1234''"
proof -
  let ?p = "[(''realm'', PString ''10.0.0.7''), (''password'', PString ''1234'')]"
  let ?q = "AList.update ''name'' (PString ''pbx'') (provisionDefaults ?p)"
  obtain st s' where u: "UpdateGateway sample_genv ''pbx'' sample_gspec sample_gstate = (Inr st, s')"
    using sample_update by blast
  have "decodeParams sample_genv (gc_Params sample_gw) = Some ?p" "distinct (map fst ?p)"
    "sp_Params sample_gspec = map mask_param ?p"
    by code_simp+
  note written = masked_update_keeps_secrets [OF u sample_found(1) this refl]
  have "chosen_template sample_genv sample_gw (sp_TemplateID sample_gspec) sample_gstate = Some sample_tpl"
    "renderGatewayTemplate sample_genv (gt_Body sample_tpl) ?q = Inr ''pbx:1234''" "xml_file ''pbx'' = ''pbx.xml''"
    by code_simp+
  with written have "map_of (gv_files s') ''pbx.xml'' = Some ''pbx:1234''"
    by simp
  with u show ?thesis by blast
qed


lemma update_moves_routes_witness:
  "\<exists>st s' v. UpdateGateway sample_genv ''pbx'' sample_gspec sample_gstate = (Inr st, s')
    \<and> before_sep (CHR '':'') v = ''pbx'' \<and> db_endpoints (gv_server s') = [sample_gateway\<lparr>ep_Endpoint := v\<rparr>]"
proof -
  obtain st s' where u: "UpdateGateway sample_genv ''pbx'' sample_gspec sample_gstate = (Inr st, s')"
    using sample_update by blast
  from update_moves_routes [OF u sample_found] u show ?thesis
    by (auto simp: sample_gstate_def sample_server_def sample_gw_def sample_gateway_def)
qed

lemma deprovision_keeps_endpoints_witness:
  "\<exists>s'. DeprovisionGateway sample_genv ''pbx'' sample_gstate = (Inr (), s') \<and> gv_gateways s' = []
    \<and> gv_server s' = sample_server"
proof -
  have "fst (DeprovisionGateway sample_genv ''pbx'' sample_gstate) = Inr ()"
    by code_simp
  then obtain s' where d: "DeprovisionGateway sample_genv ''pbx'' sample_gstate = (Inr (), s')"
    by (metis prod.collapse)
  from deprovision_keeps_endpoints(1,2) [OF this sample_found(2)] d show ?thesis
    by (auto simp: sample_gstate_def sample_gw_def)
qed

lemma update_cannot_change_template_witness:
  "UpdateGateway sample_genv ''pbx'' (sample_gspec\<lparr>sp_TemplateID := 2\<rparr>) sample_gstate = (Inl (TemplateNotFound 2), sample_gstate)
    \<and> find_template sample_genv 2 sample_gstate \<noteq> None"
proof -
  let ?spec = "sample_gspec\<lparr>sp_TemplateID := 2\<rparr>"
  have "validateSpec (?spec\<lparr>sp_Name := ''pbx''\<rparr>) = None" "gatewayDir sample_genv \<noteq> []"
    "List.find (\<lambda>t. gt_ID t = gc_TemplateID sample_gw) (gv_templates sample_gstate) = Some sample_tpl"
    "gc_TemplateID sample_gw \<noteq> 0" "sp_TemplateID ?spec \<noteq> 0" "sp_TemplateID ?spec \<noteq> gc_TemplateID sample_gw"
    by code_simp+
  moreover have "find_template sample_genv 2 sample_gstate \<noteq> None"
    by code_simp
  ultimately show ?thesis
    using update_cannot_change_template [OF _ _ sample_found(1)] by simp
qed

lemma failed_provision_leaves_endpoint_witness:
  "\<exists>s'. ProvisionGateway sample_genv (sample_gspec\<lparr>sp_Scope := ''number'', sp_TypeID := 99\<rparr>) sample_gstate
      = (Inl EndpointFailed, s') \<and> length (db_endpoints (gv_server s')) = 2"
proof -
  let ?spec = "sample_gspec\<lparr>sp_Scope := ''number'', sp_TypeID := 99\<rparr>"
  have "fst (ProvisionGateway sample_genv ?spec sample_gstate) = Inl EndpointFailed"
    by code_simp
  then obtain s' where p: "ProvisionGateway sample_genv ?spec sample_gstate = (Inl EndpointFailed, s')"
    by (metis prod.collapse)
  have "\<not> ge_faults sample_genv CreateEndpoint"
    "list_all (\<lambda>ep. ep_ID ep < db_nextID (gv_server sample_gstate)) (db_endpoints (gv_server sample_gstate))"
    by code_simp+
  from failed_provision_leaves_endpoint [OF p this] p show ?thesis
    by (auto simp: sample_gstate_def sample_server_def)
qed

lemma adopted_file_stays_unmanaged_witness:
  "''a.xml'' \<in> um_File ` set (unmanaged_files sample_genv
     (snd (AdoptGateway sample_genv ''a.xml'' (sample_gstate\<lparr>gv_files := [(''a.xml'', ''b'')]\<rparr>))))"
proof -
  let ?s = "sample_gstate\<lparr>gv_files := [(''a.xml'', ''b'')]\<rparr>"
  have ok: "\<not> isl (fst (AdoptGateway sample_genv ''a.xml'' ?s))" "path_base ''a.xml'' = ''a.xml''"
    "gc_Name (gs_Gateway (projr (fst (AdoptGateway sample_genv ''a.xml'' ?s)))) = ''b''"
    by code_simp+
  have "path_base ''a.xml'' \<noteq> xml_file ''b''" "\<not> has_prefix (path_base ''a.xml'') ''.''"
    "list_all (\<lambda>g. path_base ''a.xml'' \<noteq> xml_file (gc_Name g)) (gv_gateways ?s)"
    by code_simp+
  moreover have "AdoptGateway sample_genv ''a.xml'' ?s = (Inr (projr (fst (AdoptGateway sample_genv ''a.xml'' ?s))),
      snd (AdoptGateway sample_genv ''a.xml'' ?s))"
    using ok(1) by (simp add: prod_eq_iff)
  ultimately show ?thesis
    using adopted_file_stays_unmanaged ok(2,3) by metis
qed

end
