(* ===== verification/Web_Answer.thy ===== *)
theory Web_Answer
  imports Fax_Prelude
begin

text \<open>
  The answer of an HTTP handler, of the fax server and of its web portal: a status with a body. The text of an error
  is not kept.
\<close>

datatype 'b answer = Answer nat "'b option"

abbreviation refusal :: "nat \<Rightarrow> 'b answer" where "refusal c \<equiv> Answer c None"
abbreviation ok :: "'b \<Rightarrow> 'b answer" where "ok b \<equiv> Answer 200 (Some b)"

fun status :: "'b answer \<Rightarrow> nat" where
  "status (Answer c _) = c"

end
