(* ===== verification/Gateway_Links.thy ===== *)
theory Gateway_Links
  imports Gateway_Provision
begin

text \<open>
  The link between a provisioned gateway and its endpoint (the invariant of \<open>gofaxserver/gateway_provision.go\<close>): the
  endpoint a gateway names exists, is of type gateway, and its value starts with the name of the gateway. Every
  operation of Gateway_Provision keeps it, failures of the database and of the switch included.
\<close>

section \<open>The link\<close>

definition routes :: "GatewayConfig \<Rightarrow> Endpoint \<Rightarrow> bool" where
  "routes g ep \<longleftrightarrow> ep_ID ep = gc_EndpointID g \<and> ep_EndpointType ep = ''gateway''
     \<and> isGatewayAliasValue (gc_Name g) (ep_Endpoint ep)"

definition linked_rows :: "GatewayConfig list \<Rightarrow> Endpoint list \<Rightarrow> bool" where
  "linked_rows gws eps \<longleftrightarrow> list_all (\<lambda>g. gc_EndpointID g = 0 \<or> list_ex (routes g) eps) gws"

definition linked :: "'f gateway_state \<Rightarrow> bool" where
  "linked s \<longleftrightarrow> linked_rows (gv_gateways s) (db_endpoints (gv_server s))"

definition held :: "'f gateway_state \<Rightarrow> bool" where
  "held s \<longleftrightarrow> gw_inv s \<and> linked s"

section \<open>Rows\<close>

lemma linked_frame:
  "\<lbrakk>gv_gateways t = gv_gateways s; db_endpoints (gv_server t) = db_endpoints (gv_server s)\<rbrakk> \<Longrightarrow> linked t = linked s"
  by (simp add: linked_def)

lemma linked_sent [simp]: "linked (s\<lparr>gv_sent := x\<rparr>) \<longleftrightarrow> linked s"
  by (simp add: linked_def)

lemma linked_files [simp]: "linked (s\<lparr>gv_files := x\<rparr>) \<longleftrightarrow> linked s"
  by (simp add: linked_def)

lemma linked_remove [simp]: "linked (remove_file env f s) \<longleftrightarrow> linked s"
  by (simp add: linked_def remove_file_rest)

lemma linked_roll_back [simp]: "linked (roll_back env name s) \<longleftrightarrow> linked s"
  by (simp add: linked_def roll_back_rest)

lemma linked_write: "writeGatewayFile env name c s = Some s1 \<Longrightarrow> linked s1 = linked s"
  by (auto simp: writeGatewayFile_def split: if_splits)

lemma linked_reload: "reload_endpoints env s = (b, s') \<Longrightarrow> linked s' = linked s"
  by (auto simp: linked_def dest!: reload_endpoints_rows)

lemma linked_rows_more: "linked_rows gws eps \<Longrightarrow> linked_rows gws (eps @ eps2)"
  by (auto simp: linked_rows_def list_all_iff)

lemma linked_rows_filter:
  "\<lbrakk>linked_rows gws eps; \<And>g. g \<in> set gws \<Longrightarrow> gc_EndpointID g \<noteq> 0 \<Longrightarrow> gc_EndpointID g \<noteq> i\<rbrakk>
    \<Longrightarrow> linked_rows gws (filter (\<lambda>ep. ep_ID ep \<noteq> i) eps)"
  by (fastforce simp: linked_rows_def list_all_iff list_ex_iff routes_def)

lemma linked_rows_gateways:
  assumes "linked_rows gws eps"
    and "\<And>g. g \<in> set gws' \<Longrightarrow> \<exists>h \<in> set gws. gc_EndpointID h = gc_EndpointID g \<and> gc_Name h = gc_Name g"
  shows "linked_rows gws' eps"
  unfolding linked_rows_def list_all_iff
proof
  fix g
  assume "g \<in> set gws'"
  then obtain h where h: "h \<in> set gws" "gc_EndpointID h = gc_EndpointID g" "gc_Name h = gc_Name g"
    using assms(2) by blast
  then have "routes h = routes g"
    by (simp add: fun_eq_iff routes_def)
  then show "gc_EndpointID g = 0 \<or> list_ex (routes g) eps"
    using assms(1) h by (auto simp: linked_rows_def list_all_iff)
qed

lemma linked_rows_id:
  assumes "linked_rows gws eps" "g \<in> set gws" "gc_EndpointID g \<noteq> 0"
  shows "gc_EndpointID g \<in> ep_ID ` set eps"
proof -
  obtain ep where "ep \<in> set eps" "routes g ep"
    using assms by (auto simp: linked_rows_def list_all_iff list_ex_iff)
  then show ?thesis
    unfolding routes_def by (metis imageI)
qed

text \<open>One endpoint of a gateway may take another value of that gateway.\<close>

definition revalued :: "string \<Rightarrow> string \<Rightarrow> Endpoint \<Rightarrow> Endpoint \<Rightarrow> bool" where
  "revalued n v e e' \<longleftrightarrow> e' = e \<or> isGatewayAliasValue n (ep_Endpoint e) \<and> e' = e\<lparr>ep_Endpoint := v\<rparr>"

lemma revalued_refl [simp]: "revalued n v e e"
  by (simp add: revalued_def)

lemma revalued_trans: "\<lbrakk>revalued n v e e'; revalued n v e' e''\<rbrakk> \<Longrightarrow> revalued n v e e''"
  by (auto simp: revalued_def)

lemma revalued_rows_trans:
  "\<lbrakk>list_all2 (revalued n v) a b; list_all2 (revalued n v) b c\<rbrakk> \<Longrightarrow> list_all2 (revalued n v) a c"
  using list_all2_trans [of "revalued n v" "revalued n v" "revalued n v" a b c] revalued_trans by blast

lemma revalued_ids: "list_all2 (revalued n v) eps eps' \<Longrightarrow> map ep_ID eps' = map ep_ID eps"
  by (induction rule: list_all2_induct) (auto simp: revalued_def)

lemma revalued_member: "\<lbrakk>list_all2 P xs ys; x \<in> set xs\<rbrakk> \<Longrightarrow> \<exists>y \<in> set ys. P x y"
  by (induction rule: list_all2_induct) auto

lemma linked_rows_revalued:
  assumes "linked_rows gws eps" "list_all2 (revalued n v) eps eps'" "isGatewayAliasValue n v" "gateway_name_ok n"
    and "list_all (\<lambda>g. gateway_name_ok (gc_Name g)) gws"
  shows "linked_rows gws eps'"
  unfolding linked_rows_def list_all_iff
proof (rule ballI, rule disjCI)
  fix g
  assume g: "g \<in> set gws" "\<not> list_ex (routes g) eps'"
  show "gc_EndpointID g = 0"
  proof (rule ccontr)
    assume "gc_EndpointID g \<noteq> 0"
    then obtain e where e: "e \<in> set eps" "routes g e"
      using assms(1) g(1) by (auto simp: linked_rows_def list_all_iff list_ex_iff)
    then obtain e' where e': "e' \<in> set eps'" "revalued n v e e'"
      using revalued_member [OF assms(2)] by blast
    have "gateway_name_ok (gc_Name g)"
      using assms(5) g(1) by (simp add: list_all_iff)
    then have "routes g e'"
      using e(2) e'(2) assms(3,4) by (auto simp: revalued_def routes_def alias_value_exact)
    with e'(1) g(2) show False by (auto simp: list_ex_iff)
  qed
qed

section \<open>Steps of the operations\<close>

lemma linked_create:
  assumes "linked s" "create_gateway env gw s = Some (row, s')"
    and "gc_EndpointID gw = 0 \<or> list_ex (routes gw) (db_endpoints (gv_server s))"
  shows "linked s'"
proof -
  have "routes (gw\<lparr>gc_ID := i\<rparr>) = routes gw" for i
    by (simp add: fun_eq_iff routes_def)
  then show ?thesis
    using assms by (auto simp: linked_def linked_rows_def create_gateway_def Let_def split: if_splits)
qed

lemma store_endpoint_Some:
  assumes "store_endpoint env ep s = (Some i, s')" "ep_ID ep = 0"
  shows "i = db_nextID (gv_server s)" "i \<notin> ep_ID ` set (db_endpoints (gv_server s))"
    "gv_gateways s' = gv_gateways s" "db_endpoints (gv_server s') = db_endpoints (gv_server s) @ [ep\<lparr>ep_ID := i\<rparr>]"
proof -
  show "i = db_nextID (gv_server s)"
    using assms(1) by (auto simp: store_endpoint_def split: prod.splits sum.splits)
  then show "i \<notin> ep_ID ` set (db_endpoints (gv_server s))"
    "gv_gateways s' = gv_gateways s" "db_endpoints (gv_server s') = db_endpoints (gv_server s) @ [ep\<lparr>ep_ID := i\<rparr>]"
    using store_endpoint_rows [OF assms] by auto
qed

lemma linked_store: "\<lbrakk>linked s; store_endpoint env ep s = (r, s'); ep_ID ep = 0\<rbrakk> \<Longrightarrow> linked s'"
  by (auto simp: linked_def linked_rows_more dest!: store_endpoint_rows)

lemma linked_drop:
  assumes "linked s" "\<And>g. g \<in> set (gv_gateways s) \<Longrightarrow> gc_EndpointID g \<noteq> 0 \<Longrightarrow> gc_EndpointID g \<noteq> i"
  shows "linked (drop_endpoint env i s)"
  using assms by (auto simp: linked_def drop_endpoint_def removeEndpointFromDB_def linked_rows_filter
      removeEndpoint_rows [OF surjective_pairing])

lemma save_revalued:
  assumes "distinct (map ep_ID (db_endpoints server))" "al \<in> set (db_endpoints server)"
    and "isGatewayAliasValue n (ep_Endpoint al)"
  shows "list_all2 (revalued n v) (db_endpoints server) (db_endpoints (save_endpoint (al\<lparr>ep_Endpoint := v\<rparr>) server))"
proof -
  have "ep = al" if "ep \<in> set (db_endpoints server)" "ep_ID ep = ep_ID al" for ep
    using that assms(1,2) by (auto simp: distinct_map inj_on_def)
  then have "revalued n v ep (if ep_ID ep = ep_ID al then ep\<lparr>ep_Endpoint := v\<rparr> else ep)"
    if "ep \<in> set (db_endpoints server)" for ep
    using that assms(3) by (auto simp: revalued_def)
  then show ?thesis
    unfolding save_endpoint_rows [OF assms(1,2)] by (simp add: list_all2_conv_all_nth)
qed

lemma move_aliases_revalued:
  assumes "move_aliases fail v als server = (r, server')" "distinct (map ep_ID (db_endpoints server))"
    and "set als \<subseteq> set (db_endpoints server)" "distinct (map ep_ID als)"
    and "list_all (\<lambda>al. isGatewayAliasValue n (ep_Endpoint al)) als"
  shows "list_all2 (revalued n v) (db_endpoints server) (db_endpoints server')"
  using assms
proof (induction als arbitrary: server)
  case (Cons al als)
  let ?s1 = "save_endpoint (al\<lparr>ep_Endpoint := v\<rparr>) server"
  consider (same) "ep_Endpoint al = v" | (failed) "server' = server" "ep_Endpoint al \<noteq> v" "fail"
    | (saved) "ep_Endpoint al \<noteq> v" "\<not> fail"
    using Cons.prems(1) by (auto split: if_splits)
  then show ?case
  proof cases
    case same
    then show ?thesis using Cons by (intro Cons.IH) auto
  next
    case failed
    then show ?thesis by (simp add: list_all2_refl)
  next
    case saved
    have "db_endpoints ?s1 = map (\<lambda>ep. if ep_ID ep = ep_ID al then ep\<lparr>ep_Endpoint := v\<rparr> else ep) (db_endpoints server)"
      using Cons.prems by (intro save_endpoint_rows) auto
    then have "set als \<subseteq> set (db_endpoints ?s1)"
      using Cons.prems(3,4) by (fastforce simp: image_iff)
    then have "list_all2 (revalued n v) (db_endpoints ?s1) (db_endpoints server')"
      using Cons.prems saved by (intro Cons.IH) (auto simp: save_endpoint_ids)
    moreover have "list_all2 (revalued n v) (db_endpoints server) (db_endpoints ?s1)"
      using Cons.prems by (intro save_revalued) auto
    ultimately show ?thesis
      using revalued_rows_trans by blast
  qed
qed (simp add: list_all2_refl)

lemma linked_value:
  assumes "held s" "gw \<in> set (gv_gateways s)" "gc_EndpointID gw \<noteq> 0" "ep \<in> set (db_endpoints (gv_server s))"
    and "ep_ID ep = gc_EndpointID gw"
  shows "routes gw ep"
proof -
  obtain e where e: "e \<in> set (db_endpoints (gv_server s))" "routes gw e"
    using assms(1-3) by (auto simp: held_def linked_def linked_rows_def list_all_iff list_ex_iff)
  then have "ep_ID e = ep_ID ep"
    using assms(5) by (simp add: routes_def)
  then have "e = ep"
    using e(1) assms(1,4) by (auto simp: held_def gw_inv_def distinct_map inj_on_def)
  with e show ?thesis by simp
qed

lemma move_linked_revalued:
  assumes "held s" "gw \<in> set (gv_gateways s)" "move_linked env gw v s = (r, s')"
  shows "list_all2 (revalued (gc_Name gw) v) (db_endpoints (gv_server s)) (db_endpoints (gv_server s'))"
proof -
  consider (same) "db_endpoints (gv_server s') = db_endpoints (gv_server s)"
    | (saved) ep server r' where "gc_EndpointID gw \<noteq> 0" "find_endpoint env (gc_EndpointID gw) s = Some ep"
      "updateEndpoint False (ep\<lparr>ep_Endpoint := v\<rparr>) (gv_server s) = (server, r')" "gv_server s' = server"
    using assms(3) by (cases "ge_faults env SaveEndpoint")
      (auto simp: move_linked_def updateEndpoint_def split: if_splits option.splits prod.splits)
  then show ?thesis
  proof cases
    case same
    then show ?thesis by (simp add: list_all2_refl)
  next
    case (saved ep server r')
    then have ep: "ep \<in> set (db_endpoints (gv_server s))" "ep_ID ep = gc_EndpointID gw"
      by (auto simp: find_endpoint_def find_Some_iff split: if_splits)
    have "db_endpoints server = db_endpoints (save_endpoint (ep\<lparr>ep_Endpoint := v\<rparr>) (gv_server s))"
      using saved(3) ep(1) by (auto simp: updateEndpoint_def save_endpoint_def Let_def split: prod.splits sum.splits
          dest!: removeEndpoint_rows addEndpoint_rows)
    moreover have "isGatewayAliasValue (gc_Name gw) (ep_Endpoint ep)"
      using linked_value [OF assms(1,2) saved(1) ep] by (simp add: routes_def)
    ultimately show ?thesis
      using save_revalued [OF _ ep(1)] assms(1) saved(4) by (simp add: held_def gw_inv_def)
  qed
qed

lemma linked_revalued:
  assumes "held s" "list_all2 (revalued n v) (db_endpoints (gv_server s)) (db_endpoints (gv_server t))"
    and "gv_gateways t = gv_gateways s" "isGatewayAliasValue n v" "gateway_name_ok n"
  shows "linked t"
proof -
  have "list_all (\<lambda>g. gateway_name_ok (gc_Name g)) (gv_gateways s)"
    using assms(1) by (auto simp: held_def gw_inv_def list_all_iff)
  then show ?thesis
    using linked_rows_revalued [OF _ assms(2,4,5)] assms(1,3) by (simp add: held_def linked_def)
qed

lemma linked_save:
  assumes "linked s" "g \<in> set (gv_gateways s)" "gc_EndpointID gw = gc_EndpointID g" "gc_Name gw = gc_Name g"
  shows "linked (save_gateway gw s)"
  unfolding linked_def
  by (rule linked_rows_gateways [of "gv_gateways s"]) (use assms in \<open>auto simp: linked_def save_gateway_def\<close>)

section \<open>The operations keep the link\<close>

lemma endpointFromSpec_routes:
  assumes "endpointFromSpec spec = Inr ep"
  shows "ep_EndpointType ep = ''gateway''" "isGatewayAliasValue (sp_Name spec) (ep_Endpoint ep)"
  using assms by (auto simp: endpointFromSpec_def endpointValue_alias split: if_splits)

lemma linked_provision_rows:
  assumes "linked s" "ep_ID ep = 0" "ep_EndpointType ep = ''gateway''" "isGatewayAliasValue name (ep_Endpoint ep)"
    and "provision_rows env name tpl p ep s = (r, s')"
  shows "linked s'"
  using assms(5)
proof (cases rule: provision_rows_cases)
  case (unstored s1)
  then show ?thesis using assms(1,2) linked_store by simp blast
next
  case (uncreated stored i s1)
  have "gc_EndpointID g \<noteq> i" if "g \<in> set (gv_gateways s1)" "gc_EndpointID g \<noteq> 0" for g
    using that store_endpoint_Some [OF uncreated(1) assms(2)] linked_rows_id assms(1) unfolding linked_def by metis
  moreover have "linked s1"
    using assms(1,2) uncreated(1) linked_store by blast
  ultimately show ?thesis
    by (simp add: uncreated(4) linked_drop)
next
  case (created stored i s1 gw s2 b s3)
  have s1: "linked s1"
    using assms(1,2) created(1) linked_store by blast
  have "routes (new_gateway name (gt_ID tpl) stored i) (ep\<lparr>ep_ID := i\<rparr>)"
    using assms(3,4) by (simp add: routes_def new_gateway_def)
  then have "list_ex (routes (new_gateway name (gt_ID tpl) stored i)) (db_endpoints (gv_server s1))"
    by (simp add: store_endpoint_Some(4) [OF created(1) assms(2)])
  then have "linked s2"
    using linked_create [OF s1 created(3)] by simp
  then have "linked s3"
    using linked_reload [OF created(4)] by simp
  then show ?thesis
    using created(5) by (auto split: if_splits dest!: answer_status_sent [OF sym])
qed (use assms(1) in simp)

lemma linked_ProvisionGateway:
  assumes "linked s" "ProvisionGateway env spec s = (r, s')" shows "linked s'"
  using assms(2)
proof (cases rule: provision_cases)
  case (unloaded rendered s1 x)
  then show ?thesis using assms(1) by (simp add: linked_write)
next
  case (loaded tpl rendered ep s1 x p)
  then have "linked (s1\<lparr>gv_sent := x\<rparr>)"
    using assms(1) by (simp add: linked_write)
  then show ?thesis
    using linked_provision_rows endpointFromSpec_ep endpointFromSpec_routes loaded(4,6) by metis
qed (use assms(1) in simp)

lemma linked_CreateGatewayAlias:
  assumes "linked s" "CreateGatewayAlias env name spec s = (r, s')" shows "linked s'"
  using assms(2)
proof (cases rule: alias_cases)
  case (stored gw v)
  from stored(4) show ?thesis
    by (cases rule: store_alias_cases) (metis assms(1) linked_store linked_reload alias_endpoint_new)+
qed (use assms(1) in simp)

lemma gatewayAliasEndpoints_rows:
  assumes "gatewayAliasEndpoints env gw s = Some als" "distinct (map ep_ID (db_endpoints (gv_server s)))"
  shows "set als \<subseteq> set (db_endpoints (gv_server s))" "distinct (map ep_ID als)"
    "list_all (\<lambda>al. isGatewayAliasValue (gc_Name gw) (ep_Endpoint al)) als"
  using assms by (auto simp: gatewayAliasEndpoints_def is_alias_of_def list_all_iff distinct_map_filter split: if_splits)

text \<open>However far an update of the endpoints comes, it only moves values of the gateway.\<close>

lemma update_moves:
  assumes "held s" "gw \<in> set (gv_gateways s)" "move_linked env gw v s = (b, s1)"
    and "gatewayAliasEndpoints env gw s1 = Some als" "move_aliases fail v als (gv_server s1) = (b', server)"
  shows "list_all2 (revalued (gc_Name gw) v) (db_endpoints (gv_server s)) (db_endpoints server)"
proof -
  have first: "list_all2 (revalued (gc_Name gw) v) (db_endpoints (gv_server s)) (db_endpoints (gv_server s1))"
    by (rule move_linked_revalued [OF assms(1-3)])
  have d: "distinct (map ep_ID (db_endpoints (gv_server s1)))"
    using assms(1) by (simp add: revalued_ids [OF first] held_def gw_inv_def)
  show ?thesis
    using first move_aliases_revalued [OF assms(5) d gatewayAliasEndpoints_rows [OF assms(4) d]]
    by (rule revalued_rows_trans)
qed

lemma linked_update_rows:
  assumes "held s" "gw \<in> set (gv_gateways s)" "isGatewayAliasValue (gc_Name gw) v"
    and "update_rows env gw tpl p v s = (r, s')"
  shows "linked s'"
proof -
  have ok: "gateway_name_ok (gc_Name gw)"
    using assms(1,2) by (auto simp: held_def gw_inv_def list_all_iff)
  have first: "linked t" if "move_linked env gw v s = (b, t)" for b t
    using linked_revalued [OF assms(1) move_linked_revalued [OF assms(1,2) that] _ assms(3) ok]
      move_linked_gateways [OF that] by auto
  have both: "linked (s1\<lparr>gv_server := server\<rparr>)"
    if "move_linked env gw v s = (b, s1)" "gatewayAliasEndpoints env gw s1 = Some als"
      "move_aliases fail v als (gv_server s1) = (b', server)" for b s1 als fail b' server
    using linked_revalued [OF assms(1) _ _ assms(3) ok, of "s1\<lparr>gv_server := server\<rparr>"]
      update_moves [OF assms(1,2) that] move_linked_gateways [OF that(1)] by auto
  from assms(4) show ?thesis
  proof (cases rule: update_rows_cases)
    case (saved s1 als server stored b s3)
    have "gw \<in> set (gv_gateways (s1\<lparr>gv_server := server\<rparr>))"
      using saved(1) assms(2) by (auto dest!: move_linked_gateways)
    then have "linked (save_gateway (saved_row gw tpl stored) (s1\<lparr>gv_server := server\<rparr>))"
      using both [OF saved(1-3)] by (intro linked_save) (simp_all add: saved_row_def)
    then have "linked s3"
      using linked_reload [OF saved(5)] by simp
    then show ?thesis
      using saved(6) by (auto split: if_splits dest!: answer_status_sent [OF sym])
  qed (use first both in auto)
qed

lemma held_written:
  "\<lbrakk>held s; gateway_name_ok name; writeGatewayFile env name c s = Some s1\<rbrakk> \<Longrightarrow> held (s1\<lparr>gv_sent := x\<rparr>)"
  using sound_write [of s s name env c s1] by (simp add: held_def linked_write sound_def) (simp add: gw_inv_def)

lemma linked_UpdateGateway:
  assumes "held s" "UpdateGateway env name spec s = (r, s')" shows "linked s'"
  using assms(2)
proof (cases rule: update_cases)
  case (unloaded rendered s1 x)
  then show ?thesis using assms(1) by (simp add: held_def linked_write)
next
  case (loaded gw tpl rendered s1 x p)
  have "held (s1\<lparr>gv_sent := x\<rparr>)"
    using assms(1) loaded(1,6) by (rule held_written)
  moreover have "gw \<in> set (gv_gateways (s1\<lparr>gv_sent := x\<rparr>))" "gc_Name gw = name"
    using loaded(6) find_gateway_row [OF loaded(2)] by (auto simp: writeGatewayFile_def split: if_splits)
  ultimately show ?thesis
    using linked_update_rows loaded(7) endpointValue_alias by metis
qed (use assms(1) in \<open>simp add: held_def\<close>)

lemma linked_DeprovisionGateway:
  assumes "linked s" "DeprovisionGateway env name s = (r, s')" shows "linked s'"
  using assms(2)
proof (cases rule: deprovision_cases)
  case (gone gw x)
  have "linked_rows (filter (\<lambda>g. gc_ID g \<noteq> gc_ID gw) (gv_gateways s)) (db_endpoints (gv_server s))"
    using assms(1) by (auto simp: linked_def linked_rows_def list_all_iff)
  then show ?thesis
    by (simp add: gone(5) linked_def remove_file_rest)
qed (use assms(1) in simp_all)

lemma endpoint_name_alias: "gateway_name_ok (endpoint_name ep) \<Longrightarrow> isGatewayAliasValue (endpoint_name ep) (ep_Endpoint ep)"
  by (simp add: alias_value_exact endpoint_name_def)

lemma from_endpoint_type:
  "\<lbrakk>ProvisionGatewayFromEndpoint env spec s = (r, s'); find_endpoint env (fe_EndpointID spec) s = Some ep;
    ep_EndpointType ep \<noteq> ''gateway''\<rbrakk> \<Longrightarrow> s' = s"
  by (auto simp: ProvisionGatewayFromEndpoint_def Let_def split: if_splits)

lemma linked_ProvisionGatewayFromEndpoint:
  assumes "linked s" "ProvisionGatewayFromEndpoint env spec s = (r, s')" shows "linked s'"
  using assms(2)
proof (cases rule: from_endpoint_cases)
  case (accepted ep p tpl)
  from accepted(3) show ?thesis
  proof (cases rule: existing_cases)
    case (undone rendered s1 e x)
    then show ?thesis using assms(1) by (simp add: linked_write)
  next
    case (created rendered s1 x stored gw s2)
    show ?thesis
    proof (cases "ep_EndpointType ep = ''gateway''")
      case False
      then show ?thesis using from_endpoint_type [OF assms(2) accepted(1)] assms(1) by simp
    next
      case True
      let ?g = "new_gateway (endpoint_name ep) (gt_ID tpl) stored (ep_ID ep)" and ?t = "s1\<lparr>gv_sent := x\<rparr>"
      have "ep \<in> set (db_endpoints (gv_server ?t))"
        using accepted(1) created(2) by (auto simp: find_endpoint_def find_Some_iff writeGatewayFile_def split: if_splits)
      moreover have "routes ?g ep"
        using True endpoint_name_alias [OF accepted(2)] by (simp add: routes_def new_gateway_def)
      ultimately have "list_ex (routes ?g) (db_endpoints (gv_server ?t))"
        by (auto simp: list_ex_iff)
      then have "linked s2"
        using assms(1) linked_create [OF _ created(4)] created(2) by (simp add: linked_write)
      then show ?thesis
        using created(5) by (auto dest!: answer_status_sent)
    qed
  qed (use assms(1) in simp)
qed (use assms(1) in simp)

lemma linked_AdoptGateway:
  assumes "linked s" "AdoptGateway env f s = (r, s')" shows "linked s'"
proof -
  have "linked t" if "create_gateway env (new_gateway name 0 stored 0) s = Some (gw, t)" for name stored gw t
    using linked_create [OF assms(1) that] by (simp add: new_gateway_def)
  then show ?thesis
    using assms
    by (simp add: AdoptGateway_def Let_def split: option.splits prod.splits if_split_asm)
      (auto dest!: fsGatewayState_sent)
qed

lemma linked_DeleteUnmanagedGateway:
  assumes "linked s" "DeleteUnmanagedGateway env name s = (r, s')" shows "linked s'"
  using assms
  by (simp add: DeleteUnmanagedGateway_def split: option.splits prod.splits if_split_asm)
    (auto dest!: fsKillGateway_sent)

lemma linked_RepairGateway:
  assumes "linked s" "RepairGateway env name s = (r, s')" shows "linked s'"
  using assms
  by (simp add: RepairGateway_def split: option.splits sum.splits prod.splits bool.splits if_split_asm)
    (auto dest!: fsReloadGateways_sent answer_status_sent simp: linked_write)

lemma linked_ListGateways:
  assumes "linked s" "ListGateways env s = (r, s')" shows "linked s'"
  using assms by (auto simp: ListGateways_def split: prod.splits if_splits dest!: list_tracked_sent)

text \<open>A tick saves rows it has read, changed only in their state.\<close>

lemma linked_monitor_gateways:
  assumes "linked_rows (gv_gateways s) eps"
    and "list_all (\<lambda>g. gc_EndpointID g = 0 \<or> list_ex (routes g) eps) gws"
  shows "linked_rows (gv_gateways (monitor_gateways env gws s)) eps
    \<and> gv_server (monitor_gateways env gws s) = gv_server s"
  using assms
proof (induction gws arbitrary: s)
  case (Cons gw gws)
  have save: "linked_rows (gv_gateways (save_gateway (gw\<lparr>gc_LastState := st, gc_LastStateCheckedAt := t\<rparr>) (s\<lparr>gv_sent := x\<rparr>))) eps"
    for st t x
  proof -
    have "routes (gw\<lparr>gc_LastState := st, gc_LastStateCheckedAt := t\<rparr>) = routes gw"
      by (simp add: fun_eq_iff routes_def)
    then show ?thesis
      using Cons.prems by (auto simp: linked_rows_def list_all_iff save_gateway_def)
  qed
  have server: "gv_server (save_gateway g t) = gv_server t" for g and t :: "'a gateway_state"
    by (simp add: save_gateway_def)
  obtain st x where "fsGatewayState env (gc_Name gw) s = (st, s\<lparr>gv_sent := x\<rparr>)"
    using fsGatewayState_sent by (metis surj_pair)
  then show ?case
    using Cons.IH [of s] Cons.IH [OF save] Cons.IH [of "s\<lparr>gv_sent := x\<rparr>"] Cons.prems
    by (simp add: Let_def server split: option.splits)
qed simp

lemma linked_monitorTick: "linked s \<Longrightarrow> linked (monitorTick env s)"
proof -
  assume s: "linked s"
  obtain server sentry where r: "refreshGatewayACLResolution (ge_dns env) (ge_sentry_faults env) (ge_now env)
      (gv_server s) (gv_sentry s) = (server, sentry)"
    by fastforce
  then have "db_endpoints server = db_endpoints (gv_server s)"
    by (auto simp: refreshGatewayACLResolution_def Let_def refresh_rows split: if_splits)
  then show ?thesis
    using s linked_monitor_gateways [of "s\<lparr>gv_server := server, gv_sentry := sentry\<rparr>" "db_endpoints server"
        "gv_gateways s" env]
    by (auto simp: monitorTick_def r linked_def linked_rows_def Let_def)
qed

lemmas linked_steps = linked_ProvisionGateway linked_ProvisionGatewayFromEndpoint linked_DeprovisionGateway
  linked_CreateGatewayAlias linked_AdoptGateway linked_DeleteUnmanagedGateway linked_RepairGateway linked_ListGateways

lemma held_gw_step:
  assumes "held s" "gw_step s t" shows "held t"
proof -
  have "gw_inv t"
    using sound_gw_step [of s s t] assms by (simp add: held_def sound_def)
  moreover have "linked t"
    using assms(2)
  proof cases
    case (step_update env name spec r)
    then show ?thesis using assms(1) linked_UpdateGateway by blast
  next
    case (step_monitor env)
    then show ?thesis using assms(1) linked_monitorTick [of s env] by (simp add: held_def)
  next
    case (step_seed env defs)
    then show ?thesis using assms(1) by (simp add: held_def linked_def seedGatewayTemplates_def)
  qed (drule linked_steps [OF assms(1) [unfolded held_def, THEN conjunct2]], assumption)+
  ultimately show ?thesis by (simp add: held_def)
qed

interpretation gateway_links: step_invariant gw_step s0 "\<lambda>s. held s0 \<longrightarrow> held s" for s0
  by unfold_locales (auto intro: held_gw_step)

end
