(* ===== verification/Fax_Crypto.thy ===== *)
theory Fax_Crypto
  imports Fax_Prelude
begin

text \<open>
  The cipher of stored passwords and parameters (\<open>gofaxlib/aes256.go\<close>): a key of 32 bytes made from the
  configured secret, cipher feedback over 16-byte blocks, and base64 (\<open>base64.StdEncoding\<close>). The block
  cipher, AES with a 32-byte key, and the random initial block are arguments.
\<close>

type_synonym block_cipher = "string \<Rightarrow> string \<Rightarrow> string"

section \<open>Base64\<close>

definition b64_alphabet :: string where
  "b64_alphabet = ''ABCDEFGHIJKLMNOPQRSTUVWXYZabcdefghijklmnopqrstuvwxyz0123456789+/''"

definition b64_char :: "nat \<Rightarrow> char" where
  "b64_char k = b64_alphabet ! k"

fun index_of :: "char \<Rightarrow> string \<Rightarrow> nat option" where
  "index_of c [] = None"
| "index_of c (d # s) = (if c = d then Some 0 else map_option Suc (index_of c s))"

definition b64_val :: "char \<Rightarrow> nat option" where
  "b64_val c = index_of c b64_alphabet"

abbreviation byte_val :: "char \<Rightarrow> nat" where "byte_val c \<equiv> of_char c"

text \<open>\<open>EncodeToString\<close>: three bytes at a time, the rest padded.\<close>

fun b64_encode :: "string \<Rightarrow> string" where
  "b64_encode [] = []"
| "b64_encode [a] = [b64_char (byte_val a div 4), b64_char (byte_val a mod 4 * 16), CHR ''='', CHR ''='']"
| "b64_encode [a, b] = [b64_char (byte_val a div 4), b64_char (byte_val a mod 4 * 16 + byte_val b div 16),
     b64_char (byte_val b mod 16 * 4), CHR ''='']"
| "b64_encode (a # b # c # s) = b64_char (byte_val a div 4) # b64_char (byte_val a mod 4 * 16 + byte_val b div 16)
     # b64_char (byte_val b mod 16 * 4 + byte_val c div 64) # b64_char (byte_val c mod 64) # b64_encode s"

definition b64_three :: "nat \<Rightarrow> nat \<Rightarrow> nat \<Rightarrow> nat \<Rightarrow> string" where
  "b64_three i j k l = [char_of (i * 4 + j div 16), char_of (j mod 16 * 16 + k div 4), char_of (k mod 4 * 64 + l)]"

text \<open>\<open>DecodeString\<close>: line breaks are skipped; padding only ends the text; the bits that padding leaves over are not
  looked at.\<close>

fun b64_quads :: "string \<Rightarrow> string option" where
  "b64_quads [] = Some []"
| "b64_quads (a # b # c # d # s) =
    (case (b64_val a, b64_val b, b64_val c, b64_val d) of
       (Some i, Some j, Some k, Some l) \<Rightarrow> map_option (\<lambda>t. b64_three i j k l @ t) (b64_quads s)
     | (Some i, Some j, Some k, None) \<Rightarrow>
         if d = CHR ''='' \<and> s = [] then Some (take 2 (b64_three i j k 0)) else None
     | (Some i, Some j, None, _) \<Rightarrow>
         if c = CHR ''='' \<and> d = CHR ''='' \<and> s = [] then Some (take 1 (b64_three i j 0 0)) else None
     | _ \<Rightarrow> None)"
| "b64_quads _ = None"

definition b64_decode :: "string \<Rightarrow> string option" where
  "b64_decode s = b64_quads (filter (\<lambda>c. c \<noteq> CHR 0x0A \<and> c \<noteq> CHR 0x0D) s)"

section \<open>Cipher feedback\<close>

fun byte_xor :: "char \<Rightarrow> char \<Rightarrow> char" where
  "byte_xor (Char a0 a1 a2 a3 a4 a5 a6 a7) (Char b0 b1 b2 b3 b4 b5 b6 b7) =
     Char (a0 \<noteq> b0) (a1 \<noteq> b1) (a2 \<noteq> b2) (a3 \<noteq> b3) (a4 \<noteq> b4) (a5 \<noteq> b5) (a6 \<noteq> b6) (a7 \<noteq> b7)"

definition xor_bytes :: "string \<Rightarrow> string \<Rightarrow> string" where
  "xor_bytes a b = map2 byte_xor a b"

definition BlockSize :: nat where "BlockSize = 16"

text \<open>The key stream of a block is the enciphered previous block of cipher text, at first the initial block.\<close>

function cfb_encrypt :: "(string \<Rightarrow> string) \<Rightarrow> string \<Rightarrow> string \<Rightarrow> string" where
  "cfb_encrypt E prev s =
    (if s = [] then []
     else let c = xor_bytes (take BlockSize s) (E prev) in c @ cfb_encrypt E c (drop BlockSize s))"
  by pat_completeness auto
termination
  by (relation "measure (\<lambda>(_, _, s). length s)") (auto simp: BlockSize_def)

function cfb_decrypt :: "(string \<Rightarrow> string) \<Rightarrow> string \<Rightarrow> string \<Rightarrow> string" where
  "cfb_decrypt E prev s =
    (if s = [] then []
     else xor_bytes (take BlockSize s) (E prev) @ cfb_decrypt E (take BlockSize s) (drop BlockSize s))"
  by pat_completeness auto
termination
  by (relation "measure (\<lambda>(_, _, s). length s)") (auto simp: BlockSize_def)

declare cfb_encrypt.simps [simp del] cfb_decrypt.simps [simp del]

section \<open>Stored text\<close>

text \<open>Cut to 32 bytes or filled with zero bytes.\<close>

definition psk_key :: "string \<Rightarrow> string" where
  "psk_key psk = take 32 psk @ replicate (32 - length psk) (CHR 0x00)"

text \<open>\<open>iv\<close> is what the random source gives, \<open>None\<close> when it fails. A 32-byte key is always accepted.\<close>

definition Encrypt :: "block_cipher \<Rightarrow> string option \<Rightarrow> string \<Rightarrow> string \<Rightarrow> string option" where
  "Encrypt aes iv txt psk = map_option (\<lambda>v. b64_encode (v @ cfb_encrypt (aes (psk_key psk)) v txt)) iv"

definition Decrypt :: "block_cipher \<Rightarrow> string \<Rightarrow> string \<Rightarrow> string option" where
  "Decrypt aes stored psk =
    (case b64_decode stored of None \<Rightarrow> None
     | Some combined \<Rightarrow>
         if length combined < BlockSize then None
         else Some (cfb_decrypt (aes (psk_key psk)) (take BlockSize combined) (drop BlockSize combined)))"

section \<open>Lemmas\<close>

lemma b64_val_char: "k < 64 \<Longrightarrow> b64_val (b64_char k) = Some k"
proof -
  have "list_all (\<lambda>k. b64_val (b64_char k) = Some k) [0..<64]"
    by code_simp
  then show "k < 64 \<Longrightarrow> b64_val (b64_char k) = Some k"
    by (simp add: list_all_iff)
qed

lemma b64_chars:
  "b64_val (CHR ''='') = None" "k < 64 \<Longrightarrow> b64_char k \<noteq> CHR 0x0A" "k < 64 \<Longrightarrow> b64_char k \<noteq> CHR 0x0D"
proof -
  have "list_all (\<lambda>k. b64_char k \<noteq> CHR 0x0A \<and> b64_char k \<noteq> CHR 0x0D) [0..<64]"
    by code_simp
  then show "k < 64 \<Longrightarrow> b64_char k \<noteq> CHR 0x0A" "k < 64 \<Longrightarrow> b64_char k \<noteq> CHR 0x0D"
    by (simp_all add: list_all_iff)
  show "b64_val (CHR ''='') = None"
    by code_simp
qed

lemma byte_val_less: "byte_val c < 256"
  by (rule nat_of_char_less_256)

lemma b64_parts:
  "byte_val a div 4 < 64" "byte_val a mod 4 * 16 + byte_val b div 16 < 64"
  "byte_val b mod 16 * 4 + byte_val c div 64 < 64" "byte_val c mod 64 < 64"
  "byte_val a mod 4 * 16 < 64" "byte_val b mod 16 * 4 < 64"
  using byte_val_less [of a] byte_val_less [of b] byte_val_less [of c] by linarith+

lemma b64_three_bytes:
  "b64_three (byte_val a div 4) (byte_val a mod 4 * 16 + byte_val b div 16)
     (byte_val b mod 16 * 4 + byte_val c div 64) (byte_val c mod 64) = [a, b, c]"
proof -
  have "byte_val b div 16 < 16" "byte_val c div 64 < 4"
    using byte_val_less [of b] byte_val_less [of c] by linarith+
  moreover have part: "(x * m + y) div m = x" "(x * m + y) mod m = y" if "y < m" for x y m :: nat
    using that by simp_all
  ultimately have "byte_val a div 4 * 4 + (byte_val a mod 4 * 16 + byte_val b div 16) div 16 = byte_val a"
    "(byte_val a mod 4 * 16 + byte_val b div 16) mod 16 * 16 + (byte_val b mod 16 * 4 + byte_val c div 64) div 4 = byte_val b"
    "(byte_val b mod 16 * 4 + byte_val c div 64) mod 4 * 64 + byte_val c mod 64 = byte_val c"
    by (simp_all add: part)
  then show ?thesis
    unfolding b64_three_def by simp
qed

lemma b64_quads_encode: "b64_quads (b64_encode s) = Some s"
proof (induction s rule: b64_encode.induct)
  case (2 a)
  show ?case
    using b64_three_bytes [of a "CHR 0x00" "CHR 0x00"]
    by (simp add: b64_val_char b64_parts b64_chars(1) b64_three_def)
next
  case (3 a b)
  show ?case
    using b64_three_bytes [of a b "CHR 0x00"]
    by (simp add: b64_val_char b64_parts b64_chars(1) b64_three_def)
next
  case (4 a b c s)
  then show ?case
    by (simp add: b64_val_char b64_parts b64_three_bytes)
qed simp

lemma b64_encode_lines: "filter (\<lambda>c. c \<noteq> CHR 0x0A \<and> c \<noteq> CHR 0x0D) (b64_encode s) = b64_encode s"
  by (induction s rule: b64_encode.induct) (simp_all add: b64_chars b64_parts)

lemma b64_round: "b64_decode (b64_encode s) = Some s"
  by (simp add: b64_decode_def b64_encode_lines b64_quads_encode)

lemma byte_xor_cancel: "byte_xor (byte_xor a b) b = a"
  by (cases a; cases b) auto

lemma xor_bytes_length: "length b \<ge> length a \<Longrightarrow> length (xor_bytes a b) = length a"
  by (simp add: xor_bytes_def)

lemma xor_bytes_cancel: "length a \<le> length b \<Longrightarrow> xor_bytes (xor_bytes a b) b = a"
  by (rule nth_equalityI) (simp_all add: xor_bytes_def byte_xor_cancel)

lemma cfb_round:
  assumes "\<And>p. length (E p) = BlockSize"
  shows "cfb_decrypt E prev (cfb_encrypt E prev s) = s"
proof (induction "length s" arbitrary: prev s rule: less_induct)
  case less
  show ?case
  proof (cases "s = []")
    case False
    let ?p = "take BlockSize s"
    let ?c = "xor_bytes ?p (E prev)"
    have len: "length ?c = length ?p"
      using assms by (simp add: xor_bytes_length)
    have "length (drop BlockSize s) < length s"
      using False by (simp add: BlockSize_def)
    note rest = less [OF this, of ?c]
    have enc: "cfb_encrypt E prev s = ?c @ cfb_encrypt E ?c (drop BlockSize s)"
      using False by (subst cfb_encrypt.simps) (simp add: Let_def)
    have "?c \<noteq> []"
      using False len by (cases s) (auto simp: BlockSize_def)
    moreover have "take BlockSize (?c @ cfb_encrypt E ?c (drop BlockSize s)) = ?c
        \<and> drop BlockSize (?c @ cfb_encrypt E ?c (drop BlockSize s)) = cfb_encrypt E ?c (drop BlockSize s)"
    proof (cases "BlockSize \<le> length s")
      case True
      then show ?thesis using len by simp
    next
      case False
      then have "cfb_encrypt E ?c (drop BlockSize s) = []"
        by (subst cfb_encrypt.simps) simp
      then show ?thesis using len False by simp
    qed
    ultimately have "cfb_decrypt E prev (cfb_encrypt E prev s)
        = xor_bytes ?c (E prev) @ cfb_decrypt E ?c (cfb_encrypt E ?c (drop BlockSize s))"
      unfolding enc by (subst cfb_decrypt.simps) simp
    also have "xor_bytes ?c (E prev) = ?p"
      using assms by (simp add: xor_bytes_cancel)
    finally show ?thesis
      using rest by simp
  qed (simp add: cfb_encrypt.simps cfb_decrypt.simps)
qed

lemma psk_key_length: "length (psk_key psk) = 32"
  by (simp add: psk_key_def)

lemma stored_round:
  assumes "\<And>k b. length (aes k b) = BlockSize" "length v = BlockSize"
    and "Encrypt aes (Some v) txt psk = Some stored"
  shows "Decrypt aes stored psk = Some txt"
proof -
  have "stored = b64_encode (v @ cfb_encrypt (aes (psk_key psk)) v txt)"
    using assms(3) by (simp add: Encrypt_def)
  then show ?thesis
    using assms(2) cfb_round [of "aes (psk_key psk)", OF assms(1)] by (simp add: Decrypt_def b64_round)
qed

section \<open>Properties\<close>

text \<open>Stored text decrypts to what was encrypted, for every secret, every text and every random initial block, with
  any block cipher of 16-byte blocks.\<close>

theorem stored_text_round_trip:
  assumes "\<And>k b. length (aes k b) = BlockSize" "length v = BlockSize"
    and "Encrypt aes (Some v) txt psk = Some stored"
  shows "Decrypt aes stored psk = Some txt"
  using assms by (rule stored_round)

text \<open>A JSON object stored in the clear is not taken for cipher text.\<close>

lemma clear_text_not_decrypted: "Decrypt aes (CHR 0x7B # s) psk = None"
proof -
  have "b64_val (CHR 0x7B) = None"
    by code_simp
  then have "b64_quads (CHR 0x7B # t) = None" for t
    by (cases "(CHR 0x7B # t)" rule: b64_quads.cases) (simp_all split: option.splits)
  then show ?thesis
    by (simp add: Decrypt_def b64_decode_def)
qed

lemma stored_text_round_trip_witness:
  "\<exists>aes stored. Encrypt aes (Some (replicate 16 (CHR ''v''))) ''secret'' ''psk'' = Some stored
     \<and> Decrypt aes stored ''psk'' = Some ''secret''"
proof -
  let ?aes = "\<lambda>k b. take BlockSize (k @ b @ replicate 16 (CHR ''0''))" and ?v = "replicate 16 (CHR ''v'')"
  obtain stored where e: "Encrypt ?aes (Some ?v) ''secret'' ''psk'' = Some stored"
    by (simp add: Encrypt_def)
  have "length (?aes k b) = BlockSize" "length ?v = BlockSize" for k b
    by (simp_all add: BlockSize_def)
  from stored_text_round_trip [OF this e] e show ?thesis by blast
qed

end
