(* ===== verification/Fax_Reports.thy ===== *)
theory Fax_Reports
  imports Fax_Job "HOL-Library.Product_Lexorder"
begin

text \<open>
  The report of all fax jobs (\<open>gofaxserver/web_faxresults.go\<close>): the query parameters, the selection of jobs from
  the table of results, and the summary of a job from its legs.

  A query on the table is a function on its rows. Rows that compare equal in an \<open>ORDER BY\<close> come in the order of
  the table. \<open>time.Parse\<close> for RFC 3339 and \<open>uuid.Parse\<close> are arguments.
\<close>

section \<open>The query\<close>

record faxResultQuery =
  fq_TenantID :: nat
  fq_ResultType :: string
  fq_Success :: "bool option"
  fq_Origin :: string
  fq_Number :: string
  fq_JobUUID :: "uuid option"
  fq_From :: "time option"
  fq_To :: "time option"
  fq_Limit :: int
  fq_Offset :: int

datatype query_error = BadResultType string | BadSuccess | BadOrigin string | BadUUID | BadTime string

record parsers =
  ps_RFC3339 :: "string \<Rightarrow> time option"
  ps_UUID :: "string \<Rightarrow> uuid option"

definition faxResultTypes :: "string list" where
  "faxResultTypes = [''reception'', ''bridge'', ''transmission'', ''delivery'', ''submission'', ''notify'']"

definition intDefault :: "string \<Rightarrow> int \<Rightarrow> int" where
  "intDefault s d = (if s = [] then d else case atoi s of None \<Rightarrow> d | Some n \<Rightarrow> n)"

text \<open>\<open>time.Parse\<close> for the layout \<open>2006-01-02\<close>: midnight of a day of the Gregorian calendar.\<close>

definition leap_year :: "nat \<Rightarrow> bool" where
  "leap_year y \<longleftrightarrow> 4 dvd y \<and> (\<not> 100 dvd y \<or> 400 dvd y)"

definition month_days :: "nat \<Rightarrow> nat \<Rightarrow> nat" where
  "month_days y m = (if m = 2 then (if leap_year y then 29 else 28) else if m \<in> {4, 6, 9, 11} then 30 else 31)"

text \<open>The days from the first of January of the year 1, \<open>days_before\<close> within the year.\<close>

definition days_before :: "nat \<Rightarrow> nat \<Rightarrow> nat" where
  "days_before y m = sum_list (map (month_days y) [1..<m])"

definition day_number :: "nat \<Rightarrow> nat \<Rightarrow> nat \<Rightarrow> int" where
  "day_number y m d = (int y - 1) * 365 + (int y - 1) div 4 - (int y - 1) div 100 + (int y - 1) div 400
     + int (days_before y m) + int d - 1"

definition parse_date :: "string \<Rightarrow> time option" where
  "parse_date s =
    (if length s = 10 \<and> s ! 4 = CHR ''-'' \<and> s ! 7 = CHR ''-''
     then case (parse_digits (take 4 s), parse_digits (take 2 (drop 5 s)), parse_digits (drop 8 s)) of
         (Some y, Some m, Some d) \<Rightarrow>
           if 1 \<le> m \<and> m \<le> 12 \<and> 1 \<le> d \<and> d \<le> month_days y m then Some (day_number y m d * (24 * Hour)) else None
       | _ \<Rightarrow> None
     else None)"

definition parseTimeBound :: "parsers \<Rightarrow> string \<Rightarrow> bool \<Rightarrow> time option" where
  "parseTimeBound ps v endOfDay =
    (case ps_RFC3339 ps v of Some t \<Rightarrow> Some t
     | None \<Rightarrow> map_option (\<lambda>t. if endOfDay then t + (24 * Hour - 1) else t) (parse_date v))"

type_synonym url_values = "(string \<times> string) list"

definition parse_bound :: "parsers \<Rightarrow> string \<Rightarrow> bool \<Rightarrow> query_error + time option" where
  "parse_bound ps v endOfDay =
    (if v = [] then Inr None
     else case parseTimeBound ps v endOfDay of None \<Rightarrow> Inl (BadTime v) | Some t \<Rightarrow> Inr (Some t))"

definition parse_success :: "string \<Rightarrow> query_error + bool option" where
  "parse_success v =
    (if v = [] then Inr None else if v = ''true'' then Inr (Some True) else if v = ''false'' then Inr (Some False)
     else Inl BadSuccess)"

definition page_limit :: "int \<Rightarrow> int" where
  "page_limit n = (if n \<le> 0 then 50 else if n > 500 then 500 else n)"

definition parseFaxResultQuery :: "parsers \<Rightarrow> url_values \<Rightarrow> query_error + faxResultQuery" where
  "parseFaxResultQuery ps v =
    (let rt = get_or [] v ''result_type''; o' = get_or [] v ''origin''; ju = get_or [] v ''job_uuid'';
         tid = intDefault (get_or [] v ''tenant_id'') 0 in
     if rt \<noteq> [] \<and> rt \<notin> set faxResultTypes then Inl (BadResultType rt)
     else case parse_success (get_or [] v ''success'') of Inl e \<Rightarrow> Inl e
     | Inr success \<Rightarrow>
       if o' \<noteq> [] \<and> o' \<noteq> ''portal'' \<and> o' \<noteq> ''non-portal'' then Inl (BadOrigin o')
       else if ju \<noteq> [] \<and> ps_UUID ps ju = None then Inl BadUUID
       else case parse_bound ps (get_or [] v ''from'') False of Inl e \<Rightarrow> Inl e
       | Inr from_ts \<Rightarrow> (case parse_bound ps (get_or [] v ''to'') True of Inl e \<Rightarrow> Inl e
         | Inr to_ts \<Rightarrow> Inr \<lparr>fq_TenantID = (if tid > 0 then nat tid else 0), fq_ResultType = rt, fq_Success = success,
              fq_Origin = o', fq_Number = get_or [] v ''number'',
              fq_JobUUID = (if ju = [] then None else ps_UUID ps ju), fq_From = from_ts, fq_To = to_ts,
              fq_Limit = page_limit (intDefault (get_or [] v ''limit'') 50),
              fq_Offset = max 0 (intDefault (get_or [] v ''offset'') 0)\<rparr>))"

section \<open>Selection\<close>

text \<open>\<open>LIKE\<close>: a percent sign stands for any text, an underscore for one character, a backslash quotes the next.\<close>

fun sql_like :: "string \<Rightarrow> string \<Rightarrow> bool" where
  "sql_like [] s \<longleftrightarrow> s = []"
| "sql_like (c # p) [] \<longleftrightarrow> c = CHR ''%'' \<and> sql_like p []"
| "sql_like (c # p) (d # s) \<longleftrightarrow>
    (if c = CHR ''%'' then sql_like p (d # s) \<or> sql_like (c # p) s
     else if c = CHR ''_'' then sql_like p s
     else if c = CHR 0x5C \<and> p \<noteq> [] then hd p = d \<and> sql_like (tl p) s
     else c = d \<and> sql_like p s)"

definition apply_query :: "faxResultQuery \<Rightarrow> FaxJobResult \<Rightarrow> bool" where
  "apply_query q r \<longleftrightarrow>
     (fq_TenantID q = 0 \<or> jr_SrcTenantID r = fq_TenantID q \<or> jr_DstTenantID r = fq_TenantID q) \<and>
     (fq_Number q = [] \<or> sql_like (''%'' @ fq_Number q @ ''%'') (jr_CallerIdNumber r)
        \<or> sql_like (''%'' @ fq_Number q @ ''%'') (jr_CalleeNumber r)) \<and>
     (case fq_JobUUID q of None \<Rightarrow> True | Some i \<Rightarrow> jr_JobUUID r = i) \<and>
     (case fq_From q of None \<Rightarrow> True | Some t \<Rightarrow> jr_CreatedAt r \<ge> t) \<and>
     (case fq_To q of None \<Rightarrow> True | Some t \<Rightarrow> jr_CreatedAt r \<le> t)"

definition has_type :: "FaxJobResult list \<Rightarrow> string \<Rightarrow> uuid \<Rightarrow> bool" where
  "has_type rows rt i = list_ex (\<lambda>r. jr_ResultType r = rt \<and> jr_JobUUID r = i) rows"

definition from_portal :: "FaxJobResult list \<Rightarrow> uuid \<Rightarrow> bool" where
  "from_portal rows i = list_ex (\<lambda>r. jr_ResultType r = ''submission'' \<and> si_Source (jr_SourceInfo r) = ''portal''
     \<and> jr_JobUUID r = i) rows"

text \<open>\<open>DISTINCT ON (job_uuid)\<close>: the first leg of a job in the order deliveries last, latest first.\<close>

definition leg_before :: "FaxJobResult \<Rightarrow> FaxJobResult \<Rightarrow> bool" where
  "leg_before a b \<longleftrightarrow> (let x = jr_ResultType a = ''delivery''; y = jr_ResultType b = ''delivery''
     in if x = y then jr_CreatedAt a > jr_CreatedAt b else y)"

definition outcome_leg :: "FaxJobResult list \<Rightarrow> uuid \<Rightarrow> FaxJobResult option" where
  "outcome_leg rows i =
    (case stable_sort leg_before (filter (\<lambda>r. jr_JobUUID r = i \<and> jr_ResultType r \<noteq> ''submission''
             \<and> jr_ResultType r \<noteq> ''notify'') rows) of [] \<Rightarrow> None | r # _ \<Rightarrow> Some r)"

definition success_is :: "FaxJobResult list \<Rightarrow> bool \<Rightarrow> uuid \<Rightarrow> bool" where
  "success_is rows b i = (case outcome_leg rows i of None \<Rightarrow> False | Some r \<Rightarrow> jr_Success r = b)"

definition base_rows :: "faxResultQuery \<Rightarrow> FaxJobResult list \<Rightarrow> FaxJobResult list" where
  "base_rows q rows = filter (\<lambda>r. apply_query q r
     \<and> (fq_ResultType q = [] \<or> has_type rows (fq_ResultType q) (jr_JobUUID r))
     \<and> (fq_Origin q = [] \<or> from_portal rows (jr_JobUUID r) = (fq_Origin q = ''portal''))
     \<and> (case fq_Success q of None \<Rightarrow> True | Some b \<Rightarrow> success_is rows b (jr_JobUUID r))) rows"

section \<open>Summaries\<close>

record FaxResultGroup =
  fg_JobUUID :: uuid
  fg_CallerIDNumber :: string
  fg_CallerIDName :: string
  fg_CalleeNumber :: string
  fg_SrcTenantID :: nat
  fg_DstTenantID :: nat
  fg_Attempts :: int
  fg_LegTypes :: "string list"
  fg_Success :: bool
  fg_Status :: string
  fg_TransferredPages :: nat
  fg_TotalPages :: nat
  fg_FirstTs :: time
  fg_LastTs :: time
  fg_Portal :: bool
  fg_Legs :: "FaxJobResult list"

definition empty_group :: "uuid \<Rightarrow> FaxResultGroup" where
  "empty_group i = \<lparr>fg_JobUUID = i, fg_CallerIDNumber = [], fg_CallerIDName = [], fg_CalleeNumber = [],
     fg_SrcTenantID = 0, fg_DstTenantID = 0, fg_Attempts = 0, fg_LegTypes = [], fg_Success = False, fg_Status = [],
     fg_TransferredPages = 0, fg_TotalPages = 0, fg_FirstTs = zero_time, fg_LastTs = zero_time, fg_Portal = False,
     fg_Legs = []\<rparr>"

definition note_leg :: "FaxJobResult \<Rightarrow> FaxResultGroup \<Rightarrow> FaxResultGroup" where
  "note_leg l g =
    (let g1 = (if jr_ResultType l \<in> set (fg_LegTypes g) then g
               else g\<lparr>fg_LegTypes := fg_LegTypes g @ [jr_ResultType l]\<rparr>);
         g2 = (if (jr_ResultType l = ''transmission'' \<or> jr_ResultType l = ''delivery'') \<and> jr_AttemptNumber l > fg_Attempts g1
               then g1\<lparr>fg_Attempts := jr_AttemptNumber l\<rparr> else g1)
     in if jr_ResultType l = ''submission'' \<and> \<not> fg_Portal g2 \<and> si_Source (jr_SourceInfo l) = ''portal''
        then g2\<lparr>fg_Portal := True\<rparr> else g2)"

definition is_primary :: "FaxJobResult \<Rightarrow> bool" where
  "is_primary l \<longleftrightarrow> jr_ResultType l \<noteq> ''delivery'' \<and> jr_ResultType l \<noteq> ''submission'' \<and> jr_ResultType l \<noteq> ''notify''"

definition primary_leg :: "FaxJobResult list \<Rightarrow> FaxJobResult" where
  "primary_leg legs = (case List.find is_primary (rev legs) of Some l \<Rightarrow> l | None \<Rightarrow> last legs)"

definition group_outcome :: "FaxJobResult \<Rightarrow> FaxResultGroup \<Rightarrow> FaxResultGroup" where
  "group_outcome p g =
    (let g1 = g\<lparr>fg_Success := jr_Success p, fg_Status := jr_Status p, fg_TransferredPages := jr_TransferredPages p,
                fg_TotalPages := jr_TotalPages p\<rparr>
     in if jr_ResultType p = ''submission''
        then g1\<lparr>fg_Success := False, fg_Status := (if jr_ResultText p = [] then ''queued'' else jr_ResultText p)\<rparr>
        else g1)"

definition deriveGroup :: "uuid \<Rightarrow> FaxJobResult list \<Rightarrow> FaxResultGroup" where
  "deriveGroup i legs =
    (if legs = [] then empty_group i
     else let l = last legs;
              g = (empty_group i)\<lparr>fg_Legs := legs, fg_CallerIDNumber := jr_CallerIdNumber l,
                     fg_CallerIDName := jr_CallerIdName l, fg_CalleeNumber := jr_CalleeNumber l,
                     fg_SrcTenantID := jr_SrcTenantID l, fg_DstTenantID := jr_DstTenantID l,
                     fg_FirstTs := jr_CreatedAt (hd legs), fg_LastTs := jr_CreatedAt l\<rparr>
          in group_outcome (primary_leg legs) (fold note_leg legs g))"

section \<open>The listing\<close>

datatype report_op = CountJobs | PageJobs | FindLegs

datatype report_answer = ReportRefused query_error | ReportFailed | Report nat "FaxResultGroup list"

text \<open>The jobs of the selected rows, the most recently active first.\<close>

definition last_at :: "FaxJobResult list \<Rightarrow> uuid \<Rightarrow> time" where
  "last_at rows i = (case map jr_CreatedAt (filter (\<lambda>r. jr_JobUUID r = i) rows) of
     [] \<Rightarrow> zero_time | t # ts \<Rightarrow> fold max ts t)"

definition job_order :: "FaxJobResult list \<Rightarrow> uuid list" where
  "job_order rows = stable_sort (\<lambda>a b. last_at rows a > last_at rows b) (remdups (map jr_JobUUID rows))"

definition job_page :: "faxResultQuery \<Rightarrow> FaxJobResult list \<Rightarrow> uuid list" where
  "job_page q rows = take (nat (fq_Limit q)) (drop (nat (fq_Offset q)) (job_order (base_rows q rows)))"

definition job_legs :: "FaxJobResult list \<Rightarrow> uuid \<Rightarrow> FaxJobResult list" where
  "job_legs rows i = filter (\<lambda>r. jr_JobUUID r = i) (stable_sort (\<lambda>a b. jr_CreatedAt a < jr_CreatedAt b) rows)"

definition report_items :: "faxResultQuery \<Rightarrow> FaxJobResult list \<Rightarrow> FaxResultGroup list" where
  "report_items q rows = map (\<lambda>i. deriveGroup i (job_legs rows i)) (job_page q rows)"

definition handleListFaxResults ::
    "parsers \<Rightarrow> (report_op \<Rightarrow> bool) \<Rightarrow> url_values \<Rightarrow> FaxJobResult list \<Rightarrow> report_answer" where
  "handleListFaxResults ps faults v rows =
    (case parseFaxResultQuery ps v of Inl e \<Rightarrow> ReportRefused e
     | Inr q \<Rightarrow>
       let total = length (remdups (map jr_JobUUID (base_rows q rows))) in
       if faults CountJobs \<or> faults PageJobs then ReportFailed
       else if job_page q rows = [] then Report total []
       else if faults FindLegs then ReportFailed
       else Report total (report_items q rows))"

section \<open>Lemmas\<close>

definition leg_rank :: "FaxJobResult \<Rightarrow> bool \<times> int" where
  "leg_rank r = (jr_ResultType r = ''delivery'', - jr_CreatedAt r)"

lemma leg_before_rank: "leg_before a b \<longleftrightarrow> leg_rank a < leg_rank b"
  by (auto simp: leg_before_def leg_rank_def Let_def less_prod_def)

lemma sort_key_hd:
  assumes "sort_key k xs = r # ys" "x \<in> set xs" shows "k r \<le> k x"
proof -
  have "sorted (map k (r # ys))"
    using sorted_sort_key [of k xs] assms(1) by simp
  moreover have "x \<in> set (r # ys)"
    unfolding assms(1) [symmetric] using assms(2) by simp
  ultimately show ?thesis by auto
qed

definition outcome_legs :: "FaxJobResult list \<Rightarrow> uuid \<Rightarrow> FaxJobResult list" where
  "outcome_legs rows i =
     filter (\<lambda>r. jr_JobUUID r = i \<and> jr_ResultType r \<noteq> ''submission'' \<and> jr_ResultType r \<noteq> ''notify'') rows"

lemma outcome_leg_sorted:
  "outcome_leg rows i = (case sort_key leg_rank (outcome_legs rows i) of [] \<Rightarrow> None | r # _ \<Rightarrow> Some r)"
  by (simp add: outcome_leg_def outcome_legs_def stable_sort_key [OF leg_before_rank])

lemma outcome_leg_first:
  assumes "outcome_leg rows i = Some r"
  shows "r \<in> set (outcome_legs rows i)" "x \<in> set (outcome_legs rows i) \<Longrightarrow> leg_rank r \<le> leg_rank x"
proof -
  obtain ys where s: "sort_key leg_rank (outcome_legs rows i) = r # ys"
    using assms by (auto simp: outcome_leg_sorted split: list.splits)
  have "r \<in> set (sort_key leg_rank (outcome_legs rows i))"
    unfolding s by simp
  then show "r \<in> set (outcome_legs rows i)"
    by simp
  show "x \<in> set (outcome_legs rows i) \<Longrightarrow> leg_rank r \<le> leg_rank x"
    using sort_key_hd [OF s] .
qed

lemma outcome_leg_some: "x \<in> set (outcome_legs rows i) \<Longrightarrow> \<exists>r. outcome_leg rows i = Some r"
proof -
  assume "x \<in> set (outcome_legs rows i)"
  then have "set (sort_key leg_rank (outcome_legs rows i)) \<noteq> {}"
    by auto
  then show ?thesis
    by (cases "sort_key leg_rank (outcome_legs rows i)") (simp_all add: outcome_leg_sorted del: set_sort)
qed

lemma outcome_leg_latest:
  assumes "outcome_leg rows i = Some r" "x \<in> set rows" "jr_JobUUID x = i" "is_primary x"
  shows "r \<in> set rows" "jr_JobUUID r = i" "is_primary r" "jr_CreatedAt x \<le> jr_CreatedAt r"
proof -
  have "leg_rank r \<le> leg_rank x"
    using assms(2-4) by (intro outcome_leg_first(2) [OF assms(1)]) (simp add: is_primary_def outcome_legs_def)
  then show "r \<in> set rows" "jr_JobUUID r = i" "is_primary r" "jr_CreatedAt x \<le> jr_CreatedAt r"
    using outcome_leg_first(1) [OF assms(1)] assms(4)
    by (auto simp: leg_rank_def is_primary_def less_eq_prod_def outcome_legs_def)
qed

lemma job_legs_sorted: "sorted (map jr_CreatedAt (job_legs rows i))" "set (job_legs rows i) = {r \<in> set rows. jr_JobUUID r = i}"
  by (auto simp: job_legs_def stable_sort_key [of _ jr_CreatedAt] sorted_filter)

lemma find_split:
  "List.find P xs = Some l \<Longrightarrow> \<exists>us vs. xs = us @ l # vs \<and> P l \<and> \<not> list_ex P us"
proof (induction xs)
  case (Cons a xs)
  show ?case
  proof (cases "P a")
    case True
    then show ?thesis using Cons.prems by (intro exI [of _ "[]"] exI [of _ xs]) simp
  next
    case False
    then obtain us vs where "xs = us @ l # vs" "P l" "\<not> list_ex P us"
      using Cons by auto
    then show ?thesis using False by (intro exI [of _ "a # us"] exI [of _ vs]) simp
  qed
qed simp

lemma primary_leg_latest:
  assumes "list_ex is_primary legs" "sorted (map jr_CreatedAt legs)"
  shows "primary_leg legs \<in> set legs" "is_primary (primary_leg legs)"
    and "x \<in> set legs \<Longrightarrow> is_primary x \<Longrightarrow> jr_CreatedAt x \<le> jr_CreatedAt (primary_leg legs)"
proof -
  obtain l where l: "List.find is_primary (rev legs) = Some l"
    using assms(1) by (cases "List.find is_primary (rev legs)") (auto simp: find_None_iff list_ex_iff)
  obtain us vs where d: "rev legs = us @ l # vs" "\<not> list_ex is_primary us" "is_primary l"
    using find_split [OF l] by blast
  have p: "primary_leg legs = l"
    using l by (simp add: primary_leg_def)
  have legs: "legs = rev vs @ l # rev us"
    using arg_cong [OF d(1), of rev] by simp
  show "primary_leg legs \<in> set legs" "is_primary (primary_leg legs)"
    using p legs d(3) by auto
  show "x \<in> set legs \<Longrightarrow> is_primary x \<Longrightarrow> jr_CreatedAt x \<le> jr_CreatedAt (primary_leg legs)"
    unfolding p using assms(2) d(2) by (auto simp: legs sorted_append list_ex_iff)
qed

lemma group_success:
  assumes "legs \<noteq> []"
  shows "fg_Success (deriveGroup i legs) = (jr_ResultType (primary_leg legs) \<noteq> ''submission'' \<and> jr_Success (primary_leg legs))"
  using assms by (simp add: deriveGroup_def group_outcome_def Let_def)

section \<open>Properties\<close>

text \<open>For a job with a reception, bridge or transmission leg, filtering by outcome selects it exactly when the
  summary of the job shows that outcome.\<close>

theorem success_filter_matches_group:
  assumes "list_ex is_primary (job_legs rows i)" "distinct (map jr_CreatedAt (job_legs rows i))"
  shows "success_is rows b i \<longleftrightarrow> fg_Success (deriveGroup i (job_legs rows i)) = b"
proof -
  let ?legs = "job_legs rows i" and ?p = "primary_leg (job_legs rows i)"
  note p = primary_leg_latest [OF assms(1) job_legs_sorted(1)]
  have pr: "?p \<in> set rows" "jr_JobUUID ?p = i"
    using p(1) by (simp_all add: job_legs_sorted(2))
  obtain r where r: "outcome_leg rows i = Some r"
    using outcome_leg_some [of ?p rows i] pr p(2) by (auto simp: is_primary_def outcome_legs_def)
  note o' = outcome_leg_latest [OF r pr p(2)]
  have "r \<in> set ?legs"
    using o'(1,2) by (simp add: job_legs_sorted(2))
  moreover have "jr_CreatedAt r = jr_CreatedAt ?p"
    using o'(4) p(3) [OF \<open>r \<in> set ?legs\<close> o'(3)] by simp
  ultimately have "r = ?p"
    using p(1) assms(2) by (auto simp: distinct_map inj_on_def)
  moreover have "?legs \<noteq> []"
    using assms(1) by auto
  ultimately show ?thesis
    using r p(2) by (simp add: success_is_def group_success is_primary_def)
qed

text \<open>A sent notification turns the summary of a failed webhook delivery into a success, while the outcome filter
  still counts the job as failed.\<close>

theorem receipt_flips_delivery:
  assumes "\<not> list_ex is_primary (job_legs rows i)" "list_ex (\<lambda>l. jr_ResultType l = ''delivery'') (job_legs rows i)"
    and "list_all (\<lambda>l. jr_ResultType l = ''delivery'' \<longrightarrow> \<not> jr_Success l) (job_legs rows i)"
    and "jr_ResultType (last (job_legs rows i)) = ''notify''" "jr_Success (last (job_legs rows i))"
  shows "fg_Success (deriveGroup i (job_legs rows i)) \<and> success_is rows False i"
proof -
  let ?legs = "job_legs rows i"
  have "primary_leg ?legs = last ?legs"
  proof -
    have "List.find is_primary (rev ?legs) = None"
      using assms(1) by (simp add: find_None_iff list_ex_iff)
    then show ?thesis by (simp add: primary_leg_def)
  qed
  moreover have "?legs \<noteq> []"
    using assms(2) by auto
  ultimately have "fg_Success (deriveGroup i ?legs)"
    using assms(4,5) by (simp add: group_success)
  moreover obtain x where "x \<in> set (outcome_legs rows i)"
    using assms(2) by (fastforce simp: list_ex_iff job_legs_sorted(2) outcome_legs_def)
  then obtain r where r: "outcome_leg rows i = Some r"
    using outcome_leg_some by blast
  then have "r \<in> set ?legs" "jr_ResultType r = ''delivery''"
    using outcome_leg_first(1) [OF r] assms(1) by (auto simp: job_legs_sorted(2) list_ex_iff is_primary_def outcome_legs_def)
  then have "\<not> jr_Success r"
    using assms(3) by (auto simp: list_all_iff)
  ultimately show ?thesis
    using r by (simp add: success_is_def)
qed

lemma base_rows_page [simp]: "base_rows (q\<lparr>fq_Limit := l, fq_Offset := m\<rparr>) rows = base_rows q rows"
  by (simp add: base_rows_def apply_query_def)

lemma stable_sort_length [simp]: "length (stable_sort lt xs) = length xs"
proof -
  have "length (insort_by lt x ys) = Suc (length ys)" for x ys
    by (induction ys) auto
  then show ?thesis
    unfolding stable_sort_def by (induction xs) auto
qed

lemma pages_take: "concat (map (\<lambda>k. take m (drop (k * m) xs)) [0..<n]) = take (n * m) xs"
  by (induction n) (simp_all add: take_add add.commute [of m])

text \<open>Paging through a report shows every selected job exactly once, and the total is their number.\<close>

theorem pages_show_every_job:
  assumes "0 < m" "length (remdups (map jr_JobUUID (base_rows q rows))) \<le> n * m"
  shows "concat (map (\<lambda>k. job_page (q\<lparr>fq_Limit := int m, fq_Offset := int (k * m)\<rparr>) rows) [0..<n])
      = job_order (base_rows q rows)"
    and "distinct (job_order (base_rows q rows))"
    and "set (job_order (base_rows q rows)) = jr_JobUUID ` set (base_rows q rows)"
proof -
  have len: "length (job_order (base_rows q rows)) = length (remdups (map jr_JobUUID (base_rows q rows)))"
    by (simp add: job_order_def)
  have "concat (map (\<lambda>k. job_page (q\<lparr>fq_Limit := int m, fq_Offset := int (k * m)\<rparr>) rows) [0..<n])
      = take (n * m) (job_order (base_rows q rows))"
    unfolding job_page_def by (simp add: pages_take [symmetric] del: of_nat_mult)
  then show "concat (map (\<lambda>k. job_page (q\<lparr>fq_Limit := int m, fq_Offset := int (k * m)\<rparr>) rows) [0..<n])
      = job_order (base_rows q rows)"
    using assms(2) len by simp
  show s: "set (job_order (base_rows q rows)) = jr_JobUUID ` set (base_rows q rows)"
    by (simp add: job_order_def)
  then show "distinct (job_order (base_rows q rows))"
    using len by (intro card_distinct) (simp add: length_remdups_card_conv)
qed

section \<open>Sample values\<close>

definition sample_leg :: "string \<Rightarrow> time \<Rightarrow> bool \<Rightarrow> FaxJobResult" where
  "sample_leg ty t ok = (base_record 0 zero_FaxJob)\<lparr>jr_ResultType := ty, jr_CreatedAt := t, jr_Success := ok\<rparr>"

definition sent_rows :: "FaxJobResult list" where
  "sent_rows = [sample_leg ''submission'' 1 False, sample_leg ''transmission'' 2 True, sample_leg ''notify'' 3 False]"

definition lost_rows :: "FaxJobResult list" where
  "lost_rows = [sample_leg ''delivery'' 1 False, sample_leg ''notify'' 2 True]"

definition all_jobs :: faxResultQuery where
  "all_jobs = \<lparr>fq_TenantID = 0, fq_ResultType = [], fq_Success = None, fq_Origin = [], fq_Number = [],
     fq_JobUUID = None, fq_From = None, fq_To = None, fq_Limit = 50, fq_Offset = 0\<rparr>"

lemma success_filter_matches_group_witness:
  "success_is sent_rows True uuid_Nil \<longleftrightarrow> fg_Success (deriveGroup uuid_Nil (job_legs sent_rows uuid_Nil))"
proof -
  have "list_ex is_primary (job_legs sent_rows uuid_Nil)" "distinct (map jr_CreatedAt (job_legs sent_rows uuid_Nil))"
    by code_simp+
  from success_filter_matches_group [OF this, of True] show ?thesis by simp
qed

lemma receipt_flips_delivery_witness:
  "fg_Success (deriveGroup uuid_Nil (job_legs lost_rows uuid_Nil)) \<and> success_is lost_rows False uuid_Nil"
proof (rule receipt_flips_delivery)
  show "\<not> list_ex is_primary (job_legs lost_rows uuid_Nil)"
    "list_ex (\<lambda>l. jr_ResultType l = ''delivery'') (job_legs lost_rows uuid_Nil)"
    "list_all (\<lambda>l. jr_ResultType l = ''delivery'' \<longrightarrow> \<not> jr_Success l) (job_legs lost_rows uuid_Nil)"
    "jr_ResultType (last (job_legs lost_rows uuid_Nil)) = ''notify''" "jr_Success (last (job_legs lost_rows uuid_Nil))"
    by code_simp+
qed

lemma pages_show_every_job_witness:
  "concat (map (\<lambda>k. job_page (all_jobs\<lparr>fq_Limit := int 1, fq_Offset := int (k * 1)\<rparr>) sent_rows) [0..<2])
     = job_order (base_rows all_jobs sent_rows)"
proof -
  have "length (remdups (map jr_JobUUID (base_rows all_jobs sent_rows))) \<le> 2 * 1"
    by code_simp
  from pages_show_every_job(1) [OF _ this] show ?thesis by simp
qed

text \<open>A day that does not exist, and the start of the Unix epoch.\<close>

lemma parse_date_samples:
  "parse_date ''2026-02-29'' = None" "parse_date ''1970-01-01'' = Some (719162 * (24 * Hour))"
  by code_simp+

text \<open>A percent sign in the number matches everything; without wildcards only the text itself matches.\<close>

lemma like_samples: "sql_like ''%%%'' ''5551234''" "sql_like ''%512%'' ''5551234''" "\<not> sql_like ''%513%'' ''5551234''"
  by code_simp+

end
