(* ===== verification/Web_Base.thy ===== *)
theory Web_Base
  imports Web_Answer Gateway_Links Fax_Router Fax_Learning Fax_Tracker Fax_Crypto Fax_Reports
begin

text \<open>
  The web server of the fax server (\<open>gofaxserver/web.go\<close>, \<open>tenants.go\<close>): its state, tenant users with their
  encrypted passwords, and the two authentication layers in front of the handlers.

  A handler takes the decoded body of a request, \<open>None\<close> when the body is not valid JSON for its type, and answers
  a status with a body. The text of an error is not kept. The failure of a database statement is an argument.
\<close>

section \<open>State\<close>

record TenantUser =
  tu_ID :: nat
  tu_TenantID :: nat
  tu_Username :: string
  tu_Password :: string
  tu_APIKey :: string

datatype web_op =
  FindUser | CreateUser | SaveUser | DeleteUser | ListUsers | CreateTenant | SaveTenant | DropTenant | ListTenants
| AddNumber | SaveNumber | DropNumber | ListNumbers | ListAllEndpoints | CreatePolicy | FirstPolicy | SavePolicy
| DropPolicy | ExpirePolicy | ListPolicies | FirstPair | DropPair | ListPairs | MaxPosition | CreateRow | SaveDialplan
| DropRow | MoveRow nat | ListRows | SeedCount | SeedCreate | SeedFind | ListTemplates | SaveTemplate | DropTemplate
| CountUses | FindResults | ListBanRows

record web_env =
  we_gateway :: gateway_env
  we_aes :: block_cipher
  we_iv :: "string option"
  we_PSK :: string
  we_APIKey :: string
  we_faults :: "web_op \<Rightarrow> bool"
  we_policy_faults :: policy_faults
  we_faxing :: FaxingConfig
  we_compile :: compiler
  we_dialplanDB :: bool
  we_dialplanRules :: "(string \<times> string) list"
  we_security :: SecurityConfig
  we_parsers :: parsers
  we_report_faults :: "report_op \<Rightarrow> bool"
  we_newTemplateID :: nat
  we_now :: time

record 'f web_state =
  ws_gateways :: "'f gateway_state"
  ws_users :: "TenantUser list"
  ws_nextID :: nat
  ws_policies :: policy_state
  ws_pairs :: pair_state
  ws_dialplan :: "DialplanTable \<times> TransformationRule list option"
  ws_results :: "FaxJobResult list"
  ws_tracker :: FaxTracker
  ws_routing :: "FaxJob list"

abbreviation ws_server :: "'f web_state \<Rightarrow> Server" where
  "ws_server s \<equiv> gv_server (ws_gateways s)"

definition put_server :: "Server \<Rightarrow> 'f web_state \<Rightarrow> 'f web_state" where
  "put_server server s = s\<lparr>ws_gateways := (ws_gateways s)\<lparr>gv_server := server\<rparr>\<rparr>"

section \<open>Handlers\<close>

type_synonym ('f, 'b) handler = "'f web_state \<Rightarrow> 'b answer \<times> 'f web_state"

section \<open>Tenant users\<close>

text \<open>An insert takes the next identifier when there is none and fails on a duplicate key.\<close>

definition AddTenantUser :: "web_env \<Rightarrow> TenantUser \<Rightarrow> 'f web_state \<Rightarrow> TenantUser option \<times> 'f web_state" where
  "AddTenantUser env user s =
    (case Encrypt (we_aes env) (we_iv env) (tu_Password user) (we_PSK env) of
       None \<Rightarrow> (None, s)
     | Some encrypted \<Rightarrow>
         let u = user\<lparr>tu_Password := encrypted, tu_ID := (if tu_ID user = 0 then ws_nextID s else tu_ID user)\<rparr> in
         if we_faults env CreateUser \<or> tu_ID u \<in> tu_ID ` set (ws_users s) \<or> tu_Username u \<in> tu_Username ` set (ws_users s)
         then (None, s)
         else (Some u, s\<lparr>ws_users := ws_users s @ [u], ws_nextID := Suc (ws_nextID s)\<rparr>))"

text \<open>\<open>Save\<close> replaces the row with the identifier of the user, or inserts one; the user name stays unique.\<close>

definition save_user :: "web_env \<Rightarrow> TenantUser \<Rightarrow> 'f web_state \<Rightarrow> TenantUser option \<times> 'f web_state" where
  "save_user env user s =
    (let u = user\<lparr>tu_ID := (if tu_ID user = 0 then ws_nextID s else tu_ID user)\<rparr> in
     if we_faults env SaveUser
        \<or> list_ex (\<lambda>w. tu_Username w = tu_Username u \<and> tu_ID w \<noteq> tu_ID u) (ws_users s)
     then (None, s)
     else if tu_ID u \<in> tu_ID ` set (ws_users s)
     then (Some u, s\<lparr>ws_users := map (\<lambda>w. if tu_ID w = tu_ID u then u else w) (ws_users s)\<rparr>)
     else (Some u, s\<lparr>ws_users := ws_users s @ [u], ws_nextID := Suc (ws_nextID s)\<rparr>))"

text \<open>Without a new password only the other fields change, and only in an existing row.\<close>

definition update_fields :: "web_env \<Rightarrow> TenantUser \<Rightarrow> 'f web_state \<Rightarrow> TenantUser option \<times> 'f web_state" where
  "update_fields env user s =
    (if we_faults env SaveUser
        \<or> tu_ID user \<in> tu_ID ` set (ws_users s)
          \<and> list_ex (\<lambda>w. tu_Username w = tu_Username user \<and> tu_ID w \<noteq> tu_ID user) (ws_users s)
     then (None, s)
     else (Some user, s\<lparr>ws_users := map (\<lambda>w. if tu_ID w = tu_ID user
             then user\<lparr>tu_Password := tu_Password w\<rparr> else w) (ws_users s)\<rparr>))"

definition UpdateTenantUser :: "web_env \<Rightarrow> TenantUser \<Rightarrow> 'f web_state \<Rightarrow> TenantUser option \<times> 'f web_state" where
  "UpdateTenantUser env user s =
    (if tu_Password user \<noteq> []
     then (case Encrypt (we_aes env) (we_iv env) (tu_Password user) (we_PSK env) of
         None \<Rightarrow> (None, s)
       | Some encrypted \<Rightarrow> save_user env (user\<lparr>tu_Password := encrypted\<rparr>) s)
     else update_fields env user s)"

definition DeleteTenantUser :: "web_env \<Rightarrow> nat \<Rightarrow> 'f web_state \<Rightarrow> bool \<times> 'f web_state" where
  "DeleteTenantUser env i s =
    (if we_faults env DeleteUser then (False, s)
     else (True, s\<lparr>ws_users := filter (\<lambda>u. tu_ID u \<noteq> i) (ws_users s)\<rparr>))"

definition AuthenticateTenantUser :: "web_env \<Rightarrow> string \<Rightarrow> string \<Rightarrow> 'f web_state \<Rightarrow> TenantUser option" where
  "AuthenticateTenantUser env username password s =
    (case (if we_faults env FindUser then None else List.find (\<lambda>u. tu_Username u = username) (ws_users s)) of
       None \<Rightarrow> None
     | Some user \<Rightarrow>
         (case Decrypt (we_aes env) (tu_Password user) (we_PSK env) of
            None \<Rightarrow> None
          | Some decrypted \<Rightarrow> if password = decrypted then Some user else None))"

section \<open>Basic authentication\<close>

text \<open>\<open>indexOf\<close>: the first place of a byte, -1 when it does not occur.\<close>

fun index_from :: "int \<Rightarrow> string \<Rightarrow> char \<Rightarrow> int" where
  "index_from i [] sep = -1"
| "index_from i (c # s) sep = (if c = sep then i else index_from (i + 1) s sep)"

definition indexOf :: "string \<Rightarrow> char \<Rightarrow> int" where
  "indexOf s sep = index_from 0 s sep"

definition basic_prefix :: string where "basic_prefix = ''Basic ''"

text \<open>The user name and the password of an \<open>Authorization\<close> header.\<close>

definition basic_credentials :: "string \<Rightarrow> (string \<times> string) option" where
  "basic_credentials hdr =
    (if length hdr < length basic_prefix \<or> take (length basic_prefix) hdr \<noteq> basic_prefix then None
     else case b64_decode (drop (length basic_prefix) hdr) of None \<Rightarrow> None
     | Some credentials \<Rightarrow>
         let colonIndex = indexOf credentials (CHR '':'') in
         if colonIndex < 0 then None
         else Some (take (nat colonIndex) credentials, drop (nat (colonIndex + 1)) credentials))"

definition unauthorized :: "'b answer" where
  "unauthorized = refusal 401"

definition basicAuthMiddleware :: "web_env \<Rightarrow> string \<Rightarrow> ('f, 'b) handler \<Rightarrow> ('f, 'b) handler" where
  "basicAuthMiddleware env hdr next_handler s =
    (if we_APIKey env = [] then (refusal 500, s)
     else if hdr = [] then (unauthorized, s)
     else case basic_credentials hdr of None \<Rightarrow> (unauthorized, s)
     | Some (_, apiKey) \<Rightarrow> if apiKey \<noteq> we_APIKey env then (unauthorized, s) else next_handler s)"

definition basicTenantUserAuthMiddleware ::
    "web_env \<Rightarrow> string \<Rightarrow> (TenantUser \<Rightarrow> ('f, 'b) handler) \<Rightarrow> ('f, 'b) handler" where
  "basicTenantUserAuthMiddleware env hdr next_handler s =
    (case basic_credentials hdr of None \<Rightarrow> (unauthorized, s)
     | Some (username, password) \<Rightarrow>
         (case AuthenticateTenantUser env username password s of
            None \<Rightarrow> (unauthorized, s) | Some user \<Rightarrow> next_handler user s))"

definition handleAuthenticateTenantUser :: "web_env \<Rightarrow> string \<Rightarrow> ('f, string \<times> nat \<times> nat) handler" where
  "handleAuthenticateTenantUser env hdr s =
    (case basic_credentials hdr of None \<Rightarrow> (unauthorized, s)
     | Some (username, password) \<Rightarrow>
         (case AuthenticateTenantUser env username password s of
            None \<Rightarrow> (unauthorized, s)
          | Some user \<Rightarrow> (ok (tu_APIKey user, tu_ID user, tu_TenantID user), s)))"

section \<open>Lemmas\<close>

text \<open>The header a client sends.\<close>

definition basic_header :: "string \<Rightarrow> string \<Rightarrow> string" where
  "basic_header user password = basic_prefix @ b64_encode (user @ CHR '':'' # password)"

lemma index_from_takeWhile:
  "index_from i s sep = (if sep \<in> set s then i + int (length (takeWhile (\<lambda>c. c \<noteq> sep) s)) else -1)"
  by (induction s arbitrary: i) auto

lemma split2_parts:
  "split2 sep s = (if sep \<in> set s then Some (take (length (takeWhile (\<lambda>c. c \<noteq> sep) s)) s,
     drop (Suc (length (takeWhile (\<lambda>c. c \<noteq> sep) s))) s) else None)"
  by (induction s) auto

lemma indexOf_split2:
  "(let i = indexOf c (CHR '':'') in if i < 0 then None else Some (take (nat i) c, drop (nat (i + 1)) c)) = split2 (CHR '':'') c"
  by (simp add: indexOf_def index_from_takeWhile split2_parts nat_add_distrib)

lemma basic_credentials_iff:
  "basic_credentials hdr = Some (u, p) \<longleftrightarrow> (\<exists>w. hdr = basic_prefix @ w \<and> b64_decode w = Some (u @ CHR '':'' # p))
     \<and> CHR '':'' \<notin> set u"
proof -
  have "length hdr < length basic_prefix \<or> take (length basic_prefix) hdr \<noteq> basic_prefix
      \<longleftrightarrow> \<not> (\<exists>w. hdr = basic_prefix @ w)"
    by (auto simp: min_def) (metis append_take_drop_id)
  then show ?thesis
    unfolding basic_credentials_def indexOf_split2
    by (auto simp: split2_Some_iff split: option.splits)
qed

lemma basic_header_read: "CHR '':'' \<notin> set user \<Longrightarrow> basic_credentials (basic_header user password) = Some (user, password)"
  by (simp add: basic_credentials_iff basic_header_def b64_round)

lemma find_snoc: "List.find P (xs @ [x]) = (case List.find P xs of None \<Rightarrow> if P x then Some x else None | Some y \<Rightarrow> Some y)"
  by (induction xs) auto

lemma find_name:
  "List.find P xs = Some x \<Longrightarrow> x \<in> set xs \<and> P x"
  by (auto simp: find_Some_iff)

lemma signs_in:
  assumes "\<And>k b. length (we_aes env k b) = BlockSize" "we_iv env = Some v" "length v = BlockSize"
    and "AddTenantUser env user s = (Some u, s')" "\<not> we_faults env FindUser" "CHR '':'' \<notin> set (tu_Username user)"
  shows "basicTenantUserAuthMiddleware env (basic_header (tu_Username user) password) h s'
    = (if password = tu_Password user then h u s' else (unauthorized, s'))"
proof -
  obtain stored where e: "Encrypt (we_aes env) (Some v) (tu_Password user) (we_PSK env) = Some stored"
    by (simp add: Encrypt_def)
  have u: "tu_Username u = tu_Username user" "tu_Password u = stored" "ws_users s' = ws_users s @ [u]"
    and new: "tu_Username user \<notin> tu_Username ` set (ws_users s)"
    using assms(4) e by (auto simp: AddTenantUser_def assms(2) Let_def split: if_splits)
  have "List.find (\<lambda>w. tu_Username w = tu_Username user) (ws_users s) = None"
    using new by (auto simp: find_None_iff image_iff)
  then have "List.find (\<lambda>w. tu_Username w = tu_Username user) (ws_users s') = Some u"
    using u(1) by (simp add: u(3) find_snoc)
  then have "AuthenticateTenantUser env (tu_Username user) password s' = (if password = tu_Password user then Some u else None)"
    using assms(5) stored_round [OF assms(1,3) e] by (simp add: AuthenticateTenantUser_def u(2))
  then show ?thesis
    by (simp add: basicTenantUserAuthMiddleware_def basic_header_read [OF assms(6)])
qed

section \<open>Properties\<close>

text \<open>C31: A request reaches an administration handler exactly when its header encodes the configured key after a user
  name; otherwise it is refused and changes nothing.\<close>

theorem admin_needs_key:
  "basicAuthMiddleware env hdr h s =
     (if we_APIKey env \<noteq> [] \<and> (\<exists>w u. hdr = basic_prefix @ w \<and> CHR '':'' \<notin> set u
           \<and> b64_decode w = Some (u @ CHR '':'' # we_APIKey env)) then h s
      else (refusal (if we_APIKey env = [] then 500 else 401), s))"
proof (cases "\<exists>u. basic_credentials hdr = Some (u, we_APIKey env)")
  case True
  then obtain u where u: "basic_credentials hdr = Some (u, we_APIKey env)"
    by blast
  then have "hdr \<noteq> []"
    by (auto simp: basic_credentials_def basic_prefix_def)
  then have "basicAuthMiddleware env hdr h s = (if we_APIKey env = [] then (refusal 500, s) else h s)"
    using u by (simp add: basicAuthMiddleware_def)
  then show ?thesis
    using u unfolding basic_credentials_iff by auto
next
  case False
  then have "basicAuthMiddleware env hdr h s = (refusal (if we_APIKey env = [] then 500 else 401), s)"
    by (cases "basic_credentials hdr") (auto simp: basicAuthMiddleware_def unauthorized_def)
  then show ?thesis
    using False by (auto simp: basic_credentials_iff)
qed

text \<open>A user that was added signs in with the password it was given and with no other: the encryption at rest, the
  header a client sends and the comparison fit together, colons in the password included.\<close>

theorem added_user_signs_in:
  assumes "\<And>k b. length (we_aes env k b) = BlockSize" "we_iv env = Some v" "length v = BlockSize"
    and "AddTenantUser env user s = (Some u, s')" "\<not> we_faults env FindUser" "CHR '':'' \<notin> set (tu_Username user)"
  shows "basicTenantUserAuthMiddleware env (basic_header (tu_Username user) password) h s'
    = (if password = tu_Password user then h u s' else (unauthorized, s'))"
  using assms by (rule signs_in)

section \<open>Sample values\<close>

definition sample_wenv :: web_env where
  "sample_wenv = \<lparr>we_gateway = sample_genv, we_aes = (\<lambda>k b. take BlockSize (k @ b @ replicate 16 (CHR ''0''))),
     we_iv = Some (replicate 16 (CHR ''v'')), we_PSK = ''psk'', we_APIKey = ''key'', we_faults = (\<lambda>_. False),
     we_policy_faults = (\<lambda>_. False), we_faxing = zero_FaxingConfig, we_compile = (\<lambda>_ _. None), we_dialplanDB = False,
     we_dialplanRules = [], we_security = sample_security, we_parsers = \<lparr>ps_RFC3339 = (\<lambda>_. None), ps_UUID = (\<lambda>_. None)\<rparr>,
     we_report_faults = (\<lambda>_. False), we_newTemplateID = 3, we_now = 5\<rparr>"

definition sample_user :: TenantUser where
  "sample_user = \<lparr>tu_ID = 0, tu_TenantID = 3, tu_Username = ''alice'', tu_Password = ''a:b'', tu_APIKey = []\<rparr>"

definition sample_wstate :: "unit web_state" where
  "sample_wstate = \<lparr>ws_gateways = sample_gstate, ws_users = [], ws_nextID = 1,
     ws_policies = \<lparr>pl_rules = [], pl_nextID = 1, pl_cache = None\<rparr>,
     ws_pairs = \<lparr>pl_pairStates = [], pl_pairRows = [], pl_pairNextID = 1\<rparr>,
     ws_dialplan = (\<lparr>dt_rows = [], dt_nextID = 1\<rparr>, None), ws_results = [], ws_tracker = NewFaxTracker, ws_routing = []\<rparr>"

lemma sample_cipher: "length (we_aes sample_wenv k b) = BlockSize"
  by (simp add: sample_wenv_def BlockSize_def)

lemma sample_added:
  "\<exists>u s. AddTenantUser sample_wenv sample_user sample_wstate = (Some u, s)"
  by (simp add: AddTenantUser_def sample_wenv_def sample_wstate_def Encrypt_def Let_def)

lemma sample_keys:
  "we_iv sample_wenv = Some (replicate 16 (CHR ''v''))" "length (replicate 16 (CHR ''v'')) = BlockSize"
  "\<not> we_faults sample_wenv FindUser" "CHR '':'' \<notin> set (tu_Username sample_user)"
  by (simp_all add: sample_wenv_def BlockSize_def sample_user_def)

lemma sample_signs_in:
  assumes "AddTenantUser sample_wenv sample_user sample_wstate = (Some u, s)"
  shows "basicTenantUserAuthMiddleware sample_wenv (basic_header ''alice'' ''a:b'') h s = h u s"
    "ws_gateways s = sample_gstate" "ws_routing s = []" "ws_users s = [u]" "tu_TenantID u = 3"
proof -
  show "basicTenantUserAuthMiddleware sample_wenv (basic_header ''alice'' ''a:b'') h s = h u s"
    using signs_in [OF sample_cipher sample_keys(1,2) assms sample_keys(3,4), of "''a:b''" h] by (simp add: sample_user_def)
  show "ws_gateways s = sample_gstate" "ws_routing s = []" "ws_users s = [u]" "tu_TenantID u = 3"
    using assms by (auto simp: AddTenantUser_def sample_wenv_def sample_wstate_def sample_user_def Encrypt_def Let_def)
qed

lemma added_user_signs_in_witness:
  "\<exists>u s. AddTenantUser sample_wenv sample_user sample_wstate = (Some u, s)
     \<and> basicTenantUserAuthMiddleware sample_wenv (basic_header ''alice'' ''a:b'') (\<lambda>u s. (ok (tu_ID u), s)) s = (ok (tu_ID u), s)
     \<and> basicTenantUserAuthMiddleware sample_wenv (basic_header ''alice'' ''a'') (\<lambda>u s. (ok (tu_ID u), s)) s = (unauthorized, s)"
proof -
  obtain u s where a: "AddTenantUser sample_wenv sample_user sample_wstate = (Some u, s)"
    using sample_added by blast
  note ins = added_user_signs_in [OF sample_cipher sample_keys(1,2) a sample_keys(3,4), where h = "\<lambda>u s. (ok (tu_ID u), s)"]
  show ?thesis
    using a ins [of "''a:b''"] ins [of "''a''"] by (auto simp: sample_user_def)
qed

end
