(* ===== verification/Web_Admin.thy ===== *)
theory Web_Admin
  imports Web_Base
begin

text \<open>
  The administration handlers of the fax server: tenants, numbers, endpoints and users (\<open>gofaxserver/web.go\<close>),
  lists (\<open>web_list.go\<close>), fax policies (\<open>web_faxpolicy.go\<close>) and the dialplan (\<open>web_dialplan.go\<close>).
\<close>

section \<open>Users\<close>

definition path_id :: "string \<Rightarrow> nat option" where
  "path_id s = map_option uint_of (atoi s)"

definition handleAddTenantUser :: "web_env \<Rightarrow> TenantUser option \<Rightarrow> ('f, TenantUser) handler" where
  "handleAddTenantUser env payload s =
    (case payload of None \<Rightarrow> (refusal 400, s)
     | Some user \<Rightarrow> (case AddTenantUser env user s of (None, s1) \<Rightarrow> (refusal 500, s1) | (Some u, s1) \<Rightarrow> (ok u, s1)))"

definition handleUpdateTenantUser :: "web_env \<Rightarrow> string \<Rightarrow> TenantUser option \<Rightarrow> ('f, TenantUser) handler" where
  "handleUpdateTenantUser env idStr payload s =
    (case path_id idStr of None \<Rightarrow> (refusal 400, s)
     | Some i \<Rightarrow> (case payload of None \<Rightarrow> (refusal 400, s)
       | Some user \<Rightarrow> (case UpdateTenantUser env (user\<lparr>tu_ID := i\<rparr>) s of
           (None, s1) \<Rightarrow> (refusal 500, s1) | (Some u, s1) \<Rightarrow> (ok u, s1))))"

definition handleDeleteTenantUser :: "web_env \<Rightarrow> string \<Rightarrow> ('f, unit) handler" where
  "handleDeleteTenantUser env idStr s =
    (case path_id idStr of None \<Rightarrow> (refusal 400, s)
     | Some i \<Rightarrow> (case DeleteTenantUser env i s of (False, s1) \<Rightarrow> (refusal 500, s1) | (True, s1) \<Rightarrow> (ok (), s1)))"

definition getTenantUsers :: "web_env \<Rightarrow> ('f, TenantUser list) handler" where
  "getTenantUsers env s = (if we_faults env ListUsers then (refusal 500, s) else (ok (ws_users s), s))"

definition handleFaxes :: "('f, int \<times> FaxRunState list) handler" where
  "handleFaxes s = (ok (ActiveCount (ws_tracker s), Snapshot (ws_tracker s)), s)"

section \<open>Tenants and numbers\<close>

text \<open>A tenant comes without a list of numbers.\<close>

definition handleAddTenant :: "web_env \<Rightarrow> Tenant option \<Rightarrow> ('f, Tenant) handler" where
  "handleAddTenant env payload s =
    (case payload of None \<Rightarrow> (refusal 400, s)
     | Some tenant \<Rightarrow>
         let sv = ws_server s; t = tenant\<lparr>te_ID := (if te_ID tenant = 0 then db_nextID sv else te_ID tenant)\<rparr> in
         if we_faults env CreateTenant \<or> te_ID t \<in> te_ID ` set (db_tenants sv) then (refusal 500, s)
         else (ok t, put_server (sv\<lparr>db_tenants := db_tenants sv @ [t], db_nextID := Suc (db_nextID sv),
                sv_Tenants := AList.update (te_ID t) t (sv_Tenants sv)\<rparr>) s))"

definition handleUpdateTenant :: "web_env \<Rightarrow> string \<Rightarrow> Tenant option \<Rightarrow> ('f, Tenant) handler" where
  "handleUpdateTenant env idStr payload s =
    (case path_id idStr of None \<Rightarrow> (refusal 400, s)
     | Some i \<Rightarrow> (case payload of None \<Rightarrow> (refusal 400, s)
       | Some tenant \<Rightarrow>
           let sv = ws_server s; t = tenant\<lparr>te_ID := (if i = 0 then db_nextID sv else i)\<rparr>;
               there = te_ID t \<in> te_ID ` set (db_tenants sv) in
           if we_faults env SaveTenant then (refusal 500, s)
           else (ok t, put_server (sv\<lparr>
                  db_tenants := (if there then map (\<lambda>x. if te_ID x = te_ID t then t else x) (db_tenants sv)
                                 else db_tenants sv @ [t]),
                  db_nextID := (if there then db_nextID sv else Suc (db_nextID sv)),
                  sv_Tenants := AList.update (te_ID t) t (sv_Tenants sv)\<rparr>) s)))"

definition handleDeleteTenant :: "web_env \<Rightarrow> string \<Rightarrow> ('f, unit) handler" where
  "handleDeleteTenant env idStr s =
    (case path_id idStr of None \<Rightarrow> (refusal 400, s)
     | Some i \<Rightarrow>
         if we_faults env DropTenant then (refusal 500, s)
         else (ok (), put_server ((ws_server s)\<lparr>db_tenants := filter (\<lambda>t. te_ID t \<noteq> i) (db_tenants (ws_server s)),
                sv_Tenants := AList.delete i (sv_Tenants (ws_server s))\<rparr>) s))"

definition handleAddTenantNumber :: "web_env \<Rightarrow> TenantNumber option \<Rightarrow> ('f, TenantNumber) handler" where
  "handleAddTenantNumber env payload s =
    (case payload of None \<Rightarrow> (refusal 400, s)
     | Some tn \<Rightarrow>
         (case addTenantNumber (we_faults env AddNumber) (tn_TenantID tn) tn (ws_server s) of
            (sv, Inl _) \<Rightarrow> (refusal 500, put_server sv s)
          | (sv, Inr _) \<Rightarrow>
              (ok (tn\<lparr>tn_ID := (if tn_ID tn = 0 then db_nextID (ws_server s) else tn_ID tn)\<rparr>), put_server sv s)))"

text \<open>The map gets an entry under the new number; the entry under the old one stays.\<close>

definition handleUpdateTenantNumber :: "web_env \<Rightarrow> string \<Rightarrow> TenantNumber option \<Rightarrow> ('f, TenantNumber) handler" where
  "handleUpdateTenantNumber env idStr payload s =
    (case path_id idStr of None \<Rightarrow> (refusal 400, s)
     | Some i \<Rightarrow> (case payload of None \<Rightarrow> (refusal 400, s)
       | Some tn \<Rightarrow>
           let sv = ws_server s; n = tn\<lparr>tn_ID := (if i = 0 then db_nextID sv else i)\<rparr>;
               there = tn_ID n \<in> tn_ID ` set (db_numbers sv) in
           if we_faults env SaveNumber \<or> list_ex (\<lambda>x. tn_Number x = tn_Number n \<and> tn_ID x \<noteq> tn_ID n) (db_numbers sv)
           then (refusal 500, s)
           else (ok n, put_server (sv\<lparr>
                  db_numbers := (if there then map (\<lambda>x. if tn_ID x = tn_ID n then n else x) (db_numbers sv)
                                 else db_numbers sv @ [n]),
                  db_nextID := (if there then db_nextID sv else Suc (db_nextID sv)),
                  sv_TenantNumbers := AList.update (tn_Number n) n (sv_TenantNumbers sv)\<rparr>) s)))"

definition handleDeleteTenantNumber :: "web_env \<Rightarrow> string \<Rightarrow> string \<Rightarrow> ('f, unit) handler" where
  "handleDeleteTenantNumber env numberStr tenantIDStr s =
    (if numberStr = [] \<or> tenantIDStr = [] then (refusal 400, s)
     else case path_id tenantIDStr of None \<Rightarrow> (refusal 400, s)
     | Some tenantID \<Rightarrow>
         (case removeTenantNumber (we_faults env DropNumber) tenantID numberStr (ws_server s) of
            (sv, Inl _) \<Rightarrow> (refusal 500, put_server sv s) | (sv, Inr _) \<Rightarrow> (ok (), put_server sv s)))"

section \<open>Endpoints\<close>

text \<open>After a change the endpoints are loaded again.\<close>

definition reload_then :: "web_env \<Rightarrow> 'b \<Rightarrow> ('f, 'b) handler" where
  "reload_then env b s =
    (case reload_endpoints (we_gateway env) (ws_gateways s) of
       (loaded, g) \<Rightarrow> (if loaded then ok b else refusal 500, s\<lparr>ws_gateways := g\<rparr>))"

definition handleAddEndpoint :: "web_env \<Rightarrow> Endpoint option \<Rightarrow> ('f, Endpoint) handler" where
  "handleAddEndpoint env payload s =
    (case payload of None \<Rightarrow> (refusal 400, s)
     | Some ep \<Rightarrow>
         (case addEndpointToDB (ge_faults (we_gateway env) CreateEndpoint) ep (ws_server s) of
            (sv, Inl _) \<Rightarrow> (refusal 500, put_server sv s)
          | (sv, Inr _) \<Rightarrow> reload_then env (ep\<lparr>ep_ID := (if ep_ID ep = 0 then db_nextID (ws_server s) else ep_ID ep)\<rparr>)
                            (put_server sv s)))"

text \<open>The value of an endpoint that routes onto a provisioned gateway is locked; a count that fails leaves zero.\<close>

definition value_locked :: "gateway_env \<Rightarrow> Endpoint \<Rightarrow> Endpoint \<Rightarrow> 'f gateway_state \<Rightarrow> bool" where
  "value_locked env old ep g \<longleftrightarrow> ep_EndpointType old = ''gateway'' \<and> ep_Endpoint ep \<noteq> ep_Endpoint old
     \<and> gateway_known env (endpoint_name old) g"

definition handleUpdateEndpoint :: "web_env \<Rightarrow> string \<Rightarrow> Endpoint option \<Rightarrow> ('f, Endpoint) handler" where
  "handleUpdateEndpoint env idStr payload s =
    (case path_id idStr of None \<Rightarrow> (refusal 400, s)
     | Some i \<Rightarrow> (case payload of None \<Rightarrow> (refusal 400, s)
       | Some ep0 \<Rightarrow>
         let ep = ep0\<lparr>ep_ID := i\<rparr>; ge = we_gateway env; g = ws_gateways s in
         if gatewayManagingEndpoint ge i g \<noteq> None then (refusal 409, s)
         else if ge_faults ge FindEndpoint then (refusal 500, s)
         else case find_endpoint ge i g of None \<Rightarrow> (refusal 404, s)
         | Some old \<Rightarrow>
           if value_locked ge old ep g then (refusal 409, s)
           else (case updateEndpoint (ge_faults ge SaveEndpoint) ep (ws_server s) of
               (sv, Inl _) \<Rightarrow> (refusal 500, put_server sv s)
             | (sv, Inr _) \<Rightarrow> reload_then env ep (put_server sv s))))"

definition handleDeleteEndpoint :: "web_env \<Rightarrow> string \<Rightarrow> ('f, unit) handler" where
  "handleDeleteEndpoint env idStr s =
    (case path_id idStr of None \<Rightarrow> (refusal 400, s)
     | Some i \<Rightarrow>
       if gatewayManagingEndpoint (we_gateway env) i (ws_gateways s) \<noteq> None then (refusal 409, s)
       else (case removeEndpointFromDB (ge_faults (we_gateway env) DeleteEndpoint) i (ws_server s) of
           (sv, Inl _) \<Rightarrow> (refusal 500, put_server sv s)
         | (sv, Inr _) \<Rightarrow> reload_then env () (put_server sv s)))"

section \<open>Lists\<close>

text \<open>\<open>strconv.ParseUint\<close> with base 10; an absent parameter does not filter.\<close>

definition parse_uint :: "string \<Rightarrow> nat option" where
  "parse_uint s = (case parse_digits s of None \<Rightarrow> None | Some n \<Rightarrow> if n < 2 ^ 64 then Some n else None)"

definition filtered :: "bool \<Rightarrow> string \<Rightarrow> (nat \<Rightarrow> 'r \<Rightarrow> bool) \<Rightarrow> 'r list \<Rightarrow> 'f web_state \<Rightarrow> 'r list answer \<times> 'f web_state" where
  "filtered fail v P rows s =
    (if v = [] then (if fail then refusal 500 else ok rows, s)
     else case parse_uint v of None \<Rightarrow> (refusal 400, s)
     | Some i \<Rightarrow> (if fail then refusal 500 else ok (filter (P i) rows), s))"

record TenantUserPublic =
  tp_ID :: nat
  tp_TenantID :: nat
  tp_Username :: string
  tp_APIKey :: string

definition public_user :: "TenantUser \<Rightarrow> TenantUserPublic" where
  "public_user u = \<lparr>tp_ID = tu_ID u, tp_TenantID = tu_TenantID u, tp_Username = tu_Username u, tp_APIKey = tu_APIKey u\<rparr>"

definition handleListTenants :: "web_env \<Rightarrow> ('f, (Tenant \<times> TenantNumber list) list) handler" where
  "handleListTenants env s =
    (if we_faults env ListTenants then (refusal 500, s)
     else (ok (map (\<lambda>t. (t, filter (\<lambda>n. tn_TenantID n = te_ID t) (db_numbers (ws_server s)))) (db_tenants (ws_server s))), s))"

definition handleListTenantNumbers :: "web_env \<Rightarrow> string \<Rightarrow> ('f, TenantNumber list) handler" where
  "handleListTenantNumbers env v s =
     filtered (we_faults env ListNumbers) v (\<lambda>i n. tn_TenantID n = i) (db_numbers (ws_server s)) s"

definition handleListTenantUsers :: "web_env \<Rightarrow> string \<Rightarrow> ('f, TenantUserPublic list) handler" where
  "handleListTenantUsers env v s =
     filtered (we_faults env ListUsers) v (\<lambda>i u. tp_TenantID u = i) (map public_user (ws_users s)) s"

definition handleListEndpoints :: "web_env \<Rightarrow> string \<Rightarrow> string \<Rightarrow> ('f, Endpoint list) handler" where
  "handleListEndpoints env ty v s =
     filtered (we_faults env ListAllEndpoints) v (\<lambda>i ep. ep_TypeID ep = i)
       (filter (\<lambda>ep. ty = [] \<or> ep_Type ep = ty) (db_endpoints (ws_server s))) s"

section \<open>Fax policies\<close>

text \<open>\<open>[A-Za-z0-9_]+\<close>, as for gateway names.\<close>

definition deniedVarOverrides :: "string list" where
  "deniedVarOverrides = [''origination_uuid'']"

definition scoped_rule :: "FaxPolicyRule \<Rightarrow> FaxPolicyRule option" where
  "scoped_rule r =
    (if pr_Scope r = PolicyScopeDst
     then (if trim_space (pr_DstNumber r) = [] then None else Some (r\<lparr>pr_SrcNumber := []\<rparr>))
     else if pr_Scope r = PolicyScopeSrc
     then (if trim_space (pr_SrcNumber r) = [] then None else Some (r\<lparr>pr_DstNumber := []\<rparr>))
     else if pr_Scope r = PolicyScopePair
     then (if trim_space (pr_SrcNumber r) = [] \<or> trim_space (pr_DstNumber r) = [] then None else Some r)
     else None)"

definition effect_rule :: "FaxPolicyRule \<Rightarrow> FaxPolicyRule option" where
  "effect_rule r =
    (if pr_Effect r \<in> {PolicyEffectT38Off, PolicyEffectT38On, PolicyEffectECMOff, PolicyEffectECMOn,
                         PolicyEffectV17Off, PolicyEffectSoftmodemOnly}
     then Some (r\<lparr>pr_VarName := [], pr_VarValue := []\<rparr>)
     else if pr_Effect r = PolicyEffectVarOverride
     then let n = trim_space (pr_VarName r) in
       if \<not> gateway_name_ok n \<or> to_lower n \<in> set deniedVarOverrides \<or> trim_space (pr_VarValue r) = [] then None
       else Some (r\<lparr>pr_VarName := n\<rparr>)
     else None)"

definition applied_rule :: "FaxPolicyRule \<Rightarrow> FaxPolicyRule option" where
  "applied_rule r =
    (if pr_AppliesTo r = [] then Some (r\<lparr>pr_AppliesTo := ''both''\<rparr>)
     else if pr_AppliesTo r \<in> {''both'', CallTypeSoftmodem, CallTypeBridge} then Some r else None)"

definition validateFaxPolicyRule :: "FaxPolicyRule \<Rightarrow> FaxPolicyRule option" where
  "validateFaxPolicyRule r =
    (case scoped_rule r of None \<Rightarrow> None
     | Some r1 \<Rightarrow> (case effect_rule r1 of None \<Rightarrow> None | Some r2 \<Rightarrow> applied_rule r2))"

definition reload_policies :: "web_env \<Rightarrow> nat \<Rightarrow> 'b \<Rightarrow> ('f, 'b) handler" where
  "reload_policies env code b s =
    (case reloadFaxPolicies (we_policy_faults env) (we_now env) (ws_policies s) of
       (p, loaded) \<Rightarrow> (if loaded then Answer code (Some b) else refusal 500, s\<lparr>ws_policies := p\<rparr>))"

definition create_policy :: "FaxPolicyRule \<Rightarrow> policy_state \<Rightarrow> policy_state" where
  "create_policy r p = p\<lparr>pl_rules := pl_rules p @ [r\<lparr>pr_ID := pl_nextID p\<rparr>], pl_nextID := Suc (pl_nextID p)\<rparr>"

definition zero_rule :: FaxPolicyRule where
  "zero_rule = \<lparr>pr_ID = 0, pr_Scope = [], pr_SrcNumber = [], pr_DstNumber = [], pr_Effect = [], pr_AppliesTo = [],
     pr_Origin = [], pr_Enabled = False, pr_ExpiresAt = None, pr_VarName = [], pr_VarValue = [], pr_FailureCount = 0,
     pr_SuccessCount = 0, pr_LastSeenAt = None, pr_LastT38Status = [], pr_Notes = []\<rparr>"

definition handleFallbackNumber :: "web_env \<Rightarrow> string option \<Rightarrow> ('f, string \<times> nat) handler" where
  "handleFallbackNumber env payload s =
    (case payload of None \<Rightarrow> (refusal 400, s)
     | Some raw \<Rightarrow>
         let number = trim_space raw;
             rule = zero_rule\<lparr>pr_Scope := PolicyScopeDst, pr_DstNumber := number, pr_Effect := PolicyEffectT38Off,
                      pr_AppliesTo := ''both'', pr_Origin := PolicyOriginManual, pr_Enabled := True,
                      pr_Notes := ''created via deprecated /admin/fallback shim''\<rparr> in
         if number = [] then (refusal 400, s)
         else if we_faults env CreatePolicy then (refusal 500, s)
         else reload_policies env 200 (number, pl_nextID (ws_policies s))
                (s\<lparr>ws_policies := create_policy rule (ws_policies s)\<rparr>))"

record policy_filter =
  pf_Number :: string
  pf_Scope :: string
  pf_Effect :: string
  pf_Origin :: string
  pf_AppliesTo :: string

definition asked :: "string \<Rightarrow> (string \<Rightarrow> bool) \<Rightarrow> bool" where
  "asked v P \<longleftrightarrow> trim_space v = [] \<or> P (trim_space v)"

definition handleListFaxPolicies :: "web_env \<Rightarrow> policy_filter \<Rightarrow> ('f, FaxPolicyRule list) handler" where
  "handleListFaxPolicies env f s =
    (if we_faults env ListPolicies then (refusal 500, s)
     else (ok (sort_key pr_ID (filter (\<lambda>r. asked (pf_Number f) (\<lambda>n. pr_SrcNumber r = n \<or> pr_DstNumber r = n)
             \<and> asked (pf_Scope f) (\<lambda>v. pr_Scope r = v) \<and> asked (pf_Effect f) (\<lambda>v. pr_Effect r = v)
             \<and> asked (pf_Origin f) (\<lambda>v. pr_Origin r = v) \<and> asked (pf_AppliesTo f) (\<lambda>v. pr_AppliesTo r = v))
             (pl_rules (ws_policies s)))), s))"

definition handleCreateFaxPolicyRule :: "web_env \<Rightarrow> FaxPolicyRule option \<Rightarrow> ('f, FaxPolicyRule) handler" where
  "handleCreateFaxPolicyRule env payload s =
    (case payload of None \<Rightarrow> (refusal 400, s)
     | Some rule \<Rightarrow> (case validateFaxPolicyRule (rule\<lparr>pr_ID := 0, pr_Origin := PolicyOriginManual\<rparr>) of
         None \<Rightarrow> (refusal 400, s)
       | Some r \<Rightarrow>
           if we_faults env CreatePolicy then (refusal 500, s)
           else reload_policies env 201 (r\<lparr>pr_ID := pl_nextID (ws_policies s)\<rparr>)
                  (s\<lparr>ws_policies := create_policy r (ws_policies s)\<rparr>)))"

definition save_policy :: "FaxPolicyRule \<Rightarrow> policy_state \<Rightarrow> policy_state" where
  "save_policy r p = p\<lparr>pl_rules := map (\<lambda>x. if pr_ID x = pr_ID r then r else x) (pl_rules p)\<rparr>"

text \<open>The origin of a rule cannot be changed.\<close>

definition handleUpdateFaxPolicyRule :: "web_env \<Rightarrow> string \<Rightarrow> FaxPolicyRule option \<Rightarrow> ('f, FaxPolicyRule) handler" where
  "handleUpdateFaxPolicyRule env idStr payload s =
    (case path_id idStr of None \<Rightarrow> (refusal 400, s)
     | Some i \<Rightarrow>
       (case (if we_faults env FirstPolicy then None else List.find (\<lambda>r. pr_ID r = i) (pl_rules (ws_policies s))) of
          None \<Rightarrow> (refusal 404, s)
        | Some old \<Rightarrow> (case payload of None \<Rightarrow> (refusal 400, s)
          | Some rule \<Rightarrow> (case validateFaxPolicyRule (rule\<lparr>pr_ID := i, pr_Origin := pr_Origin old\<rparr>) of
              None \<Rightarrow> (refusal 400, s)
            | Some r \<Rightarrow>
                if we_faults env SavePolicy then (refusal 500, s)
                else reload_policies env 200 r (s\<lparr>ws_policies := save_policy r (ws_policies s)\<rparr>)))))"

definition handleDeleteFaxPolicyRule :: "web_env \<Rightarrow> string \<Rightarrow> ('f, unit) handler" where
  "handleDeleteFaxPolicyRule env idStr s =
    (case path_id idStr of None \<Rightarrow> (refusal 400, s)
     | Some i \<Rightarrow>
         if we_faults env DropPolicy then (refusal 500, s)
         else reload_policies env 200 () (s\<lparr>ws_policies := (ws_policies s)\<lparr>pl_rules :=
                filter (\<lambda>r. pr_ID r \<noteq> i) (pl_rules (ws_policies s))\<rparr>\<rparr>))"

definition handleExpireFaxPolicyRule :: "web_env \<Rightarrow> string \<Rightarrow> ('f, unit) handler" where
  "handleExpireFaxPolicyRule env idStr s =
    (case path_id idStr of None \<Rightarrow> (refusal 400, s)
     | Some i \<Rightarrow>
         if we_faults env ExpirePolicy then (refusal 500, s)
         else reload_policies env 200 () (s\<lparr>ws_policies := (ws_policies s)\<lparr>pl_rules :=
                map (\<lambda>r. if pr_ID r = i then r\<lparr>pr_ExpiresAt := Some (we_now env)\<rparr> else r) (pl_rules (ws_policies s))\<rparr>\<rparr>))"

definition handleResolveFaxPolicy ::
    "web_env \<Rightarrow> string \<Rightarrow> string \<Rightarrow> string \<Rightarrow> ('f, FaxPolicy \<times> FaxPolicyRule list) handler" where
  "handleResolveFaxPolicy env src dst ty s =
    (let srcNum = trim_space src; dstNum = trim_space dst;
         callType = (if trim_space ty = [] then CallTypeSoftmodem else trim_space ty);
         policy = ResolveFaxPolicy (we_faxing env) (pl_cache (ws_policies s)) srcNum dstNum callType (we_now env) in
     if callType \<noteq> CallTypeSoftmodem \<and> callType \<noteq> CallTypeBridge then (refusal 400, s)
     else if dstNum = [] \<and> srcNum = [] then (refusal 400, s)
     else if fp_AppliedRuleIDs policy = [] then (ok (policy, []), s)
     else if we_faults env ListPolicies then (refusal 500, s)
     else (ok (policy, filter (\<lambda>r. pr_ID r \<in> set (fp_AppliedRuleIDs policy)) (pl_rules (ws_policies s))), s))"

definition handleListFaxPairStates :: "web_env \<Rightarrow> string \<Rightarrow> ('f, FaxPairState list) handler" where
  "handleListFaxPairStates env number s =
    (if we_faults env ListPairs then (refusal 500, s)
     else (ok (take 500 (stable_sort (\<lambda>a b. ps_LastSeen a > ps_LastSeen b)
             (filter (\<lambda>p. asked number (\<lambda>n. ps_SrcNumber p = n \<or> ps_DstNumber p = n)) (pl_pairRows (ws_pairs s))))), s))"

definition handleDeleteFaxPairState :: "web_env \<Rightarrow> string \<Rightarrow> ('f, unit) handler" where
  "handleDeleteFaxPairState env idStr s =
    (case path_id idStr of None \<Rightarrow> (refusal 400, s)
     | Some i \<Rightarrow>
       (case (if we_faults env FirstPair then None else List.find (\<lambda>p. ps_ID p = i) (pl_pairRows (ws_pairs s))) of
          None \<Rightarrow> (refusal 404, s)
        | Some row \<Rightarrow>
            if we_faults env DropPair then (refusal 500, s)
            else (ok (), s\<lparr>ws_pairs := (ws_pairs s)\<lparr>
                   pl_pairRows := filter (\<lambda>p. ps_ID p \<noteq> i) (pl_pairRows (ws_pairs s)),
                   pl_pairStates := AList.delete (pairStateKey (ps_SrcNumber row) (ps_DstNumber row) (ps_CallType row))
                     (pl_pairStates (ws_pairs s))\<rparr>\<rparr>)))"

section \<open>Dialplan\<close>

definition reload_dialplan :: "web_env \<Rightarrow> nat \<Rightarrow> 'b \<Rightarrow> ('f, 'b) handler" where
  "reload_dialplan env code b s =
    (case reloadDialplan (we_dialplanDB env) (we_compile env) (we_faults env SeedCount) (we_faults env SeedCreate)
            (we_faults env SeedFind) (we_dialplanRules env) (ws_dialplan s) of
       (d, loaded) \<Rightarrow> (if loaded then Answer code (Some b) else refusal 500, s\<lparr>ws_dialplan := d\<rparr>))"

definition validateDialplanRule :: "web_env \<Rightarrow> DialplanRule \<Rightarrow> bool" where
  "validateDialplanRule env r \<longleftrightarrow> we_compile env (dr_Pattern r) (dr_Replacement r) \<noteq> None"

definition put_rows :: "(DialplanRule list \<Rightarrow> DialplanRule list) \<Rightarrow> nat \<Rightarrow> 'f web_state \<Rightarrow> 'f web_state" where
  "put_rows f n s = s\<lparr>ws_dialplan := ((fst (ws_dialplan s))\<lparr>dt_rows := f (dt_rows (fst (ws_dialplan s))), dt_nextID := n\<rparr>,
     snd (ws_dialplan s))\<rparr>"

definition handleGetDialplan :: "web_env \<Rightarrow> ('f, string \<times> DialplanRule list) handler" where
  "handleGetDialplan env s =
    (if we_faults env ListRows then (refusal 500, s)
     else (ok (if we_dialplanDB env then ''db'' else ''config'',
             stable_sort (\<lambda>a b. dr_Position a < dr_Position b) (dt_rows (fst (ws_dialplan s)))), s))"

text \<open>Without a position a rule goes to the end; when the query for the end fails it goes to position 1.\<close>

definition next_position :: "web_env \<Rightarrow> DialplanRule list \<Rightarrow> int" where
  "next_position env rows =
    (if we_faults env MaxPosition then 1
     else case map dr_Position rows of [] \<Rightarrow> 0 | p # ps \<Rightarrow> fold max ps p + 1)"

definition handleCreateDialplanRule :: "web_env \<Rightarrow> DialplanRule option \<Rightarrow> ('f, DialplanRule) handler" where
  "handleCreateDialplanRule env payload s =
    (case payload of None \<Rightarrow> (refusal 400, s)
     | Some rule \<Rightarrow>
         let t = fst (ws_dialplan s);
             r = rule\<lparr>dr_Position := (if dr_Position rule = 0 then next_position env (dt_rows t) else dr_Position rule),
                      dr_ID := (if dr_ID rule = 0 then dt_nextID t else dr_ID rule)\<rparr> in
         if \<not> validateDialplanRule env rule then (refusal 400, s)
         else if we_faults env CreateRow \<or> dr_ID r \<in> dr_ID ` set (dt_rows t) then (refusal 500, s)
         else reload_dialplan env 201 r (put_rows (\<lambda>rows. rows @ [r]) (Suc (dt_nextID t)) s))"

definition handleUpdateDialplanRule :: "web_env \<Rightarrow> string \<Rightarrow> DialplanRule option \<Rightarrow> ('f, DialplanRule) handler" where
  "handleUpdateDialplanRule env idStr payload s =
    (case path_id idStr of None \<Rightarrow> (refusal 400, s)
     | Some i \<Rightarrow> (case payload of None \<Rightarrow> (refusal 400, s)
       | Some rule \<Rightarrow>
           let t = fst (ws_dialplan s); r = rule\<lparr>dr_ID := (if i = 0 then dt_nextID t else i)\<rparr>;
               there = dr_ID r \<in> dr_ID ` set (dt_rows t) in
           if \<not> validateDialplanRule env rule then (refusal 400, s)
           else if we_faults env SaveDialplan then (refusal 500, s)
           else reload_dialplan env 200 r
                  (put_rows (\<lambda>rows. if there then map (\<lambda>x. if dr_ID x = dr_ID r then r else x) rows else rows @ [r])
                     (if there then dt_nextID t else Suc (dt_nextID t)) s)))"

definition handleDeleteDialplanRule :: "web_env \<Rightarrow> string \<Rightarrow> ('f, unit) handler" where
  "handleDeleteDialplanRule env idStr s =
    (case path_id idStr of None \<Rightarrow> (refusal 400, s)
     | Some i \<Rightarrow>
         if we_faults env DropRow then (refusal 500, s)
         else reload_dialplan env 200 ()
                (put_rows (filter (\<lambda>r. dr_ID r \<noteq> i)) (dt_nextID (fst (ws_dialplan s))) s))"

text \<open>The positions before a failed statement stay changed.\<close>

fun reorder_rows :: "web_env \<Rightarrow> (nat \<times> int) list \<Rightarrow> DialplanRule list \<Rightarrow> bool \<times> DialplanRule list" where
  "reorder_rows env [] rows = (True, rows)"
| "reorder_rows env ((i, p) # order) rows =
    (if we_faults env (MoveRow i) then (False, rows)
     else reorder_rows env order (map (\<lambda>r. if dr_ID r = i then r\<lparr>dr_Position := p\<rparr> else r) rows))"

definition handleReorderDialplanRules :: "web_env \<Rightarrow> (nat \<times> int) list option \<Rightarrow> ('f, unit) handler" where
  "handleReorderDialplanRules env payload s =
    (case payload of None \<Rightarrow> (refusal 400, s)
     | Some order \<Rightarrow>
         let t = fst (ws_dialplan s) in
         (case reorder_rows env order (dt_rows t) of
            (False, rows) \<Rightarrow> (refusal 500, put_rows (\<lambda>_. rows) (dt_nextID t) s)
          | (True, rows) \<Rightarrow> reload_dialplan env 200 () (put_rows (\<lambda>_. rows) (dt_nextID t) s)))"

end
