(* ===== verification/Web_Gateways.thy ===== *)
theory Web_Gateways
  imports Web_Admin
begin

text \<open>
  The handlers that provision gateways (\<open>gofaxserver/web_gateways.go\<close>) and run the sentry
  (\<open>web_security.go\<close>), the reload of the server's data (\<open>server.go\<close>), the log of a fax (\<open>web.go\<close>).
\<close>

section \<open>Templates\<close>

record gatewayTemplateView =
  tv_Template :: GatewayTemplate
  tv_Variables :: "string list"

definition template_view :: "gateway_env \<Rightarrow> GatewayTemplate \<Rightarrow> gatewayTemplateView option" where
  "template_view env t = map_option (\<lambda>vars. \<lparr>tv_Template = t, tv_Variables = vars\<rparr>) (TemplateVariables env (gt_Body t))"

fun templateViews :: "gateway_env \<Rightarrow> GatewayTemplate list \<Rightarrow> gatewayTemplateView list option" where
  "templateViews env [] = Some []"
| "templateViews env (t # ts) =
    (case template_view env t of None \<Rightarrow> None
     | Some v \<Rightarrow> map_option (\<lambda>vs. v # vs) (templateViews env ts))"

definition put_templates :: "(GatewayTemplate list \<Rightarrow> GatewayTemplate list) \<Rightarrow> 'f web_state \<Rightarrow> 'f web_state" where
  "put_templates f s = s\<lparr>ws_gateways := (ws_gateways s)\<lparr>gv_templates := f (gv_templates (ws_gateways s))\<rparr>\<rparr>"

definition handleListGatewayTemplates :: "web_env \<Rightarrow> ('f, gatewayTemplateView list) handler" where
  "handleListGatewayTemplates env s =
    (if we_faults env ListTemplates then (refusal 500, s)
     else case templateViews (we_gateway env) (gv_templates (ws_gateways s)) of
       None \<Rightarrow> (refusal 500, s) | Some views \<Rightarrow> (ok views, s))"

text \<open>An identifier the table has not seen: one above the largest.\<close>


definition handleCreateGatewayTemplate :: "web_env \<Rightarrow> GatewayTemplate option \<Rightarrow> ('f, gatewayTemplateView) handler" where
  "handleCreateGatewayTemplate env payload s =
    (case payload of None \<Rightarrow> (refusal 400, s)
     | Some tpl \<Rightarrow>
         let ts = gv_templates (ws_gateways s);
             t = tpl\<lparr>gt_ID := (if gt_ID tpl = 0 then we_newTemplateID env else gt_ID tpl)\<rparr> in
         if gt_Name tpl = [] \<or> gt_Body tpl = [] then (refusal 400, s)
         else (case template_view (we_gateway env) t of None \<Rightarrow> (refusal 400, s)
           | Some view \<Rightarrow>
               if we_faults env SaveTemplate \<or> gt_ID t \<in> gt_ID ` set ts \<or> gt_Name t \<in> gt_Name ` set ts then (refusal 500, s)
               else (Answer 201 (Some view), put_templates (\<lambda>ts. ts @ [t]) s)))"

definition handleUpdateGatewayTemplate ::
    "web_env \<Rightarrow> string \<Rightarrow> GatewayTemplate option \<Rightarrow> ('f, gatewayTemplateView) handler" where
  "handleUpdateGatewayTemplate env idStr payload s =
    (case path_id idStr of None \<Rightarrow> (refusal 400, s)
     | Some i \<Rightarrow> (case payload of None \<Rightarrow> (refusal 400, s)
       | Some tpl \<Rightarrow>
           let ts = gv_templates (ws_gateways s); t = tpl\<lparr>gt_ID := (if i = 0 then we_newTemplateID env else i)\<rparr> in
           (case template_view (we_gateway env) t of None \<Rightarrow> (refusal 400, s)
            | Some view \<Rightarrow>
                if we_faults env SaveTemplate \<or> list_ex (\<lambda>x. gt_Name x = gt_Name t \<and> gt_ID x \<noteq> gt_ID t) ts
                then (refusal 500, s)
                else (ok view, put_templates (\<lambda>ts. if gt_ID t \<in> gt_ID ` set ts
                        then map (\<lambda>x. if gt_ID x = gt_ID t then t else x) ts else ts @ [t]) s))))"

text \<open>A template that a gateway uses stays; a count that fails leaves zero.\<close>

definition template_in_use :: "web_env \<Rightarrow> nat \<Rightarrow> 'f gateway_state \<Rightarrow> bool" where
  "template_in_use env i g \<longleftrightarrow> \<not> we_faults env CountUses \<and> i \<in> gc_TemplateID ` set (gv_gateways g)"

definition handleDeleteGatewayTemplate :: "web_env \<Rightarrow> string \<Rightarrow> ('f, unit) handler" where
  "handleDeleteGatewayTemplate env idStr s =
    (case path_id idStr of None \<Rightarrow> (refusal 400, s)
     | Some i \<Rightarrow>
         if template_in_use env i (ws_gateways s) then (refusal 409, s)
         else if we_faults env DropTemplate then (refusal 500, s)
         else (ok (), put_templates (filter (\<lambda>t. gt_ID t \<noteq> i)) s))"

section \<open>Gateways\<close>

text \<open>The answer to a gateway operation: a status per error, and the state it leaves.\<close>

definition answer_gateway ::
    "(gateway_error \<Rightarrow> nat) \<Rightarrow> nat \<Rightarrow> ('f, 'b) gateway_result \<Rightarrow> 'f web_state \<Rightarrow> 'b answer \<times> 'f web_state" where
  "answer_gateway failed code r s =
    (case r of (Inl e, g) \<Rightarrow> (refusal (failed e), s\<lparr>ws_gateways := g\<rparr>)
     | (Inr b, g) \<Rightarrow> (Answer code (Some b), s\<lparr>ws_gateways := g\<rparr>))"

abbreviation internal_error :: "gateway_error \<Rightarrow> nat" where "internal_error e \<equiv> 500"

definition handleListGateways :: "web_env \<Rightarrow> ('f, GatewayStatus list \<times> UnmanagedFile list) handler" where
  "handleListGateways env s = answer_gateway internal_error 200 (ListGateways (we_gateway env) (ws_gateways s)) s"

definition handleAdoptGateway :: "web_env \<Rightarrow> string option \<Rightarrow> ('f, GatewayStatus) handler" where
  "handleAdoptGateway env payload s =
    (case payload of None \<Rightarrow> (refusal 400, s)
     | Some file \<Rightarrow>
         if file = [] then (refusal 400, s)
         else answer_gateway internal_error 201 (AdoptGateway (we_gateway env) file (ws_gateways s)) s)"

definition handleDeleteUnmanagedGateway :: "web_env \<Rightarrow> string \<Rightarrow> string \<Rightarrow> ('f, unit) handler" where
  "handleDeleteUnmanagedGateway env name confirm s =
    (if confirm \<noteq> ''true'' then (refusal 400, s)
     else answer_gateway internal_error 200 (DeleteUnmanagedGateway (we_gateway env) name (ws_gateways s)) s)"

definition handleRepairGateway :: "web_env \<Rightarrow> string \<Rightarrow> ('f, GatewayStatus) handler" where
  "handleRepairGateway env name s = answer_gateway internal_error 200 (RepairGateway (we_gateway env) name (ws_gateways s)) s"

definition handleProvisionGateway :: "web_env \<Rightarrow> GatewayProvisionSpec option \<Rightarrow> ('f, GatewayStatus) handler" where
  "handleProvisionGateway env payload s =
    (case payload of None \<Rightarrow> (refusal 400, s)
     | Some spec \<Rightarrow> answer_gateway internal_error 201 (ProvisionGateway (we_gateway env) spec (ws_gateways s)) s)"

definition handleUpdateGateway :: "web_env \<Rightarrow> string \<Rightarrow> GatewayProvisionSpec option \<Rightarrow> ('f, GatewayStatus) handler" where
  "handleUpdateGateway env name payload s =
    (case payload of None \<Rightarrow> (refusal 400, s)
     | Some spec \<Rightarrow> answer_gateway internal_error 200 (UpdateGateway (we_gateway env) name spec (ws_gateways s)) s)"

definition handleProvisionGatewayFromEndpoint :: "web_env \<Rightarrow> FromEndpointSpec option \<Rightarrow> ('f, GatewayStatus) handler" where
  "handleProvisionGatewayFromEndpoint env payload s =
    (case payload of None \<Rightarrow> (refusal 400, s)
     | Some spec \<Rightarrow>
         if fe_EndpointID spec = 0 \<or> fe_TemplateID spec = 0 then (refusal 400, s)
         else answer_gateway internal_error 201 (ProvisionGatewayFromEndpoint (we_gateway env) spec (ws_gateways s)) s)"

definition alias_status :: "gateway_error \<Rightarrow> nat" where
  "alias_status e = (case e of GatewayNotFound _ \<Rightarrow> 404 | AliasExists \<Rightarrow> 409 | AliasInvalid \<Rightarrow> 400 | _ \<Rightarrow> 500)"

definition handleCreateGatewayAlias :: "web_env \<Rightarrow> string \<Rightarrow> GatewayAliasSpec option \<Rightarrow> ('f, Endpoint) handler" where
  "handleCreateGatewayAlias env name payload s =
    (case payload of None \<Rightarrow> (refusal 400, s)
     | Some spec \<Rightarrow> answer_gateway alias_status 201 (CreateGatewayAlias (we_gateway env) name spec (ws_gateways s)) s)"

definition deprovision_status :: "gateway_error \<Rightarrow> nat" where
  "deprovision_status e = (if e = HasAliases then 409 else 500)"

definition handleDeprovisionGateway :: "web_env \<Rightarrow> string \<Rightarrow> ('f, unit) handler" where
  "handleDeprovisionGateway env name s =
     answer_gateway deprovision_status 200 (DeprovisionGateway (we_gateway env) name (ws_gateways s)) s"

definition handleRescanFSProfile :: "web_env \<Rightarrow> ('f, string) handler" where
  "handleRescanFSProfile env s =
    (case fsReloadGateways (we_gateway env) (ws_gateways s) of
       (done, g) \<Rightarrow> (if done then ok (gatewayProfile (we_gateway env)) else refusal 502, s\<lparr>ws_gateways := g\<rparr>))"

definition handleRestartFSProfile :: "web_env \<Rightarrow> string \<Rightarrow> ('f, string) handler" where
  "handleRestartFSProfile env confirm s =
    (if confirm \<noteq> ''true'' then (refusal 400, s)
     else case fsRestartProfile (we_gateway env) (ws_gateways s) of
       (done, g) \<Rightarrow> (if done then ok (gatewayProfile (we_gateway env)) else refusal 502, s\<lparr>ws_gateways := g\<rparr>))"

section \<open>The sentry\<close>

record SentryMetrics =
  sm_Enabled :: bool
  sm_Backend :: string
  sm_FailThreshold :: int
  sm_FailWindow :: duration
  sm_ActiveBans :: nat
  sm_TrackedIPs :: nat
  sm_Counters :: SentryCounters

definition no_counters :: SentryCounters where
  "no_counters = \<lparr>ct_failuresSeen = 0, ct_blockedHits = 0, ct_bansCreated = 0, ct_bansExpired = 0,
     ct_reconcileUnbans = 0, ct_manualBans = 0, ct_manualUnbans = 0, ct_enforceErrors = 0, ct_whitelistSkipped = 0\<rparr>"

definition Metrics :: "'f IPSentry \<Rightarrow> SentryMetrics" where
  "Metrics ip = \<lparr>sm_Enabled = True, sm_Backend = be_Name (se_backend ip), sm_FailThreshold = Threshold (se_cfg ip),
     sm_FailWindow = Window (se_cfg ip), sm_ActiveBans = length (se_banned ip), sm_TrackedIPs = length (se_failures ip),
     sm_Counters = se_counters ip\<rparr>"

definition handleSecurityStatus :: "web_env \<Rightarrow> ('f, SentryMetrics) handler" where
  "handleSecurityStatus env s =
    (case gv_sentry (ws_gateways s) of
       None \<Rightarrow> (ok \<lparr>sm_Enabled = False, sm_Backend = BackendName (we_security env), sm_FailThreshold = 0,
                sm_FailWindow = 0, sm_ActiveBans = 0, sm_TrackedIPs = 0, sm_Counters = no_counters\<rparr>, s)
     | Some sentry \<Rightarrow> (ok (Metrics sentry), s))"

definition put_sentry :: "'f IPSentry \<Rightarrow> 'f web_state \<Rightarrow> 'f web_state" where
  "put_sentry sentry s = s\<lparr>ws_gateways := (ws_gateways s)\<lparr>gv_sentry := Some sentry\<rparr>\<rparr>"

definition sentryOr404 :: "('f IPSentry \<Rightarrow> ('f, 'b) handler) \<Rightarrow> ('f, 'b) handler" where
  "sentryOr404 h s = (case gv_sentry (ws_gateways s) of None \<Rightarrow> (refusal 404, s) | Some sentry \<Rightarrow> h sentry s)"

definition handleListBlockedIPs :: "web_env \<Rightarrow> bool \<Rightarrow> ('f, BlockedIP list) handler" where
  "handleListBlockedIPs env everything =
     sentryOr404 (\<lambda>sentry s. (ok (ListBans (we_faults env ListBanRows) everything sentry), s))"

record banRequest =
  br_IP :: string
  br_Reason :: string
  br_Duration :: string

text \<open>The duration of a ban: absent for a permanent one, and it must be positive.\<close>

definition ban_duration :: "string \<Rightarrow> duration option option" where
  "ban_duration v =
    (if v = [] then Some None
     else case parse_duration v of None \<Rightarrow> None | Some d \<Rightarrow> if d \<le> 0 then None else Some (Some d))"

definition handleBanIP :: "web_env \<Rightarrow> banRequest option \<Rightarrow> ('f, string) handler" where
  "handleBanIP env payload = sentryOr404 (\<lambda>sentry s.
    (case payload of None \<Rightarrow> (refusal 400, s)
     | Some req \<Rightarrow>
         let ip = trim_space (br_IP req);
             reason = (if br_Reason req = [] then ''manual ban via admin API'' else br_Reason req) in
         if ip = [] then (refusal 400, s)
         else case ban_duration (br_Duration req) of None \<Rightarrow> (refusal 400, s)
         | Some d \<Rightarrow>
             (case BanManual (ge_sentry_faults (we_gateway env)) (we_now env) ip reason d sentry of
                (sentry1, Some _) \<Rightarrow> (refusal 409, put_sentry sentry1 s)
              | (sentry1, None) \<Rightarrow> (ok ip, put_sentry sentry1 s))))"

definition handleUnbanIP :: "web_env \<Rightarrow> string \<Rightarrow> ('f, string) handler" where
  "handleUnbanIP env v = sentryOr404 (\<lambda>sentry s.
    (let ip = trim_space v in
     if ip = [] then (refusal 400, s)
     else case UnbanIP (ge_sentry_faults (we_gateway env)) (we_now env) ip sentry of
       (sentry1, False) \<Rightarrow> (refusal 404, put_sentry sentry1 s)
     | (sentry1, True) \<Rightarrow> (ok ip, put_sentry sentry1 s)))"

section \<open>Reload and log\<close>

text \<open>Each step runs only after the one before it; what was loaded stays loaded.\<close>

definition ReloadData :: "web_env \<Rightarrow> 'f web_state \<Rightarrow> bool \<times> 'f web_state" where
  "ReloadData env s =
    (case reload_endpoints (we_gateway env) (ws_gateways s) of
       (False, g) \<Rightarrow> (False, s\<lparr>ws_gateways := g\<rparr>)
     | (True, g) \<Rightarrow>
         let s1 = s\<lparr>ws_gateways := g\<rparr> in
         (case reloadTenantsAndNumbers (we_faults env ListTenants) (we_faults env ListNumbers) (ws_server s1) of
            (sv, Inl _) \<Rightarrow> (False, put_server sv s1)
          | (sv, Inr _) \<Rightarrow>
              (case reload_dialplan env 200 () (put_server sv s1) of
                 (Answer _ None, s2) \<Rightarrow> (False, s2)
               | (Answer _ (Some _), s2) \<Rightarrow>
                   (case reload_policies env 200 () s2 of (Answer _ b, s3) \<Rightarrow> (b \<noteq> None, s3)))))"

definition handleReloadData :: "web_env \<Rightarrow> ('f, unit) handler" where
  "handleReloadData env s = (case ReloadData env s of (loaded, s1) \<Rightarrow> (if loaded then ok () else refusal 500, s1))"

definition getFaxLogByUUID :: "web_env \<Rightarrow> string \<Rightarrow> ('f, FaxJobResult list) handler" where
  "getFaxLogByUUID env uuidStr s =
    (if uuidStr = [] then (refusal 400, s)
     else case ps_UUID (we_parsers env) uuidStr of None \<Rightarrow> (refusal 400, s)
     | Some u \<Rightarrow>
         if we_faults env FindResults then (refusal 500, s)
         else (ok (filter (\<lambda>r. jr_JobUUID r = u) (ws_results s)), s))"

end
