(* ===== verification/Web_Paths.thy ===== *)
theory Web_Paths
  imports Web_Gateways
begin

text \<open>
  The requests of the administration API (\<open>loadWebPaths\<close> in \<open>gofaxserver/web.go\<close>), each behind the check of the
  key, as steps on the state of the web server; the invariants that every sequence of requests keeps.
\<close>

section \<open>Requests\<close>

text \<open>Path and query parameters are strings, a body is \<open>None\<close> when it cannot be read.\<close>

datatype directory_request =
  GetReload | GetFaxes | GetFaxResults url_values
| GetTenants | GetNumbers string | GetUsers string
| PostTenant "Tenant option" | PutTenant string "Tenant option" | DeleteTenant string
| PostNumber "TenantNumber option" | PutNumber string "TenantNumber option" | DeleteNumber string string
| PostUser "TenantUser option" | PutUser string "TenantUser option" | DeleteUserPath string

datatype endpoint_request =
  GetEndpoints string string | PostEndpoint "Endpoint option" | PutEndpoint string "Endpoint option"
| DeleteEndpointPath string

datatype policy_request =
  PostFallback "string option"
| GetFaxPolicies policy_filter | PostFaxPolicy "FaxPolicyRule option" | PutFaxPolicy string "FaxPolicyRule option"
| DeleteFaxPolicy string | ExpireFaxPolicy string | ResolvePolicy string string string
| GetPairStates string | DeletePairState string

datatype gateway_request =
  GetTemplates | PostTemplate "GatewayTemplate option" | PutTemplate string "GatewayTemplate option"
| DeleteTemplate string
| GetGateways | AdoptRequest "string option" | FromEndpointRequest "FromEndpointSpec option"
| DeleteUnmanaged string string | PostGateway "GatewayProvisionSpec option"
| PutGateway string "GatewayProvisionSpec option" | PostAlias string "GatewayAliasSpec option"
| RepairRequest string | DeleteGatewayPath string
| RescanRequest | RestartRequest string

datatype other_request =
  GetSecurityStatus | GetBlockedIPs bool | PostBan "banRequest option" | DeleteBan string
| GetDialplan | PostDialplan "DialplanRule option" | PutDialplan string "DialplanRule option"
| DeleteDialplan string | ReorderDialplan "(nat \<times> int) list option"

datatype request =
  Directory directory_request | Endpoints endpoint_request | Policies policy_request | Gateways gateway_request
| Others other_request

definition report_request :: "web_env \<Rightarrow> url_values \<Rightarrow> ('f, nat \<times> FaxResultGroup list) handler" where
  "report_request env v s =
    (case handleListFaxResults (we_parsers env) (we_report_faults env) v (ws_results s) of
       ReportRefused _ \<Rightarrow> (refusal 400, s) | ReportFailed \<Rightarrow> (refusal 500, s) | Report n items \<Rightarrow> (ok (n, items), s))"

text \<open>The status of an answer, without its body.\<close>

definition headers :: "('f, 'b) handler \<Rightarrow> ('f, unit) handler" where
  "headers h s = (case h s of (Answer c b, s1) \<Rightarrow> (Answer c (map_option (\<lambda>_. ()) b), s1))"

fun directory_path :: "web_env \<Rightarrow> directory_request \<Rightarrow> ('f, unit) handler" where
  "directory_path env GetReload = headers (handleReloadData env)"
| "directory_path env GetFaxes = headers handleFaxes"
| "directory_path env (GetFaxResults v) = headers (report_request env v)"
| "directory_path env GetTenants = headers (handleListTenants env)"
| "directory_path env (GetNumbers v) = headers (handleListTenantNumbers env v)"
| "directory_path env (GetUsers v) = headers (handleListTenantUsers env v)"
| "directory_path env (PostTenant b) = headers (handleAddTenant env b)"
| "directory_path env (PutTenant i b) = headers (handleUpdateTenant env i b)"
| "directory_path env (DeleteTenant i) = headers (handleDeleteTenant env i)"
| "directory_path env (PostNumber b) = headers (handleAddTenantNumber env b)"
| "directory_path env (PutNumber i b) = headers (handleUpdateTenantNumber env i b)"
| "directory_path env (DeleteNumber n t) = headers (handleDeleteTenantNumber env n t)"
| "directory_path env (PostUser b) = headers (handleAddTenantUser env b)"
| "directory_path env (PutUser i b) = headers (handleUpdateTenantUser env i b)"
| "directory_path env (DeleteUserPath i) = headers (handleDeleteTenantUser env i)"

fun endpoint_path :: "web_env \<Rightarrow> endpoint_request \<Rightarrow> ('f, unit) handler" where
  "endpoint_path env (GetEndpoints ty v) = headers (handleListEndpoints env ty v)"
| "endpoint_path env (PostEndpoint b) = headers (handleAddEndpoint env b)"
| "endpoint_path env (PutEndpoint i b) = headers (handleUpdateEndpoint env i b)"
| "endpoint_path env (DeleteEndpointPath i) = headers (handleDeleteEndpoint env i)"

fun policy_path :: "web_env \<Rightarrow> policy_request \<Rightarrow> ('f, unit) handler" where
  "policy_path env (PostFallback b) = headers (handleFallbackNumber env b)"
| "policy_path env (GetFaxPolicies f) = headers (handleListFaxPolicies env f)"
| "policy_path env (PostFaxPolicy b) = headers (handleCreateFaxPolicyRule env b)"
| "policy_path env (PutFaxPolicy i b) = headers (handleUpdateFaxPolicyRule env i b)"
| "policy_path env (DeleteFaxPolicy i) = headers (handleDeleteFaxPolicyRule env i)"
| "policy_path env (ExpireFaxPolicy i) = headers (handleExpireFaxPolicyRule env i)"
| "policy_path env (ResolvePolicy src dst ty) = headers (handleResolveFaxPolicy env src dst ty)"
| "policy_path env (GetPairStates n) = headers (handleListFaxPairStates env n)"
| "policy_path env (DeletePairState i) = headers (handleDeleteFaxPairState env i)"

fun gateway_path :: "web_env \<Rightarrow> gateway_request \<Rightarrow> ('f, unit) handler" where
  "gateway_path env GetTemplates = headers (handleListGatewayTemplates env)"
| "gateway_path env (PostTemplate b) = headers (handleCreateGatewayTemplate env b)"
| "gateway_path env (PutTemplate i b) = headers (handleUpdateGatewayTemplate env i b)"
| "gateway_path env (DeleteTemplate i) = headers (handleDeleteGatewayTemplate env i)"
| "gateway_path env GetGateways = headers (handleListGateways env)"
| "gateway_path env (AdoptRequest b) = headers (handleAdoptGateway env b)"
| "gateway_path env (FromEndpointRequest b) = headers (handleProvisionGatewayFromEndpoint env b)"
| "gateway_path env (DeleteUnmanaged n c) = headers (handleDeleteUnmanagedGateway env n c)"
| "gateway_path env (PostGateway b) = headers (handleProvisionGateway env b)"
| "gateway_path env (PutGateway n b) = headers (handleUpdateGateway env n b)"
| "gateway_path env (PostAlias n b) = headers (handleCreateGatewayAlias env n b)"
| "gateway_path env (RepairRequest n) = headers (handleRepairGateway env n)"
| "gateway_path env (DeleteGatewayPath n) = headers (handleDeprovisionGateway env n)"
| "gateway_path env RescanRequest = headers (handleRescanFSProfile env)"
| "gateway_path env (RestartRequest c) = headers (handleRestartFSProfile env c)"

fun other_path :: "web_env \<Rightarrow> other_request \<Rightarrow> ('f, unit) handler" where
  "other_path env GetSecurityStatus = headers (handleSecurityStatus env)"
| "other_path env (GetBlockedIPs e) = headers (handleListBlockedIPs env e)"
| "other_path env (PostBan b) = headers (handleBanIP env b)"
| "other_path env (DeleteBan i) = headers (handleUnbanIP env i)"
| "other_path env GetDialplan = headers (handleGetDialplan env)"
| "other_path env (PostDialplan b) = headers (handleCreateDialplanRule env b)"
| "other_path env (PutDialplan i b) = headers (handleUpdateDialplanRule env i b)"
| "other_path env (DeleteDialplan i) = headers (handleDeleteDialplanRule env i)"
| "other_path env (ReorderDialplan b) = headers (handleReorderDialplanRules env b)"

fun serve_request :: "web_env \<Rightarrow> request \<Rightarrow> ('f, unit) handler" where
  "serve_request env (Directory r) = directory_path env r"
| "serve_request env (Endpoints r) = endpoint_path env r"
| "serve_request env (Policies r) = policy_path env r"
| "serve_request env (Gateways r) = gateway_path env r"
| "serve_request env (Others r) = other_path env r"

definition serve_admin :: "web_env \<Rightarrow> string \<Rightarrow> request \<Rightarrow> ('f, unit) handler" where
  "serve_admin env hdr req = basicAuthMiddleware env hdr (serve_request env req)"

lemma snd_headers [simp]: "snd (headers h s) = snd (h s)"
  by (simp add: headers_def split: prod.splits answer.splits)

lemma status_headers [simp]: "status (fst (headers h s)) = status (fst (h s))"
  by (simp add: headers_def split: prod.splits answer.splits)

lemma serve_cases:
  assumes "serve_admin env hdr req s = (a, s')"
  obtains (stopped) "s' = s" "status a \<in> {401, 500}" | (served) "serve_request env req s = (a, s')"
  using assms by (auto simp: serve_admin_def basicAuthMiddleware_def unauthorized_def split: if_splits option.splits prod.splits)

section \<open>Requests that leave the gateways and endpoints alone\<close>

text \<open>Gateways, their files and the endpoint rows are as they were.\<close>

definition same_rows :: "'f web_state \<Rightarrow> 'f web_state \<Rightarrow> bool" where
  "same_rows s t \<longleftrightarrow> gv_gateways (ws_gateways t) = gv_gateways (ws_gateways s)
     \<and> gv_nextID (ws_gateways t) = gv_nextID (ws_gateways s)
     \<and> gv_files (ws_gateways t) = gv_files (ws_gateways s)
     \<and> db_endpoints (ws_server t) = db_endpoints (ws_server s)"

lemma same_rows_refl [simp]: "same_rows s s"
  by (simp add: same_rows_def)

lemma same_rows_trans: "\<lbrakk>same_rows s t; same_rows t u\<rbrakk> \<Longrightarrow> same_rows s u"
  by (simp add: same_rows_def)

lemma same_rows_updates [simp]:
  "same_rows s (t\<lparr>ws_users := u\<rparr>) = same_rows s t" "same_rows s (t\<lparr>ws_nextID := n\<rparr>) = same_rows s t"
  "same_rows s (t\<lparr>ws_policies := p\<rparr>) = same_rows s t" "same_rows s (t\<lparr>ws_pairs := q\<rparr>) = same_rows s t"
  "same_rows s (t\<lparr>ws_dialplan := d\<rparr>) = same_rows s t"
  by (simp_all add: same_rows_def)

lemma same_rows_server: "db_endpoints sv = db_endpoints (ws_server s) \<Longrightarrow> same_rows s (put_server sv s)"
  by (simp add: same_rows_def put_server_def)

lemma same_rows_templates [simp]: "same_rows s (put_templates f s)"
  by (simp add: same_rows_def put_templates_def)

lemma same_rows_sentry [simp]: "same_rows s (put_sentry x s)"
  by (simp add: same_rows_def put_sentry_def)

lemma same_rows_policies: "same_rows s (snd (reload_policies env c b s))"
  by (simp add: reload_policies_def split: prod.splits)

lemma same_rows_dialplan: "same_rows s (snd (reload_dialplan env c b s))"
  by (simp add: reload_dialplan_def split: prod.splits)

lemma same_rows_put_rows [simp]: "same_rows s (put_rows f n t) = same_rows s t"
  by (simp add: put_rows_def)

lemma addTenantNumber_rows: "addTenantNumber fail t n sv = (sv', r) \<Longrightarrow> db_endpoints sv' = db_endpoints sv"
  by (auto simp: addTenantNumber_def Let_def split: if_splits)

lemma removeTenantNumber_rows: "removeTenantNumber fail t n sv = (sv', r) \<Longrightarrow> db_endpoints sv' = db_endpoints sv"
  by (auto simp: removeTenantNumber_def split: if_splits option.splits)

lemma reload_tenants_rows:
  "reloadTenantsAndNumbers f g sv = (sv', r) \<Longrightarrow> db_endpoints sv' = db_endpoints sv"
  by (auto simp: reloadTenantsAndNumbers_def loadTenants_def loadTenantNumbers_def Let_def split: if_splits)

lemma same_rows_reload:
  "reload_endpoints env (ws_gateways s) = (b, g) \<Longrightarrow> same_rows s (s\<lparr>ws_gateways := g\<rparr>)"
  by (auto simp: same_rows_def dest!: reload_endpoints_rows)

lemma ReloadData_rows: "same_rows s (snd (ReloadData env s))"
proof -
  obtain b g where g: "reload_endpoints (we_gateway env) (ws_gateways s) = (b, g)"
    by fastforce
  let ?s1 = "s\<lparr>ws_gateways := g\<rparr>"
  obtain sv r where sv: "reloadTenantsAndNumbers (we_faults env ListTenants) (we_faults env ListNumbers) (ws_server ?s1) = (sv, r)"
    by fastforce
  have s1: "same_rows s ?s1"
    by (rule same_rows_reload [OF g])
  have s2: "same_rows s (put_server sv ?s1)"
    by (rule same_rows_trans [OF s1 same_rows_server]) (use reload_tenants_rows [OF sv] in simp)
  have s3: "same_rows s (snd (reload_dialplan env 200 () (put_server sv ?s1)))"
    by (rule same_rows_trans [OF s2 same_rows_dialplan])
  have s4: "same_rows s (snd (reload_policies env 200 () (snd (reload_dialplan env 200 () (put_server sv ?s1)))))"
    by (rule same_rows_trans [OF s3 same_rows_policies])
  show ?thesis
    using g sv s1 s2 s3 s4
    by (auto simp: ReloadData_def Let_def split: bool.splits sum.splits prod.splits answer.splits option.splits)
qed

lemma directory_rows:
  assumes "directory_path env r s = (a, t)" shows "same_rows s t"
proof -
  have "same_rows s (snd (directory_path env r s))"
  proof (cases r)
    case GetReload
    then show ?thesis using ReloadData_rows [of s env] by (auto simp: handleReloadData_def split: prod.splits)
  next
    case (PostNumber b)
    then show ?thesis
      by (auto simp: handleAddTenantNumber_def split: option.splits prod.splits sum.splits
          intro!: same_rows_server dest!: addTenantNumber_rows)
  next
    case (DeleteNumber n i)
    then show ?thesis
      by (auto simp: handleDeleteTenantNumber_def split: option.splits prod.splits sum.splits
          intro!: same_rows_server dest!: removeTenantNumber_rows)
  qed (simp_all add: handleFaxes_def report_request_def handleListTenants_def handleListTenantNumbers_def filtered_def
      handleListTenantUsers_def handleAddTenant_def handleUpdateTenant_def handleDeleteTenant_def
      handleUpdateTenantNumber_def handleAddTenantUser_def AddTenantUser_def handleUpdateTenantUser_def
      UpdateTenantUser_def save_user_def update_fields_def handleDeleteTenantUser_def DeleteTenantUser_def Let_def
      same_rows_server split: option.splits report_answer.splits)
  then show ?thesis by (simp add: assms)
qed

lemma policy_rows:
  assumes "policy_path env r s = (a, t)" shows "same_rows s t"
proof -
  have load: "same_rows s (snd (reload_policies env c b (s\<lparr>ws_policies := p\<rparr>)))" for c p and b :: 'b
    by (rule same_rows_trans [OF _ same_rows_policies]) simp
  have "same_rows s (snd (policy_path env r s))"
    by (cases r) (simp_all add: handleFallbackNumber_def handleListFaxPolicies_def handleCreateFaxPolicyRule_def
        handleUpdateFaxPolicyRule_def handleDeleteFaxPolicyRule_def handleExpireFaxPolicyRule_def
        handleResolveFaxPolicy_def handleListFaxPairStates_def handleDeleteFaxPairState_def Let_def load
        split: option.splits)
  then show ?thesis by (simp add: assms)
qed

lemma other_rows:
  assumes "other_path env r s = (a, t)" shows "same_rows s t"
proof -
  have load: "same_rows s (snd (reload_dialplan env c b (put_rows f n s)))" for c f n and b :: 'b
    by (rule same_rows_trans [OF _ same_rows_dialplan]) simp
  have "same_rows s (snd (other_path env r s))"
    by (cases r) (simp_all add: handleSecurityStatus_def handleListBlockedIPs_def sentryOr404_def handleBanIP_def
        handleUnbanIP_def handleGetDialplan_def handleCreateDialplanRule_def handleUpdateDialplanRule_def
        handleDeleteDialplanRule_def handleReorderDialplanRules_def Let_def load
        split: option.splits prod.splits bool.splits)
  then show ?thesis by (simp add: assms)
qed

section \<open>Requests on gateways\<close>

lemma answer_gateway_state: "ws_gateways (snd (answer_gateway f c r s)) = snd r"
  by (simp add: answer_gateway_def split: prod.splits sum.splits)

lemma gateway_rows:
  assumes "gateway_path env r s = (a, t)"
  shows "same_rows s t \<or> gw_step (ws_gateways s) (ws_gateways t)"
proof -
  let ?t = "snd (gateway_path env r s)"
  have sent: "same_rows s (s\<lparr>ws_gateways := g\<rparr>)" if "\<exists>x. g = (ws_gateways s)\<lparr>gv_sent := x\<rparr>" for g
    using that by (auto simp: same_rows_def)
  have restart: "\<exists>x. g = (ws_gateways s)\<lparr>gv_sent := x\<rparr>" if "fsRestartProfile ge (ws_gateways s) = (b, g)" for ge b g
    using that by (auto simp: fsRestartProfile_def dest: fsAPI_sent split: prod.splits)
  note steps = gw_step.intros(1-9) [OF surjective_pairing]
  have "same_rows s ?t \<or> gw_step (ws_gateways s) (ws_gateways ?t)"
  proof (cases r)
    case RescanRequest
    then show ?thesis
      using sent [OF fsReloadGateways_sent] by (auto simp: handleRescanFSProfile_def split: prod.splits)
  next
    case (RestartRequest c)
    then show ?thesis
      using sent [OF restart] by (auto simp: handleRestartFSProfile_def split: prod.splits)
  qed (simp_all add: handleListGatewayTemplates_def handleCreateGatewayTemplate_def handleUpdateGatewayTemplate_def
      handleDeleteGatewayTemplate_def handleListGateways_def handleAdoptGateway_def
      handleProvisionGatewayFromEndpoint_def handleDeleteUnmanagedGateway_def handleProvisionGateway_def
      handleUpdateGateway_def handleCreateGatewayAlias_def handleRepairGateway_def handleDeprovisionGateway_def
      Let_def answer_gateway_state steps split: option.splits)
  then show ?thesis by (simp add: assms)
qed

section \<open>Requests on endpoints\<close>

lemma held_frame:
  "\<lbrakk>held g; gv_gateways g' = gv_gateways g; gv_nextID g' = gv_nextID g;
    db_endpoints (gv_server g') = db_endpoints (gv_server g)\<rbrakk> \<Longrightarrow> held g'"
  by (simp add: held_def gw_inv_def linked_def)

lemma held_same_rows: "\<lbrakk>held (ws_gateways s); same_rows s t\<rbrakk> \<Longrightarrow> held (ws_gateways t)"
  by (erule held_frame) (simp_all add: same_rows_def)

lemma held_put:
  assumes "held (ws_gateways s)" "distinct (map ep_ID (db_endpoints sv))"
    and "linked_rows (gv_gateways (ws_gateways s)) (db_endpoints sv)"
  shows "held (ws_gateways (put_server sv s))"
  using assms by (simp add: held_def gw_inv_def linked_def put_server_def)

lemma held_reload_then: "held (ws_gateways s) \<Longrightarrow> held (ws_gateways (snd (reload_then env b s)))"
  by (auto simp: reload_then_def dest!: reload_endpoints_rows intro: held_frame split: prod.splits)

lemma held_parts:
  assumes "held (ws_gateways s)"
  shows "distinct (map ep_ID (db_endpoints (ws_server s)))"
    "linked_rows (gv_gateways (ws_gateways s)) (db_endpoints (ws_server s))"
  using assms by (simp_all add: held_def gw_inv_def linked_def)

lemma added_rows:
  "addEndpointToDB fail ep sv = (sv', r) \<Longrightarrow> db_endpoints sv' = db_endpoints sv
    \<or> (\<exists>x. db_endpoints sv' = db_endpoints sv @ [x] \<and> ep_ID x \<notin> ep_ID ` set (db_endpoints sv))"
  by (auto simp: addEndpointToDB_def Let_def dest!: addEndpoint_rows split: if_splits)

lemma removed_rows:
  "removeEndpointFromDB fail i sv = (sv', r) \<Longrightarrow> db_endpoints sv' = db_endpoints sv
    \<or> db_endpoints sv' = filter (\<lambda>ep. ep_ID ep \<noteq> i) (db_endpoints sv)"
  by (auto simp: removeEndpointFromDB_def dest!: removeEndpoint_rows split: if_splits)

lemma updated_rows:
  "updateEndpoint fail ep sv = (sv', r) \<Longrightarrow> db_endpoints sv' = db_endpoints sv
    \<or> db_endpoints sv' = map (\<lambda>q. if ep_ID q = ep_ID ep then ep else q) (db_endpoints sv)
    \<or> db_endpoints sv' = db_endpoints sv @ [ep]"
  by (auto simp: updateEndpoint_def Let_def dest!: removeEndpoint_rows addEndpoint_rows split: if_splits prod.splits sum.splits)

lemma unmanaged:
  assumes "gatewayManagingEndpoint env i g = None" "\<not> ge_faults env FindManaging" "gw \<in> set (gv_gateways g)"
  shows "gc_EndpointID gw \<noteq> i"
  using assms by (auto simp: gatewayManagingEndpoint_def find_None_iff)

lemma linked_rows_replace:
  assumes "linked_rows gws eps" "\<And>g. g \<in> set gws \<Longrightarrow> gc_EndpointID g \<noteq> ep_ID ep"
  shows "linked_rows gws (map (\<lambda>q. if ep_ID q = ep_ID ep then ep else q) eps)"
  unfolding linked_rows_def list_all_iff
proof
  fix g
  assume g: "g \<in> set gws"
  show "gc_EndpointID g = 0 \<or> list_ex (routes g) (map (\<lambda>q. if ep_ID q = ep_ID ep then ep else q) eps)"
  proof (cases "gc_EndpointID g = 0")
    case False
    then obtain e where e: "e \<in> set eps" "routes g e"
      using assms(1) g by (auto simp: linked_rows_def list_all_iff list_ex_iff)
    then have "ep_ID e \<noteq> ep_ID ep"
      using assms(2) [OF g] by (simp add: routes_def)
    then show ?thesis
      using e by (auto simp: list_ex_iff image_iff intro!: bexI [of _ e])
  qed simp
qed

lemma held_add:
  assumes "held (ws_gateways s)" "addEndpointToDB fail ep (ws_server s) = (sv, r)"
  shows "held (ws_gateways (put_server sv s))"
  using added_rows [OF assms(2)] held_parts [OF assms(1)]
  by (intro held_put [OF assms(1)]) (auto simp: linked_rows_more)

lemma held_remove:
  assumes "held (ws_gateways s)" "removeEndpointFromDB fail i (ws_server s) = (sv, r)"
    and "\<And>g. g \<in> set (gv_gateways (ws_gateways s)) \<Longrightarrow> gc_EndpointID g \<noteq> i"
  shows "held (ws_gateways (put_server sv s))"
  using removed_rows [OF assms(2)] held_parts [OF assms(1)] assms(3)
  by (intro held_put [OF assms(1)]) (auto simp: distinct_map_filter linked_rows_filter)

lemma held_update:
  assumes "held (ws_gateways s)" "updateEndpoint fail ep (ws_server s) = (sv, r)"
    and "\<And>g. g \<in> set (gv_gateways (ws_gateways s)) \<Longrightarrow> gc_EndpointID g \<noteq> ep_ID ep"
  shows "held (ws_gateways (put_server sv s))"
proof (rule held_put [OF assms(1)])
  show "distinct (map ep_ID (db_endpoints sv))"
    using updateEndpoint_ids [OF assms(2)] held_parts(1) [OF assms(1)] by auto
  show "linked_rows (gv_gateways (ws_gateways s)) (db_endpoints sv)"
    using updated_rows [OF assms(2)] held_parts(2) [OF assms(1)]
      linked_rows_replace [OF held_parts(2) [OF assms(1)] assms(3)]
    by (auto simp: linked_rows_more)
qed

lemma endpoint_held:
  assumes "held (ws_gateways s)" "\<not> ge_faults (we_gateway env) FindManaging" "endpoint_path env r s = (a, t)"
  shows "held (ws_gateways t)"
proof -
  have "held (ws_gateways (snd (endpoint_path env r s)))"
  proof (cases r)
    case (GetEndpoints ty v)
    then show ?thesis using assms(1) by (simp add: handleListEndpoints_def filtered_def split: option.splits)
  next
    case (PostEndpoint b)
    then show ?thesis
      using assms(1) by (auto simp: handleAddEndpoint_def split: option.splits prod.splits sum.splits
          intro!: held_reload_then intro: held_add)
  next
    case (DeleteEndpointPath i)
    then show ?thesis
      using assms(1,2) by (auto simp: handleDeleteEndpoint_def split: option.splits prod.splits sum.splits
          intro!: held_reload_then dest: unmanaged intro: held_remove)
  next
    case (PutEndpoint i b)
    have "held (ws_gateways (put_server sv s))"
      if "gatewayManagingEndpoint (we_gateway env) j (ws_gateways s) = None"
        "updateEndpoint fail (ep\<lparr>ep_ID := j\<rparr>) (ws_server s) = (sv, r)" for j fail ep sv r
      by (rule held_update [OF assms(1) that(2)]) (simp add: unmanaged [OF that(1) assms(2)])
    then show ?thesis
      using PutEndpoint assms(1) by (auto simp: handleUpdateEndpoint_def Let_def
          split: option.splits prod.splits sum.splits intro!: held_reload_then)
  qed
  then show ?thesis by (simp add: assms(3))
qed

section \<open>Every sequence of requests\<close>

text \<open>A step is a request, with any key, any answers of the switch and any failures but that of the query for the
  gateway that manages an endpoint, or a step of the gateways of its own, as a tick of the monitor.\<close>

inductive web_step :: "'f web_state \<Rightarrow> 'f web_state \<Rightarrow> bool" where
  step_request: "\<lbrakk>serve_admin env hdr req s = (a, s'); \<not> ge_faults (we_gateway env) FindManaging\<rbrakk> \<Longrightarrow> web_step s s'"
| step_gateways: "gw_step (ws_gateways s) g \<Longrightarrow> web_step s (s\<lparr>ws_gateways := g\<rparr>)"

inductive_cases web_stepE: "web_step s t"

lemma held_dispatch:
  assumes "held (ws_gateways s)" "\<not> ge_faults (we_gateway env) FindManaging" "serve_request env req s = (a, t)"
  shows "held (ws_gateways t)"
proof (cases req)
  case (Endpoints r)
  then show ?thesis using endpoint_held assms by simp
next
  case (Gateways r)
  then show ?thesis using assms gateway_rows held_same_rows held_gw_step by (metis serve_request.simps(4))
qed (use assms held_same_rows directory_rows policy_rows other_rows in \<open>metis serve_request.simps\<close>)+

lemma held_web_step: "\<lbrakk>held (ws_gateways s); web_step s t\<rbrakk> \<Longrightarrow> held (ws_gateways t)"
  by (erule web_stepE) (auto elim!: serve_cases dest: held_dispatch held_gw_step)

interpretation web_links: step_invariant web_step s0 "\<lambda>s. held (ws_gateways s0) \<longrightarrow> held (ws_gateways s)" for s0
  by unfold_locales (auto intro: held_web_step)

section \<open>Properties\<close>

text \<open>C27: Whatever administration requests are served, with any key and any failures but that of the query for the
  gateway that manages an endpoint, and however gateways are provisioned, updated and monitored in between: the
  endpoint a provisioned gateway is linked to exists, is a gateway endpoint, and its value starts with the name of
  the gateway.\<close>

theorem linked_endpoints_kept:
  assumes "held (ws_gateways s0)" "reach web_step s0 s" "gw \<in> set (gv_gateways (ws_gateways s))"
    and "gc_EndpointID gw \<noteq> 0"
  shows "\<exists>ep \<in> set (db_endpoints (ws_server s)). ep_ID ep = gc_EndpointID gw \<and> ep_EndpointType ep = ''gateway''
    \<and> before_sep (CHR '':'') (ep_Endpoint ep) = gc_Name gw"
proof -
  have "held (ws_gateways s)"
    using web_links.reach_holds [OF assms(2)] assms(1) by simp
  then have "linked_rows (gv_gateways (ws_gateways s)) (db_endpoints (ws_server s))" "gateway_name_ok (gc_Name gw)"
    using assms(3) by (auto simp: held_def linked_def gw_inv_def list_all_iff)
  then show ?thesis
    using assms(3,4) by (auto simp: linked_rows_def list_all_iff list_ex_iff routes_def simp flip: alias_value_exact)
qed

text \<open>The guard of managed endpoints fails open: when a request deletes the endpoint of a gateway, the query for
  the managing gateway has failed, and the gateway is left without its endpoint.\<close>

theorem failed_lookup_drops_managed_endpoint:
  assumes "handleDeleteEndpoint env i s = (ok (), s')" "path_id i = Some (gc_EndpointID gw)"
    and "gw \<in> set (gv_gateways (ws_gateways s))"
  shows "ge_faults (we_gateway env) FindManaging \<and> gw \<in> set (gv_gateways (ws_gateways s'))
    \<and> gc_EndpointID gw \<notin> ep_ID ` set (db_endpoints (ws_server s'))"
proof -
  have none: "gatewayManagingEndpoint (we_gateway env) (gc_EndpointID gw) (ws_gateways s) = None"
    using assms(1,2) by (auto simp: handleDeleteEndpoint_def split: if_splits)
  then have fault: "ge_faults (we_gateway env) FindManaging"
    using unmanaged [OF none _ assms(3)] by blast
  obtain sv r where sv: "removeEndpointFromDB (ge_faults (we_gateway env) DeleteEndpoint) (gc_EndpointID gw) (ws_server s) = (sv, r)"
    by fastforce
  then have r: "r = Inr ()" and load: "reload_then env () (put_server sv s) = (ok (), s')"
    using assms(1,2) none by (auto simp: handleDeleteEndpoint_def split: sum.splits)
  have "db_endpoints sv = filter (\<lambda>ep. ep_ID ep \<noteq> gc_EndpointID gw) (db_endpoints (ws_server s))"
    using sv r by (auto simp: removeEndpointFromDB_def dest!: removeEndpoint_rows split: if_splits)
  then show ?thesis
    using fault load assms(3) by (auto simp: reload_then_def put_server_def dest!: reload_endpoints_rows split: prod.splits if_splits)
qed

text \<open>A number that is renamed stays known under its old digits: the map of the router keeps the entry although
  no row of the table has that number any more.\<close>

theorem renamed_number_still_routed:
  assumes "handleUpdateTenantNumber env i (Some tn) s = (ok n, s')" "path_id i = Some (tn_ID old)" "tn_ID old \<noteq> 0"
    and "getNumber (ws_server s) (tn_Number old) = Inr old" "tn_Number tn \<noteq> tn_Number old"
    and "old \<in> set (db_numbers (ws_server s))" "distinct (map tn_Number (db_numbers (ws_server s)))"
  shows "getNumber (ws_server s') (tn_Number old) = Inr old \<and> getNumber (ws_server s') (tn_Number tn) = Inr n
    \<and> tn_Number old \<notin> tn_Number ` set (db_numbers (ws_server s'))"
proof -
  let ?n = "tn\<lparr>tn_ID := tn_ID old\<rparr>"
  have there: "tn_ID old \<in> tn_ID ` set (db_numbers (ws_server s))"
    using assms(6) by simp
  have s': "n = ?n" "ws_server s' = (ws_server s)\<lparr>
      db_numbers := map (\<lambda>x. if tn_ID x = tn_ID old then ?n else x) (db_numbers (ws_server s)),
      sv_TenantNumbers := AList.update (tn_Number tn) ?n (sv_TenantNumbers (ws_server s))\<rparr>"
    using assms(1-3) there by (auto simp: handleUpdateTenantNumber_def put_server_def Let_def split: if_splits)
  have "tn_ID x = tn_ID old" if "x \<in> set (db_numbers (ws_server s))" "tn_Number x = tn_Number old" for x
    using that assms(6,7) by (auto simp: distinct_map inj_on_def)
  then show ?thesis
    using assms(4,5) by (auto simp: s' getNumber_def update_conv' image_iff split: option.splits if_splits)
qed

section \<open>Routes follow every change\<close>

text \<open>The maps as the rows define them, the number of an endpoint looked up in its row. The server
  itself looks it up in its memory, which is fresh when it knows the number of every identifier.\<close>

definition number_row :: "TenantNumber list \<Rightarrow> nat \<Rightarrow> string" where
  "number_row rows i = (case List.find (\<lambda>tn. tn_ID tn = i) rows of None \<Rightarrow> [] | Some tn \<Rightarrow> tn_Number tn)"

definition routes_of_rows :: "Server \<Rightarrow> bool" where
  "routes_of_rows s \<longleftrightarrow>
     (\<forall>t. get_or [] (sv_TenantEndpoints s) t = tenant_eps (db_endpoints s) t)
     \<and> (\<forall>n. get_or [] (sv_NumberEndpoints s) n = number_eps (number_row (db_numbers s)) (db_endpoints s) n)
     \<and> sv_UpstreamFsGateways s = upstream_names (db_endpoints s)"

definition numbers_fresh :: "Server \<Rightarrow> bool" where
  "numbers_fresh s \<longleftrightarrow> number_of_id (sv_TenantNumbers s) = number_row (db_numbers s)"

lemma in_sync_rows: "\<lbrakk>routes_in_sync s; numbers_fresh s\<rbrakk> \<Longrightarrow> routes_of_rows s"
  by (simp add: routes_in_sync_def routes_of_rows_def numbers_fresh_def)

text \<open>No operation on endpoints or gateways touches the numbers.\<close>

definition same_numbers :: "Server \<Rightarrow> Server \<Rightarrow> bool" where
  "same_numbers s t \<longleftrightarrow> sv_TenantNumbers t = sv_TenantNumbers s \<and> db_numbers t = db_numbers s"

lemma same_numbers_refl [simp]: "same_numbers s s"
  by (simp add: same_numbers_def)

lemma same_numbers_trans: "\<lbrakk>same_numbers s t; same_numbers t u\<rbrakk> \<Longrightarrow> same_numbers s u"
  by (simp add: same_numbers_def)

lemma fresh_same: "\<lbrakk>numbers_fresh s; same_numbers s t\<rbrakk> \<Longrightarrow> numbers_fresh t"
  by (simp add: numbers_fresh_def same_numbers_def)

lemma same_numbers_addEndpoint: "addEndpoint ep s = (t, r) \<Longrightarrow> same_numbers s t"
  by (auto simp: addEndpoint_def Let_def same_numbers_def split: if_splits)

lemma same_numbers_add: "addEndpointToDB f ep s = (t, r) \<Longrightarrow> same_numbers s t"
  by (auto simp: addEndpointToDB_def Let_def split: if_splits dest!: same_numbers_addEndpoint)
    (simp_all add: same_numbers_def)

lemma same_numbers_removeEndpoint: "removeEndpoint i s = (t, r) \<Longrightarrow> same_numbers s t"
  by (auto simp: removeEndpoint_def Let_def same_numbers_def split: option.splits prod.splits)

lemma same_numbers_remove: "removeEndpointFromDB f i s = (t, r) \<Longrightarrow> same_numbers s t"
  by (auto simp: removeEndpointFromDB_def split: if_splits dest!: same_numbers_removeEndpoint)
    (simp add: same_numbers_def)

lemma same_numbers_update:
  assumes "updateEndpoint f ep s = (t, r)" shows "same_numbers s t"
proof (cases f)
  case False
  let ?s1 = "s\<lparr>db_endpoints := (if ep_ID ep \<in> ep_ID ` set (db_endpoints s)
     then map (\<lambda>q. if ep_ID q = ep_ID ep then ep else q) (db_endpoints s) else db_endpoints s @ [ep])\<rparr>"
  obtain s2 x where x: "removeEndpoint (ep_ID ep) ?s1 = (s2, x)"
    by fastforce
  have "same_numbers s s2"
    using same_numbers_removeEndpoint [OF x] by (simp add: same_numbers_def)
  then show ?thesis
    using assms False same_numbers_trans same_numbers_addEndpoint
    by (auto simp: updateEndpoint_def Let_def x split: sum.splits)
qed (use assms in \<open>simp add: updateEndpoint_def\<close>)

lemma same_numbers_load: "load_endpoints f dns s = (t, r) \<Longrightarrow> same_numbers s t"
  using load_endpoints_maps(6,7) [of dns s t r] by (cases f) (auto simp: same_numbers_def load_endpoints_def)

lemma same_numbers_reload: "reload_endpoints env g = (b, g') \<Longrightarrow> same_numbers (gv_server g) (gv_server g')"
  by (auto simp: reload_endpoints_def loadEndpoints_def split: prod.splits sum.splits dest: same_numbers_load)

lemma same_numbers_store: "store_endpoint env ep g = (r, g') \<Longrightarrow> same_numbers (gv_server g) (gv_server g')"
  by (auto simp: store_endpoint_def split: prod.splits dest: same_numbers_add)

lemma same_numbers_move_linked: "move_linked env gw v g = (b, g') \<Longrightarrow> same_numbers (gv_server g) (gv_server g')"
  by (auto simp: move_linked_def split: if_splits option.splits prod.splits dest: same_numbers_update)

lemma same_numbers_move_aliases: "move_aliases f v als sv = (b, sv') \<Longrightarrow> same_numbers sv sv'"
proof (induction als arbitrary: sv)
  case (Cons al als)
  have "same_numbers sv (save_endpoint (al\<lparr>ep_Endpoint := v\<rparr>) sv)"
    by (simp add: same_numbers_def save_endpoint_def)
  then show ?case
    using Cons same_numbers_trans by (auto split: if_splits)
qed simp

lemma create_gateway_server: "create_gateway env gw g = Some (row, g') \<Longrightarrow> gv_server g' = gv_server g"
  by (auto simp: create_gateway_def Let_def split: if_splits)

lemma write_file_server: "writeGatewayFile env n c g = Some g' \<Longrightarrow> gv_server g' = gv_server g"
  by (auto simp: writeGatewayFile_def split: if_splits)

lemma answer_status_server: "answer_status env file gw g = (r, g') \<Longrightarrow> gv_server g' = gv_server g"
  by (auto dest!: answer_status_sent)

lemma reload_in_sync: "reload_endpoints env g = (True, g') \<Longrightarrow> routes_in_sync (gv_server g')"
proof -
  assume r: "reload_endpoints env g = (True, g')"
  then obtain sv u where l: "load_endpoints (ge_faults env LoadEndpoints) (ge_dns env) (gv_server g) = (sv, Inr u)"
    and g': "gv_server g' = sv"
    by (auto simp: reload_endpoints_def loadEndpoints_def split: prod.splits sum.splits)
  have "\<not> ge_faults env LoadEndpoints"
    using l by (auto simp: load_endpoints_def)
  then have "load_endpoints False (ge_dns env) (gv_server g) = (sv, Inr ())"
    using l by simp
  then show ?thesis
    using load_endpoints_maps by (simp add: routes_in_sync_def g')
qed

text \<open>The requests that change what endpoints there are or where they lead, among those on endpoints
  and gateways.\<close>

fun on_routes :: "request \<Rightarrow> bool" where
  "on_routes (Endpoints r) = True"
| "on_routes (Gateways r) = True"
| "on_routes r = False"

fun changes_routes :: "request \<Rightarrow> bool" where
  "changes_routes (Endpoints (GetEndpoints ty v)) = False"
| "changes_routes (Endpoints r) = True"
| "changes_routes (Gateways (PostGateway b)) = True"
| "changes_routes (Gateways (PutGateway n b)) = True"
| "changes_routes (Gateways (PostAlias n b)) = True"
| "changes_routes r = False"

text \<open>A server whose maps were just loaded, with the numbers of the server before.\<close>

definition synced :: "Server \<Rightarrow> Server \<Rightarrow> bool" where
  "synced s t \<longleftrightarrow> routes_in_sync t \<and> same_numbers s t"

lemma synced_after: "\<lbrakk>same_numbers s t; synced t u\<rbrakk> \<Longrightarrow> synced s u"
  by (auto simp: synced_def intro: same_numbers_trans)

lemma reload_synced: "reload_endpoints env g = (True, g') \<Longrightarrow> synced (gv_server g) (gv_server g')"
  using reload_in_sync same_numbers_reload by (auto simp: synced_def)

lemma reload_then_synced:
  "\<lbrakk>reload_then env b s = (a, t); status a = 200\<rbrakk> \<Longrightarrow> synced (ws_server s) (ws_server t)"
  by (auto simp: reload_then_def dest!: reload_synced split: prod.splits if_splits)

lemma endpoint_change_synced:
  assumes "endpoint_path env r s = (a, t)" "status a = 200" "changes_routes (Endpoints r)"
  shows "synced (ws_server s) (ws_server t)"
proof -
  have fails: "status (fst (endpoint_path env r s)) = 200" "t = snd (endpoint_path env r s)"
    using assms by simp_all
  have step: "synced (ws_server s) (ws_server (snd (reload_then env b (put_server sv s))))"
    if "status (fst (reload_then env b (put_server sv s))) = 200" "same_numbers (ws_server s) sv" for b :: 'b and sv
    using reload_then_synced [OF surjective_pairing that(1)] synced_after that(2) by (simp add: put_server_def)
  show ?thesis
    using fails assms(3)
    by (cases r) (auto simp: handleAddEndpoint_def handleUpdateEndpoint_def handleDeleteEndpoint_def Let_def step
        same_numbers_add same_numbers_update same_numbers_remove
        split: option.splits prod.splits sum.splits if_splits)
qed

lemma provision_synced:
  assumes "ProvisionGateway env spec g = (Inr st, g')" shows "synced (gv_server g) (gv_server g')"
  using assms
proof (cases rule: provision_cases)
  case (loaded tpl rendered ep s1 x p)
  have s1: "gv_server s1 = gv_server g"
    by (rule write_file_server [OF loaded(5)])
  from loaded(6) show ?thesis
  proof (cases rule: provision_rows_cases)
    case (created stored i s2 gw s3 b s4)
    have "same_numbers (gv_server g) (gv_server s3)"
      using same_numbers_store [OF created(1)] s1 create_gateway_server [OF created(3)] by simp
    moreover have "synced (gv_server s3) (gv_server g')"
      using created(4,5) by (auto dest!: answer_status_server [OF sym] reload_synced split: if_splits)
    ultimately show ?thesis
      by (rule synced_after)
  qed simp_all
qed simp_all

lemma update_synced:
  assumes "UpdateGateway env name spec g = (Inr st, g')" shows "synced (gv_server g) (gv_server g')"
  using assms
proof (cases rule: update_cases)
  case (loaded gw tpl rendered s1 x p)
  have s1: "gv_server s1 = gv_server g"
    by (rule write_file_server [OF loaded(6)])
  from loaded(7) show ?thesis
  proof (cases rule: update_rows_cases)
    case (saved s2 als server stored b s3)
    have "same_numbers (gv_server g) (gv_server s2)"
      using same_numbers_move_linked [OF saved(1)] s1 by simp
    then have "same_numbers (gv_server g) server"
      using same_numbers_move_aliases [OF saved(3)] same_numbers_trans by blast
    moreover have "synced server (gv_server g')"
      using saved(5,6) by (auto simp: save_gateway_def dest!: answer_status_server [OF sym] reload_synced split: if_splits)
    ultimately show ?thesis
      by (rule synced_after)
  qed simp_all
qed simp_all

lemma alias_synced:
  assumes "CreateGatewayAlias env name spec g = (Inr ep, g')" shows "synced (gv_server g) (gv_server g')"
  using assms
proof (cases rule: alias_cases)
  case (stored gw v)
  from stored(4) show ?thesis
  proof (cases rule: store_alias_cases)
    case (stored i s1 b)
    then show ?thesis
      by (auto dest!: same_numbers_store reload_synced intro: synced_after split: if_splits)
  qed simp
qed simp

text \<open>The other requests leave the directory alone.\<close>

lemma gateway_server_kept:
  "gv_server (snd (AdoptGateway env file g)) = gv_server g"
  "gv_server (snd (DeleteUnmanagedGateway env name g)) = gv_server g"
  "gv_server (snd (RepairGateway env name g)) = gv_server g"
  "gv_server (snd (ListGateways env g)) = gv_server g"
  "gv_server (snd (fsRestartProfile env g)) = gv_server g"
  "gv_server (snd (fsReloadGateways env g)) = gv_server g"
proof -
  show "gv_server (snd (AdoptGateway env file g)) = gv_server g"
    by (auto simp: AdoptGateway_def Let_def split: option.splits prod.splits
        dest!: fsGatewayState_sent create_gateway_server)
  show "gv_server (snd (DeleteUnmanagedGateway env name g)) = gv_server g"
    by (auto simp: DeleteUnmanagedGateway_def remove_file_rest split: prod.splits dest!: fsKillGateway_sent)
  show "gv_server (snd (RepairGateway env name g)) = gv_server g"
    by (auto simp: RepairGateway_def answer_status_server [OF surjective_pairing] split: option.splits sum.splits prod.splits bool.splits
        dest!: fsReloadGateways_sent answer_status_server write_file_server)
  show "gv_server (snd (ListGateways env g)) = gv_server g"
    by (auto simp: ListGateways_def split: prod.splits dest!: list_tracked_sent)
  show "gv_server (snd (fsRestartProfile env g)) = gv_server g"
    by (auto simp: fsRestartProfile_def dest: fsAPI_sent split: prod.splits)
  show "gv_server (snd (fsReloadGateways env g)) = gv_server g"
    using fsReloadGateways_sent [OF surjective_pairing, of env g] by auto
qed

lemma deprovision_server: "gv_server (snd (DeprovisionGateway env name g)) = gv_server g"
proof -
  obtain r g' where d: "DeprovisionGateway env name g = (r, g')"
    by fastforce
  then have "gv_server g' = gv_server g"
    by (cases rule: deprovision_cases) (simp_all add: remove_file_rest)
  with d show ?thesis by simp
qed

lemma from_endpoint_server: "gv_server (snd (ProvisionGatewayFromEndpoint env spec g)) = gv_server g"
proof -
  obtain r g' where d: "ProvisionGatewayFromEndpoint env spec g = (r, g')"
    by fastforce
  then have "gv_server g' = gv_server g"
  proof (cases rule: from_endpoint_cases)
    case (accepted ep p tpl)
    from accepted(3) show ?thesis
      by (cases rule: existing_cases)
        (auto simp: remove_file_rest dest!: write_file_server create_gateway_server answer_status_server)
  qed simp
  with d show ?thesis by simp
qed

lemma other_requests_server:
  assumes "on_routes req" "\<not> changes_routes req"
  shows "ws_server (snd (serve_request env req s)) = ws_server s"
proof (cases req)
  case (Endpoints r)
  then show ?thesis
    using assms by (cases r) (simp_all add: handleListEndpoints_def filtered_def split: option.splits)
next
  case (Gateways r)
  have pair: "gv_server g = gv_server h" if "f h = (b, g)" "gv_server (snd (f h)) = gv_server h"
    for f and b :: bool and g h :: "'a gateway_state"
    using that by simp
  show ?thesis
    using assms Gateways
    by (cases r) (auto simp: handleListGatewayTemplates_def handleCreateGatewayTemplate_def
        handleUpdateGatewayTemplate_def handleDeleteGatewayTemplate_def handleListGateways_def handleAdoptGateway_def
        handleProvisionGatewayFromEndpoint_def handleDeleteUnmanagedGateway_def handleRepairGateway_def
        handleDeprovisionGateway_def handleRescanFSProfile_def handleRestartFSProfile_def put_templates_def Let_def
        answer_gateway_state gateway_server_kept deprovision_server from_endpoint_server
        split: option.splits prod.splits dest: pair [OF _ gateway_server_kept(5)] pair [OF _ gateway_server_kept(6)])
qed (use assms in simp_all)

lemma answer_gateway_ok:
  assumes "answer_gateway f c r s = (a, t)" "status a < 300" "\<And>e. 300 \<le> f e"
  obtains b where "r = (Inr b, ws_gateways t)"
  using assms by (auto simp: answer_gateway_def split: prod.splits sum.splits) (meson not_le)

lemma change_synced:
  assumes "serve_request env req s = (a, t)" "changes_routes req" "status a < 300"
  shows "synced (ws_server s) (ws_server t)"
proof (cases req)
  case (Endpoints r)
  have "status (fst (endpoint_path env r s)) < 300 \<Longrightarrow> status (fst (endpoint_path env r s)) = 200"
    by (cases r) (auto simp: handleListEndpoints_def filtered_def handleAddEndpoint_def handleUpdateEndpoint_def
        handleDeleteEndpoint_def reload_then_def Let_def split: option.splits prod.splits sum.splits if_splits)
  then show ?thesis
    using Endpoints assms endpoint_change_synced by simp
next
  case (Gateways r)
  have c: "300 \<le> alias_status e" for e
    by (simp add: alias_status_def split: gateway_error.splits)
  have ok: "synced (ws_server s) (gv_server (ws_gateways (snd (answer_gateway f k x s))))"
    if "status (fst (answer_gateway f k x s)) < 300" "\<And>e. 300 \<le> f e"
      "\<And>b g. x = (Inr b, g) \<Longrightarrow> synced (ws_server s) (gv_server g)" for f k and x :: "('a, 'b) gateway_result"
    using answer_gateway_ok [OF surjective_pairing that(1,2)] that(3) by metis
  have "status (fst (gateway_path env r s)) < 300" "t = snd (gateway_path env r s)"
    using Gateways assms by simp_all
  then show ?thesis
    using assms(2) Gateways c
    by (cases r) (auto simp: handleProvisionGateway_def handleUpdateGateway_def handleCreateGatewayAlias_def
        split: option.splits intro!: ok dest: provision_synced update_synced alias_synced)
qed (use assms(2) in simp_all)

text \<open>C29: Routes follow the requests on endpoints and gateways, from a server whose memory knows the
  number of every number row: after each of them that creates, changes or deletes an endpoint,
  provisions or updates a gateway or adds an alias, and answers success, the maps the router uses are
  the ones the rows of the database define; every other of them leaves maps and rows as they are; and
  the memory of the numbers stays as good as it was.\<close>

theorem routes_follow_requests:
  assumes "serve_admin env hdr req s = (a, t)" "on_routes req" "status a < 300" "numbers_fresh (ws_server s)"
  shows "(if changes_routes req then routes_of_rows (ws_server t) else ws_server t = ws_server s)
    \<and> numbers_fresh (ws_server t)"
  using assms(1)
proof (cases rule: serve_cases)
  case served
  show ?thesis
  proof (cases "changes_routes req")
    case True
    have "synced (ws_server s) (ws_server t)"
      by (rule change_synced [OF served True assms(3)])
    then show ?thesis
      using True fresh_same [OF assms(4)] in_sync_rows by (simp add: synced_def)
  next
    case False
    then show ?thesis
      using other_requests_server [OF assms(2) False, of env s] served assms(4) by simp
  qed
qed (use assms(3) in auto)

section \<open>Stored policies stay valid\<close>

definition flag_effects :: "string set" where
  "flag_effects = {PolicyEffectT38Off, PolicyEffectT38On, PolicyEffectECMOff, PolicyEffectECMOn, PolicyEffectV17Off,
     PolicyEffectSoftmodemOnly}"

text \<open>A rule names the numbers of its scope and no others, and overrides only variables that it may.\<close>

definition valid_rule :: "FaxPolicyRule \<Rightarrow> bool" where
  "valid_rule r \<longleftrightarrow>
     (pr_Scope r = PolicyScopeDst \<and> trim_space (pr_DstNumber r) \<noteq> [] \<and> pr_SrcNumber r = []
      \<or> pr_Scope r = PolicyScopeSrc \<and> trim_space (pr_SrcNumber r) \<noteq> [] \<and> pr_DstNumber r = []
      \<or> pr_Scope r = PolicyScopePair \<and> trim_space (pr_SrcNumber r) \<noteq> [] \<and> trim_space (pr_DstNumber r) \<noteq> [])
     \<and> (pr_Effect r \<in> flag_effects \<and> pr_VarName r = [] \<and> pr_VarValue r = []
      \<or> pr_Effect r = PolicyEffectVarOverride \<and> gateway_name_ok (pr_VarName r)
         \<and> to_lower (pr_VarName r) \<notin> set deniedVarOverrides \<and> trim_space (pr_VarValue r) \<noteq> [])
     \<and> pr_AppliesTo r \<in> {''both'', CallTypeSoftmodem, CallTypeBridge}"

definition policies_valid :: "'f web_state \<Rightarrow> bool" where
  "policies_valid s \<longleftrightarrow> list_all valid_rule (pl_rules (ws_policies s))"

lemma scoped_rule_valid:
  "scoped_rule r = Some r1 \<Longrightarrow> pr_Scope r1 = PolicyScopeDst \<and> trim_space (pr_DstNumber r1) \<noteq> [] \<and> pr_SrcNumber r1 = []
    \<or> pr_Scope r1 = PolicyScopeSrc \<and> trim_space (pr_SrcNumber r1) \<noteq> [] \<and> pr_DstNumber r1 = []
    \<or> pr_Scope r1 = PolicyScopePair \<and> trim_space (pr_SrcNumber r1) \<noteq> [] \<and> trim_space (pr_DstNumber r1) \<noteq> []"
  by (auto simp: scoped_rule_def split: if_splits)

lemma effect_rule_valid:
  assumes "effect_rule r = Some r1"
  shows "pr_Effect r1 \<in> flag_effects \<and> pr_VarName r1 = [] \<and> pr_VarValue r1 = []
      \<or> pr_Effect r1 = PolicyEffectVarOverride \<and> gateway_name_ok (pr_VarName r1)
         \<and> to_lower (pr_VarName r1) \<notin> set deniedVarOverrides \<and> trim_space (pr_VarValue r1) \<noteq> []"
    "pr_Scope r1 = pr_Scope r" "pr_SrcNumber r1 = pr_SrcNumber r" "pr_DstNumber r1 = pr_DstNumber r"
  using assms by (auto simp: effect_rule_def Let_def flag_effects_def split: if_splits)

lemma applied_rule_valid:
  assumes "applied_rule r = Some r1"
  shows "\<exists>a \<in> {''both'', CallTypeSoftmodem, CallTypeBridge}. r1 = r\<lparr>pr_AppliesTo := a\<rparr>"
proof (cases "pr_AppliesTo r = []")
  case False
  then have "pr_AppliesTo r \<in> {''both'', CallTypeSoftmodem, CallTypeBridge}" "r1 = r\<lparr>pr_AppliesTo := pr_AppliesTo r\<rparr>"
    using assms by (auto simp: applied_rule_def split: if_splits)
  then show ?thesis by blast
qed (use assms in \<open>auto simp: applied_rule_def\<close>)

lemma validated_same:
  assumes "validateFaxPolicyRule r = Some r'" shows "valid_rule r'"
proof -
  obtain r1 r2 where r: "scoped_rule r = Some r1" "effect_rule r1 = Some r2" "applied_rule r2 = Some r'"
    using assms by (auto simp: validateFaxPolicyRule_def split: option.splits)
  then obtain a where a: "a \<in> {''both'', CallTypeSoftmodem, CallTypeBridge}" "r' = r2\<lparr>pr_AppliesTo := a\<rparr>"
    using applied_rule_valid by blast
  show ?thesis
    using scoped_rule_valid [OF r(1)] effect_rule_valid [OF r(2)] a(1) by (simp add: valid_rule_def a(2))
qed

lemma validated: "validateFaxPolicyRule r = Some r' \<Longrightarrow> valid_rule (r'\<lparr>pr_ID := i\<rparr>)"
  using validated_same [of r r'] by (simp add: valid_rule_def)

lemma valid_expired [simp]: "valid_rule (r\<lparr>pr_ExpiresAt := t\<rparr>) = valid_rule r"
  by (simp add: valid_rule_def)

lemma policies_valid_reload: "policies_valid s \<Longrightarrow> policies_valid (snd (reload_policies env c b s))"
  by (auto simp: reload_policies_def reloadFaxPolicies_def policies_valid_def list_all_iff Let_def split: prod.splits if_splits)

lemma policies_valid_put:
  "list_all valid_rule (pl_rules p) \<Longrightarrow> policies_valid (snd (reload_policies env c b (s\<lparr>ws_policies := p\<rparr>)))"
  by (rule policies_valid_reload) (simp add: policies_valid_def)

lemma policy_valid:
  assumes "policies_valid s" "policy_path env r s = (a, t)" shows "policies_valid t"
proof -
  have rules: "list_all valid_rule (pl_rules (ws_policies s))"
    using assms(1) by (simp add: policies_valid_def)
  have fallback: "valid_rule (zero_rule\<lparr>pr_Scope := PolicyScopeDst, pr_DstNumber := n, pr_Effect := PolicyEffectT38Off,
      pr_AppliesTo := ''both'', pr_Origin := PolicyOriginManual, pr_Enabled := True, pr_Notes := x, pr_ID := i\<rparr>)"
    if "trim_space n \<noteq> []" for n x i
    using that by (simp add: valid_rule_def zero_rule_def flag_effects_def)
  have expired: "list_all valid_rule (map (\<lambda>r. if pr_ID r = i then r\<lparr>pr_ExpiresAt := x\<rparr> else r) (pl_rules (ws_policies s)))" for i x
    using rules by (auto simp: list_all_iff)
  have "policies_valid (snd (policy_path env r s))"
    using assms(1) rules
    by (cases r) (auto simp: handleFallbackNumber_def handleListFaxPolicies_def handleCreateFaxPolicyRule_def
        handleUpdateFaxPolicyRule_def handleDeleteFaxPolicyRule_def handleExpireFaxPolicyRule_def create_policy_def
        save_policy_def handleResolveFaxPolicy_def handleListFaxPairStates_def handleDeleteFaxPairState_def Let_def
        list_all_iff policies_valid_def [where s = "_\<lparr>ws_pairs := _\<rparr>"]
        intro!: policies_valid_put fallback dest: validated validated_same split: option.splits)
  then show ?thesis by (simp add: assms(2))
qed

text \<open>No other request touches the rules, save that a reload prunes them.\<close>

lemma policies_frames [simp]:
  "ws_policies (put_server sv s) = ws_policies s" "ws_policies (put_templates f s) = ws_policies s"
  "ws_policies (put_sentry x s) = ws_policies s" "ws_policies (put_rows g n s) = ws_policies s"
  "ws_policies (snd (reload_dialplan env c b s)) = ws_policies s"
  "ws_policies (snd (reload_then env b s)) = ws_policies s" "ws_policies (snd (answer_gateway e c r s)) = ws_policies s"
  by (simp_all add: put_server_def put_templates_def put_sentry_def put_rows_def reload_dialplan_def reload_then_def
      answer_gateway_def split: prod.splits sum.splits)

lemma ReloadData_valid:
  assumes "policies_valid s" shows "policies_valid (snd (ReloadData env s))"
proof -
  have keep: "policies_valid u" if "ws_policies u = ws_policies s" for u :: "'a web_state"
    using assms that by (simp add: policies_valid_def)
  have dialplan: "ws_policies u' = ws_policies u" if "reload_dialplan env 200 () u = (x, u')" for u u' x
    using policies_frames(5) [of env 200 "()" u] that by simp
  have policies: "policies_valid u'" if "reload_policies env 200 () u = (x, u')" "ws_policies u = ws_policies s"
    for u u' :: "'a web_state" and x
    using policies_valid_reload [OF keep [OF that(2)], of env 200 "()"] that(1) by simp
  show ?thesis
    by (auto simp: ReloadData_def Let_def intro!: keep dest: dialplan split: prod.splits sum.splits bool.splits
        answer.splits option.splits elim!: policies)
qed

lemma directory_valid:
  assumes "policies_valid s" "directory_path env r s = (a, t)" shows "policies_valid t"
proof (cases "r = GetReload")
  case True
  then show ?thesis
    using assms ReloadData_valid [of s env] by (auto simp: headers_def handleReloadData_def split: prod.splits answer.splits)
next
  case False
  have "ws_policies (snd (directory_path env r s)) = ws_policies s"
    using False
    by (cases r) (simp_all add: handleFaxes_def report_request_def handleListTenants_def handleListTenantNumbers_def
        filtered_def handleListTenantUsers_def handleAddTenant_def handleUpdateTenant_def handleDeleteTenant_def
        handleAddTenantNumber_def handleUpdateTenantNumber_def handleDeleteTenantNumber_def handleAddTenantUser_def
        AddTenantUser_def handleUpdateTenantUser_def UpdateTenantUser_def save_user_def update_fields_def
        handleDeleteTenantUser_def DeleteTenantUser_def Let_def split: option.splits prod.splits sum.splits
        report_answer.splits)
  then show ?thesis
    using assms by (simp add: policies_valid_def)
qed

lemma endpoint_policies: "ws_policies (snd (endpoint_path env r s)) = ws_policies s"
  by (cases r) (simp_all add: handleListEndpoints_def filtered_def handleAddEndpoint_def handleUpdateEndpoint_def
      handleDeleteEndpoint_def Let_def split: option.splits prod.splits sum.splits)

lemma gateway_policies: "ws_policies (snd (gateway_path env r s)) = ws_policies s"
  by (cases r) (simp_all add: handleListGatewayTemplates_def handleCreateGatewayTemplate_def
      handleUpdateGatewayTemplate_def handleDeleteGatewayTemplate_def handleListGateways_def handleAdoptGateway_def
      handleProvisionGatewayFromEndpoint_def handleDeleteUnmanagedGateway_def handleProvisionGateway_def
      handleUpdateGateway_def handleCreateGatewayAlias_def handleRepairGateway_def handleDeprovisionGateway_def
      handleRescanFSProfile_def handleRestartFSProfile_def Let_def split: option.splits prod.splits)

lemma other_policies: "ws_policies (snd (other_path env r s)) = ws_policies s"
  by (cases r) (simp_all add: handleSecurityStatus_def handleListBlockedIPs_def sentryOr404_def handleBanIP_def
      handleUnbanIP_def handleGetDialplan_def handleCreateDialplanRule_def handleUpdateDialplanRule_def
      handleDeleteDialplanRule_def handleReorderDialplanRules_def Let_def split: option.splits prod.splits bool.splits)

lemma policies_valid_web_step:
  assumes "policies_valid s" "web_step s t" shows "policies_valid t"
  using assms(2)
proof cases
  case (step_request env hdr req a)
  from step_request(1) show ?thesis
  proof (cases rule: serve_cases)
    case served
    have keep: "policies_valid t" if "ws_policies t = ws_policies s"
      using assms(1) that by (simp add: policies_valid_def)
    show ?thesis
    proof (cases req)
      case (Directory r)
      then show ?thesis using directory_valid [OF assms(1)] served by simp
    next
      case (Policies r)
      then show ?thesis using policy_valid [OF assms(1)] served by simp
    next
      case (Endpoints r)
      then show ?thesis using endpoint_policies [of env r s] served by (intro keep) simp
    next
      case (Gateways r)
      then show ?thesis using gateway_policies [of env r s] served by (intro keep) simp
    next
      case (Others r)
      then show ?thesis using other_policies [of env r s] served by (intro keep) simp
    qed
  qed (use assms(1) in simp)
next
  case (step_gateways g)
  then show ?thesis using assms(1) by (simp add: policies_valid_def)
qed

interpretation web_policies: step_invariant web_step s0 "\<lambda>s. policies_valid s0 \<longrightarrow> policies_valid s" for s0
  by unfold_locales (auto intro: policies_valid_web_step)

text \<open>C30: Whatever requests are served, with any failures of the database, every stored policy rule names the numbers
  of its scope, and a rule that overrides a channel variable has a name of letters, digits and underscores that is
  not the one the tracking of a call depends on.\<close>

theorem stored_policies_valid:
  assumes "policies_valid s0" "reach web_step s0 s" "r \<in> set (pl_rules (ws_policies s))"
  shows "(pr_Scope r \<in> {PolicyScopeDst, PolicyScopePair} \<longrightarrow> trim_space (pr_DstNumber r) \<noteq> [])
    \<and> (pr_Scope r \<in> {PolicyScopeSrc, PolicyScopePair} \<longrightarrow> trim_space (pr_SrcNumber r) \<noteq> [])
    \<and> (pr_Effect r = PolicyEffectVarOverride \<longrightarrow> pr_VarName r \<noteq> [] \<and> list_all name_char (pr_VarName r)
       \<and> to_lower (pr_VarName r) \<noteq> ''origination_uuid'')"
proof -
  have "valid_rule r"
    using web_policies.reach_holds [OF assms(2)] assms(1,3) by (simp add: policies_valid_def list_all_iff)
  then show ?thesis
    by (auto simp: valid_rule_def flag_effects_def gateway_name_ok_def deniedVarOverrides_def PolicyScopeDst_def
        PolicyScopeSrc_def PolicyScopePair_def PolicyEffectT38Off_def PolicyEffectT38On_def PolicyEffectECMOff_def
        PolicyEffectECMOn_def PolicyEffectV17Off_def PolicyEffectSoftmodemOnly_def PolicyEffectVarOverride_def)
qed

section \<open>Sample values\<close>

text \<open>The header of an administrator.\<close>

definition sample_key :: string where
  "sample_key = basic_header [] ''key''"

lemma sample_key_served: "serve_admin sample_wenv sample_key req s = serve_request sample_wenv req s"
proof -
  have "basic_credentials sample_key = Some ([], ''key'')" "sample_key \<noteq> []"
    by (simp_all add: sample_key_def basic_header_read) (simp add: basic_header_def basic_prefix_def)
  then show ?thesis
    by (simp add: serve_admin_def basicAuthMiddleware_def sample_wenv_def)
qed

lemma sample_step: "web_step s (snd (serve_request sample_wenv req s))"
proof -
  have "serve_admin sample_wenv sample_key req s = (fst (serve_request sample_wenv req s), snd (serve_request sample_wenv req s))"
    by (simp add: sample_key_served)
  then show ?thesis
    by (rule step_request) (simp add: sample_wenv_def sample_genv_def no_faults_def)
qed

definition sample_reached :: "unit web_state" where
  "sample_reached = snd (serve_request sample_wenv (Gateways (PostGateway (Some sample_gspec))) sample_wstate)"

lemma sample_reach: "reach web_step sample_wstate (snd (serve_request sample_wenv req sample_wstate))"
  by (rule reach.reach_step, rule reach.reach_start, rule sample_step)

lemma linked_endpoints_kept_witness:
  "\<exists>s gw. reach web_step sample_wstate s \<and> gw \<in> set (gv_gateways (ws_gateways s)) \<and> gc_Name gw = ''sbc''
     \<and> gc_EndpointID gw \<in> ep_ID ` set (db_endpoints (ws_server s))"
proof -
  have "held (ws_gateways sample_wstate)"
    "list_ex (\<lambda>g. gc_Name g = ''sbc'' \<and> gc_EndpointID g \<noteq> 0) (gv_gateways (ws_gateways sample_reached))"
    by code_simp+
  moreover from this obtain gw where gw: "gw \<in> set (gv_gateways (ws_gateways sample_reached))" "gc_Name gw = ''sbc''"
    "gc_EndpointID gw \<noteq> 0"
    by (auto simp: list_ex_iff)
  moreover have r: "reach web_step sample_wstate sample_reached"
    unfolding sample_reached_def by (rule sample_reach)
  ultimately have "gc_EndpointID gw \<in> ep_ID ` set (db_endpoints (ws_server sample_reached))"
    using linked_endpoints_kept [OF _ r gw(1,3)] by force
  then show ?thesis
    using r gw by blast
qed

lemma sample_ids: "path_id ''5'' = Some 5" "path_id ''7'' = Some 7"
  by (simp_all add: path_id_def atoi_def uint_of_def parse_digits_def is_digit_def digit_val_def)

definition failing_wenv :: web_env where
  "failing_wenv = sample_wenv\<lparr>we_gateway := sample_genv\<lparr>ge_faults := (\<lambda>x. x = FindManaging)\<rparr>\<rparr>"

lemma failed_lookup_drops_managed_endpoint_witness:
  "\<exists>s'. handleDeleteEndpoint failing_wenv ''5'' sample_wstate = (ok (), s') \<and> 5 \<notin> ep_ID ` set (db_endpoints (ws_server s'))"
proof -
  let ?s = "snd (handleDeleteEndpoint failing_wenv ''5'' sample_wstate)"
  have "fst (handleDeleteEndpoint failing_wenv ''5'' sample_wstate) = ok ()"
    unfolding handleDeleteEndpoint_def sample_ids option.case by code_simp
  then have d: "handleDeleteEndpoint failing_wenv ''5'' sample_wstate = (ok (), ?s)"
    by (metis prod.collapse)
  have "path_id ''5'' = Some (gc_EndpointID sample_gw)" "gc_EndpointID sample_gw = 5"
    by (simp_all add: sample_ids sample_gw_def)
  moreover have "sample_gw \<in> set (gv_gateways (ws_gateways sample_wstate))"
    by (simp add: sample_wstate_def sample_gstate_def)
  ultimately show ?thesis
    using failed_lookup_drops_managed_endpoint [OF d] d by auto
qed

lemma renamed_number_still_routed_witness:
  "\<exists>n s'. handleUpdateTenantNumber sample_wenv ''7'' (Some (sample_number\<lparr>tn_Number := ''300''\<rparr>)) sample_wstate = (ok n, s')
     \<and> getNumber (ws_server s') ''100'' = Inr sample_number"
proof -
  let ?r = "handleUpdateTenantNumber sample_wenv ''7'' (Some (sample_number\<lparr>tn_Number := ''300''\<rparr>)) sample_wstate"
  have "path_id ''7'' = Some (tn_ID sample_number)" "tn_ID sample_number \<noteq> 0" "tn_Number sample_number = ''100''"
    "distinct (map tn_Number (db_numbers (ws_server sample_wstate)))"
    by (simp_all add: sample_ids sample_wstate_def sample_gstate_def sample_directory)
  moreover have "fst ?r = ok (sample_number\<lparr>tn_Number := ''300''\<rparr>)"
    unfolding handleUpdateTenantNumber_def sample_ids option.case by code_simp
  then have "?r = (ok (sample_number\<lparr>tn_Number := ''300''\<rparr>), snd ?r)"
    by (metis prod.collapse)
  moreover have "getNumber (ws_server sample_wstate) (tn_Number sample_number) = Inr sample_number"
    "sample_number \<in> set (db_numbers (ws_server sample_wstate))"
    by (simp_all add: sample_wstate_def sample_gstate_def getNumber_def sample_directory)
  ultimately show ?thesis
    using renamed_number_still_routed [of sample_wenv "''7''" "sample_number\<lparr>tn_Number := ''300''\<rparr>" sample_wstate
        "sample_number\<lparr>tn_Number := ''300''\<rparr>" "snd ?r" sample_number] by auto
qed

lemma routes_follow_requests_witness: "routes_of_rows (ws_server sample_reached)"
proof -
  let ?req = "Gateways (PostGateway (Some sample_gspec))"
  have r: "serve_admin sample_wenv sample_key ?req sample_wstate = (fst (serve_request sample_wenv ?req sample_wstate), sample_reached)"
    by (simp only: sample_key_served sample_reached_def prod.collapse)
  have st: "status (fst (serve_request sample_wenv ?req sample_wstate)) < 300"
    by code_simp
  have "number_of_id (sv_TenantNumbers (ws_server sample_wstate)) i = number_row (db_numbers (ws_server sample_wstate)) i" for i
    by (simp add: number_of_id_def number_row_def sample_wstate_def sample_gstate_def sample_directory)
  then have "numbers_fresh (ws_server sample_wstate)"
    by (simp add: numbers_fresh_def ext)
  from routes_follow_requests [OF r _ st this] show ?thesis
    by simp
qed

definition sample_override :: FaxPolicyRule where
  "sample_override = zero_rule\<lparr>pr_Scope := PolicyScopeDst, pr_DstNumber := ''200'', pr_Effect := PolicyEffectVarOverride,
     pr_VarName := '' fax_use_ecm'', pr_VarValue := ''false''\<rparr>"

lemma stored_policies_valid_witness:
  "\<exists>s r. reach web_step sample_wstate s \<and> r \<in> set (pl_rules (ws_policies s)) \<and> list_all name_char (pr_VarName r)
     \<and> trim_space (pr_DstNumber r) \<noteq> []"
proof -
  let ?s = "snd (serve_request sample_wenv (Policies (PostFaxPolicy (Some sample_override))) sample_wstate)"
  have "policies_valid sample_wstate"
    by code_simp
  moreover have "list_ex (\<lambda>r. pr_Effect r = PolicyEffectVarOverride \<and> pr_Scope r = PolicyScopeDst) (pl_rules (ws_policies ?s))"
    by code_simp
  then obtain r where r: "r \<in> set (pl_rules (ws_policies ?s))" "pr_Effect r = PolicyEffectVarOverride"
    "pr_Scope r = PolicyScopeDst"
    by (auto simp: list_ex_iff)
  ultimately have "list_all name_char (pr_VarName r) \<and> trim_space (pr_DstNumber r) \<noteq> []"
    using stored_policies_valid [OF _ sample_reach r(1)] by simp
  then show ?thesis
    using sample_reach r(1) by blast
qed

end
