(* ===== verification/Web_Upload.thy ===== *)
theory Web_Upload
  imports Web_Base
begin

text \<open>
  A tenant user sends a document (\<open>POST /fax/send\<close>: \<open>handleDocumentUpload\<close> of \<open>gofaxserver/web.go\<close> and \<open>pdfToTiff\<close>,
  \<open>verifyTiffOutput\<close>, \<open>countTiffPages\<close> of \<open>tiff.go\<close>): the checks of the file, its conversion, the check of the
  caller number against the tenant of the user, and the job that is put on the routing channel.

  What the image tools do and the new identifiers are arguments. \<open>http.DetectContentType\<close> answers
  \<open>application/pdf\<close> exactly for data that begins with the PDF signature; what it answers for other data is an
  argument. A handler that panics answers nothing: its status is 0.
\<close>

section \<open>The request and its surroundings\<close>

record upload =
  up_Filename :: string
  up_Content :: string
  up_CalleeNumber :: string
  up_CallerNumber :: string
  up_Source :: string

record upload_env =
  ue_reads :: bool
  ue_seeks :: bool
  ue_other_type :: "string \<Rightarrow> string"
  ue_saves :: bool
  ue_convert :: "string \<Rightarrow> string \<Rightarrow> bool"
  ue_size :: "string \<Rightarrow> nat option"
  ue_identify :: "string \<Rightarrow> string option"
  ue_uuid_string :: "uuid \<Rightarrow> string"
  ue_TempPath :: "string \<Rightarrow> string"
  ue_docID :: uuid
  ue_resultID :: uuid

abbreviation aborted :: "'b answer" where "aborted \<equiv> Answer 0 None"

section \<open>The file\<close>

text \<open>\<open>filepath.Ext\<close>: from the last dot of the last path element.\<close>

definition file_ext :: "string \<Rightarrow> string" where
  "file_ext path =
    (let r = rev path; ext = takeWhile (\<lambda>c. c \<noteq> CHR ''.'' \<and> c \<noteq> CHR ''/'') r in
     case drop (length ext) r of c # _ \<Rightarrow> (if c = CHR ''.'' then CHR ''.'' # rev ext else []) | [] \<Rightarrow> [])"

definition allowedExts :: "string list" where
  "allowedExts = [''.pdf'', ''.tif'', ''.tiff'']"

definition allowedContentTypes :: "string list" where
  "allowedContentTypes = [''application/pdf'', ''image/tiff'', ''image/x-tiff'']"

definition DetectContentType :: "upload_env \<Rightarrow> string \<Rightarrow> string" where
  "DetectContentType ue data = (if has_prefix data ''%PDF-'' then ''application/pdf'' else ue_other_type ue data)"

definition verifyTiffOutput :: "upload_env \<Rightarrow> string \<Rightarrow> bool" where
  "verifyTiffOutput ue path = (case ue_size ue path of None \<Rightarrow> False | Some n \<Rightarrow> n \<noteq> 0)"

definition pdfToTiff :: "upload_env \<Rightarrow> string \<Rightarrow> string option" where
  "pdfToTiff ue ext =
    (let tempFile = ue_TempPath ue (''temp_'' @ ue_uuid_string ue (ue_docID ue) @ ext);
         destFile = ue_TempPath ue (''fax_'' @ ue_uuid_string ue (ue_docID ue) @ ''.tiff'') in
     if \<not> ue_saves ue then None
     else if \<not> ue_convert ue tempFile destFile then None
     else if \<not> verifyTiffOutput ue destFile then None
     else Some destFile)"

text \<open>One line of the answer of \<open>identify\<close> per page.\<close>

definition countTiffPages :: "upload_env \<Rightarrow> string \<Rightarrow> nat option" where
  "countTiffPages ue path =
    (case ue_identify ue path of None \<Rightarrow> None
     | Some output \<Rightarrow>
         let pages = length (filter (\<lambda>l. trim_space l \<noteq> []) (split_on (CHR 0x0A) output))
         in if pages = 0 then None else Some pages)"

section \<open>The job\<close>

definition placeholder_result :: "upload_env \<Rightarrow> time \<Rightarrow> nat \<Rightarrow> FaxResult" where
  "placeholder_result ue now pages = empty_FaxResult\<lparr>fr_UUID := ue_resultID ue, fr_StartTs := now,
     fr_HangupCause := ''WEBHOOK'', fr_ResultText := ''queued'', fr_Success := False, fr_TotalPages := pages\<rparr>"

definition uploaded_job :: "upload_env \<Rightarrow> time \<Rightarrow> TenantUser \<Rightarrow> upload \<Rightarrow> string \<Rightarrow> FaxJob" where
  "uploaded_job ue now user up tiff =
    zero_FaxJob\<lparr>fj_UUID := ue_docID ue, fj_CalleeNumber := up_CalleeNumber up,
      fj_CallerIdNumber := up_CallerNumber up, fj_FileName := tiff, fj_UseECM := False, fj_DisableV17 := False,
      fj_Status := ''WEBHOOK'',
      fj_Result := Some (placeholder_result ue now (case countTiffPages ue tiff of None \<Rightarrow> 0 | Some n \<Rightarrow> n)),
      fj_SourceInfo := \<lparr>si_Timestamp = now, si_SourceType = ''webhook'',
        si_Source = (if up_Source up = [] then ''user'' else up_Source up), si_SourceID = itoa (tu_ID user)\<rparr>,
      fj_Ts := now\<rparr>"

text \<open>When the number is known but belongs to another tenant the error that is reported is \<open>nil\<close>.\<close>

definition enqueue_upload :: "web_env \<Rightarrow> upload_env \<Rightarrow> TenantUser \<Rightarrow> upload \<Rightarrow> string \<Rightarrow> ('f, uuid) handler" where
  "enqueue_upload env ue user up tiff s =
    (case getNumber (ws_server s) (up_CallerNumber up) of
       Inl _ \<Rightarrow> (refusal 500, s)
     | Inr srcNum \<Rightarrow>
         if tn_TenantID srcNum \<noteq> tu_TenantID user then (aborted, s)
         else (ok (ue_docID ue), s\<lparr>ws_routing := ws_routing s @ [uploaded_job ue (we_now env) user up tiff]\<rparr>))"

definition handleDocumentUpload ::
    "web_env \<Rightarrow> upload_env \<Rightarrow> upload option \<Rightarrow> TenantUser \<Rightarrow> ('f, uuid) handler" where
  "handleDocumentUpload env ue form user s =
    (case form of None \<Rightarrow> (refusal 400, s)
     | Some up \<Rightarrow>
         let ext = to_lower (file_ext (up_Filename up)) in
         if ext \<notin> set allowedExts then (refusal 400, s)
         else if \<not> ue_reads ue then (refusal 500, s)
         else if DetectContentType ue (take 512 (up_Content up)) \<notin> set allowedContentTypes then (refusal 400, s)
         else if \<not> ue_seeks ue then (refusal 500, s)
         else case pdfToTiff ue ext of None \<Rightarrow> (refusal 500, s)
         | Some tiff \<Rightarrow> enqueue_upload env ue user up tiff s)"

definition handleSend :: "web_env \<Rightarrow> upload_env \<Rightarrow> string \<Rightarrow> upload option \<Rightarrow> ('f, uuid) handler" where
  "handleSend env ue hdr form = basicTenantUserAuthMiddleware env hdr (handleDocumentUpload env ue form)"

section \<open>Lemmas\<close>

text \<open>The one way through the handler that puts a job on the channel.\<close>

lemma upload_cases:
  assumes "handleDocumentUpload env ue form user s = (a, s')"
  obtains (left) "s' = s" "status a \<noteq> 200"
  | (sent) up tiff where "form = Some up" "pdfToTiff ue (to_lower (file_ext (up_Filename up))) = Some tiff"
      "to_lower (file_ext (up_Filename up)) \<in> set allowedExts"
      "DetectContentType ue (take 512 (up_Content up)) \<in> set allowedContentTypes"
      "enqueue_upload env ue user up tiff s = (a, s')"
  using assms by (auto simp: handleDocumentUpload_def Let_def split: option.splits if_splits)

lemma enqueue_cases:
  assumes "enqueue_upload env ue user up tiff s = (a, s')"
  obtains (left) "s' = s" "status a \<noteq> 200"
  | (sent) srcNum where "getNumber (ws_server s) (up_CallerNumber up) = Inr srcNum"
      "tn_TenantID srcNum = tu_TenantID user" "a = ok (ue_docID ue)"
      "s' = s\<lparr>ws_routing := ws_routing s @ [uploaded_job ue (we_now env) user up tiff]\<rparr>"
  using assms by (auto simp: enqueue_upload_def split: sum.splits if_splits)

lemma authenticated:
  assumes "AuthenticateTenantUser env username password s = Some user"
  shows "user \<in> set (ws_users s)" "tu_Username user = username"
    "Decrypt (we_aes env) (tu_Password user) (we_PSK env) = Some password"
  using assms by (auto simp: AuthenticateTenantUser_def dest: find_name split: option.splits if_splits)

lemma middleware_passes:
  assumes "basicTenantUserAuthMiddleware env hdr h s = (a, s')"
  obtains (stopped) "a = unauthorized" "s' = s"
  | (signed_in) username password user where "basic_credentials hdr = Some (username, password)"
      "AuthenticateTenantUser env username password s = Some user" "h user s = (a, s')"
  using assms by (auto simp: basicTenantUserAuthMiddleware_def split: option.splits prod.splits)

lemma identify_result: "fj_Result (identify rules sv now job) = fj_Result job"
  by (simp add: identify_def Let_def split: sum.splits)

lemma uploaded_job_fields:
  "fj_UUID (uploaded_job ue now user up tiff) = ue_docID ue"
  "fj_CallerIdNumber (uploaded_job ue now user up tiff) = up_CallerNumber up"
  "fj_CalleeNumber (uploaded_job ue now user up tiff) = up_CalleeNumber up"
  "fj_FileName (uploaded_job ue now user up tiff) = tiff"
  "si_SourceID (fj_SourceInfo (uploaded_job ue now user up tiff)) = itoa (tu_ID user)"
  "fj_Result (uploaded_job ue now user up tiff) =
     Some (placeholder_result ue now (case countTiffPages ue tiff of None \<Rightarrow> 0 | Some n \<Rightarrow> n))"
  by (simp_all add: uploaded_job_def)

section \<open>Properties\<close>

text \<open>C28: A request to send a document puts at most one job on the routing channel, and does so exactly when it
  answers 200. The job is then that of a user who signed in with their own password, and its caller number belongs
  to the tenant of that user. Any other request changes nothing.\<close>

theorem upload_enqueues_own_job:
  assumes "handleSend env ue hdr form s = (a, s')"
  shows "if status a \<noteq> 200 then s' = s
    else (\<exists>user up srcNum tiff. user \<in> set (ws_users s) \<and> form = Some up
      \<and> (\<exists>password. Decrypt (we_aes env) (tu_Password user) (we_PSK env) = Some password
           \<and> basic_credentials hdr = Some (tu_Username user, password))
      \<and> getNumber (ws_server s) (up_CallerNumber up) = Inr srcNum \<and> tn_TenantID srcNum = tu_TenantID user
      \<and> s' = s\<lparr>ws_routing := ws_routing s @ [uploaded_job ue (we_now env) user up tiff]\<rparr>)"
  using assms unfolding handleSend_def
proof (cases rule: middleware_passes)
  case stopped
  then show ?thesis by (simp add: unauthorized_def)
next
  case (signed_in username password user)
  show ?thesis
    using signed_in(3)
  proof (cases rule: upload_cases)
    case (sent up tiff)
    show ?thesis
      using sent(5)
    proof (cases rule: enqueue_cases)
      case (sent srcNum)
      then show ?thesis
        using authenticated [OF signed_in(2)] signed_in(1) \<open>form = Some up\<close> by auto
    qed simp
  qed simp
qed

text \<open>The placeholder result of an uploaded document never looks like a transmission: however the job is
  routed, what the router stores of it is a submission leg that is queued, is no success and has no end.\<close>

theorem uploaded_fax_is_queued:
  "let tick = fst (routeFax rules sv now (uploaded_job ue sent user up tiff));
       r = fill_result tick (submission_state now (Some 0) (base_record now tick)) in
   jr_ResultType r = ''submission'' \<and> jr_Status r = ''queued'' \<and> jr_ResultText r = ''queued'' \<and> \<not> jr_Success r
     \<and> jr_EndTs r = None \<and> jr_TotalPages r = (case countTiffPages ue tiff of None \<Rightarrow> 0 | Some n \<Rightarrow> n)"
proof -
  define tick where "tick = fst (routeFax rules sv now (uploaded_job ue sent user up tiff))"
  have res: "fj_Result tick = Some (placeholder_result ue sent (case countTiffPages ue tiff of None \<Rightarrow> 0 | Some n \<Rightarrow> n))"
    by (simp add: tick_def routeFax_tick identify_result uploaded_job_fields)
  have "isPlaceholderResult tick"
    by (simp add: isPlaceholderResult_def res placeholder_result_def placeholderHangupCause_def)
  then have "jr_ResultType (base_record now tick) = ''submission''"
    by (simp add: base_record_def classifyFaxResult_def)
  then show ?thesis
    unfolding tick_def [symmetric]
    by (simp add: fill_result_def res submission_state_def placeholder_result_def empty_FaxResult_def timePtr_def Let_def)
qed

text \<open>TIFF files are allowed by their name but never accepted: as long as the sniffed type of data without the
  PDF signature is not one of the allowed types (the table of \<open>DetectContentType\<close> has no TIFF entry), a document
  that is not a PDF is refused whatever it is called.\<close>

theorem tiff_upload_refused:
  assumes "\<And>d. ue_other_type ue d \<notin> set allowedContentTypes" "\<not> has_prefix (up_Content up) ''%PDF-''"
  shows "status (fst (handleDocumentUpload env ue (Some up) user s)) \<in> {400, 500}"
    "snd (handleDocumentUpload env ue (Some up) user s) = s"
proof -
  have "\<not> has_prefix (take 512 (up_Content up)) ''%PDF-''"
    using assms(2) by (auto simp: has_prefix_def min_def split: if_splits)
  then have "DetectContentType ue (take 512 (up_Content up)) \<notin> set allowedContentTypes"
    using assms(1) by (simp add: DetectContentType_def)
  then show "status (fst (handleDocumentUpload env ue (Some up) user s)) \<in> {400, 500}"
    "snd (handleDocumentUpload env ue (Some up) user s) = s"
    by (simp_all add: handleDocumentUpload_def Let_def)
qed

text \<open>A document sent with a caller number of another tenant is not refused: once the file has been converted
  the handler panics, since it reports an error that is \<open>nil\<close>.\<close>

theorem foreign_caller_panics:
  assumes "handleDocumentUpload env ue (Some up) user s = (ok u, s')" "getNumber (ws_server s) other = Inr srcNum"
    and "tn_TenantID srcNum \<noteq> tu_TenantID user"
  shows "handleDocumentUpload env ue (Some (up\<lparr>up_CallerNumber := other\<rparr>)) user s = (aborted, s)"
  using assms by (auto simp: handleDocumentUpload_def enqueue_upload_def Let_def split: option.splits if_splits sum.splits)

section \<open>Sample values\<close>

definition sample_uenv :: upload_env where
  "sample_uenv = \<lparr>ue_reads = True, ue_seeks = True, ue_other_type = (\<lambda>_. ''application/octet-stream''), ue_saves = True,
     ue_convert = (\<lambda>_ _. True), ue_size = (\<lambda>_. Some 10), ue_identify = (\<lambda>_. Some ''p1''), ue_uuid_string = (\<lambda>_. ''7''),
     ue_TempPath = (\<lambda>f. ''/tmp/'' @ f), ue_docID = 7, ue_resultID = 8\<rparr>"

definition sample_upload :: upload where
  "sample_upload = \<lparr>up_Filename = ''letter.PDF'', up_Content = ''%PDF-1.4'', up_CalleeNumber = ''200'',
     up_CallerNumber = ''100'', up_Source = []\<rparr>"

lemma sample_upload_sent:
  "handleDocumentUpload sample_wenv sample_uenv (Some sample_upload) user s
     = enqueue_upload sample_wenv sample_uenv user sample_upload ''/tmp/fax_7.tiff'' s"
proof -
  have "to_lower (file_ext (up_Filename sample_upload)) = ''.pdf''"
    "DetectContentType sample_uenv (take 512 (up_Content sample_upload)) \<in> set allowedContentTypes"
    "pdfToTiff sample_uenv ''.pdf'' = Some ''/tmp/fax_7.tiff''" "''.pdf'' \<in> set allowedExts"
    "ue_reads sample_uenv" "ue_seeks sample_uenv"
    by code_simp+
  then show ?thesis
    by (simp add: handleDocumentUpload_def)
qed

lemma sample_upload_ok:
  assumes "ws_gateways s = sample_gstate" "tu_TenantID user = 3"
  shows "handleDocumentUpload sample_wenv sample_uenv (Some sample_upload) user s = (ok 7,
    s\<lparr>ws_routing := ws_routing s @ [uploaded_job sample_uenv (we_now sample_wenv) user sample_upload ''/tmp/fax_7.tiff'']\<rparr>)"
  unfolding sample_upload_sent
  using assms by (simp add: enqueue_upload_def getNumber_def sample_gstate_def sample_directory sample_upload_def sample_uenv_def)

lemma upload_enqueues_own_job_witness:
  "\<exists>(s :: unit web_state) a s'. handleSend sample_wenv sample_uenv (basic_header ''alice'' ''a:b'') (Some sample_upload) s = (a, s')
     \<and> status a = 200 \<and> (\<exists>srcNum. getNumber (ws_server s) ''100'' = Inr srcNum \<and> tn_TenantID srcNum = 3)"
proof -
  obtain u s where a: "AddTenantUser sample_wenv sample_user sample_wstate = (Some u, s)"
    using sample_added by blast
  note s = sample_signs_in [OF a]
  let ?t = "s\<lparr>ws_routing := ws_routing s @ [uploaded_job sample_uenv (we_now sample_wenv) u sample_upload ''/tmp/fax_7.tiff'']\<rparr>"
  have sent: "handleSend sample_wenv sample_uenv (basic_header ''alice'' ''a:b'') (Some sample_upload) s = (ok 7, ?t)"
    unfolding handleSend_def s(1) by (rule sample_upload_ok [OF s(2,5)])
  obtain user srcNum where "user \<in> set (ws_users s)"
    "getNumber (ws_server s) (up_CallerNumber sample_upload) = Inr srcNum"
    "tn_TenantID srcNum = tu_TenantID user"
    using upload_enqueues_own_job [OF sent] by auto
  then have "getNumber (ws_server s) ''100'' = Inr srcNum" "tn_TenantID srcNum = 3"
    using s(4,5) by (simp_all add: sample_upload_def)
  with sent show ?thesis
    by (intro exI [of _ s] exI [of _ "ok 7"] exI [of _ ?t] exI [of _ srcNum] conjI) simp_all
qed

lemma tiff_upload_refused_witness:
  "status (fst (handleDocumentUpload sample_wenv sample_uenv
     (Some (sample_upload\<lparr>up_Filename := ''scan.tiff'', up_Content := ''II*''\<rparr>)) sample_user sample_wstate)) \<in> {400, 500}"
proof -
  have "ue_other_type sample_uenv d \<notin> set allowedContentTypes" for d
    by (simp add: sample_uenv_def allowedContentTypes_def)
  moreover have "\<not> has_prefix (up_Content (sample_upload\<lparr>up_Filename := ''scan.tiff'', up_Content := ''II*''\<rparr>)) ''%PDF-''"
    by (simp add: has_prefix_def)
  ultimately show ?thesis
    by (rule tiff_upload_refused)
qed

definition foreign_wstate :: "unit web_state" where
  "foreign_wstate = put_server (sample_server\<lparr>sv_TenantNumbers := (''900'', sample_number\<lparr>tn_TenantID := 4\<rparr>)
     # sv_TenantNumbers sample_server\<rparr>) sample_wstate"

lemma foreign_sent:
  "handleDocumentUpload sample_wenv sample_uenv (Some sample_upload) sample_user foreign_wstate = (ok 7,
    foreign_wstate\<lparr>ws_routing := ws_routing foreign_wstate
      @ [uploaded_job sample_uenv (we_now sample_wenv) sample_user sample_upload ''/tmp/fax_7.tiff'']\<rparr>)"
proof -
  have "getNumber (ws_server foreign_wstate) ''100'' = Inr sample_number"
    by (simp add: getNumber_def foreign_wstate_def put_server_def sample_server_def)
  then show ?thesis
    unfolding sample_upload_sent
    by (simp add: enqueue_upload_def sample_upload_def sample_user_def sample_number_def sample_uenv_def)
qed

lemma foreign_caller_panics_witness:
  "handleDocumentUpload sample_wenv sample_uenv (Some (sample_upload\<lparr>up_CallerNumber := ''900''\<rparr>)) sample_user foreign_wstate
     = (aborted, foreign_wstate)"
  using foreign_sent
  by (rule foreign_caller_panics [where srcNum = "sample_number\<lparr>tn_TenantID := 4\<rparr>"])
    (simp_all add: getNumber_def foreign_wstate_def put_server_def sample_user_def)

end
