(* ===== verification/Portal_Base.thy ===== *)
theory Portal_Base
  imports Web_Answer Fax_Crypto Net_Addr
begin

text \<open>
  The web portal (\<open>src/portal/internal\<close>): its tables (\<open>models/models.go\<close>), the sealing of secrets
  (\<open>crypto/crypto.go\<close>), sessions, pending sign-ins and the rate limiter (\<open>auth/auth.go\<close>), the check of one-time
  codes (\<open>totp/totp.go\<close>), the address of a client and the audit trail (\<open>api/server.go\<close>).

  SHA-256, AES-GCM, bcrypt, the one-time password library, random bytes and the order of texts in the database are
  arguments. New identifiers come from
  one counter: each table has a sequence of its own, and the code relies on no more than that they are new.
\<close>

section \<open>Sealed secrets\<close>

text \<open>Keys, nonces and sealed texts are byte strings.\<close>

record sealing =
  sl_sha256 :: "string \<Rightarrow> string"
  sl_Seal :: "string \<Rightarrow> string \<Rightarrow> string \<Rightarrow> string"
  sl_Open :: "string \<Rightarrow> string \<Rightarrow> string \<Rightarrow> string option"

type_synonym Box = string

definition NonceSize :: nat where "NonceSize = 12"

definition NewBox :: "sealing \<Rightarrow> string \<Rightarrow> Box" where
  "NewBox sl secret = sl_sha256 sl secret"

definition NewFaxBox :: "sealing \<Rightarrow> string \<Rightarrow> Box" where
  "NewFaxBox sl secret = NewBox sl (''gofaxportal-fax-storage-v1:'' @ secret)"

definition NewTOTPBox :: "sealing \<Rightarrow> string \<Rightarrow> Box" where
  "NewTOTPBox sl secret = NewBox sl (''gofaxportal-totp-v1:'' @ secret)"

definition NewPrepBox :: "sealing \<Rightarrow> string \<Rightarrow> Box" where
  "NewPrepBox sl secret = NewBox sl (''gofaxportal-prep-storage-v1:'' @ secret)"

text \<open>The nonce is \<open>None\<close> when the source of random bytes fails.\<close>

definition SealBox :: "sealing \<Rightarrow> Box \<Rightarrow> string option \<Rightarrow> string \<Rightarrow> string option" where
  "SealBox sl b nonce plaintext = map_option (\<lambda>n. n @ sl_Seal sl b n plaintext) nonce"

definition OpenBox :: "sealing \<Rightarrow> Box \<Rightarrow> string \<Rightarrow> string option" where
  "OpenBox sl b sealed =
    (if length sealed < NonceSize then None else sl_Open sl b (take NonceSize sealed) (drop NonceSize sealed))"

definition hex_char :: "nat \<Rightarrow> char" where
  "hex_char n = (if n < 10 then char_of (48 + n) else char_of (87 + n))"

definition hex_encode :: "string \<Rightarrow> string" where
  "hex_encode s = concat (map (\<lambda>c. [hex_char (of_char c div 16), hex_char (of_char c mod 16)]) s)"

definition RandomToken :: "string \<Rightarrow> string" where
  "RandomToken bytes = hex_encode bytes"

definition HashToken :: "sealing \<Rightarrow> string \<Rightarrow> string" where
  "HashToken sl token = hex_encode (sl_sha256 sl token)"

section \<open>Tables\<close>

definition RoleAdmin :: string where "RoleAdmin = ''admin''"
definition RoleUser :: string where "RoleUser = ''user''"
definition JobQueued :: string where "JobQueued = ''queued''"
definition JobSending :: string where "JobSending = ''sending''"
definition JobSuccess :: string where "JobSuccess = ''success''"
definition JobFailed :: string where "JobFailed = ''failed''"
definition PendingAuthPurposeLogin :: string where "PendingAuthPurposeLogin = ''login''"
definition PendingAuthPurposeEnroll :: string where "PendingAuthPurposeEnroll = ''enroll''"

record Org =
  og_ID :: nat
  og_Name :: string
  og_GofaxTenantID :: nat
  og_SvcUsername :: string
  og_SvcPasswordEnc :: string
  og_TenantNotify :: string
  og_TOTPRequired :: bool
  og_RetentionDays :: int
  og_Active :: bool

record PortalUser =
  pu_ID :: nat
  pu_Username :: string
  pu_Email :: string
  pu_PasswordHash :: string
  pu_Role :: string
  pu_OrgID :: "nat option"
  pu_Active :: bool
  pu_EmailNotify :: bool
  pu_TOTPSecretEnc :: string
  pu_TOTPEnabled :: bool

record PortalNumber =
  nu_ID :: nat
  nu_Number :: string
  nu_Name :: string
  nu_Header :: string
  nu_GofaxNumberID :: nat
  nu_OrgID :: nat
  nu_Active :: bool
  nu_InboundEnabled :: bool
  nu_PortalEndpointID :: nat
  nu_CustomNotify :: string

record PortalJob =
  pj_ID :: nat
  pj_JobUUID :: string
  pj_OrgID :: nat
  pj_UserID :: nat
  pj_CallerNumber :: string
  pj_CalleeNumber :: string
  pj_OriginalFilename :: string
  pj_Status :: string
  pj_Pages :: int
  pj_TotalPages :: int
  pj_Attempts :: int
  pj_ResultText :: string
  pj_LastError :: string
  pj_SeenActive :: bool
  pj_SubmittedAt :: time
  pj_CompletedAt :: "time option"
  pj_UpdatedAt :: time

record InboundFax =
  if_ID :: nat
  if_JobUUID :: string
  if_OrgID :: nat
  if_NumberID :: "nat option"
  if_CallerNumber :: string
  if_CallerName :: string
  if_CalleeNumber :: string
  if_Pages :: int
  if_Partial :: bool
  if_TotalPages :: int
  if_FileEnc :: string
  if_FileSHA256 :: string
  if_FileBytes :: int
  if_ReceivedAt :: time

record Session =
  se_ID :: nat
  se_TokenHash :: string
  se_CSRFToken :: string
  se_UserID :: nat
  se_ExpiresAt :: time
  se_CreatedAt :: time

record PendingAuth =
  pa_ID :: nat
  pa_TokenHash :: string
  pa_UserID :: nat
  pa_Purpose :: string
  pa_ExpiresAt :: time

record PreparedFax =
  pf_ID :: string
  pf_UserID :: nat
  pf_OrgID :: nat
  pf_Filename :: string
  pf_Pages :: int
  pf_PreviewPages :: int
  pf_FitMode :: string
  pf_Cover :: bool
  pf_DocEnc :: string
  pf_DocSHA256 :: string
  pf_DocBytes :: int
  pf_ExpiresAt :: time

record PreparedPreview =
  pp_PreparedFaxID :: string
  pp_Page :: int
  pp_DataEnc :: string

record AuditLog =
  au_ActorID :: "nat option"
  au_ActorUsername :: string
  au_Action :: string
  au_Target :: string
  au_IP :: string

section \<open>The rate limiter\<close>

record RateLimiter =
  rl_window :: duration
  rl_hits :: "(string \<times> time list) list"
  rl_lastGC :: time

definition NewRateLimiter :: "duration \<Rightarrow> time \<Rightarrow> RateLimiter" where
  "NewRateLimiter window now = \<lparr>rl_window = window, rl_hits = [], rl_lastGC = now\<rparr>"

definition kept_hits :: "duration \<Rightarrow> time \<Rightarrow> time list \<Rightarrow> time list" where
  "kept_hits window now ts = filter (\<lambda>t. time_sub now t < window) ts"

text \<open>The sweep over all keys: empty keys go.\<close>

definition collect_hits :: "time \<Rightarrow> RateLimiter \<Rightarrow> RateLimiter" where
  "collect_hits now r =
    (if time_sub now (rl_lastGC r) > 10 * rl_window r
     then r\<lparr>rl_hits := filter (\<lambda>(k, ts). ts \<noteq> []) (map (\<lambda>(k, ts). (k, kept_hits (rl_window r) now ts)) (rl_hits r)),
            rl_lastGC := now\<rparr>
     else r)"

definition Allow :: "time \<Rightarrow> string \<Rightarrow> int \<Rightarrow> RateLimiter \<Rightarrow> bool \<times> RateLimiter" where
  "Allow now key limit r =
    (let r1 = collect_hits now r;
         kept = kept_hits (rl_window r1) now (get_or [] (rl_hits r1) key) in
     if int (length kept) \<ge> limit then (False, r1\<lparr>rl_hits := AList.update key kept (rl_hits r1)\<rparr>)
     else (True, r1\<lparr>rl_hits := AList.update key (kept @ [now]) (rl_hits r1)\<rparr>))"

section \<open>The state of the portal\<close>

record portal_state =
  po_orgs :: "Org list"
  po_users :: "PortalUser list"
  po_numbers :: "PortalNumber list"
  po_user_numbers :: "(nat \<times> nat) list"
  po_jobs :: "PortalJob list"
  po_inbound :: "InboundFax list"
  po_sessions :: "Session list"
  po_pending :: "PendingAuth list"
  po_prepared :: "PreparedFax list"
  po_previews :: "PreparedPreview list"
  po_audit :: "AuditLog list"
  po_loginLimit :: RateLimiter
  po_sendLimit :: RateLimiter
  po_prepareLimit :: RateLimiter
  po_nextID :: nat

datatype portal_op =
  SessionInsert | SessionFind | SessionDelete | SessionRenew | SessionUser | SessionPurge | SessionRevoke
| PendingInsert | PendingFind | PendingDelete | PendingPurge
| LoginFind | LoginOrg | SecretSave | EnrolledSave | PendingUser | RealmOrg | AuditInsert
| JobInsert | JobFind | JobUpdate | JobsFind | NumbersFind | SendOrg
| PreparedInsert | PreparedFind | PreparedDelete | PreviewFind | PreviewDelete
| InboundOrg | InboundNumber | InboundInsert | InboundFind | InboundDelete | InboundCount | InboundList | AssignedCount
| SweepOrgs | CredsOrg

record portal_env =
  pe_suite :: sealing
  pe_EncryptionKey :: string
  pe_random :: "nat \<Rightarrow> string"
  pe_nonce :: "string option"
  pe_CheckPassword :: "string \<Rightarrow> string \<Rightarrow> bool"
  pe_totp :: "string \<Rightarrow> string \<Rightarrow> time \<Rightarrow> bool"
  pe_newSecret :: "string \<Rightarrow> string option"
  pe_readable :: "string \<Rightarrow> bool"
  pe_collate :: "string \<Rightarrow> string \<Rightarrow> bool"
  pe_faults :: "portal_op \<Rightarrow> bool"
  pe_now :: time
  pe_LoginRatePerMinute :: int
  pe_SendRatePerHour :: int
  pe_PrepareRatePerHour :: int
  pe_TrustedProxies :: "string list"
  pe_InboundAPIKey :: string
  pe_UploadMaxMB :: int

type_synonym 'b portal_handler = "portal_state \<Rightarrow> 'b answer \<times> portal_state"

text \<open>The boxes of the server: service passwords, received faxes, one-time secrets, prepared documents.\<close>

definition pe_Box :: "portal_env \<Rightarrow> Box" where "pe_Box env = NewBox (pe_suite env) (pe_EncryptionKey env)"
definition pe_FaxBox :: "portal_env \<Rightarrow> Box" where "pe_FaxBox env = NewFaxBox (pe_suite env) (pe_EncryptionKey env)"
definition pe_TOTPBox :: "portal_env \<Rightarrow> Box" where "pe_TOTPBox env = NewTOTPBox (pe_suite env) (pe_EncryptionKey env)"
definition pe_PrepBox :: "portal_env \<Rightarrow> Box" where "pe_PrepBox env = NewPrepBox (pe_suite env) (pe_EncryptionKey env)"

abbreviation hash_token :: "portal_env \<Rightarrow> string \<Rightarrow> string" where
  "hash_token env \<equiv> HashToken (pe_suite env)"

text \<open>\<open>First\<close> by primary key.\<close>

definition find_user :: "portal_env \<Rightarrow> portal_op \<Rightarrow> nat \<Rightarrow> portal_state \<Rightarrow> PortalUser option" where
  "find_user env q i s = (if pe_faults env q then None else List.find (\<lambda>u. pu_ID u = i) (po_users s))"

definition find_org :: "portal_env \<Rightarrow> portal_op \<Rightarrow> nat \<Rightarrow> portal_state \<Rightarrow> Org option" where
  "find_org env q i s = (if pe_faults env q then None else List.find (\<lambda>o1. og_ID o1 = i) (po_orgs s))"

section \<open>Sessions and pending sign-ins\<close>

definition sessionTTL :: duration where "sessionTTL = 24 * Hour"
definition pendingAuthTTL :: duration where "pendingAuthTTL = 10 * Minute"

text \<open>The token, the token against forged requests, and the end of the session. The hash of a token is a unique key.\<close>

definition CreateSession :: "portal_env \<Rightarrow> nat \<Rightarrow> portal_state \<Rightarrow> (string \<times> string \<times> time) option \<times> portal_state" where
  "CreateSession env user s =
    (let token = RandomToken (pe_random env 0); csrf = RandomToken (pe_random env 1);
         expires = pe_now env + sessionTTL in
     if pe_faults env SessionInsert \<or> hash_token env token \<in> se_TokenHash ` set (po_sessions s) then (None, s)
     else (Some (token, csrf, expires),
       s\<lparr>po_sessions := po_sessions s @ [\<lparr>se_ID = po_nextID s, se_TokenHash = hash_token env token, se_CSRFToken = csrf,
            se_UserID = user, se_ExpiresAt = expires, se_CreatedAt = pe_now env\<rparr>],
         po_nextID := Suc (po_nextID s)\<rparr>))"

definition drop_session :: "portal_env \<Rightarrow> Session \<Rightarrow> portal_state \<Rightarrow> portal_state" where
  "drop_session env sess s =
    (if pe_faults env SessionDelete then s
     else s\<lparr>po_sessions := filter (\<lambda>x. se_ID x \<noteq> se_ID sess) (po_sessions s)\<rparr>)"

definition renew_session :: "portal_env \<Rightarrow> Session \<Rightarrow> portal_state \<Rightarrow> Session \<times> portal_state" where
  "renew_session env sess s =
    (if time_sub (pe_now env) (se_CreatedAt sess) > sessionTTL div 2
     then let e = pe_now env + sessionTTL in
       (sess\<lparr>se_ExpiresAt := e\<rparr>,
        if pe_faults env SessionRenew then s
        else s\<lparr>po_sessions := map (\<lambda>x. if se_ID x = se_ID sess then x\<lparr>se_ExpiresAt := e\<rparr> else x) (po_sessions s)\<rparr>)
     else (sess, s))"

text \<open>\<open>Lookup\<close>: expired sessions, and those of users who are not active, are deleted.\<close>

definition LookupSession :: "portal_env \<Rightarrow> string \<Rightarrow> portal_state \<Rightarrow> (Session \<times> PortalUser) option \<times> portal_state" where
  "LookupSession env token s =
    (if token = [] then (None, s)
     else case (if pe_faults env SessionFind then None
                else List.find (\<lambda>x. se_TokenHash x = hash_token env token) (po_sessions s)) of
       None \<Rightarrow> (None, s)
     | Some sess \<Rightarrow>
         if pe_now env > se_ExpiresAt sess then (None, drop_session env sess s)
         else (case find_user env SessionUser (se_UserID sess) s of
             None \<Rightarrow> (None, s)
           | Some user \<Rightarrow>
               if \<not> pu_Active user then (None, drop_session env sess s)
               else (case renew_session env sess s of (sess1, s1) \<Rightarrow> (Some (sess1, user), s1))))"

definition DestroySession :: "portal_env \<Rightarrow> string \<Rightarrow> portal_state \<Rightarrow> portal_state" where
  "DestroySession env token s =
    (if pe_faults env SessionDelete then s
     else s\<lparr>po_sessions := filter (\<lambda>x. se_TokenHash x \<noteq> hash_token env token) (po_sessions s)\<rparr>)"

definition DestroyUserSessions :: "portal_env \<Rightarrow> nat \<Rightarrow> portal_state \<Rightarrow> portal_state" where
  "DestroyUserSessions env user s =
    (if pe_faults env SessionRevoke then s
     else s\<lparr>po_sessions := filter (\<lambda>x. se_UserID x \<noteq> user) (po_sessions s)\<rparr>)"

definition CreatePendingAuth :: "portal_env \<Rightarrow> nat \<Rightarrow> string \<Rightarrow> portal_state \<Rightarrow> string option \<times> portal_state" where
  "CreatePendingAuth env user purpose s =
    (let token = RandomToken (pe_random env 0) in
     if pe_faults env PendingInsert \<or> hash_token env token \<in> pa_TokenHash ` set (po_pending s) then (None, s)
     else (Some token,
       s\<lparr>po_pending := po_pending s @ [\<lparr>pa_ID = po_nextID s, pa_TokenHash = hash_token env token, pa_UserID = user,
            pa_Purpose = purpose, pa_ExpiresAt = pe_now env + pendingAuthTTL\<rparr>],
         po_nextID := Suc (po_nextID s)\<rparr>))"

definition ConsumePendingAuth :: "portal_env \<Rightarrow> PendingAuth \<Rightarrow> portal_state \<Rightarrow> portal_state" where
  "ConsumePendingAuth env p s =
    (if pe_faults env PendingDelete then s
     else s\<lparr>po_pending := filter (\<lambda>x. pa_ID x \<noteq> pa_ID p) (po_pending s)\<rparr>)"

definition LookupPendingAuth :: "portal_env \<Rightarrow> string \<Rightarrow> portal_state \<Rightarrow> PendingAuth option \<times> portal_state" where
  "LookupPendingAuth env token s =
    (if token = [] then (None, s)
     else case (if pe_faults env PendingFind then None
                else List.find (\<lambda>x. pa_TokenHash x = hash_token env token) (po_pending s)) of
       None \<Rightarrow> (None, s)
     | Some p \<Rightarrow> if pe_now env > pa_ExpiresAt p then (None, ConsumePendingAuth env p s) else (Some p, s))"

definition PurgeExpired :: "portal_env \<Rightarrow> portal_state \<Rightarrow> portal_state" where
  "PurgeExpired env s =
    s\<lparr>po_sessions := (if pe_faults env SessionPurge then po_sessions s
                        else filter (\<lambda>x. \<not> se_ExpiresAt x < pe_now env) (po_sessions s)),
      po_pending := (if pe_faults env PendingPurge then po_pending s
                       else filter (\<lambda>x. \<not> pa_ExpiresAt x < pe_now env) (po_pending s))\<rparr>"

definition SecureEquals :: "string \<Rightarrow> string \<Rightarrow> bool" where
  "SecureEquals a b \<longleftrightarrow> length a = length b \<and> list_all (\<lambda>(x, y). x = y) (zip a b)"

text \<open>\<open>totp.Validate\<close>: six characters after trimming, checked by the library.\<close>

definition ValidateTOTP :: "portal_env \<Rightarrow> string \<Rightarrow> string \<Rightarrow> bool" where
  "ValidateTOTP env code secret =
    (let c = trim_space code in if length c \<noteq> 6 \<or> secret = [] then False else pe_totp env c secret (pe_now env))"

section \<open>The address of a client\<close>

text \<open>\<open>net.SplitHostPort\<close>: the host of \<open>host:port\<close> and \<open>[host]:port\<close>.\<close>

definition SplitHostPort :: "string \<Rightarrow> (string \<times> string) option" where
  "SplitHostPort hp =
    (if CHR '':'' \<notin> set hp then None
     else let port = rev (takeWhile (\<lambda>c. c \<noteq> CHR '':'') (rev hp));
              host = take (length hp - length port - 1) hp in
       if hd hp = CHR ''['' then
         (let inner = takeWhile (\<lambda>c. c \<noteq> CHR '']'') (tl hp); rest = dropWhile (\<lambda>c. c \<noteq> CHR '']'') (tl hp) in
          if rest = CHR '']'' # CHR '':'' # port \<and> CHR ''['' \<notin> set (tl hp) \<and> CHR '']'' \<notin> set port
          then Some (inner, port) else None)
       else if CHR '':'' \<in> set host \<or> CHR ''['' \<in> set hp \<or> CHR '']'' \<in> set hp then None
       else Some (host, port))"

definition isTrustedProxy :: "string \<Rightarrow> string list \<Rightarrow> bool" where
  "isTrustedProxy remote trustedProxies =
    (case ParseIP remote of None \<Rightarrow> False
     | Some ip \<Rightarrow> list_ex (\<lambda>p0. let p = trim_space p0 in
          p \<noteq> [] \<and> (remote = p \<or> (case ParseCIDR p of None \<Rightarrow> False | Some cidr \<Rightarrow> Contains cidr ip))) trustedProxies)"

definition stripPort :: "string \<Rightarrow> string" where
  "stripPort addr =
    (case SplitHostPort addr of Some (ip, _) \<Rightarrow> ip
     | None \<Rightarrow> if ParseIP addr \<noteq> None then addr else [])"

definition resolveClientIP :: "string \<Rightarrow> string \<Rightarrow> string \<Rightarrow> string list \<Rightarrow> string" where
  "resolveClientIP remoteAddr xRealIP xff trustedProxies =
    (let remote = (case SplitHostPort remoteAddr of None \<Rightarrow> remoteAddr | Some (ip, _) \<Rightarrow> ip) in
     if \<not> isTrustedProxy remote trustedProxies then remote
     else if trim_space xRealIP \<noteq> [] \<and> stripPort (trim_space xRealIP) \<noteq> [] then stripPort (trim_space xRealIP)
     else if xff = [] then remote
     else (case List.find (\<lambda>ip. ip \<noteq> []) (map (\<lambda>p. stripPort (trim_space p)) (rev (split_on (CHR '','') xff))) of
         None \<Rightarrow> remote | Some ip \<Rightarrow> ip))"

section \<open>Requests\<close>

record portal_request =
  rq_Method :: string
  rq_RemoteAddr :: string
  rq_RealIP :: string
  rq_ForwardedFor :: string
  rq_Cookie :: "string option"
  rq_CSRFToken :: string
  rq_APIKey :: string

definition clientIP :: "portal_env \<Rightarrow> portal_request \<Rightarrow> string" where
  "clientIP env rq = resolveClientIP (rq_RemoteAddr rq) (rq_RealIP rq) (rq_ForwardedFor rq) (pe_TrustedProxies env)"

text \<open>An event of the audit trail, with the user of the request when there is one; the detail is not kept.\<close>

definition audit :: "portal_env \<Rightarrow> portal_request \<Rightarrow> PortalUser option \<Rightarrow> string \<Rightarrow> string \<Rightarrow> portal_state \<Rightarrow> portal_state" where
  "audit env rq actor action target s =
    (if pe_faults env AuditInsert then s
     else s\<lparr>po_audit := po_audit s @ [\<lparr>au_ActorID = map_option pu_ID actor,
            au_ActorUsername = (case actor of None \<Rightarrow> [] | Some u \<Rightarrow> pu_Username u), au_Action = action, au_Target = target,
            au_IP = clientIP env rq\<rparr>]\<rparr>)"

text \<open>The fax server is authorized by a shared key when one is configured, and names the account of an organization.\<close>

definition wrong_key :: "portal_env \<Rightarrow> portal_request \<Rightarrow> bool" where
  "wrong_key env rq \<longleftrightarrow> pe_InboundAPIKey env \<noteq> [] \<and> \<not> SecureEquals (rq_APIKey rq) (pe_InboundAPIKey env)"

definition service_org :: "portal_env \<Rightarrow> string \<Rightarrow> portal_state \<Rightarrow> nat + Org" where
  "service_org env svc s =
    (if pe_faults env InboundOrg then Inl 500
     else case List.find (\<lambda>o1. og_SvcUsername o1 = svc) (po_orgs s) of None \<Rightarrow> Inl 404
     | Some org \<Rightarrow> if og_Active org then Inr org else Inl 404)"

definition clampLimit :: "int \<Rightarrow> int \<Rightarrow> int" where
  "clampLimit v m = (if v \<le> 0 then 50 else if v > m then m else v)"

section \<open>Lemmas\<close>

lemma found: "List.find P xs = Some x \<Longrightarrow> x \<in> set xs \<and> P x"
  by (metis find_Some_iff nth_mem)

subsection \<open>Sealing\<close>

lemma open_sealed:
  assumes "\<And>k n p. sl_Open sl k n (sl_Seal sl k n p) = Some p" "SealBox sl b nonce p = Some c"
    and "\<And>n. nonce = Some n \<Longrightarrow> length n = NonceSize"
  shows "OpenBox sl b c = Some p"
  using assms by (auto simp: SealBox_def OpenBox_def)

lemma SecureEquals_iff [simp]: "SecureEquals a b \<longleftrightarrow> a = b"
proof (induction a arbitrary: b)
  case (Cons x a)
  then show ?case
    by (cases b) (auto simp: SecureEquals_def)
qed (auto simp: SecureEquals_def)

text \<open>A peer that is not trusted cannot choose the address it is known by.\<close>

lemma untrusted_peer_address:
  "\<not> isTrustedProxy (case SplitHostPort addr of None \<Rightarrow> addr | Some (ip, _) \<Rightarrow> ip) trusted
    \<Longrightarrow> resolveClientIP addr r f trusted = resolveClientIP addr r' f' trusted"
  by (simp add: resolveClientIP_def)

lemma audit_tables [simp]:
  "po_sessions (audit env rq u a t s) = po_sessions s" "po_pending (audit env rq u a t s) = po_pending s"
  "po_users (audit env rq u a t s) = po_users s" "po_orgs (audit env rq u a t s) = po_orgs s"
  "po_jobs (audit env rq u a t s) = po_jobs s" "po_inbound (audit env rq u a t s) = po_inbound s"
  "po_numbers (audit env rq u a t s) = po_numbers s" "po_user_numbers (audit env rq u a t s) = po_user_numbers s"
  "po_nextID (audit env rq u a t s) = po_nextID s" "po_prepared (audit env rq u a t s) = po_prepared s"
  "po_previews (audit env rq u a t s) = po_previews s"
  by (simp_all add: audit_def)

lemma find_user_row: "find_user env q i s = Some u \<Longrightarrow> u \<in> set (po_users s) \<and> pu_ID u = i"
  by (auto simp: find_user_def dest!: found split: if_splits)

lemma find_org_row: "find_org env q i s = Some o1 \<Longrightarrow> o1 \<in> set (po_orgs s) \<and> og_ID o1 = i"
  by (auto simp: find_org_def dest!: found split: if_splits)

subsection \<open>The rate limiter\<close>

text \<open>The reference: no sweeping and no pruning, only the calls that were let through.\<close>

fun granted :: "duration \<Rightarrow> int \<Rightarrow> (time \<times> string) list \<Rightarrow> (time \<times> string) list \<Rightarrow> bool list" where
  "granted w limit log [] = []"
| "granted w limit log ((now, key) # calls) =
     (let a = int (length (filter (\<lambda>(t, k). k = key \<and> time_sub now t < w) log)) < limit
      in a # granted w limit (if a then log @ [(now, key)] else log) calls)"

fun answers :: "int \<Rightarrow> RateLimiter \<Rightarrow> (time \<times> string) list \<Rightarrow> bool list" where
  "answers limit r [] = []"
| "answers limit r ((now, key) # calls) = (case Allow now key limit r of (a, r1) \<Rightarrow> a # answers limit r1 calls)"

definition hits_of :: "string \<Rightarrow> (time \<times> string) list \<Rightarrow> time list" where
  "hits_of key log = map fst (filter (\<lambda>(t, k). k = key) log)"

text \<open>From a time on, the limiter keeps the same hits as the log.\<close>

definition agrees :: "time \<Rightarrow> RateLimiter \<Rightarrow> (time \<times> string) list \<Rightarrow> bool" where
  "agrees t0 r log \<longleftrightarrow> distinct (map fst (rl_hits r)) \<and>
     (\<forall>now key. t0 \<le> now \<longrightarrow>
        kept_hits (rl_window r) now (get_or [] (rl_hits r) key) = kept_hits (rl_window r) now (hits_of key log))"

lemma time_sub_later: "t0 \<le> now \<Longrightarrow> time_sub t0 t \<le> time_sub now t"
  by (auto simp: time_sub_def)

lemma kept_again: "t0 \<le> now \<Longrightarrow> kept_hits w now (kept_hits w t0 ts) = kept_hits w now ts"
  using time_sub_later le_less_trans unfolding kept_hits_def filter_filter by (metis (no_types, opaque_lifting))

lemma kept_Nil [simp]: "kept_hits w now [] = []"
  by (simp add: kept_hits_def)

lemma kept_append [simp]: "kept_hits w now (a @ b) = kept_hits w now a @ kept_hits w now b"
  by (simp add: kept_hits_def)

lemma map_of_kept: "map_of (map (\<lambda>(k, ts). (k, f ts)) m) key = map_option f (map_of m key)"
  by (induction m) auto

lemma map_of_filled:
  "distinct (map fst m) \<Longrightarrow> get_or [] (filter (\<lambda>(k, ts). ts \<noteq> []) m) key = get_or [] m key"
proof (induction m)
  case (Cons e m)
  obtain k ts where e: "e = (k, ts)" by fastforce
  have "map_of m k = None" "map_of (filter (\<lambda>(k, ts). ts \<noteq> []) m) k = None"
    using Cons.prems e by (auto simp: map_of_eq_None_iff)
  then show ?case
    using Cons e by (auto simp: get_or_def split: option.splits if_splits)
qed simp

lemma agrees_collect:
  assumes "agrees t0 r log" "t0 \<le> now"
  shows "agrees now (collect_hits now r) log \<and> rl_window (collect_hits now r) = rl_window r"
proof -
  let ?m = "map (\<lambda>(k, ts). (k, kept_hits (rl_window r) now ts)) (rl_hits r)"
  have keys: "map fst ?m = map fst (rl_hits r)"
    by (induction "rl_hits r") (auto simp: case_prod_unfold)
  have dist: "distinct (map fst ?m)"
    using assms(1) unfolding keys by (simp add: agrees_def)
  have got: "get_or [] (filter (\<lambda>(k, ts). ts \<noteq> []) ?m) key = kept_hits (rl_window r) now (get_or [] (rl_hits r) key)" for key
    unfolding map_of_filled [OF dist] by (simp add: get_or_def map_of_kept kept_hits_def split: option.splits)
  have "distinct (map fst (filter (\<lambda>(k, ts). ts \<noteq> []) ?m))"
    using dist by (rule distinct_map_filter)
  then show ?thesis
    using assms by (auto simp: agrees_def collect_hits_def got kept_again)
qed

lemma agrees_Allow:
  assumes "agrees t0 r log" "t0 \<le> now" "Allow now key limit r = (a, r1)"
  shows "a = (int (length (filter (\<lambda>(t, k). k = key \<and> time_sub now t < rl_window r) log)) < limit)"
    and "agrees now r1 (if a then log @ [(now, key)] else log)" "rl_window r1 = rl_window r"
proof -
  let ?c = "collect_hits now r"
  have c: "agrees now ?c log" "rl_window ?c = rl_window r"
    using agrees_collect [OF assms(1,2)] by auto
  have kept: "kept_hits (rl_window r) now (get_or [] (rl_hits ?c) key) = kept_hits (rl_window r) now (hits_of key log)"
    using c(1) unfolding agrees_def c(2) by blast
  have "length (kept_hits (rl_window r) now (hits_of key log))
      = length (filter (\<lambda>(t, k). k = key \<and> time_sub now t < rl_window r) log)"
    by (induction log) (auto simp: kept_hits_def hits_of_def)
  then show a: "a = (int (length (filter (\<lambda>(t, k). k = key \<and> time_sub now t < rl_window r) log)) < limit)"
    using assms(3) c kept by (auto simp: Allow_def Let_def split: if_splits)
  show "rl_window r1 = rl_window r"
    using assms(3) c by (auto simp: Allow_def Let_def split: if_splits)
  show "agrees now r1 (if a then log @ [(now, key)] else log)"
    using assms(3) c kept by (auto simp: Allow_def Let_def agrees_def distinct_update get_or_def update_conv'
        hits_of_def kept_again split: if_splits)
qed

lemma agrees_answers:
  "agrees t0 r log \<Longrightarrow> sorted (map fst calls) \<Longrightarrow> \<forall>c \<in> set calls. t0 \<le> fst c
    \<Longrightarrow> answers limit r calls = granted (rl_window r) limit log calls"
proof (induction calls arbitrary: t0 r log)
  case (Cons c calls)
  obtain now key where c: "c = (now, key)" by fastforce
  obtain a r1 where al: "Allow now key limit r = (a, r1)" by fastforce
  note step = agrees_Allow [OF Cons.prems(1) _ al]
  have "t0 \<le> now"
    using Cons.prems(3) c by simp
  then have "answers limit r1 calls = granted (rl_window r1) limit (if a then log @ [(now, key)] else log) calls"
    using Cons.IH [OF step(2)] Cons.prems(2) c by auto
  then show ?case
    using step \<open>t0 \<le> now\<close> al c by (simp add: Let_def)
qed simp

section \<open>Properties\<close>

text \<open>C40: The rate limiter answers as the specification: a call is let through exactly when fewer than the limit of
  calls with its key were let through within the window before it. Pruning a key and sweeping all of them, whenever it
  happens, changes no answer.\<close>

theorem rate_limit_exact:
  assumes "sorted (map fst calls)"
  shows "answers limit (NewRateLimiter window start) calls = granted window limit [] calls"
proof -
  have "agrees (fst (hd calls)) (NewRateLimiter window start) []"
    by (simp add: agrees_def NewRateLimiter_def get_or_def hits_of_def)
  moreover have "\<forall>c \<in> set calls. fst (hd calls) \<le> fst c"
    using assms by (cases calls) auto
  ultimately show ?thesis
    using agrees_answers [OF _ assms] by (simp add: NewRateLimiter_def)
qed

lemma rate_limit_exact_witness:
  "answers 2 (NewRateLimiter 10 0) [(1, ''a''), (2, ''a''), (3, ''a''), (3, ''b''), (120, ''a'')]
    = [True, True, False, True, True]"
  by (subst rate_limit_exact) (simp_all add: time_sub_def Let_def)

section \<open>Sample values\<close>

definition sample_suite :: sealing where
  "sample_suite = \<lparr>sl_sha256 = (\<lambda>s. CHR ''#'' # s), sl_Seal = (\<lambda>k n p. rev p), sl_Open = (\<lambda>k n c. Some (rev c))\<rparr>"

definition sample_penv :: portal_env where
  "sample_penv = \<lparr>pe_suite = sample_suite, pe_EncryptionKey = ''key'', pe_random = (\<lambda>i. if i = 0 then ''t'' else ''c''),
     pe_nonce = Some (replicate 12 (CHR ''n'')), pe_CheckPassword = (\<lambda>h p. h = p), pe_totp = (\<lambda>c s t. c = ''123456''),
     pe_newSecret = (\<lambda>_. Some ''S''), pe_readable = (\<lambda>_. True), pe_collate = (\<lambda>_ _. False), pe_faults = (\<lambda>_. False), pe_now = 100 * Hour,
     pe_LoginRatePerMinute = 5, pe_SendRatePerHour = 10,
     pe_PrepareRatePerHour = 10, pe_TrustedProxies = [], pe_InboundAPIKey = ''k'',
     pe_UploadMaxMB = 20\<rparr>"

definition sample_org :: Org where
  "sample_org = \<lparr>og_ID = 1, og_Name = ''acme'', og_GofaxTenantID = 3, og_SvcUsername = ''svc'',
     og_SvcPasswordEnc = replicate 12 (CHR ''n'') @ ''wp'', og_TenantNotify = [], og_TOTPRequired = False,
     og_RetentionDays = 1, og_Active = True\<rparr>"

definition sample_puser :: PortalUser where
  "sample_puser = \<lparr>pu_ID = 2, pu_Username = ''alice'', pu_Email = ''alice@acme.tld'', pu_PasswordHash = ''secret'',
     pu_Role = RoleUser, pu_OrgID = Some 1, pu_Active = True, pu_EmailNotify = True, pu_TOTPSecretEnc = [],
     pu_TOTPEnabled = False\<rparr>"

definition sample_pnumber :: PortalNumber where
  "sample_pnumber = \<lparr>nu_ID = 4, nu_Number = ''5551234'', nu_Name = [], nu_Header = [], nu_GofaxNumberID = 7, nu_OrgID = 1,
     nu_Active = True, nu_InboundEnabled = True, nu_PortalEndpointID = 0, nu_CustomNotify = []\<rparr>"

definition sample_portal :: portal_state where
  "sample_portal = \<lparr>po_orgs = [sample_org], po_users = [sample_puser], po_numbers = [sample_pnumber],
     po_user_numbers = [(2, 4)], po_jobs = [], po_inbound = [], po_sessions = [], po_pending = [], po_prepared = [],
     po_previews = [], po_audit = [], po_loginLimit = NewRateLimiter Minute 0, po_sendLimit = NewRateLimiter Hour 0,
     po_prepareLimit = NewRateLimiter Hour 0, po_nextID = 10\<rparr>"

definition sample_request :: portal_request where
  "sample_request = \<lparr>rq_Method = ''GET'', rq_RemoteAddr = ''10.0.0.1:99'', rq_RealIP = [], rq_ForwardedFor = [],
     rq_Cookie = None, rq_CSRFToken = [], rq_APIKey = ''k''\<rparr>"

end
