(* ===== verification/Portal_Login.thy ===== *)
theory Portal_Login
  imports Portal_Base
begin

text \<open>
  Signing in to the portal (\<open>api/handlers_auth.go\<close>, \<open>api/handlers_totp.go\<close>) and the guards in front of its handlers
  (\<open>api/server.go\<close>): password, second factor, session, the token against forged requests, and the realms of
  users and administrators.
\<close>

section \<open>Guards\<close>

definition authenticate ::
    "portal_env \<Rightarrow> portal_request \<Rightarrow> ((Session \<times> PortalUser) option \<Rightarrow> 'b portal_handler) \<Rightarrow> 'b portal_handler" where
  "authenticate env rq next_handler s =
    (case rq_Cookie rq of
       Some c \<Rightarrow> if c \<noteq> [] then (case LookupSession env c s of (found, s1) \<Rightarrow> next_handler found s1) else next_handler None s
     | None \<Rightarrow> next_handler None s)"

definition mutatingMethods :: "string list" where
  "mutatingMethods = [''POST'', ''PUT'', ''PATCH'', ''DELETE'']"

definition requireAuth ::
    "portal_request \<Rightarrow> (Session \<Rightarrow> PortalUser \<Rightarrow> 'b portal_handler) \<Rightarrow> (Session \<times> PortalUser) option \<Rightarrow> 'b portal_handler" where
  "requireAuth rq next_handler found s =
    (case found of None \<Rightarrow> (refusal 401, s)
     | Some (sess, user) \<Rightarrow>
         if \<not> pu_Active user then (refusal 401, s)
         else if rq_Method rq \<in> set mutatingMethods \<and> \<not> SecureEquals (rq_CSRFToken rq) (se_CSRFToken sess) then (refusal 403, s)
         else next_handler sess user s)"

definition requireAdminRealm :: "(Session \<Rightarrow> PortalUser \<Rightarrow> 'b portal_handler) \<Rightarrow> Session \<Rightarrow> PortalUser \<Rightarrow> 'b portal_handler" where
  "requireAdminRealm next_handler sess user s =
    (if pu_Role user \<noteq> RoleAdmin then (refusal 403, s) else next_handler sess user s)"

text \<open>The handlers of the user realm get the user and the organization of the user.\<close>

definition requireUserRealm ::
    "portal_env \<Rightarrow> (PortalUser \<Rightarrow> nat \<Rightarrow> 'b portal_handler) \<Rightarrow> Session \<Rightarrow> PortalUser \<Rightarrow> 'b portal_handler" where
  "requireUserRealm env next_handler sess user s =
    (if pu_Role user \<noteq> RoleUser then (refusal 403, s)
     else case pu_OrgID user of None \<Rightarrow> (refusal 403, s)
     | Some orgID \<Rightarrow>
         (case find_org env RealmOrg orgID s of None \<Rightarrow> (refusal 403, s)
          | Some org \<Rightarrow>
              if \<not> og_Active org then (refusal 403, s)
              else if og_TOTPRequired org \<and> \<not> pu_TOTPEnabled user then (refusal 403, s)
              else next_handler user orgID s))"

definition authed_party :: "portal_env \<Rightarrow> portal_request \<Rightarrow> (Session \<Rightarrow> PortalUser \<Rightarrow> 'b portal_handler) \<Rightarrow> 'b portal_handler" where
  "authed_party env rq h = authenticate env rq (requireAuth rq h)"

definition user_party :: "portal_env \<Rightarrow> portal_request \<Rightarrow> (PortalUser \<Rightarrow> nat \<Rightarrow> 'b portal_handler) \<Rightarrow> 'b portal_handler" where
  "user_party env rq h = authenticate env rq (requireAuth rq (requireUserRealm env h))"

definition admin_party :: "portal_env \<Rightarrow> portal_request \<Rightarrow> (Session \<Rightarrow> PortalUser \<Rightarrow> 'b portal_handler) \<Rightarrow> 'b portal_handler" where
  "admin_party env rq h = authenticate env rq (requireAuth rq (requireAdminRealm h))"

section \<open>Signing in\<close>

text \<open>A session cookie with the user and the token against forged requests, or the token of a pending sign-in.\<close>

datatype login_answer = SignedIn string PortalUser string | EnrollRequired string | CodeRequired string

definition issueSession :: "portal_env \<Rightarrow> portal_request \<Rightarrow> PortalUser \<Rightarrow> login_answer portal_handler" where
  "issueSession env rq user s =
    (case CreateSession env (pu_ID user) s of
       (None, s1) \<Rightarrow> (refusal 500, s1)
     | (Some (token, csrf, _), s1) \<Rightarrow>
         (ok (SignedIn token user csrf), audit env rq (Some user) ''AUTH_LOGIN'' (pu_Username user) s1))"

definition prepareEnrollment :: "portal_env \<Rightarrow> PortalUser \<Rightarrow> portal_state \<Rightarrow> bool \<times> portal_state" where
  "prepareEnrollment env user s =
    (if pu_TOTPSecretEnc user \<noteq> [] then (True, s)
     else case pe_newSecret env (pu_Username user) of None \<Rightarrow> (False, s)
     | Some secret \<Rightarrow>
         (case SealBox (pe_suite env) (pe_TOTPBox env) (pe_nonce env) secret of None \<Rightarrow> (False, s)
          | Some sealed \<Rightarrow>
              if pe_faults env SecretSave then (False, s)
              else (True, s\<lparr>po_users := map (\<lambda>u. if pu_ID u = pu_ID user
                     then u\<lparr>pu_TOTPSecretEnc := sealed, pu_TOTPEnabled := False\<rparr> else u) (po_users s)\<rparr>)))"

definition second_factor :: "portal_env \<Rightarrow> portal_request \<Rightarrow> PortalUser \<Rightarrow> login_answer portal_handler" where
  "second_factor env rq user s =
    (if \<not> pu_TOTPEnabled user
     then (case prepareEnrollment env user s of
         (False, s1) \<Rightarrow> (refusal 500, s1)
       | (True, s1) \<Rightarrow>
           (case CreatePendingAuth env (pu_ID user) PendingAuthPurposeEnroll s1 of
              (None, s2) \<Rightarrow> (refusal 500, s2)
            | (Some pending, s2) \<Rightarrow>
                (ok (EnrollRequired pending), audit env rq None ''AUTH_MFA_ENROLL_PENDING'' (pu_Username user) s2)))
     else (case CreatePendingAuth env (pu_ID user) PendingAuthPurposeLogin s of
         (None, s1) \<Rightarrow> (refusal 500, s1)
       | (Some pending, s1) \<Rightarrow> (ok (CodeRequired pending), audit env rq None ''AUTH_MFA_PENDING'' (pu_Username user) s1)))"

definition sign_in :: "portal_env \<Rightarrow> portal_request \<Rightarrow> string \<Rightarrow> PortalUser \<Rightarrow> login_answer portal_handler" where
  "sign_in env rq username user s =
    (let blocked = (refusal 403, audit env rq None ''AUTH_LOGIN_BLOCKED'' username s) in
     if \<not> pu_Active user then blocked
     else case pu_OrgID user of None \<Rightarrow> issueSession env rq user s
     | Some i \<Rightarrow>
         (case find_org env LoginOrg i s of None \<Rightarrow> blocked
          | Some org \<Rightarrow>
              if \<not> og_Active org then blocked
              else if pu_Role user = RoleUser \<and> og_TOTPRequired org then second_factor env rq user s
              else issueSession env rq user s))"

text \<open>A hit of the limiter on sign-ins.\<close>

definition limit_login :: "portal_env \<Rightarrow> string \<Rightarrow> portal_state \<Rightarrow> bool \<times> portal_state" where
  "limit_login env key s =
    (case Allow (pe_now env) key (pe_LoginRatePerMinute env) (po_loginLimit s) of (a, r) \<Rightarrow> (a, s\<lparr>po_loginLimit := r\<rparr>))"

text \<open>The user of a name whose password matches.\<close>

definition password_user :: "portal_env \<Rightarrow> string \<Rightarrow> string \<Rightarrow> portal_state \<Rightarrow> PortalUser option" where
  "password_user env username password s =
    (case (if pe_faults env LoginFind then None else List.find (\<lambda>u. pu_Username u = username) (po_users s)) of
       None \<Rightarrow> None
     | Some user \<Rightarrow> if pe_CheckPassword env (pu_PasswordHash user) password then Some user else None)"

definition handleLogin :: "portal_env \<Rightarrow> portal_request \<Rightarrow> (string \<times> string) option \<Rightarrow> login_answer portal_handler" where
  "handleLogin env rq body s =
    (case body of None \<Rightarrow> (refusal 400, s)
     | Some (username0, password) \<Rightarrow>
         if username0 = [] \<or> password = [] then (refusal 400, s)
         else let username = trim_space username0 in
           (case limit_login env (clientIP env rq @ ''|'' @ to_lower username) s of
              (False, s1) \<Rightarrow> (refusal 429, s1)
            | (True, s1) \<Rightarrow>
                (case password_user env username password s1 of
                   None \<Rightarrow> (refusal 401, audit env rq None ''AUTH_LOGIN_FAILED'' username s1)
                 | Some user \<Rightarrow> sign_in env rq username user s1)))"

definition handleLogout :: "portal_env \<Rightarrow> portal_request \<Rightarrow> Session \<Rightarrow> PortalUser \<Rightarrow> unit portal_handler" where
  "handleLogout env rq sess user s =
    (let s1 = (case rq_Cookie rq of None \<Rightarrow> s | Some c \<Rightarrow> DestroySession env c s)
     in (ok (), audit env rq (Some user) ''AUTH_LOGOUT'' [] s1))"

definition handleMe :: "Session \<Rightarrow> PortalUser \<Rightarrow> (PortalUser \<times> string) portal_handler" where
  "handleMe sess user s = (ok (user, se_CSRFToken sess), s)"

section \<open>The second factor\<close>

text \<open>The secret to enroll; rendering it fails when it is not base 32.\<close>

definition handleTOTPSetup :: "portal_env \<Rightarrow> string option \<Rightarrow> string portal_handler" where
  "handleTOTPSetup env body s =
    (case body of None \<Rightarrow> (refusal 400, s)
     | Some token \<Rightarrow>
         if trim_space token = [] then (refusal 400, s)
         else case LookupPendingAuth env (trim_space token) s of
           (None, s1) \<Rightarrow> (refusal 401, s1)
         | (Some pa, s1) \<Rightarrow>
             if pa_Purpose pa \<noteq> PendingAuthPurposeEnroll then (refusal 401, s1)
             else case find_user env PendingUser (pa_UserID pa) s1 of None \<Rightarrow> (refusal 401, s1)
             | Some user \<Rightarrow>
                 (case OpenBox (pe_suite env) (pe_TOTPBox env) (pu_TOTPSecretEnc user) of None \<Rightarrow> (refusal 500, s1)
                  | Some secret \<Rightarrow> if pe_readable env secret then (ok secret, s1) else (refusal 500, s1)))"

text \<open>What is left after a valid code: the pending sign-in is used up, an enrollment is completed.\<close>

definition complete_code :: "portal_env \<Rightarrow> portal_request \<Rightarrow> PendingAuth \<Rightarrow> PortalUser \<Rightarrow> login_answer portal_handler" where
  "complete_code env rq pa user s =
    (let s1 = ConsumePendingAuth env pa s in
     if pa_Purpose pa = PendingAuthPurposeEnroll
     then if pe_faults env EnrolledSave then (refusal 500, s1)
       else let user1 = user\<lparr>pu_TOTPEnabled := True\<rparr>;
                s2 = s1\<lparr>po_users := map (\<lambda>u. if pu_ID u = pu_ID user then u\<lparr>pu_TOTPEnabled := True\<rparr> else u) (po_users s1)\<rparr>
         in issueSession env rq user1 (audit env rq (Some user1) ''AUTH_TOTP_ENROLLED'' (pu_Username user) s2)
     else issueSession env rq user s1)"

definition verify_code :: "portal_env \<Rightarrow> portal_request \<Rightarrow> string \<Rightarrow> PendingAuth \<Rightarrow> login_answer portal_handler" where
  "verify_code env rq code pa s =
    (case find_user env PendingUser (pa_UserID pa) s of None \<Rightarrow> (refusal 401, s)
     | Some user \<Rightarrow>
         if \<not> pu_Active user then (refusal 401, s)
         else case OpenBox (pe_suite env) (pe_TOTPBox env) (pu_TOTPSecretEnc user) of None \<Rightarrow> (refusal 500, s)
         | Some secret \<Rightarrow>
             if \<not> ValidateTOTP env code secret
             then (refusal 401, audit env rq (Some user) ''AUTH_TOTP_FAILED'' (pu_Username user) s)
             else complete_code env rq pa user s)"

definition handleTOTPVerify :: "portal_env \<Rightarrow> portal_request \<Rightarrow> (string \<times> string) option \<Rightarrow> login_answer portal_handler" where
  "handleTOTPVerify env rq body s =
    (case body of None \<Rightarrow> (refusal 400, s)
     | Some (token0, code) \<Rightarrow>
         let token = trim_space token0 in
         if token = [] \<or> trim_space code = [] then (refusal 400, s)
         else (case limit_login env (clientIP env rq @ ''|totp|'' @ token) s of
              (False, s1) \<Rightarrow> (refusal 429, s1)
            | (True, s1) \<Rightarrow>
                (case LookupPendingAuth env token s1 of
                   (None, s2) \<Rightarrow> (refusal 401, s2)
                 | (Some pa, s2) \<Rightarrow> verify_code env rq code pa s2)))"

section \<open>What has been proved to the portal\<close>

text \<open>Along a history of requests: whose password has been shown, whose code has been shown for a pending sign-in, and
  who signed in while the organization asked for no second factor.\<close>

definition needs_code :: "PortalUser \<Rightarrow> portal_state \<Rightarrow> bool" where
  "needs_code user s =
    (case pu_OrgID user of None \<Rightarrow> False
     | Some i \<Rightarrow> (case List.find (\<lambda>o1. og_ID o1 = i) (po_orgs s) of None \<Rightarrow> False
                 | Some org \<Rightarrow> pu_Role user = RoleUser \<and> og_TOTPRequired org))"

definition login_user :: "portal_env \<Rightarrow> (string \<times> string) option \<Rightarrow> portal_state \<Rightarrow> PortalUser option" where
  "login_user env body s =
    (case body of None \<Rightarrow> None | Some (username, password) \<Rightarrow> password_user env (trim_space username) password s)"

definition shown_password :: "portal_env \<Rightarrow> (string \<times> string) option \<Rightarrow> portal_state \<Rightarrow> nat set" where
  "shown_password env body s = (case login_user env body s of None \<Rightarrow> {} | Some user \<Rightarrow> {pu_ID user})"

definition shown_exempt :: "portal_env \<Rightarrow> (string \<times> string) option \<Rightarrow> portal_state \<Rightarrow> nat set" where
  "shown_exempt env body s =
    (case login_user env body s of None \<Rightarrow> {} | Some user \<Rightarrow> if needs_code user s then {} else {pu_ID user})"

definition secret_of :: "portal_env \<Rightarrow> nat \<Rightarrow> portal_state \<Rightarrow> string option" where
  "secret_of env i s =
    (case List.find (\<lambda>u. pu_ID u = i) (po_users s) of None \<Rightarrow> None
     | Some u \<Rightarrow> OpenBox (pe_suite env) (pe_TOTPBox env) (pu_TOTPSecretEnc u))"

definition shown_code :: "portal_env \<Rightarrow> (string \<times> string) option \<Rightarrow> portal_state \<Rightarrow> nat set" where
  "shown_code env body s =
    (case body of None \<Rightarrow> {}
     | Some (token, code) \<Rightarrow>
         (case List.find (\<lambda>x. pa_TokenHash x = hash_token env (trim_space token)) (po_pending s) of None \<Rightarrow> {}
          | Some pa \<Rightarrow>
              (case secret_of env (pa_UserID pa) s of None \<Rightarrow> {}
               | Some secret \<Rightarrow>
                   if pe_now env \<le> pa_ExpiresAt pa \<and> ValidateTOTP env code secret then {pa_UserID pa} else {})))"

record history =
  hi_portal :: portal_state
  hi_passwords :: "nat set"
  hi_codes :: "nat set"
  hi_exempt :: "nat set"

definition new_history :: "portal_state \<Rightarrow> history" where
  "new_history s = \<lparr>hi_portal = s, hi_passwords = {}, hi_codes = {}, hi_exempt = {}\<rparr>"

text \<open>The requests that touch sessions and pending sign-ins, and any other operation.\<close>

inductive sign_step :: "history \<Rightarrow> history \<Rightarrow> bool" where
  step_login: "handleLogin env rq body (hi_portal h) = (a, t) \<Longrightarrow>
    sign_step h (h\<lparr>hi_portal := t, hi_passwords := hi_passwords h \<union> shown_password env body (hi_portal h),
                    hi_exempt := hi_exempt h \<union> shown_exempt env body (hi_portal h)\<rparr>)"
| step_verify: "handleTOTPVerify env rq body (hi_portal h) = (a, t) \<Longrightarrow>
    sign_step h (h\<lparr>hi_portal := t, hi_codes := hi_codes h \<union> shown_code env body (hi_portal h)\<rparr>)"
| step_setup: "handleTOTPSetup env token (hi_portal h) = (b, t) \<Longrightarrow> sign_step h (h\<lparr>hi_portal := t\<rparr>)"
| step_lookup: "LookupSession env c (hi_portal h) = (found, t) \<Longrightarrow> sign_step h (h\<lparr>hi_portal := t\<rparr>)"
| step_logout: "sign_step h (h\<lparr>hi_portal := DestroySession env c (hi_portal h)\<rparr>)"
| step_revoke: "sign_step h (h\<lparr>hi_portal := DestroyUserSessions env i (hi_portal h)\<rparr>)"
| step_purge: "sign_step h (h\<lparr>hi_portal := PurgeExpired env (hi_portal h)\<rparr>)"
| step_other: "po_sessions t = po_sessions (hi_portal h) \<Longrightarrow> po_pending t = po_pending (hi_portal h)
    \<Longrightarrow> sign_step h (h\<lparr>hi_portal := t\<rparr>)"

inductive_cases sign_stepE: "sign_step h h'"

definition proven :: "history \<Rightarrow> bool" where
  "proven h \<longleftrightarrow>
     se_UserID ` set (po_sessions (hi_portal h)) \<subseteq> hi_passwords h \<inter> (hi_codes h \<union> hi_exempt h)
   \<and> pa_UserID ` set (po_pending (hi_portal h)) \<subseteq> hi_passwords h"

section \<open>Lemmas\<close>

text \<open>The users with a session, and those with a pending sign-in.\<close>

abbreviation session_users :: "portal_state \<Rightarrow> nat set" where "session_users s \<equiv> se_UserID ` set (po_sessions s)"
abbreviation pending_users :: "portal_state \<Rightarrow> nat set" where "pending_users s \<equiv> pa_UserID ` set (po_pending s)"

lemma issue_users:
  assumes "issueSession env rq user s = (a, t)"
  shows "session_users t \<subseteq> insert (pu_ID user) (session_users s)" "pending_users t = pending_users s"
  using assms by (auto simp: issueSession_def CreateSession_def Let_def split: if_splits)

lemma pending_created:
  assumes "CreatePendingAuth env i purpose s = (r, t)"
  shows "session_users t = session_users s" "pending_users t \<subseteq> insert i (pending_users s)"
  using assms by (auto simp: CreatePendingAuth_def Let_def split: if_splits)

lemma enrollment_users:
  assumes "prepareEnrollment env user s = (b, t)"
  shows "po_sessions t = po_sessions s" "po_pending t = po_pending s"
  using assms by (auto simp: prepareEnrollment_def split: if_splits option.splits)

lemma second_factor_users:
  assumes "second_factor env rq user s = (a, t)"
  shows "session_users t = session_users s" "pending_users t \<subseteq> insert (pu_ID user) (pending_users s)"
proof -
  show "session_users t = session_users s"
    using assms by (fastforce simp: second_factor_def split: if_splits prod.splits option.splits bool.splits
        dest!: pending_created(1) enrollment_users(1))
  show "pending_users t \<subseteq> insert (pu_ID user) (pending_users s)"
    using assms by (fastforce simp: second_factor_def split: if_splits prod.splits option.splits bool.splits
        dest!: pending_created(2) enrollment_users(2))
qed

lemma sign_in_users:
  assumes "sign_in env rq username user s = (a, t)"
  shows "session_users t \<subseteq> session_users s \<union> (if needs_code user s then {} else {pu_ID user})"
    "pending_users t \<subseteq> insert (pu_ID user) (pending_users s)"
proof -
  have org: "find_org env LoginOrg i s = Some org \<Longrightarrow> List.find (\<lambda>o1. og_ID o1 = i) (po_orgs s) = Some org" for i org
    by (auto simp: find_org_def split: if_splits)
  have "session_users t \<subseteq> session_users s \<union> (if needs_code user s then {} else {pu_ID user})
      \<and> pending_users t \<subseteq> insert (pu_ID user) (pending_users s)"
    using assms issue_users [of env rq user s a t] second_factor_users [of env rq user s a t]
    by (auto simp: sign_in_def needs_code_def Let_def org split: if_splits option.splits)
  then show "session_users t \<subseteq> session_users s \<union> (if needs_code user s then {} else {pu_ID user})"
    "pending_users t \<subseteq> insert (pu_ID user) (pending_users s)"
    by auto
qed

lemma limited [simp]:
  "limit_login env key s = (b, t) \<Longrightarrow> po_sessions t = po_sessions s \<and> po_pending t = po_pending s
     \<and> po_users t = po_users s \<and> po_orgs t = po_orgs s"
  by (auto simp: limit_login_def split: prod.splits)

lemma login_users:
  assumes "handleLogin env rq body s = (a, t)"
  shows "session_users t \<subseteq> session_users s \<union> shown_password env body s \<inter> shown_exempt env body s
    \<and> pending_users t \<subseteq> pending_users s \<union> shown_password env body s"
proof -
  have same: "password_user env u p s1 = password_user env u p s" "needs_code x s1 = needs_code x s"
    if "limit_login env key s = (b, s1)" for u p x key b s1
    using limited [OF that] by (simp_all add: password_user_def needs_code_def cong: option.case_cong)
  consider (left) "po_sessions t = po_sessions s" "po_pending t = po_pending s"
    | (passed) username password key s1 user where "body = Some (username, password)"
        "limit_login env key s = (True, s1)" "login_user env body s = Some user"
        "sign_in env rq (trim_space username) user s1 = (a, t)"
    using assms by (fastforce simp: handleLogin_def login_user_def same Let_def dest: limited
        split: option.splits if_splits prod.splits bool.splits)
  then show ?thesis
  proof cases
    case passed
    then have "needs_code user s1 = needs_code user s"
      using same(2) by blast
    then show ?thesis
      using sign_in_users [OF passed(4)] limited [OF passed(2)] passed(3)
      by (auto simp: shown_password_def shown_exempt_def split: if_splits)
  qed auto
qed

lemma pending_lookup:
  assumes "LookupPendingAuth env token s = (r, t)"
  shows "po_sessions t = po_sessions s" "po_users t = po_users s" "pending_users t \<subseteq> pending_users s"
    "r = Some pa \<Longrightarrow> t = s \<and> List.find (\<lambda>x. pa_TokenHash x = hash_token env token) (po_pending s) = Some pa
       \<and> pe_now env \<le> pa_ExpiresAt pa"
  using assms by (auto simp: LookupPendingAuth_def ConsumePendingAuth_def split: if_splits option.splits)

lemma complete_users:
  assumes "complete_code env rq pa user s = (a, t)"
  shows "session_users t \<subseteq> insert (pu_ID user) (session_users s)" "pending_users t \<subseteq> pending_users s"
proof -
  let ?s1 = "ConsumePendingAuth env pa s"
  have s1: "po_sessions ?s1 = po_sessions s" "pending_users ?s1 \<subseteq> pending_users s"
    by (auto simp: ConsumePendingAuth_def)
  consider "t = ?s1" | u s2 where "issueSession env rq u s2 = (a, t)" "pu_ID u = pu_ID user"
      "po_sessions s2 = po_sessions ?s1" "po_pending s2 = po_pending ?s1"
    using assms by (fastforce simp: complete_code_def Let_def split: if_splits)
  then have "session_users t \<subseteq> insert (pu_ID user) (session_users s) \<and> pending_users t \<subseteq> pending_users s"
  proof cases
    case 2
    then show ?thesis
      using issue_users [OF 2(1)] s1 by simp
  qed (use s1 in auto)
  then show "session_users t \<subseteq> insert (pu_ID user) (session_users s)" "pending_users t \<subseteq> pending_users s"
    by auto
qed

lemma verify_code_users:
  assumes "verify_code env rq code pa s = (a, t)"
  shows "session_users t \<subseteq> session_users s \<union>
      (case secret_of env (pa_UserID pa) s of None \<Rightarrow> {}
       | Some secret \<Rightarrow> if ValidateTOTP env code secret then {pa_UserID pa} else {})"
    "pending_users t \<subseteq> pending_users s"
proof -
  consider "po_sessions t = po_sessions s" "po_pending t = po_pending s"
    | user secret where "find_user env PendingUser (pa_UserID pa) s = Some user"
        "OpenBox (pe_suite env) (pe_TOTPBox env) (pu_TOTPSecretEnc user) = Some secret" "ValidateTOTP env code secret"
        "complete_code env rq pa user s = (a, t)"
    using assms by (fastforce simp: verify_code_def split: option.splits if_splits)
  then have "session_users t \<subseteq> session_users s \<union>
      (case secret_of env (pa_UserID pa) s of None \<Rightarrow> {}
       | Some secret \<Rightarrow> if ValidateTOTP env code secret then {pa_UserID pa} else {}) \<and> pending_users t \<subseteq> pending_users s"
  proof cases
    case 2
    then have "secret_of env (pa_UserID pa) s = Some secret" "pu_ID user = pa_UserID pa"
      using find_user_row [OF 2(1)] by (auto simp: secret_of_def find_user_def split: if_splits)
    then show ?thesis
      using complete_users [OF 2(4)] 2(3) by simp
  qed auto
  then show "session_users t \<subseteq> session_users s \<union>
      (case secret_of env (pa_UserID pa) s of None \<Rightarrow> {}
       | Some secret \<Rightarrow> if ValidateTOTP env code secret then {pa_UserID pa} else {})"
    "pending_users t \<subseteq> pending_users s"
    by auto
qed

lemma verify_users:
  assumes "handleTOTPVerify env rq body s = (a, t)"
  shows "session_users t \<subseteq> session_users s \<union> shown_code env body s \<inter> pending_users s
    \<and> pending_users t \<subseteq> pending_users s"
proof -
  consider (left) "session_users t = session_users s" "pending_users t \<subseteq> pending_users s"
    | (passed) token code key s1 pa s2 where "body = Some (token, code)" "limit_login env key s = (True, s1)"
        "LookupPendingAuth env (trim_space token) s1 = (Some pa, s2)" "verify_code env rq code pa s2 = (a, t)"
  proof (cases body)
    case None
    then show ?thesis
      using assms left by (simp add: handleTOTPVerify_def)
  next
    case (Some tc)
    then obtain token code where body: "body = Some (token, code)"
      by (cases tc) auto
    let ?key = "clientIP env rq @ ''|totp|'' @ trim_space token"
    obtain b s1 where l: "limit_login env ?key s = (b, s1)"
      by fastforce
    obtain r s2 where p: "LookupPendingAuth env (trim_space token) s1 = (r, s2)"
      by fastforce
    have keep: "session_users s2 = session_users s" "pending_users s2 \<subseteq> pending_users s"
      using limited [OF l] pending_lookup(1,3) [OF p] by simp_all
    show ?thesis
    proof (cases "b \<and> trim_space token \<noteq> [] \<and> trim_space code \<noteq> [] \<and> r \<noteq> None")
      case True
      then show ?thesis
        using assms body l p passed by (auto simp: handleTOTPVerify_def Let_def)
    next
      case False
      then have "t = s \<or> t = s1 \<or> t = s2"
        using assms body l p by (auto simp: handleTOTPVerify_def Let_def split: if_splits bool.splits)
      then show ?thesis
        using left keep limited [OF l] by auto
    qed
  qed
  then show ?thesis
  proof cases
    case passed
    note l = limited [OF passed(2)]
    have p: "s2 = s1" "List.find (\<lambda>x. pa_TokenHash x = hash_token env (trim_space token)) (po_pending s) = Some pa"
      "pe_now env \<le> pa_ExpiresAt pa"
      using pending_lookup(4) [OF passed(3) refl] l by auto
    moreover have "secret_of env (pa_UserID pa) s2 = secret_of env (pa_UserID pa) s"
      unfolding p(1) using l by (simp add: secret_of_def)
    moreover have "pa \<in> set (po_pending s)"
      using p(2) by (auto simp: find_Some_iff)
    ultimately show ?thesis
      using verify_code_users [OF passed(4)] l passed(1) by (auto simp: shown_code_def split: option.splits if_splits)
  qed auto
qed

lemma session_lookup:
  assumes "LookupSession env token s = (r, t)"
  shows "session_users t \<subseteq> session_users s" "po_pending t = po_pending s"
  using assms by (auto simp: LookupSession_def drop_session_def renew_session_def Let_def split: if_splits option.splits prod.splits)

lemma setup_users:
  assumes "handleTOTPSetup env body s = (a, t)"
  shows "session_users t = session_users s" "pending_users t \<subseteq> pending_users s"
proof -
  have "t = s \<or> (\<exists>token r. LookupPendingAuth env token s = (r, t))"
    using assms by (auto simp: handleTOTPSetup_def split: option.splits if_splits prod.splits)
  then show "session_users t = session_users s" "pending_users t \<subseteq> pending_users s"
    using pending_lookup(1,3) by fastforce+
qed

lemma grown:
  assumes "S' \<subseteq> S \<union> P \<inter> E \<and> Q' \<subseteq> Q \<union> P" "S \<subseteq> HP \<and> S \<subseteq> HC \<union> HE \<and> Q \<subseteq> HP"
  shows "S' \<subseteq> HP \<union> P \<and> S' \<subseteq> HC \<union> (HE \<union> E) \<and> Q' \<subseteq> HP \<union> P"
  using assms by blast

lemma coded:
  assumes "S' \<subseteq> S \<union> C \<inter> Q \<and> Q' \<subseteq> Q" "S \<subseteq> HP \<and> S \<subseteq> HC \<union> HE \<and> Q \<subseteq> HP"
  shows "S' \<subseteq> HP \<and> S' \<subseteq> HC \<union> C \<union> HE \<and> Q' \<subseteq> HP"
  using assms by blast

lemma proven_step:
  assumes "proven h" "sign_step h h'" shows "proven h'"
  using assms(2)
proof cases
  case (step_login env rq body a t)
  show ?thesis
    using grown [OF login_users [OF step_login(2)]] assms(1) by (simp add: proven_def step_login(1))
next
  case (step_verify env rq body a t)
  show ?thesis
    using coded [OF verify_users [OF step_verify(2)]] assms(1) by (simp add: proven_def step_verify(1))
next
  case (step_setup env token b t)
  show ?thesis
    using setup_users [OF step_setup(2)] assms(1) by (simp add: proven_def step_setup(1)) (meson subset_trans)
next
  case (step_lookup env c found t)
  show ?thesis
    using session_lookup [OF step_lookup(2)] assms(1) by (simp add: proven_def step_lookup(1)) (meson subset_trans)
qed (use assms(1) in \<open>auto simp: proven_def DestroySession_def DestroyUserSessions_def PurgeExpired_def\<close>)

interpretation sign: step_invariant sign_step h0 "\<lambda>h. proven h0 \<longrightarrow> proven h" for h0
  by unfold_locales (auto intro: proven_step)

subsection \<open>The user realm\<close>

lemma lookup_tables: "LookupSession env c s = (r, t) \<Longrightarrow> \<exists>ss. t = s\<lparr>po_sessions := ss\<rparr>"
  by (auto simp: LookupSession_def drop_session_def renew_session_def Let_def split: if_splits option.splits prod.splits)
    (metis portal_state.surjective portal_state.update_convs(7))+

text \<open>\<open>live_session\<close>: a stored session that the cookie of the request opens: the hash of the cookie is its key, its end has
  not passed, and it belongs to an active user.\<close>

definition live_session :: "portal_env \<Rightarrow> portal_request \<Rightarrow> portal_state \<Rightarrow> Session \<Rightarrow> PortalUser \<Rightarrow> bool" where
  "live_session env rq s sess user \<longleftrightarrow>
    (\<exists>cookie. rq_Cookie rq = Some cookie \<and> cookie \<noteq> [] \<and> se_TokenHash sess = hash_token env cookie)
    \<and> sess \<in> set (po_sessions s) \<and> pe_now env \<le> se_ExpiresAt sess
    \<and> user \<in> set (po_users s) \<and> pu_ID user = se_UserID sess \<and> pu_Active user"

lemma lookup_live:
  assumes "LookupSession env cookie s = (Some (sess1, user), t)" "rq_Cookie rq = Some cookie"
  obtains sess where "live_session env rq s sess user" "se_CSRFToken sess1 = se_CSRFToken sess"
proof -
  obtain sess where f1: "(if pe_faults env SessionFind then None
      else List.find (\<lambda>x. se_TokenHash x = hash_token env cookie) (po_sessions s)) = Some sess" and ne: "cookie \<noteq> []"
    using assms(1) unfolding LookupSession_def by (simp split: option.splits if_split_asm)
  have live: "pe_now env \<le> se_ExpiresAt sess"
    using assms(1) ne unfolding LookupSession_def f1 by (simp split: if_split_asm)
  then have found_user: "find_user env SessionUser (se_UserID sess) s = Some user \<and> pu_Active user
      \<and> fst (renew_session env sess s) = sess1"
    using assms(1) ne unfolding LookupSession_def f1 by (simp split: if_split_asm option.splits prod.splits)
  then have f: "List.find (\<lambda>x. se_TokenHash x = hash_token env cookie) (po_sessions s) = Some sess" "cookie \<noteq> []"
      "pe_now env \<le> se_ExpiresAt sess" "find_user env SessionUser (se_UserID sess) s = Some user" "pu_Active user"
      "fst (renew_session env sess s) = sess1"
    using f1 ne live by (simp_all split: if_split_asm)
  have "sess \<in> set (po_sessions s) \<and> se_TokenHash sess = hash_token env cookie" "user \<in> set (po_users s) \<and> pu_ID user = se_UserID sess"
    using found [OF f(1)] find_user_row [OF f(4)] by simp_all
  then have "live_session env rq s sess user"
    using assms(2) f(2,3,5) by (simp add: live_session_def)
  moreover have "se_CSRFToken sess1 = se_CSRFToken sess"
    using f(6) by (auto simp: renew_session_def Let_def split: if_splits)
  ultimately show ?thesis
    by (rule that)
qed

lemma party_cases:
  assumes "user_party env rq h s = (a, t)"
  obtains (refused) c ss where "c \<in> {401, 403}" "a = refusal c" "t = s\<lparr>po_sessions := ss\<rparr>"
  | (served) sess user org ss where "live_session env rq s sess user"
      "rq_Method rq \<in> set mutatingMethods \<longrightarrow> rq_CSRFToken rq = se_CSRFToken sess" "pu_Role user = RoleUser"
      "pu_OrgID user = Some (og_ID org)" "org \<in> set (po_orgs s)" "og_Active org"
      "og_TOTPRequired org \<longrightarrow> pu_TOTPEnabled user" "h user (og_ID org) (s\<lparr>po_sessions := ss\<rparr>) = (a, t)"
proof (cases "\<exists>c. rq_Cookie rq = Some c \<and> c \<noteq> []")
  case True
  then obtain c seen s1 where c: "rq_Cookie rq = Some c" "LookupSession env c s = (seen, s1)"
      "requireAuth rq (requireUserRealm env h) seen s1 = (a, t)"
    using assms by (auto simp: user_party_def authenticate_def split: prod.splits)
  obtain ss where ss: "s1 = s\<lparr>po_sessions := ss\<rparr>"
    using lookup_tables [OF c(2)] by blast
  show ?thesis
  proof (cases seen)
    case None
    then show ?thesis
      using c(3) refused ss by (auto simp: requireAuth_def)
  next
    case (Some f)
    then obtain sess user where f: "seen = Some (sess, user)"
      by (cases f) auto
    obtain sess0 where u: "live_session env rq s sess0 user" "se_CSRFToken sess = se_CSRFToken sess0"
      using lookup_live [OF c(2) [unfolded f] c(1)] .
    show ?thesis
      using c(3) served [OF u(1)] u(2) refused unfolding f ss
      by (auto simp: requireAuth_def requireUserRealm_def split: if_splits option.splits dest!: find_org_row)
  qed
next
  case False
  then have "a = refusal 401" "t = s\<lparr>po_sessions := po_sessions s\<rparr>"
    using assms by (auto simp: user_party_def authenticate_def requireAuth_def split: option.splits)
  then show ?thesis
    using refused by blast
qed

section \<open>Properties\<close>

text \<open>C6: However requests to sign in, to enroll, to send a code and to sign out are ordered, and whatever other
  operations run in between: whoever has a session has shown the right password, and has also shown a valid code for a
  pending sign-in of their own unless they signed in while their organization asked for no second factor.\<close>

theorem session_needs_proof:
  assumes "po_sessions s0 = []" "po_pending s0 = []" "reach sign_step (new_history s0) h"
    and "x \<in> set (po_sessions (hi_portal h))"
  shows "se_UserID x \<in> hi_passwords h \<and> (se_UserID x \<in> hi_codes h \<or> se_UserID x \<in> hi_exempt h)"
proof -
  have "proven (new_history s0)"
    using assms(1,2) by (simp add: proven_def new_history_def)
  then have "proven h"
    using sign.reach_holds [OF assms(3)] by simp
  then show ?thesis
    using assms(4) by (auto simp: proven_def)
qed

text \<open>C39: A handler of the user realm runs only for a request whose cookie opens a stored session that has not expired,
  of an active user; with the token of that session on every changing request; and only when the organization of the user
  is active and the second factor is enrolled if it asks for one. Any other request is answered 401 or 403 and changes no
  table but that of the sessions.\<close>

theorem user_realm_guard:
  assumes "user_party env rq h s = (a, t)"
  shows "(\<exists>c ss. c \<in> {401, 403} \<and> a = refusal c \<and> t = s\<lparr>po_sessions := ss\<rparr>)
    \<or> (\<exists>sess user org ss. live_session env rq s sess user
        \<and> (rq_Method rq \<in> set mutatingMethods \<longrightarrow> rq_CSRFToken rq = se_CSRFToken sess)
        \<and> pu_Role user = RoleUser \<and> pu_OrgID user = Some (og_ID org) \<and> org \<in> set (po_orgs s)
        \<and> og_Active org \<and> (og_TOTPRequired org \<longrightarrow> pu_TOTPEnabled user)
        \<and> h user (og_ID org) (s\<lparr>po_sessions := ss\<rparr>) = (a, t))"
  using assms by (cases rule: party_cases) blast+

section \<open>Sample values\<close>

abbreviation "sample_signed_in \<equiv> snd (handleLogin sample_penv sample_request (Some (''alice'', ''secret'')) sample_portal)"

lemma session_needs_proof_witness:
  "\<exists>h x. reach sign_step (new_history sample_portal) h \<and> x \<in> set (po_sessions (hi_portal h))
     \<and> se_UserID x = 2 \<and> 2 \<in> hi_passwords h"
proof -
  let ?h = "new_history sample_portal"
  let ?body = "Some (''alice'', ''secret'')"
  let ?h' = "?h\<lparr>hi_portal := sample_signed_in, hi_passwords := hi_passwords ?h \<union> shown_password sample_penv ?body (hi_portal ?h),
      hi_exempt := hi_exempt ?h \<union> shown_exempt sample_penv ?body (hi_portal ?h)\<rparr>"
  have "sign_step ?h ?h'"
    by (rule step_login [of sample_penv sample_request _ _ "fst (handleLogin sample_penv sample_request ?body sample_portal)"])
      (simp add: new_history_def)
  then have r: "reach sign_step ?h ?h'"
    by (rule reach.reach_step [OF reach.reach_start])
  have "list_ex (\<lambda>x. se_UserID x = 2) (po_sessions sample_signed_in)"
    by code_simp
  then obtain x where x: "x \<in> set (po_sessions (hi_portal ?h'))" "se_UserID x = 2"
    by (auto simp: list_ex_iff)
  have "po_sessions sample_portal = []" "po_pending sample_portal = []"
    by (simp_all add: sample_portal_def)
  then have "2 \<in> hi_passwords ?h'"
    using session_needs_proof [OF _ _ r x(1)] x(2) by simp
  then show ?thesis
    using r x by blast
qed

lemma user_realm_guard_witness:
  "\<exists>s1 sess. user_party sample_penv (sample_request\<lparr>rq_Cookie := Some (hex_encode ''t'')\<rparr>) (\<lambda>u i s. (ok i, s)) sample_signed_in
     = (ok 1, s1) \<and> sess \<in> set (po_sessions sample_signed_in) \<and> se_TokenHash sess = hash_token sample_penv (hex_encode ''t'')
     \<and> pe_now sample_penv \<le> se_ExpiresAt sess"
proof -
  let ?rq = "sample_request\<lparr>rq_Cookie := Some (hex_encode ''t'')\<rparr>"
  let ?r = "user_party sample_penv ?rq (\<lambda>u i s. (ok i, s)) sample_signed_in"
  have "fst ?r = ok 1"
    by code_simp
  then have r: "?r = (ok 1, snd ?r)"
    by (metis prod.collapse)
  show ?thesis
    using user_realm_guard [OF r] r by (auto simp: live_session_def)
qed

end
