(* ===== verification/Portal_Inbox.thy ===== *)
theory Portal_Inbox
  imports Portal_Login "HOL-Library.Signed_Division"
begin

text \<open>
  The inbox of the portal (\<open>api/handlers_inbound.go\<close>): a fax that the fax server delivers is sealed and stored once,
  the users its number is assigned to can list and read it, administrators can list and delete it. And the retention
  of faxes and prepared documents (\<open>retention/retention.go\<close>).

  The size of a request body and its parsed JSON are arguments. So are matching with \<open>LIKE\<close> and the answer of the fax
  server to a question for the attempts of a job. The boxes are configured: \<open>cmd/portal/main.go\<close> ends otherwise.
\<close>

section \<open>Deliveries\<close>

record inboundPayload =
  ip_UUID :: string
  ip_CallerNumber :: string
  ip_CallerName :: string
  ip_CalleeNumber :: string
  ip_Pages :: int
  ip_Ts :: time
  ip_FileData :: string
  ip_CallPartial :: bool
  ip_CallTotalPages :: nat

text \<open>The size is \<open>None\<close> when reading the body fails; the hash is the header with the checksum, empty without one.\<close>

record inbound_delivery =
  dl_size :: "int option"
  dl_payload :: "inboundPayload option"
  dl_sha256 :: string

datatype receive_answer = Duplicate | Received nat

definition file_hash :: "portal_env \<Rightarrow> string \<Rightarrow> string" where
  "file_hash env data = hex_encode (sl_sha256 (pe_suite env) data)"

definition max_file :: "portal_env \<Rightarrow> int" where
  "max_file env = wrap64 (pe_UploadMaxMB env * 2 ^ 20)"

definition max_body :: "portal_env \<Rightarrow> int" where
  "max_body env = wrap64 (wrap64 (max_file env * 4) sdiv 3 + 2 ^ 20 + 1)"

text \<open>The document of a delivery, or the code it is refused with.\<close>

definition delivered_pdf :: "portal_env \<Rightarrow> inbound_delivery \<Rightarrow> nat + (inboundPayload \<times> string)" where
  "delivered_pdf env d =
    (case dl_size d of None \<Rightarrow> Inl 500
     | Some n \<Rightarrow>
         if n \<ge> max_body env then Inl 413
         else case dl_payload d of None \<Rightarrow> Inl 422
         | Some p \<Rightarrow>
             if ip_UUID p = [] \<or> ip_FileData p = [] then Inl 422
             else case b64_decode (ip_FileData p) of None \<Rightarrow> Inl 422
             | Some pdf \<Rightarrow>
                 if int (length pdf) > max_file env then Inl 413
                 else if dl_sha256 d \<noteq> [] \<and> dl_sha256 d \<noteq> file_hash env pdf then Inl 422
                 else Inr (p, pdf))"

text \<open>The number of the organization that was called, when it has one.\<close>

definition called_number :: "portal_env \<Rightarrow> nat \<Rightarrow> string \<Rightarrow> portal_state \<Rightarrow> nat option" where
  "called_number env org callee s =
    (if pe_faults env InboundNumber then None
     else map_option nu_ID (List.find (\<lambda>n. nu_OrgID n = org \<and> nu_Number n = callee) (po_numbers s)))"

definition inbound_row ::
    "portal_env \<Rightarrow> nat \<Rightarrow> inboundPayload \<Rightarrow> string \<Rightarrow> string \<Rightarrow> portal_state \<Rightarrow> InboundFax" where
  "inbound_row env org p pdf sealed s =
    \<lparr>if_ID = po_nextID s, if_JobUUID = ip_UUID p, if_OrgID = org, if_NumberID = called_number env org (ip_CalleeNumber p) s,
     if_CallerNumber = ip_CallerNumber p, if_CallerName = ip_CallerName p, if_CalleeNumber = ip_CalleeNumber p,
     if_Pages = ip_Pages p, if_Partial = ip_CallPartial p, if_TotalPages = wrap64 (int (ip_CallTotalPages p)),
     if_FileEnc = sealed, if_FileSHA256 = file_hash env pdf, if_FileBytes = int (length pdf),
     if_ReceivedAt = (if ip_Ts p = zero_time then pe_now env else ip_Ts p)\<rparr>"

text \<open>A second fax of an organization with the identifier of a stored one is not stored.\<close>

definition store_fax :: "portal_env \<Rightarrow> portal_request \<Rightarrow> InboundFax \<Rightarrow> receive_answer portal_handler" where
  "store_fax env rq fax s =
    (if pe_faults env InboundInsert then (refusal 500, s)
     else if list_ex (\<lambda>f. if_OrgID f = if_OrgID fax \<and> if_JobUUID f = if_JobUUID fax) (po_inbound s) then (ok Duplicate, s)
     else (Answer 201 (Some (Received (if_ID fax))),
           audit env rq None ''FAX_RECEIVE'' (if_JobUUID fax)
             (s\<lparr>po_inbound := po_inbound s @ [fax], po_nextID := Suc (po_nextID s)\<rparr>)))"

definition handleInboundFax ::
    "portal_env \<Rightarrow> portal_request \<Rightarrow> string \<Rightarrow> inbound_delivery \<Rightarrow> receive_answer portal_handler" where
  "handleInboundFax env rq svc d s =
    (if wrong_key env rq then (refusal 401, s)
     else case service_org env svc s of Inl c \<Rightarrow> (refusal c, s)
     | Inr org \<Rightarrow>
         (case delivered_pdf env d of Inl c \<Rightarrow> (refusal c, s)
          | Inr (p, pdf) \<Rightarrow>
              (case SealBox (pe_suite env) (pe_FaxBox env) (pe_nonce env) pdf of None \<Rightarrow> (refusal 500, s)
               | Some sealed \<Rightarrow> store_fax env rq (inbound_row env (og_ID org) p pdf sealed s) s)))"

section \<open>The inbox of a user\<close>

record inboxResp =
  ix_Fax :: InboundFax
  ix_Number :: string
  ix_NumberName :: string

text \<open>The columns of a list: without the sealed file.\<close>

definition fax_meta :: "InboundFax \<Rightarrow> InboundFax" where
  "fax_meta f = f\<lparr>if_FileEnc := []\<rparr>"

definition decorateInbox :: "portal_env \<Rightarrow> InboundFax list \<Rightarrow> portal_state \<Rightarrow> inboxResp list" where
  "decorateInbox env faxes s =
    (let orgs = map if_OrgID faxes;
         numbers = (if pe_faults env NumbersFind then [] else filter (\<lambda>n. nu_OrgID n \<in> set orgs) (po_numbers s));
         number = (\<lambda>f. case if_NumberID f of None \<Rightarrow> None | Some i \<Rightarrow> List.find (\<lambda>n. nu_ID n = i) (rev numbers))
     in map (\<lambda>f. case number f of None \<Rightarrow> \<lparr>ix_Fax = f, ix_Number = [], ix_NumberName = []\<rparr>
                | Some n \<Rightarrow> \<lparr>ix_Fax = f, ix_Number = nu_Number n, ix_NumberName = nu_Name n\<rparr>) faxes)"

definition userCanSeeInbound :: "portal_env \<Rightarrow> nat \<Rightarrow> nat \<Rightarrow> InboundFax \<Rightarrow> portal_state \<Rightarrow> bool" where
  "userCanSeeInbound env userID orgID fax s \<longleftrightarrow>
    (if if_OrgID fax \<noteq> orgID then False
     else case if_NumberID fax of None \<Rightarrow> False
     | Some i \<Rightarrow> \<not> pe_faults env AssignedCount \<and> (userID, i) \<in> set (po_user_numbers s))"

definition newest_first :: "InboundFax list \<Rightarrow> InboundFax list" where
  "newest_first fs = stable_sort (\<lambda>a b. if_ReceivedAt b < if_ReceivedAt a) fs"

definition page_of :: "int \<Rightarrow> int \<Rightarrow> 'a list \<Rightarrow> 'a list" where
  "page_of lim off xs = take (nat (clampLimit lim 200)) (drop (nat off) xs)"

definition handleListInbox :: "portal_env \<Rightarrow> int \<Rightarrow> int \<Rightarrow> PortalUser \<Rightarrow> nat \<Rightarrow> inboxResp list portal_handler" where
  "handleListInbox env lim off user orgID s =
    (let numberIDs = (if pe_faults env AssignedCount then []
                      else map snd (filter (\<lambda>(u, n). u = pu_ID user) (po_user_numbers s))) in
     if numberIDs = [] then (ok [], s)
     else if pe_faults env InboundList then (refusal 500, s)
     else (ok (decorateInbox env (map fax_meta (page_of lim off (newest_first (filter
             (\<lambda>f. if_OrgID f = orgID \<and> (case if_NumberID f of None \<Rightarrow> False | Some i \<Rightarrow> i \<in> set numberIDs)) (po_inbound s))))) s), s))"

definition find_inbound :: "portal_env \<Rightarrow> nat \<Rightarrow> portal_state \<Rightarrow> InboundFax option" where
  "find_inbound env i s = (if pe_faults env InboundFind then None else List.find (\<lambda>f. if_ID f = i) (po_inbound s))"

definition visible_fax :: "portal_env \<Rightarrow> nat \<Rightarrow> PortalUser \<Rightarrow> nat \<Rightarrow> portal_state \<Rightarrow> InboundFax option" where
  "visible_fax env i user orgID s =
    (case find_inbound env i s of None \<Rightarrow> None
     | Some fax \<Rightarrow> if userCanSeeInbound env (pu_ID user) orgID fax s then Some fax else None)"

definition handleGetInbound :: "portal_env \<Rightarrow> nat \<Rightarrow> PortalUser \<Rightarrow> nat \<Rightarrow> inboxResp portal_handler" where
  "handleGetInbound env i user orgID s =
    (case visible_fax env i user orgID s of None \<Rightarrow> (refusal 404, s)
     | Some fax \<Rightarrow> (ok (hd (decorateInbox env [fax_meta fax] s)), s))"

definition serveInboundFile :: "portal_env \<Rightarrow> InboundFax \<Rightarrow> string answer" where
  "serveInboundFile env fax =
    (case OpenBox (pe_suite env) (pe_FaxBox env) (if_FileEnc fax) of None \<Rightarrow> refusal 500
     | Some pdf \<Rightarrow> if file_hash env pdf \<noteq> if_FileSHA256 fax then refusal 500 else ok pdf)"

definition handleGetInboundFile :: "portal_env \<Rightarrow> nat \<Rightarrow> PortalUser \<Rightarrow> nat \<Rightarrow> string portal_handler" where
  "handleGetInboundFile env i user orgID s =
    (case visible_fax env i user orgID s of None \<Rightarrow> (refusal 404, s)
     | Some fax \<Rightarrow> (serveInboundFile env fax, s))"

section \<open>The inbox of administrators\<close>

record inbox_query =
  iq_org_id :: int
  iq_uuid :: string
  iq_number :: string
  iq_limit :: int
  iq_offset :: int

text \<open>\<open>like\<close> tells whether a text matches a pattern in the database.\<close>

definition inbox_matches :: "(string \<Rightarrow> string \<Rightarrow> bool) \<Rightarrow> inbox_query \<Rightarrow> InboundFax \<Rightarrow> bool" where
  "inbox_matches like q f \<longleftrightarrow>
    (iq_org_id q > 0 \<longrightarrow> int (if_OrgID f) = iq_org_id q)
    \<and> (trim_space (iq_uuid q) \<noteq> [] \<longrightarrow> if_JobUUID f = trim_space (iq_uuid q))
    \<and> (let n = trim_space (iq_number q); pat = ''%'' @ n @ ''%'' in
       n \<noteq> [] \<longrightarrow> like (if_CallerNumber f) pat \<or> like (if_CalleeNumber f) pat)"

definition adminListInbound ::
    "portal_env \<Rightarrow> (string \<Rightarrow> string \<Rightarrow> bool) \<Rightarrow> inbox_query \<Rightarrow> (nat \<times> inboxResp list) portal_handler" where
  "adminListInbound env like q s =
    (let found = filter (inbox_matches like q) (po_inbound s) in
     if pe_faults env InboundCount then (refusal 500, s)
     else if pe_faults env InboundList then (refusal 500, s)
     else (ok (length found, decorateInbox env (map fax_meta (page_of (iq_limit q) (iq_offset q) (newest_first found))) s), s))"

text \<open>What the fax server answers for a job: the legs of each of its calls.\<close>

definition adminInboundAttempts ::
    "portal_env \<Rightarrow> (string \<Rightarrow> 'leg list list option) \<Rightarrow> nat \<Rightarrow> 'leg list portal_handler" where
  "adminInboundAttempts env upstream i s =
    (case find_inbound env i s of None \<Rightarrow> (refusal 404, s)
     | Some fax \<Rightarrow>
         (case upstream (if_JobUUID fax) of None \<Rightarrow> (refusal 502, s)
          | Some [] \<Rightarrow> (ok [], s)
          | Some (legs # _) \<Rightarrow> (ok legs, s)))"

definition adminDeleteInbound :: "portal_env \<Rightarrow> portal_request \<Rightarrow> nat \<Rightarrow> Session \<Rightarrow> PortalUser \<Rightarrow> unit portal_handler" where
  "adminDeleteInbound env rq i sess admin s =
    (case find_inbound env i s of None \<Rightarrow> (refusal 404, s)
     | Some fax \<Rightarrow>
         if pe_faults env InboundDelete then (refusal 500, s)
         else (ok (), audit env rq (Some admin) ''INBOUND_DELETE'' (if_JobUUID fax)
                (s\<lparr>po_inbound := filter (\<lambda>f. if_ID f \<noteq> if_ID fax) (po_inbound s)\<rparr>)))"

section \<open>Lemmas\<close>

lemma find_inbound_row: "find_inbound env i s = Some f \<Longrightarrow> f \<in> set (po_inbound s) \<and> if_ID f = i"
  by (auto simp: find_inbound_def dest!: found split: if_splits)

lemma can_see:
  "userCanSeeInbound env u orgID f s
    \<longleftrightarrow> (\<exists>k. if_OrgID f = orgID \<and> if_NumberID f = Some k \<and> \<not> pe_faults env AssignedCount \<and> (u, k) \<in> set (po_user_numbers s))"
  by (auto simp: userCanSeeInbound_def split: option.splits)

text \<open>A delivery stores at most the one new row; it stores a row only under status 201.\<close>

lemma delivery_cases:
  assumes "handleInboundFax env rq svc d s = (a, t)"
  obtains (same) "t = s" "status a \<noteq> 201"
  | (stored) org p pdf sealed fax where "service_org env svc s = Inr org" "delivered_pdf env d = Inr (p, pdf)"
      "SealBox (pe_suite env) (pe_FaxBox env) (pe_nonce env) pdf = Some sealed"
      "fax = inbound_row env (og_ID org) p pdf sealed s"
      "\<forall>f \<in> set (po_inbound s). (if_OrgID f, if_JobUUID f) \<noteq> (if_OrgID fax, if_JobUUID fax)"
      "po_inbound t = po_inbound s @ [fax]" "po_nextID t = Suc (po_nextID s)" "a = Answer 201 (Some (Received (if_ID fax)))"
      "po_user_numbers t = po_user_numbers s"
proof (cases "\<exists>org p pdf sealed. service_org env svc s = Inr org \<and> delivered_pdf env d = Inr (p, pdf)
    \<and> SealBox (pe_suite env) (pe_FaxBox env) (pe_nonce env) pdf = Some sealed")
  case True
  then obtain org p pdf sealed where steps: "service_org env svc s = Inr org" "delivered_pdf env d = Inr (p, pdf)"
      "SealBox (pe_suite env) (pe_FaxBox env) (pe_nonce env) pdf = Some sealed"
    by blast
  let ?fax = "inbound_row env (og_ID org) p pdf sealed s"
  have "wrong_key env rq \<and> (a, t) = (refusal 401, s) \<or> (a, t) = store_fax env rq ?fax s"
    using assms steps by (auto simp: handleInboundFax_def split: if_splits)
  then consider "t = s" "status a \<noteq> 201" | "(a, t) = store_fax env rq ?fax s" "\<not> pe_faults env InboundInsert"
      "\<not> list_ex (\<lambda>f. if_OrgID f = if_OrgID ?fax \<and> if_JobUUID f = if_JobUUID ?fax) (po_inbound s)"
    by (fastforce simp: store_fax_def split: if_splits)
  then show ?thesis
  proof cases
    case 2
    then have "a = Answer 201 (Some (Received (if_ID ?fax))) \<and> t = audit env rq None ''FAX_RECEIVE'' (if_JobUUID ?fax)
        (s\<lparr>po_inbound := po_inbound s @ [?fax], po_nextID := Suc (po_nextID s)\<rparr>)"
      unfolding store_fax_def by (simp only: if_False prod.inject)
    then show ?thesis
      using stored [OF steps refl] 2(3) by (simp add: list_ex_iff)
  qed (rule same)
next
  case False
  have "service_org env svc s = Inl c \<Longrightarrow> c \<noteq> 201" "delivered_pdf env d = Inl c \<Longrightarrow> c \<noteq> 201" for c
    by (auto simp: service_org_def delivered_pdf_def Let_def split: if_splits option.splits)
  then show ?thesis
    using False assms same
    by (auto simp: handleInboundFax_def split: if_splits sum.splits option.splits prod.splits)
qed

lemma delete_cases:
  assumes "adminDeleteInbound env rq i sess admin s = (a, t)"
  shows "po_nextID t = po_nextID s \<and> po_user_numbers t = po_user_numbers s
    \<and> (po_inbound t = po_inbound s \<or> po_inbound t = filter (\<lambda>f. if_ID f \<noteq> i) (po_inbound s))"
  using assms by (auto simp: adminDeleteInbound_def dest!: find_inbound_row split: if_splits option.splits)

section \<open>Properties\<close>

text \<open>C32: A document of the inbox is sent only in answer to a request whose own session, unexpired and of an active user,
  belongs to a user of the organization the fax was received for, to whom the number of the fax is assigned; and what is
  sent has the checksum that was stored with the fax.\<close>

theorem inbox_file_guard:
  assumes "user_party env rq (handleGetInboundFile env i) s = (ok pdf, t)"
  shows "\<exists>sess u f k. live_session env rq s sess u \<and> pu_Role u = RoleUser
    \<and> f \<in> set (po_inbound s) \<and> if_ID f = i \<and> pu_OrgID u = Some (if_OrgID f) \<and> if_NumberID f = Some k
    \<and> (pu_ID u, k) \<in> set (po_user_numbers s) \<and> if_FileSHA256 f = file_hash env pdf"
  using assms
proof (cases rule: party_cases)
  case (served sess u org ss)
  then obtain f where f: "visible_fax env i u (og_ID org) (s\<lparr>po_sessions := ss\<rparr>) = Some f" "serveInboundFile env f = ok pdf"
    by (auto simp: handleGetInboundFile_def split: option.splits)
  have row: "f \<in> set (po_inbound s)" "if_ID f = i" "userCanSeeInbound env (pu_ID u) (og_ID org) f (s\<lparr>po_sessions := ss\<rparr>)"
    using f(1) by (auto simp: visible_fax_def dest!: find_inbound_row split: option.splits if_splits)
  have "if_FileSHA256 f = file_hash env pdf"
    using f(2) by (auto simp: serveInboundFile_def split: option.splits if_splits)
  then show ?thesis
    using row served(1,3,4) by (intro exI [of _ sess] exI [of _ u] exI [of _ f]) (auto simp: can_see)
qed auto

section \<open>Sample values\<close>

definition sample_delivery :: inbound_delivery where
  "sample_delivery = \<lparr>dl_size = Some 900, dl_payload = Some \<lparr>ip_UUID = ''j'', ip_CallerNumber = ''5550000'', ip_CallerName = [],
     ip_CalleeNumber = ''5551234'', ip_Pages = 1, ip_Ts = 99 * Hour, ip_FileData = ''JVBERg=='', ip_CallPartial = False,
     ip_CallTotalPages = 1\<rparr>, dl_sha256 = []\<rparr>"

lemma sample_limits: "max_file sample_penv = 20971520" "max_body sample_penv = 29010603"
  by (simp_all add: max_file_def max_body_def sample_penv_def signed_divide_int_def)

lemma sample_pdf: "delivered_pdf sample_penv sample_delivery = Inr (the (dl_payload sample_delivery), ''%PDF'')"
proof -
  have "b64_decode (ip_FileData (the (dl_payload sample_delivery))) = Some ''%PDF''"
    by code_simp
  then show ?thesis
    unfolding delivered_pdf_def sample_limits by (simp add: sample_delivery_def)
qed

definition sample_stored :: InboundFax where
  "sample_stored = inbound_row sample_penv 1 (the (dl_payload sample_delivery)) ''%PDF''
     (replicate 12 (CHR ''n'') @ ''FDP%'') sample_portal"

abbreviation "sample_received \<equiv> snd (handleInboundFax sample_penv sample_request ''svc'' sample_delivery sample_portal)"

lemma sample_receives:
  "handleInboundFax sample_penv sample_request ''svc'' sample_delivery sample_portal
    = (Answer 201 (Some (Received 10)), sample_received)" "po_inbound sample_received = [sample_stored]"
proof -
  have parts: "\<not> wrong_key sample_penv sample_request" "service_org sample_penv ''svc'' sample_portal = Inr sample_org"
    "SealBox (pe_suite sample_penv) (pe_FaxBox sample_penv) (pe_nonce sample_penv) ''%PDF''
      = Some (replicate 12 (CHR ''n'') @ ''FDP%'')" "og_ID sample_org = 1" "pe_faults sample_penv InboundInsert = False"
    "if_ID sample_stored = 10" "po_inbound sample_portal = []"
    by code_simp+
  have h: "handleInboundFax sample_penv sample_request ''svc'' sample_delivery sample_portal
      = store_fax sample_penv sample_request sample_stored sample_portal"
    unfolding handleInboundFax_def parts(2) sample_pdf sum.case prod.case parts(3) option.case
    using parts by (simp add: sample_stored_def)
  show "handleInboundFax sample_penv sample_request ''svc'' sample_delivery sample_portal
      = (Answer 201 (Some (Received 10)), sample_received)" "po_inbound sample_received = [sample_stored]"
    unfolding h by (simp_all add: store_fax_def parts)
qed

definition sample_inbox :: portal_state where
  "sample_inbox = sample_portal\<lparr>po_inbound := [sample_stored], po_sessions := [\<lparr>se_ID = 11, se_TokenHash = hash_token sample_penv ''t'',
     se_CSRFToken = ''c'', se_UserID = 2, se_ExpiresAt = 101 * Hour, se_CreatedAt = 99 * Hour\<rparr>]\<rparr>"

lemma inbox_file_guard_witness:
  "\<exists>t sess f. user_party sample_penv (sample_request\<lparr>rq_Cookie := Some ''t''\<rparr>) (handleGetInboundFile sample_penv 10) sample_inbox
       = (ok ''%PDF'', t)
     \<and> live_session sample_penv (sample_request\<lparr>rq_Cookie := Some ''t''\<rparr>) sample_inbox sess sample_puser
     \<and> f \<in> set (po_inbound sample_inbox) \<and> if_ID f = 10 \<and> if_FileSHA256 f = file_hash sample_penv ''%PDF''"
proof -
  let ?rq = "sample_request\<lparr>rq_Cookie := Some ''t''\<rparr>"
  let ?r = "user_party sample_penv ?rq (handleGetInboundFile sample_penv 10) sample_inbox"
  have "fst ?r = ok ''%PDF''"
    by code_simp
  then have r: "?r = (ok ''%PDF'', snd ?r)"
    by (metis prod.collapse)
  have "u = sample_puser" if "u \<in> set (po_users sample_inbox)" for u
    using that by (simp add: sample_inbox_def sample_portal_def)
  then show ?thesis
    using inbox_file_guard [OF r] r by (auto simp: live_session_def)
qed

end
