(* ===== verification/Portal_Retention.thy ===== *)
theory Portal_Retention
  imports Portal_Inbox
begin

text \<open>
  The sweeper of the portal (\<open>retention/retention.go\<close>): received faxes that are older than their organization keeps
  them, and prepared documents that have expired, are deleted in batches. And what holds of the inbox along any
  history of deliveries, deletions and sweeps.

  Which statements fail, and the times the clock is read, are arguments. A batch takes the first rows of the table
  where the database may take any.
\<close>

section \<open>The sweeper\<close>

record sweep_env =
  sw_listOrgs :: bool
  sw_batch :: "nat \<Rightarrow> nat \<Rightarrow> bool"
  sw_audit :: "nat \<Rightarrow> bool"
  sw_list :: "nat \<Rightarrow> bool"
  sw_previews :: "nat \<Rightarrow> bool"
  sw_prepared :: "nat \<Rightarrow> bool"
  sw_now :: "nat \<Rightarrow> time"
  sw_end :: time

definition sweep_batchSize :: nat where "sweep_batchSize = 500"

definition retentionCutoff :: "int \<Rightarrow> time \<Rightarrow> time" where
  "retentionCutoff days now = now + wrap64 (wrap64 (- days * 24) * Hour)"

text \<open>Batches of old faxes are deleted until one is not full; how many rows went, whether no statement failed, and the
  rows that are left.\<close>

function sweep_batches :: "(nat \<Rightarrow> bool) \<Rightarrow> (InboundFax \<Rightarrow> bool) \<Rightarrow> nat \<Rightarrow> InboundFax list \<Rightarrow> bool \<times> nat \<times> InboundFax list" where
  "sweep_batches fails old n fs =
    (if fails n then (False, 0, fs)
     else let ids = if_ID ` set (take sweep_batchSize (filter old fs));
              left = filter (\<lambda>f. if_ID f \<notin> ids) fs; k = length fs - length left in
       if k < sweep_batchSize then (True, k, left)
       else case sweep_batches fails old (Suc n) left of (done, m, rest) \<Rightarrow> (done, k + m, rest))"
  by pat_completeness auto
termination
proof (relation "measure (\<lambda>(_, _, _, fs). length fs)")
  fix fails :: "nat \<Rightarrow> bool" and old n fs ids left k
  assume "left = filter (\<lambda>f. if_ID f \<notin> ids) (fs :: InboundFax list)" "k = length fs - length left" "\<not> k < sweep_batchSize"
  then show "((fails, old, Suc n, left), fails, old, n, fs) \<in> measure (\<lambda>(_, _, _, fs). length fs)"
    by (simp add: sweep_batchSize_def)
qed simp

declare sweep_batches.simps [simp del]

definition sweep_org :: "sweep_env \<Rightarrow> Org \<Rightarrow> portal_state \<Rightarrow> portal_state" where
  "sweep_org se org s =
    (let cutoff = retentionCutoff (og_RetentionDays org) (sw_now se (og_ID org)) in
     case sweep_batches (sw_batch se (og_ID org)) (\<lambda>f. if_OrgID f = og_ID org \<and> if_ReceivedAt f < cutoff) 0 (po_inbound s) of
       (done, k, rest) \<Rightarrow>
         let s1 = s\<lparr>po_inbound := rest\<rparr> in
         if \<not> done \<or> k = 0 \<or> sw_audit se (og_ID org) then s1
         else s1\<lparr>po_audit := po_audit s1 @ [\<lparr>au_ActorID = None, au_ActorUsername = ''retention'',
                au_Action = ''RETENTION_SWEEP'', au_Target = ''org:'' @ itoa (og_ID org), au_IP = []\<rparr>]\<rparr>)"

text \<open>Documents that have expired: their previews first.\<close>

function sweep_docs ::
    "sweep_env \<Rightarrow> nat \<Rightarrow> PreparedFax list \<Rightarrow> PreparedPreview list \<Rightarrow> PreparedFax list \<times> PreparedPreview list" where
  "sweep_docs se n docs previews =
    (if sw_list se n then (docs, previews)
     else let batch = take sweep_batchSize (filter (\<lambda>d. pf_ExpiresAt d < sw_end se) docs); ids = pf_ID ` set batch;
              previews1 = filter (\<lambda>p. pp_PreparedFaxID p \<notin> ids) previews;
              docs1 = filter (\<lambda>d. pf_ID d \<notin> ids) docs in
       if batch = [] then (docs, previews)
       else if sw_previews se n then (docs, previews)
       else if sw_prepared se n then (docs, previews1)
       else if length batch < sweep_batchSize then (docs1, previews1)
       else sweep_docs se (Suc n) docs1 previews1)"
  by pat_completeness auto
termination
proof (relation "measure (\<lambda>(_, _, docs, _). length docs)")
  fix se :: sweep_env and n docs previews batch ids previews1 docs1
  assume a: "batch = take sweep_batchSize (filter (\<lambda>d. pf_ExpiresAt d < sw_end se) docs)" "ids = pf_ID ` set batch"
    "docs1 = filter (\<lambda>d. pf_ID d \<notin> ids) (docs :: PreparedFax list)" "batch \<noteq> []"
  then have b: "hd batch \<in> set batch"
    by (intro hd_in_set)
  moreover have "set batch \<subseteq> set docs"
    unfolding a(1) by (auto dest: in_set_takeD)
  ultimately have "hd batch \<in> set docs" "pf_ID (hd batch) \<in> ids"
    unfolding a(2) by auto
  then have "length docs1 < length docs"
    unfolding a(3) by (intro length_filter_less) auto
  then show "((se, Suc n, docs1, previews1), se, n, docs, previews) \<in> measure (\<lambda>(_, _, docs, _). length docs)"
    by simp
qed simp

declare sweep_docs.simps [simp del]

definition sweep_prepared :: "sweep_env \<Rightarrow> portal_state \<Rightarrow> portal_state" where
  "sweep_prepared se s =
    (case sweep_docs se 0 (po_prepared s) (po_previews s) of (docs, previews) \<Rightarrow> s\<lparr>po_prepared := docs, po_previews := previews\<rparr>)"

definition Sweep :: "sweep_env \<Rightarrow> portal_state \<Rightarrow> portal_state" where
  "Sweep se s =
    (if sw_listOrgs se then s
     else sweep_prepared se (fold (sweep_org se) (filter (\<lambda>o1. og_RetentionDays o1 > 0) (po_orgs s)) s))"

section \<open>Histories of the inbox\<close>

text \<open>Deliveries, deletions, sweeps, and any operation that leaves the received faxes alone.\<close>

inductive inbox_step :: "portal_state \<Rightarrow> portal_state \<Rightarrow> bool" where
  step_deliver: "handleInboundFax env rq svc d s = (a, t) \<Longrightarrow> inbox_step s t"
| step_delete: "adminDeleteInbound env rq i sess admin s = (a, t) \<Longrightarrow> inbox_step s t"
| step_sweep: "inbox_step s (Sweep se s)"
| step_other: "po_inbound t = po_inbound s \<Longrightarrow> po_nextID s \<le> po_nextID t \<Longrightarrow> inbox_step s t"

text \<open>Identifiers are below the counter, and neither they nor the pairs of organization and job repeat.\<close>

definition inbox_ok :: "portal_state \<Rightarrow> bool" where
  "inbox_ok s \<longleftrightarrow> distinct (map if_ID (po_inbound s)) \<and> distinct (map (\<lambda>f. (if_OrgID f, if_JobUUID f)) (po_inbound s))
     \<and> (\<forall>f \<in> set (po_inbound s). if_ID f < po_nextID s)"

text \<open>The fax is stored as it was, or it is gone for good.\<close>

definition same_fax :: "InboundFax \<Rightarrow> portal_state \<Rightarrow> bool" where
  "same_fax f s \<longleftrightarrow> if_ID f < po_nextID s \<and> (\<forall>g \<in> set (po_inbound s). if_ID g = if_ID f \<longrightarrow> g = f)"

section \<open>Lemmas\<close>

text \<open>One batch, for rows with distinct keys.\<close>

lemma batch_left:
  assumes "distinct (map key xs)" "gone = take n (filter old xs)"
  shows "filter (\<lambda>x. key x \<notin> key ` set gone) xs = filter (\<lambda>x. x \<notin> set gone) xs"
proof (rule filter_cong [OF refl])
  fix x assume "x \<in> set xs"
  moreover have "set gone \<subseteq> set xs"
    unfolding assms(2) by (auto dest: in_set_takeD)
  ultimately show "key x \<notin> key ` set gone \<longleftrightarrow> x \<notin> set gone"
    using assms(1) by (auto simp: distinct_map inj_on_def)
qed

lemma batch_size:
  assumes "distinct xs" "gone = take n (filter old xs)"
  shows "length xs - length (filter (\<lambda>x. x \<notin> set gone) xs) = length gone"
proof -
  have sub: "set gone \<subseteq> set xs"
    unfolding assms(2) by (auto dest: in_set_takeD)
  have "length xs - length (filter (\<lambda>x. x \<notin> set gone) xs) = length (filter (\<lambda>x. x \<in> set gone) xs)"
    using sum_length_filter_compl [of "\<lambda>x. x \<in> set gone" xs] by simp
  also have "\<dots> = card (set (filter (\<lambda>x. x \<in> set gone) xs))"
    using assms(1) by (intro distinct_card [symmetric]) simp
  also have "set (filter (\<lambda>x. x \<in> set gone) xs) = set gone"
    using sub by auto
  also have "card (set gone) = length gone"
    using assms by (intro distinct_card) (auto intro: distinct_take)
  finally show ?thesis .
qed

lemma last_batch:
  assumes "gone = take n (filter old xs)" "length gone < n"
  shows "filter (\<lambda>x. x \<notin> set gone) xs = filter (\<lambda>x. \<not> old x) xs"
proof -
  have "gone = filter old xs"
    using assms by (auto simp: min_def split: if_splits)
  then show ?thesis
    by (auto intro: filter_cong)
qed

lemma young_left:
  assumes "gone = take n (filter old xs)"
  shows "filter (\<lambda>x. \<not> old x) (filter (\<lambda>x. x \<notin> set gone) xs) = filter (\<lambda>x. \<not> old x) xs"
  unfolding assms filter_filter by (rule filter_cong) (auto dest: in_set_takeD)

lemma sweep_kept:
  "sweep_batches fails old n fs = (b, k, rest) \<Longrightarrow> distinct (map if_ID fs) \<Longrightarrow>
     (\<exists>P. rest = filter P fs) \<and> filter (\<lambda>f. \<not> old f) rest = filter (\<lambda>f. \<not> old f) fs
     \<and> ((\<forall>i. \<not> fails i) \<longrightarrow> rest = filter (\<lambda>f. \<not> old f) fs)"
proof (induction fails old n fs arbitrary: b k rest rule: sweep_batches.induct)
  case (1 fails old n fs)
  define gone where "gone = take sweep_batchSize (filter old fs)"
  define left where "left = filter (\<lambda>f. f \<notin> set gone) fs"
  have left: "filter (\<lambda>f. if_ID f \<notin> if_ID ` set gone) fs = left"
    unfolding left_def by (rule batch_left [OF 1(3) gone_def])
  have size: "length fs - length left = length gone"
    unfolding left_def using 1(3) by (intro batch_size [OF _ gone_def]) (simp add: distinct_map)
  have young: "filter (\<lambda>f. \<not> old f) left = filter (\<lambda>f. \<not> old f) fs"
    unfolding left_def by (rule young_left [OF gone_def])
  have eq: "sweep_batches fails old n fs = (if fails n then (False, 0, fs)
      else if length gone < sweep_batchSize then (True, length gone, left)
      else case sweep_batches fails old (Suc n) left of (done, m, r) \<Rightarrow> (done, length gone + m, r))"
    unfolding sweep_batches.simps [of fails old n fs] Let_def gone_def [symmetric] left size ..
  consider "fails n" | "\<not> fails n" "length gone < sweep_batchSize" | "\<not> fails n" "\<not> length gone < sweep_batchSize"
    by blast
  then show ?case
  proof cases
    case a: 1
    have "rest = fs" "\<not> (\<forall>i. \<not> fails i)" "\<exists>P. fs = filter P fs"
      using 1(2) a unfolding eq by (auto intro!: exI [of _ "\<lambda>_. True"])
    then show ?thesis
      by auto
  next
    case 2
    have "left = filter (\<lambda>f. \<not> old f) fs"
      unfolding left_def by (rule last_batch [OF gone_def 2(2)])
    then show ?thesis
      using 1(2) 2 unfolding eq by auto
  next
    case 3
    obtain b' k' where rec: "sweep_batches fails old (Suc n) left = (b', k', rest)"
      using 1(2) 3 unfolding eq by (auto split: prod.splits)
    have "distinct (map if_ID left)"
      unfolding left_def using 1(3) by (rule distinct_map_filter)
    note ih = 1(1) [OF 3(1) refl refl refl, folded gone_def, unfolded left size, OF 3(2) rec this]
    obtain P where "rest = filter P left"
      using ih by blast
    then have "rest = filter (\<lambda>f. f \<notin> set gone \<and> P f) fs"
      unfolding left_def by simp
    then show ?thesis
      using ih unfolding young by blast
  qed
qed

definition too_old :: "sweep_env \<Rightarrow> Org list \<Rightarrow> InboundFax \<Rightarrow> bool" where
  "too_old se orgs f \<longleftrightarrow> (\<exists>org \<in> set orgs. if_OrgID f = og_ID org
     \<and> if_ReceivedAt f < retentionCutoff (og_RetentionDays org) (sw_now se (og_ID org)))"

lemma sweep_org_kept:
  assumes "distinct (map if_ID (po_inbound s))"
  shows "(\<exists>P. po_inbound (sweep_org se org s) = filter P (po_inbound s))
    \<and> filter (\<lambda>f. \<not> too_old se [org] f) (po_inbound (sweep_org se org s)) = filter (\<lambda>f. \<not> too_old se [org] f) (po_inbound s)
    \<and> ((\<forall>i. \<not> sw_batch se (og_ID org) i) \<longrightarrow> po_inbound (sweep_org se org s) = filter (\<lambda>f. \<not> too_old se [org] f) (po_inbound s))"
proof -
  have old: "too_old se [org]
      = (\<lambda>f. if_OrgID f = og_ID org \<and> if_ReceivedAt f < retentionCutoff (og_RetentionDays org) (sw_now se (og_ID org)))"
    by (auto simp: too_old_def)
  obtain b k rest where r: "sweep_batches (sw_batch se (og_ID org)) (too_old se [org]) 0 (po_inbound s) = (b, k, rest)"
    by (metis prod_cases3)
  then have "po_inbound (sweep_org se org s) = rest"
    unfolding old by (simp add: sweep_org_def Let_def)
  then show ?thesis
    using sweep_kept [OF r assms] by auto
qed

lemma sweep_org_tables [simp]:
  "po_nextID (sweep_org se org s) = po_nextID s" "po_user_numbers (sweep_org se org s) = po_user_numbers s"
  by (auto simp: sweep_org_def Let_def split: prod.splits)

lemma too_old_Cons: "too_old se (org # orgs) f \<longleftrightarrow> too_old se [org] f \<or> too_old se orgs f"
  by (auto simp: too_old_def)

lemma filter_both: "filter P xs = filter P ys \<Longrightarrow> filter (\<lambda>x. P x \<and> Q x) xs = filter (\<lambda>x. P x \<and> Q x) ys"
  by (metis filter_filter)

lemma sweep_orgs_kept:
  "distinct (map if_ID (po_inbound s)) \<Longrightarrow>
    (\<exists>P. po_inbound (fold (sweep_org se) orgs s) = filter P (po_inbound s))
    \<and> filter (\<lambda>f. \<not> too_old se orgs f) (po_inbound (fold (sweep_org se) orgs s)) = filter (\<lambda>f. \<not> too_old se orgs f) (po_inbound s)
    \<and> ((\<forall>j i. \<not> sw_batch se j i) \<longrightarrow> po_inbound (fold (sweep_org se) orgs s) = filter (\<lambda>f. \<not> too_old se orgs f) (po_inbound s))"
proof (induction orgs arbitrary: s)
  case Nil
  then show ?case
    by (auto simp: too_old_def intro!: exI [of _ "\<lambda>_. True"])
next
  case (Cons org orgs)
  let ?s = "sweep_org se org s"
  obtain P where P: "po_inbound ?s = filter P (po_inbound s)"
    and one: "filter (\<lambda>f. \<not> too_old se [org] f) (po_inbound ?s) = filter (\<lambda>f. \<not> too_old se [org] f) (po_inbound s)"
      "(\<forall>i. \<not> sw_batch se (og_ID org) i) \<longrightarrow> po_inbound ?s = filter (\<lambda>f. \<not> too_old se [org] f) (po_inbound s)"
    using sweep_org_kept [OF Cons.prems, of se org] by blast
  have "distinct (map if_ID (po_inbound ?s))"
    unfolding P using Cons.prems by (rule distinct_map_filter)
  then obtain Q where Q: "po_inbound (fold (sweep_org se) orgs ?s) = filter Q (po_inbound ?s)"
    and rest: "filter (\<lambda>f. \<not> too_old se orgs f) (po_inbound (fold (sweep_org se) orgs ?s))
        = filter (\<lambda>f. \<not> too_old se orgs f) (po_inbound ?s)"
      "(\<forall>j i. \<not> sw_batch se j i) \<longrightarrow> po_inbound (fold (sweep_org se) orgs ?s) = filter (\<lambda>f. \<not> too_old se orgs f) (po_inbound ?s)"
    using Cons.IH [of ?s] by blast
  have "po_inbound (fold (sweep_org se) (org # orgs) s) = filter (\<lambda>f. P f \<and> Q f) (po_inbound s)"
    using P Q by simp
  moreover have "filter (\<lambda>f. \<not> too_old se (org # orgs) f) (po_inbound (fold (sweep_org se) orgs ?s))
      = filter (\<lambda>f. \<not> too_old se (org # orgs) f) (po_inbound s)"
    using filter_both [OF rest(1), of "\<lambda>f. \<not> too_old se [org] f"] filter_both [OF one(1), of "\<lambda>f. \<not> too_old se orgs f"]
    unfolding too_old_Cons [of se org orgs] by (simp add: conj_commute)
  moreover have "po_inbound (fold (sweep_org se) orgs ?s) = filter (\<lambda>f. \<not> too_old se (org # orgs) f) (po_inbound s)"
    if "\<forall>j i. \<not> sw_batch se j i"
    using that one(2) rest(2) unfolding too_old_Cons [of se org orgs] by (simp add: conj_commute)
  ultimately show ?case
    by auto
qed

lemma sweep_orgs_tables [simp]:
  "po_nextID (fold (sweep_org se) orgs s) = po_nextID s" "po_user_numbers (fold (sweep_org se) orgs s) = po_user_numbers s"
  by (induction orgs arbitrary: s) auto

lemma sweep_prepared_tables [simp]:
  "po_inbound (sweep_prepared se s) = po_inbound s" "po_nextID (sweep_prepared se s) = po_nextID s"
  by (simp_all add: sweep_prepared_def split: prod.splits)

lemma Sweep_filters:
  assumes "distinct (map if_ID (po_inbound s))"
  shows "\<exists>P. po_inbound (Sweep se s) = filter P (po_inbound s)" "po_nextID (Sweep se s) = po_nextID s"
  using sweep_orgs_kept [OF assms, of se "filter (\<lambda>o1. og_RetentionDays o1 > 0) (po_orgs s)"]
  by (auto simp: Sweep_def intro: exI [of _ "\<lambda>_. True"])

subsection \<open>Histories\<close>

text \<open>A step deletes rows or adds one with new keys.\<close>

lemma step_inbound:
  assumes "inbox_step s t" "inbox_ok s"
  obtains (less) P where "po_inbound t = filter P (po_inbound s)" "po_nextID s \<le> po_nextID t"
  | (more) f where "po_inbound t = po_inbound s @ [f]" "if_ID f = po_nextID s" "po_nextID t = Suc (po_nextID s)"
      "(if_OrgID f, if_JobUUID f) \<notin> (\<lambda>f. (if_OrgID f, if_JobUUID f)) ` set (po_inbound s)"
  using assms(1)
proof cases
  case (step_deliver env rq svc d a)
  then show ?thesis
  proof (cases rule: delivery_cases)
    case same
    then show ?thesis
      using less [of "\<lambda>_. True"] by simp
  next
    case (stored org p pdf sealed fax)
    have "(if_OrgID fax, if_JobUUID fax) \<notin> (\<lambda>f. (if_OrgID f, if_JobUUID f)) ` set (po_inbound s)"
      using stored(5) by (metis (no_types, lifting) imageE)
    moreover have "if_ID fax = po_nextID s"
      by (simp add: stored(4) inbound_row_def)
    ultimately show ?thesis
      using more stored(6,7) by blast
  qed
next
  case (step_delete env rq i sess admin a)
  then show ?thesis
    using delete_cases less less [of "\<lambda>_. True"] by fastforce
next
  case (step_sweep se)
  then show ?thesis
    using Sweep_filters [of s se] assms(2) less by (auto simp: inbox_ok_def)
next
  case step_other
  then show ?thesis
    using less [of "\<lambda>_. True"] by simp
qed

lemma inbox_ok_step:
  assumes "inbox_ok s" "inbox_step s t" shows "inbox_ok t"
  using assms(2,1)
proof (cases rule: step_inbound)
  case (less P)
  then show ?thesis
    using assms(1) by (auto simp: inbox_ok_def distinct_map_filter)
next
  case (more f)
  then show ?thesis
    using assms(1) by (auto simp: inbox_ok_def less_Suc_eq)
qed

lemma same_fax_step:
  assumes "inbox_ok s" "same_fax f s" "inbox_step s t" shows "same_fax f t"
  using assms(3,1)
proof (cases rule: step_inbound)
  case (less P)
  then show ?thesis
    using assms(2) by (auto simp: same_fax_def)
next
  case (more g)
  then show ?thesis
    using assms(2) by (auto simp: same_fax_def)
qed

interpretation inbox: step_invariant inbox_step s0 "\<lambda>s. inbox_ok s0 \<longrightarrow> inbox_ok s \<and> (\<forall>f. same_fax f s0 \<longrightarrow> same_fax f s)" for s0
  by unfold_locales (auto intro: inbox_ok_step same_fax_step)

section \<open>Properties\<close>

text \<open>C33: However deliveries, redeliveries, deletions and sweeps are ordered, no two received faxes have the same
  organization and job.\<close>

theorem fax_stored_once:
  assumes "inbox_ok s0" "reach inbox_step s0 s"
  shows "distinct (map (\<lambda>f. (if_OrgID f, if_JobUUID f)) (po_inbound s))"
  using inbox.reach_holds [OF assms(2)] assms(1) by (simp add: inbox_ok_def)

text \<open>C10: The document of a fax that was stored comes back byte for byte, through base 64, sealing and any history of
  the inbox, for every user of the organization to whom the called number is assigned, as long as the fax is kept.\<close>

theorem delivered_fax_readable:
  assumes cipher: "\<And>k n x. sl_Open (pe_suite env) k n (sl_Seal (pe_suite env) k n x) = Some x"
    and "pe_nonce env = Some nonce" "length nonce = NonceSize"
    and "inbox_ok s" "handleInboundFax env rq svc d s = (Answer 201 (Some (Received i)), t)"
    and "dl_payload d = Some p" "b64_decode (ip_FileData p) = Some pdf" "service_org env svc s = Inr org"
    and "called_number env (og_ID org) (ip_CalleeNumber p) s = Some k"
    and "reach inbox_step t u" "i \<in> if_ID ` set (po_inbound u)" "(pu_ID user, k) \<in> set (po_user_numbers u)"
    and "pe_suite env' = pe_suite env" "pe_EncryptionKey env' = pe_EncryptionKey env"
    and "\<not> pe_faults env' InboundFind" "\<not> pe_faults env' AssignedCount"
  shows "handleGetInboundFile env' i user (og_ID org) u = (ok pdf, u)"
  using assms(5)
proof (cases rule: delivery_cases)
  case (stored org' p' pdf' sealed fax)
  have same: "org' = org" "p' = p" "pdf' = pdf" "i = if_ID fax"
    using stored(1,2,8) assms(6-8) by (auto simp: delivered_pdf_def Let_def split: if_splits option.splits)
  have step: "inbox_step s t"
    using assms(5) by (rule step_deliver)
  have "same_fax fax t"
    using stored(4,6,7) assms(4) by (auto simp: same_fax_def inbound_row_def inbox_ok_def)
  then have "\<forall>g \<in> set (po_inbound u). if_ID g = i \<longrightarrow> g = fax"
    using inbox.reach_holds [OF assms(10)] inbox_ok_step [OF assms(4) step] same(4) by (simp add: same_fax_def)
  moreover obtain g where "List.find (\<lambda>f. if_ID f = i) (po_inbound u) = Some g" "g \<in> set (po_inbound u)" "if_ID g = i"
    using assms(11) by (cases "List.find (\<lambda>f. if_ID f = i) (po_inbound u)") (auto simp: find_None_iff dest: found)
  ultimately have "find_inbound env' i u = Some fax"
    using assms(15) by (simp add: find_inbound_def)
  then have "visible_fax env' i user (og_ID org) u = Some fax"
    using stored(4) assms(9,12,16) same by (auto simp: visible_fax_def can_see inbound_row_def)
  moreover have "OpenBox (pe_suite env) (pe_FaxBox env) sealed = Some pdf"
    unfolding same(3) [symmetric] by (rule open_sealed [OF cipher stored(3)]) (use assms(2,3) in simp)
  moreover have "pe_FaxBox env' = pe_FaxBox env"
    by (simp add: pe_FaxBox_def assms(13,14))
  moreover have "if_FileEnc fax = sealed" "if_FileSHA256 fax = file_hash env pdf"
    by (simp_all add: stored(4) same(3) inbound_row_def)
  ultimately show ?thesis
    by (simp add: handleGetInboundFile_def serveInboundFile_def file_hash_def assms(13))
qed simp


section \<open>Sample values\<close>


lemma sample_portal_ok: "inbox_ok sample_portal"
  by (simp add: inbox_ok_def sample_portal_def)

lemma fax_stored_once_witness:
  "\<exists>s. reach inbox_step sample_portal s \<and> po_inbound s \<noteq> [] \<and> distinct (map (\<lambda>f. (if_OrgID f, if_JobUUID f)) (po_inbound s))"
proof -
  have r: "reach inbox_step sample_portal sample_received"
    by (rule reach.reach_step, rule reach.reach_start, rule step_deliver [OF sample_receives(1)])
  show ?thesis
    using fax_stored_once [OF sample_portal_ok r] r by (auto simp: sample_receives(2) intro!: exI [of _ sample_received])
qed

lemma delivered_fax_readable_witness:
  "handleGetInboundFile sample_penv 10 sample_puser 1 sample_received = (ok ''%PDF'', sample_received)"
proof -
  have cipher: "\<And>k n x. sl_Open (pe_suite sample_penv) k n (sl_Seal (pe_suite sample_penv) k n x) = Some x"
    by (simp add: sample_penv_def sample_suite_def)
  have facts: "pe_nonce sample_penv = Some (replicate 12 (CHR ''n''))" "length (replicate 12 (CHR ''n'')) = NonceSize"
    "b64_decode (ip_FileData (the (dl_payload sample_delivery))) = Some ''%PDF''"
    "service_org sample_penv ''svc'' sample_portal = Inr sample_org"
    "called_number sample_penv (og_ID sample_org) (ip_CalleeNumber (the (dl_payload sample_delivery))) sample_portal = Some 4"
    "\<not> pe_faults sample_penv InboundFind" "\<not> pe_faults sample_penv AssignedCount" "og_ID sample_org = 1"
    "(pu_ID sample_puser, 4) \<in> set (po_user_numbers sample_portal)" "if_ID sample_stored = 10"
    by code_simp+
  have "dl_payload sample_delivery = Some (the (dl_payload sample_delivery))"
    by (simp add: sample_delivery_def)
  moreover have "po_user_numbers sample_received = po_user_numbers sample_portal"
    using sample_receives(1) by (cases rule: delivery_cases) auto
  ultimately show ?thesis
    using delivered_fax_readable [OF cipher facts(1,2) sample_portal_ok sample_receives(1) _ facts(3-5) reach.reach_start,
        where user = sample_puser and env' = sample_penv] facts
    by (simp add: sample_receives(2))
qed


end
