(* ===== verification/Portal_Jobs.thy ===== *)
theory Portal_Jobs
  imports Portal_Login
begin

text \<open>
  The jobs of portal users: the poller that follows them on the fax server (\<open>poller/poller.go\<close>), the outcome the fax
  server pushes (\<open>api/handlers_notify.go\<close>), and the lists of jobs (\<open>api/handlers_user.go\<close>).

  The answers of the fax server are arguments; the rows are those of \<open>fsclient.FaxStatusRow\<close>.
\<close>

section \<open>The verdict on a job\<close>

record FaxStatusRow =
  fs_ResultType :: string
  fs_AttemptNumber :: int
  fs_StartTs :: time
  fs_EndTs :: time
  fs_HangupCause :: string
  fs_TransferredPages :: int
  fs_TotalPages :: int
  fs_Success :: bool
  fs_ResultText :: string

record decision =
  d_status :: string
  d_attempts :: int
  d_pages :: int
  d_totalPages :: int
  d_resultText :: string
  d_lastErr :: string
  d_completed :: "time option"
  d_terminal :: bool
  d_sawActive :: bool

definition failureGrace :: duration where "failureGrace = 30 * Second"
definition poll_batchSize :: nat where "poll_batchSize = 200"
definition staleJobTimeout :: duration where "staleJobTimeout = 24 * Hour"

definition portalPlaceholderCause :: string where "portalPlaceholderCause = ''WEBHOOK''"
definition notifyResultType :: string where "notifyResultType = ''notify''"

definition real_attempt :: "FaxStatusRow \<Rightarrow> bool" where
  "real_attempt r \<longleftrightarrow> fs_HangupCause r \<noteq> portalPlaceholderCause \<and> fs_ResultType r \<noteq> notifyResultType"

definition most :: "(FaxStatusRow \<Rightarrow> int) \<Rightarrow> FaxStatusRow list \<Rightarrow> int" where
  "most f rows = fold (\<lambda>r m. if f r > m then f r else m) rows 0"

definition last_row :: "FaxStatusRow list \<Rightarrow> FaxStatusRow option" where
  "last_row rows = fold (\<lambda>r l. case l of None \<Rightarrow> Some r | Some q \<Rightarrow> if \<not> fs_StartTs r < fs_StartTs q then Some r else l) rows None"

definition still_open :: decision where
  "still_open = \<lparr>d_status = JobQueued, d_attempts = 0, d_pages = 0, d_totalPages = 0, d_resultText = [], d_lastErr = [],
     d_completed = None, d_terminal = False, d_sawActive = False\<rparr>"

definition decide :: "FaxStatusRow list \<Rightarrow> bool \<Rightarrow> bool \<Rightarrow> bool \<Rightarrow> time \<Rightarrow> time \<Rightarrow> decision" where
  "decide all_rows inActive activeOK seenActive submitted now =
    (let rows = filter real_attempt all_rows;
         d = still_open\<lparr>d_totalPages := most fs_TotalPages (filter (\<lambda>r. fs_ResultType r \<noteq> notifyResultType) all_rows),
               d_attempts := int (length rows), d_pages := most fs_TransferredPages rows\<rparr>
     in case List.find fs_Success rows of
          Some r \<Rightarrow> d\<lparr>d_status := JobSuccess, d_terminal := True, d_resultText := fs_ResultText r,
                       d_completed := Some (if fs_EndTs r = zero_time then now else fs_EndTs r)\<rparr>
        | None \<Rightarrow>
          (case last_row rows of
             Some l \<Rightarrow>
               if (\<not> activeOK \<or> \<not> inActive \<and> seenActive) \<and> time_sub now submitted > failureGrace
               then d\<lparr>d_status := JobFailed, d_terminal := True, d_resultText := fs_ResultText l,
                      d_lastErr := (if fs_ResultText l = [] then fs_HangupCause l else fs_ResultText l),
                      d_completed := Some now\<rparr>
               else if inActive then d\<lparr>d_status := JobSending, d_sawActive := True\<rparr>
               else if seenActive then d\<lparr>d_status := JobSending\<rparr> else d
           | None \<Rightarrow>
               if inActive then d\<lparr>d_status := JobSending, d_sawActive := True\<rparr>
               else if seenActive then d\<lparr>d_status := JobSending\<rparr> else d))"

section \<open>The poller\<close>

text \<open>What the fax server answers: the identifiers of the jobs in flight, and the rows of a job for an account.\<close>

record poll_answers =
  po_active :: "string list option"
  po_rows :: "string \<Rightarrow> string \<Rightarrow> string \<Rightarrow> FaxStatusRow list option"

definition update_job :: "portal_env \<Rightarrow> nat \<Rightarrow> (PortalJob \<Rightarrow> PortalJob) \<Rightarrow> portal_state \<Rightarrow> portal_state" where
  "update_job env i f s =
    (if pe_faults env JobUpdate then s
     else s\<lparr>po_jobs := map (\<lambda>j. if pj_ID j = i then (f j)\<lparr>pj_UpdatedAt := pe_now env\<rparr> else j) (po_jobs s)\<rparr>)"

definition due_jobs :: "portal_env \<Rightarrow> portal_state \<Rightarrow> PortalJob list" where
  "due_jobs env s =
    (if pe_faults env JobsFind then []
     else take poll_batchSize (stable_sort (\<lambda>a b. pj_SubmittedAt a < pj_SubmittedAt b)
       (filter (\<lambda>j. pj_Status j \<in> {JobQueued, JobSending} \<and> pj_UpdatedAt j < pe_now env - 3 * Second) (po_jobs s))))"

definition svcCreds :: "portal_env \<Rightarrow> nat \<Rightarrow> portal_state \<Rightarrow> (string \<times> string) option" where
  "svcCreds env orgID s =
    (case find_org env CredsOrg orgID s of None \<Rightarrow> None
     | Some org \<Rightarrow> map_option (\<lambda>p. (og_SvcUsername org, p)) (OpenBox (pe_suite env) (pe_Box env) (og_SvcPasswordEnc org)))"

text \<open>The columns a decision writes.\<close>

definition apply_decision :: "decision \<Rightarrow> PortalJob \<Rightarrow> PortalJob" where
  "apply_decision d j =
    (let j1 = j\<lparr>pj_Attempts := d_attempts d, pj_Status := d_status d,
               pj_TotalPages := (if d_totalPages d > 0 then d_totalPages d else pj_TotalPages j)\<rparr>
     in if d_terminal d
        then j1\<lparr>pj_Pages := d_pages d, pj_ResultText := d_resultText d, pj_LastError := d_lastErr d, pj_SeenActive := True,
                pj_CompletedAt := (case d_completed d of None \<Rightarrow> pj_CompletedAt j | Some c \<Rightarrow> Some c)\<rparr>
        else if d_sawActive d then j1\<lparr>pj_SeenActive := True\<rparr> else j1)"

definition reconcile :: "portal_env \<Rightarrow> poll_answers \<Rightarrow> PortalJob \<Rightarrow> portal_state \<Rightarrow> portal_state" where
  "reconcile env ans job s =
    (case svcCreds env (pj_OrgID job) s of None \<Rightarrow> s
     | Some (username, pass) \<Rightarrow>
         (case po_rows ans username pass (pj_JobUUID job) of None \<Rightarrow> s
          | Some rows \<Rightarrow>
              let inActive = (case po_active ans of None \<Rightarrow> False | Some us \<Rightarrow> pj_JobUUID job \<in> set us);
                  d = decide rows inActive (po_active ans \<noteq> None) (pj_SeenActive job) (pj_SubmittedAt job) (pe_now env)
              in update_job env (pj_ID job) (apply_decision d) s))"

text \<open>A job of the snapshot that has been open for too long is given up.\<close>

definition stale_job :: "portal_env \<Rightarrow> PortalJob \<Rightarrow> PortalJob \<Rightarrow> PortalJob" where
  "stale_job env job j = j\<lparr>pj_Status := JobFailed, pj_Attempts := pj_Attempts job, pj_Pages := pj_Pages job,
     pj_ResultText := [], pj_LastError := ''timed out without an upstream result'', pj_SeenActive := True,
     pj_CompletedAt := Some (pe_now env)\<rparr>"

definition poll_job :: "portal_env \<Rightarrow> poll_answers \<Rightarrow> PortalJob \<Rightarrow> portal_state \<Rightarrow> portal_state" where
  "poll_job env ans job s =
    (if time_sub (pe_now env) (pj_SubmittedAt job) > staleJobTimeout
     then update_job env (pj_ID job) (stale_job env job) s
     else reconcile env ans job s)"

definition tick :: "portal_env \<Rightarrow> poll_answers \<Rightarrow> portal_state \<Rightarrow> portal_state" where
  "tick env ans s = fold (poll_job env ans) (due_jobs env s) s"

section \<open>The pushed outcome\<close>

record status_payload =
  sp_UUID :: string
  sp_Success :: bool
  sp_AllAttemptsFailed :: bool
  sp_Attempts :: int
  sp_TransferredPages :: nat
  sp_TotalPages :: nat
  sp_ResultText :: string
  sp_HangupCause :: string
  sp_EndTs :: time

datatype push_answer = PushIgnored | PushDuplicate | PushedStatus string

definition pushed_status :: "status_payload \<Rightarrow> string" where
  "pushed_status p = (if sp_Success p then JobSuccess else if sp_AllAttemptsFailed p then JobFailed else JobSending)"

definition apply_push :: "portal_env \<Rightarrow> status_payload \<Rightarrow> PortalJob \<Rightarrow> PortalJob" where
  "apply_push env p j =
    (let completed = (if sp_EndTs p = zero_time then pe_now env else sp_EndTs p);
         j1 = j\<lparr>pj_Attempts := sp_Attempts p, pj_Pages := wrap64 (int (sp_TransferredPages p)),
               pj_TotalPages := wrap64 (int (sp_TotalPages p)), pj_Status := pushed_status p\<rparr>
     in if sp_Success p then j1\<lparr>pj_ResultText := sp_ResultText p, pj_CompletedAt := Some completed\<rparr>
        else if sp_AllAttemptsFailed p
        then j1\<lparr>pj_ResultText := sp_ResultText p, pj_CompletedAt := Some completed,
                pj_LastError := (if sp_ResultText p = [] then sp_HangupCause p else sp_ResultText p)\<rparr>
        else j1)"

definition handleStatusNotify ::
    "portal_env \<Rightarrow> portal_request \<Rightarrow> string \<Rightarrow> status_payload option \<Rightarrow> push_answer portal_handler" where
  "handleStatusNotify env rq svc body s =
    (if wrong_key env rq then (refusal 401, s)
     else case service_org env svc s of Inl c \<Rightarrow> (refusal c, s)
     | Inr org \<Rightarrow>
       (case body of None \<Rightarrow> (refusal 422, s)
        | Some p \<Rightarrow>
          if sp_UUID p = [] then (refusal 422, s)
          else if pe_faults env JobFind then (refusal 500, s)
          else case List.find (\<lambda>j. pj_OrgID j = og_ID org \<and> pj_JobUUID j = sp_UUID p) (po_jobs s) of
            None \<Rightarrow> (ok PushIgnored, s)
          | Some job \<Rightarrow>
              if pj_Status job \<in> {JobSuccess, JobFailed} then (ok PushDuplicate, s)
              else if pe_faults env JobUpdate then (refusal 500, s)
              else (ok (PushedStatus (pushed_status p)),
                    audit env rq None ''FAX_STATUS'' (sp_UUID p) (update_job env (pj_ID job) (apply_push env p) s))))"

section \<open>Lists of jobs\<close>

definition handleListJobs :: "portal_env \<Rightarrow> int \<Rightarrow> int \<Rightarrow> string \<Rightarrow> PortalUser \<Rightarrow> nat \<Rightarrow> PortalJob list portal_handler" where
  "handleListJobs env lim off st user orgID s =
    (if pe_faults env JobsFind then (refusal 500, s)
     else (ok (take (nat (clampLimit lim 200)) (drop (nat off) (stable_sort (\<lambda>a b. pj_SubmittedAt b < pj_SubmittedAt a)
                 (filter (\<lambda>j. pj_UserID j = pu_ID user \<and> (st = [] \<or> pj_Status j = st)) (po_jobs s))))), s))"

definition handleGetJob :: "portal_env \<Rightarrow> nat \<Rightarrow> PortalUser \<Rightarrow> nat \<Rightarrow> PortalJob portal_handler" where
  "handleGetJob env i user orgID s =
    (case (if pe_faults env JobFind then None else List.find (\<lambda>j. pj_ID j = i) (po_jobs s)) of
       None \<Rightarrow> (refusal 404, s)
     | Some job \<Rightarrow> if pj_UserID job \<noteq> pu_ID user then (refusal 404, s) else (ok job, s))"

section \<open>Histories of jobs\<close>

text \<open>The outcomes that are pushed, passes of the poller, new jobs, and whatever leaves the jobs alone. A pass of the
  poller is one step here.\<close>

inductive job_step :: "portal_state \<Rightarrow> portal_state \<Rightarrow> bool" where
  step_push: "handleStatusNotify env rq svc body s = (a, t) \<Longrightarrow> job_step s t"
| step_poll: "job_step s (tick env ans s)"
| step_new: "po_jobs t = po_jobs s @ [j] \<Longrightarrow> pj_ID j \<notin> pj_ID ` set (po_jobs s) \<Longrightarrow> job_step s t"
| step_same: "po_jobs t = po_jobs s \<Longrightarrow> job_step s t"

definition finished :: "PortalJob \<Rightarrow> bool" where
  "finished j \<longleftrightarrow> pj_Status j \<in> {JobSuccess, JobFailed}"

definition keeps_finished :: "portal_state \<Rightarrow> portal_state \<Rightarrow> bool" where
  "keeps_finished s0 s \<longleftrightarrow> distinct (map pj_ID (po_jobs s)) \<and> {j \<in> set (po_jobs s0). finished j} \<subseteq> set (po_jobs s)"

text \<open>What never changes of a job: its identifier, the identifier on the fax server, its organization and its user.\<close>

definition job_key :: "PortalJob \<Rightarrow> nat \<times> string \<times> nat \<times> nat" where
  "job_key j = (pj_ID j, pj_JobUUID j, pj_OrgID j, pj_UserID j)"

section \<open>Lemmas\<close>

lemmas job_states = JobQueued_def JobSending_def JobSuccess_def JobFailed_def

subsection \<open>The verdict\<close>

lemma decide_success:
  "d_status (decide rows inActive activeOK seen submitted now) = JobSuccess \<longleftrightarrow>
     (\<exists>r \<in> set rows. real_attempt r \<and> fs_Success r)"
proof (cases "List.find fs_Success (filter real_attempt rows)")
  case None
  then have "\<not> (\<exists>r \<in> set rows. real_attempt r \<and> fs_Success r)"
    by (auto simp: find_None_iff)
  then show ?thesis
    using None by (auto simp: decide_def Let_def still_open_def job_states split: option.splits)
next
  case (Some r)
  then have "r \<in> set (filter real_attempt rows)" "fs_Success r"
    by (metis find_Some_iff nth_mem)+
  then show ?thesis
    using Some by (auto simp: decide_def Let_def)
qed

lemma last_fold:
  "fold (\<lambda>r l. case l of None \<Rightarrow> Some r | Some q \<Rightarrow> if \<not> fs_StartTs r < fs_StartTs q then Some r else l) rs l = None
    \<longleftrightarrow> rs = [] \<and> l = None"
  by (induction rs arbitrary: l) (auto split: option.splits)

lemma decide_failure:
  "d_status (decide rows inActive activeOK seen submitted now) = JobFailed \<longleftrightarrow>
     filter real_attempt rows \<noteq> [] \<and> \<not> (\<exists>r \<in> set rows. real_attempt r \<and> fs_Success r)
     \<and> (\<not> activeOK \<or> \<not> inActive \<and> seen) \<and> time_sub now submitted > failureGrace"
proof -
  let ?rows = "filter real_attempt rows"
  have last: "last_row ?rows = None \<longleftrightarrow> ?rows = []"
    by (simp add: last_row_def last_fold)
  show ?thesis
  proof (cases "List.find fs_Success ?rows")
    case None
    then have no: "\<not> (\<exists>r \<in> set rows. real_attempt r \<and> fs_Success r)"
      by (auto simp: find_None_iff)
    show ?thesis
    proof (cases "last_row ?rows")
      case None
      then show ?thesis
        using no last \<open>List.find fs_Success ?rows = None\<close> by (simp add: decide_def Let_def still_open_def job_states)
    next
      case (Some l)
      then have "?rows \<noteq> []"
        using last by simp
      then show ?thesis
        using no Some \<open>List.find fs_Success ?rows = None\<close> by (simp add: decide_def Let_def still_open_def job_states)
    qed
  next
    case (Some r)
    then have "r \<in> set ?rows" "fs_Success r"
      by (metis find_Some_iff nth_mem)+
    then show ?thesis
      using Some by (auto simp: decide_def Let_def job_states)
  qed
qed

subsection \<open>Finished jobs\<close>

lemma update_job_ids [simp]:
  assumes "\<And>j. pj_ID (f j) = pj_ID j"
  shows "map pj_ID (po_jobs (update_job env i f s)) = map pj_ID (po_jobs s)"
  using assms by (auto simp: update_job_def)

lemma update_job_other: "j \<in> set (po_jobs s) \<Longrightarrow> pj_ID j \<noteq> i \<Longrightarrow> j \<in> set (po_jobs (update_job env i f s))"
  by (auto simp: update_job_def image_iff intro!: bexI [of _ j])

lemma written_ids [simp]:
  "pj_ID (apply_decision d j) = pj_ID j" "pj_ID (stale_job env job j) = pj_ID j" "pj_ID (apply_push env p j) = pj_ID j"
  by (simp_all add: apply_decision_def stale_job_def apply_push_def Let_def)

lemma poll_job_ids [simp]: "map pj_ID (po_jobs (poll_job env ans job s)) = map pj_ID (po_jobs s)"
  by (simp add: poll_job_def reconcile_def Let_def split: option.splits prod.splits)

lemma poll_job_other: "j \<in> set (po_jobs s) \<Longrightarrow> pj_ID j \<noteq> pj_ID job \<Longrightarrow> j \<in> set (po_jobs (poll_job env ans job s))"
  by (simp add: poll_job_def reconcile_def update_job_other Let_def split: option.splits prod.splits)

lemma poll_jobs:
  "map pj_ID (po_jobs (fold (poll_job env ans) js s)) = map pj_ID (po_jobs s)
   \<and> (j \<in> set (po_jobs s) \<longrightarrow> pj_ID j \<notin> pj_ID ` set js \<longrightarrow> j \<in> set (po_jobs (fold (poll_job env ans) js s)))"
  by (induction js arbitrary: s) (auto intro: poll_job_other)

lemma due_open: "j \<in> set (due_jobs env s) \<Longrightarrow> j \<in> set (po_jobs s) \<and> \<not> finished j"
  by (auto simp: due_jobs_def finished_def job_states dest!: in_set_takeD split: if_splits)

lemma same_id: "distinct (map pj_ID js) \<Longrightarrow> a \<in> set js \<Longrightarrow> b \<in> set js \<Longrightarrow> pj_ID a = pj_ID b \<Longrightarrow> a = b"
  by (auto simp: distinct_map inj_on_def)

lemma tick_keeps:
  assumes "distinct (map pj_ID (po_jobs s))" "j \<in> set (po_jobs s)" "finished j"
  shows "j \<in> set (po_jobs (tick env ans s))"
proof -
  have "pj_ID j \<notin> pj_ID ` set (due_jobs env s)"
    using assms due_open [of _ env s] same_id [OF assms(1)] by (metis (no_types, lifting) imageE)
  then show ?thesis
    using poll_jobs assms(2) unfolding tick_def by blast
qed

lemma push_keeps:
  assumes "handleStatusNotify env rq svc body s = (a, t)"
  shows "map pj_ID (po_jobs t) = map pj_ID (po_jobs s)"
    "distinct (map pj_ID (po_jobs s)) \<Longrightarrow> j \<in> set (po_jobs s) \<Longrightarrow> finished j \<Longrightarrow> j \<in> set (po_jobs t)"
proof -
  consider "t = s" | p job where "job \<in> set (po_jobs s)" "\<not> finished job"
      "po_jobs t = po_jobs (update_job env (pj_ID job) (apply_push env p) s)"
    using assms by (auto simp: handleStatusNotify_def finished_def dest!: found split: if_splits sum.splits option.splits)
  then have "map pj_ID (po_jobs t) = map pj_ID (po_jobs s)
      \<and> (distinct (map pj_ID (po_jobs s)) \<longrightarrow> j \<in> set (po_jobs s) \<longrightarrow> finished j \<longrightarrow> j \<in> set (po_jobs t))"
  proof cases
    case 2
    have "pj_ID j \<noteq> pj_ID job" if "distinct (map pj_ID (po_jobs s))" "j \<in> set (po_jobs s)" "finished j"
      using that 2(1,2) same_id by blast
    then show ?thesis
      unfolding 2(3) by (simp add: update_job_other)
  qed simp
  then show "map pj_ID (po_jobs t) = map pj_ID (po_jobs s)"
    "distinct (map pj_ID (po_jobs s)) \<Longrightarrow> j \<in> set (po_jobs s) \<Longrightarrow> finished j \<Longrightarrow> j \<in> set (po_jobs t)"
    by auto
qed

lemma keeps_step:
  assumes "keeps_finished s0 s" "job_step s t" shows "keeps_finished s0 t"
  using assms(2)
proof cases
  case (step_push env rq svc body a)
  then show ?thesis
    using assms(1) push_keeps [OF step_push(1)] by (auto simp: keeps_finished_def)
next
  case (step_poll env ans)
  then show ?thesis
    using assms(1) tick_keeps [of s _ env ans] poll_jobs [of env ans _ s]
    by (auto simp: keeps_finished_def tick_def)
qed (use assms(1) in \<open>auto simp: keeps_finished_def\<close>)

interpretation jobs: step_invariant job_step s0 "\<lambda>s. distinct (map pj_ID (po_jobs s0)) \<longrightarrow> keeps_finished s0 s" for s0
  by unfold_locales (auto simp: keeps_finished_def [of s0 s0] intro: keeps_step)

lemma update_job_keys:
  "(\<And>j. job_key (f j) = job_key j) \<Longrightarrow> map job_key (po_jobs (update_job env i f s)) = map job_key (po_jobs s)"
  by (auto simp: update_job_def job_key_def)

lemma written_keys [simp]:
  "job_key (apply_decision d j) = job_key j" "job_key (stale_job env job j) = job_key j" "job_key (apply_push env p j) = job_key j"
  by (simp_all add: job_key_def apply_decision_def stale_job_def apply_push_def Let_def)

lemma poll_keys: "map job_key (po_jobs (fold (poll_job env ans) js s)) = map job_key (po_jobs s)"
  by (induction js arbitrary: s)
    (simp_all add: poll_job_def reconcile_def update_job_keys Let_def split: option.splits prod.splits)

lemma push_jobs:
  assumes "handleStatusNotify env rq svc body s = (a, t)"
  obtains "t = s" | i p where "po_jobs t = po_jobs (update_job env i (apply_push env p) s)"
  using assms by (auto simp: handleStatusNotify_def split: if_splits sum.splits option.splits)

lemma keys_step:
  assumes "job_step s t" shows "job_key ` set (po_jobs s) \<subseteq> job_key ` set (po_jobs t)"
  using assms
proof cases
  case (step_push env rq svc body a)
  then have "map job_key (po_jobs t) = map job_key (po_jobs s)"
    by (rule push_jobs) (simp_all add: update_job_keys)
  then show ?thesis
    by (metis list.set_map order_refl)
next
  case (step_poll env ans)
  then show ?thesis
    using poll_keys [of env ans "due_jobs env s" s] by (metis tick_def list.set_map order_refl)
qed auto

interpretation keys: step_invariant job_step s0 "\<lambda>s. job_key ` set (po_jobs s0) \<subseteq> job_key ` set (po_jobs s)" for s0
  by unfold_locales (use keys_step in blast)+

text \<open>An outcome that is pushed for an open job is written on its row, and on no other.\<close>

lemma push_writes:
  assumes "handleStatusNotify env rq svc (Some p) s = (a, t)" "\<not> wrong_key env rq" "service_org env svc s = Inr org"
    and "\<not> pe_faults env JobFind" "\<not> pe_faults env JobUpdate" "sp_UUID p \<noteq> []"
    and "j \<in> set (po_jobs s)" "pj_OrgID j = og_ID org" "pj_JobUUID j = sp_UUID p" "\<not> finished j"
    and "distinct (map pj_ID (po_jobs s))"
    and "\<And>i. i \<in> set (po_jobs s) \<Longrightarrow> pj_OrgID i = og_ID org \<Longrightarrow> pj_JobUUID i = sp_UUID p \<Longrightarrow> pj_ID i = pj_ID j"
  shows "(apply_push env p j)\<lparr>pj_UpdatedAt := pe_now env\<rparr> \<in> set (po_jobs t)"
proof -
  obtain i where i: "List.find (\<lambda>j. pj_OrgID j = og_ID org \<and> pj_JobUUID j = sp_UUID p) (po_jobs s) = Some i"
    using assms(7-9) by (cases "List.find (\<lambda>j. pj_OrgID j = og_ID org \<and> pj_JobUUID j = sp_UUID p) (po_jobs s)")
      (auto simp: find_None_iff)
  then have "i = j"
    using assms(12) same_id [OF assms(11)] assms(7) by (auto dest!: found)
  then have "po_jobs t = po_jobs (update_job env (pj_ID j) (apply_push env p) s)"
    using assms(1-6,10) i by (auto simp: handleStatusNotify_def finished_def split: if_splits)
  then show ?thesis
    using assms(5,7) by (auto simp: update_job_def image_iff intro!: bexI [of _ j])
qed

section \<open>Properties\<close>

text \<open>C36: A job that has succeeded or failed stays exactly as it is, through any sequence of pushed outcomes, passes of
  the poller and new jobs, duplicates and late messages included, as long as a pass of the poller is not interrupted.\<close>

theorem finished_jobs_stay:
  assumes "distinct (map pj_ID (po_jobs s0))" "reach job_step s0 s" "j \<in> set (po_jobs s0)"
    and "pj_Status j = JobSuccess \<or> pj_Status j = JobFailed"
  shows "j \<in> set (po_jobs s)"
proof -
  have "keeps_finished s0 s"
    using jobs.reach_holds [OF assms(2)] assms(1) by simp
  then show ?thesis
    using assms(3,4) by (auto simp: keeps_finished_def finished_def)
qed

text \<open>C37: The poller writes its verdict without looking at the job again: when the success of a job is pushed between
  the moment the poller read the job and its rows and the moment it writes, the job is stored as open or failed.\<close>

theorem stale_poll_overwrites_push:
  assumes "job \<in> set (due_jobs env s)" "handleStatusNotify env' rq svc (Some p) s = (ok (PushedStatus JobSuccess), t)"
    and "svcCreds env (pj_OrgID job) t = Some (username, pass)"
    and "po_rows ans username pass (pj_JobUUID job) = Some rows" "\<not> list_ex (\<lambda>r. real_attempt r \<and> fs_Success r) rows"
    and "time_sub (pe_now env) (pj_SubmittedAt job) \<le> staleJobTimeout" "\<not> pe_faults env JobUpdate"
  shows "\<exists>j \<in> set (po_jobs (poll_job env ans job t)). pj_ID j = pj_ID job \<and> pj_Status j \<noteq> JobSuccess"
proof -
  have "pj_ID job \<in> set (map pj_ID (po_jobs t))"
    unfolding push_keeps(1) [OF assms(2)] using due_open [OF assms(1)] by auto
  then obtain j where j: "j \<in> set (po_jobs t)" "pj_ID j = pj_ID job"
    by auto
  define d where "d = decide rows (case po_active ans of None \<Rightarrow> False | Some us \<Rightarrow> pj_JobUUID job \<in> set us)
      (po_active ans \<noteq> None) (pj_SeenActive job) (pj_SubmittedAt job) (pe_now env)"
  have "d_status d \<noteq> JobSuccess"
    using assms(5) unfolding d_def by (auto simp: decide_success list_ex_iff)
  moreover have "(apply_decision d j)\<lparr>pj_UpdatedAt := pe_now env\<rparr> \<in> set (po_jobs (poll_job env ans job t))"
    using j assms(3,4,6,7) unfolding d_def
    by (auto simp: poll_job_def reconcile_def update_job_def Let_def image_iff intro!: bexI [of _ j])
  moreover have "pj_Status ((apply_decision d j)\<lparr>pj_UpdatedAt := pe_now env\<rparr>) = d_status d"
    by (simp add: apply_decision_def Let_def)
  ultimately show ?thesis
    using j(2) by (metis (no_types, lifting) PortalJob.select_convs(1) PortalJob.surjective PortalJob.update_convs(17)
        written_ids(1))
qed

lemma due_distinct:
  assumes "distinct (map pj_ID (po_jobs s))" shows "distinct (map pj_ID (due_jobs env s))"
proof -
  have "distinct (map pj_ID (stable_sort (\<lambda>a b. pj_SubmittedAt a < pj_SubmittedAt b) (filter P (po_jobs s))))" for P
    using assms by (simp add: stable_sort_key distinct_map inj_on_def)
  then show ?thesis
    unfolding due_jobs_def by (simp add: take_map [symmetric])
qed

lemma poll_orgs [simp]: "po_orgs (poll_job env ans job s) = po_orgs s"
  by (simp add: poll_job_def reconcile_def update_job_def Let_def split: option.splits prod.splits)

lemma polls_orgs [simp]: "po_orgs (fold (poll_job env ans) js s) = po_orgs s"
  by (induction js arbitrary: s) auto

text \<open>A pass writes the verdict on every job it has read.\<close>

lemma tick_writes:
  assumes "distinct (map pj_ID (po_jobs s))" "job \<in> set (due_jobs env s)"
    and "svcCreds env (pj_OrgID job) s = Some (username, pass)" "po_rows ans username pass (pj_JobUUID job) = Some rows"
    and "time_sub (pe_now env) (pj_SubmittedAt job) \<le> staleJobTimeout" "\<not> pe_faults env JobUpdate"
    and "d = decide rows (case po_active ans of None \<Rightarrow> False | Some us \<Rightarrow> pj_JobUUID job \<in> set us)
      (po_active ans \<noteq> None) (pj_SeenActive job) (pj_SubmittedAt job) (pe_now env)"
  shows "(apply_decision d job)\<lparr>pj_UpdatedAt := pe_now env\<rparr> \<in> set (po_jobs (tick env ans s))"
proof -
  obtain as bs where js: "due_jobs env s = as @ job # bs"
    using split_list [OF assms(2)] by blast
  then have other: "pj_ID job \<notin> pj_ID ` set as" "pj_ID job \<notin> pj_ID ` set bs"
    using due_distinct [OF assms(1), of env] by auto
  let ?s = "fold (poll_job env ans) as s" and ?j = "(apply_decision d job)\<lparr>pj_UpdatedAt := pe_now env\<rparr>"
  have "job \<in> set (po_jobs ?s)"
    using poll_jobs other(1) due_open [OF assms(2)] by blast
  moreover have "svcCreds env (pj_OrgID job) ?s = Some (username, pass)"
    using assms(3) by (auto simp: svcCreds_def find_org_def split: if_splits)
  ultimately have "?j \<in> set (po_jobs (poll_job env ans job ?s))"
    using assms(4-6) unfolding assms(7)
    by (auto simp: poll_job_def reconcile_def update_job_def Let_def image_iff intro!: bexI [of _ job])
  moreover have "pj_ID ?j = pj_ID job"
    by (simp add: apply_decision_def Let_def)
  ultimately show ?thesis
    using poll_jobs other(2) unfolding tick_def js by simp
qed

text \<open>C38: When the list of jobs in flight cannot be fetched, a job with a failed attempt is declared failed although the
  fax server is still retrying it; nothing that is pushed or polled later, not even its success, changes that.\<close>

theorem unreachable_list_fails_job:
  assumes "distinct (map pj_ID (po_jobs s))" "job \<in> set (due_jobs env s)"
    and "svcCreds env (pj_OrgID job) s = Some (username, pass)" "po_rows ans username pass (pj_JobUUID job) = Some rows"
    and "time_sub (pe_now env) (pj_SubmittedAt job) \<le> staleJobTimeout" "\<not> pe_faults env JobUpdate"
    and "po_active ans = None" "list_ex real_attempt rows" "\<not> list_ex (\<lambda>r. real_attempt r \<and> fs_Success r) rows"
    and "time_sub (pe_now env) (pj_SubmittedAt job) > failureGrace" "reach job_step (tick env ans s) u"
  shows "\<exists>j \<in> set (po_jobs u). pj_ID j = pj_ID job \<and> pj_JobUUID j = pj_JobUUID job \<and> pj_Status j = JobFailed"
proof -
  define d where "d = decide rows False False (pj_SeenActive job) (pj_SubmittedAt job) (pe_now env)"
  let ?j = "(apply_decision d job)\<lparr>pj_UpdatedAt := pe_now env\<rparr>"
  have "d_status d = JobFailed"
    unfolding d_def decide_failure using assms(8-10) by (auto simp: list_ex_iff filter_empty_conv)
  then have j: "pj_Status ?j = JobFailed" "pj_ID ?j = pj_ID job" "pj_JobUUID ?j = pj_JobUUID job"
    by (simp_all add: apply_decision_def Let_def)
  have "?j \<in> set (po_jobs (tick env ans s))"
    by (rule tick_writes [OF assms(1-6)]) (simp add: d_def assms(7))
  moreover have "distinct (map pj_ID (po_jobs (tick env ans s)))"
    using poll_jobs [of env ans _ s] assms(1) by (simp add: tick_def)
  ultimately have "?j \<in> set (po_jobs u)"
    using jobs.reach_holds [OF assms(11)] j(1) by (auto simp: keeps_finished_def finished_def)
  then show ?thesis
    using j by blast
qed

section \<open>Sample values\<close>

definition sample_pjob :: PortalJob where
  "sample_pjob = \<lparr>pj_ID = 6, pj_JobUUID = ''u'', pj_OrgID = 1, pj_UserID = 2, pj_CallerNumber = ''5551234'',
     pj_CalleeNumber = ''5559876'', pj_OriginalFilename = ''a.pdf'', pj_Status = JobSending, pj_Pages = 0, pj_TotalPages = 0,
     pj_Attempts = 0, pj_ResultText = [], pj_LastError = [], pj_SeenActive = True, pj_SubmittedAt = 99 * Hour,
     pj_CompletedAt = None, pj_UpdatedAt = 99 * Hour\<rparr>"

definition sample_fail :: FaxStatusRow where
  "sample_fail = \<lparr>fs_ResultType = ''transmission'', fs_AttemptNumber = 1, fs_StartTs = 99 * Hour, fs_EndTs = 99 * Hour,
     fs_HangupCause = ''USER_BUSY'', fs_TransferredPages = 0, fs_TotalPages = 2, fs_Success = False, fs_ResultText = []\<rparr>"

definition sample_jobs :: portal_state where
  "sample_jobs = sample_portal\<lparr>po_jobs := [sample_pjob]\<rparr>"

definition sample_answers :: poll_answers where
  "sample_answers = \<lparr>po_active = None, po_rows = (\<lambda>u p j. Some [sample_fail])\<rparr>"

definition sample_push :: status_payload where
  "sample_push = \<lparr>sp_UUID = ''u'', sp_Success = True, sp_AllAttemptsFailed = False, sp_Attempts = 2, sp_TransferredPages = 2,
     sp_TotalPages = 2, sp_ResultText = ''OK'', sp_HangupCause = [], sp_EndTs = 100 * Hour\<rparr>"

lemma sample_due: "due_jobs sample_penv sample_jobs = [sample_pjob]" "distinct (map pj_ID (po_jobs sample_jobs))"
  "svcCreds sample_penv (pj_OrgID sample_pjob) sample_jobs = Some (''svc'', ''pw'')"
  by code_simp+

abbreviation "sample_pushed \<equiv> snd (handleStatusNotify sample_penv sample_request ''svc'' (Some sample_push) sample_jobs)"

lemma sample_pushes:
  "handleStatusNotify sample_penv sample_request ''svc'' (Some sample_push) sample_jobs = (ok (PushedStatus JobSuccess), sample_pushed)"
proof -
  have "fst (handleStatusNotify sample_penv sample_request ''svc'' (Some sample_push) sample_jobs) = ok (PushedStatus JobSuccess)"
    by code_simp
  then show ?thesis
    by (metis prod.collapse)
qed

lemma finished_jobs_stay_witness:
  "\<exists>j. reach job_step sample_pushed (tick sample_penv sample_answers sample_pushed)
     \<and> j \<in> set (po_jobs (tick sample_penv sample_answers sample_pushed)) \<and> pj_Status j = JobSuccess"
proof -
  have d: "distinct (map pj_ID (po_jobs sample_pushed))" and "list_ex (\<lambda>j. pj_Status j = JobSuccess) (po_jobs sample_pushed)"
    by code_simp+
  then obtain j where "j \<in> set (po_jobs sample_pushed)" "pj_Status j = JobSuccess"
    by (auto simp: list_ex_iff)
  moreover have "reach job_step sample_pushed (tick sample_penv sample_answers sample_pushed)"
    by (rule reach.reach_step, rule reach.reach_start, rule step_poll)
  ultimately show ?thesis
    using finished_jobs_stay [OF d] by blast
qed

lemma stale_poll_overwrites_push_witness:
  "\<exists>j \<in> set (po_jobs (poll_job sample_penv sample_answers sample_pjob sample_pushed)). pj_ID j = 6 \<and> pj_Status j \<noteq> JobSuccess"
proof -
  have "svcCreds sample_penv (pj_OrgID sample_pjob) sample_pushed = Some (''svc'', ''pw'')"
    "\<not> list_ex (\<lambda>r. real_attempt r \<and> fs_Success r) [sample_fail]" "\<not> pe_faults sample_penv JobUpdate"
    "time_sub (pe_now sample_penv) (pj_SubmittedAt sample_pjob) \<le> staleJobTimeout" "pj_ID sample_pjob = 6"
    by code_simp+
  moreover have "po_rows sample_answers ''svc'' ''pw'' (pj_JobUUID sample_pjob) = Some [sample_fail]"
    by (simp add: sample_answers_def)
  ultimately show ?thesis
    using stale_poll_overwrites_push [of sample_pjob sample_penv sample_jobs, OF _ sample_pushes] by (simp add: sample_due)
qed

lemma unreachable_list_fails_job_witness:
  "\<exists>j \<in> set (po_jobs (tick sample_penv sample_answers sample_jobs)). pj_ID j = 6 \<and> pj_Status j = JobFailed"
proof -
  have "\<not> list_ex (\<lambda>r. real_attempt r \<and> fs_Success r) [sample_fail]" "list_ex real_attempt [sample_fail]"
    "\<not> pe_faults sample_penv JobUpdate" "pj_ID sample_pjob = 6"
    "time_sub (pe_now sample_penv) (pj_SubmittedAt sample_pjob) \<le> staleJobTimeout"
    "time_sub (pe_now sample_penv) (pj_SubmittedAt sample_pjob) > failureGrace"
    by code_simp+
  moreover have "po_rows sample_answers ''svc'' ''pw'' (pj_JobUUID sample_pjob) = Some [sample_fail]" "po_active sample_answers = None"
    by (simp_all add: sample_answers_def)
  ultimately show ?thesis
    using unreachable_list_fails_job [where env = sample_penv, OF sample_due(2) _ sample_due(3),
        where ans = sample_answers and rows = "[sample_fail]" and u = "tick sample_penv sample_answers sample_jobs"]
      reach.reach_start [of job_step "tick sample_penv sample_answers sample_jobs"] sample_due(1) by auto
qed

end
