(* ===== verification/Portal_Send.thy ===== *)
theory Portal_Send
  imports Portal_Jobs Portal_Inbox Web_Upload
begin

text \<open>
  Sending from the portal: the upload of a document and its conversion to a fax-ready one that the user reviews
  (\<open>api/handlers_convert.go\<close>, \<open>convert/convert.go\<close>), and the fax that is sent with an uploaded or a prepared document
  (\<open>handleSendFax\<close> of \<open>api/handlers_user.go\<close>, \<open>SendFax\<close> of \<open>fsclient/client.go\<close>).

  The programs that read, draw, merge and render documents are arguments, and so are new document identifiers and
  the type \<open>http.DetectContentType\<close> finds for data without the PDF signature.
\<close>

section \<open>Conversion\<close>

record CoverFields =
  co_To :: string
  co_From :: string
  co_Subject :: string
  co_Comments :: string

datatype convert_error = UnsupportedType | TooManyPages | EmptyRender | ConvertFailed

record convert_env =
  pc_Enabled :: bool
  pc_MaxPages :: int
  pc_DefaultFitMode :: string
  pc_PrepareTTL :: duration
  pc_normalizePDF :: "string \<Rightarrow> string"
  pc_tiffToPDF :: "string \<Rightarrow> string option"
  pc_imageToPDF :: "string \<Rightarrow> string \<Rightarrow> string option"
  pc_officeToPDF :: "string \<Rightarrow> string \<Rightarrow> string option"
  pc_PageCount :: "string \<Rightarrow> int option"
  pc_renderCover :: "CoverFields \<Rightarrow> int \<Rightarrow> string option"
  pc_merge :: "string \<Rightarrow> string \<Rightarrow> string option"
  pc_renderPreviews :: "string \<Rightarrow> int \<Rightarrow> convert_error + string list"
  pc_other_type :: "string \<Rightarrow> string"
  pc_uuid :: string
  pc_nonces :: "nat \<Rightarrow> string option"

definition FitConstrain :: string where "FitConstrain = ''constrain''"
definition FitFill :: string where "FitFill = ''fill''"
definition FitStretch :: string where "FitStretch = ''stretch''"

definition ParseFitMode :: "string \<Rightarrow> string \<Rightarrow> string option" where
  "ParseFitMode s def =
    (if s = [] then Some def
     else let m = to_lower (trim_space s) in if m \<in> {FitConstrain, FitFill, FitStretch} then Some m else None)"

definition cover_Empty :: "CoverFields \<Rightarrow> bool" where
  "cover_Empty c \<longleftrightarrow> co_To c = [] \<and> co_From c = [] \<and> co_Subject c = [] \<and> co_Comments c = []"

definition maxCoverFieldLen :: nat where "maxCoverFieldLen = 500"

definition cover_Sanitize :: "CoverFields \<Rightarrow> CoverFields" where
  "cover_Sanitize c =
    (let clip = (\<lambda>s. take maxCoverFieldLen (trim_space s)) in
     \<lparr>co_To = clip (co_To c), co_From = clip (co_From c), co_Subject = clip (co_Subject c), co_Comments = clip (co_Comments c)\<rparr>)"

definition convert_exts :: "string list" where
  "convert_exts = [''.pdf'', ''.tif'', ''.tiff'', ''.png'', ''.jpg'', ''.jpeg'', ''.docx'', ''.doc'']"

record converted =
  cv_PDF :: string
  cv_Previews :: "string list"
  cv_Pages :: int
  cv_Cover :: bool
  cv_FitMode :: string

text \<open>The defaults of \<open>ApplyDefaults\<close>.\<close>

definition max_pages :: "convert_env \<Rightarrow> int" where
  "max_pages pc = (if pc_MaxPages pc \<le> 0 then 50 else pc_MaxPages pc)"

definition prepare_ttl :: "convert_env \<Rightarrow> duration" where
  "prepare_ttl pc = (if pc_PrepareTTL pc \<le> 0 then Hour else pc_PrepareTTL pc)"

definition default_fit :: "convert_env \<Rightarrow> string" where
  "default_fit pc = (if pc_DefaultFitMode pc = [] then FitConstrain else pc_DefaultFitMode pc)"

definition body_pdf :: "convert_env \<Rightarrow> string \<Rightarrow> string \<Rightarrow> string \<Rightarrow> string \<Rightarrow> string option" where
  "body_pdf pc ext filename data fit =
    (if ext = ''.pdf'' then Some (pc_normalizePDF pc data)
     else if ext \<in> {''.tif'', ''.tiff''} then pc_tiffToPDF pc data
     else if ext \<in> {''.png'', ''.jpg'', ''.jpeg''} then pc_imageToPDF pc data fit
     else pc_officeToPDF pc filename data)"

definition with_cover :: "convert_env \<Rightarrow> CoverFields option \<Rightarrow> string \<Rightarrow> (bool \<times> string) option" where
  "with_cover pc cover pdf =
    (case cover of None \<Rightarrow> Some (False, pdf)
     | Some c \<Rightarrow>
         if cover_Empty c then Some (False, pdf)
         else case pc_PageCount pc pdf of None \<Rightarrow> None
         | Some n \<Rightarrow>
             (case pc_renderCover pc (cover_Sanitize c) n of None \<Rightarrow> None
              | Some front \<Rightarrow> map_option (Pair True) (pc_merge pc front pdf)))"

definition Convert :: "convert_env \<Rightarrow> string \<Rightarrow> string \<Rightarrow> string \<Rightarrow> CoverFields option \<Rightarrow> convert_error + converted" where
  "Convert pc filename data fit0 cover =
    (let ext = to_lower (file_ext filename); fit = (if fit0 = [] then default_fit pc else fit0) in
     if ext \<notin> set convert_exts then Inl UnsupportedType
     else case body_pdf pc ext filename data fit of None \<Rightarrow> Inl ConvertFailed
     | Some body \<Rightarrow>
         (case with_cover pc cover body of None \<Rightarrow> Inl ConvertFailed
          | Some (covered, pdf) \<Rightarrow>
              (case pc_PageCount pc pdf of None \<Rightarrow> Inl ConvertFailed
               | Some pages \<Rightarrow>
                   if pages > max_pages pc then Inl TooManyPages
                   else case pc_renderPreviews pc pdf pages of
                     Inl EmptyRender \<Rightarrow> Inl EmptyRender
                   | Inl _ \<Rightarrow> Inr \<lparr>cv_PDF = pdf, cv_Previews = [], cv_Pages = pages, cv_Cover = covered, cv_FitMode = fit\<rparr>
                   | Inr ps \<Rightarrow> Inr \<lparr>cv_PDF = pdf, cv_Previews = ps, cv_Pages = pages, cv_Cover = covered, cv_FitMode = fit\<rparr>)))"

section \<open>Uploads\<close>

text \<open>The size the form declares, and the content, \<open>None\<close> when reading it fails.\<close>

record form_file =
  ff_Filename :: string
  ff_Size :: int
  ff_Content :: "string option"

definition prepareMIMEs :: "string \<Rightarrow> string list" where
  "prepareMIMEs ext =
    (if ext = ''.pdf'' then [''application/pdf'']
     else if ext \<in> {''.tif'', ''.tiff''} then [''image/tiff'', ''image/x-tiff'']
     else if ext = ''.png'' then [''image/png'']
     else if ext \<in> {''.jpg'', ''.jpeg''} then [''image/jpeg'']
     else if ext = ''.docx'' then [''application/zip'']
     else if ext = ''.doc'' then [''application/x-ole-storage'', ''application/msword'']
     else [])"

definition mimeAllowed :: "string \<Rightarrow> string \<Rightarrow> bool" where
  "mimeAllowed ext sniffed \<longleftrightarrow> list_ex (\<lambda>m. m = sniffed) (prepareMIMEs ext)"

definition sniff :: "convert_env \<Rightarrow> string \<Rightarrow> string" where
  "sniff pc data = (if has_prefix data ''%PDF-'' then ''application/pdf'' else pc_other_type pc data)"

text \<open>Reading stops one byte after the cap, and what is cut is refused.\<close>

definition readUpload :: "portal_env \<Rightarrow> form_file option \<Rightarrow> nat + (string \<times> string)" where
  "readUpload env file =
    (let maxBytes = wrap64 (pe_UploadMaxMB env * 2 ^ 20) in
     case file of None \<Rightarrow> Inl 400
     | Some fh \<Rightarrow>
         if ff_Size fh > maxBytes then Inl 413
         else case ff_Content fh of None \<Rightarrow> Inl 500
         | Some data \<Rightarrow>
             if int (length data) > maxBytes then Inl 413
             else if data = [] then Inl 400
             else Inr (ff_Filename fh, data))"

section \<open>Preparing a document\<close>

record prepare_form =
  pr_file :: "form_file option"
  pr_fit_mode :: string
  pr_cover_enabled :: string
  pr_cover :: CoverFields

datatype prepare_answer = Prepared string string int bool string nat time

definition limit_send :: "portal_env \<Rightarrow> nat \<Rightarrow> portal_state \<Rightarrow> bool \<times> portal_state" where
  "limit_send env userID s =
    (case Allow (pe_now env) (''send:'' @ itoa userID) (pe_SendRatePerHour env) (po_sendLimit s) of
       (a, r) \<Rightarrow> (a, s\<lparr>po_sendLimit := r\<rparr>))"

definition limit_prepare :: "portal_env \<Rightarrow> nat \<Rightarrow> portal_state \<Rightarrow> bool \<times> portal_state" where
  "limit_prepare env userID s =
    (case Allow (pe_now env) (''prepare:'' @ itoa userID) (pe_PrepareRatePerHour env) (po_prepareLimit s) of
       (a, r) \<Rightarrow> (a, s\<lparr>po_prepareLimit := r\<rparr>))"

definition wanted_cover :: "prepare_form \<Rightarrow> CoverFields option" where
  "wanted_cover form =
    (if pr_cover_enabled form \<in> {''true'', ''1'', ''on''} \<and> \<not> cover_Empty (pr_cover form) then Some (pr_cover form) else None)"

text \<open>The checks of the form and the conversion. The second component is the file an error of the converter is
  recorded for.\<close>

definition prepared_input :: "portal_env \<Rightarrow> convert_env \<Rightarrow> prepare_form \<Rightarrow> (nat \<times> string option) + (string \<times> converted)" where
  "prepared_input env pc form =
    (case readUpload env (pr_file form) of Inl c \<Rightarrow> Inl (c, None)
     | Inr (filename, data) \<Rightarrow>
         let ext = to_lower (file_ext filename) in
         if ext \<notin> set convert_exts then Inl (400, None)
         else if \<not> mimeAllowed ext (sniff pc data) then Inl (400, None)
         else case ParseFitMode (pr_fit_mode form) (pc_DefaultFitMode pc) of None \<Rightarrow> Inl (400, None)
         | Some fit \<Rightarrow>
             (case Convert pc filename data fit (wanted_cover form) of
                Inl e \<Rightarrow> Inl (if e \<in> {UnsupportedType, EmptyRender} then 400 else if e = TooManyPages then 413 else 500,
                              Some (path_base filename))
              | Inr res \<Rightarrow> Inr (path_base filename, res)))"

fun seal_all :: "portal_env \<Rightarrow> (nat \<Rightarrow> string option) \<Rightarrow> nat \<Rightarrow> string list \<Rightarrow> string list option" where
  "seal_all env nonces i [] = Some []"
| "seal_all env nonces i (x # xs) =
     (case SealBox (pe_suite env) (pe_PrepBox env) (nonces i) x of None \<Rightarrow> None
      | Some c \<Rightarrow> map_option (Cons c) (seal_all env nonces (Suc i) xs))"

definition prepared_row ::
    "portal_env \<Rightarrow> convert_env \<Rightarrow> nat \<Rightarrow> nat \<Rightarrow> string \<Rightarrow> converted \<Rightarrow> string \<Rightarrow> PreparedFax" where
  "prepared_row env pc userID orgID filename res docEnc =
    \<lparr>pf_ID = pc_uuid pc, pf_UserID = userID, pf_OrgID = orgID, pf_Filename = filename, pf_Pages = cv_Pages res,
     pf_PreviewPages = int (length (cv_Previews res)), pf_FitMode = cv_FitMode res, pf_Cover = cv_Cover res,
     pf_DocEnc = docEnc, pf_DocSHA256 = hex_encode (sl_sha256 (pe_suite env) (cv_PDF res)),
     pf_DocBytes = int (length (cv_PDF res)), pf_ExpiresAt = pe_now env + prepare_ttl pc\<rparr>"

fun preview_rows :: "string \<Rightarrow> int \<Rightarrow> string list \<Rightarrow> PreparedPreview list" where
  "preview_rows i page [] = []"
| "preview_rows i page (c # cs) = \<lparr>pp_PreparedFaxID = i, pp_Page = page, pp_DataEnc = c\<rparr> # preview_rows i (page + 1) cs"

text \<open>The document and its previews are stored together or not at all.\<close>

definition store_prepared ::
    "portal_env \<Rightarrow> portal_request \<Rightarrow> PortalUser \<Rightarrow> PreparedFax \<Rightarrow> string list \<Rightarrow> prepare_answer portal_handler" where
  "store_prepared env rq user prep sealed s =
    (if pe_faults env PreparedInsert \<or> pf_ID prep \<in> pf_ID ` set (po_prepared s)
        \<or> (\<exists>p \<in> set (preview_rows (pf_ID prep) 1 sealed). \<exists>q \<in> set (po_previews s).
             pp_PreparedFaxID p = pp_PreparedFaxID q \<and> pp_Page p = pp_Page q) then (refusal 500, s)
     else (Answer 201 (Some (Prepared (pf_ID prep) (pf_Filename prep) (pf_Pages prep) (pf_Cover prep) (pf_FitMode prep)
             (length sealed) (pf_ExpiresAt prep))),
           audit env rq (Some user) ''FAX_PREPARE'' (pf_ID prep)
             (s\<lparr>po_prepared := po_prepared s @ [prep], po_previews := po_previews s @ preview_rows (pf_ID prep) 1 sealed\<rparr>)))"

definition handlePrepareFax ::
    "portal_env \<Rightarrow> convert_env \<Rightarrow> portal_request \<Rightarrow> prepare_form \<Rightarrow> PortalUser \<Rightarrow> nat \<Rightarrow> prepare_answer portal_handler" where
  "handlePrepareFax env pc rq form user orgID s =
    (if \<not> pc_Enabled pc then (refusal 404, s)
     else case limit_prepare env (pu_ID user) s of
       (False, s1) \<Rightarrow> (refusal 429, audit env rq (Some user) ''FAX_PREPARE_RATELIMIT'' [] s1)
     | (True, s1) \<Rightarrow>
         (case prepared_input env pc form of
            Inl (c, None) \<Rightarrow> (refusal c, s1)
          | Inl (c, Some file) \<Rightarrow> (refusal c, audit env rq (Some user) ''FAX_PREPARE_ERROR'' file s1)
          | Inr (filename, res) \<Rightarrow>
              (case SealBox (pe_suite env) (pe_PrepBox env) (pc_nonces pc 0) (cv_PDF res) of None \<Rightarrow> (refusal 500, s1)
               | Some docEnc \<Rightarrow>
                   (case seal_all env (pc_nonces pc) 1 (cv_Previews res) of None \<Rightarrow> (refusal 500, s1)
                    | Some sealed \<Rightarrow>
                        store_prepared env rq user (prepared_row env pc (pu_ID user) orgID filename res docEnc) sealed s1))))"

text \<open>\<open>deletePrepared\<close>, one transaction.\<close>

definition deletePrepared :: "portal_env \<Rightarrow> string \<Rightarrow> portal_state \<Rightarrow> portal_state" where
  "deletePrepared env i s =
    (if pe_faults env PreparedDelete then s
     else s\<lparr>po_prepared := filter (\<lambda>p. pf_ID p \<noteq> i) (po_prepared s),
            po_previews := filter (\<lambda>p. pp_PreparedFaxID p \<noteq> i) (po_previews s)\<rparr>)"

definition loadOwnedPrepared :: "portal_env \<Rightarrow> string \<Rightarrow> nat \<Rightarrow> portal_state \<Rightarrow> PreparedFax option \<times> portal_state" where
  "loadOwnedPrepared env i userID s =
    (case (if pe_faults env PreparedFind then None
           else List.find (\<lambda>p. pf_ID p = i \<and> pf_UserID p = userID) (po_prepared s)) of
       None \<Rightarrow> (None, s)
     | Some prep \<Rightarrow> if pe_now env > pf_ExpiresAt prep then (None, deletePrepared env (pf_ID prep) s) else (Some prep, s))"

definition handleGetPreparedPreview ::
    "portal_env \<Rightarrow> string \<Rightarrow> int option \<Rightarrow> PortalUser \<Rightarrow> nat \<Rightarrow> string portal_handler" where
  "handleGetPreparedPreview env i page user orgID s =
    (case loadOwnedPrepared env i (pu_ID user) s of
       (None, s1) \<Rightarrow> (refusal 410, s1)
     | (Some prep, s1) \<Rightarrow>
         (case page of None \<Rightarrow> (refusal 400, s1)
          | Some n \<Rightarrow>
              if n < 1 \<or> n > pf_PreviewPages prep then (refusal 400, s1)
              else case (if pe_faults env PreviewFind then None
                         else List.find (\<lambda>p. pp_PreparedFaxID p = pf_ID prep \<and> pp_Page p = n) (po_previews s1)) of
                None \<Rightarrow> (refusal 404, s1)
              | Some row \<Rightarrow>
                  (case OpenBox (pe_suite env) (pe_PrepBox env) (pp_DataEnc row) of None \<Rightarrow> (refusal 500, s1)
                   | Some png \<Rightarrow> (ok png, s1))))"

definition handleDeletePrepared :: "portal_env \<Rightarrow> portal_request \<Rightarrow> string \<Rightarrow> PortalUser \<Rightarrow> nat \<Rightarrow> unit portal_handler" where
  "handleDeletePrepared env rq i user orgID s =
    (case loadOwnedPrepared env i (pu_ID user) s of
       (None, s1) \<Rightarrow> (refusal 410, s1)
     | (Some prep, s1) \<Rightarrow>
         (Answer 204 None, audit env rq (Some user) ''FAX_PREPARE_DISCARD'' (pf_ID prep) (deletePrepared env (pf_ID prep) s1)))"

section \<open>Sending\<close>

record send_form =
  sf_prepared_id :: string
  sf_file :: "form_file option"
  sf_caller_number :: string
  sf_callee_number :: string

text \<open>A call of the fax server, and how it ends: with the identifier of the job, or an error with the status of the
  answer when there was one.\<close>

record send_call =
  cl_Username :: string
  cl_Password :: string
  cl_Filename :: string
  cl_Data :: string
  cl_Caller :: string
  cl_Callee :: string

datatype sent = SendFailed "nat option" | SentAs string

text \<open>\<open>SendFax\<close>: the answer of \<open>/fax/send\<close>, \<open>None\<close> when the fax server is not reached or its answer is not read.\<close>

definition client_SendFax :: "string answer option \<Rightarrow> sent" where
  "client_SendFax resp =
    (case resp of None \<Rightarrow> SendFailed None
     | Some (Answer c body) \<Rightarrow>
         if c < 200 \<or> c > 299 then SendFailed (Some c)
         else case body of None \<Rightarrow> SendFailed None
         | Some uuid \<Rightarrow> if uuid = [] then SendFailed None else SentAs uuid)"

definition sanitizeNumber :: "string \<Rightarrow> string" where
  "sanitizeNumber raw = filter (\<lambda>c. c \<in> set ''0123456789'' \<or> c = CHR ''+'') (trim_space raw)"

definition send_exts :: "string list" where
  "send_exts = [''.pdf'', ''.tif'', ''.tiff'']"

definition send_MIMEs :: "string list" where
  "send_MIMEs = [''application/pdf'', ''image/tiff'', ''image/x-tiff'']"

text \<open>The active numbers of the organization that are assigned to the user, in order.\<close>

definition myNumbers :: "portal_env \<Rightarrow> nat \<Rightarrow> nat \<Rightarrow> portal_state \<Rightarrow> PortalNumber list option" where
  "myNumbers env userID orgID s =
    (if pe_faults env NumbersFind then None
     else Some (stable_sort (\<lambda>a b. pe_collate env (nu_Number a) (nu_Number b))
       (filter (\<lambda>n. (userID, nu_ID n) \<in> set (po_user_numbers s) \<and> nu_OrgID n = orgID \<and> nu_Active n) (po_numbers s))))"

definition handleMyNumbers :: "portal_env \<Rightarrow> PortalUser \<Rightarrow> nat \<Rightarrow> PortalNumber list portal_handler" where
  "handleMyNumbers env user orgID s =
    (case myNumbers env (pu_ID user) orgID s of None \<Rightarrow> (refusal 500, s) | Some ns \<Rightarrow> (ok ns, s))"

text \<open>The document to send: a prepared one of the user, or an upload.\<close>

definition prepared_document ::
    "portal_env \<Rightarrow> portal_request \<Rightarrow> string \<Rightarrow> PortalUser \<Rightarrow> portal_state \<Rightarrow> (nat + (string \<times> string \<times> PreparedFax option)) \<times> portal_state" where
  "prepared_document env rq pid user s =
    (case loadOwnedPrepared env pid (pu_ID user) s of
       (None, s1) \<Rightarrow> (Inl 410, s1)
     | (Some prep, s1) \<Rightarrow>
         (case OpenBox (pe_suite env) (pe_PrepBox env) (pf_DocEnc prep) of None \<Rightarrow> (Inl 500, s1)
          | Some data \<Rightarrow>
              if hex_encode (sl_sha256 (pe_suite env) data) \<noteq> pf_DocSHA256 prep
              then (Inl 500, audit env rq (Some user) ''FAX_SEND_INTEGRITY'' (pf_ID prep) s1)
              else (let name = pf_Filename prep; ext = file_ext name; base = path_base name in
                (Inr ((if has_suffix base ext then take (length base - length ext) base else base) @ ''.pdf'', data, Some prep), s1))))"

definition raw_document :: "portal_env \<Rightarrow> convert_env \<Rightarrow> form_file option \<Rightarrow> nat + (string \<times> string \<times> PreparedFax option)" where
  "raw_document env pc file =
    (case readUpload env file of Inl c \<Rightarrow> Inl c
     | Inr (f, d) \<Rightarrow>
         if to_lower (file_ext f) \<notin> set send_exts then Inl 400
         else if sniff pc d \<notin> set send_MIMEs then Inl 400
         else Inr (f, d, None))"

definition send_document ::
    "portal_env \<Rightarrow> convert_env \<Rightarrow> portal_request \<Rightarrow> send_form \<Rightarrow> PortalUser \<Rightarrow> portal_state
      \<Rightarrow> (nat + (string \<times> string \<times> PreparedFax option)) \<times> portal_state" where
  "send_document env pc rq form user s =
    (if trim_space (sf_prepared_id form) \<noteq> [] then prepared_document env rq (trim_space (sf_prepared_id form)) user s
     else (raw_document env pc (sf_file form), s))"

text \<open>The numbers, the permission of the user, and the account of the organization.\<close>

definition send_account ::
    "portal_env \<Rightarrow> portal_request \<Rightarrow> send_form \<Rightarrow> PortalUser \<Rightarrow> nat \<Rightarrow> portal_state
      \<Rightarrow> (nat + (string \<times> string \<times> string \<times> string)) \<times> portal_state" where
  "send_account env rq form user orgID s =
    (let caller = sanitizeNumber (sf_caller_number form); callee = sanitizeNumber (sf_callee_number form) in
     if caller = [] \<or> length (sanitizeNumber callee) < 7 then (Inl 400, s)
     else case myNumbers env (pu_ID user) orgID s of None \<Rightarrow> (Inl 403, s)
     | Some nums \<Rightarrow>
         if nums = [] then (Inl 403, s)
         else if \<not> list_ex (\<lambda>n. nu_Number n = caller) nums
         then (Inl 403, audit env rq (Some user) ''FAX_SEND_DENIED'' caller s)
         else case find_org env SendOrg orgID s of None \<Rightarrow> (Inl 403, s)
         | Some org \<Rightarrow>
             if \<not> og_Active org then (Inl 403, s)
             else case OpenBox (pe_suite env) (pe_Box env) (og_SvcPasswordEnc org) of None \<Rightarrow> (Inl 500, s)
             | Some pass \<Rightarrow> (Inr (og_SvcUsername org, pass, caller, callee), s))"

definition queued_job :: "portal_env \<Rightarrow> string \<Rightarrow> nat \<Rightarrow> nat \<Rightarrow> send_call \<Rightarrow> portal_state \<Rightarrow> PortalJob" where
  "queued_job env uuid orgID userID c s =
    \<lparr>pj_ID = po_nextID s, pj_JobUUID = uuid, pj_OrgID = orgID, pj_UserID = userID, pj_CallerNumber = cl_Caller c,
     pj_CalleeNumber = cl_Callee c, pj_OriginalFilename = path_base (cl_Filename c), pj_Status = JobQueued, pj_Pages = 0,
     pj_TotalPages = 0, pj_Attempts = 0, pj_ResultText = [], pj_LastError = [], pj_SeenActive = False,
     pj_SubmittedAt = pe_now env, pj_CompletedAt = None, pj_UpdatedAt = pe_now env\<rparr>"

text \<open>What happens once the fax server has answered. A job that cannot be recorded is reported, though it was sent.\<close>

definition record_send ::
    "portal_env \<Rightarrow> portal_request \<Rightarrow> PortalUser \<Rightarrow> nat \<Rightarrow> send_call \<Rightarrow> PreparedFax option \<Rightarrow> sent \<Rightarrow> PortalJob portal_handler" where
  "record_send env rq user orgID c prepared r s =
    (case r of
       SendFailed code \<Rightarrow>
         (refusal (case code of None \<Rightarrow> 500 | Some n \<Rightarrow> if 400 \<le> n \<and> n < 500 then n else 500),
          audit env rq (Some user) ''FAX_SEND_UPSTREAM_ERROR'' (cl_Caller c) s)
     | SentAs uuid \<Rightarrow>
         if pe_faults env JobInsert then (refusal 500, s)
         else let job = queued_job env uuid orgID (pu_ID user) c s;
                  s1 = s\<lparr>po_jobs := po_jobs s @ [job], po_nextID := Suc (po_nextID s)\<rparr>;
                  s2 = (case prepared of None \<Rightarrow> s1 | Some prep \<Rightarrow> deletePrepared env (pf_ID prep) s1)
           in (Answer 201 (Some job), audit env rq (Some user) ''FAX_SEND'' uuid s2))"

text \<open>The call a request makes, or the code it is refused with before any call; then the whole handler, for a fax
  server that answers \<open>upstream\<close>.\<close>

definition send_request ::
    "portal_env \<Rightarrow> convert_env \<Rightarrow> portal_request \<Rightarrow> send_form \<Rightarrow> PortalUser \<Rightarrow> nat \<Rightarrow> portal_state
      \<Rightarrow> (nat + (send_call \<times> PreparedFax option)) \<times> portal_state" where
  "send_request env pc rq form user orgID s =
    (case limit_send env (pu_ID user) s of
       (False, s1) \<Rightarrow> (Inl 429, audit env rq (Some user) ''FAX_SEND_RATELIMIT'' [] s1)
     | (True, s1) \<Rightarrow>
         (case send_document env pc rq form user s1 of
            (Inl c, s2) \<Rightarrow> (Inl c, s2)
          | (Inr (filename, data, prepared), s2) \<Rightarrow>
              (case send_account env rq form user orgID s2 of
                 (Inl c, s3) \<Rightarrow> (Inl c, s3)
               | (Inr (username, pass, caller, callee), s3) \<Rightarrow>
                   (Inr (\<lparr>cl_Username = username, cl_Password = pass, cl_Filename = filename, cl_Data = data,
                          cl_Caller = caller, cl_Callee = callee\<rparr>, prepared), s3))))"

definition handleSendFax ::
    "portal_env \<Rightarrow> convert_env \<Rightarrow> (send_call \<Rightarrow> string answer option) \<Rightarrow> portal_request \<Rightarrow> send_form \<Rightarrow> PortalUser \<Rightarrow> nat
      \<Rightarrow> PortalJob portal_handler" where
  "handleSendFax env pc upstream rq form user orgID s =
    (case send_request env pc rq form user orgID s of
       (Inl c, s1) \<Rightarrow> (refusal c, s1)
     | (Inr (c, prepared), s1) \<Rightarrow> record_send env rq user orgID c prepared (client_SendFax (upstream c)) s1)"

section \<open>Lemmas\<close>

lemma owned_prepared:
  assumes "loadOwnedPrepared env i u s = (Some prep, t)"
  shows "t = s \<and> prep \<in> set (po_prepared s) \<and> pf_ID prep = i \<and> pf_UserID prep = u \<and> pe_now env \<le> pf_ExpiresAt prep"
  using assms by (auto simp: loadOwnedPrepared_def dest!: found split: option.splits if_splits)

lemma my_numbers:
  "myNumbers env u orgID s = Some ns \<Longrightarrow>
    set ns = {n \<in> set (po_numbers s). (u, nu_ID n) \<in> set (po_user_numbers s) \<and> nu_OrgID n = orgID \<and> nu_Active n}"
  by (auto simp: myNumbers_def split: if_splits)

text \<open>The counters of the limiters do not matter to what is sent.\<close>

lemma document_limit: "fst (send_document env pc rq form user (s\<lparr>po_sendLimit := r\<rparr>)) = fst (send_document env pc rq form user s)"
  by (simp add: send_document_def prepared_document_def loadOwnedPrepared_def Let_def split: option.split)

lemma accounts_limit [simp]:
  "myNumbers env u orgID (s\<lparr>po_sendLimit := r\<rparr>) = myNumbers env u orgID s"
  "find_org env q i (s\<lparr>po_sendLimit := r\<rparr>) = find_org env q i s"
  by (simp_all add: myNumbers_def find_org_def)

lemma document_state:
  "send_document env pc rq form user s = (Inr (filename, data, prepared), t) \<Longrightarrow> t = s"
  by (auto simp: send_document_def prepared_document_def Let_def dest!: owned_prepared
      split: if_splits prod.splits option.splits)

lemma account_found:
  assumes "send_account env rq form user orgID s = (Inr (username, pass, caller, callee), t)"
  shows "\<exists>ns org. t = s \<and> caller = sanitizeNumber (sf_caller_number form) \<and> callee = sanitizeNumber (sf_callee_number form)
    \<and> myNumbers env (pu_ID user) orgID s = Some ns \<and> (\<exists>n \<in> set ns. nu_Number n = caller)
    \<and> find_org env SendOrg orgID s = Some org \<and> og_Active org \<and> username = og_SvcUsername org
    \<and> OpenBox (pe_suite env) (pe_Box env) (og_SvcPasswordEnc org) = Some pass"
  using assms by (auto simp: send_account_def Let_def list_ex_iff split: if_splits option.splits)

text \<open>A request that makes a call has passed every check, and has changed nothing but the limiter.\<close>

lemma call_made:
  assumes "send_request env pc rq form user orgID s = (Inr (c, prepared), t)"
  obtains ns org r where "t = s\<lparr>po_sendLimit := r\<rparr>"
    "myNumbers env (pu_ID user) orgID s = Some ns" "\<exists>n \<in> set ns. nu_Number n = cl_Caller c"
    "find_org env SendOrg orgID s = Some org" "og_Active org" "cl_Username c = og_SvcUsername org"
    "OpenBox (pe_suite env) (pe_Box env) (og_SvcPasswordEnc org) = Some (cl_Password c)"
    "cl_Caller c = sanitizeNumber (sf_caller_number form)" "cl_Callee c = sanitizeNumber (sf_callee_number form)"
    "fst (send_document env pc rq form user s) = Inr (cl_Filename c, cl_Data c, prepared)"
proof -
  obtain r where lim: "limit_send env (pu_ID user) s = (True, s\<lparr>po_sendLimit := r\<rparr>)"
    using assms by (auto simp: send_request_def limit_send_def split: prod.splits bool.splits)
  let ?s = "s\<lparr>po_sendLimit := r\<rparr>"
  obtain filename data s2 username pass caller callee where
    doc: "send_document env pc rq form user ?s = (Inr (filename, data, prepared), s2)"
    and acc: "send_account env rq form user orgID s2 = (Inr (username, pass, caller, callee), t)"
    and c: "c = \<lparr>cl_Username = username, cl_Password = pass, cl_Filename = filename, cl_Data = data,
      cl_Caller = caller, cl_Callee = callee\<rparr>"
    using assms unfolding send_request_def lim by (auto split: prod.splits sum.splits)
  have s2: "s2 = ?s"
    by (rule document_state [OF doc])
  obtain ns org where a: "t = ?s" "caller = sanitizeNumber (sf_caller_number form)"
      "callee = sanitizeNumber (sf_callee_number form)" "myNumbers env (pu_ID user) orgID ?s = Some ns"
      "\<exists>n \<in> set ns. nu_Number n = caller" "find_org env SendOrg orgID ?s = Some org" "og_Active org"
      "username = og_SvcUsername org" "OpenBox (pe_suite env) (pe_Box env) (og_SvcPasswordEnc org) = Some pass"
    using account_found [OF acc [unfolded s2]] by blast
  have "myNumbers env (pu_ID user) orgID s = Some ns" "find_org env SendOrg orgID s = Some org"
    using a(4,6) by simp_all
  moreover have "fst (send_document env pc rq form user s) = Inr (filename, data, prepared)"
    using doc document_limit [of env pc rq form user r s] by simp
  ultimately show ?thesis
    using that [of r ns org] a(1,2,3,5,7-9) unfolding c by simp
qed

lemma sent_cases:
  assumes "handleSendFax env pc upstream rq form user orgID s = (Answer 201 (Some job), t)"
  obtains c prepared u where "send_request env pc rq form user orgID s = (Inr (c, prepared), u)"
    "client_SendFax (upstream c) = SentAs (pj_JobUUID job)" "job = queued_job env (pj_JobUUID job) orgID (pu_ID user) c u"
    "po_jobs t = po_jobs u @ [job]"
proof -
  obtain c prepared u where r: "send_request env pc rq form user orgID s = (Inr (c, prepared), u)"
    using assms by (auto simp: handleSendFax_def split: sum.splits prod.splits)
  then have rec: "record_send env rq user orgID c prepared (client_SendFax (upstream c)) u = (Answer 201 (Some job), t)"
    using assms by (simp add: handleSendFax_def)
  then obtain uuid where uuid: "client_SendFax (upstream c) = SentAs uuid" "job = queued_job env uuid orgID (pu_ID user) c u"
    by (auto simp: record_send_def Let_def split: sent.splits if_splits)
  then have "po_jobs t = po_jobs u @ [job]"
    using rec by (auto simp: record_send_def deletePrepared_def Let_def split: if_splits option.splits)
  then show ?thesis
    using that r uuid by (simp add: queued_job_def)
qed

lemma prepare_stored:
  assumes "handlePrepareFax env pc rq form user orgID s = (Answer 201 (Some (Prepared i f n cov fit k e)), t)"
  obtains res docEnc where "prepared_input env pc form = Inr (f, res)"
    "SealBox (pe_suite env) (pe_PrepBox env) (pc_nonces pc 0) (cv_PDF res) = Some docEnc"
    "po_prepared t = po_prepared s @ [prepared_row env pc (pu_ID user) orgID f res docEnc]"
    "i = pc_uuid pc" "pc_uuid pc \<notin> pf_ID ` set (po_prepared s)"
proof -
  obtain r f' res docEnc sealed where parts: "prepared_input env pc form = Inr (f', res)"
      "SealBox (pe_suite env) (pe_PrepBox env) (pc_nonces pc 0) (cv_PDF res) = Some docEnc"
    and st: "store_prepared env rq user (prepared_row env pc (pu_ID user) orgID f' res docEnc) sealed (s\<lparr>po_prepareLimit := r\<rparr>)
      = (Answer 201 (Some (Prepared i f n cov fit k e)), t)"
    using assms unfolding handlePrepareFax_def limit_prepare_def
    by (auto split: if_splits prod.splits bool.splits sum.splits option.splits)
  have "f' = f" "i = pc_uuid pc" "po_prepared t = po_prepared s @ [prepared_row env pc (pu_ID user) orgID f' res docEnc]"
    "pc_uuid pc \<notin> pf_ID ` set (po_prepared s)"
    using st unfolding store_prepared_def by (auto simp: prepared_row_def split: if_splits)
  then show ?thesis
    using that parts by blast
qed

section \<open>Properties\<close>

text \<open>C9: A fax is sent and recorded only for an active user of an active organization, with a caller number that is an
  active number of that organization and is assigned to the user, and with the account of that organization.\<close>

theorem only_assigned_caller:
  assumes "user_party env rq (handleSendFax env pc upstream rq form) s = (Answer 201 (Some job), t)"
  shows "\<exists>u \<in> set (po_users s). \<exists>org \<in> set (po_orgs s). \<exists>n \<in> set (po_numbers s). \<exists>c sess.
    live_session env rq s sess u \<and> pu_Active u \<and> pu_Role u = RoleUser \<and> pu_OrgID u = Some (og_ID org) \<and> og_Active org
    \<and> (pu_ID u, nu_ID n) \<in> set (po_user_numbers s) \<and> nu_OrgID n = og_ID org \<and> nu_Active n
    \<and> nu_Number n = cl_Caller c \<and> cl_Username c = og_SvcUsername org
    \<and> OpenBox (pe_suite env) (pe_Box env) (og_SvcPasswordEnc org) = Some (cl_Password c)
    \<and> client_SendFax (upstream c) = SentAs (pj_JobUUID job) \<and> pj_CallerNumber job = cl_Caller c
    \<and> pj_UserID job = pu_ID u \<and> job \<in> set (po_jobs t)"
  using assms
proof (cases rule: party_cases)
  case (served sess u org' ss)
  obtain c prepared v where sent: "send_request env pc rq form u (og_ID org') (s\<lparr>po_sessions := ss\<rparr>) = (Inr (c, prepared), v)"
      "client_SendFax (upstream c) = SentAs (pj_JobUUID job)" "job = queued_job env (pj_JobUUID job) (og_ID org') (pu_ID u) c v"
      "po_jobs t = po_jobs v @ [job]"
    using served(8) by (rule sent_cases)
  obtain ns org r where call: "myNumbers env (pu_ID u) (og_ID org') (s\<lparr>po_sessions := ss\<rparr>) = Some ns"
      "\<exists>n \<in> set ns. nu_Number n = cl_Caller c" "find_org env SendOrg (og_ID org') (s\<lparr>po_sessions := ss\<rparr>) = Some org"
      "og_Active org" "cl_Username c = og_SvcUsername org"
      "OpenBox (pe_suite env) (pe_Box env) (og_SvcPasswordEnc org) = Some (cl_Password c)"
    using sent(1) by (rule call_made)
  obtain n where n: "n \<in> set (po_numbers s)" "nu_Number n = cl_Caller c" "(pu_ID u, nu_ID n) \<in> set (po_user_numbers s)"
      "nu_OrgID n = og_ID org'" "nu_Active n"
    using call(2) my_numbers [OF call(1)] by auto
  have org: "org \<in> set (po_orgs s)" "og_ID org = og_ID org'"
    using find_org_row [OF call(3)] by auto
  have job: "pj_CallerNumber job = cl_Caller c" "pj_UserID job = pu_ID u" "job \<in> set (po_jobs t)"
    using arg_cong [OF sent(3), of pj_CallerNumber] arg_cong [OF sent(3), of pj_UserID] sent(4) by (simp_all add: queued_job_def)
  have u: "u \<in> set (po_users s)" "pu_Active u"
    using served(1) by (auto simp: live_session_def)
  show ?thesis
    using served(1,3,4) u call(4-6) n org job sent(2) unfolding org(2) [symmetric]
    by (intro bexI [of _ u] bexI [of _ org] bexI [of _ n] exI [of _ c] exI [of _ sess]) simp_all
qed simp

text \<open>C35: What is sent with the identifier of a prepared document is byte for byte what the conversion produced, for the
  user who prepared it and until it expires.\<close>

theorem prepared_fax_round_trip:
  assumes cipher: "\<And>k n x. sl_Open (pe_suite env) k n (sl_Seal (pe_suite env) k n x) = Some x"
    and "handlePrepareFax env pc rq form user orgID s = (Answer 201 (Some (Prepared i f n cov fit k e)), t)"
    and "pc_nonces pc 0 = Some nonce" "length nonce = NonceSize" "pc_uuid pc \<noteq> []"
    and "po_prepared u = po_prepared t" "trim_space (sf_prepared_id form') = i"
    and "pe_suite env' = pe_suite env" "pe_EncryptionKey env' = pe_EncryptionKey env"
    and "pe_now env' \<le> pe_now env + prepare_ttl pc" "\<not> pe_faults env' PreparedFind"
  shows "\<exists>res name row. prepared_input env pc form = Inr (f, res)
    \<and> send_document env' pc' rq' form' user u = (Inr (name, cv_PDF res, Some row), u) \<and> pf_ID row = i"
proof -
  obtain res docEnc where st: "prepared_input env pc form = Inr (f, res)"
      "SealBox (pe_suite env) (pe_PrepBox env) (pc_nonces pc 0) (cv_PDF res) = Some docEnc"
      "po_prepared t = po_prepared s @ [prepared_row env pc (pu_ID user) orgID f res docEnc]"
      "i = pc_uuid pc" "pc_uuid pc \<notin> pf_ID ` set (po_prepared s)"
    using assms(2) by (rule prepare_stored)
  let ?row = "prepared_row env pc (pu_ID user) orgID f res docEnc"
  have "List.find (\<lambda>p. pf_ID p = i \<and> pf_UserID p = pu_ID user) (po_prepared s) = None"
    using st(4,5) by (auto simp: find_None_iff) (metis imageI)
  then have "loadOwnedPrepared env' i (pu_ID user) u = (Some ?row, u)"
    using assms(6,10,11) st(3,4) by (simp add: loadOwnedPrepared_def find_snoc prepared_row_def)
  moreover have "OpenBox (pe_suite env) (pe_PrepBox env) docEnc = Some (cv_PDF res)"
    by (rule open_sealed [OF cipher st(2)]) (use assms(3,4) in simp)
  moreover have "pe_PrepBox env' = pe_PrepBox env"
    by (simp add: pe_PrepBox_def assms(8,9))
  moreover have "pf_DocEnc ?row = docEnc" "pf_DocSHA256 ?row = hex_encode (sl_sha256 (pe_suite env) (cv_PDF res))"
    by (simp_all add: prepared_row_def)
  ultimately have "\<exists>name. send_document env' pc' rq' form' user u = (Inr (name, cv_PDF res, Some ?row), u)"
    using assms(5,7,8) st(4) by (simp add: send_document_def prepared_document_def Let_def)
  moreover have "pf_ID ?row = i"
    by (simp add: prepared_row_def st(4))
  ultimately show ?thesis
    using st(1) by blast
qed

text \<open>Word documents of the old format and TIFF files pass the check of their name and are then always refused: the
  type that is found for data without the PDF signature is never one of those the portal wants for them.\<close>

theorem old_formats_refused:
  assumes "\<And>d. pc_other_type pc d \<notin> {''image/tiff'', ''image/x-tiff'', ''application/x-ole-storage'', ''application/msword''}"
    and "pr_file form = Some fh" "to_lower (file_ext (ff_Filename fh)) \<in> {''.doc'', ''.tif'', ''.tiff''}"
  shows "status (fst (handlePrepareFax env pc rq form user orgID s)) \<in> {400, 404, 413, 429, 500}"
proof -
  have "\<not> mimeAllowed (to_lower (file_ext (ff_Filename fh))) (sniff pc d)" for d
  proof -
    have "sniff pc d \<notin> {''image/tiff'', ''image/x-tiff'', ''application/x-ole-storage'', ''application/msword''}"
      using assms(1) [of d] by (simp add: sniff_def)
    then show ?thesis
      using assms(3) by (auto simp: mimeAllowed_def prepareMIMEs_def)
  qed
  then have "\<exists>c. prepared_input env pc form = Inl (c, None) \<and> c \<in> {400, 413, 500}"
    using assms(2) by (auto simp: prepared_input_def readUpload_def Let_def split: option.splits)
  then show ?thesis
    by (auto simp: handlePrepareFax_def split: prod.splits bool.splits)
qed

section \<open>Sample values\<close>

definition sample_cenv :: convert_env where
  "sample_cenv = \<lparr>pc_Enabled = True, pc_MaxPages = 0, pc_DefaultFitMode = [], pc_PrepareTTL = 0, pc_normalizePDF = (\<lambda>d. d),
     pc_tiffToPDF = (\<lambda>_. None), pc_imageToPDF = (\<lambda>_ _. None), pc_officeToPDF = (\<lambda>_ _. None), pc_PageCount = (\<lambda>_. Some 1),
     pc_renderCover = (\<lambda>_ _. None), pc_merge = (\<lambda>_ _. None), pc_renderPreviews = (\<lambda>_ _. Inr [''png'']),
     pc_other_type = (\<lambda>_. ''application/octet-stream''), pc_uuid = ''d'', pc_nonces = (\<lambda>_. Some (replicate 12 (CHR ''n'')))\<rparr>"

definition sample_file :: form_file where
  "sample_file = \<lparr>ff_Filename = ''a.pdf'', ff_Size = 6, ff_Content = Some ''%PDF-1''\<rparr>"

definition sample_cover :: CoverFields where
  "sample_cover = \<lparr>co_To = [], co_From = [], co_Subject = [], co_Comments = []\<rparr>"

definition sample_prepare :: prepare_form where
  "sample_prepare = \<lparr>pr_file = Some sample_file, pr_fit_mode = [], pr_cover_enabled = ''on'', pr_cover = sample_cover\<rparr>"

definition sample_send_form :: send_form where
  "sample_send_form = \<lparr>sf_prepared_id = [], sf_file = Some sample_file, sf_caller_number = ''555-1234'',
     sf_callee_number = ''(555) 9876''\<rparr>"

abbreviation "sample_user_request \<equiv> sample_request\<lparr>rq_Cookie := Some ''t'', rq_CSRFToken := ''c'', rq_Method := ''POST''\<rparr>"

lemma only_assigned_caller_witness:
  "\<exists>job t. user_party sample_penv sample_user_request
     (handleSendFax sample_penv sample_cenv (\<lambda>_. Some (ok ''u7'')) sample_user_request sample_send_form) sample_inbox
       = (Answer 201 (Some job), t) \<and> job \<in> set (po_jobs t)"
proof -
  let ?r = "user_party sample_penv sample_user_request
     (handleSendFax sample_penv sample_cenv (\<lambda>_. Some (ok ''u7'')) sample_user_request sample_send_form) sample_inbox"
  have "case fst ?r of Answer c (Some job) \<Rightarrow> c = 201 | _ \<Rightarrow> False"
    by code_simp
  then obtain job where "fst ?r = Answer 201 (Some job)"
    by (cases "fst ?r") (auto split: option.splits)
  then have r: "?r = (Answer 201 (Some job), snd ?r)"
    by (metis prod.collapse)
  have "job \<in> set (po_jobs (snd ?r))"
    using only_assigned_caller [OF r] by blast
  then show ?thesis
    using r by blast
qed

abbreviation "sample_prepared \<equiv> handlePrepareFax sample_penv sample_cenv sample_user_request sample_prepare sample_puser 1 sample_portal"

lemma sample_prepares:
  "sample_prepared = (Answer 201 (Some (Prepared ''d'' ''a.pdf'' 1 False FitConstrain 1 (101 * Hour))), snd sample_prepared)"
proof -
  have "fst sample_prepared = Answer 201 (Some (Prepared ''d'' ''a.pdf'' 1 False FitConstrain 1 (101 * Hour)))"
    by code_simp
  then show ?thesis
    by (metis prod.collapse)
qed

lemma prepared_fax_round_trip_witness:
  "\<exists>name row. send_document sample_penv sample_cenv sample_user_request (sample_send_form\<lparr>sf_prepared_id := '' d ''\<rparr>) sample_puser
     (snd sample_prepared) = (Inr (name, ''%PDF-1'', Some row), snd sample_prepared)"
proof -
  have cipher: "\<And>k n x. sl_Open (pe_suite sample_penv) k n (sl_Seal (pe_suite sample_penv) k n x) = Some x"
    by (simp add: sample_penv_def sample_suite_def)
  have facts: "length (replicate 12 (CHR ''n'')) = NonceSize" "pc_uuid sample_cenv \<noteq> []"
    "trim_space (sf_prepared_id (sample_send_form\<lparr>sf_prepared_id := '' d ''\<rparr>)) = ''d''"
    "pe_now sample_penv \<le> pe_now sample_penv + prepare_ttl sample_cenv" "\<not> pe_faults sample_penv PreparedFind"
    "case prepared_input sample_penv sample_cenv sample_prepare of Inl _ \<Rightarrow> False | Inr (f, res) \<Rightarrow> cv_PDF res = ''%PDF-1''"
    by code_simp+
  have "pc_nonces sample_cenv 0 = Some (replicate 12 (CHR ''n''))"
    by (simp add: sample_cenv_def)
  then show ?thesis
    using prepared_fax_round_trip [OF cipher sample_prepares _ facts(1,2) refl facts(3) refl refl facts(4,5),
        of sample_cenv sample_user_request] facts(6) by auto
qed

lemma old_formats_refused_witness:
  "status (fst (handlePrepareFax sample_penv sample_cenv sample_user_request
     (sample_prepare\<lparr>pr_file := Some (sample_file\<lparr>ff_Filename := ''a.DOC''\<rparr>)\<rparr>) sample_puser 1 sample_portal)) \<in> {400, 404, 413, 429, 500}"
proof -
  have "pc_other_type sample_cenv d \<notin> {''image/tiff'', ''image/x-tiff'', ''application/x-ole-storage'', ''application/msword''}" for d
    by (simp add: sample_cenv_def)
  moreover have "to_lower (file_ext (ff_Filename (sample_file\<lparr>ff_Filename := ''a.DOC''\<rparr>))) \<in> {''.doc'', ''.tif'', ''.tiff''}"
    by code_simp
  ultimately show ?thesis
    by (intro old_formats_refused [OF _ _ \<open>to_lower _ \<in> _\<close>]) simp_all
qed

end
