(* ===== verification/Portal_Flow.thy ===== *)
theory Portal_Flow
  imports Portal_Send Fax_Notify
begin

text \<open>
  The portal and the fax server together: the call that sends a fax is answered by the handler of the fax server
  (\<open>SendFax\<close> of \<open>portal/internal/fsclient/client.go\<close> and \<open>handleDocumentUpload\<close> of \<open>gofaxserver/web.go\<close>), and the outcome
  that is pushed back finds the job of the user.

  How the name of a file is changed on its way through a multipart form is an argument.
\<close>

section \<open>The call\<close>

definition send_form_upload :: "(string \<Rightarrow> string) \<Rightarrow> send_call \<Rightarrow> upload" where
  "send_form_upload form_name c =
    \<lparr>up_Filename = form_name (cl_Filename c), up_Content = cl_Data c, up_CalleeNumber = cl_Callee c,
     up_CallerNumber = cl_Caller c, up_Source = ''portal''\<rparr>"

text \<open>\<open>SetBasicAuth\<close> and the handler; a handler that panics gives no answer.\<close>

definition fax_server_send ::
    "web_env \<Rightarrow> upload_env \<Rightarrow> (string \<Rightarrow> string) \<Rightarrow> send_call \<Rightarrow> 'f web_state \<Rightarrow> string answer option \<times> 'f web_state" where
  "fax_server_send wenv ue form_name c w =
    (case handleSend wenv ue (basic_header (cl_Username c) (cl_Password c)) (Some (send_form_upload form_name c)) w of
       (Answer code body, w1) \<Rightarrow> (if code = 0 then None else Some (Answer code (map_option (ue_uuid_string ue) body)), w1))"

definition send_through ::
    "portal_env \<Rightarrow> convert_env \<Rightarrow> web_env \<Rightarrow> upload_env \<Rightarrow> (string \<Rightarrow> string) \<Rightarrow> portal_request \<Rightarrow> send_form \<Rightarrow> PortalUser \<Rightarrow> nat
      \<Rightarrow> portal_state \<times> 'f web_state \<Rightarrow> PortalJob answer \<times> portal_state \<times> 'f web_state" where
  "send_through env pc wenv ue form_name rq form user orgID sw =
    (case send_request env pc rq form user orgID (fst sw) of
       (Inl c, s1) \<Rightarrow> (refusal c, s1, snd sw)
     | (Inr (c, prepared), s1) \<Rightarrow>
         (case fax_server_send wenv ue form_name c (snd sw) of
            (resp, w1) \<Rightarrow>
              (case record_send env rq user orgID c prepared (client_SendFax resp) s1 of (a, s2) \<Rightarrow> (a, s2, w1))))"

section \<open>Lemmas\<close>

text \<open>Towards the portal, the fax server is the \<open>upstream\<close> of its handler.\<close>

lemma send_through_portal:
  "(case send_through env pc wenv ue form_name rq form user orgID (s, w) of (a, t, w1) \<Rightarrow> (a, t))
    = handleSendFax env pc (\<lambda>c. fst (fax_server_send wenv ue form_name c w)) rq form user orgID s"
  by (simp add: send_through_def handleSendFax_def split: prod.split sum.split)

lemma upload_codes: "handleDocumentUpload env ue form user s = (a, s') \<Longrightarrow> status a \<in> {0, 200, 400, 500}"
  by (auto simp: handleDocumentUpload_def enqueue_upload_def Let_def split: option.splits if_splits sum.splits)

text \<open>A call that is answered with a job has put that job on the routing channel.\<close>

lemma fax_server_queues:
  assumes "fax_server_send wenv ue form_name c w = (resp, w1)" "client_SendFax resp = SentAs uuid"
  obtains svc srcNum tiff where "svc \<in> set (ws_users w)" "getNumber (ws_server w) (cl_Caller c) = Inr srcNum"
    "tn_TenantID srcNum = tu_TenantID svc" "uuid = ue_uuid_string ue (ue_docID ue)"
    "w1 = w\<lparr>ws_routing := ws_routing w @ [uploaded_job ue (we_now wenv) svc (send_form_upload form_name c) tiff]\<rparr>"
proof -
  obtain a w2 where h: "handleSend wenv ue (basic_header (cl_Username c) (cl_Password c)) (Some (send_form_upload form_name c)) w
      = (a, w2)"
    by fastforce
  obtain code body where a: "a = Answer code body"
    by (cases a)
  have w1: "w1 = w2" and resp: "resp = (if code = 0 then None else Some (Answer code (map_option (ue_uuid_string ue) body)))"
    using assms(1) h a by (auto simp: fax_server_send_def)
  obtain u where body: "body = Some u" "uuid = ue_uuid_string ue u" "200 \<le> code" "code \<le> 299"
    using assms(2) resp by (auto simp: client_SendFax_def split: if_splits option.splits)
  show ?thesis
    using h unfolding handleSend_def
  proof (cases rule: middleware_passes)
    case stopped
    then show ?thesis
      using a body by (simp add: unauthorized_def)
  next
    case (signed_in username password svc)
    show ?thesis
      using signed_in(3)
    proof (cases rule: upload_cases)
      case left
      have "code \<in> {0, 400, 500}"
        using upload_codes [OF signed_in(3)] left(2) a by simp
      then show ?thesis
        using body by auto
    next
      case (sent up tiff)
      show ?thesis
        using sent(5)
      proof (cases rule: enqueue_cases)
        case left
        have "code \<in> {0, 400, 500}"
          using upload_codes [OF signed_in(3)] left(2) a by simp
        then show ?thesis
          using body by auto
      next
        case (sent srcNum)
        have up: "up = send_form_upload form_name c"
          using \<open>Some (send_form_upload form_name c) = Some up\<close> by simp
        have "u = ue_docID ue"
          using sent(3) a body by simp
        then show ?thesis
          using that [OF authenticated(1) [OF signed_in(2)], of srcNum tiff] sent(1,2,4) w1 body(2) unfolding up
          by (simp add: send_form_upload_def)
      qed
    qed
  qed
qed

text \<open>The JSON object that is pushed, as the portal reads it.\<close>

definition pushed_payload :: "(uuid \<Rightarrow> string) \<Rightarrow> PortalStatusPayload \<Rightarrow> status_payload" where
  "pushed_payload uuid_string p =
    \<lparr>sp_UUID = uuid_string (pp_UUID p), sp_Success = pp_Success p, sp_AllAttemptsFailed = pp_AllAttemptsFailed p,
     sp_Attempts = int (pp_Attempts p), sp_TransferredPages = pp_TransferredPages p, sp_TotalPages = pp_TotalPages p,
     sp_ResultText = pp_ResultText p, sp_HangupCause = pp_HangupCause p, sp_EndTs = pp_EndTs p\<rparr>"

lemma through_cases:
  assumes "send_through env pc wenv ue form_name rq form user orgID (s, w) = (Answer 201 (Some job), t, w1)"
  obtains c prepared u where "send_request env pc rq form user orgID s = (Inr (c, prepared), u)"
    "client_SendFax (fst (fax_server_send wenv ue form_name c w)) = SentAs (pj_JobUUID job)"
    "fax_server_send wenv ue form_name c w = (fst (fax_server_send wenv ue form_name c w), w1)"
    "job = queued_job env (pj_JobUUID job) orgID (pu_ID user) c u" "po_jobs t = po_jobs u @ [job]"
proof -
  have "handleSendFax env pc (\<lambda>c. fst (fax_server_send wenv ue form_name c w)) rq form user orgID s = (Answer 201 (Some job), t)"
    using send_through_portal [of env pc wenv ue form_name rq form user orgID s w] assms by simp
  then obtain c prepared u where sent: "send_request env pc rq form user orgID s = (Inr (c, prepared), u)"
      "client_SendFax (fst (fax_server_send wenv ue form_name c w)) = SentAs (pj_JobUUID job)"
      "job = queued_job env (pj_JobUUID job) orgID (pu_ID user) c u" "po_jobs t = po_jobs u @ [job]"
    by (rule sent_cases)
  moreover have "snd (fax_server_send wenv ue form_name c w) = w1"
    using assms sent(1) by (auto simp: send_through_def split: prod.splits)
  ultimately show ?thesis
    using that by (metis prod.collapse)
qed

lemma queued_fields:
  assumes "job = queued_job env uuid orgID userID c s"
  shows "pj_CallerNumber job = cl_Caller c" "pj_CalleeNumber job = cl_Callee c" "pj_OrgID job = orgID" "pj_UserID job = userID"
    "pj_ID job = po_nextID s" "pj_Status job = JobQueued"
  using assms by (simp_all add: queued_job_def)

lemma find_unique: "distinct (map f xs) \<Longrightarrow> x \<in> set xs \<Longrightarrow> f x = i \<Longrightarrow> List.find (\<lambda>y. f y = i) xs = Some x"
  by (induction xs) auto

section \<open>Properties\<close>

text \<open>C8: A fax that the portal records as sent is on the routing channel of the fax server, exactly once, under the
  identifier that was recorded, from and to the numbers the user gave (without what is no digit or plus), with the portal
  as its source; it belongs to an account of the tenant that owns the caller number.\<close>

theorem portal_fax_routed:
  assumes "send_through env pc wenv ue form_name rq form user orgID (s, w) = (Answer 201 (Some job), t, w1)"
  shows "\<exists>f svc srcNum. ws_routing w1 = ws_routing w @ [f] \<and> ue_uuid_string ue (fj_UUID f) = pj_JobUUID job
    \<and> fj_CallerIdNumber f = sanitizeNumber (sf_caller_number form) \<and> pj_CallerNumber job = fj_CallerIdNumber f
    \<and> fj_CalleeNumber f = sanitizeNumber (sf_callee_number form) \<and> pj_CalleeNumber job = fj_CalleeNumber f
    \<and> si_Source (fj_SourceInfo f) = ''portal'' \<and> svc \<in> set (ws_users w)
    \<and> getNumber (ws_server w) (fj_CallerIdNumber f) = Inr srcNum \<and> tn_TenantID srcNum = tu_TenantID svc"
proof -
  obtain c prepared u where r: "send_request env pc rq form user orgID s = (Inr (c, prepared), u)"
      and c: "client_SendFax (fst (fax_server_send wenv ue form_name c w)) = SentAs (pj_JobUUID job)"
      "fax_server_send wenv ue form_name c w = (fst (fax_server_send wenv ue form_name c w), w1)"
      "job = queued_job env (pj_JobUUID job) orgID (pu_ID user) c u"
    using assms by (rule through_cases)
  have given: "cl_Caller c = sanitizeNumber (sf_caller_number form) \<and> cl_Callee c = sanitizeNumber (sf_callee_number form)"
    using r by (rule call_made) blast
  obtain svc srcNum tiff where q: "svc \<in> set (ws_users w)" "getNumber (ws_server w) (cl_Caller c) = Inr srcNum"
      "tn_TenantID srcNum = tu_TenantID svc" "pj_JobUUID job = ue_uuid_string ue (ue_docID ue)"
      "w1 = w\<lparr>ws_routing := ws_routing w @ [uploaded_job ue (we_now wenv) svc (send_form_upload form_name c) tiff]\<rparr>"
    using fax_server_queues [OF c(2,1)] .
  let ?f = "uploaded_job ue (we_now wenv) svc (send_form_upload form_name c) tiff"
  have "fj_UUID ?f = ue_docID ue" "fj_CallerIdNumber ?f = cl_Caller c" "fj_CalleeNumber ?f = cl_Callee c"
    "si_Source (fj_SourceInfo ?f) = ''portal''"
    by (simp_all add: uploaded_job_def send_form_upload_def)
  then show ?thesis
    using q queued_fields [OF c(3)] given
    by (intro exI [of _ ?f] exI [of _ svc] exI [of _ srcNum]) simp
qed

text \<open>The identity of the job that was recorded.\<close>

lemma sent_job:
  assumes "send_through env pc wenv ue form_name rq form user orgID (s, w) = (Answer 201 (Some job), t, w1)"
  shows "job \<in> set (po_jobs t)" "pj_OrgID job = orgID" "pj_UserID job = pu_ID user"
    "pj_JobUUID job = ue_uuid_string ue (fj_UUID (last (ws_routing w1)))" "pj_JobUUID job \<noteq> []"
proof -
  obtain c prepared u where c: "client_SendFax (fst (fax_server_send wenv ue form_name c w)) = SentAs (pj_JobUUID job)"
      "fax_server_send wenv ue form_name c w = (fst (fax_server_send wenv ue form_name c w), w1)"
      "job = queued_job env (pj_JobUUID job) orgID (pu_ID user) c u" "po_jobs t = po_jobs u @ [job]"
    using assms by (rule through_cases)
  obtain sv n tiff where q: "pj_JobUUID job = ue_uuid_string ue (ue_docID ue)"
      "w1 = w\<lparr>ws_routing := ws_routing w @ [uploaded_job ue (we_now wenv) sv (send_form_upload form_name c) tiff]\<rparr>"
    using fax_server_queues [OF c(2,1)] .
  then show "pj_JobUUID job = ue_uuid_string ue (fj_UUID (last (ws_routing w1)))"
    by (simp add: uploaded_job_def)
  show "job \<in> set (po_jobs t)" "pj_OrgID job = orgID" "pj_UserID job = pu_ID user"
    using queued_fields [OF c(3)] c(4) by simp_all
  show "pj_JobUUID job \<noteq> []"
    using c(1) by (auto simp: client_SendFax_def split: option.splits answer.splits if_splits)
qed

lemma pushed_outcome:
  assumes "fj_UUID (nf_FaxJob nfr) = u"
  shows "sp_UUID (pushed_payload uuid_string (buildPortalStatusPayload nfr)) = uuid_string u"
    "pushed_status (pushed_payload uuid_string (buildPortalStatusPayload nfr)) = (if outcome_ok (map snd (nf_Results nfr)) then JobSuccess
        else if nf_AllAttemptsFailed nfr then JobFailed else JobSending)"
  using assms by (simp_all add: pushed_status_def pushed_payload_def payload_fields)
    (simp_all add: buildPortalStatusPayload_def Let_def)

text \<open>C7: A fax was sent through the portal; any time later, after any number of passes of the poller, pushed outcomes and
  new jobs, its job is still open and the fax server pushes its final outcome. From then on, whatever is pushed, polled or
  sent afterwards, the user who sent it reads success exactly when the legs of the fax say so, and failure otherwise. The
  database answers at the push and when the user reads; a job that the poller has given up before is not covered.\<close>

theorem outcome_reaches_user:
  assumes "send_through env pc wenv ue form_name rq form user orgID (s, w) = (Answer 201 (Some job), t, w1)"
    and "distinct (map pj_ID (po_jobs t))" "reach job_step t u"
    and "\<forall>j \<in> set (po_jobs u). pj_ID j = pj_ID job \<longrightarrow> \<not> finished j"
    and "\<forall>j \<in> set (po_jobs u). pj_OrgID j = orgID \<and> pj_JobUUID j = pj_JobUUID job \<longrightarrow> pj_ID j = pj_ID job"
    and "fj_UUID (nf_FaxJob nfr) = fj_UUID (last (ws_routing w1))"
    and "outcome_ok (map snd (nf_Results nfr)) \<or> nf_AllAttemptsFailed nfr"
    and "\<not> wrong_key env' rq'" "service_org env' svc u = Inr org" "og_ID org = orgID"
    and "\<not> pe_faults env' JobFind" "\<not> pe_faults env' JobUpdate"
    and "handleStatusNotify env' rq' svc (Some (pushed_payload (ue_uuid_string ue) (buildPortalStatusPayload nfr))) u = (a, v)"
    and "reach job_step v x" "\<not> pe_faults env'' JobFind"
  shows "\<exists>g. handleGetJob env'' (pj_ID job) user orgID x = (ok g, x) \<and> pj_JobUUID g = pj_JobUUID job
    \<and> pj_Status g = (if outcome_ok (map snd (nf_Results nfr)) then JobSuccess else JobFailed)"
proof -
  let ?p = "pushed_payload (ue_uuid_string ue) (buildPortalStatusPayload nfr)"
  note job = sent_job [OF assms(1)] and p = pushed_outcome [OF assms(6), of "ue_uuid_string ue"]
  have dist: "distinct (map pj_ID (po_jobs u))"
    using jobs.reach_holds [OF assms(3)] assms(2) by (simp add: keeps_finished_def)
  have "job_key job \<in> job_key ` set (po_jobs u)"
    using keys.reach_holds [OF assms(3)] job(1) by auto
  then obtain j where j: "j \<in> set (po_jobs u)" "pj_ID j = pj_ID job" "pj_JobUUID j = pj_JobUUID job" "pj_OrgID j = orgID"
      "pj_UserID j = pu_ID user"
    using job(2,3) by (auto simp: job_key_def)
  let ?g = "(apply_push env' ?p j)\<lparr>pj_UpdatedAt := pe_now env'\<rparr>"
  have uuid: "sp_UUID ?p = pj_JobUUID job"
    using p(1) job(4) by simp
  have "?g \<in> set (po_jobs v)"
    by (rule push_writes [OF assms(13,8,9,11,12)]) (use j job(5) uuid assms(4,5,10) dist in auto)
  moreover have "pj_ID ?g = pj_ID job" "pj_JobUUID ?g = pj_JobUUID job" "pj_UserID ?g = pu_ID user"
    "pj_Status ?g = (if outcome_ok (map snd (nf_Results nfr)) then JobSuccess else JobFailed)"
    using j assms(7) p(2) by (auto simp: apply_push_def Let_def)
  ultimately obtain g where g: "g \<in> set (po_jobs v)" "pj_ID g = pj_ID job" "pj_JobUUID g = pj_JobUUID job"
      "pj_UserID g = pu_ID user" "pj_Status g = (if outcome_ok (map snd (nf_Results nfr)) then JobSuccess else JobFailed)"
    by blast
  have kept: "keeps_finished v x"
    using jobs.reach_holds [OF assms(14)] push_keeps(1) [OF assms(13)] dist by simp
  have "finished g"
    using g(5) by (simp add: finished_def)
  then have "g \<in> set (po_jobs x)" "distinct (map pj_ID (po_jobs x))"
    using kept g(1) by (auto simp: keeps_finished_def)
  then have "List.find (\<lambda>i. pj_ID i = pj_ID job) (po_jobs x) = Some g"
    using g(2) by (intro find_unique)
  then show ?thesis
    using g assms(15) by (intro exI [of _ g]) (simp add: handleGetJob_def)
qed

section \<open>Sample values\<close>

text \<open>An organization with the account that the fax server knows.\<close>

definition sample_sender :: portal_state where
  "sample_sender = sample_portal\<lparr>po_orgs := [sample_org\<lparr>og_SvcUsername := ''alice'',
       og_SvcPasswordEnc := replicate 12 (CHR ''n'') @ ''b:a''\<rparr>], po_numbers := [sample_pnumber\<lparr>nu_Number := ''100''\<rparr>]\<rparr>"

abbreviation "sample_caller \<equiv> sample_send_form\<lparr>sf_caller_number := ''100''\<rparr>"

definition sample_call :: send_call where
  "sample_call = \<lparr>cl_Username = ''alice'', cl_Password = ''a:b'', cl_Filename = ''a.pdf'', cl_Data = ''%PDF-1'',
     cl_Caller = ''100'', cl_Callee = ''5559876''\<rparr>"

abbreviation "sample_sends \<equiv> send_request sample_penv sample_cenv sample_request sample_caller sample_puser 1 sample_sender"

lemma sample_sends_call: "\<exists>r. sample_sends = (Inr (sample_call, None), sample_sender\<lparr>po_sendLimit := r\<rparr>)"
proof -
  have "fst sample_sends = Inr (sample_call, None)"
    by code_simp
  then have r: "sample_sends = (Inr (sample_call, None), snd sample_sends)"
    by (metis prod.collapse)
  show ?thesis
    using r by (rule call_made) (use r in auto)
qed

lemma sample_call_sent:
  assumes "AddTenantUser sample_wenv sample_user sample_wstate = (Some u, w)"
  shows "\<exists>w1. fax_server_send sample_wenv sample_uenv id sample_call w = (Some (ok ''7''), w1)"
proof -
  let ?up = "send_form_upload id sample_call"
  have parts: "to_lower (file_ext (up_Filename ?up)) = ''.pdf''" "''.pdf'' \<in> set allowedExts"
    "DetectContentType sample_uenv (take 512 (up_Content ?up)) \<in> set allowedContentTypes"
    "pdfToTiff sample_uenv ''.pdf'' = Some ''/tmp/fax_7.tiff''" "ue_reads sample_uenv" "ue_seeks sample_uenv"
    "up_CallerNumber ?up = ''100''" "ue_uuid_string sample_uenv (ue_docID sample_uenv) = ''7''"
    "cl_Username sample_call = ''alice''" "cl_Password sample_call = ''a:b''"
    by code_simp+
  note w = sample_signs_in [OF assms]
  have "handleDocumentUpload sample_wenv sample_uenv (Some ?up) u w = enqueue_upload sample_wenv sample_uenv u ?up ''/tmp/fax_7.tiff'' w"
    using parts by (simp add: handleDocumentUpload_def)
  moreover have "getNumber (ws_server w) ''100'' = Inr sample_number" "tn_TenantID sample_number = 3"
    using w(2) by (simp_all add: getNumber_def sample_gstate_def sample_directory)
  ultimately show ?thesis
    using w(5) parts(7-10) by (simp add: fax_server_send_def handleSend_def w(1) enqueue_upload_def)
qed

lemma sample_flow:
  "\<exists>w w1 :: unit web_state. \<exists>t job. send_through sample_penv sample_cenv sample_wenv sample_uenv id sample_request sample_caller
     sample_puser 1 (sample_sender, w) = (Answer 201 (Some job), t, w1) \<and> pj_JobUUID job = ''7'' \<and> pj_ID job = po_nextID sample_sender
     \<and> po_orgs t = po_orgs sample_sender \<and> po_jobs t = [job] \<and> pj_Status job = JobQueued"
proof -
  obtain u w where a: "AddTenantUser sample_wenv sample_user sample_wstate = (Some u, w :: unit web_state)"
    using sample_added by blast
  obtain w1 where w1: "fax_server_send sample_wenv sample_uenv id sample_call w = (Some (ok ''7''), w1)"
    using sample_call_sent [OF a] by blast
  obtain r where r: "sample_sends = (Inr (sample_call, None), sample_sender\<lparr>po_sendLimit := r\<rparr>)"
    using sample_sends_call by blast
  have "client_SendFax (Some (ok ''7'')) = SentAs ''7''" "\<not> pe_faults sample_penv JobInsert" "po_jobs sample_sender = []"
    by code_simp+
  then have "\<exists>t job. send_through sample_penv sample_cenv sample_wenv sample_uenv id sample_request sample_caller
      sample_puser 1 (sample_sender, w) = (Answer 201 (Some job), t, w1) \<and> pj_JobUUID job = ''7''
      \<and> pj_ID job = po_nextID sample_sender \<and> po_orgs t = po_orgs sample_sender \<and> po_jobs t = [job] \<and> pj_Status job = JobQueued"
    by (simp add: send_through_def r w1 record_send_def Let_def queued_job_def del: One_nat_def)
  then show ?thesis
    by blast
qed

lemma portal_fax_routed_witness:
  "\<exists>w w1 :: unit web_state. \<exists>t job f. send_through sample_penv sample_cenv sample_wenv sample_uenv id sample_request sample_caller
     sample_puser 1 (sample_sender, w) = (Answer 201 (Some job), t, w1) \<and> ws_routing w1 = ws_routing w @ [f]
     \<and> fj_CallerIdNumber f = ''100'' \<and> si_Source (fj_SourceInfo f) = ''portal''"
proof -
  obtain w w1 :: "unit web_state" and t job where f: "send_through sample_penv sample_cenv sample_wenv sample_uenv id sample_request
      sample_caller sample_puser 1 (sample_sender, w) = (Answer 201 (Some job), t, w1)"
    using sample_flow by blast
  have "sanitizeNumber (sf_caller_number sample_caller) = ''100''"
    by code_simp
  then show ?thesis
    using portal_fax_routed [OF f] f by auto
qed

text \<open>The poller passes after the failure has been pushed.\<close>

abbreviation "sample_polled t \<equiv> tick sample_penv \<lparr>po_active = None, po_rows = (\<lambda>u p j. None)\<rparr> t"

lemma outcome_reaches_user_witness:
  "\<exists>v g. handleGetJob sample_penv 10 sample_puser 1 v = (ok g, v) \<and> pj_JobUUID g = ''7'' \<and> pj_Status g = JobFailed"
proof -
  obtain w w1 :: "unit web_state" and t job where f: "send_through sample_penv sample_cenv sample_wenv sample_uenv id sample_request
      sample_caller sample_puser 1 (sample_sender, w) = (Answer 201 (Some job), t, w1)" and uuid: "pj_JobUUID job = ''7''"
      and id: "pj_ID job = po_nextID sample_sender" and orgs: "po_orgs t = po_orgs sample_sender"
      and jobs: "po_jobs t = [job]" "pj_Status job = JobQueued"
    using sample_flow by blast
  let ?nfr = "\<lparr>nf_Results = [], nf_FaxJob = last (ws_routing w1), nf_AllAttemptsFailed = True\<rparr>"
  have facts: "\<not> wrong_key sample_penv sample_request" "\<not> pe_faults sample_penv JobFind" "\<not> pe_faults sample_penv JobUpdate"
    "po_nextID sample_sender = 10"
    "service_org sample_penv ''alice'' sample_sender = Inr (hd (po_orgs sample_sender))" "og_ID (hd (po_orgs sample_sender)) = 1"
    by code_simp+
  have org: "service_org sample_penv ''alice'' t = Inr (hd (po_orgs sample_sender))"
    using facts(5) unfolding service_org_def orgs .
  obtain a v where h: "handleStatusNotify sample_penv sample_request ''alice''
      (Some (pushed_payload (ue_uuid_string sample_uenv) (buildPortalStatusPayload ?nfr))) t = (a, v)"
    by fastforce
  have "reach job_step v (sample_polled v)"
    by (rule reach.reach_step, rule reach.reach_start, rule step_poll)
  note read = outcome_reaches_user [OF f _ reach.reach_start _ _ _ _ facts(1) org facts(6,2,3) h this facts(2)]
  have "\<not> outcome_ok (map snd (nf_Results ?nfr))" "\<not> finished job"
    using jobs(2) by (simp_all add: outcome_ok_def finished_def job_states)
  then show ?thesis
    using read facts(4) id uuid jobs by auto
qed

end
