(* ===== verification/Spec2Isabelle.thy ===== *)
theory Spec2Isabelle
  imports Fax_Tracker Fax_Policy Fax_Learning IP_Sentry Fax_Router Fax_Outbound Fax_Notify Fax_Delivery Fax_Flow
    Gateway_Provision Web_Paths Web_Upload Portal_Retention Portal_Flow
begin

text \<open>
  A verification development of gofaxserver, the fax server under \<open>src/gofaxserver\<close> with its library
  \<open>src/gofaxlib\<close>. The program drives a FreeSWITCH telephone switch over its event socket: it answers inbound
  calls, receives or bridges faxes, routes them to endpoints (gateways, webhooks, a portal, mail), sends them out
  with retries, learns from failed negotiations, bans attackers, provisions the gateways of the switch, and is
  administered over HTTP. Beside it, \<open>src/portal\<close> is a web portal: its users sign in, send documents as faxes through
  the fax server, follow their jobs, and read the faxes the fax server delivers to it.

  \<^bold>\<open>How the parts interact.\<close> \<open>FreeSwitchInbound.handler\<close> takes a call: it asks the access list and
  the sentry, resolves the fax policy and the pair state, follows the event stream, and routes the job. \<open>routeFax\<close>
  (and \<open>handleDocumentUpload\<close> for documents sent over HTTP) hands the job to the queue, whose worker
  \<open>processFax\<close> tries the endpoints over \<open>SendFax\<close>, webhooks and the portal. Every attempt is a job result; the
  result table, the tracker, the policy engine and the notifications consume those results. The HTTP handlers
  change the rows of the database and the in-memory maps that all the others read. The portal keeps tables of its own;
  it calls the fax server to send (\<open>Portal_Flow\<close> composes both), the fax server pushes outcomes and received faxes
  back, and a poller asks it for the attempts of the jobs whose outcome is not known yet.

  \<^bold>\<open>Theories.\<close> Each lists its Go files; definitions carry the names of the Go functions and types, and record
  fields carry a prefix of their own (\<open>fj_UUID\<close> is \<open>FaxJob.UUID\<close>). A part of a long function that has no name of
  its own has a descriptive one.

  \<^item> \<open>Fax_Prelude\<close>: strings, \<open>strconv\<close>, \<open>time.ParseDuration\<close>, the wrap-around of 64-bit integers, association
    lists for Go maps, stable sorting, reachability, and the locales below.
  \<^item> \<open>Net_Addr\<close>: \<open>net.ParseIP\<close>, \<open>ParseCIDR\<close> and \<open>Contains\<close> on 128-bit words.
  \<^item> \<open>Fax_Config\<close>: the sections of \<open>gofaxlib/config.go\<close> that the rest reads, with their defaults.
  \<^item> \<open>Fax_Result\<close>: \<open>gofaxlib/faxresult.go\<close>, the merge of switch events into the result of a call.
  \<^item> \<open>Fax_Job\<close>: \<open>faxjob.go\<close> and \<open>faxjobresult.go\<close>, the job, the classification of results, the result table.
  \<^item> \<open>Fax_Tracker\<close>: \<open>faxtracker.go\<close>, jobs in flight by identifier and by call.
  \<^item> \<open>Fax_Policy\<close>, \<open>Fax_Learning\<close>: \<open>faxpolicy.go\<close>, the resolution of rules, and the learned rules and pair states.
  \<^item> \<open>Fax_Directory\<close>: \<open>tenants.go\<close>, \<open>endpoints.go\<close> and the maps of \<open>server.go\<close>; the gateway access list.
  \<^item> \<open>IP_Sentry\<close>: \<open>ipsentry.go\<close> and \<open>ipsentry_backend.go\<close>, bans and the firewall.
  \<^item> \<open>Fax_Router\<close>: \<open>dialplan.go\<close> and \<open>router.go\<close>.
  \<^item> \<open>Fax_Outbound\<close>: \<open>freeswitch_outbound.go\<close>, one call from origination to its stored result.
  \<^item> \<open>Fax_Queue\<close>, \<open>Fax_Delivery\<close>: \<open>queue.go\<close>, the worker of a job, and its properties across priority groups.
  \<^item> \<open>Fax_Notify\<close>: \<open>notify.go\<close>, notify strings, mails, report rows, the legs of a notification.
  \<^item> \<open>Fax_Inbound\<close>, \<open>Fax_Flow\<close>: \<open>freeswitch_inbound.go\<close>, and the way of a fax through handler, router and queue.
  \<^item> \<open>Gateway_Provision\<close>, \<open>Gateway_Links\<close>: \<open>gateway_provision.go\<close> and \<open>gateway_monitor.go\<close>; the link between a
    gateway and its endpoint.
  \<^item> \<open>Fax_Crypto\<close>: \<open>gofaxlib/aes256.go\<close>, key fitting, CFB and Base64.
  \<^item> \<open>Fax_Reports\<close>: \<open>web_faxresults.go\<close>, the report of all jobs.
  \<^item> \<open>Web_Answer\<close>: the answer of an HTTP handler of either program.
  \<^item> \<open>Web_Base\<close>: the state of the web server, tenant users and both authentication middlewares
    (\<open>web.go\<close>, \<open>tenants.go\<close>).
  \<^item> \<open>Web_Admin\<close>: the handlers of tenants, numbers, endpoints, users, policies and dialplan (\<open>web.go\<close>, \<open>web_list.go\<close>,
    \<open>web_faxpolicy.go\<close>, \<open>web_dialplan.go\<close>).
  \<^item> \<open>Web_Gateways\<close>: the handlers of gateways, the switch and the sentry (\<open>web_gateways.go\<close>, \<open>web_security.go\<close>), the
    metrics of \<open>ipsentry.go\<close> and \<open>ReloadData\<close> of \<open>server.go\<close>.
  \<^item> \<open>Web_Upload\<close>: \<open>handleDocumentUpload\<close> of \<open>web.go\<close> with \<open>tiff.go\<close>.
  \<^item> \<open>Web_Paths\<close>: \<open>loadWebPaths\<close> as a datatype of requests, their dispatch and a step relation.
  \<^item> \<open>Portal_Base\<close>: the tables of the portal (\<open>models.go\<close>), sealed secrets (\<open>crypto.go\<close>), sessions and rate limits
    (\<open>auth.go\<close>), one-time codes (\<open>totp.go\<close>), client addresses and the audit trail (\<open>server.go\<close>).
  \<^item> \<open>Portal_Login\<close>: the guards of \<open>server.go\<close>, signing in (\<open>handlers_auth.go\<close>) and second factors
    (\<open>handlers_totp.go\<close>).
  \<^item> \<open>Portal_Jobs\<close>: \<open>poller.go\<close>, the pushed outcome (\<open>handlers_notify.go\<close>) and the lists of \<open>handlers_user.go\<close>.
  \<^item> \<open>Portal_Inbox\<close>, \<open>Portal_Retention\<close>: \<open>handlers_inbound.go\<close>, received faxes; \<open>retention.go\<close>, their deletion.
  \<^item> \<open>Portal_Send\<close>: \<open>convert.go\<close>, \<open>handlers_convert.go\<close> and \<open>handleSendFax\<close> of \<open>handlers_user.go\<close>.
  \<^item> \<open>Portal_Flow\<close>: a fax from a user of the portal to the queue of the fax server, and its outcome back to the job.

  \<^bold>\<open>How the code is represented.\<close> A struct is a \<open>record\<close>, a string enumeration keeps its strings, Go's \<open>map\<close> is an
  association list with one entry per key, a database table is a list of rows in the order of their creation.
  Operations take the state and return it updated. A pointer that several goroutines share is part of that state.
  An \<open>error\<close> is the left summand of a sum type or \<open>None\<close>; a panic, and a loop that does not come back, is \<open>None\<close> of
  the operation as a whole. An HTTP handler answers a status with a body, and a handler that panics has the status 0.
  Integers of 64 bits are \<open>int\<close> with the wrap-around written out where the code can reach it; durations and times are
  nanoseconds. Failures of database statements, files and commands are arguments, one flag for each statement, so
  that every error path can be taken.

  \<^bold>\<open>What is an argument.\<close> The event socket (a list of timed events or an end of the stream), compiled regular
  expressions, JSON, XML and template syntax, the AES block cipher and random bytes, DNS, image programs, the answers
  of webhooks and SMTP servers, new identifiers, and the clock. For the portal also SHA-256, the sealing of bytes,
  bcrypt, the one-time password library, the converters of documents, and what the database holds to match
  \<open>LIKE\<close>. Where a property relies on one of them it says so in its hypotheses.

  \<^bold>\<open>Interfaces.\<close> \<open>keyed_store\<close> (insert, look up and delete of a map) is interpreted on association lists;
  \<open>step_invariant\<close> (a step relation that keeps a predicate) on the event loops of inbound and outbound calls, the
  result table, the learned rules, the tracker, the queue worker, the sentry, gateway operations, the requests of
  the administration API, and the sign-ins, jobs and inbox of the portal; \<open>merge_step\<close> (a fold of events that only
  moves a result forward) on the two ways a result is filled; \<open>first_wins\<close> (the first element with an opinion
  decides) on the four decisions of a fax policy and on the collapsed outcome of notifications; \<open>fax_sender\<close> (what the queue asks of an outbound call: the identity of the
  job stays, every stored result carries its identifier, no other state of the job changes) on \<open>SendFax\<close>.

  \<^bold>\<open>What the lemmas show.\<close> The properties of outbound calls are in \<open>Fax_Outbound\<close>: consistent answers, which calls
  may be dialled with T.38, and that a failed negotiation switches it off in the variables of later calls, whatever
  \<open>Fax_Learning\<close> learns in between but a success of the number. Those of the worker are in \<open>Fax_Queue\<close> and
  \<open>Fax_Delivery\<close>: a job is worked to its end, leaves the tracker, and follows priorities and bounded delays. \<open>Fax_Flow\<close>
  composes handler, router and worker. \<open>Fax_Learning\<close> and \<open>IP_Sentry\<close> have invariants along arbitrary sequences of
  operations and the equivalence of counting with a window. \<open>Gateway_Provision\<close> and \<open>Gateway_Links\<close> have the soundness
  of names and files, undone failures, and the link to endpoints; \<open>Web_Paths\<close> lifts them to sequences of requests
  and shows that the maps of the router follow the rows of the database. The selection of the recipients of a
  notification, with the legs it stores, is in \<open>Fax_Notify\<close>.
  For the portal: a session needs every factor the account has (\<open>Portal_Login\<close>), a job that has ended stays as it is
  whatever is pushed or polled later (\<open>Portal_Jobs\<close>), a fax is stored once, read only by users of its number and
  deleted when its time is over, not before (\<open>Portal_Inbox\<close>, \<open>Portal_Retention\<close>), a user sends only from a number
  assigned to them (\<open>Portal_Send\<close>), and what they send is routed and comes back as the outcome of their job
  (\<open>Portal_Flow\<close>). Where the code does something else than its comments say, the theorem states what the code does.

  \<^bold>\<open>Termination, bounds and fuel.\<close> The parser of durations has the length of its input as fuel, and
  \<open>duration_groups_fuel\<close> shows that it is enough. The attempts of a type recurse on the number of attempts left,
  priorities and endpoints on their lists, the sweeps of the portal on the rows that are left to delete, event loops
  on the list of timed items (the end of the list is the end of the connection), loading and parsing on their input. Delays are configured below \<open>2^62\<close> nanoseconds in the theorems
  on the worker, so that doubling a delay does not wrap; a larger one makes \<open>rand.Int63n\<close> panic, which the model has.

  \<^bold>\<open>Concurrency.\<close> Goroutines that the code starts for the endpoint types of one job run one after another; operations
  that take a mutex are atomic steps. The tracker keeps interleavings of the attempts of one job as sequences of steps.

  \<^bold>\<open>Not modelled.\<close> Reading the configuration file; opening the database, listeners and log files (\<open>server.go\<close>,
  \<open>db.go\<close>, \<open>log.go\<close>, \<open>eventstream.go\<close>, \<open>xferfaxlog.go\<close>, \<open>appendto.go\<close>: start-up and calls of libraries); the text of
  log messages and error answers; drawing the PDF report and image previews; \<open>tempclean.go\<close> (deleting old files);
  the embedded gateway templates. Of the portal: its configuration, start-up and route table, cookies as bytes, branding,
  the pages that pass a request of an administrator on to the fax server, and the programs that draw and convert
  documents.
\<close>

end
